(* ===== verification/Prelude.thy ===== *)
theory Prelude
  imports Main "HOL-Library.Word"
begin

text \<open>
  Shared vocabulary of the LayerMount development: UTF-16 code units and wide strings as the
  engine's \<^verbatim>\<open>std::wstring\<close>, the string searches of the C++ standard library that the engine calls,
  the splitting of a path at a separator that the path theorems use as their reference, and the
  collections of simplification rules that the component theories extend.
\<close>

unbundle bit_operations_syntax

named_theorems path_simps \<open>unfolding rules of the path text functions\<close>
named_theorems walk_simps \<open>unfolding rules of the layer walks\<close>

section \<open>Machine types\<close>

type_synonym wchar = "16 word"
type_synonym wstring = "wchar list"
type_synonym dword = "32 word"
type_synonym ntstatus = "32 word"
type_synonym uint64 = "64 word"

abbreviation bslash :: wchar where "bslash \<equiv> 92"
abbreviation fslash :: wchar where "fslash \<equiv> 47"
abbreviation wcolon :: wchar where "wcolon \<equiv> 58"
abbreviation wdot :: wchar where "wdot \<equiv> 46"

text \<open>A wide string literal \<^verbatim>\<open>L"..."\<close> of ASCII characters.\<close>

definition wlit :: "string \<Rightarrow> wstring" where
  "wlit s = map of_char s"

lemma wlit_Nil [simp]: "wlit [] = []"
  by (simp add: wlit_def)

lemma wlit_Cons [simp]: "wlit (c # cs) = of_char c # wlit cs"
  by (simp add: wlit_def)

section \<open>Searches of the standard string\<close>

text \<open>\<open>index_of c xs\<close> is the position of the first \<open>c\<close> in \<open>xs\<close>; \<open>None\<close> stands for \<^verbatim>\<open>npos\<close>.\<close>

fun index_of :: "'a \<Rightarrow> 'a list \<Rightarrow> nat option" where
  "index_of c [] = None"
| "index_of c (x # xs) = (if x = c then Some 0 else map_option Suc (index_of c xs))"

text \<open>\<^verbatim>\<open>s.find(c, pos)\<close>.\<close>

definition wfind :: "'a list \<Rightarrow> 'a \<Rightarrow> nat \<Rightarrow> nat option" where
  "wfind xs c pos = map_option ((+) pos) (index_of c (drop pos xs))"

text \<open>\<^verbatim>\<open>s.find_last_of(c)\<close>.\<close>

definition wfind_last :: "'a list \<Rightarrow> 'a \<Rightarrow> nat option" where
  "wfind_last xs c = map_option (\<lambda>i. length xs - Suc i) (index_of c (rev xs))"

text \<open>\<^verbatim>\<open>s.substr(pos, n)\<close> for a position inside the string.\<close>

definition wsubstr :: "'a list \<Rightarrow> nat \<Rightarrow> nat \<Rightarrow> 'a list" where
  "wsubstr xs pos n = take n (drop pos xs)"

text \<open>\<^verbatim>\<open>std::min(s.find(c, pos), s.size())\<close>.\<close>

definition wfind_end :: "'a list \<Rightarrow> 'a \<Rightarrow> nat \<Rightarrow> nat" where
  "wfind_end xs c pos = (case wfind xs c pos of None \<Rightarrow> length xs | Some i \<Rightarrow> i)"

text \<open>\<^verbatim>\<open>s.rfind(prefix, 0) == 0\<close>.\<close>

definition starts_with :: "'a list \<Rightarrow> 'a list \<Rightarrow> bool" where
  "starts_with xs pre \<longleftrightarrow> take (length pre) xs = pre"

text \<open>The part of a string that a NUL-terminated reading sees.\<close>

definition c_str :: "wstring \<Rightarrow> wstring" where
  "c_str s = takeWhile (\<lambda>c. c \<noteq> 0) s"

lemma index_of_None_iff: "index_of c xs = None \<longleftrightarrow> c \<notin> set xs"
  by (induction xs) auto

lemma index_of_SomeD:
  "index_of c xs = Some i \<Longrightarrow> i < length xs \<and> xs ! i = c \<and> c \<notin> set (take i xs)"
  by (induction xs arbitrary: i) (auto split: if_splits)

lemma index_of_append_sep: "c \<notin> set xs \<Longrightarrow> index_of c (xs @ c # ys) = Some (length xs)"
  by (induction xs) auto

lemma wfind_None_iff: "wfind xs c pos = None \<longleftrightarrow> c \<notin> set (drop pos xs)"
  by (simp add: wfind_def index_of_None_iff)

lemma wfind_bounds: "wfind xs c pos = Some i \<Longrightarrow> pos \<le> i \<and> i < length xs"
  by (auto simp: wfind_def dest!: index_of_SomeD)

lemma wfind_end_bounds: "pos \<le> length xs \<Longrightarrow> pos \<le> wfind_end xs c pos \<and> wfind_end xs c pos \<le> length xs"
  by (auto simp: wfind_end_def dest: wfind_bounds split: option.split)

lemma wfind_end_progress:
  assumes "pos \<le> length xs"
  shows "length xs - wfind_end xs c pos < Suc (length xs) - pos"
  using wfind_end_bounds [OF assms, of c] assms by arith

lemma wfind_progress:
  "wfind xs c pos = Some i \<Longrightarrow> length xs - Suc i < length xs - pos"
  using wfind_bounds [of xs c pos i] by arith

lemma starts_with_iff: "starts_with xs pre \<longleftrightarrow> (\<exists>ys. xs = pre @ ys)"
proof
  assume "starts_with xs pre"
  then have "xs = pre @ drop (length pre) xs"
    by (metis append_take_drop_id starts_with_def)
  then show "\<exists>ys. xs = pre @ ys" by blast
qed (auto simp: starts_with_def)

section \<open>Splitting at a separator\<close>

text \<open>
  \<open>split_on c xs\<close> is the reference reading of a path: its segments between separators, empty
  segments included. \<open>join_with c\<close> is its inverse.
\<close>

fun split_on :: "'a \<Rightarrow> 'a list \<Rightarrow> 'a list list" where
  "split_on c [] = [[]]"
| "split_on c (x # xs) =
     (if x = c then [] # split_on c xs
      else case split_on c xs of [] \<Rightarrow> [[x]] | s # ss \<Rightarrow> (x # s) # ss)"

fun join_with :: "'a \<Rightarrow> 'a list list \<Rightarrow> 'a list" where
  "join_with c [] = []"
| "join_with c [s] = s"
| "join_with c (s # t # ss) = s @ c # join_with c (t # ss)"

lemma split_on_nonempty [simp]: "split_on c xs \<noteq> []"
  by (cases xs) (auto split: list.split)

lemma split_on_no_sep: "c \<notin> set xs \<Longrightarrow> split_on c xs = [xs]"
  by (induction xs) auto

lemma split_on_append: "c \<notin> set xs \<Longrightarrow> split_on c (xs @ c # ys) = xs # split_on c ys"
  by (induction xs) auto

lemma split_on_segments: "s \<in> set (split_on c xs) \<Longrightarrow> c \<notin> set s"
  by (induction xs arbitrary: s) (auto split: if_splits list.splits)

lemma join_split: "join_with c (split_on c xs) = xs"
proof (induction xs)
  case (Cons x xs)
  then show ?case
    by (cases "split_on c xs"; cases "tl (split_on c xs)") auto
qed simp

lemma split_join:
  "ss \<noteq> [] \<Longrightarrow> (\<And>s. s \<in> set ss \<Longrightarrow> c \<notin> set s) \<Longrightarrow> split_on c (join_with c ss) = ss"
  by (induction c ss rule: join_with.induct) (auto simp: split_on_no_sep split_on_append)

lemma join_append_sep: "ds \<noteq> [] \<Longrightarrow> ts \<noteq> [] \<Longrightarrow> join_with c (ds @ ts) = join_with c ds @ c # join_with c ts"
proof (induction ds)
  case (Cons d ds)
  then show ?case by (cases ds; cases ts) auto
qed simp

lemma split_on_drop_step:
  assumes "pos \<le> length xs"
  shows "split_on c (drop pos xs) =
    (case wfind xs c pos of
       None \<Rightarrow> [drop pos xs]
     | Some i \<Rightarrow> wsubstr xs pos (i - pos) # split_on c (drop (Suc i) xs))"
proof (cases "wfind xs c pos")
  case None
  then have "c \<notin> set (drop pos xs)" by (simp only: wfind_None_iff simp_thms)
  with None show ?thesis by (simp add: split_on_no_sep)
next
  case (Some i)
  then obtain k where k: "index_of c (drop pos xs) = Some k" and i: "i = pos + k"
    by (auto simp: wfind_def)
  from index_of_SomeD [OF k] have kl: "k < length (drop pos xs)" and kc: "drop pos xs ! k = c"
    and nin: "c \<notin> set (take k (drop pos xs))" by auto
  have "drop pos xs = take k (drop pos xs) @ c # drop (Suc k) (drop pos xs)"
    using id_take_nth_drop [OF kl] kc by simp
  then have "split_on c (drop pos xs) = take k (drop pos xs) # split_on c (drop (Suc k) (drop pos xs))"
    using split_on_append [OF nin] by metis
  then show ?thesis using Some i by (simp add: wsubstr_def add.commute)
qed

end
