(* ===== verification/Handle_Table.thy ===== *)
theory Handle_Table
  imports Prelude
begin

text \<open>
  The typed handle registry of \<^verbatim>\<open>abi/HandleTable.h\<close>: a 64-bit handle packs a 16-bit magic, a 24-bit
  generation and a 24-bit slot index, and a slot's generation moves on every time the slot is
  given back. The mutex makes each call one step of the table. A payload is any type \<open>'p\<close>; the
  flag \<open>mem\<close> of the calls that recycle a slot says whether the free list can grow, the one
  allocation whose failure the code handles.
\<close>

section \<open>Encoding\<close>

definition kSlotBits :: nat where "kSlotBits = 24"
definition kGenerationBits :: nat where "kGenerationBits = 24"

definition kSlotMask :: uint64 where "kSlotMask = 0xFFFFFF"
definition kGenerationMask :: uint64 where "kGenerationMask = 0xFFFFFF"
definition kMagicMask :: uint64 where "kMagicMask = 0xFFFF"
definition kMaxSlot :: dword where "kMaxSlot = 0xFFFFFF"
definition kMaxGeneration :: dword where "kMaxGeneration = 0xFFFFFF"

definition Encode :: "16 word \<Rightarrow> dword \<Rightarrow> dword \<Rightarrow> uint64" where
  "Encode magic generation slot =
     (push_bit (kSlotBits + kGenerationBits) (ucast magic) OR push_bit kSlotBits (ucast generation)) OR ucast slot"

definition DecodeMagic :: "uint64 \<Rightarrow> 16 word" where
  "DecodeMagic v = ucast (drop_bit (kSlotBits + kGenerationBits) v AND kMagicMask)"

definition DecodeGeneration :: "uint64 \<Rightarrow> dword" where
  "DecodeGeneration v = ucast (drop_bit kSlotBits v AND kGenerationMask)"

definition DecodeSlot :: "uint64 \<Rightarrow> dword" where
  "DecodeSlot v = ucast (v AND kSlotMask)"

section \<open>Table state\<close>

record 'p Slot =
  payload :: "'p option"
  generation :: dword
  live :: bool
  reserved :: bool

record 'p HandleTable =
  maxSlot :: dword
  slots :: "'p Slot list"
  freeSlots :: "dword list"

definition fresh_slot :: "'p Slot" where
  "fresh_slot = \<lparr>payload = None, generation = 1, live = False, reserved = False\<rparr>"

definition new_HandleTable :: "dword \<Rightarrow> 'p HandleTable" where
  "new_HandleTable m = \<lparr>maxSlot = min m kMaxSlot, slots = [], freeSlots = []\<rparr>"

definition update_slot :: "'p HandleTable \<Rightarrow> nat \<Rightarrow> ('p Slot \<Rightarrow> 'p Slot) \<Rightarrow> 'p HandleTable" where
  "update_slot t i f = t\<lparr>slots := (slots t)[i := f (slots t ! i)]\<rparr>"

section \<open>Operations\<close>

text \<open>Slot 0 of the result means that the table is full.\<close>

definition TakeSlot :: "'p HandleTable \<Rightarrow> 'p HandleTable \<times> dword" where
  "TakeSlot t =
     (if freeSlots t \<noteq> [] then (t\<lparr>freeSlots := butlast (freeSlots t)\<rparr>, last (freeSlots t))
      else
        let t' = (if slots t = [] then t\<lparr>slots := [fresh_slot]\<rparr> else t);
            nextSlot = length (slots t') in
        if nextSlot > unat (maxSlot t') then (t', 0)
        else (t'\<lparr>slots := slots t' @ [fresh_slot]\<rparr>, of_nat nextSlot))"

definition AllocateShared :: "16 word \<Rightarrow> 'p HandleTable \<Rightarrow> 'p \<Rightarrow> 'p HandleTable \<times> uint64" where
  "AllocateShared Magic t p =
     (let (t', slotIndex) = TakeSlot t in
      if slotIndex = 0 then (t', 0)
      else (update_slot t' (unat slotIndex) (\<lambda>s. s\<lparr>payload := Some p, live := True\<rparr>),
            Encode Magic (generation (slots t' ! unat slotIndex)) slotIndex))"

text \<open>\<open>None\<close> is a null payload.\<close>

definition Allocate :: "16 word \<Rightarrow> 'p HandleTable \<Rightarrow> 'p option \<Rightarrow> 'p HandleTable \<times> uint64" where
  "Allocate Magic t p = (case p of None \<Rightarrow> (t, 0) | Some q \<Rightarrow> AllocateShared Magic t q)"

definition Reserve :: "16 word \<Rightarrow> 'p HandleTable \<Rightarrow> 'p HandleTable \<times> uint64" where
  "Reserve Magic t =
     (let (t', slotIndex) = TakeSlot t in
      if slotIndex = 0 then (t', 0)
      else (update_slot t' (unat slotIndex) (\<lambda>s. s\<lparr>reserved := True\<rparr>),
            Encode Magic (generation (slots t' ! unat slotIndex)) slotIndex))"

text \<open>\<open>FindSlot\<close> gives the index of the slot, or \<open>None\<close> for a null pointer.\<close>

definition FindSlot :: "16 word \<Rightarrow> 'p HandleTable \<Rightarrow> uint64 \<Rightarrow> nat option" where
  "FindSlot Magic t v =
     (if v = 0 \<or> DecodeMagic v \<noteq> Magic then None
      else let i = unat (DecodeSlot v) in
        if i = 0 \<or> i \<ge> length (slots t) then None
        else if generation (slots t ! i) \<noteq> DecodeGeneration v then None
        else Some i)"

definition Recycle :: "bool \<Rightarrow> 'p HandleTable \<Rightarrow> dword \<Rightarrow> 'p HandleTable" where
  "Recycle mem t slotIndex =
     (let i = unat slotIndex in
      if generation (slots t ! i) \<ge> kMaxGeneration
      then update_slot t i (\<lambda>s. s\<lparr>generation := kMaxGeneration\<rparr>)
      else
        let t' = update_slot t i (\<lambda>s. s\<lparr>generation := generation s + 1\<rparr>) in
        if mem then t'\<lparr>freeSlots := freeSlots t' @ [slotIndex]\<rparr>
        else update_slot t' i (\<lambda>s. s\<lparr>generation := kMaxGeneration\<rparr>))"

definition Install :: "16 word \<Rightarrow> 'p HandleTable \<Rightarrow> uint64 \<Rightarrow> 'p option \<Rightarrow> 'p HandleTable \<times> bool" where
  "Install Magic t reservedValue p =
     (case p of
        None \<Rightarrow> (t, False)
      | Some q \<Rightarrow>
          (case FindSlot Magic t reservedValue of
             None \<Rightarrow> (t, False)
           | Some i \<Rightarrow>
               if \<not> reserved (slots t ! i) then (t, False)
               else (update_slot t i (\<lambda>s. s\<lparr>reserved := False, payload := Some q, live := True\<rparr>), True)))"

definition Release :: "16 word \<Rightarrow> bool \<Rightarrow> 'p HandleTable \<Rightarrow> uint64 \<Rightarrow> 'p HandleTable" where
  "Release Magic mem t reservedValue =
     (case FindSlot Magic t reservedValue of
        None \<Rightarrow> t
      | Some i \<Rightarrow>
          if \<not> reserved (slots t ! i) then t
          else Recycle mem (update_slot t i (\<lambda>s. s\<lparr>reserved := False\<rparr>)) (DecodeSlot reservedValue))"

definition Resolve :: "16 word \<Rightarrow> 'p HandleTable \<Rightarrow> uint64 \<Rightarrow> 'p option" where
  "Resolve Magic t v =
     (if v = 0 then None
      else if DecodeMagic v \<noteq> Magic then None
      else let i = unat (DecodeSlot v) in
        if i = 0 \<or> i \<ge> length (slots t) then None
        else if \<not> live (slots t ! i) \<or> generation (slots t ! i) \<noteq> DecodeGeneration v then None
        else payload (slots t ! i))"

definition Free :: "16 word \<Rightarrow> bool \<Rightarrow> 'p HandleTable \<Rightarrow> uint64 \<Rightarrow> 'p HandleTable \<times> 'p option" where
  "Free Magic mem t v =
     (if v = 0 \<or> DecodeMagic v \<noteq> Magic then (t, None)
      else let i = unat (DecodeSlot v) in
        if i = 0 \<or> i \<ge> length (slots t) then (t, None)
        else if \<not> live (slots t ! i) \<or> generation (slots t ! i) \<noteq> DecodeGeneration v then (t, None)
        else (Recycle mem (update_slot t i (\<lambda>s. s\<lparr>payload := None, live := False\<rparr>)) (DecodeSlot v),
              payload (slots t ! i)))"

section \<open>The encoding is lossless\<close>

lemmas encode_defs = Encode_def DecodeMagic_def DecodeGeneration_def DecodeSlot_def
  kSlotBits_def kGenerationBits_def kSlotMask_def kGenerationMask_def kMagicMask_def

lemma mask_constants:
  "(0xFFFFFF :: uint64) = mask 24" "(0xFFFF :: uint64) = mask 16"
  by (simp_all add: mask_eq_exp_minus_1)

lemma bit_small: "bit (w :: dword) n \<Longrightarrow> w \<le> 0xFFFFFF \<Longrightarrow> n < 24"
proof -
  assume b: "bit w n" and "w \<le> 0xFFFFFF"
  then have "unat w < 2 ^ 24" by (simp add: word_le_nat_alt)
  then have t: "take_bit 24 (unat w) = unat w" by (simp add: take_bit_nat_eq_self)
  have "bit (unat w) n" using b by (simp add: bit_unsigned_iff bit_imp_le_length)
  then have "bit (take_bit 24 (unat w)) n" by (simp only: t)
  then show ?thesis by (simp add: bit_take_bit_iff)
qed

lemma DecodeSlot_Encode: "s \<le> kMaxSlot \<Longrightarrow> DecodeSlot (Encode m g s) = s"
  unfolding encode_defs kMaxSlot_def mask_constants
  by (rule bit_word_eqI) (auto simp: bit_simps dest: bit_small)

lemma DecodeGeneration_Encode:
  "g \<le> kMaxGeneration \<Longrightarrow> s \<le> kMaxSlot \<Longrightarrow> DecodeGeneration (Encode m g s) = g"
  unfolding encode_defs kMaxGeneration_def kMaxSlot_def mask_constants
  by (rule bit_word_eqI) (auto simp: bit_simps dest: bit_small)

lemma DecodeMagic_Encode:
  "g \<le> kMaxGeneration \<Longrightarrow> s \<le> kMaxSlot \<Longrightarrow> DecodeMagic (Encode m g s) = m"
  unfolding encode_defs kMaxGeneration_def kMaxSlot_def mask_constants
  by (rule bit_word_eqI) (auto simp: bit_simps dest: bit_small)

lemma Encode_Decode: "Encode (DecodeMagic v) (DecodeGeneration v) (DecodeSlot v) = v"
proof (rule bit_word_eqI)
  fix n assume n: "n < LENGTH(64)"
  then consider "n < 24" | "24 \<le> n" "n < 48" | "48 \<le> n" "n < 64" by fastforce
  then show "bit (Encode (DecodeMagic v) (DecodeGeneration v) (DecodeSlot v)) n = bit v n"
    unfolding encode_defs mask_constants by cases (auto simp: bit_simps)
qed

lemma decode_inject:
  "DecodeMagic v = DecodeMagic w \<Longrightarrow> DecodeGeneration v = DecodeGeneration w \<Longrightarrow>
   DecodeSlot v = DecodeSlot w \<Longrightarrow> v = w"
  by (metis Encode_Decode)

section \<open>The table invariant\<close>

definition slot_ok :: "'p Slot \<Rightarrow> bool" where
  "slot_ok s \<longleftrightarrow> generation s \<le> kMaxGeneration \<and> (live s \<longrightarrow> payload s \<noteq> None \<and> \<not> reserved s)"

definition idle :: "'p Slot \<Rightarrow> bool" where
  "idle s \<longleftrightarrow> \<not> live s \<and> \<not> reserved s"

definition table_inv :: "'p HandleTable \<Rightarrow> bool" where
  "table_inv t \<longleftrightarrow>
     maxSlot t \<le> kMaxSlot \<and> length (slots t) \<le> Suc (unat (maxSlot t)) \<and>
     (\<forall>i < length (slots t). slot_ok (slots t ! i)) \<and>
     (0 < length (slots t) \<longrightarrow> idle (slots t ! 0)) \<and>
     distinct (freeSlots t) \<and>
     (\<forall>s \<in> set (freeSlots t). 0 < unat s \<and> unat s < length (slots t) \<and> idle (slots t ! unat s))"

lemma fresh_slot_simps [simp]:
  "slot_ok fresh_slot" "idle fresh_slot" "\<not> live fresh_slot" "\<not> reserved fresh_slot"
  by (simp_all add: slot_ok_def idle_def fresh_slot_def kMaxGeneration_def)

lemma update_slot_simps [simp]:
  "maxSlot (update_slot t i f) = maxSlot t"
  "freeSlots (update_slot t i f) = freeSlots t"
  "length (slots (update_slot t i f)) = length (slots t)"
  "i < length (slots t) \<Longrightarrow> slots (update_slot t i f) ! i = f (slots t ! i)"
  "i \<noteq> j \<Longrightarrow> slots (update_slot t i f) ! j = slots t ! j"
  by (simp_all add: update_slot_def)

text \<open>What \<open>TakeSlot\<close> gives: an idle slot that is no longer on the free list, and otherwise the same slots.\<close>

lemma TakeSlot_spec:
  assumes "table_inv t" "TakeSlot t = (t', s)" "s \<noteq> 0"
  shows "table_inv t'" "0 < unat s" "unat s < length (slots t')" "idle (slots t' ! unat s)"
    "s \<notin> set (freeSlots t')" "s \<le> kMaxSlot" "set (freeSlots t') \<subseteq> set (freeSlots t)"
    "length (slots t) \<le> length (slots t')"
    "\<And>i. i < length (slots t) \<Longrightarrow> slots t' ! i = slots t ! i"
    "\<And>i. length (slots t) \<le> i \<Longrightarrow> i < length (slots t') \<Longrightarrow> i = unat s \<or> i = 0"
    "unat s < length (slots t) \<Longrightarrow> s \<in> set (freeSlots t)"
proof -
  have pos: "0 < unat s" using assms(3) by (simp add: unat_gt_0)
  show "0 < unat s" by (rule pos)
  have all: "table_inv t' \<and> unat s < length (slots t') \<and> idle (slots t' ! unat s) \<and>
    s \<notin> set (freeSlots t') \<and> s \<le> kMaxSlot \<and> set (freeSlots t') \<subseteq> set (freeSlots t) \<and>
    length (slots t) \<le> length (slots t') \<and>
    (\<forall>i < length (slots t). slots t' ! i = slots t ! i) \<and>
    (\<forall>i. length (slots t) \<le> i \<longrightarrow> i < length (slots t') \<longrightarrow> i = unat s \<or> i = 0) \<and>
    (unat s < length (slots t) \<longrightarrow> s \<in> set (freeSlots t))"
  proof (cases "freeSlots t = []")
    case False
    then have t': "t' = t\<lparr>freeSlots := butlast (freeSlots t)\<rparr>" and s: "s = last (freeSlots t)"
      using assms(2) by (auto simp: TakeSlot_def)
    have mem: "s \<in> set (freeSlots t)" using False s by simp
    have "distinct (butlast (freeSlots t) @ [s])" using False s assms(1) by (simp add: table_inv_def)
    then have notin: "s \<notin> set (butlast (freeSlots t))" and dist: "distinct (butlast (freeSlots t))"
      by simp_all
    have "unat s \<le> unat (maxSlot t)" using assms(1) mem by (fastforce simp: table_inv_def)
    then have "s \<le> kMaxSlot" using assms(1) by (auto simp: table_inv_def word_le_nat_alt)
    then show ?thesis
      using assms(1) mem notin dist t'
      by (auto simp: table_inv_def dest: in_set_butlastD)
  next
    case True
    let ?u = "if slots t = [] then t\<lparr>slots := [fresh_slot]\<rparr> else t"
    let ?n = "length (slots ?u)"
    have le: "?n \<le> unat (maxSlot t)" and s: "s = of_nat ?n" and t': "t' = ?u\<lparr>slots := slots ?u @ [fresh_slot]\<rparr>"
      using assms(2,3) True by (auto simp: TakeSlot_def Let_def split: if_splits)
    have max: "unat (maxSlot t) \<le> 0xFFFFFF" using assms(1) by (simp add: table_inv_def word_le_nat_alt kMaxSlot_def)
    then have us: "unat s = ?n" using le s by (simp add: unat_of_nat)
    have "s \<le> kMaxSlot" using us le max by (simp add: word_le_nat_alt kMaxSlot_def)
    then show ?thesis
      using assms(1) us le t' True
      by (auto simp: table_inv_def nth_append less_Suc_eq split: if_splits)
  qed
  then show "table_inv t'" "unat s < length (slots t')" "idle (slots t' ! unat s)"
    "s \<notin> set (freeSlots t')" "s \<le> kMaxSlot" "set (freeSlots t') \<subseteq> set (freeSlots t)"
    "length (slots t) \<le> length (slots t')"
    "\<And>i. i < length (slots t) \<Longrightarrow> slots t' ! i = slots t ! i"
    "\<And>i. length (slots t) \<le> i \<Longrightarrow> i < length (slots t') \<Longrightarrow> i = unat s \<or> i = 0"
    "unat s < length (slots t) \<Longrightarrow> s \<in> set (freeSlots t)"
    by blast+
qed

lemma TakeSlot_full:
  assumes "table_inv t" "TakeSlot t = (t', 0)"
  shows "table_inv t' \<and> freeSlots t' = freeSlots t \<and> (slots t' = slots t \<or> slots t = [] \<and> slots t' = [fresh_slot])"
proof (cases "freeSlots t = []")
  case False
  then have "(0::dword) \<in> set (freeSlots t)" using assms(2) last_in_set [OF False] by (auto simp: TakeSlot_def)
  then show ?thesis using assms(1) by (auto simp: table_inv_def)
next
  case True
  let ?u = "if slots t = [] then t\<lparr>slots := [fresh_slot]\<rparr> else t"
  have "t' = ?u" 
  proof (cases "length (slots ?u) > unat (maxSlot ?u)")
    case False
    moreover have "unat (maxSlot t) \<le> 0xFFFFFF"
      using assms(1) by (simp add: table_inv_def word_le_nat_alt kMaxSlot_def)
    ultimately have "length (slots ?u) < 2 ^ 32" "length (slots ?u) > 0"
      by (auto split: if_splits)
    then have "(of_nat (length (slots ?u)) :: dword) \<noteq> 0" 
      by (simp add: word_unat_eq_iff unat_of_nat)
    then show ?thesis using assms(2) True False by (simp add: TakeSlot_def Let_def)
  qed (use assms(2) True in \<open>simp add: TakeSlot_def Let_def\<close>)
  then show ?thesis using assms(1) by (auto simp: table_inv_def)
qed

lemma update_slot_inv:
  assumes "table_inv t" "0 < i" "i < length (slots t)" "slot_ok (f (slots t ! i))"
    and "of_nat i \<notin> set (freeSlots t) \<or> idle (f (slots t ! i))"
  shows "table_inv (update_slot t i f)"
proof -
  have "idle (slots (update_slot t i f) ! unat s)" if "s \<in> set (freeSlots t)" for s
    using that assms by (cases "unat s = i") (auto simp: table_inv_def)
  moreover have "slot_ok (slots (update_slot t i f) ! j)" if "j < length (slots t)" for j
    using that assms by (cases "j = i") (auto simp: table_inv_def)
  ultimately show ?thesis using assms by (auto simp: table_inv_def)
qed

lemma generation_step:
  assumes "g < kMaxGeneration"
  shows "g + 1 \<le> kMaxGeneration" "g < g + 1"
proof -
  have u: "unat g < 0xFFFFFF" using assms by (simp add: word_less_nat_alt kMaxGeneration_def)
  then have "unat (g + 1) = unat g + 1" by (simp add: unat_word_ariths)
  with u show "g + 1 \<le> kMaxGeneration" "g < g + 1"
    by (simp_all add: word_le_nat_alt word_less_nat_alt kMaxGeneration_def)
qed

text \<open>
  \<open>Recycle\<close> of an idle slot: the generation never goes back, and only a strictly newer slot
  reaches the free list.
\<close>

lemma Recycle_spec:
  assumes "table_inv t" "0 < unat s" "unat s < length (slots t)" "idle (slots t ! unat s)" "s \<notin> set (freeSlots t)"
  shows "table_inv (Recycle mem t s)" "length (slots (Recycle mem t s)) = length (slots t)"
    "\<And>j. j \<noteq> unat s \<Longrightarrow> slots (Recycle mem t s) ! j = slots t ! j"
    "idle (slots (Recycle mem t s) ! unat s)"
    "generation (slots t ! unat s) < generation (slots (Recycle mem t s) ! unat s) \<or>
     generation (slots (Recycle mem t s) ! unat s) = generation (slots t ! unat s) \<and>
     freeSlots (Recycle mem t s) = freeSlots t"
    "set (freeSlots (Recycle mem t s)) \<subseteq> insert s (set (freeSlots t))"
proof -
  let ?g = "generation (slots t ! unat s)"
  have ok: "slot_ok (slots t ! unat s)" using assms(1,3) by (simp add: table_inv_def)
  have of: "of_nat (unat s) = s" by simp
  have step: "table_inv (update_slot t (unat s) (\<lambda>x. x\<lparr>generation := g\<rparr>))" if "g \<le> kMaxGeneration" for g
    using that assms ok by (intro update_slot_inv) (auto simp: slot_ok_def idle_def)
  have all: "table_inv (Recycle mem t s) \<and> idle (slots (Recycle mem t s) ! unat s) \<and>
    (?g < generation (slots (Recycle mem t s) ! unat s) \<or>
     generation (slots (Recycle mem t s) ! unat s) = ?g \<and> freeSlots (Recycle mem t s) = freeSlots t)"
  proof (cases "?g \<ge> kMaxGeneration")
    case True
    then have "?g = kMaxGeneration" using ok by (simp add: slot_ok_def)
    with True show ?thesis
      using step [of kMaxGeneration] assms by (simp add: Recycle_def Let_def idle_def)
  next
    case False
    then have lt: "?g < kMaxGeneration" by simp
    let ?t1 = "update_slot t (unat s) (\<lambda>x. x\<lparr>generation := generation x + 1\<rparr>)"
    have t1: "table_inv ?t1" 
      using assms ok generation_step(1) [OF lt] by (intro update_slot_inv) (auto simp: slot_ok_def idle_def)
    then have "table_inv (?t1\<lparr>freeSlots := freeSlots ?t1 @ [s]\<rparr>)"
      using assms by (auto simp: table_inv_def idle_def)
    moreover have "table_inv (update_slot ?t1 (unat s) (\<lambda>x. x\<lparr>generation := kMaxGeneration\<rparr>))"
      using assms ok by (intro update_slot_inv [OF t1]) (auto simp: slot_ok_def idle_def)
    ultimately show ?thesis
      using False lt generation_step(2) [OF lt] assms
      by (cases mem) (auto simp: Recycle_def Let_def idle_def)
  qed
  then show "table_inv (Recycle mem t s)" "idle (slots (Recycle mem t s) ! unat s)"
    "?g < generation (slots (Recycle mem t s) ! unat s) \<or>
     generation (slots (Recycle mem t s) ! unat s) = ?g \<and> freeSlots (Recycle mem t s) = freeSlots t"
    by blast+
  show "length (slots (Recycle mem t s)) = length (slots t)"
    "\<And>j. j \<noteq> unat s \<Longrightarrow> slots (Recycle mem t s) ! j = slots t ! j"
    "set (freeSlots (Recycle mem t s)) \<subseteq> insert s (set (freeSlots t))"
    by (auto simp: Recycle_def Let_def)
qed

section \<open>Operations keep the invariant\<close>

lemma take_and_mark:
  assumes "table_inv t" "TakeSlot t = (t', s)" "s \<noteq> 0" "slot_ok (f (slots t' ! unat s))"
  shows "table_inv (update_slot t' (unat s) f)"
  using TakeSlot_spec [OF assms(1-3)] assms(4) by (intro update_slot_inv) auto

lemma AllocateShared_inv: "table_inv t \<Longrightarrow> table_inv (fst (AllocateShared Magic t p))"
proof -
  assume a: "table_inv t"
  obtain t' s where ts: "TakeSlot t = (t', s)" by fastforce
  show ?thesis
  proof (cases "s = 0")
    case True
    then show ?thesis using TakeSlot_full [of t t'] a ts by (simp add: AllocateShared_def)
  next
    case False
    note sp = TakeSlot_spec [OF a ts False]
    have "slot_ok (slots t' ! unat s)" using sp(1,3) by (simp add: table_inv_def)
    then have "table_inv (update_slot t' (unat s) (\<lambda>s. s\<lparr>payload := Some p, live := True\<rparr>))"
      using sp(4) by (intro take_and_mark [OF a ts False]) (simp add: slot_ok_def idle_def)
    then show ?thesis using ts False by (simp add: AllocateShared_def)
  qed
qed

lemma Allocate_inv: "table_inv t \<Longrightarrow> table_inv (fst (Allocate Magic t p))"
  by (cases p) (auto simp: Allocate_def AllocateShared_inv)

lemma Reserve_inv: "table_inv t \<Longrightarrow> table_inv (fst (Reserve Magic t))"
proof -
  assume a: "table_inv t"
  obtain t' s where ts: "TakeSlot t = (t', s)" by fastforce
  show ?thesis
  proof (cases "s = 0")
    case True
    then show ?thesis using TakeSlot_full [of t t'] a ts by (simp add: Reserve_def)
  next
    case False
    note sp = TakeSlot_spec [OF a ts False]
    have "slot_ok (slots t' ! unat s)" using sp(1,3) by (simp add: table_inv_def)
    then have "table_inv (update_slot t' (unat s) (\<lambda>s. s\<lparr>reserved := True\<rparr>))"
      using sp(4) by (intro take_and_mark [OF a ts False]) (simp add: slot_ok_def idle_def)
    then show ?thesis using ts False by (simp add: Reserve_def)
  qed
qed

lemma FindSlot_SomeD:
  "FindSlot Magic t v = Some i \<Longrightarrow>
   i = unat (DecodeSlot v) \<and> 0 < i \<and> i < length (slots t) \<and> generation (slots t ! i) = DecodeGeneration v \<and>
   DecodeMagic v = Magic \<and> v \<noteq> 0"
  by (auto simp: FindSlot_def Let_def split: if_splits)

lemma busy_not_free:
  "table_inv t \<Longrightarrow> live (slots t ! unat s) \<or> reserved (slots t ! unat s) \<Longrightarrow> s \<notin> set (freeSlots t)"
  by (auto simp: table_inv_def idle_def)

lemma Install_inv: "table_inv t \<Longrightarrow> table_inv (fst (Install Magic t v p))"
proof (cases "FindSlot Magic t v")
  case (Some i)
  assume a: "table_inv t"
  from FindSlot_SomeD [OF Some] have i: "i = unat (DecodeSlot v)" "0 < i" "i < length (slots t)" by auto
  have "slot_ok (slots t ! i)" using a i by (simp add: table_inv_def)
  then have "table_inv (update_slot t i (\<lambda>s. s\<lparr>reserved := False, payload := Some q, live := True\<rparr>))"
    if "reserved (slots t ! i)" for q
    using a i that busy_not_free [of t "DecodeSlot v"]
    by (intro update_slot_inv) (auto simp: slot_ok_def)
  then show ?thesis using a Some by (cases p) (auto simp: Install_def)
qed (cases p; simp add: Install_def)

text \<open>A slot that stops being live or reserved is idle before it is recycled.\<close>

lemma clear_and_recycle:
  assumes "table_inv t" "0 < unat s" "unat s < length (slots t)"
    and "live (slots t ! unat s) \<or> reserved (slots t ! unat s)"
    and "\<And>x. generation (f x) = generation x" "\<And>x. idle x \<or> slot_ok x \<Longrightarrow> x = slots t ! unat s \<Longrightarrow> idle (f x)"
  shows "table_inv (update_slot t (unat s) f)" "idle (slots (update_slot t (unat s) f) ! unat s)"
    "s \<notin> set (freeSlots (update_slot t (unat s) f))"
proof -
  have ok: "slot_ok (slots t ! unat s)" using assms(1,3) by (simp add: table_inv_def)
  then have id: "idle (f (slots t ! unat s))" using assms(6) by blast
  then show "table_inv (update_slot t (unat s) f)"
    using assms ok by (intro update_slot_inv) (auto simp: slot_ok_def idle_def)
  show "idle (slots (update_slot t (unat s) f) ! unat s)" using id assms(3) by simp
  show "s \<notin> set (freeSlots (update_slot t (unat s) f))" using busy_not_free [OF assms(1,4)] by simp
qed

lemma Release_inv: "table_inv t \<Longrightarrow> table_inv (Release Magic mem t v)"
proof (cases "FindSlot Magic t v")
  case (Some i)
  assume a: "table_inv t"
  from FindSlot_SomeD [OF Some] have i: "i = unat (DecodeSlot v)" "0 < i" "i < length (slots t)" by auto
  show ?thesis
  proof (cases "reserved (slots t ! i)")
    case True
    note c = clear_and_recycle [where f = "\<lambda>s. s\<lparr>reserved := False\<rparr>" and s = "DecodeSlot v" and t = t]
    have "table_inv (Recycle mem (update_slot t i (\<lambda>s. s\<lparr>reserved := False\<rparr>)) (DecodeSlot v))"
      using a i True by (intro Recycle_spec(1); (simp; fail)?) (use c in \<open>auto simp: slot_ok_def idle_def\<close>)
    then show ?thesis using Some True by (simp add: Release_def)
  qed (use a Some in \<open>simp add: Release_def\<close>)
qed (simp add: Release_def)

lemma Free_live:
  "snd (Free Magic mem t v) = Some p \<Longrightarrow>
   v \<noteq> 0 \<and> DecodeMagic v = Magic \<and> 0 < unat (DecodeSlot v) \<and> unat (DecodeSlot v) < length (slots t) \<and>
   live (slots t ! unat (DecodeSlot v)) \<and> generation (slots t ! unat (DecodeSlot v)) = DecodeGeneration v \<and>
   payload (slots t ! unat (DecodeSlot v)) = Some p"
  by (auto simp: Free_def Let_def split: if_splits)

lemma Free_result: "snd (Free Magic mem t v) = Resolve Magic t v"
  by (auto simp: Free_def Resolve_def Let_def)

lemma live_payload:
  "table_inv t \<Longrightarrow> i < length (slots t) \<Longrightarrow> live (slots t ! i) \<Longrightarrow> \<exists>p. payload (slots t ! i) = Some p"
  by (auto simp: table_inv_def slot_ok_def)

lemma Free_none: "table_inv t \<Longrightarrow> Resolve Magic t v = None \<Longrightarrow> fst (Free Magic mem t v) = t"
  using live_payload [of t "unat (DecodeSlot v)"]
  by (auto simp: Free_def Resolve_def Let_def split: if_splits)

lemma Free_some:
  assumes "table_inv t" "Resolve Magic t v = Some p"
  shows "fst (Free Magic mem t v) =
      Recycle mem (update_slot t (unat (DecodeSlot v)) (\<lambda>s. s\<lparr>payload := None, live := False\<rparr>)) (DecodeSlot v)"
    and "table_inv (update_slot t (unat (DecodeSlot v)) (\<lambda>s. s\<lparr>payload := None, live := False\<rparr>))"
    and "idle (slots (update_slot t (unat (DecodeSlot v)) (\<lambda>s. s\<lparr>payload := None, live := False\<rparr>)) ! unat (DecodeSlot v))"
    and "DecodeSlot v \<notin> set (freeSlots t)"
proof -
  from assms(2) have l: "snd (Free Magic True t v) = Some p" by (simp only: Free_result)
  note f = Free_live [OF l]
  show "fst (Free Magic mem t v) =
      Recycle mem (update_slot t (unat (DecodeSlot v)) (\<lambda>s. s\<lparr>payload := None, live := False\<rparr>)) (DecodeSlot v)"
    using f by (auto simp: Free_def Let_def)
  note c = clear_and_recycle [where f = "\<lambda>s. s\<lparr>payload := None, live := False\<rparr>" and s = "DecodeSlot v" and t = t]
  have ok: "slot_ok (slots t ! unat (DecodeSlot v))" using assms(1) f by (simp add: table_inv_def)
  show "table_inv (update_slot t (unat (DecodeSlot v)) (\<lambda>s. s\<lparr>payload := None, live := False\<rparr>))"
    using f ok assms(1) by (intro c) (auto simp: idle_def slot_ok_def)
  show "idle (slots (update_slot t (unat (DecodeSlot v)) (\<lambda>s. s\<lparr>payload := None, live := False\<rparr>)) ! unat (DecodeSlot v))"
    using f ok assms(1) by (intro c) (auto simp: idle_def slot_ok_def)
  show "DecodeSlot v \<notin> set (freeSlots t)" using f busy_not_free [OF assms(1)] by blast
qed

lemma Free_inv: "table_inv t \<Longrightarrow> table_inv (fst (Free Magic mem t v))"
proof (cases "Resolve Magic t v")
  case (Some p)
  assume a: "table_inv t"
  from Some have "snd (Free Magic True t v) = Some p" by (simp only: Free_result)
  note f = Free_live [OF this]
  show ?thesis unfolding Free_some(1) [OF a Some]
    using Free_some(2-4) [OF a Some] f by (intro Recycle_spec(1)) auto
qed (simp add: Free_none)

section \<open>The table as a map from handles to payloads\<close>

lemma Resolve_slot:
  "Resolve Magic t v =
     (if v \<noteq> 0 \<and> DecodeMagic v = Magic \<and> 0 < unat (DecodeSlot v) \<and> unat (DecodeSlot v) < length (slots t) \<and>
         live (slots t ! unat (DecodeSlot v)) \<and> generation (slots t ! unat (DecodeSlot v)) = DecodeGeneration v
      then payload (slots t ! unat (DecodeSlot v)) else None)"
  by (auto simp: Resolve_def Let_def)

lemma TakeSlot_Resolve:
  assumes "table_inv t" "TakeSlot t = (u, s)" "s \<noteq> 0" "unat (DecodeSlot v) \<noteq> unat s"
  shows "Resolve Magic u v = Resolve Magic t v"
proof (cases "unat (DecodeSlot v) < length (slots t)")
  case True
  then show ?thesis
    using TakeSlot_spec(8) [OF assms(1-3)] TakeSlot_spec(9) [OF assms(1-3) True] by (simp add: Resolve_slot)
next
  case False
  then show ?thesis
    using TakeSlot_spec(10) [OF assms(1-3), of "unat (DecodeSlot v)"] assms(4) by (auto simp: Resolve_slot)
qed

lemma AllocateShared_spec:
  assumes "table_inv t" "AllocateShared Magic t p = (t', h)" "h \<noteq> 0"
  shows "Resolve Magic t h = None" "Resolve Magic t' = (Resolve Magic t)(h \<mapsto> p)"
proof -
  obtain u s where ts: "TakeSlot t = (u, s)" by fastforce
  have s0: "s \<noteq> 0" using assms(2,3) ts by (auto simp: AllocateShared_def)
  note sp = TakeSlot_spec [OF assms(1) ts s0]
  let ?i = "unat s" and ?g = "generation (slots u ! unat s)"
  have t': "t' = update_slot u ?i (\<lambda>s. s\<lparr>payload := Some p, live := True\<rparr>)" and h: "h = Encode Magic ?g s"
    using assms(2) ts s0 by (auto simp: AllocateShared_def)
  have g: "?g \<le> kMaxGeneration" using sp(1,3) by (simp add: table_inv_def slot_ok_def)
  have dec: "DecodeSlot h = s" "DecodeGeneration h = ?g" "DecodeMagic h = Magic"
    using g sp(6) by (simp_all add: h DecodeSlot_Encode DecodeGeneration_Encode DecodeMagic_Encode)
  have dead: "\<not> live (slots t ! ?i)" if "?i < length (slots t)"
    using sp(4) sp(9) [OF that] by (simp add: idle_def)
  show fresh: "Resolve Magic t h = None" using dead by (auto simp: Resolve_slot dec)
  have "Resolve Magic t' v = ((Resolve Magic t)(h \<mapsto> p)) v" for v
  proof (cases "v = h")
    case True
    then show ?thesis using assms(3) dec sp(2,3) t' by (simp add: Resolve_slot)
  next
    case False
    show ?thesis
    proof (cases "DecodeSlot v = s")
      case True
      have ng: "DecodeMagic v \<noteq> Magic \<or> DecodeGeneration v \<noteq> ?g"
        using False True dec decode_inject [of v h] by auto
      then have "Resolve Magic t' v = None" using True t' sp(3) by (auto simp: Resolve_slot)
      moreover have "Resolve Magic t v = None" using True dead by (auto simp: Resolve_slot)
      ultimately show ?thesis using False by simp
    next
      case neq: False
      then have j: "unat (DecodeSlot v) \<noteq> ?i" by (simp add: word_unat_eq_iff)
      have "Resolve Magic u v = Resolve Magic t v"
        by (rule TakeSlot_Resolve [OF assms(1) ts s0 j])
      moreover have "Resolve Magic t' v = Resolve Magic u v"
        using j by (simp add: t' Resolve_slot)
      ultimately show ?thesis using False by simp
    qed
  qed
  then show "Resolve Magic t' = (Resolve Magic t)(h \<mapsto> p)" by (rule ext)
qed

text \<open>A reserved slot binds nothing; installing it binds exactly the reserved value.\<close>

lemma Reserve_spec:
  assumes "table_inv t" "Reserve Magic t = (t', h)" "h \<noteq> 0"
  shows "Resolve Magic t' = Resolve Magic t \<and> Resolve Magic t' h = None \<and> snd (Install Magic t' h (Some p)) \<and>
    Resolve Magic (fst (Install Magic t' h (Some p))) = (Resolve Magic t')(h \<mapsto> p)"
proof -
  obtain u s where ts: "TakeSlot t = (u, s)" by fastforce
  have s0: "s \<noteq> 0" using assms(2,3) ts by (auto simp: Reserve_def)
  note sp = TakeSlot_spec [OF assms(1) ts s0]
  let ?i = "unat s" and ?g = "generation (slots u ! unat s)"
  have t': "t' = update_slot u ?i (\<lambda>s. s\<lparr>reserved := True\<rparr>)" and h: "h = Encode Magic ?g s"
    using assms(2) ts s0 by (auto simp: Reserve_def)
  have g: "?g \<le> kMaxGeneration" using sp(1,3) by (simp add: table_inv_def slot_ok_def)
  have dec: "DecodeSlot h = s" "DecodeGeneration h = ?g" "DecodeMagic h = Magic"
    using g sp(6) by (simp_all add: h DecodeSlot_Encode DecodeGeneration_Encode DecodeMagic_Encode)
  have dead': "\<not> live (slots t' ! ?i)" using sp(3,4) by (simp add: t' idle_def)
  have dead: "\<not> live (slots t ! ?i)" if "?i < length (slots t)"
    using sp(4) sp(9) [OF that] by (simp add: idle_def)
  have keep: "Resolve Magic t' v = Resolve Magic t v" for v
  proof (cases "unat (DecodeSlot v) = ?i")
    case True
    then show ?thesis using dead dead' by (auto simp: Resolve_slot)
  next
    case False
    then have "Resolve Magic t' v = Resolve Magic u v" by (simp add: t' Resolve_slot)
    then show ?thesis using TakeSlot_Resolve [OF assms(1) ts s0 False] by simp
  qed
  have find: "FindSlot Magic t' h = Some ?i"
    using assms(3) dec sp(2,3) by (simp add: FindSlot_def Let_def t')
  have inst: "Install Magic t' h (Some p) =
      (update_slot t' ?i (\<lambda>s. s\<lparr>reserved := False, payload := Some p, live := True\<rparr>), True)"
    using find sp(3) by (simp add: Install_def t')
  have "Resolve Magic (fst (Install Magic t' h (Some p))) v = ((Resolve Magic t')(h \<mapsto> p)) v" for v
  proof (cases "v = h")
    case True
    then show ?thesis unfolding inst fst_conv using assms(3) dec sp(2,3) by (simp add: Resolve_slot t')
  next
    case False
    show ?thesis
    proof (cases "unat (DecodeSlot v) = ?i")
      case True
      then have "DecodeSlot v = s" by (simp add: word_unat_eq_iff)
      then have "DecodeMagic v \<noteq> Magic \<or> DecodeGeneration v \<noteq> ?g"
        using False dec decode_inject [of v h] by auto
      then show ?thesis unfolding inst fst_conv using True dead' False sp(3) by (auto simp: Resolve_slot t')
    next
      case other: False
      then show ?thesis unfolding inst fst_conv using False by (simp add: Resolve_slot)
    qed
  qed
  moreover have "Resolve Magic t' h = None" using dec dead' by (simp add: Resolve_slot)
  ultimately show ?thesis using keep by (auto simp: inst)
qed

lemma Free_spec:
  assumes "table_inv t"
  shows "Resolve Magic (fst (Free Magic mem t h)) = (Resolve Magic t)(h := None)"
proof (cases "Resolve Magic t h")
  case None
  then show ?thesis using Free_none [OF assms None] by (simp add: fun_upd_idem)
next
  case (Some p)
  let ?s = "DecodeSlot h"
  let ?u = "update_slot t (unat ?s) (\<lambda>s. s\<lparr>payload := None, live := False\<rparr>)"
  from Some have "snd (Free Magic True t h) = Some p" by (simp only: Free_result)
  note f = Free_live [OF this]
  note r = Recycle_spec [where mem = mem, OF Free_some(2) [OF assms Some], of ?s]
  have pre: "0 < unat ?s" "unat ?s < length (slots ?u)" "idle (slots ?u ! unat ?s)" "?s \<notin> set (freeSlots ?u)"
    using f Free_some(3,4) [OF assms Some] by auto
  have "Resolve Magic (Recycle mem ?u ?s) v = ((Resolve Magic t)(h := None)) v" for v
  proof (cases "DecodeSlot v = ?s")
    case True
    then have "Resolve Magic (Recycle mem ?u ?s) v = None"
      using r(4) [OF pre] by (auto simp: Resolve_slot idle_def)
    moreover have "v = h \<or> Resolve Magic t v = None"
      using f True decode_inject [of v h] by (auto simp: Resolve_slot)
    ultimately show ?thesis by auto
  next
    case False
    then have "unat (DecodeSlot v) \<noteq> unat ?s" by (simp add: word_unat_eq_iff)
    then have "slots (Recycle mem ?u ?s) ! unat (DecodeSlot v) = slots t ! unat (DecodeSlot v)"
      using r(3) [OF pre, of "unat (DecodeSlot v)"] by simp
    then show ?thesis using False r(2) [OF pre] by (auto simp: Resolve_slot)
  qed
  then show ?thesis unfolding Free_some(1) [OF assms Some] by (intro ext)
qed

text \<open>
  What the C ABI relies on: the registry is a partial map from handle values to payloads. An
  allocation adds one binding at a value that was not bound, a free removes the binding of its
  argument and returns it.
\<close>

locale handle_registry =
  fixes resolve :: "'t \<Rightarrow> 'h \<Rightarrow> 'p option"
    and alloc :: "'t \<Rightarrow> 'p \<Rightarrow> 't \<times> 'h"
    and free :: "'t \<Rightarrow> 'h \<Rightarrow> 't \<times> 'p option"
    and null :: 'h
    and invar :: "'t \<Rightarrow> bool"
  assumes alloc_fresh: "invar t \<Longrightarrow> alloc t p = (t', h) \<Longrightarrow> h \<noteq> null \<Longrightarrow> resolve t h = None"
    and alloc_binds: "invar t \<Longrightarrow> alloc t p = (t', h) \<Longrightarrow> h \<noteq> null \<Longrightarrow> resolve t' = (resolve t)(h \<mapsto> p)"
    and free_result: "invar t \<Longrightarrow> snd (free t h) = resolve t h"
    and free_unbinds: "invar t \<Longrightarrow> resolve (fst (free t h)) = (resolve t)(h := None)"
    and invar_alloc: "invar t \<Longrightarrow> invar (fst (alloc t p))"
    and invar_free: "invar t \<Longrightarrow> invar (fst (free t h))"
begin

lemma double_free: "invar t \<Longrightarrow> snd (free (fst (free t h)) h) = None"
  by (simp add: free_result free_unbinds invar_free)

lemma alloc_then_free:
  assumes "invar t" "alloc t p = (t', h)" "h \<noteq> null"
  shows "snd (free t' h) = Some p \<and> resolve (fst (free t' h)) = resolve t"
proof -
  have i: "invar t'" using invar_alloc [OF assms(1), of p] assms(2) by simp
  have "(resolve t)(h \<mapsto> p, h := None) = resolve t"
    using alloc_fresh [OF assms] by (simp add: fun_upd_idem)
  then show ?thesis using i alloc_binds [OF assms] by (simp add: free_result free_unbinds)
qed

lemma alloc_keeps:
  assumes "invar t" "alloc t p = (t', h)" "h \<noteq> null" "resolve t k = Some q"
  shows "k \<noteq> h \<and> resolve t' k = Some q"
  using assms alloc_fresh [OF assms(1-3)] alloc_binds [OF assms(1-3)] by auto

end

interpretation handles: handle_registry "Resolve Magic" "AllocateShared Magic" "Free Magic mem" 0 table_inv
  for Magic :: "16 word" and mem :: bool
proof (unfold_locales, goal_cases)
  case (1 t p t' h)
  then show ?case by (rule AllocateShared_spec(1))
next
  case (2 t p t' h)
  then show ?case by (rule AllocateShared_spec(2))
next
  case (3 t h)
  show ?case by (rule Free_result)
next
  case (4 t h)
  then show ?case by (rule Free_spec)
next
  case (5 t p)
  then show ?case by (rule AllocateShared_inv)
next
  case (6 t h)
  then show ?case by (rule Free_inv)
qed

section \<open>Stale handles stay stale\<close>

text \<open>One call of the table's interface.\<close>

datatype 'p handle_op =
    HAllocate "'p option"
  | HReserve
  | HInstall uint64 "'p option"
  | HRelease bool uint64
  | HFree bool uint64

fun handle_step :: "16 word \<Rightarrow> 'p HandleTable \<Rightarrow> 'p handle_op \<Rightarrow> 'p HandleTable" where
  "handle_step Magic t (HAllocate p) = fst (Allocate Magic t p)"
| "handle_step Magic t HReserve = fst (Reserve Magic t)"
| "handle_step Magic t (HInstall v p) = fst (Install Magic t v p)"
| "handle_step Magic t (HRelease mem v) = Release Magic mem t v"
| "handle_step Magic t (HFree mem v) = fst (Free Magic mem t v)"

definition handle_run :: "16 word \<Rightarrow> 'p HandleTable \<Rightarrow> 'p handle_op list \<Rightarrow> 'p HandleTable" where
  "handle_run Magic = foldl (handle_step Magic)"

text \<open>
  A value is stale once its slot has moved past its generation, or has retired at it: the slot
  is idle and can no longer be taken.
\<close>

definition stale :: "'p HandleTable \<Rightarrow> uint64 \<Rightarrow> bool" where
  "stale t v \<longleftrightarrow>
     (let i = unat (DecodeSlot v) in
      0 < i \<and> i < length (slots t) \<and>
      (DecodeGeneration v < generation (slots t ! i) \<or>
       DecodeGeneration v = generation (slots t ! i) \<and> idle (slots t ! i) \<and> DecodeSlot v \<notin> set (freeSlots t)))"

lemma handle_step_inv: "table_inv t \<Longrightarrow> table_inv (handle_step Magic t op)"
  by (cases op) (simp_all add: Allocate_inv Reserve_inv Install_inv Release_inv Free_inv)

lemma handle_run_inv: "table_inv t \<Longrightarrow> table_inv (handle_run Magic t ops)"
  by (induction ops arbitrary: t) (simp_all add: handle_run_def handle_step_inv)

lemma new_HandleTable_inv: "table_inv (new_HandleTable m)"
  by (simp add: new_HandleTable_def table_inv_def)

lemma stale_unresolvable: "stale t v \<Longrightarrow> Resolve Magic t v = None"
  by (auto simp: stale_def Let_def Resolve_slot idle_def)

lemma TakeSlot_stale:
  assumes "table_inv t" "TakeSlot t = (t', s)" "stale t v"
  shows "stale t' v \<and> (s \<noteq> 0 \<longrightarrow> DecodeSlot v = s \<longrightarrow> DecodeGeneration v < generation (slots t' ! unat s))"
proof (cases "s = 0")
  case True
  then show ?thesis using TakeSlot_full [OF assms(1)] assms by (auto simp: stale_def Let_def)
next
  case False
  note sp = TakeSlot_spec [OF assms(1,2) False]
  have i: "unat (DecodeSlot v) < length (slots t)" using assms(3) by (simp add: stale_def Let_def)
  show ?thesis
    using assms(3) sp(7,8,11) sp(9) [OF i] i by (auto simp: stale_def Let_def)
qed

text \<open>An update that keeps the generation leaves a value stale, unless it revives the slot at that generation.\<close>

lemma update_slot_stale:
  assumes "stale t v" "i < length (slots t)" "\<And>x. generation (f x) = generation x"
    and "unat (DecodeSlot v) = i \<Longrightarrow> DecodeGeneration v < generation (slots t ! i) \<or> idle (f (slots t ! i))"
  shows "stale (update_slot t i f) v"
  using assms by (cases "unat (DecodeSlot v) = i") (auto simp: stale_def Let_def)

lemma Recycle_stale:
  assumes "table_inv t" "0 < unat s" "unat s < length (slots t)" "idle (slots t ! unat s)" "s \<notin> set (freeSlots t)"
    and "stale t v \<or> DecodeSlot v = s \<and> DecodeGeneration v = generation (slots t ! unat s)"
  shows "stale (Recycle mem t s) v"
proof (cases "DecodeSlot v = s")
  case True
  then show ?thesis using Recycle_spec(2,4,5) [OF assms(1-5), of mem] assms
    by (auto simp: stale_def Let_def)
next
  case False
  then have "unat (DecodeSlot v) \<noteq> unat s" by (simp add: word_unat_eq_iff)
  then show ?thesis
    using Recycle_spec(2,6) [OF assms(1-5), of mem] Recycle_spec(3) [OF assms(1-5), of "unat (DecodeSlot v)" mem]
      assms(6) False
    by (auto simp: stale_def Let_def)
qed

lemma AllocateShared_stale: "table_inv t \<Longrightarrow> stale t v \<Longrightarrow> stale (fst (AllocateShared Magic t p)) v"
proof -
  assume a: "table_inv t" "stale t v"
  obtain u s where ts: "TakeSlot t = (u, s)" by fastforce
  note st = TakeSlot_stale [OF a(1) ts a(2)]
  show ?thesis
  proof (cases "s = 0")
    case False
    then show ?thesis using st TakeSlot_spec(3) [OF a(1) ts False] ts
      by (auto simp: AllocateShared_def word_unat_eq_iff intro!: update_slot_stale)
  qed (use st ts in \<open>simp add: AllocateShared_def\<close>)
qed

lemma Reserve_stale: "table_inv t \<Longrightarrow> stale t v \<Longrightarrow> stale (fst (Reserve Magic t)) v"
proof -
  assume a: "table_inv t" "stale t v"
  obtain u s where ts: "TakeSlot t = (u, s)" by fastforce
  note st = TakeSlot_stale [OF a(1) ts a(2)]
  show ?thesis
  proof (cases "s = 0")
    case False
    then show ?thesis using st TakeSlot_spec(3) [OF a(1) ts False] ts
      by (auto simp: Reserve_def word_unat_eq_iff intro!: update_slot_stale)
  qed (use st ts in \<open>simp add: Reserve_def\<close>)
qed

lemma Install_stale: "stale t v \<Longrightarrow> stale (fst (Install Magic t w p)) v"
proof (cases "FindSlot Magic t w")
  case (Some i)
  assume a: "stale t v"
  note f = FindSlot_SomeD [OF Some]
  have "DecodeGeneration v < generation (slots t ! i)" if "unat (DecodeSlot v) = i" "reserved (slots t ! i)"
    using a that by (auto simp: stale_def Let_def idle_def)
  then show ?thesis using a f Some by (cases p) (auto simp: Install_def intro!: update_slot_stale)
qed (cases p; simp add: Install_def)

lemma Release_stale: "table_inv t \<Longrightarrow> stale t v \<Longrightarrow> stale (Release Magic mem t w) v"
proof (cases "FindSlot Magic t w")
  case (Some i)
  assume a: "table_inv t" "stale t v"
  from FindSlot_SomeD [OF Some] have i: "i = unat (DecodeSlot w)" "0 < i" "i < length (slots t)" by auto
  let ?u = "update_slot t i (\<lambda>s. s\<lparr>reserved := False\<rparr>)"
  show ?thesis
  proof (cases "reserved (slots t ! i)")
    case True
    note c = clear_and_recycle [where f = "\<lambda>s. s\<lparr>reserved := False\<rparr>" and s = "DecodeSlot w" and t = t]
    have ok: "slot_ok (slots t ! i)" using a i by (simp add: table_inv_def)
    then have pre: "table_inv ?u" "idle (slots ?u ! unat (DecodeSlot w))" "DecodeSlot w \<notin> set (freeSlots ?u)"
      using c a i True by (auto simp: slot_ok_def idle_def)
    have "stale ?u v" using a i True ok
      by (intro update_slot_stale) (auto simp: idle_def stale_def slot_ok_def Let_def)
    then have "stale (Recycle mem ?u (DecodeSlot w)) v"
      using i pre by (intro Recycle_stale) auto
    then show ?thesis using Some True by (simp add: Release_def)
  qed (use a Some in \<open>simp add: Release_def\<close>)
qed (simp add: Release_def)

lemma Free_stale:
  assumes "table_inv t" "stale t v \<or> v = w \<and> Resolve Magic t w \<noteq> None"
  shows "stale (fst (Free Magic mem t w)) v"
proof (cases "Resolve Magic t w")
  case None
  then show ?thesis using assms Free_none [OF assms(1)] by simp
next
  case (Some p)
  let ?u = "update_slot t (unat (DecodeSlot w)) (\<lambda>s. s\<lparr>payload := None, live := False\<rparr>)"
  from Some have "snd (Free Magic True t w) = Some p" by (simp only: Free_result)
  note f = Free_live [OF this]
  note fs = Free_some [OF assms(1) Some]
  have "stale ?u v \<or> DecodeSlot v = DecodeSlot w \<and> DecodeGeneration v = generation (slots ?u ! unat (DecodeSlot w))"
  proof (cases "v = w")
    case True
    then show ?thesis using f by simp
  next
    case False
    then have s: "stale t v" using assms(2) by simp
    then have "stale ?u v" using f fs(3) by (intro update_slot_stale) auto
    then show ?thesis ..
  qed
  then have "stale (Recycle mem ?u (DecodeSlot w)) v"
    using f fs by (intro Recycle_stale) auto
  then show ?thesis using fs(1) by simp
qed

lemma handle_step_stale: "table_inv t \<Longrightarrow> stale t v \<Longrightarrow> stale (handle_step Magic t op) v"
  by (cases op) (auto simp: Allocate_def AllocateShared_stale Reserve_stale Install_stale Release_stale Free_stale
      split: option.splits)

lemma handle_run_stale: "table_inv t \<Longrightarrow> stale t v \<Longrightarrow> stale (handle_run Magic t ops) v"
  by (induction ops arbitrary: t) (simp_all add: handle_run_def handle_step_stale handle_step_inv)

section \<open>Properties\<close>

text \<open>
  C23: For every table, whatever calls brought it to its state, the handle a successful allocation
  returns was not bound before, resolves to the payload it was allocated for, and leaves every
  other handle resolving as it did; freeing it gives that payload back once and restores the
  bindings, and a second free gives nothing.
\<close>

theorem handle_alloc_free:
  assumes "AllocateShared Magic (handle_run Magic (new_HandleTable m) ops) p = (t', h)" "h \<noteq> 0"
  shows "Resolve Magic t' = (Resolve Magic (handle_run Magic (new_HandleTable m) ops))(h \<mapsto> p) \<and>
     Resolve Magic (handle_run Magic (new_HandleTable m) ops) h = None \<and>
     snd (Free Magic mem t' h) = Some p \<and>
     Resolve Magic (fst (Free Magic mem t' h)) = Resolve Magic (handle_run Magic (new_HandleTable m) ops) \<and>
     snd (Free Magic mem' (fst (Free Magic mem t' h)) h) = None"
proof -
  have i: "table_inv (handle_run Magic (new_HandleTable m) ops)"
    by (rule handle_run_inv [OF new_HandleTable_inv])
  have i': "table_inv t'" using handles.invar_alloc [OF i, of Magic p] assms(1) by simp
  show ?thesis
    using handles.alloc_binds [OF i assms] handles.alloc_fresh [OF i assms] handles.alloc_then_free [OF i assms]
      handles.free_unbinds [OF i', of Magic mem h] handles.free_result [OF handles.invar_free [OF i'], of Magic mem' Magic mem h h]
    by simp
qed

theorem handle_alloc_free_witness:
  "Resolve 0x4D54 (fst (AllocateShared 0x4D54 (handle_run 0x4D54 (new_HandleTable 4) [HAllocate (Some ''x''), HReserve]) ''y'')) 0x4D54000001000003
     = Some ''y''"
proof -
  have "AllocateShared 0x4D54 (handle_run 0x4D54 (new_HandleTable 4) [HAllocate (Some ''x''), HReserve]) ''y''
     = (fst (AllocateShared 0x4D54 (handle_run 0x4D54 (new_HandleTable 4) [HAllocate (Some ''x''), HReserve]) ''y''), 0x4D54000001000003)"
    by code_simp
  from handle_alloc_free [OF this] show ?thesis by simp
qed

text \<open>
  C22: A handle that was freed never resolves again, whatever sequence of allocations, reservations,
  installs, releases and frees follows, also when the slot is reused, when its generation has
  reached the maximum, and when the free list could not grow.
\<close>

theorem freed_handle_stays_dead:
  assumes "Resolve Magic (handle_run Magic (new_HandleTable m) ops) h \<noteq> None"
  shows "Resolve Magic (handle_run Magic (new_HandleTable m) (ops @ HFree mem h # later)) h = None"
proof -
  let ?t = "handle_run Magic (new_HandleTable m) ops"
  have i: "table_inv ?t" by (rule handle_run_inv [OF new_HandleTable_inv])
  have "stale (fst (Free Magic mem ?t h)) h" using Free_stale [OF i] assms by blast
  then have "stale (handle_run Magic (fst (Free Magic mem ?t h)) later) h"
    by (rule handle_run_stale [OF Free_inv [OF i]])
  then show ?thesis by (simp add: stale_unresolvable handle_run_def)
qed

theorem freed_handle_stays_dead_witness:
  "Resolve 7 (handle_run 7 (new_HandleTable 4)
     ([HAllocate (Some ''x'')] @ HFree True 0x0007000001000001 # [HAllocate (Some ''y''), HReserve])) 0x0007000001000001 = None"
proof (rule freed_handle_stays_dead)
  show "Resolve 7 (handle_run 7 (new_HandleTable 4) [HAllocate (Some ''x'')]) 0x0007000001000001 \<noteq> None"
    by code_simp
qed

text \<open>
  A reservation does not resolve until it is installed: \<open>Reserve\<close> leaves every binding of the
  table as it was, and installing a payload in the reserved value succeeds and adds exactly that
  binding, so publishing a reserved handle cannot fail.
\<close>

theorem reserve_install:
  assumes "Reserve Magic (handle_run Magic (new_HandleTable m) ops) = (t', h)" "h \<noteq> 0"
  shows "Resolve Magic t' = Resolve Magic (handle_run Magic (new_HandleTable m) ops) \<and> Resolve Magic t' h = None \<and>
    snd (Install Magic t' h (Some p)) \<and>
    Resolve Magic (fst (Install Magic t' h (Some p))) = (Resolve Magic t')(h \<mapsto> p)"
  by (rule Reserve_spec [OF handle_run_inv [OF new_HandleTable_inv] assms])

theorem reserve_install_witness:
  "snd (Install 9 (fst (Reserve 9 (handle_run 9 (new_HandleTable 4) [HAllocate (Some ''x'')]))) 0x0009000001000002 (Some ''y''))"
proof -
  have "Reserve 9 (handle_run 9 (new_HandleTable 4) [HAllocate (Some ''x'')])
     = (fst (Reserve 9 (handle_run 9 (new_HandleTable 4) [HAllocate (Some ''x'')])), 0x0009000001000002)"
    by code_simp
  from reserve_install [OF this] show ?thesis by simp
qed

end
