(* ===== verification/Std_Path.thy ===== *)
theory Std_Path
  imports Prelude
begin

text \<open>
  The operations of \<^verbatim>\<open>std::filesystem::path\<close> on Windows that the engine calls: \<^verbatim>\<open>parent_path\<close>,
  \<^verbatim>\<open>filename\<close>, \<^verbatim>\<open>operator/=\<close> and iteration over the elements. A path is its text. The lemmas at the
  end give the values on the paths the engine walks: relative paths whose segments are plain
  names, joined by backslashes.
\<close>

section \<open>Definitions\<close>

definition is_slash :: "wchar \<Rightarrow> bool" where
  "is_slash c \<longleftrightarrow> c = bslash \<or> c = fslash"

definition is_drive_letter :: "wchar \<Rightarrow> bool" where
  "is_drive_letter c \<longleftrightarrow> (65 \<le> c \<and> c \<le> 90) \<or> (97 \<le> c \<and> c \<le> 122)"

definition strip_end :: "('a \<Rightarrow> bool) \<Rightarrow> 'a list \<Rightarrow> 'a list" where
  "strip_end P xs = rev (dropWhile P (rev xs))"

text \<open>
  The end of the root name: \<^verbatim>\<open>X:\<close>, one of the device prefixes \<^verbatim>\<open>\\?\<close>, \<^verbatim>\<open>\\.\<close> and \<^verbatim>\<open>\??\<close> without its
  last separator, or \<^verbatim>\<open>\\server\<close>.
\<close>

definition root_name_end :: "wstring \<Rightarrow> nat" where
  "root_name_end p =
     (if length p < 2 then 0
      else if is_drive_letter (p ! 0) \<and> p ! 1 = wcolon then 2
      else if \<not> is_slash (p ! 0) then 0
      else if length p \<ge> 4 \<and> is_slash (p ! 3) \<and> (length p = 4 \<or> \<not> is_slash (p ! 4))
              \<and> (is_slash (p ! 1) \<and> (p ! 2 = 63 \<or> p ! 2 = wdot) \<or> p ! 1 = 63 \<and> p ! 2 = 63)
           then 3
      else if length p \<ge> 3 \<and> is_slash (p ! 1) \<and> \<not> is_slash (p ! 2)
           then 3 + length (takeWhile (\<lambda>c. \<not> is_slash c) (drop 3 p))
      else 0)"

definition relative_start :: "wstring \<Rightarrow> nat" where
  "relative_start p = root_name_end p + length (takeWhile is_slash (drop (root_name_end p) p))"

definition parent_path :: "wstring \<Rightarrow> wstring" where
  "parent_path p =
     take (relative_start p) p @
     strip_end is_slash (strip_end (\<lambda>c. \<not> is_slash c) (drop (relative_start p) p))"

definition path_filename :: "wstring \<Rightarrow> wstring" where
  "path_filename p = rev (takeWhile (\<lambda>c. \<not> is_slash c) (rev (drop (relative_start p) p)))"

text \<open>The elements of a relative part: its non-empty segments, and an empty one for a trailing separator.\<close>

definition relative_elements :: "wstring \<Rightarrow> wstring list" where
  "relative_elements r =
     filter (\<lambda>s. s \<noteq> []) (split_on bslash (map (\<lambda>c. if is_slash c then bslash else c) r)) @
     (if r \<noteq> [] \<and> is_slash (last r) then [[]] else [])"

definition path_elements :: "wstring \<Rightarrow> wstring list" where
  "path_elements p =
     (if root_name_end p > 0 then [take (root_name_end p) p] else []) @
     (if relative_start p > root_name_end p
      then [drop (root_name_end p) (take (relative_start p) p)] else []) @
     relative_elements (drop (relative_start p) p)"

definition path_is_absolute :: "wstring \<Rightarrow> bool" where
  "path_is_absolute p \<longleftrightarrow>
     (if length p \<ge> 2 \<and> is_drive_letter (p ! 0) \<and> p ! 1 = wcolon
      then length p \<ge> 3 \<and> is_slash (p ! 2)
      else root_name_end p > 0)"

text \<open>\<^verbatim>\<open>a /= b\<close>.\<close>

definition path_append :: "wstring \<Rightarrow> wstring \<Rightarrow> wstring" where
  "path_append a b =
     (let ra = root_name_end a; rb = root_name_end b in
      if path_is_absolute b then b
      else if rb > 0 \<and> take ra a \<noteq> take rb b then b
      else if rb < length b \<and> is_slash (b ! rb) then take ra a @ drop rb b
      else if ra = length a then (if ra \<ge> 3 then a @ [bslash] else a) @ drop rb b
      else (if is_slash (last a) then a else a @ [bslash]) @ drop rb b)"

text \<open>
  The values that \<^verbatim>\<open>walked\<close> takes in a loop \<^verbatim>\<open>for (component : path(p)) { walked /= component; ... }\<close>.
\<close>

fun walked_from :: "wstring \<Rightarrow> wstring list \<Rightarrow> wstring list" where
  "walked_from w [] = []"
| "walked_from w (e # es) = (let w' = path_append w e in w' # walked_from w' es)"

definition walked_paths :: "wstring \<Rightarrow> wstring list" where
  "walked_paths p = walked_from [] (path_elements p)"

text \<open>
  The values that \<^verbatim>\<open>dir\<close> takes in \<^verbatim>\<open>for (; !dir.empty(); dir = dir.parent_path())\<close>. A path that
  is its own parent, such as a drive root, ends the list; the engine's callers pass relative paths
  that hold no colon, on which the parent is always shorter (lemma \<open>parent_path_shorter\<close>).
\<close>

lemma length_strip_end: "length (strip_end P xs) \<le> length xs"
  using length_dropWhile_le [of P "rev xs"] by (simp add: strip_end_def)

lemma length_parent_path: "length (parent_path p) \<le> length p"
proof -
  have "length (strip_end is_slash (strip_end (\<lambda>c. \<not> is_slash c) (drop (relative_start p) p)))
      \<le> length (drop (relative_start p) p)"
    by (meson length_strip_end order_trans)
  then show ?thesis by (simp add: parent_path_def)
qed

function parent_chain :: "wstring \<Rightarrow> wstring list" where
  "parent_chain p =
     (if p = [] then [] else if parent_path p = p then [p] else p # parent_chain (parent_path p))"
  by pat_completeness auto
termination
proof (relation "measure length")
  fix p assume a: "p \<noteq> []" "parent_path p \<noteq> p"
  have "length (parent_path p) \<noteq> length p"
  proof
    assume eq: "length (parent_path p) = length p"
    let ?d = "drop (relative_start p) p"
    let ?s = "strip_end is_slash (strip_end (\<lambda>c. \<not> is_slash c) ?d)"
    from eq have len: "length ?s = length ?d" by (simp add: parent_path_def)
    have "length ?s \<le> length (strip_end (\<lambda>c. \<not> is_slash c) ?d)" by (rule length_strip_end)
    moreover have "length (strip_end (\<lambda>c. \<not> is_slash c) ?d) \<le> length ?d" by (rule length_strip_end)
    moreover have eqI: "length (strip_end P xs) = length xs \<Longrightarrow> strip_end P xs = xs" for P and xs :: wstring
      unfolding strip_end_def
      by (metis append_self_conv2 length_rev length_append add_cancel_left_left length_0_conv
          rev_rev_ident takeWhile_dropWhile_id)
    ultimately have "?s = ?d" using len by (metis dual_order.antisym)
    then have "parent_path p = p" by (simp add: parent_path_def)
    with a show False by simp
  qed
  then show "(parent_path p, p) \<in> measure length" using length_parent_path [of p] by simp
qed simp

declare parent_chain.simps [simp del]

section \<open>Plain relative paths\<close>

text \<open>
  A name is a non-empty segment without separator and colon. The paths that pass the engine's
  checks are lists of names joined by backslashes.
\<close>

definition is_name :: "wstring \<Rightarrow> bool" where
  "is_name s \<longleftrightarrow> s \<noteq> [] \<and> wcolon \<notin> set s \<and> (\<forall>c\<in>set s. \<not> is_slash c)"

abbreviation names :: "wstring list \<Rightarrow> bool" where
  "names ss \<equiv> list_all is_name ss"

lemma is_nameD:
  assumes "is_name s"
  shows "s \<noteq> []" "bslash \<notin> set s" "fslash \<notin> set s" "wcolon \<notin> set s"
  using assms by (auto simp: is_name_def is_slash_def)

lemma join_with_snoc: "ss \<noteq> [] \<Longrightarrow> join_with c (ss @ [s]) = join_with c ss @ c # s"
  by (induction c ss rule: join_with.induct) auto

lemma join_with_eq_Nil: "names ss \<Longrightarrow> join_with c ss = [] \<longleftrightarrow> ss = []"
  by (cases ss rule: list.exhaust; cases "tl ss") (auto simp: is_name_def)

lemma hd_join_names: "names ss \<Longrightarrow> ss \<noteq> [] \<Longrightarrow> \<not> is_slash (hd (join_with bslash ss))"
  by (cases ss; cases "tl ss") (auto simp: is_name_def)

lemma colon_join_names: "names ss \<Longrightarrow> wcolon \<notin> set (join_with bslash ss)"
  by (induction "bslash" ss rule: join_with.induct) (auto simp: is_name_def)

lemma last_join_names: "names ss \<Longrightarrow> ss \<noteq> [] \<Longrightarrow> \<not> is_slash (last (join_with bslash ss))"
proof (induction ss rule: rev_induct)
  case (snoc s ss)
  then show ?case by (cases "ss = []") (auto simp: join_with_snoc is_name_def)
qed simp

lemma root_name_end_relative:
  "wcolon \<notin> set p \<Longrightarrow> p = [] \<or> \<not> is_slash (hd p) \<Longrightarrow> root_name_end p = 0"
  by (cases p; cases "tl p") (auto simp: root_name_end_def)

lemma relative_start_relative:
  "wcolon \<notin> set p \<Longrightarrow> p = [] \<or> \<not> is_slash (hd p) \<Longrightarrow> relative_start p = 0"
  by (cases p) (auto simp: relative_start_def root_name_end_relative)

lemma join_names_plain:
  assumes "names ss"
  shows "root_name_end (join_with bslash ss) = 0" "relative_start (join_with bslash ss) = 0"
proof -
  have "join_with bslash ss = [] \<or> \<not> is_slash (hd (join_with bslash ss))"
    using assms hd_join_names by (cases "ss = []") auto
  with colon_join_names [OF assms] show "root_name_end (join_with bslash ss) = 0"
    "relative_start (join_with bslash ss) = 0"
    by (simp_all add: root_name_end_relative relative_start_relative)
qed

lemma strip_end_append:
  "\<forall>x\<in>set ys. P x \<Longrightarrow> strip_end P (xs @ ys) = strip_end P xs"
  by (auto simp: strip_end_def intro!: arg_cong [of _ _ rev] dropWhile_append2)

lemma strip_end_keep: "xs \<noteq> [] \<Longrightarrow> \<not> P (last xs) \<Longrightarrow> strip_end P xs = xs"
  by (cases xs rule: rev_cases) (auto simp: strip_end_def)

lemma strip_end_Nil [simp]: "strip_end P [] = []"
  by (simp add: strip_end_def)

lemma strip_end_singleton: "P x \<Longrightarrow> strip_end P [x] = []"
  by (simp add: strip_end_def)

lemma parent_path_join [simp]:
  assumes "names (ss @ [s])"
  shows "parent_path (join_with bslash (ss @ [s])) = join_with bslash ss"
proof (cases "ss = []")
  case True
  have "\<forall>c\<in>set s. \<not> is_slash c" using assms by (simp add: is_name_def)
  then have "strip_end (\<lambda>c. \<not> is_slash c) ([] @ s) = strip_end (\<lambda>c. \<not> is_slash c) []"
    by (intro strip_end_append) simp
  with True join_names_plain [OF assms] show ?thesis by (simp add: parent_path_def)
next
  case False
  have s: "\<forall>c\<in>set s. \<not> is_slash c" and ss: "names ss" using assms by (auto simp: is_name_def)
  have "strip_end (\<lambda>c. \<not> is_slash c) ((join_with bslash ss @ [bslash]) @ s)
      = join_with bslash ss @ [bslash]"
    using s by (subst strip_end_append) (auto intro: strip_end_keep simp: is_slash_def)
  moreover have "strip_end is_slash (join_with bslash ss @ [bslash]) = join_with bslash ss"
    using last_join_names [OF ss False] False join_with_eq_Nil [OF ss]
    by (subst strip_end_append) (auto intro: strip_end_keep simp: is_slash_def)
  ultimately show ?thesis
    using join_names_plain [OF assms] False by (simp add: parent_path_def join_with_snoc)
qed

lemma path_filename_join [simp]:
  assumes "names (ss @ [s])"
  shows "path_filename (join_with bslash (ss @ [s])) = s"
proof -
  have s: "\<forall>c\<in>set s. \<not> is_slash c" using assms by (auto simp: is_name_def)
  then have tw: "takeWhile (\<lambda>c. \<not> is_slash c) (rev s @ bslash # ys) = rev s" for ys
    by (subst takeWhile_append2) (auto simp: is_slash_def)
  show ?thesis
  proof (cases "ss = []")
    case True
    have "takeWhile (\<lambda>c. \<not> is_slash c) (rev s) = rev s" using s by (simp add: takeWhile_eq_all_conv)
    moreover have "path_filename s = rev (takeWhile (\<lambda>c. \<not> is_slash c) (rev s))"
      using True join_names_plain [OF assms] by (simp add: path_filename_def)
    ultimately have "path_filename s = rev (rev s)" by (simp only:)
    with True show ?thesis by simp
  next
    case False
    with tw join_names_plain [OF assms] show ?thesis
      by (simp add: path_filename_def join_with_snoc)
  qed
qed

lemma path_elements_join [simp]:
  assumes "names ss"
  shows "path_elements (join_with bslash ss) = ss"
proof (cases "ss = []")
  case True
  then show ?thesis
    by (simp add: path_elements_def relative_elements_def root_name_end_def relative_start_def)
next
  case False
  let ?p = "join_with bslash ss"
  have sub: "set (join_with bslash ss) \<subseteq> insert bslash (\<Union> (set ` set ss))" for ss
    by (induction "bslash" ss rule: join_with.induct) auto
  have "fslash \<notin> set ?p"
    using sub [of ss] assms is_nameD(3) by (fastforce simp: list_all_iff)
  then have m: "map (\<lambda>c. if is_slash c then bslash else c) ?p = ?p"
    by (auto intro!: map_idI simp: is_slash_def)
  have "split_on bslash ?p = ss"
    using assms False by (intro split_join) (auto simp: list_all_iff dest: is_nameD(2))
  moreover have "filter (\<lambda>s. s \<noteq> []) ss = ss"
    using assms by (auto simp: list_all_iff filter_id_conv dest: is_nameD(1))
  ultimately show ?thesis
    using join_names_plain [OF assms] m last_join_names [OF assms False] False join_with_eq_Nil [OF assms]
    by (simp add: path_elements_def relative_elements_def)
qed

lemma path_append_join:
  assumes "names ss" "is_name s"
  shows "path_append (join_with bslash ss) s = join_with bslash (ss @ [s])"
proof -
  have s: "root_name_end s = 0" using join_names_plain(1) [of "[s]"] assms by simp
  have c1: "\<not> (length s \<ge> 2 \<and> s ! 1 = wcolon)" using is_nameD(4) [OF assms(2)]
    by (metis Suc_1 Suc_le_lessD nth_mem)
  have abs: "\<not> path_is_absolute s" using s c1 by (auto simp: path_is_absolute_def)
  have h: "\<not> is_slash (s ! 0)" using assms(2) by (auto simp: is_name_def)
  have sn: "s \<noteq> []" using assms(2) by (simp add: is_name_def)
  show ?thesis
  proof (cases "ss = []")
    case True
    with s abs h sn show ?thesis
      using join_names_plain(1) [of "[]"] by (simp add: path_append_def)
  next
    case False
    with join_names_plain(1) [OF assms(1)] last_join_names [OF assms(1) False] join_with_eq_Nil [OF assms(1)]
      s abs h sn show ?thesis
      by (simp add: path_append_def join_with_snoc)
  qed
qed

lemma walked_from_join:
  "names ss \<Longrightarrow> names ts \<Longrightarrow>
   walked_from (join_with bslash ss) ts =
     map (\<lambda>i. join_with bslash (ss @ take (Suc i) ts)) [0..<length ts]"
proof (induction ts arbitrary: ss)
  case (Cons t ts)
  have eq: "path_append (join_with bslash ss) t = join_with bslash (ss @ [t])"
    using Cons.prems by (intro path_append_join) auto
  have "walked_from (join_with bslash (ss @ [t])) ts =
      map (\<lambda>i. join_with bslash ((ss @ [t]) @ take (Suc i) ts)) [0..<length ts]"
    using Cons.prems by (intro Cons.IH) auto
  then show ?case
    by (simp add: eq map_upt_Suc del: upt_Suc)
qed simp

text \<open>The walk of a path visits its proper prefixes from the shortest to the whole path.\<close>

lemma walked_paths_join:
  "names ss \<Longrightarrow> walked_paths (join_with bslash ss) =
     map (\<lambda>i. join_with bslash (take (Suc i) ss)) [0..<length ss]"
  using walked_from_join [of "[]" ss] by (simp add: walked_paths_def)

lemma parent_path_shorter:
  assumes "names ss" "ss \<noteq> []"
  shows "length (parent_path (join_with bslash ss)) < length (join_with bslash ss)"
proof (cases ss rule: rev_cases)
  case (snoc ts s)
  then have "names (ts @ [s])" using assms by simp
  then have "parent_path (join_with bslash (ts @ [s])) = join_with bslash ts" by simp
  with snoc \<open>names (ts @ [s])\<close> show ?thesis
    by (cases "ts = []") (simp_all add: join_with_snoc is_name_def)
qed (use assms in simp)

text \<open>The parent walk visits the same prefixes, from the whole path to the shortest.\<close>

lemma parent_chain_join:
  "names ss \<Longrightarrow> parent_chain (join_with bslash ss) = rev (walked_paths (join_with bslash ss))"
proof (induction ss rule: rev_induct)
  case Nil
  then show ?case using walked_paths_join [of "[]"] by (simp add: parent_chain.simps)
next
  case (snoc s ss)
  have ne: "join_with bslash (ss @ [s]) \<noteq> []" using snoc.prems join_with_eq_Nil by blast
  have "parent_path (join_with bslash (ss @ [s])) \<noteq> join_with bslash (ss @ [s])"
    using parent_path_shorter [OF snoc.prems] by force
  then have "parent_chain (join_with bslash (ss @ [s])) =
      join_with bslash (ss @ [s]) # parent_chain (join_with bslash ss)"
    using ne snoc.prems by (subst parent_chain.simps) simp
  moreover have "parent_chain (join_with bslash ss) = rev (walked_paths (join_with bslash ss))"
    using snoc by simp
  ultimately show ?case using snoc.prems by (simp add: walked_paths_join)
qed

end
