(* ===== verification/Path_Text.thy ===== *)
theory Path_Text
  imports Std_Path
begin

text \<open>
  The text level of the engine: normalization, the safety and reservation checks, stream-qualified
  paths, the extended Win32 form, whiteout names, and the component lists of the link walk. The
  character tables and \<^verbatim>\<open>GetFullPathNameW\<close> belong to Windows and are fields of a record that the
  definitions take as an argument. Sources: \<^verbatim>\<open>impl/LayerMount.cpp\<close>, \<^verbatim>\<open>impl/LayerPath.cpp\<close>,
  \<^verbatim>\<open>impl/WhiteoutManager.cpp\<close> and \<^verbatim>\<open>impl/PathResolver.cpp\<close>.
\<close>

section \<open>Text services of Windows\<close>

record win32_text =
  CharLowerW :: "wchar \<Rightarrow> wchar"
  OrdinalUpperW :: "wchar \<Rightarrow> wchar"
  GetFullPathNameW :: "wstring \<Rightarrow> wstring option"

text \<open>\<^verbatim>\<open>CompareStringOrdinal(a, n, b, m, TRUE) == CSTR_EQUAL\<close> compares code units after the upcase table.\<close>

definition ordinal_eq :: "'a win32_text_scheme \<Rightarrow> wstring \<Rightarrow> wstring \<Rightarrow> bool" where
  "ordinal_eq T a b \<longleftrightarrow> map (OrdinalUpperW T) a = map (OrdinalUpperW T) b"

text \<open>
  What the engine relies on of the lowercase table: it is idempotent, and no character but the
  separators, the colon and the dot themselves maps to one of them.
\<close>

definition lower_table_ok :: "'a win32_text_scheme \<Rightarrow> bool" where
  "lower_table_ok T \<longleftrightarrow>
     (\<forall>c. CharLowerW T (CharLowerW T c) = CharLowerW T c) \<and>
     (\<forall>c d. d \<in> {bslash, fslash, wcolon, wdot} \<longrightarrow> (CharLowerW T c = d \<longleftrightarrow> c = d))"

text \<open>An instance with the ASCII letters folded, for concrete evaluations.\<close>

definition ascii_lower :: "wchar \<Rightarrow> wchar" where
  "ascii_lower c = (if 65 \<le> c \<and> c \<le> 90 then c + 32 else c)"

definition ascii_upper :: "wchar \<Rightarrow> wchar" where
  "ascii_upper c = (if 97 \<le> c \<and> c \<le> 122 then c - 32 else c)"

definition ascii_text :: win32_text where
  "ascii_text = \<lparr>CharLowerW = ascii_lower, OrdinalUpperW = ascii_upper, GetFullPathNameW = Some\<rparr>"

text \<open>\<^verbatim>\<open>_wcsicmp(a, b) == 0\<close> in the C locale.\<close>

definition wcsicmp_eq :: "wstring \<Rightarrow> wstring \<Rightarrow> bool" where
  "wcsicmp_eq a b \<longleftrightarrow> map ascii_lower (c_str a) = map ascii_lower (c_str b)"

section \<open>Names\<close>

definition kWhiteoutPrefix :: wstring where "kWhiteoutPrefix = wlit ''.wh.''"
definition kOpaqueMarkerFile :: wstring where "kOpaqueMarkerFile = wlit ''.wh..wh..opq''"
definition kLayerMountADSStream :: wstring where "kLayerMountADSStream = wlit '':overlay''"
definition kOpaqueADSStream :: wstring where "kOpaqueADSStream = wlit '':overlay.opaque''"
definition kSidecarDirName :: wstring where "kSidecarDirName = wlit ''.overlay''"

section \<open>Joining and normalizing (LayerPath.cpp)\<close>

definition DirWithSeparator :: "wstring \<Rightarrow> wstring" where
  "DirWithSeparator dirPath =
     (if dirPath \<noteq> [] \<and> last dirPath = bslash then dirPath else dirPath @ [bslash])"

definition JoinDirPath :: "wstring \<Rightarrow> wstring \<Rightarrow> wstring" where
  "JoinDirPath dirPath relativePath = DirWithSeparator dirPath @ relativePath"

definition CaseFoldedName :: "'a win32_text_scheme \<Rightarrow> wstring \<Rightarrow> wstring" where
  "CaseFoldedName T name = map (CharLowerW T) name"

definition NormalizePathPreserveCase :: "wstring \<Rightarrow> wstring" where
  "NormalizePathPreserveCase path =
     strip_end (\<lambda>c. c = bslash)
       (dropWhile (\<lambda>c. c = bslash) (map (\<lambda>c. if c = fslash then bslash else c) path))"

definition NormalizePath :: "'a win32_text_scheme \<Rightarrow> wstring \<Rightarrow> wstring" where
  "NormalizePath T path = map (CharLowerW T) (NormalizePathPreserveCase path)"

definition ParentOfNormalizedPath :: "wstring \<Rightarrow> wstring" where
  "ParentOfNormalizedPath p = (case wfind_last p bslash of None \<Rightarrow> [] | Some i \<Rightarrow> take i p)"

definition IsInsideDirectory :: "wstring \<Rightarrow> wstring \<Rightarrow> bool" where
  "IsInsideDirectory pathNorm dirNorm \<longleftrightarrow>
     length pathNorm > length dirNorm \<and>
     take (length dirNorm) pathNorm = dirNorm \<and>
     pathNorm ! length dirNorm = bslash"

definition BuildUpperPathPreserveCase :: "wstring \<Rightarrow> wstring \<Rightarrow> wstring" where
  "BuildUpperPathPreserveCase upperRoot relativePath =
     (let preserved = NormalizePathPreserveCase relativePath in
      if preserved = [] then upperRoot else JoinDirPath upperRoot preserved)"

definition JoinLayerScanPath :: "wstring \<Rightarrow> wstring \<Rightarrow> wstring" where
  "JoinLayerScanPath layerPath dirRelativePath =
     JoinDirPath layerPath (if dirRelativePath = [] then wlit ''*'' else dirRelativePath @ [bslash] @ wlit ''*'')"

section \<open>The extended form (LayerPath.cpp)\<close>

definition kExtended :: wstring where "kExtended = [bslash, bslash, 63, bslash]"
definition kExtendedUnc :: wstring where "kExtendedUnc = kExtended @ wlit ''UNC'' @ [bslash]"
definition kDevice :: wstring where "kDevice = [bslash, bslash, wdot, bslash]"
definition kUnc :: wstring where "kUnc = [bslash, bslash]"

definition FullPathName :: "'a win32_text_scheme \<Rightarrow> wstring \<Rightarrow> wstring option" where
  "FullPathName T path = GetFullPathNameW T path"

text \<open>The component loop of \<open>IsFullPathAsWritten\<close>, from position \<open>pos\<close>.\<close>

function components_as_written :: "wstring \<Rightarrow> nat \<Rightarrow> bool" where
  "components_as_written path pos =
     (if pos > length path then False
      else let e = wfind_end path bslash pos; component = wsubstr path pos (e - pos) in
        if component = [] \<or> component = [wdot] \<or> component = [wdot, wdot] then False
        else if e = length path then True
        else components_as_written path (e + 1))"
  by pat_completeness auto
termination
  by (relation "measure (\<lambda>(path, pos). Suc (length path) - pos)")
     (auto intro: wfind_end_progress)

definition IsFullPathAsWritten :: "wstring \<Rightarrow> bool" where
  "IsFullPathAsWritten path \<longleftrightarrow>
     (if length path \<ge> 3 \<and> path ! 1 = wcolon \<and> path ! 2 = bslash
      then fslash \<notin> set path \<and> components_as_written path 3
      else if starts_with path kUnc \<and> length path > length kUnc \<and> path ! length kUnc \<noteq> bslash
      then fslash \<notin> set path \<and> components_as_written path (length kUnc)
      else False)"

definition WithoutExtendedPrefix :: "wstring \<Rightarrow> wstring" where
  "WithoutExtendedPrefix path =
     (if starts_with path kExtendedUnc then kUnc @ drop (length kExtendedUnc) path
      else if starts_with path kExtended \<and> length path \<ge> length kExtended + 2 \<and>
              path ! (length kExtended + 1) = wcolon
      then drop (length kExtended) path
      else path)"

definition WithExtendedPrefix :: "'a win32_text_scheme \<Rightarrow> wstring \<Rightarrow> wstring" where
  "WithExtendedPrefix T path =
     (if starts_with path kExtended \<or> starts_with path kDevice then path
      else case (if IsFullPathAsWritten path then Some path else FullPathName T path) of
        None \<Rightarrow> path
      | Some full \<Rightarrow>
          if starts_with full kUnc then kExtendedUnc @ drop (length kUnc) full
          else kExtended @ full)"

definition ExtendedStreamPath :: "'a win32_text_scheme \<Rightarrow> wstring \<Rightarrow> wstring \<Rightarrow> wstring" where
  "ExtendedStreamPath T path streamSuffix = WithExtendedPrefix T path @ streamSuffix"

definition ComparablePath :: "'a win32_text_scheme \<Rightarrow> wstring \<Rightarrow> wstring" where
  "ComparablePath T path =
     (let plain = WithoutExtendedPrefix (map (\<lambda>c. if c = fslash then bslash else c) path);
          full = (case FullPathName T plain of None \<Rightarrow> plain | Some f \<Rightarrow> f)
      in map (CharLowerW T) (strip_end (\<lambda>c. c = bslash) full))"

section \<open>Path checks (LayerMount.cpp)\<close>

text \<open>The segment loop of \<open>IsSafeRelativePath\<close>, from position \<open>start\<close>.\<close>

function safe_segments_from :: "wstring \<Rightarrow> nat \<Rightarrow> bool" where
  "safe_segments_from normalized start =
     (if start > length normalized then True
      else let e = wfind_end normalized bslash start in
        if e - start = 2 \<and> normalized ! start = wdot \<and> normalized ! (start + 1) = wdot then False
        else if e = length normalized then True
        else safe_segments_from normalized (e + 1))"
  by pat_completeness auto
termination
  by (relation "measure (\<lambda>(p, start). Suc (length p) - start)")
     (auto intro: wfind_end_progress)

declare components_as_written.simps [simp del] safe_segments_from.simps [simp del]

definition IsSafeRelativePath :: "wstring \<Rightarrow> bool" where
  "IsSafeRelativePath normalized \<longleftrightarrow>
     (if normalized = [] then False
      else if wfind normalized wcolon 0 \<noteq> None then False
      else safe_segments_from normalized 0)"

definition StreamNamesEqual :: "'a win32_text_scheme \<Rightarrow> wstring \<Rightarrow> wstring \<Rightarrow> bool" where
  "StreamNamesEqual T a b \<longleftrightarrow> length a = length b \<and> length a \<le> 2147483647 \<and> ordinal_eq T a b"

definition IsReservedStreamName :: "'a win32_text_scheme \<Rightarrow> wstring \<Rightarrow> bool" where
  "IsReservedStreamName T streamName \<longleftrightarrow>
     (let reserved = drop 1 kLayerMountADSStream in
      if length streamName = length reserved then StreamNamesEqual T streamName reserved
      else length streamName > length reserved \<and> streamName ! length reserved = wdot \<and>
           StreamNamesEqual T (take (length reserved) streamName) reserved)"

definition IsUserAlternateStream :: "'a win32_text_scheme \<Rightarrow> wstring \<Rightarrow> bool" where
  "IsUserAlternateStream T ntfsStreamName \<longleftrightarrow>
     (if ntfsStreamName = [] \<or> hd ntfsStreamName \<noteq> wcolon then False
      else let afterColon = drop 1 ntfsStreamName;
               name = take (wfind_end afterColon wcolon 0) afterColon
           in name \<noteq> [] \<and> \<not> IsReservedStreamName T name)"

text \<open>
  \<open>TryParseStreamPath\<close> returns the host and the stream suffix; \<open>None\<close> stands for \<^verbatim>\<open>false\<close> with both
  outputs cleared.
\<close>

definition TryParseStreamPath :: "'a win32_text_scheme \<Rightarrow> wstring \<Rightarrow> (wstring \<times> wstring) option" where
  "TryParseStreamPath T normalized =
     (if normalized = [] then None
      else case wfind normalized wcolon 0 of
        None \<Rightarrow> if IsSafeRelativePath normalized then Some (normalized, []) else None
      | Some firstColon \<Rightarrow>
          let host = take firstColon normalized in
          if \<not> IsSafeRelativePath host then None
          else
            let streamStart = firstColon + 1;
                secondColon = wfind normalized wcolon streamStart;
                streamEnd = (case secondColon of None \<Rightarrow> length normalized | Some i \<Rightarrow> i);
                streamName = wsubstr normalized streamStart (streamEnd - streamStart) in
            if streamName = [] then None
            else if bslash \<in> set streamName then None
            else if IsReservedStreamName T streamName then None
            else case secondColon of
              None \<Rightarrow> Some (host, wcolon # streamName)
            | Some i \<Rightarrow>
                let streamType = drop (i + 1) normalized in
                if streamType = [] then None
                else if wcolon \<in> set streamType then None
                else if \<not> wcsicmp_eq streamType (wlit ''$DATA'') then None
                else Some (host, wcolon # streamName @ wcolon # streamType))"

record StreamPath =
  hostNorm :: wstring
  streamSuffix :: wstring
  callerHost :: wstring
  callerStreamSuffix :: wstring

definition ParseStreamPath :: "'a win32_text_scheme \<Rightarrow> wstring \<Rightarrow> StreamPath option" where
  "ParseStreamPath T relativePath =
     (case TryParseStreamPath T (NormalizePathPreserveCase relativePath) of
        None \<Rightarrow> None
      | Some (h, s) \<Rightarrow> Some \<lparr>hostNorm = CaseFoldedName T h, streamSuffix = CaseFoldedName T s,
                             callerHost = h, callerStreamSuffix = s\<rparr>)"

definition IsRootSidecarPath :: "wstring \<Rightarrow> bool" where
  "IsRootSidecarPath normalized \<longleftrightarrow>
     normalized = kSidecarDirName \<or> IsInsideDirectory normalized kSidecarDirName"

definition FirstSegmentAsOpened :: "'a win32_text_scheme \<Rightarrow> wstring \<Rightarrow> wstring" where
  "FirstSegmentAsOpened T relativePath =
     (let norm = NormalizePath T relativePath;
          firstSegment = (case wfind norm bslash 0 of None \<Rightarrow> norm | Some i \<Rightarrow> take i norm)
      in strip_end (\<lambda>c. c = wdot \<or> c = 32) firstSegment)"

definition FirstSegmentOpensAsSidecar :: "'a win32_text_scheme \<Rightarrow> wstring \<Rightarrow> bool" where
  "FirstSegmentOpensAsSidecar T relativePath \<longleftrightarrow> IsRootSidecarPath (FirstSegmentAsOpened T relativePath)"

section \<open>Whiteout names (WhiteoutManager.cpp)\<close>

definition IsWhiteoutName :: "'a win32_text_scheme \<Rightarrow> wstring \<Rightarrow> bool" where
  "IsWhiteoutName T fileName \<longleftrightarrow>
     length fileName \<ge> length kWhiteoutPrefix \<and>
     ordinal_eq T (take (length kWhiteoutPrefix) fileName) kWhiteoutPrefix"

definition GetWhitedOutName :: "wstring \<Rightarrow> wstring" where
  "GetWhitedOutName whiteoutName = drop (length kWhiteoutPrefix) whiteoutName"

definition WhitedOutNameOfEntry :: "'a win32_text_scheme \<Rightarrow> wstring \<Rightarrow> wstring option" where
  "WhitedOutNameOfEntry T entryName =
     (let isOpaqueMarker = ordinal_eq T (c_str entryName) kOpaqueMarkerFile in
      if \<not> IsWhiteoutName T entryName \<or> isOpaqueMarker then None
      else Some (GetWhitedOutName entryName))"

definition GetWhiteoutFileName :: "wstring \<Rightarrow> wstring" where
  "GetWhiteoutFileName relativePath =
     (let parent = parent_path relativePath;
          whName = kWhiteoutPrefix @ path_filename relativePath
      in if parent = [] then whName else path_append parent whName)"

definition GetWhiteoutFullPath :: "wstring \<Rightarrow> wstring \<Rightarrow> wstring" where
  "GetWhiteoutFullPath layerPath relativePath = JoinDirPath layerPath (GetWhiteoutFileName relativePath)"

text \<open>The segment loop of \<open>ParentOfFirstMarkerSegment\<close>, from position \<open>start\<close>.\<close>

function marker_parent_from :: "'a win32_text_scheme \<Rightarrow> wstring \<Rightarrow> nat \<Rightarrow> wstring option" where
  "marker_parent_from T normalized start =
     (let separator = wfind normalized bslash start;
          segment = (case separator of None \<Rightarrow> drop start normalized
                                     | Some i \<Rightarrow> wsubstr normalized start (i - start)) in
      if IsWhiteoutName T segment
      then Some (if start = 0 then [] else take (start - 1) normalized)
      else case separator of None \<Rightarrow> None | Some i \<Rightarrow> marker_parent_from T normalized (i + 1))"
  by pat_completeness auto
termination
  by (relation "measure (\<lambda>(T, p, start). length p - start)") (auto dest!: wfind_progress [OF sym])

declare marker_parent_from.simps [simp del]

definition ParentOfFirstMarkerSegment :: "'a win32_text_scheme \<Rightarrow> wstring \<Rightarrow> wstring option" where
  "ParentOfFirstMarkerSegment T normalized = marker_parent_from T normalized 0"

definition IsReservedRelativePath :: "'a win32_text_scheme \<Rightarrow> wstring \<Rightarrow> bool" where
  "IsReservedRelativePath T normalized \<longleftrightarrow>
     IsRootSidecarPath normalized \<or> ParentOfFirstMarkerSegment T normalized \<noteq> None"

section \<open>Component lists (PathResolver.cpp)\<close>

function split_components_from :: "wstring \<Rightarrow> nat \<Rightarrow> wstring list" where
  "split_components_from path start =
     (if start < length path then
        let e = wfind_end path bslash start in
        (if e > start then [wsubstr path start (e - start)] else []) @
        split_components_from path (e + 1)
      else [])"
  by pat_completeness auto
termination
  by (relation "measure (\<lambda>(p, start). Suc (length p) - start)")
     (auto intro: wfind_end_progress)

declare split_components_from.simps [simp del]

definition SplitComponents :: "wstring \<Rightarrow> wstring list" where
  "SplitComponents path = split_components_from path 0"

definition JoinComponents :: "wstring list \<Rightarrow> nat \<Rightarrow> wstring" where
  "JoinComponents components count =
     foldl (\<lambda>joined i. (if i > 0 then joined @ [bslash] else joined) @ components ! i) [] [0..<count]"

definition resolve_component :: "wstring list \<Rightarrow> wstring \<Rightarrow> wstring list" where
  "resolve_component parent component =
     (if component = [wdot, wdot] then (if parent \<noteq> [] then butlast parent else parent)
      else if component \<noteq> [wdot] then parent @ [component] else parent)"

definition ResolveRelativeTarget :: "wstring list \<Rightarrow> wstring \<Rightarrow> wstring list" where
  "ResolveRelativeTarget parent target =
     (let t = map (\<lambda>c. if c = fslash then bslash else c) target;
          p = (if t \<noteq> [] \<and> hd t = bslash then [] else parent)
      in foldl resolve_component p (SplitComponents t))"

definition SpliceLinkTarget :: "wstring list \<Rightarrow> nat \<Rightarrow> wstring \<Rightarrow> wstring list" where
  "SpliceLinkTarget components linkIndex target =
     ResolveRelativeTarget (take linkIndex components) target @ drop (linkIndex + 1) components"


section \<open>Normal form of paths\<close>

lemma strip_end_idem [simp]: "strip_end P (strip_end P xs) = strip_end P xs"
  by (cases "strip_end P xs = []")
     (auto intro!: strip_end_keep simp: strip_end_def last_rev hd_dropWhile)

lemma last_strip_end: "strip_end P xs \<noteq> [] \<Longrightarrow> \<not> P (last (strip_end P xs))"
  using hd_dropWhile [of P "rev xs"] by (simp add: strip_end_def last_rev)

lemma strip_end_prefix: "\<exists>ys. xs = strip_end P xs @ ys \<and> (\<forall>y\<in>set ys. P y)"
proof -
  have "rev (takeWhile P (rev xs) @ dropWhile P (rev xs)) = xs" by simp
  then have "xs = strip_end P xs @ rev (takeWhile P (rev xs))" by (simp add: strip_end_def del: takeWhile_dropWhile_id)
  moreover have "\<forall>y\<in>set (rev (takeWhile P (rev xs))). P y" by (auto dest: set_takeWhileD)
  ultimately show ?thesis by blast
qed

lemma set_strip_end: "set (strip_end P xs) \<subseteq> set xs"
  by (auto simp: strip_end_def dest: set_dropWhileD)

lemma strip_end_map: "strip_end P (map f xs) = map f (strip_end (P \<circ> f) xs)"
  by (simp add: strip_end_def rev_map dropWhile_map)

text \<open>The normal form: backslashes only, none at either end.\<close>

definition normal_form :: "wstring \<Rightarrow> bool" where
  "normal_form p \<longleftrightarrow> fslash \<notin> set p \<and> (p \<noteq> [] \<longrightarrow> hd p \<noteq> bslash \<and> last p \<noteq> bslash)"

lemma hd_strip_end: "strip_end P xs \<noteq> [] \<Longrightarrow> hd (strip_end P xs) = hd xs"
  using strip_end_prefix [of xs P] by (metis hd_append2)

lemma NormalizePathPreserveCase_normal: "normal_form (NormalizePathPreserveCase p)"
proof -
  let ?m = "map (\<lambda>c. if c = fslash then bslash else c) p"
  let ?d = "dropWhile (\<lambda>c. c = bslash) ?m"
  let ?s = "strip_end (\<lambda>c. c = bslash) ?d"
  have "fslash \<notin> set ?m" by auto
  then have "fslash \<notin> set ?s" using set_strip_end [of "\<lambda>c. c = bslash" ?d] set_dropWhileD [of fslash "\<lambda>c. c = bslash" ?m]
    by blast
  moreover have "hd ?s \<noteq> bslash \<and> last ?s \<noteq> bslash" if "?s \<noteq> []"
  proof -
    have "?d \<noteq> []" using that by (metis strip_end_Nil)
    then have "hd ?d \<noteq> bslash" using hd_dropWhile [of "\<lambda>c. c = bslash" ?m] by simp
    then show ?thesis using that hd_strip_end [OF that] last_strip_end [OF that] by simp
  qed
  ultimately show ?thesis by (simp add: normal_form_def NormalizePathPreserveCase_def)
qed

lemma NormalizePathPreserveCase_id: "normal_form p \<Longrightarrow> NormalizePathPreserveCase p = p"
proof -
  assume n: "normal_form p"
  then have "map (\<lambda>c. if c = fslash then bslash else c) p = p"
    by (auto intro!: map_idI simp: normal_form_def)
  moreover have "dropWhile (\<lambda>c. c = bslash) p = p"
    using n by (cases p) (auto simp: normal_form_def)
  moreover have "strip_end (\<lambda>c. c = bslash) p = p"
    using n by (cases "p = []") (auto simp: normal_form_def intro: strip_end_keep)
  ultimately show ?thesis by (simp add: NormalizePathPreserveCase_def)
qed

lemma lower_table_punct:
  assumes "lower_table_ok T" "d \<in> {bslash, fslash, wcolon, wdot}"
  shows "CharLowerW T c = d \<longleftrightarrow> c = d"
  using assms unfolding lower_table_ok_def by blast

lemma map_lower_punct:
  assumes "lower_table_ok T" "d \<in> {bslash, fslash, wcolon, wdot}"
  shows "d \<in> set (map (CharLowerW T) p) \<longleftrightarrow> d \<in> set p"
  using lower_table_punct [OF assms] by (metis (no_types, opaque_lifting) image_iff list.set_map)

lemma normal_form_map_lower:
  assumes "lower_table_ok T"
  shows "normal_form (map (CharLowerW T) p) \<longleftrightarrow> normal_form p"
  using lower_table_punct [OF assms, of bslash] map_lower_punct [OF assms, of fslash]
  by (auto simp: normal_form_def hd_map last_map)

lemma NormalizePath_fixed:
  assumes "lower_table_ok T"
  shows "NormalizePath T (NormalizePath T p) = NormalizePath T p"
proof -
  have "normal_form (NormalizePath T p)"
    using normal_form_map_lower [OF assms] NormalizePathPreserveCase_normal by (simp add: NormalizePath_def)
  then have "NormalizePathPreserveCase (NormalizePath T p) = NormalizePath T p"
    by (rule NormalizePathPreserveCase_id)
  moreover have "map (CharLowerW T) (NormalizePath T p) = NormalizePath T p"
    using assms by (simp add: NormalizePath_def lower_table_ok_def)
  ultimately show ?thesis by (metis NormalizePath_def)
qed

section \<open>The segment loops read the segments\<close>

lemma safe_segments_from_iff:
  "start \<le> length p \<Longrightarrow>
   safe_segments_from p start \<longleftrightarrow> [wdot, wdot] \<notin> set (split_on bslash (drop start p))"
proof (induction p start rule: safe_segments_from.induct)
  case (1 p start)
  let ?e = "wfind_end p bslash start"
  have b: "start \<le> ?e" "?e \<le> length p" using wfind_end_bounds [OF 1(2), of bslash] by auto
  have seg: "(?e - start = 2 \<and> p ! start = wdot \<and> p ! (start + 1) = wdot)
      \<longleftrightarrow> wsubstr p start (?e - start) = [wdot, wdot]"
  proof
    assume a: "?e - start = 2 \<and> p ! start = wdot \<and> p ! (start + 1) = wdot"
    have "take 2 (drop start p) = [p ! start, p ! (start + 1)]"
      using a b by (intro nth_equalityI) (auto simp: nth_Cons' less_Suc_eq numeral_2_eq_2)
    with a show "wsubstr p start (?e - start) = [wdot, wdot]" by (simp add: wsubstr_def)
  next
    assume a: "wsubstr p start (?e - start) = [wdot, wdot]"
    then have l: "length (wsubstr p start (?e - start)) = 2" by simp
    then have two: "?e - start = 2" using b by (simp add: wsubstr_def min_def split: if_splits)
    have "take 2 (drop start p) ! 0 = wdot" "take 2 (drop start p) ! 1 = wdot"
      using a two by (auto simp: wsubstr_def)
    with two show "?e - start = 2 \<and> p ! start = wdot \<and> p ! (start + 1) = wdot"
      using b by simp
  qed
  show ?case
  proof (cases "wfind p bslash start")
    case None
    then have e: "?e = length p" by (simp add: wfind_end_def)
    then have "wsubstr p start (?e - start) = drop start p" by (simp add: wsubstr_def)
    moreover have "split_on bslash (drop start p) = [drop start p]"
      using split_on_drop_step [OF 1(2), of bslash] None by simp
    ultimately show ?thesis
      using 1(2) e seg by (subst safe_segments_from.simps) (auto simp: Let_def)
  next
    case (Some i)
    then have e: "?e = i" and il: "i < length p" using wfind_bounds [OF Some] by (auto simp: wfind_end_def)
    then have ih: "\<not> (?e - start = 2 \<and> p ! start = wdot \<and> p ! (start + 1) = wdot) \<Longrightarrow>
        safe_segments_from p (i + 1) \<longleftrightarrow> [wdot, wdot] \<notin> set (split_on bslash (drop (i + 1) p))"
      using 1(1) [of ?e] 1(2) by auto
    have sp: "split_on bslash (drop start p) = wsubstr p start (i - start) # split_on bslash (drop (Suc i) p)"
      using split_on_drop_step [OF 1(2), of bslash] Some by simp
    show ?thesis
      using 1(2) e il seg ih sp by (subst safe_segments_from.simps) (auto simp: Let_def)
  qed
qed

lemma split_components_from_eq:
  "start \<le> Suc (length p) \<Longrightarrow>
   split_components_from p start =
     (if start < length p then filter (\<lambda>s. s \<noteq> []) (split_on bslash (drop start p)) else [])"
proof (induction p start rule: split_components_from.induct)
  case (1 p start)
  show ?case
  proof (cases "start < length p")
    case False
    then show ?thesis by (simp add: split_components_from.simps)
  next
    case True
    then have sl: "start \<le> length p" by simp
    show ?thesis
    proof (cases "wfind p bslash start")
      case None
      then have e: "wfind_end p bslash start = length p" by (simp add: wfind_end_def)
      have "split_on bslash (drop start p) = [drop start p]"
        using split_on_drop_step [OF sl, of bslash] None by simp
      moreover have "split_components_from p (length p + 1) = []"
        by (simp add: split_components_from.simps)
      ultimately show ?thesis
        using True e by (subst split_components_from.simps) (simp add: Let_def wsubstr_def)
    next
      case (Some i)
      then have e: "wfind_end p bslash start = i" and b: "start \<le> i" "i < length p"
        using wfind_bounds [OF Some] by (auto simp: wfind_end_def)
      have ih: "split_components_from p (i + 1) =
          (if i + 1 < length p then filter (\<lambda>s. s \<noteq> []) (split_on bslash (drop (i + 1) p)) else [])"
        using 1(1) [of i] True e b by simp
      have sp: "split_on bslash (drop start p) = wsubstr p start (i - start) # split_on bslash (drop (Suc i) p)"
        using split_on_drop_step [OF sl, of bslash] Some by simp
      have "wsubstr p start (i - start) \<noteq> [] \<longleftrightarrow> i > start"
        using b by (auto simp: wsubstr_def)
      then show ?thesis
        using True e b ih sp by (subst split_components_from.simps) (auto simp: Let_def)
    qed
  qed
qed

lemma SplitComponents_eq: "SplitComponents p = filter (\<lambda>s. s \<noteq> []) (split_on bslash p)"
  using split_components_from_eq [of 0 p] by (cases "p = []") (auto simp: SplitComponents_def)

lemma JoinComponents_eq:
  "n \<le> length cs \<Longrightarrow> JoinComponents cs n = join_with bslash (take n cs)"
proof (induction n)
  case (Suc n)
  then have t: "take (Suc n) cs = take n cs @ [cs ! n]" by (simp add: take_Suc_conv_app_nth)
  have "JoinComponents cs (Suc n) = (if n > 0 then JoinComponents cs n @ [bslash] else JoinComponents cs n) @ cs ! n"
    by (simp add: JoinComponents_def)
  also have "\<dots> = join_with bslash (take (Suc n) cs)"
    using Suc t join_with_snoc [of "take n cs" bslash "cs ! n"] by (cases "n = 0"; cases cs) auto
  finally show ?case .
qed (simp add: JoinComponents_def)


section \<open>Marker segments\<close>

text \<open>The position of the first segment that starts with the whiteout prefix.\<close>

fun first_marker :: "'a win32_text_scheme \<Rightarrow> wstring list \<Rightarrow> nat option" where
  "first_marker T [] = None"
| "first_marker T (s # ss) = (if IsWhiteoutName T s then Some 0 else map_option Suc (first_marker T ss))"

lemma first_marker_None_iff: "first_marker T ss = None \<longleftrightarrow> (\<forall>s\<in>set ss. \<not> IsWhiteoutName T s)"
  by (induction ss) auto

lemma wfind_hit: "wfind p c start = Some i \<Longrightarrow> p ! i = c"
  by (auto simp: wfind_def dest!: index_of_SomeD)

lemma marker_parent_from_eq:
  assumes "start \<le> length p"
    and "start = 0 \<and> pre = [] \<or> pre \<noteq> [] \<and> take start p = join_with bslash pre @ [bslash]"
  shows "marker_parent_from T p start =
     map_option (\<lambda>k. join_with bslash (pre @ take k (split_on bslash (drop start p))))
       (first_marker T (split_on bslash (drop start p)))"
  using assms
proof (induction T p start arbitrary: pre rule: marker_parent_from.induct)
  case (1 T p start)
  have parent: "(if start = 0 then [] else take (start - 1) p) = join_with bslash pre"
  proof (cases "start = 0")
    case True
    then show ?thesis using 1(3) by auto
  next
    case False
    then have t: "take start p = join_with bslash pre @ [bslash]" using 1(3) by simp
    have "take (start - 1) p = butlast (take start p)" using 1(2) by (simp add: butlast_take)
    then show ?thesis using False t by simp
  qed
  show ?case
  proof (cases "wfind p bslash start")
    case None
    then have "split_on bslash (drop start p) = [drop start p]"
      using split_on_drop_step [OF 1(2), of bslash] by simp
    then show ?thesis
      using None parent by (subst marker_parent_from.simps) auto
  next
    case (Some i)
    then have b: "start \<le> i" "i < length p" using wfind_bounds [OF Some] by auto
    let ?seg = "wsubstr p start (i - start)"
    have sp: "split_on bslash (drop start p) = ?seg # split_on bslash (drop (Suc i) p)"
      using split_on_drop_step [OF 1(2), of bslash] Some by simp
    have "take i p = take start p @ ?seg"
      using b by (metis wsubstr_def le_add_diff_inverse take_add)
    then have pi: "take i p = join_with bslash (pre @ [?seg])"
      using 1(3) by (auto simp: join_with_snoc)
    have next_pre: "take (i + 1) p = join_with bslash (pre @ [?seg]) @ [bslash]"
      using pi b wfind_hit [OF Some] by (simp add: take_Suc_conv_app_nth)
    have ih: "marker_parent_from T p (i + 1) =
        map_option (\<lambda>k. join_with bslash ((pre @ [?seg]) @ take k (split_on bslash (drop (i + 1) p))))
          (first_marker T (split_on bslash (drop (i + 1) p)))" if "\<not> IsWhiteoutName T ?seg"
      using that b next_pre Some by (intro 1(1)) auto
    show ?thesis
      using Some parent sp ih by (subst marker_parent_from.simps) (auto simp: Let_def option.map_comp comp_def)
  qed
qed

lemma ParentOfFirstMarkerSegment_eq:
  "ParentOfFirstMarkerSegment T p =
     map_option (\<lambda>k. join_with bslash (take k (split_on bslash p))) (first_marker T (split_on bslash p))"
  using marker_parent_from_eq [of 0 p "[]" T] by (simp add: ParentOfFirstMarkerSegment_def)

lemma no_marker_segment_iff:
  "ParentOfFirstMarkerSegment T p = None \<longleftrightarrow> (\<forall>s\<in>set (split_on bslash p). \<not> IsWhiteoutName T s)"
  by (simp add: ParentOfFirstMarkerSegment_eq first_marker_None_iff)

section \<open>Stream suffixes\<close>

definition stream_name_ok :: "'a win32_text_scheme \<Rightarrow> wstring \<Rightarrow> bool" where
  "stream_name_ok T name \<longleftrightarrow>
     name \<noteq> [] \<and> bslash \<notin> set name \<and> wcolon \<notin> set name \<and> \<not> IsReservedStreamName T name"

text \<open>The grammar of an accepted suffix: nothing, \<open>:name\<close>, or \<open>:name:$DATA\<close> in any case.\<close>

definition stream_suffix_ok :: "'a win32_text_scheme \<Rightarrow> wstring \<Rightarrow> bool" where
  "stream_suffix_ok T s \<longleftrightarrow>
     s = [] \<or> (\<exists>name. stream_name_ok T name \<and>
       (s = wcolon # name \<or>
        (\<exists>ty. ty \<noteq> [] \<and> wcolon \<notin> set ty \<and> wcsicmp_eq ty (wlit ''$DATA'') \<and> s = wcolon # name @ wcolon # ty)))"

lemma IsSafe_no_colon: "IsSafeRelativePath p \<Longrightarrow> wcolon \<notin> set p"
  by (auto simp: IsSafeRelativePath_def wfind_None_iff split: if_splits)

lemma IsSafe_colon [simp]: "\<not> IsSafeRelativePath (a @ wcolon # b)"
  using IsSafe_no_colon by fastforce

lemma wfind_first: "c \<notin> set a \<Longrightarrow> wfind (a @ c # b) c 0 = Some (length a)"
  by (simp add: wfind_def index_of_append_sep option.map_ident)

lemma wfind_after: "wfind (a @ c # b) d (Suc (length a)) = map_option ((+) (Suc (length a))) (index_of d b)"
  by (simp add: wfind_def)

lemma parse_no_colon:
  "wcolon \<notin> set p \<Longrightarrow> TryParseStreamPath T p = (if IsSafeRelativePath p then Some (p, []) else None)"
  using wfind_None_iff [of p wcolon 0]
  by (auto simp: TryParseStreamPath_def IsSafeRelativePath_def)

lemma parse_one_colon:
  assumes "wcolon \<notin> set a" "wcolon \<notin> set b"
  shows "TryParseStreamPath T (a @ wcolon # b) =
    (if IsSafeRelativePath a \<and> stream_name_ok T b then Some (a, wcolon # b) else None)"
proof -
  have "index_of wcolon b = None" using assms(2) by (simp add: index_of_None_iff)
  then show ?thesis
    using assms(2)
    by (simp add: TryParseStreamPath_def wfind_first [OF assms(1)] wfind_after stream_name_ok_def
        wsubstr_def Let_def)
qed

lemma parse_two_colons:
  assumes "wcolon \<notin> set a" "wcolon \<notin> set b"
  shows "TryParseStreamPath T (a @ wcolon # b @ wcolon # d) =
    (if IsSafeRelativePath a \<and> stream_name_ok T b \<and> d \<noteq> [] \<and> wcolon \<notin> set d
        \<and> wcsicmp_eq d (wlit ''$DATA'')
     then Some (a, wcolon # b @ wcolon # d) else None)"
proof -
  have i: "index_of wcolon (b @ wcolon # e) = Some (length b)" for e
    using assms(2) by (rule index_of_append_sep)
  show ?thesis
    using assms(2)
    by (simp add: TryParseStreamPath_def wfind_first [OF assms(1)] wfind_after i stream_name_ok_def
        wsubstr_def Let_def del: wlit_Cons)
qed

lemma colon_cases:
  obtains (none) "wcolon \<notin> set p"
  | (one) a b where "p = a @ wcolon # b" "wcolon \<notin> set a" "wcolon \<notin> set b"
  | (two) a b d where "p = a @ wcolon # b @ wcolon # d" "wcolon \<notin> set a" "wcolon \<notin> set b"
proof (cases "wcolon \<in> set p")
  case True
  then obtain a q where p: "p = a @ wcolon # q" "wcolon \<notin> set a" by (meson split_list_first)
  show ?thesis
  proof (cases "wcolon \<in> set q")
    case True
    then obtain b d where "q = b @ wcolon # d" "wcolon \<notin> set b" by (meson split_list_first)
    with p show ?thesis by (intro two [of a b d]) auto
  next
    case False
    with p show ?thesis by (intro one)
  qed
qed (rule none)

lemma split_unique:
  "c \<notin> set a \<Longrightarrow> c \<notin> set a' \<Longrightarrow> a @ c # b = a' @ c # b' \<longleftrightarrow> a = a' \<and> b = b'"
  by (induction a arbitrary: a'; case_tac a') auto

lemma IsSafe_segments:
  "IsSafeRelativePath p \<longleftrightarrow> p \<noteq> [] \<and> wcolon \<notin> set p \<and> [wdot, wdot] \<notin> set (split_on bslash p)"
  using safe_segments_from_iff [of 0 p] by (auto simp: IsSafeRelativePath_def wfind_None_iff)

section \<open>Properties\<close>

text \<open>
  \<open>IsSafeRelativePath\<close> accepts exactly the non-empty paths that hold no colon and no \<open>..\<close>
  segment, so a joined path can neither leave its layer root nor name a drive or a stream.
\<close>

theorem IsSafeRelativePath_iff:
  "IsSafeRelativePath p \<longleftrightarrow>
     p \<noteq> [] \<and> wcolon \<notin> set p \<and> [wdot, wdot] \<notin> set (split_on bslash p)"
  by (rule IsSafe_segments)

text \<open>
  C26: \<open>TryParseStreamPath\<close> splits a path into host and suffix without changing a character, and
  it accepts exactly a safe host followed by nothing, by \<open>:name\<close>, or by \<open>:name:$DATA\<close>, where the
  name is non-empty, holds no separator and is not one of the engine's own streams.
\<close>

theorem TryParseStreamPath_iff:
  "TryParseStreamPath T p = Some (h, s) \<longleftrightarrow>
     p = h @ s \<and> IsSafeRelativePath h \<and> stream_suffix_ok T s"
proof (cases p rule: colon_cases)
  case none
  then show ?thesis
    by (auto simp: parse_no_colon stream_suffix_ok_def)
next
  case (one a b)
  have "h \<noteq> a \<or> s \<noteq> wcolon # b \<Longrightarrow> \<not> (p = h @ s \<and> IsSafeRelativePath h \<and> stream_suffix_ok T s)"
    using one by (auto simp: stream_suffix_ok_def split_unique dest: IsSafe_no_colon)
  moreover have "stream_suffix_ok T (wcolon # b) \<longleftrightarrow> stream_name_ok T b"
    using one by (auto simp: stream_suffix_ok_def)
  ultimately show ?thesis
    using one by (auto simp: parse_one_colon)
next
  case (two a b d)
  have "h \<noteq> a \<or> s \<noteq> wcolon # b @ wcolon # d \<Longrightarrow>
      \<not> (p = h @ s \<and> IsSafeRelativePath h \<and> stream_suffix_ok T s)"
    using two
    by (auto simp: stream_suffix_ok_def split_unique stream_name_ok_def Cons_eq_append_conv
        dest: IsSafe_no_colon)
  moreover have "stream_suffix_ok T (wcolon # b @ wcolon # d) \<longleftrightarrow>
      stream_name_ok T b \<and> d \<noteq> [] \<and> wcolon \<notin> set d \<and> wcsicmp_eq d (wlit ''$DATA'')"
    using two by (auto simp: stream_suffix_ok_def split_unique stream_name_ok_def Cons_eq_append_conv)
  ultimately show ?thesis
    using two by (auto simp: parse_two_colons)
qed

lemma strip_ends:
  "\<exists>pre suf. xs = pre @ strip_end P (dropWhile P xs) @ suf \<and> (\<forall>x\<in>set pre. P x) \<and> (\<forall>x\<in>set suf. P x)"
proof -
  let ?ys = "dropWhile P xs"
  have "xs = takeWhile P xs @ strip_end P ?ys @ rev (takeWhile P (rev ?ys))"
    using takeWhile_dropWhile_id [of P "rev ?ys"] takeWhile_dropWhile_id [of P xs]
    by (metis rev_append rev_rev_ident strip_end_def)
  moreover have "\<forall>x\<in>set (takeWhile P xs). P x" "\<forall>x\<in>set (rev (takeWhile P (rev ?ys))). P x"
    using set_takeWhileD by fastforce+
  ultimately show ?thesis by blast
qed

text \<open>
  Normalization reaches a normal form and loses nothing but separators at the ends and case. The
  path with its forward slashes turned is some separators, a text, and some separators, and the result
  is that text with every unit in lower case; it holds no forward slash and no separator at
  either end. Normalizing it again changes nothing, and two spellings of a path that differ only
  in separators at the ends or in their direction normalize to the same text.
\<close>

theorem NormalizePath_canonical:
  assumes "lower_table_ok T"
  shows "NormalizePath T (NormalizePath T p) = NormalizePath T p \<and>
    (\<exists>pre kept suf. map (\<lambda>c. if c = fslash then bslash else c) p = pre @ kept @ suf \<and>
       set pre \<subseteq> {bslash} \<and> set suf \<subseteq> {bslash} \<and> NormalizePath T p = map (CharLowerW T) kept) \<and>
    normal_form (NormalizePath T p) \<and>
    NormalizePath T (bslash # p) = NormalizePath T p \<and>
    NormalizePath T (p @ [fslash]) = NormalizePath T p \<and>
    NormalizePath T (map (\<lambda>c. if c = fslash then bslash else c) p) = NormalizePath T p"
proof (intro conjI)
  show "NormalizePath T (NormalizePath T p) = NormalizePath T p" by (rule NormalizePath_fixed [OF assms])
  show "\<exists>pre kept suf. map (\<lambda>c. if c = fslash then bslash else c) p = pre @ kept @ suf \<and>
       set pre \<subseteq> {bslash} \<and> set suf \<subseteq> {bslash} \<and> NormalizePath T p = map (CharLowerW T) kept"
    using strip_ends [of "map (\<lambda>c. if c = fslash then bslash else c) p" "\<lambda>c. c = bslash"]
    unfolding NormalizePath_def NormalizePathPreserveCase_def Let_def by blast
  show "normal_form (NormalizePath T p)"
    using normal_form_map_lower [OF assms] NormalizePathPreserveCase_normal by (simp add: NormalizePath_def)
  show "NormalizePath T (bslash # p) = NormalizePath T p"
    by (simp add: NormalizePath_def NormalizePathPreserveCase_def)
  have "strip_end (\<lambda>c. c = bslash) (dropWhile (\<lambda>c. c = bslash) (xs @ [bslash])) =
      strip_end (\<lambda>c. c = bslash) (dropWhile (\<lambda>c. c = bslash) xs)" for xs
  proof (cases "\<forall>x\<in>set xs. x = bslash")
    case True
    then have "dropWhile (\<lambda>c. c = bslash) xs = []" "dropWhile (\<lambda>c. c = bslash) (xs @ [bslash]) = []"
      by (auto simp: dropWhile_eq_Nil_conv)
    then show ?thesis by (simp only:)
  qed (auto simp: strip_end_append dropWhile_append)
  then show "NormalizePath T (p @ [fslash]) = NormalizePath T p"
    by (simp add: NormalizePath_def NormalizePathPreserveCase_def)
  show "NormalizePath T (map (\<lambda>c. if c = fslash then bslash else c) p) = NormalizePath T p"
    by (simp add: NormalizePath_def NormalizePathPreserveCase_def comp_def if_distrib cong: if_cong)
qed

lemma ascii_lower_table_ok: "lower_table_ok ascii_text"
proof -
  have "ascii_lower (ascii_lower c) = ascii_lower c" for c
    unfolding ascii_lower_def by (auto simp: word_le_nat_alt unat_word_ariths)
  moreover have "ascii_lower c = d \<longleftrightarrow> c = d" if "d \<in> {bslash, fslash, wcolon, wdot}" for c d
    using that unfolding ascii_lower_def by (auto simp: word_le_nat_alt word_unat_eq_iff unat_word_ariths)
  ultimately show ?thesis by (simp add: lower_table_ok_def ascii_text_def)
qed

theorem NormalizePath_canonical_witness:
  "NormalizePath ascii_text (NormalizePath ascii_text (wlit ''/Dir/File.TXT/'')) = [100, 105, 114, bslash, 102, 105, 108, 101, wdot, 116, 120, 116]"
  using NormalizePath_canonical [OF ascii_lower_table_ok, of "wlit ''/Dir/File.TXT/''"]
  by (simp add: NormalizePath_def NormalizePathPreserveCase_def ascii_text_def ascii_lower_def strip_end_def)

section \<open>Components of the view\<close>

definition view_component :: "wstring \<Rightarrow> bool" where
  "view_component c \<longleftrightarrow> is_name c \<and> c \<noteq> [wdot] \<and> c \<noteq> [wdot, wdot]"

lemma resolve_component_view:
  "list_all view_component parent \<Longrightarrow> is_name c \<Longrightarrow> list_all view_component (resolve_component parent c)"
  by (auto simp: resolve_component_def view_component_def list_all_iff dest: in_set_butlastD)

lemma foldl_resolve_component_view:
  "list_all view_component parent \<Longrightarrow> names cs \<Longrightarrow>
   list_all view_component (foldl resolve_component parent cs)"
  by (induction cs arbitrary: parent) (auto intro: resolve_component_view)

lemma split_on_subset: "x \<in> set (split_on c p) \<Longrightarrow> set x \<subseteq> set p"
  by (induction p arbitrary: x) (auto split: if_splits list.splits, blast+)

lemma names_SplitComponents:
  assumes "wcolon \<notin> set p" "fslash \<notin> set p"
  shows "names (SplitComponents p)"
  using assms split_on_segments [of _ bslash p] split_on_subset [of _ bslash p]
  by (auto simp: SplitComponents_eq list_all_iff is_name_def is_slash_def; blast)

lemma ResolveRelativeTarget_view:
  assumes "list_all view_component parent" "wcolon \<notin> set target"
  shows "list_all view_component (ResolveRelativeTarget parent target)"
  using assms
  by (auto simp: ResolveRelativeTarget_def Let_def
      intro!: foldl_resolve_component_view names_SplitComponents)

lemma view_component_names: "list_all view_component cs \<Longrightarrow> names cs"
  by (auto simp: list_all_iff view_component_def)

lemma IsSafe_join_view:
  assumes "list_all view_component cs" "cs \<noteq> []"
  shows "IsSafeRelativePath (join_with bslash cs)"
proof -
  have n: "names cs" by (rule view_component_names [OF assms(1)])
  have "split_on bslash (join_with bslash cs) = cs"
    using n assms(2) by (intro split_join) (auto simp: list_all_iff dest: is_nameD(2))
  then show ?thesis
    using n assms join_with_eq_Nil [OF n] colon_join_names [OF n]
    by (auto simp: IsSafe_segments list_all_iff view_component_def)
qed

text \<open>
  C25: following a relative link never leaves the view. When every component of the path is an
  ordinary name and the link's target holds no colon, the components after the splice are
  ordinary names again, whatever \<open>..\<close> segments and separators the target holds, and the path they
  form passes \<open>IsSafeRelativePath\<close> unless it is the root.
\<close>

theorem SpliceLinkTarget_stays_in_view:
  assumes "list_all view_component components" "wcolon \<notin> set target"
  shows "list_all view_component (SpliceLinkTarget components linkIndex target) \<and>
    (SpliceLinkTarget components linkIndex target = [] \<or>
     IsSafeRelativePath (JoinComponents (SpliceLinkTarget components linkIndex target)
       (length (SpliceLinkTarget components linkIndex target))))"
proof -
  have "list_all view_component (take linkIndex components)"
    "list_all view_component (drop (linkIndex + 1) components)"
    using assms(1) by (auto simp: list_all_iff dest: in_set_takeD in_set_dropD)
  then have v: "list_all view_component (SpliceLinkTarget components linkIndex target)"
    using ResolveRelativeTarget_view [OF _ assms(2)] by (simp add: SpliceLinkTarget_def)
  then show ?thesis
    using IsSafe_join_view by (simp add: JoinComponents_eq) blast
qed

text \<open>At the witness the target climbs above the root and comes back in.\<close>

theorem SpliceLinkTarget_stays_in_view_witness:
  "SpliceLinkTarget [wlit ''a'', wlit ''link'', wlit ''f''] 1 (wlit ''../../..'' @ [bslash] @ wlit ''b'')
     = [wlit ''b'', wlit ''f''] \<and>
   list_all view_component (SpliceLinkTarget [wlit ''a'', wlit ''link'', wlit ''f''] 1
     (wlit ''../../..'' @ [bslash] @ wlit ''b''))"
proof
  show "SpliceLinkTarget [wlit ''a'', wlit ''link'', wlit ''f''] 1 (wlit ''../../..'' @ [bslash] @ wlit ''b'')
     = [wlit ''b'', wlit ''f'']"
    by (simp add: SpliceLinkTarget_def ResolveRelativeTarget_def SplitComponents_eq resolve_component_def)
  show "list_all view_component (SpliceLinkTarget [wlit ''a'', wlit ''link'', wlit ''f''] 1
     (wlit ''../../..'' @ [bslash] @ wlit ''b''))"
    by (rule SpliceLinkTarget_stays_in_view [THEN conjunct1])
       (simp_all add: view_component_def is_name_def is_slash_def)
qed

section \<open>Extended form\<close>

lemmas prefix_defs = kExtended_def kExtendedUnc_def kDevice_def kUnc_def

lemma starts_with_append [simp]: "starts_with (pre @ ys) pre"
  by (simp add: starts_with_def)

lemma drive_path_forms:
  assumes "IsFullPathAsWritten p"
  obtains (drive) "length p \<ge> 3" "p ! 1 = wcolon" "\<not> starts_with p kUnc"
  | (unc) q where "p = kUnc @ q"
proof (cases "length p \<ge> 3 \<and> p ! 1 = wcolon \<and> p ! 2 = bslash")
  case True
  then have "\<not> starts_with p kUnc" by (auto simp: starts_with_iff prefix_defs)
  with True show ?thesis by (intro drive) auto
next
  case False
  then have "starts_with p kUnc" using assms by (auto simp: IsFullPathAsWritten_def split: if_splits)
  then show ?thesis using unc by (auto simp: starts_with_iff)
qed

text \<open>
  The extended prefix is lossless. On a full drive or UNC path as written, removing the prefix
  that \<open>WithExtendedPrefix\<close> adds gives the path back, and adding it a second time changes nothing,
  so the engine can prefix a path at every Win32 call without tracking which form it holds.
\<close>

theorem WithExtendedPrefix_roundtrip:
  assumes "IsFullPathAsWritten p" "\<not> starts_with p kExtended" "\<not> starts_with p kDevice"
  shows "WithoutExtendedPrefix (WithExtendedPrefix T p) = p \<and>
    WithExtendedPrefix T (WithExtendedPrefix T p) = WithExtendedPrefix T p"
  using assms(1)
proof (cases rule: drive_path_forms)
  case drive
  then have w: "WithExtendedPrefix T p = kExtended @ p"
    using assms by (simp add: WithExtendedPrefix_def)
  obtain a b c d where p: "p = a # b # c # d" using drive(1)
    by (cases p; cases "tl p"; cases "tl (tl p)") auto
  have "\<not> starts_with (kExtended @ p) kExtendedUnc"
    using drive p by (auto simp: starts_with_iff prefix_defs)
  then have "WithoutExtendedPrefix (kExtended @ p) = p"
    using drive p by (simp add: WithoutExtendedPrefix_def) (simp add: prefix_defs)
  then show ?thesis using w by (simp add: WithExtendedPrefix_def)
next
  case (unc q)
  then have w: "WithExtendedPrefix T p = kExtendedUnc @ q"
    using assms by (simp add: WithExtendedPrefix_def)
  have "starts_with (kExtendedUnc @ q) kExtended" by (auto simp: starts_with_iff prefix_defs)
  then show ?thesis
    using w unc by (simp add: WithExtendedPrefix_def WithoutExtendedPrefix_def)
qed

theorem WithExtendedPrefix_roundtrip_witness:
  "WithExtendedPrefix ascii_text (wlit ''C:'' @ [bslash] @ wlit ''up'') = kExtended @ wlit ''C:'' @ [bslash] @ wlit ''up'' \<and>
   WithoutExtendedPrefix (WithExtendedPrefix ascii_text (wlit ''C:'' @ [bslash] @ wlit ''up'')) =
     wlit ''C:'' @ [bslash] @ wlit ''up''"
proof -
  have full: "IsFullPathAsWritten (wlit ''C:'' @ [bslash] @ wlit ''up'')"
    by (simp add: IsFullPathAsWritten_def components_as_written.simps wfind_end_def wfind_def
        wsubstr_def Let_def)
  have ne: "\<not> starts_with (wlit ''C:'' @ [bslash] @ wlit ''up'') kExtended"
    "\<not> starts_with (wlit ''C:'' @ [bslash] @ wlit ''up'') kDevice"
    "\<not> starts_with (wlit ''C:'' @ [bslash] @ wlit ''up'') kUnc"
    by (simp_all add: starts_with_def prefix_defs)
  show ?thesis
    using WithExtendedPrefix_roundtrip [OF full ne(1,2), of ascii_text] full ne
    by (simp add: WithExtendedPrefix_def)
qed

section \<open>Whiteout names\<close>

lemma length_kWhiteoutPrefix [simp]: "length kWhiteoutPrefix = 4"
  by (simp add: kWhiteoutPrefix_def)

lemma c_str_append: "0 \<notin> set a \<Longrightarrow> c_str (a @ b) = a @ c_str b"
  by (auto simp: c_str_def intro!: takeWhile_append2)

lemma IsWhiteoutName_prefixed [simp]: "IsWhiteoutName T (kWhiteoutPrefix @ s)"
  by (simp add: IsWhiteoutName_def ordinal_eq_def)

text \<open>The opaque marker is the whiteout of a name that itself starts with the whiteout prefix.\<close>

lemma opaque_second_prefix:
  assumes "ordinal_eq T (c_str name) kOpaqueMarkerFile"
  shows "IsWhiteoutName T (drop 4 name)"
proof -
  have o: "kOpaqueMarkerFile = kWhiteoutPrefix @ kWhiteoutPrefix @ wlit ''.opq''"
    by (simp add: kOpaqueMarkerFile_def kWhiteoutPrefix_def)
  have eq: "map (OrdinalUpperW T) (c_str name) = map (OrdinalUpperW T) (kWhiteoutPrefix @ kWhiteoutPrefix @ wlit ''.opq'')"
    using assms unfolding ordinal_eq_def o by simp
  then have len: "length (c_str name) = 12" using map_eq_imp_length_eq [OF eq] by simp
  obtain r where r: "name = c_str name @ r" by (metis c_str_def takeWhile_dropWhile_id)
  have "take 4 (drop 4 name) = take 4 (drop 4 (c_str name))" using len by (subst r) simp
  moreover have "map (OrdinalUpperW T) (take 4 (drop 4 (c_str name))) = map (OrdinalUpperW T) kWhiteoutPrefix"
    using arg_cong [OF eq, of "\<lambda>x. take 4 (drop 4 x)"] by (simp add: take_map drop_map)
  moreover have "length name \<ge> 12" using len by (subst r) simp
  ultimately show ?thesis by (simp add: IsWhiteoutName_def ordinal_eq_def)
qed

lemma is_name_prefixed: "is_name s \<Longrightarrow> is_name (kWhiteoutPrefix @ s)"
  by (auto simp: is_name_def kWhiteoutPrefix_def is_slash_def)

lemma GetWhiteoutFileName_join:
  assumes "names (ss @ [s])"
  shows "GetWhiteoutFileName (join_with bslash (ss @ [s])) = join_with bslash (ss @ [kWhiteoutPrefix @ s])"
proof -
  have n: "names ss" "is_name (kWhiteoutPrefix @ s)" using assms is_name_prefixed by auto
  show ?thesis
    using path_append_join [OF n] parent_path_join [OF assms] path_filename_join [OF assms]
      join_with_eq_Nil [OF n(1), of bslash]
    by (cases "ss = []") (simp_all add: GetWhiteoutFileName_def Let_def)
qed

text \<open>
  C27: the whiteout marker names the entry it hides. The marker of a path sits in the directory of
  the path, a listing that meets it recovers exactly the hidden name, and the marker is itself a
  reserved path, so no caller of the overlay can reach it by name.
\<close>

theorem whiteout_marker_roundtrip:
  assumes "names (ss @ [s])" "\<not> IsWhiteoutName T s"
  shows "parent_path (GetWhiteoutFileName (join_with bslash (ss @ [s]))) = join_with bslash ss \<and>
    WhitedOutNameOfEntry T (path_filename (GetWhiteoutFileName (join_with bslash (ss @ [s])))) = Some s \<and>
    IsReservedRelativePath T (GetWhiteoutFileName (join_with bslash (ss @ [s])))"
proof -
  have n: "names (ss @ [kWhiteoutPrefix @ s])" using assms is_name_prefixed by auto
  let ?m = "GetWhiteoutFileName (join_with bslash (ss @ [s]))"
  have m: "?m = join_with bslash (ss @ [kWhiteoutPrefix @ s])" by (rule GetWhiteoutFileName_join [OF assms(1)])
  have "path_filename ?m = kWhiteoutPrefix @ s" and "parent_path ?m = join_with bslash ss"
    unfolding m using n by simp_all
  moreover have "WhitedOutNameOfEntry T (kWhiteoutPrefix @ s) = Some s"
    using assms(2) opaque_second_prefix [of T "kWhiteoutPrefix @ s"]
    by (auto simp: WhitedOutNameOfEntry_def GetWhitedOutName_def Let_def)
  moreover have "split_on bslash ?m = ss @ [kWhiteoutPrefix @ s]"
    unfolding m using n by (intro split_join) (auto simp: list_all_iff dest: is_nameD(2))
  then have "\<not> (\<forall>x\<in>set (split_on bslash ?m). \<not> IsWhiteoutName T x)" by simp
  then have "ParentOfFirstMarkerSegment T ?m \<noteq> None" by (simp only: no_marker_segment_iff not_False_eq_True)
  ultimately show ?thesis by (simp add: IsReservedRelativePath_def)
qed

theorem whiteout_marker_roundtrip_witness:
  "WhitedOutNameOfEntry ascii_text (path_filename (GetWhiteoutFileName (wlit ''d'' @ [bslash] @ wlit ''f'')))
     = Some (wlit ''f'')"
proof -
  have "names ([wlit ''d''] @ [wlit ''f''])" by (simp add: is_name_def is_slash_def)
  moreover have "\<not> IsWhiteoutName ascii_text (wlit ''f'')" by (simp add: IsWhiteoutName_def)
  ultimately show ?thesis using whiteout_marker_roundtrip [of "[wlit ''d'']" "wlit ''f''" ascii_text] by simp
qed

text \<open>
  \<open>ParentOfFirstMarkerSegment\<close> finds the first segment of the path that starts with the
  whiteout prefix, and gives the path of the segments before it.
\<close>

theorem ParentOfFirstMarkerSegment_first:
  "ParentOfFirstMarkerSegment T p = Some d \<longleftrightarrow>
     (\<exists>k < length (split_on bslash p).
        IsWhiteoutName T (split_on bslash p ! k) \<and>
        list_all (\<lambda>s. \<not> IsWhiteoutName T s) (take k (split_on bslash p)) \<and>
        d = join_with bslash (take k (split_on bslash p)))"
proof -
  have "first_marker T ss = Some k \<longleftrightarrow>
      k < length ss \<and> IsWhiteoutName T (ss ! k) \<and> list_all (\<lambda>s. \<not> IsWhiteoutName T s) (take k ss)" for ss k
    by (induction ss arbitrary: k; case_tac k) auto
  then show ?thesis by (auto simp: ParentOfFirstMarkerSegment_eq)
qed

lemmas path_text_defs = JoinDirPath_def DirWithSeparator_def NormalizePath_def
  NormalizePathPreserveCase_def strip_end_def CaseFoldedName_def

end
