(* ===== verification/Layer_Types.thy ===== *)
theory Layer_Types
  imports Path_Text
begin

text \<open>
  The data the components share: layers, resolved paths, the layer configuration, the per-file
  metadata record and the entry kinds of \<^verbatim>\<open>impl/LayerMount.h\<close>, and the capability bits of
  \<^verbatim>\<open>abi/CapabilityGate.h\<close>.
\<close>

section \<open>Win32 constants\<close>

abbreviation ERROR_SUCCESS :: dword where "ERROR_SUCCESS \<equiv> 0"
abbreviation ERROR_FILE_NOT_FOUND :: dword where "ERROR_FILE_NOT_FOUND \<equiv> 2"
abbreviation ERROR_PATH_NOT_FOUND :: dword where "ERROR_PATH_NOT_FOUND \<equiv> 3"
abbreviation ERROR_ACCESS_DENIED :: dword where "ERROR_ACCESS_DENIED \<equiv> 5"
abbreviation ERROR_NO_MORE_FILES :: dword where "ERROR_NO_MORE_FILES \<equiv> 18"
abbreviation ERROR_WRITE_FAULT :: dword where "ERROR_WRITE_FAULT \<equiv> 29"
abbreviation ERROR_READ_FAULT :: dword where "ERROR_READ_FAULT \<equiv> 30"
abbreviation ERROR_SHARING_VIOLATION :: dword where "ERROR_SHARING_VIOLATION \<equiv> 32"
abbreviation ERROR_BUSY :: dword where "ERROR_BUSY \<equiv> 170"
abbreviation ERROR_ALREADY_EXISTS :: dword where "ERROR_ALREADY_EXISTS \<equiv> 183"
abbreviation ERROR_DIRECTORY :: dword where "ERROR_DIRECTORY \<equiv> 267"

definition INVALID_FILE_ATTRIBUTES :: dword where "INVALID_FILE_ATTRIBUTES = 0xFFFFFFFF"
definition FILE_ATTRIBUTE_HIDDEN :: dword where "FILE_ATTRIBUTE_HIDDEN = 0x2"
definition FILE_ATTRIBUTE_SYSTEM :: dword where "FILE_ATTRIBUTE_SYSTEM = 0x4"
definition FILE_ATTRIBUTE_DIRECTORY :: dword where "FILE_ATTRIBUTE_DIRECTORY = 0x10"
definition FILE_ATTRIBUTE_NORMAL :: dword where "FILE_ATTRIBUTE_NORMAL = 0x80"
definition FILE_ATTRIBUTE_REPARSE_POINT :: dword where "FILE_ATTRIBUTE_REPARSE_POINT = 0x400"

lemmas attribute_defs = INVALID_FILE_ATTRIBUTES_def FILE_ATTRIBUTE_HIDDEN_def
  FILE_ATTRIBUTE_SYSTEM_def FILE_ATTRIBUTE_DIRECTORY_def FILE_ATTRIBUTE_NORMAL_def
  FILE_ATTRIBUTE_REPARSE_POINT_def

text \<open>\<^verbatim>\<open>IsReparseTagNameSurrogate\<close>: bit 29 of the reparse tag.\<close>

definition IsReparseTagNameSurrogate :: "dword \<Rightarrow> bool" where
  "IsReparseTagNameSurrogate tag \<longleftrightarrow> tag AND 0x20000000 \<noteq> 0"

section \<open>Layers\<close>

datatype LayerSource = SourceNone | Upper | Lower

record ResolvedPath =
  absolutePath :: wstring
  source :: LayerSource
  lowerIndex :: int
  isWhiteout :: bool
  attributes :: dword

definition Found :: "ResolvedPath \<Rightarrow> bool" where
  "Found r \<longleftrightarrow> absolutePath r \<noteq> [] \<and> source r \<noteq> SourceNone"

text \<open>The value-initialized \<^verbatim>\<open>ResolvedPath{}\<close>.\<close>

definition empty_resolved :: ResolvedPath where
  "empty_resolved = \<lparr>absolutePath = [], source = SourceNone, lowerIndex = -1, isWhiteout = False,
     attributes = INVALID_FILE_ATTRIBUTES\<rparr>"

lemma Found_empty_resolved [simp]: "\<not> Found empty_resolved"
  by (simp add: Found_def empty_resolved_def)

text \<open>A host path is its text; \<^verbatim>\<open>ForWin32()\<close> is the extended form.\<close>

definition ForWin32 :: "'a win32_text_scheme \<Rightarrow> wstring \<Rightarrow> wstring" where
  "ForWin32 T text = WithExtendedPrefix T text"

record LayerConfig =
  upperPath :: wstring
  lowerPaths :: "wstring list"
  workDirPath :: wstring
  enableProcessTracking :: bool
  processRulesPath :: wstring
  accessLogCapacity :: nat
  pathCacheCapacity :: nat
  hostCapabilities :: dword

section \<open>Capabilities\<close>

definition LM_CAP_ADS :: dword where "LM_CAP_ADS = 0x1"
definition LM_CAP_SPARSE_FILES :: dword where "LM_CAP_SPARSE_FILES = 0x4"
definition LM_CAP_MULTIPLE_STREAMS :: dword where "LM_CAP_MULTIPLE_STREAMS = 0x8"
definition LM_CAP_NTFS_ACLS :: dword where "LM_CAP_NTFS_ACLS = 0x10"
definition LM_CAP_CASE_SENSITIVE :: dword where "LM_CAP_CASE_SENSITIVE = 0x20"

definition HasAds :: "dword \<Rightarrow> bool" where "HasAds bits \<longleftrightarrow> bits AND LM_CAP_ADS \<noteq> 0"
definition HasSparseFiles :: "dword \<Rightarrow> bool" where "HasSparseFiles bits \<longleftrightarrow> bits AND LM_CAP_SPARSE_FILES \<noteq> 0"
definition HasMultipleStreams :: "dword \<Rightarrow> bool" where
  "HasMultipleStreams bits \<longleftrightarrow> bits AND LM_CAP_MULTIPLE_STREAMS \<noteq> 0"
definition HasNtfsAcls :: "dword \<Rightarrow> bool" where "HasNtfsAcls bits \<longleftrightarrow> bits AND LM_CAP_NTFS_ACLS \<noteq> 0"
definition IsCaseSensitive :: "dword \<Rightarrow> bool" where
  "IsCaseSensitive bits \<longleftrightarrow> bits AND LM_CAP_CASE_SENSITIVE \<noteq> 0"

section \<open>Metadata and entry kinds\<close>

record FILETIME =
  dwLowDateTime :: dword
  dwHighDateTime :: dword

record LayerMountMetadata =
  opaque :: bool
  metacopy :: bool
  redirect :: wstring
  copyUpTimestamp :: FILETIME
  originLayer :: wstring
  hasStableIndexNumber :: bool
  stableIndexNumber :: uint64

definition default_metadata :: LayerMountMetadata where
  "default_metadata = \<lparr>opaque = False, metacopy = False, redirect = [],
     copyUpTimestamp = \<lparr>dwLowDateTime = 0, dwHighDateTime = 0\<rparr>, originLayer = [],
     hasStableIndexNumber = False, stableIndexNumber = 0\<rparr>"

datatype EntryKind = FileEntry | DirectoryEntry | LinkEntry

datatype FinalLink = Follow | Keep

record CreateResolution =
  overlayHit :: ResolvedPath
  whiteoutAtPath :: bool
  lower :: ResolvedPath

end
