(* ===== verification/Nt_Status.thy ===== *)
theory Nt_Status
  imports Prelude
begin

text \<open>
  The error mapping of \<^verbatim>\<open>impl/NtStatusUtil.cpp\<close> and \<^verbatim>\<open>impl/NtStatusUtil.h\<close>. A Win32 error and a status
  are 32-bit words with the values of the Windows SDK. The engine passes the cloud-file errors
  through to the status of the same name; those status values are an argument, \<open>cloud\<close>, of the
  mapping.
\<close>

section \<open>Status values\<close>

abbreviation STATUS_SUCCESS :: ntstatus where "STATUS_SUCCESS \<equiv> 0"
abbreviation STATUS_ILLEGAL_FUNCTION :: ntstatus where "STATUS_ILLEGAL_FUNCTION \<equiv> 0xC00000AF"
abbreviation STATUS_OBJECT_NAME_NOT_FOUND :: ntstatus where "STATUS_OBJECT_NAME_NOT_FOUND \<equiv> 0xC0000034"
abbreviation STATUS_OBJECT_PATH_NOT_FOUND :: ntstatus where "STATUS_OBJECT_PATH_NOT_FOUND \<equiv> 0xC000003A"
abbreviation STATUS_TOO_MANY_OPENED_FILES :: ntstatus where "STATUS_TOO_MANY_OPENED_FILES \<equiv> 0xC000011F"
abbreviation STATUS_ACCESS_DENIED :: ntstatus where "STATUS_ACCESS_DENIED \<equiv> 0xC0000022"
abbreviation STATUS_INVALID_HANDLE :: ntstatus where "STATUS_INVALID_HANDLE \<equiv> 0xC0000008"
abbreviation STATUS_NO_MEMORY :: ntstatus where "STATUS_NO_MEMORY \<equiv> 0xC0000017"
abbreviation STATUS_INVALID_PARAMETER :: ntstatus where "STATUS_INVALID_PARAMETER \<equiv> 0xC000000D"
abbreviation STATUS_INVALID_IMAGE_FORMAT :: ntstatus where "STATUS_INVALID_IMAGE_FORMAT \<equiv> 0xC000007B"
abbreviation STATUS_NO_SUCH_DEVICE :: ntstatus where "STATUS_NO_SUCH_DEVICE \<equiv> 0xC000000E"
abbreviation STATUS_CANNOT_DELETE :: ntstatus where "STATUS_CANNOT_DELETE \<equiv> 0xC0000121"
abbreviation STATUS_NOT_SAME_DEVICE :: ntstatus where "STATUS_NOT_SAME_DEVICE \<equiv> 0xC00000D4"
abbreviation STATUS_NO_MORE_FILES :: ntstatus where "STATUS_NO_MORE_FILES \<equiv> 0x80000006"
abbreviation STATUS_MEDIA_WRITE_PROTECTED :: ntstatus where "STATUS_MEDIA_WRITE_PROTECTED \<equiv> 0xC00000A2"
abbreviation STATUS_DEVICE_NOT_READY :: ntstatus where "STATUS_DEVICE_NOT_READY \<equiv> 0xC00000A3"
abbreviation STATUS_INVALID_DEVICE_REQUEST :: ntstatus where "STATUS_INVALID_DEVICE_REQUEST \<equiv> 0xC0000010"
abbreviation STATUS_CRC_ERROR :: ntstatus where "STATUS_CRC_ERROR \<equiv> 0xC000003F"
abbreviation STATUS_INVALID_BUFFER_SIZE :: ntstatus where "STATUS_INVALID_BUFFER_SIZE \<equiv> 0xC0000206"
abbreviation STATUS_UNSUCCESSFUL :: ntstatus where "STATUS_UNSUCCESSFUL \<equiv> 0xC0000001"
abbreviation STATUS_DISK_CORRUPT_ERROR :: ntstatus where "STATUS_DISK_CORRUPT_ERROR \<equiv> 0xC0000032"
abbreviation STATUS_NONEXISTENT_SECTOR :: ntstatus where "STATUS_NONEXISTENT_SECTOR \<equiv> 0xC0000015"
abbreviation STATUS_IO_DEVICE_ERROR :: ntstatus where "STATUS_IO_DEVICE_ERROR \<equiv> 0xC0000185"
abbreviation STATUS_SHARING_VIOLATION :: ntstatus where "STATUS_SHARING_VIOLATION \<equiv> 0xC0000043"
abbreviation STATUS_FILE_LOCK_CONFLICT :: ntstatus where "STATUS_FILE_LOCK_CONFLICT \<equiv> 0xC0000054"
abbreviation STATUS_WRONG_VOLUME :: ntstatus where "STATUS_WRONG_VOLUME \<equiv> 0xC0000012"
abbreviation STATUS_INSUFFICIENT_RESOURCES :: ntstatus where "STATUS_INSUFFICIENT_RESOURCES \<equiv> 0xC000009A"
abbreviation STATUS_END_OF_FILE :: ntstatus where "STATUS_END_OF_FILE \<equiv> 0xC0000011"
abbreviation STATUS_DISK_FULL :: ntstatus where "STATUS_DISK_FULL \<equiv> 0xC000007F"
abbreviation STATUS_NOT_SUPPORTED :: ntstatus where "STATUS_NOT_SUPPORTED \<equiv> 0xC00000BB"
abbreviation STATUS_REMOTE_NOT_LISTENING :: ntstatus where "STATUS_REMOTE_NOT_LISTENING \<equiv> 0xC00000BC"
abbreviation STATUS_DUPLICATE_NAME :: ntstatus where "STATUS_DUPLICATE_NAME \<equiv> 0xC00000BD"
abbreviation STATUS_BAD_NETWORK_PATH :: ntstatus where "STATUS_BAD_NETWORK_PATH \<equiv> 0xC00000BE"
abbreviation STATUS_NETWORK_BUSY :: ntstatus where "STATUS_NETWORK_BUSY \<equiv> 0xC00000BF"
abbreviation STATUS_DEVICE_DOES_NOT_EXIST :: ntstatus where "STATUS_DEVICE_DOES_NOT_EXIST \<equiv> 0xC00000C0"
abbreviation STATUS_OBJECT_NAME_COLLISION :: ntstatus where "STATUS_OBJECT_NAME_COLLISION \<equiv> 0xC0000035"
abbreviation STATUS_NET_WRITE_FAULT :: ntstatus where "STATUS_NET_WRITE_FAULT \<equiv> 0xC00000D2"
abbreviation STATUS_PIPE_BROKEN :: ntstatus where "STATUS_PIPE_BROKEN \<equiv> 0xC000014B"
abbreviation STATUS_OBJECT_NAME_INVALID :: ntstatus where "STATUS_OBJECT_NAME_INVALID \<equiv> 0xC0000033"
abbreviation STATUS_INVALID_LEVEL :: ntstatus where "STATUS_INVALID_LEVEL \<equiv> 0xC0000148"
abbreviation STATUS_NO_SUCH_FILE :: ntstatus where "STATUS_NO_SUCH_FILE \<equiv> 0xC000000F"
abbreviation STATUS_DLL_NOT_FOUND :: ntstatus where "STATUS_DLL_NOT_FOUND \<equiv> 0xC0000135"
abbreviation STATUS_ENTRYPOINT_NOT_FOUND :: ntstatus where "STATUS_ENTRYPOINT_NOT_FOUND \<equiv> 0xC0000139"
abbreviation STATUS_DEVICE_BUSY :: ntstatus where "STATUS_DEVICE_BUSY \<equiv> 0x80000011"
abbreviation STATUS_DIRECTORY_NOT_EMPTY :: ntstatus where "STATUS_DIRECTORY_NOT_EMPTY \<equiv> 0xC0000101"
abbreviation STATUS_NAME_TOO_LONG :: ntstatus where "STATUS_NAME_TOO_LONG \<equiv> 0xC0000106"
abbreviation STATUS_INVALID_PIPE_STATE :: ntstatus where "STATUS_INVALID_PIPE_STATE \<equiv> 0xC00000AD"
abbreviation STATUS_PIPE_BUSY :: ntstatus where "STATUS_PIPE_BUSY \<equiv> 0xC00000AE"
abbreviation STATUS_PIPE_EMPTY :: ntstatus where "STATUS_PIPE_EMPTY \<equiv> 0xC00000D9"
abbreviation STATUS_PIPE_DISCONNECTED :: ntstatus where "STATUS_PIPE_DISCONNECTED \<equiv> 0xC00000B0"
abbreviation STATUS_BUFFER_OVERFLOW :: ntstatus where "STATUS_BUFFER_OVERFLOW \<equiv> 0x80000005"
abbreviation STATUS_INVALID_EA_NAME :: ntstatus where "STATUS_INVALID_EA_NAME \<equiv> 0x80000013"
abbreviation STATUS_EA_LIST_INCONSISTENT :: ntstatus where "STATUS_EA_LIST_INCONSISTENT \<equiv> 0x80000014"
abbreviation STATUS_NO_MORE_ENTRIES :: ntstatus where "STATUS_NO_MORE_ENTRIES \<equiv> 0x8000001A"
abbreviation STATUS_NOT_A_DIRECTORY :: ntstatus where "STATUS_NOT_A_DIRECTORY \<equiv> 0xC0000103"
abbreviation STATUS_EA_TOO_LARGE :: ntstatus where "STATUS_EA_TOO_LARGE \<equiv> 0xC0000050"
abbreviation STATUS_EA_CORRUPT_ERROR :: ntstatus where "STATUS_EA_CORRUPT_ERROR \<equiv> 0xC0000053"
abbreviation STATUS_EAS_NOT_SUPPORTED :: ntstatus where "STATUS_EAS_NOT_SUPPORTED \<equiv> 0xC000004F"
abbreviation STATUS_RESOURCE_NOT_OWNED :: ntstatus where "STATUS_RESOURCE_NOT_OWNED \<equiv> 0xC0000264"
abbreviation STATUS_TOO_MANY_COMMANDS :: ntstatus where "STATUS_TOO_MANY_COMMANDS \<equiv> 0xC00000C1"
abbreviation STATUS_MESSAGE_NOT_FOUND :: ntstatus where "STATUS_MESSAGE_NOT_FOUND \<equiv> 0xC0000109"
abbreviation STATUS_INVALID_ADDRESS :: ntstatus where "STATUS_INVALID_ADDRESS \<equiv> 0xC0000141"
abbreviation STATUS_INTEGER_OVERFLOW :: ntstatus where "STATUS_INTEGER_OVERFLOW \<equiv> 0xC0000095"
abbreviation STATUS_PIPE_CONNECTED :: ntstatus where "STATUS_PIPE_CONNECTED \<equiv> 0xC00000B2"
abbreviation STATUS_PIPE_LISTENING :: ntstatus where "STATUS_PIPE_LISTENING \<equiv> 0xC00000B3"
abbreviation STATUS_CANCELLED :: ntstatus where "STATUS_CANCELLED \<equiv> 0xC0000120"
abbreviation STATUS_MORE_PROCESSING_REQUIRED :: ntstatus where "STATUS_MORE_PROCESSING_REQUIRED \<equiv> 0xC0000016"
abbreviation STATUS_PENDING :: ntstatus where "STATUS_PENDING \<equiv> 0x103"
abbreviation STATUS_ACCESS_VIOLATION :: ntstatus where "STATUS_ACCESS_VIOLATION \<equiv> 0xC0000005"
abbreviation STATUS_IN_PAGE_ERROR :: ntstatus where "STATUS_IN_PAGE_ERROR \<equiv> 0xC0000006"
abbreviation STATUS_STACK_OVERFLOW :: ntstatus where "STATUS_STACK_OVERFLOW \<equiv> 0xC00000FD"
abbreviation STATUS_INVALID_SYSTEM_SERVICE :: ntstatus where "STATUS_INVALID_SYSTEM_SERVICE \<equiv> 0xC000001C"
abbreviation STATUS_UNRECOGNIZED_VOLUME :: ntstatus where "STATUS_UNRECOGNIZED_VOLUME \<equiv> 0xC000014F"
abbreviation STATUS_FILE_INVALID :: ntstatus where "STATUS_FILE_INVALID \<equiv> 0xC0000098"
abbreviation STATUS_BUFFER_TOO_SMALL :: ntstatus where "STATUS_BUFFER_TOO_SMALL \<equiv> 0xC0000023"
abbreviation STATUS_DEVICE_REMOVED :: ntstatus where "STATUS_DEVICE_REMOVED \<equiv> 0xC00002B6"
abbreviation STATUS_IO_TIMEOUT :: ntstatus where "STATUS_IO_TIMEOUT \<equiv> 0xC00000B5"
abbreviation STATUS_NOT_FOUND :: ntstatus where "STATUS_NOT_FOUND \<equiv> 0xC0000225"
abbreviation STATUS_DEVICE_NOT_CONNECTED :: ntstatus where "STATUS_DEVICE_NOT_CONNECTED \<equiv> 0xC000009D"
abbreviation STATUS_NOT_A_REPARSE_POINT :: ntstatus where "STATUS_NOT_A_REPARSE_POINT \<equiv> 0xC0000275"
abbreviation STATUS_IO_REPARSE_DATA_INVALID :: ntstatus where "STATUS_IO_REPARSE_DATA_INVALID \<equiv> 0xC0000278"
abbreviation STATUS_IO_REPARSE_TAG_INVALID :: ntstatus where "STATUS_IO_REPARSE_TAG_INVALID \<equiv> 0xC0000276"
abbreviation STATUS_IO_REPARSE_TAG_MISMATCH :: ntstatus where "STATUS_IO_REPARSE_TAG_MISMATCH \<equiv> 0xC0000277"
abbreviation STATUS_IO_REPARSE_TAG_NOT_HANDLED :: ntstatus where "STATUS_IO_REPARSE_TAG_NOT_HANDLED \<equiv> 0xC0000279"
abbreviation STATUS_REPARSE_POINT_NOT_RESOLVED :: ntstatus where "STATUS_REPARSE_POINT_NOT_RESOLVED \<equiv> 0xC0000280"

text \<open>\<^verbatim>\<open>NT_SUCCESS\<close>: the status is a non-negative signed value.\<close>

definition NT_SUCCESS :: "ntstatus \<Rightarrow> bool" where
  "NT_SUCCESS status \<longleftrightarrow> 0 \<le> sint status"

section \<open>The mapping\<close>

definition win32_status_table :: "(dword \<times> ntstatus) list" where
  "win32_status_table =
    [(0, STATUS_SUCCESS),
     (1, STATUS_ILLEGAL_FUNCTION),
     (2, STATUS_OBJECT_NAME_NOT_FOUND),
     (3, STATUS_OBJECT_PATH_NOT_FOUND),
     (4, STATUS_TOO_MANY_OPENED_FILES),
     (5, STATUS_ACCESS_DENIED),
     (6, STATUS_INVALID_HANDLE),
     (8, STATUS_NO_MEMORY),
     (9, STATUS_INVALID_PARAMETER),
     (10, STATUS_INVALID_PARAMETER),
     (11, STATUS_INVALID_IMAGE_FORMAT),
     (14, STATUS_NO_MEMORY),
     (15, STATUS_NO_SUCH_DEVICE),
     (16, STATUS_CANNOT_DELETE),
     (17, STATUS_NOT_SAME_DEVICE),
     (18, STATUS_NO_MORE_FILES),
     (19, STATUS_MEDIA_WRITE_PROTECTED),
     (20, STATUS_NO_SUCH_DEVICE),
     (21, STATUS_DEVICE_NOT_READY),
     (22, STATUS_INVALID_DEVICE_REQUEST),
     (23, STATUS_CRC_ERROR),
     (24, STATUS_INVALID_BUFFER_SIZE),
     (25, STATUS_UNSUCCESSFUL),
     (26, STATUS_DISK_CORRUPT_ERROR),
     (27, STATUS_NONEXISTENT_SECTOR),
     (29, STATUS_IO_DEVICE_ERROR),
     (30, STATUS_IO_DEVICE_ERROR),
     (31, STATUS_UNSUCCESSFUL),
     (32, STATUS_SHARING_VIOLATION),
     (33, STATUS_FILE_LOCK_CONFLICT),
     (34, STATUS_WRONG_VOLUME),
     (36, STATUS_INSUFFICIENT_RESOURCES),
     (38, STATUS_END_OF_FILE),
     (39, STATUS_DISK_FULL),
     (50, STATUS_NOT_SUPPORTED),
     (51, STATUS_REMOTE_NOT_LISTENING),
     (52, STATUS_DUPLICATE_NAME),
     (53, STATUS_BAD_NETWORK_PATH),
     (54, STATUS_NETWORK_BUSY),
     (55, STATUS_DEVICE_DOES_NOT_EXIST),
     (80, STATUS_OBJECT_NAME_COLLISION),
     (82, STATUS_ACCESS_DENIED),
     (87, STATUS_INVALID_PARAMETER),
     (88, STATUS_NET_WRITE_FAULT),
     (108, STATUS_ACCESS_DENIED),
     (109, STATUS_PIPE_BROKEN),
     (110, STATUS_UNSUCCESSFUL),
     (112, STATUS_DISK_FULL),
     (113, STATUS_INSUFFICIENT_RESOURCES),
     (114, STATUS_INVALID_HANDLE),
     (117, STATUS_INVALID_PARAMETER),
     (123, STATUS_OBJECT_NAME_INVALID),
     (124, STATUS_INVALID_LEVEL),
     (125, STATUS_NO_SUCH_FILE),
     (126, STATUS_DLL_NOT_FOUND),
     (127, STATUS_ENTRYPOINT_NOT_FOUND),
     (128, STATUS_UNSUCCESSFUL),
     (129, STATUS_UNSUCCESSFUL),
     (130, STATUS_INVALID_HANDLE),
     (131, STATUS_INVALID_PARAMETER),
     (132, STATUS_INVALID_DEVICE_REQUEST),
     (133, STATUS_UNSUCCESSFUL),
     (134, STATUS_UNSUCCESSFUL),
     (135, STATUS_UNSUCCESSFUL),
     (136, STATUS_UNSUCCESSFUL),
     (137, STATUS_UNSUCCESSFUL),
     (138, STATUS_UNSUCCESSFUL),
     (139, STATUS_UNSUCCESSFUL),
     (140, STATUS_UNSUCCESSFUL),
     (141, STATUS_UNSUCCESSFUL),
     (142, STATUS_DEVICE_BUSY),
     (143, STATUS_UNSUCCESSFUL),
     (144, STATUS_UNSUCCESSFUL),
     (145, STATUS_DIRECTORY_NOT_EMPTY),
     (146, STATUS_UNSUCCESSFUL),
     (147, STATUS_UNSUCCESSFUL),
     (148, STATUS_DEVICE_BUSY),
     (167, STATUS_FILE_LOCK_CONFLICT),
     (170, STATUS_DEVICE_BUSY),
     (183, STATUS_OBJECT_NAME_COLLISION),
     (191, STATUS_INVALID_IMAGE_FORMAT),
     (192, STATUS_INVALID_IMAGE_FORMAT),
     (193, STATUS_INVALID_IMAGE_FORMAT),
     (206, STATUS_NAME_TOO_LONG),
     (208, STATUS_NAME_TOO_LONG),
     (209, STATUS_INVALID_PARAMETER),
     (210, STATUS_UNSUCCESSFUL),
     (212, STATUS_FILE_LOCK_CONFLICT),
     (214, STATUS_INSUFFICIENT_RESOURCES),
     (215, STATUS_UNSUCCESSFUL),
     (230, STATUS_INVALID_PIPE_STATE),
     (231, STATUS_PIPE_BUSY),
     (232, STATUS_PIPE_EMPTY),
     (233, STATUS_PIPE_DISCONNECTED),
     (234, STATUS_BUFFER_OVERFLOW),
     (254, STATUS_INVALID_EA_NAME),
     (255, STATUS_EA_LIST_INCONSISTENT),
     (259, STATUS_NO_MORE_ENTRIES),
     (266, STATUS_UNSUCCESSFUL),
     (267, STATUS_NOT_A_DIRECTORY),
     (275, STATUS_EA_TOO_LARGE),
     (276, STATUS_EA_CORRUPT_ERROR),
     (277, STATUS_EA_TOO_LARGE),
     (278, STATUS_INVALID_HANDLE),
     (282, STATUS_EAS_NOT_SUPPORTED),
     (288, STATUS_RESOURCE_NOT_OWNED),
     (298, STATUS_TOO_MANY_COMMANDS),
     (317, STATUS_MESSAGE_NOT_FOUND),
     (487, STATUS_INVALID_ADDRESS),
     (534, STATUS_INTEGER_OVERFLOW),
     (535, STATUS_PIPE_CONNECTED),
     (536, STATUS_PIPE_LISTENING),
     (994, STATUS_ACCESS_DENIED),
     (995, STATUS_CANCELLED),
     (996, STATUS_MORE_PROCESSING_REQUIRED),
     (997, STATUS_PENDING),
     (998, STATUS_ACCESS_VIOLATION),
     (999, STATUS_IN_PAGE_ERROR),
     (1001, STATUS_STACK_OVERFLOW),
     (1002, STATUS_INVALID_SYSTEM_SERVICE),
     (1003, STATUS_UNSUCCESSFUL),
     (1004, STATUS_INVALID_PARAMETER),
     (1005, STATUS_UNRECOGNIZED_VOLUME),
     (1006, STATUS_FILE_INVALID),
     (122, STATUS_BUFFER_TOO_SMALL),
     (1200, STATUS_DEVICE_DOES_NOT_EXIST),
     (1223, STATUS_CANCELLED),
     (1617, STATUS_DEVICE_REMOVED),
     (1460, STATUS_IO_TIMEOUT),
     (1168, STATUS_NOT_FOUND),
     (1167, STATUS_DEVICE_NOT_CONNECTED),
     (4390, STATUS_NOT_A_REPARSE_POINT),
     (4392, STATUS_IO_REPARSE_DATA_INVALID),
     (4393, STATUS_IO_REPARSE_TAG_INVALID),
     (4394, STATUS_IO_REPARSE_TAG_MISMATCH),
     (1920, STATUS_IO_REPARSE_TAG_NOT_HANDLED)]"

definition cloud_file_errors :: "dword list" where
  "cloud_file_errors =
    [358, 362, 363, 364, 365, 366, 374, 375, 376, 377, 378, 379,
     380, 381, 382, 383, 386, 387, 388, 389, 390, 391, 392, 393,
     394, 395, 396, 397, 398, 404, 405, 426, 434, 475]"

definition NtStatusFromWin32 :: "(dword \<Rightarrow> ntstatus) \<Rightarrow> dword \<Rightarrow> ntstatus" where
  "NtStatusFromWin32 cloud win32Error =
     (case map_of win32_status_table win32Error of
        Some status \<Rightarrow> status
      | None \<Rightarrow> if win32Error \<in> set cloud_file_errors then cloud win32Error else STATUS_UNSUCCESSFUL)"

definition StatusFromWin32Error :: "(dword \<Rightarrow> ntstatus) \<Rightarrow> dword \<Rightarrow> dword \<Rightarrow> ntstatus" where
  "StatusFromWin32Error cloud err fallback = NtStatusFromWin32 cloud (if err \<noteq> 0 then err else fallback)"

text \<open>\<open>StatusOfFailedCall\<close> reads the error of the call that just failed, here its first argument.\<close>

definition StatusOfFailedCall :: "(dword \<Rightarrow> ntstatus) \<Rightarrow> dword \<Rightarrow> dword \<Rightarrow> ntstatus" where
  "StatusOfFailedCall cloud lastError fallback = StatusFromWin32Error cloud lastError fallback"

definition IsGone :: "dword \<Rightarrow> bool" where
  "IsGone error \<longleftrightarrow> error = 2 \<or> error = 3"

text \<open>An error code is its category, \<open>True\<close> for the system category, and its value.\<close>

definition Win32FromErrorCode :: "bool \<times> dword \<Rightarrow> dword" where
  "Win32FromErrorCode ec = (if fst ec then snd ec else 31)"

definition HresultFromNtStatus :: "ntstatus \<Rightarrow> dword" where
  "HresultFromNtStatus status = (if status = STATUS_SUCCESS then 0 else status OR 0x10000000)"

text \<open>\<^verbatim>\<open>ScanFailureStatus\<close> of \<^verbatim>\<open>impl/DirectoryMerge.cpp\<close>.\<close>

definition ScanFailureStatus :: "(dword \<Rightarrow> ntstatus) \<Rightarrow> dword \<Rightarrow> ntstatus" where
  "ScanFailureStatus cloud error =
     (let status = NtStatusFromWin32 cloud error in if NT_SUCCESS status then STATUS_UNSUCCESSFUL else status)"

section \<open>Which errors count as success\<close>

text \<open>The cloud-file status values carry an error or a warning severity.\<close>

definition cloud_failures :: "(dword \<Rightarrow> ntstatus) \<Rightarrow> bool" where
  "cloud_failures cloud \<longleftrightarrow> list_all (\<lambda>e. \<not> NT_SUCCESS (cloud e)) cloud_file_errors"

lemma NT_SUCCESS_simps [simp]:
  "NT_SUCCESS STATUS_SUCCESS" "\<not> NT_SUCCESS STATUS_UNSUCCESSFUL" "\<not> NT_SUCCESS STATUS_NOT_A_DIRECTORY"
  "\<not> NT_SUCCESS STATUS_ACCESS_DENIED" "\<not> NT_SUCCESS STATUS_INVALID_PARAMETER"
  "\<not> NT_SUCCESS STATUS_OBJECT_NAME_COLLISION" "\<not> NT_SUCCESS STATUS_REPARSE_POINT_NOT_RESOLVED"
  "\<not> NT_SUCCESS STATUS_OBJECT_NAME_NOT_FOUND" "\<not> NT_SUCCESS STATUS_OBJECT_PATH_NOT_FOUND"
  by (simp_all add: NT_SUCCESS_def)

lemma table_failures:
  "list_all (\<lambda>(e, s). NT_SUCCESS s \<longrightarrow> e = 0 \<or> e = 997) win32_status_table"
  unfolding win32_status_table_def NT_SUCCESS_def by simp

lemma NtStatusFromWin32_success_cases:
  assumes "cloud_failures cloud" "NT_SUCCESS (NtStatusFromWin32 cloud e)"
  shows "e = 0 \<or> e = 997"
proof (cases "map_of win32_status_table e")
  case None
  then show ?thesis using assms
    by (auto simp: NtStatusFromWin32_def cloud_failures_def list_all_iff split: if_splits)
next
  case (Some s)
  then have "(e, s) \<in> set win32_status_table" by (rule map_of_SomeD)
  then show ?thesis using table_failures assms(2) Some
    by (auto simp: NtStatusFromWin32_def list_all_iff)
qed

lemma NtStatusFromWin32_values [simp]:
  "NtStatusFromWin32 cloud 0 = STATUS_SUCCESS" "NtStatusFromWin32 cloud 997 = STATUS_PENDING"
  "NtStatusFromWin32 cloud 5 = STATUS_ACCESS_DENIED" "NtStatusFromWin32 cloud 2 = STATUS_OBJECT_NAME_NOT_FOUND"
  "NtStatusFromWin32 cloud 3 = STATUS_OBJECT_PATH_NOT_FOUND" "NtStatusFromWin32 cloud 29 = STATUS_IO_DEVICE_ERROR"
  "NtStatusFromWin32 cloud 30 = STATUS_IO_DEVICE_ERROR"
  by (simp_all add: NtStatusFromWin32_def win32_status_table_def)

lemma ScanFailureStatus_fails [simp]: "\<not> NT_SUCCESS (ScanFailureStatus cloud e)"
  by (simp add: ScanFailureStatus_def Let_def)

section \<open>Properties\<close>

text \<open>
  C31: A Win32 error maps to a success status only when it is \<^verbatim>\<open>ERROR_SUCCESS\<close> or
  \<^verbatim>\<open>ERROR_IO_PENDING\<close>, and to \<^verbatim>\<open>STATUS_SUCCESS\<close> only when it is \<^verbatim>\<open>ERROR_SUCCESS\<close>; so a failed call
  that leaves the last error at 0 still reports a failure through the fallback error, and a
  failed directory scan never counts as complete.
\<close>

theorem failed_call_never_succeeds:
  assumes "cloud_failures cloud"
  shows "(NT_SUCCESS (NtStatusFromWin32 cloud e) \<longleftrightarrow> e = 0 \<or> e = 997) \<and>
    (NtStatusFromWin32 cloud e = STATUS_SUCCESS \<longleftrightarrow> e = 0) \<and>
    \<not> NT_SUCCESS (StatusOfFailedCall cloud 0 29) \<and>
    (fallback \<noteq> 0 \<longrightarrow> StatusFromWin32Error cloud e fallback \<noteq> STATUS_SUCCESS) \<and>
    \<not> NT_SUCCESS (ScanFailureStatus cloud e)"
proof -
  have iff: "NT_SUCCESS (NtStatusFromWin32 cloud x) \<longleftrightarrow> x = 0 \<or> x = 997" for x
    using NtStatusFromWin32_success_cases [OF assms] by (auto simp: NT_SUCCESS_def)
  have zero: "NtStatusFromWin32 cloud x = STATUS_SUCCESS \<longleftrightarrow> x = 0" for x
    using iff [of x] by (cases "x = 997") auto
  have "\<not> NT_SUCCESS (StatusOfFailedCall cloud 0 29)"
    using iff [of 29] by (simp add: StatusOfFailedCall_def StatusFromWin32Error_def)
  then show ?thesis using iff [of e] zero by (auto simp: StatusFromWin32Error_def)
qed

theorem failed_call_never_succeeds_witness:
  "cloud_failures (\<lambda>e. 0xC000CF00 + e) \<and> \<not> NT_SUCCESS (NtStatusFromWin32 (\<lambda>e. 0xC000CF00 + e) 426)"
proof -
  have c: "cloud_failures (\<lambda>e. 0xC000CF00 + e)"
    by (simp add: cloud_failures_def cloud_file_errors_def NT_SUCCESS_def)
  then show ?thesis using failed_call_never_succeeds [of "\<lambda>e. 0xC000CF00 + e" 426 1] by simp
qed

text \<open>
  The value the C ABI returns for an engine status keeps its severity and loses no status:
  it is a success exactly when the status is, it is \<^verbatim>\<open>S_OK\<close> exactly for \<^verbatim>\<open>STATUS_SUCCESS\<close>, and two
  statuses without the facility bit that give the same value are equal.
\<close>

theorem HresultFromNtStatus_faithful:
  "(0 \<le> sint (HresultFromNtStatus s) \<longleftrightarrow> NT_SUCCESS s) \<and> (HresultFromNtStatus s = 0 \<longleftrightarrow> s = STATUS_SUCCESS) \<and>
   (\<not> bit s 28 \<and> \<not> bit t 28 \<longrightarrow> HresultFromNtStatus s = HresultFromNtStatus t \<longrightarrow> s = t)"
proof -
  have b: "bit (x OR 0x10000000) n \<longleftrightarrow> bit x n \<or> n = 28" for x :: ntstatus and n
  proof -
    have e: "(0x10000000 :: ntstatus) = 2 ^ 28" by simp
    show ?thesis unfolding bit_or_iff e bit_exp_iff by auto
  qed
  have sgn: "0 \<le> sint x \<longleftrightarrow> \<not> bit x 31" for x :: ntstatus
    using bit_last_iff [of x] by auto
  have "s = t" if "\<not> bit s 28" "\<not> bit t 28" "s OR 0x10000000 = t OR 0x10000000"
  proof (rule bit_word_eqI)
    fix n
    have "bit (s OR 0x10000000) n = bit (t OR 0x10000000) n" using that(3) by simp
    then show "bit s n = bit t n" using that(1,2) by (cases "n = 28") (auto simp: b)
  qed
  moreover have "s OR 0x10000000 \<noteq> 0" for s :: ntstatus
    using b [of s 28] by (metis bit_0_eq bot_apply bot_bool_def)
  ultimately show ?thesis
    by (auto simp: HresultFromNtStatus_def NT_SUCCESS_def sgn b)
qed

theorem HresultFromNtStatus_faithful_witness:
  "HresultFromNtStatus 0xC0000022 \<noteq> HresultFromNtStatus 0xC0000034"
proof -
  have "\<not> bit (0xC0000022 :: ntstatus) 28" "\<not> bit (0xC0000034 :: ntstatus) 28" by code_simp+
  then show ?thesis using HresultFromNtStatus_faithful [of "0xC0000022" "0xC0000034"] by auto
qed

end
