(* ===== verification/Host_Disk.thy ===== *)
theory Host_Disk
  imports Layer_Types Nt_Status "HOL-Library.AList"
begin

text \<open>
  What the engine calls and does not implement: the Win32 file system, BCrypt, the code page
  conversions and the JSON library. They are the fields of the record \<open>host\<close>, over a type \<open>'w\<close> of
  disk states and a type \<open>'h\<close> of open handles; every definition of the development that reaches the
  disk takes the record and the disk as arguments. A call that fails gives \<open>Inl\<close>, or \<open>Some\<close>, of the
  value that \<^verbatim>\<open>GetLastError\<close> then has; a call that changes the disk gives the new disk. An attribute
  read fails where the API gives \<^verbatim>\<open>INVALID_FILE_ATTRIBUTES\<close>. The predicates at the end state the
  documented behaviour that single theorems rely on, and \<open>mem_host\<close> is a disk in memory that has it.
\<close>

section \<open>Data\<close>

type_synonym byte = "8 word"

definition blit :: "string \<Rightarrow> byte list" where
  "blit s = map of_char s"

text \<open>The fields of \<^verbatim>\<open>WIN32_FIND_DATAW\<close> that the engine reads.\<close>

record find_data =
  cFileName :: wstring
  dwFileAttributes :: dword
  dwReserved0 :: dword

text \<open>
  A parsed JSON value. A float carries its conversion to \<^verbatim>\<open>uint64_t\<close>.
\<close>

datatype json =
    JNull
  | JBool bool
  | JUnsigned uint64
  | JInteger int
  | JFloat uint64
  | JString "byte list"
  | JArray "json list"
  | JObject "(byte list \<times> json) list"

text \<open>The last write, last access and creation time of an entry.\<close>

record EntryTimes =
  creationTime :: FILETIME
  accessTime :: FILETIME
  writeTime :: FILETIME

text \<open>The fields of \<^verbatim>\<open>WIN32_FILE_ATTRIBUTE_DATA\<close> that the engine reads.\<close>

record attribute_data =
  dataAttributes :: dword
  dataTimes :: EntryTimes
  nFileSizeHigh :: dword
  nFileSizeLow :: dword

definition FILE_FLAG_BACKUP_SEMANTICS :: dword where "FILE_FLAG_BACKUP_SEMANTICS = 0x2000000"
definition FILE_FLAG_OPEN_REPARSE_POINT :: dword where "FILE_FLAG_OPEN_REPARSE_POINT = 0x200000"
definition FILE_READ_ATTRIBUTES :: dword where "FILE_READ_ATTRIBUTES = 0x80"
definition FILE_WRITE_ATTRIBUTES :: dword where "FILE_WRITE_ATTRIBUTES = 0x100"
definition GENERIC_READ :: dword where "GENERIC_READ = 0x80000000"
definition DELETE_ACCESS :: dword where "DELETE_ACCESS = 0x10000"
definition SYNCHRONIZE :: dword where "SYNCHRONIZE = 0x100000"
definition WRITE_DAC :: dword where "WRITE_DAC = 0x40000"
definition FILE_LIST_DIRECTORY :: dword where "FILE_LIST_DIRECTORY = 0x1"
definition FILE_ATTRIBUTE_READONLY :: dword where "FILE_ATTRIBUTE_READONLY = 0x1"

section \<open>Services\<close>

record ('w, 'h) host = win32_text +
  CloudFileStatus :: "dword \<Rightarrow> ntstatus"
  GetFileAttributesW :: "'w \<Rightarrow> wstring \<Rightarrow> dword + dword"
  GetFileAttributesExW :: "'w \<Rightarrow> wstring \<Rightarrow> dword + attribute_data"
  OpenReparsePoint :: "'w \<Rightarrow> wstring \<Rightarrow> dword \<Rightarrow> dword + 'h"
  OpenFollowing :: "'w \<Rightarrow> wstring \<Rightarrow> dword \<Rightarrow> dword + 'h"
  FileAttributeTagInfo :: "'w \<Rightarrow> 'h \<Rightarrow> dword + dword"
  FileBasicAttributes :: "'w \<Rightarrow> 'h \<Rightarrow> dword + dword"
  GetReparsePoint :: "'w \<Rightarrow> 'h \<Rightarrow> dword + byte list"
  FindFiles :: "'w \<Rightarrow> wstring \<Rightarrow> dword + (find_data list \<times> dword)"
  ListDirectory :: "'w \<Rightarrow> 'h \<Rightarrow> wstring list \<times> dword"
  GetFileSizeEx :: "'w \<Rightarrow> 'h \<Rightarrow> dword + nat"
  ReadFile :: "'w \<Rightarrow> 'h \<Rightarrow> nat \<Rightarrow> dword + byte list"
  CreateAlways :: "'w \<Rightarrow> wstring \<Rightarrow> dword \<Rightarrow> 'w \<times> (dword + 'h)"
  WriteFile :: "'w \<Rightarrow> 'h \<Rightarrow> byte list \<Rightarrow> 'w \<times> (dword + nat)"
  DeleteFileW :: "'w \<Rightarrow> wstring \<Rightarrow> 'w \<times> dword option"
  RemoveDirectoryW :: "'w \<Rightarrow> wstring \<Rightarrow> 'w \<times> dword option"
  CreateDirectoryW :: "'w \<Rightarrow> wstring \<Rightarrow> 'w \<times> dword option"
  MoveFileExW :: "'w \<Rightarrow> wstring \<Rightarrow> wstring \<Rightarrow> 'w \<times> dword option"
  RenameByHandle :: "'w \<Rightarrow> 'h \<Rightarrow> bool \<Rightarrow> wstring \<Rightarrow> 'w \<times> dword option"
  MarkForDeletePosix :: "'w \<Rightarrow> 'h \<Rightarrow> 'w \<times> dword option"
  MarkForDeletePlain :: "'w \<Rightarrow> 'h \<Rightarrow> 'w \<times> dword option"
  SetAttributesByHandle :: "'w \<Rightarrow> 'h \<Rightarrow> dword \<Rightarrow> 'w \<times> dword option"
  SetFileTime :: "'w \<Rightarrow> 'h \<Rightarrow> EntryTimes \<Rightarrow> 'w \<times> dword option"
  SetBasicInfo :: "'w \<Rightarrow> 'h \<Rightarrow> EntryTimes \<Rightarrow> dword \<Rightarrow> 'w \<times> dword option"
  GrantAccess :: "'w \<Rightarrow> 'h \<Rightarrow> dword \<Rightarrow> 'w \<times> dword"
  fs_remove_all :: "'w \<Rightarrow> wstring \<Rightarrow> 'w \<times> (bool \<times> dword) option"
  fs_create_directories :: "'w \<Rightarrow> wstring \<Rightarrow> 'w \<times> (bool \<times> dword) option"
  OpenLockFile :: "'w \<Rightarrow> wstring \<Rightarrow> 'w \<times> (dword + 'h)"
  CloseLockFile :: "'w \<Rightarrow> 'h \<Rightarrow> 'w"
  GetFinalPathNameByHandleW :: "'w \<Rightarrow> 'h \<Rightarrow> nat \<Rightarrow> nat \<times> wstring"
  ProcessThreadSuffix :: wstring
  WideCharToMultiByte :: "wstring \<Rightarrow> byte list"
  MultiByteToWideChar :: "byte list \<Rightarrow> wstring"
  Sha1Digest :: "byte list \<Rightarrow> byte list option"
  json_parse :: "byte list \<Rightarrow> json option"
  json_dump :: "json \<Rightarrow> byte list"

text \<open>The two uses of an attribute read: whether an entry is there, and the attributes or the invalid value.\<close>

definition attributes_at :: "('w, 'h) host \<Rightarrow> 'w \<Rightarrow> wstring \<Rightarrow> dword" where
  "attributes_at os w path =
     (case GetFileAttributesW os w (WithExtendedPrefix os path) of Inl e \<Rightarrow> INVALID_FILE_ATTRIBUTES | Inr a \<Rightarrow> a)"

abbreviation nt_status :: "('w, 'h) host \<Rightarrow> dword \<Rightarrow> ntstatus" where
  "nt_status os \<equiv> NtStatusFromWin32 (CloudFileStatus os)"

section \<open>A disk in memory\<close>

text \<open>
  An entry is keyed by its full path in lowercase, a stream by the path of its entry, a colon and
  the stream name. A handle is the key it was opened for, and the file pointer is kept with the entry.
\<close>

record mem_node =
  nodeAttributes :: dword
  nodeTag :: dword
  nodeReparse :: "byte list"
  nodeData :: "byte list"
  nodePointer :: nat

type_synonym mem_disk = "(wstring \<times> mem_node) list"

definition mem_key :: "wstring \<Rightarrow> wstring" where
  "mem_key p = map ascii_lower p"

definition mem_dir :: mem_node where
  "mem_dir = \<lparr>nodeAttributes = FILE_ATTRIBUTE_DIRECTORY, nodeTag = 0, nodeReparse = [], nodeData = [], nodePointer = 0\<rparr>"

definition mem_file :: "byte list \<Rightarrow> mem_node" where
  "mem_file bs = \<lparr>nodeAttributes = FILE_ATTRIBUTE_NORMAL, nodeTag = 0, nodeReparse = [], nodeData = bs, nodePointer = 0\<rparr>"

definition mem_link :: "dword \<Rightarrow> byte list \<Rightarrow> mem_node" where
  "mem_link tag bs = \<lparr>nodeAttributes = FILE_ATTRIBUTE_DIRECTORY OR FILE_ATTRIBUTE_REPARSE_POINT,
     nodeTag = tag, nodeReparse = bs, nodeData = [], nodePointer = 0\<rparr>"

definition mem_attributes :: "mem_disk \<Rightarrow> wstring \<Rightarrow> dword + dword" where
  "mem_attributes w p = (case map_of w (mem_key p) of None \<Rightarrow> Inl ERROR_FILE_NOT_FOUND | Some n \<Rightarrow> Inr (nodeAttributes n))"

definition mem_attributes_ex :: "mem_disk \<Rightarrow> wstring \<Rightarrow> dword + attribute_data" where
  "mem_attributes_ex w p =
     (case map_of w (mem_key p) of
        None \<Rightarrow> Inl ERROR_FILE_NOT_FOUND
      | Some n \<Rightarrow>
          let t = \<lparr>dwLowDateTime = 0, dwHighDateTime = 0\<rparr> in
          Inr \<lparr>dataAttributes = nodeAttributes n, dataTimes = \<lparr>creationTime = t, accessTime = t, writeTime = t\<rparr>,
            nFileSizeHigh = 0, nFileSizeLow = of_nat (length (nodeData n))\<rparr>)"

definition mem_open :: "mem_disk \<Rightarrow> wstring \<Rightarrow> dword \<Rightarrow> dword + wstring" where
  "mem_open w p acc = (case map_of w (mem_key p) of None \<Rightarrow> Inl ERROR_FILE_NOT_FOUND | Some n \<Rightarrow> Inr (mem_key p))"

definition mem_get :: "(mem_node \<Rightarrow> 'b) \<Rightarrow> mem_disk \<Rightarrow> wstring \<Rightarrow> dword + 'b" where
  "mem_get f w h = (case map_of w h of None \<Rightarrow> Inl ERROR_FILE_NOT_FOUND | Some n \<Rightarrow> Inr (f n))"

definition mem_children :: "mem_disk \<Rightarrow> wstring \<Rightarrow> find_data list" where
  "mem_children w dir =
     [\<lparr>cFileName = drop (length dir) k, dwFileAttributes = nodeAttributes n, dwReserved0 = nodeTag n\<rparr>.
        (k, n) \<leftarrow> w, starts_with k dir, drop (length dir) k \<noteq> [],
        bslash \<notin> set (drop (length dir) k), wcolon \<notin> set (drop (length dir) k)]"

text \<open>The search pattern is a directory, a separator and an asterisk.\<close>

definition mem_find :: "mem_disk \<Rightarrow> wstring \<Rightarrow> dword + (find_data list \<times> dword)" where
  "mem_find w pattern =
     (let dir = mem_key (butlast pattern) in
      case map_of w (butlast dir) of
        None \<Rightarrow> Inl ERROR_PATH_NOT_FOUND
      | Some n \<Rightarrow>
          if nodeAttributes n AND FILE_ATTRIBUTE_DIRECTORY = 0 then Inl ERROR_DIRECTORY
          else Inr (mem_children w dir, ERROR_NO_MORE_FILES))"

text \<open>
  A byte format for JSON values, which the disk in memory uses in place of the text of the library: a tag,
  then the value, with lengths as groups of seven bits; a last byte 1 ends the text.
\<close>

function put_nat :: "int \<Rightarrow> byte list" where
  "put_nat n = (if n < 128 then [word_of_int n] else word_of_int (n mod 128 + 128) # put_nat (n div 128))"
  by pat_completeness auto
termination
  by (relation "measure nat") auto

fun get_nat :: "byte list \<Rightarrow> (int \<times> byte list) option" where
  "get_nat [] = None"
| "get_nat (b # bs) =
     (if uint b < 128 then Some (uint b, bs)
      else (case get_nat bs of None \<Rightarrow> None | Some (n, rest) \<Rightarrow> Some (uint b - 128 + 128 * n, rest)))"

definition put_bytes :: "byte list \<Rightarrow> byte list" where
  "put_bytes s = put_nat (int (length s)) @ s"

definition get_bytes :: "byte list \<Rightarrow> (byte list \<times> byte list) option" where
  "get_bytes bs =
     (case get_nat bs of None \<Rightarrow> None | Some (n, rest) \<Rightarrow> if int (length rest) < n then None else Some (take (nat n) rest, drop (nat n) rest))"

primrec put_json :: "json \<Rightarrow> byte list" where
  "put_json JNull = [1]"
| "put_json (JBool b) = [if b then 2 else 3]"
| "put_json (JUnsigned n) = 4 # put_nat (uint n)"
| "put_json (JInteger i) = (if i < 0 then 5 else 6) # put_nat \<bar>i\<bar>"
| "put_json (JFloat n) = 7 # put_nat (uint n)"
| "put_json (JString s) = 8 # put_bytes s"
| "put_json (JArray js) = 9 # put_nat (int (length js)) @ concat (map put_json js)"
| "put_json (JObject kvs) = 10 # put_nat (int (length kvs)) @ concat (map (\<lambda>kv. put_bytes (fst kv) @ snd kv) (map (map_prod id put_json) kvs))"

function get_json :: "nat \<Rightarrow> byte list \<Rightarrow> (json \<times> byte list) option"
  and get_items :: "nat \<Rightarrow> nat \<Rightarrow> byte list \<Rightarrow> (json list \<times> byte list) option"
  and get_members :: "nat \<Rightarrow> nat \<Rightarrow> byte list \<Rightarrow> ((byte list \<times> json) list \<times> byte list) option" where
  "get_json 0 bs = None"
| "get_json (Suc d) [] = None"
| "get_json (Suc d) (t # bs) =
     (if t = 1 then Some (JNull, bs)
      else if t = 2 \<or> t = 3 then Some (JBool (t = 2), bs)
      else if t = 4 then map_option (\<lambda>(n, r). (JUnsigned (word_of_int n), r)) (get_nat bs)
      else if t = 5 \<or> t = 6 then map_option (\<lambda>(n, r). (JInteger (if t = 5 then - n else n), r)) (get_nat bs)
      else if t = 7 then map_option (\<lambda>(n, r). (JFloat (word_of_int n), r)) (get_nat bs)
      else if t = 8 then map_option (\<lambda>(s, r). (JString s, r)) (get_bytes bs)
      else if t = 9 then Option.bind (get_nat bs) (\<lambda>(n, r). map_option (\<lambda>(js, r). (JArray js, r)) (get_items d (nat n) r))
      else if t = 10 then Option.bind (get_nat bs) (\<lambda>(n, r). map_option (\<lambda>(kvs, r). (JObject kvs, r)) (get_members d (nat n) r))
      else None)"
| "get_items d 0 bs = Some ([], bs)"
| "get_items d (Suc n) bs =
     Option.bind (get_json d bs) (\<lambda>(j, r). map_option (\<lambda>(js, r). (j # js, r)) (get_items d n r))"
| "get_members d 0 bs = Some ([], bs)"
| "get_members d (Suc n) bs =
     Option.bind (get_bytes bs) (\<lambda>(k, r). Option.bind (get_json d r) (\<lambda>(j, r). map_option (\<lambda>(kvs, r). ((k, j) # kvs, r)) (get_members d n r)))"
  by pat_completeness auto
termination
  by (relation "inv_image (less_than <*lex*> less_than)
      (\<lambda>x. case x of Inl (d, bs) \<Rightarrow> (2 * d, 0) | Inr (Inl (d, n, bs)) \<Rightarrow> (2 * d + 1, n) | Inr (Inr (d, n, bs)) \<Rightarrow> (2 * d + 1, n))")
    auto

primrec json_depth :: "json \<Rightarrow> nat" where
  "json_depth JNull = 1"
| "json_depth (JBool b) = 1"
| "json_depth (JUnsigned n) = 1"
| "json_depth (JInteger i) = 1"
| "json_depth (JFloat n) = 1"
| "json_depth (JString s) = 1"
| "json_depth (JArray js) = Suc (sum_list (map json_depth js))"
| "json_depth (JObject kvs) = Suc (sum_list (map snd (map (map_prod id json_depth) kvs)))"

lemma get_put_nat [simp]: "0 \<le> n \<Longrightarrow> get_nat (put_nat n @ bs) = Some (n, bs)"
proof (induction n rule: put_nat.induct)
  case (1 n)
  have byte: "uint (word_of_int k :: byte) = k" if "0 \<le> k" "k < 256" for k using that by (simp add: unsigned_of_int take_bit_int_eq_self)
  have high: "uint (word_of_int (n mod 128 + 128) :: byte) = n mod 128 + 128"
    by (rule byte) (use pos_mod_bound [of 128 n] pos_mod_sign [of 128 n] in linarith)+
  have low: "(n mod 128 < 0) = False" by (simp add: not_less)
  show ?case
  proof (cases "n < 128")
    case False
    moreover have "get_nat (put_nat (n div 128) @ bs) = Some (n div 128, bs)" using 1 False by simp
    ultimately show ?thesis using high by (simp add: low put_nat.simps [of n] del: put_nat.simps of_int_add)
  qed (use byte 1 in \<open>simp add: put_nat.simps [of n] del: put_nat.simps\<close>)
qed

lemma get_put_bytes [simp]: "get_bytes (put_bytes s @ bs) = Some (s, bs)"
  by (simp add: get_bytes_def put_bytes_def del: put_nat.simps)

lemma get_put_items:
  assumes "\<And>j bs. j \<in> set js \<Longrightarrow> get_json d (put_json j @ bs) = Some (j, bs)"
  shows "get_items d (length js) (concat (map put_json js) @ bs) = Some (js, bs)"
  using assms by (induction js arbitrary: bs) (simp_all del: get_json.simps)

lemma get_put_members:
  assumes "\<And>k j bs. (k, j) \<in> set kvs \<Longrightarrow> get_json d (put_json j @ bs) = Some (j, bs)"
  shows "get_members d (length kvs) (concat (map (\<lambda>kv. put_bytes (fst kv) @ snd kv) (map (map_prod id put_json) kvs)) @ bs) = Some (kvs, bs)"
  using assms
proof (induction kvs arbitrary: bs)
  case (Cons kv kvs)
  obtain k j where kv: "kv = (k, j)" by (cases kv)
  have "get_members d (length kvs) (concat (map (\<lambda>kv. put_bytes (fst kv) @ snd kv) (map (map_prod id put_json) kvs)) @ bs) = Some (kvs, bs)"
    by (rule Cons.IH, rule Cons.prems, rule list.set_intros(2), assumption)
  then show ?case using Cons.prems [of k j] by (simp add: kv id_def del: get_json.simps)
qed simp

lemma get_put_json: "json_depth j \<le> d \<Longrightarrow> get_json d (put_json j @ bs) = Some (j, bs)"
proof (induction j arbitrary: d bs)
  case (JArray js)
  then obtain d' where d: "d = Suc d'" by (cases d) auto
  have "json_depth j \<le> d'" if "j \<in> set js" for j
    using member_le_sum_list [of "json_depth j" "map json_depth js"] that JArray.prems d by auto
  then have "get_items d' (length js) (concat (map put_json js) @ bs) = Some (js, bs)"
    using JArray.IH by (intro get_put_items) blast
  then show ?case by (simp add: d del: put_nat.simps)
next
  case (JObject kvs)
  then obtain d' where d: "d = Suc d'" by (cases d) auto
  have "json_depth j \<le> d'" if "(k, j) \<in> set kvs" for k j
    using member_le_sum_list [of "json_depth j" "map snd (map (map_prod id json_depth) kvs)"] that JObject.prems d by force
  then have "get_members d' (length kvs) (concat (map (\<lambda>kv. put_bytes (fst kv) @ snd kv) (map (map_prod id put_json) kvs)) @ bs) = Some (kvs, bs)"
    using JObject.IH by (intro get_put_members) (force simp: snds.simps)
  then show ?case by (simp add: d del: put_nat.simps)
qed (case_tac d; simp del: put_nat.simps)+

lemma depth_put_json: "json_depth j \<le> length (put_json j)"
proof (induction j)
  case (JArray js)
  then have "sum_list (map json_depth js) \<le> sum_list (map (length \<circ> put_json) js)" by (intro sum_list_mono) simp
  then show ?case by (simp add: length_concat comp_def del: put_nat.simps)
next
  case (JObject kvs)
  then have "sum_list (map snd (map (map_prod id json_depth) kvs)) \<le> sum_list (map (\<lambda>kv. length (put_bytes (fst kv)) + length (put_json (snd kv))) kvs)"
    unfolding map_map by (intro sum_list_mono) (force simp: snds.simps)
  then show ?case by (simp add: length_concat comp_def del: put_nat.simps)
qed simp_all

definition dump_json :: "json \<Rightarrow> byte list" where "dump_json j = put_json j @ [1]"
definition parse_json :: "byte list \<Rightarrow> json option" where
  "parse_json bs = (case get_json (length bs) bs of Some (j, [b]) \<Rightarrow> Some j | _ \<Rightarrow> None)"

lemma parse_dump_json: "parse_json (dump_json j) = Some j"
  using depth_put_json [of j] by (simp add: parse_json_def dump_json_def get_put_json)

definition mem_put :: "mem_disk \<Rightarrow> wstring \<Rightarrow> mem_node \<Rightarrow> mem_disk" where
  "mem_put w p n = AList.update (mem_key p) n w"

text \<open>A directory or a link cannot be overwritten by a file. The attributes are the low bits of the flags.\<close>

definition mem_create :: "mem_disk \<Rightarrow> wstring \<Rightarrow> dword \<Rightarrow> mem_disk \<times> (dword + wstring)" where
  "mem_create w p attrs =
     (case map_of w (mem_key p) of
        Some n \<Rightarrow>
          if nodeAttributes n AND (FILE_ATTRIBUTE_DIRECTORY OR FILE_ATTRIBUTE_REPARSE_POINT) \<noteq> 0 then (w, Inl ERROR_ACCESS_DENIED)
          else (mem_put w p ((mem_file [])\<lparr>nodeAttributes := attrs AND 0xFFFF\<rparr>), Inr (mem_key p))
      | None \<Rightarrow> (mem_put w p ((mem_file [])\<lparr>nodeAttributes := attrs AND 0xFFFF\<rparr>), Inr (mem_key p)))"

text \<open>A lock file is there while it is open.\<close>

definition mem_lock :: "mem_disk \<Rightarrow> wstring \<Rightarrow> mem_disk \<times> (dword + wstring)" where
  "mem_lock w p =
     (if mem_key p \<in> fst ` set w then (w, Inl ERROR_SHARING_VIOLATION) else (mem_put w p (mem_file []), Inr (mem_key p)))"

text \<open>A file cut or extended to a length; a write at a position of a file fills a gap before the position with zeros.\<close>

definition padded_to :: "nat \<Rightarrow> byte list \<Rightarrow> byte list" where
  "padded_to n bs = take n bs @ replicate (n - length bs) 0"

definition overwrite :: "byte list \<Rightarrow> nat \<Rightarrow> byte list \<Rightarrow> byte list" where
  "overwrite old pos bs =
     (if bs = [] then old else padded_to pos old @ bs @ drop (pos + length bs) old)"

lemma length_padded_to [simp]: "length (padded_to n bs) = n"
  by (simp add: padded_to_def)

lemma padded_to_same [simp]: "padded_to (length bs) bs = bs"
  by (simp add: padded_to_def)

lemma nth_padded_to: "i < n \<Longrightarrow> padded_to n bs ! i = (if i < length bs then bs ! i else 0)"
  by (simp add: padded_to_def nth_append)

lemma overwrite_empty [simp]: "overwrite [] 0 bs = bs"
  by (simp add: overwrite_def padded_to_def)

definition mem_write :: "mem_disk \<Rightarrow> wstring \<Rightarrow> byte list \<Rightarrow> mem_disk \<times> (dword + nat)" where
  "mem_write w h bs =
     (case map_of w h of
        None \<Rightarrow> (w, Inl 6)
      | Some n \<Rightarrow>
          (AList.update h (n\<lparr>nodeData := overwrite (nodeData n) (nodePointer n) bs, nodePointer := nodePointer n + length bs\<rparr>) w,
           Inr (length bs)))"

definition mem_delete :: "mem_disk \<Rightarrow> wstring \<Rightarrow> mem_disk \<times> dword option" where
  "mem_delete w p =
     (if mem_key p \<in> fst ` set w then (AList.delete (mem_key p) w, None) else (w, Some ERROR_FILE_NOT_FOUND))"

text \<open>A move takes the entry, its streams and what is below it.\<close>

definition mem_rekey :: "wstring \<Rightarrow> wstring \<Rightarrow> wstring \<Rightarrow> wstring" where
  "mem_rekey src dst k =
     (if k = src \<or> starts_with k (src @ [bslash]) \<or> starts_with k (src @ [wcolon]) then dst @ drop (length src) k else k)"

definition mem_move :: "mem_disk \<Rightarrow> wstring \<Rightarrow> bool \<Rightarrow> wstring \<Rightarrow> mem_disk \<times> dword option" where
  "mem_move w src replace dst =
     (if src \<notin> fst ` set w then (w, Some ERROR_FILE_NOT_FOUND)
      else if mem_key dst = src then (w, None)
      else if \<not> replace \<and> mem_key dst \<in> fst ` set w then (w, Some ERROR_ALREADY_EXISTS)
      else (map (\<lambda>(k, n). (mem_rekey src (mem_key dst) k, n)) (filter (\<lambda>(k, n). k \<noteq> mem_key dst) w), None))"

definition mem_remove_all :: "mem_disk \<Rightarrow> wstring \<Rightarrow> mem_disk \<times> (bool \<times> dword) option" where
  "mem_remove_all w p =
     (filter (\<lambda>(k, n). \<not> (k = mem_key p \<or> starts_with k (mem_key p @ [bslash]) \<or> starts_with k (mem_key p @ [wcolon]))) w, None)"

fun mem_mkdirs :: "mem_disk \<Rightarrow> wstring list \<Rightarrow> mem_disk" where
  "mem_mkdirs w [] = w"
| "mem_mkdirs w (p # ps) = mem_mkdirs (if mem_key p \<in> fst ` set w then w else mem_put w p mem_dir) ps"

text \<open>The directories of a path with a drive in extended form: each prefix that ends before a separator.\<close>

definition mem_directories :: "wstring \<Rightarrow> wstring list" where
  "mem_directories p = [take i p. i \<leftarrow> [7..<length p], p ! i = bslash] @ [p]"

definition mem_host :: "(mem_disk, wstring) host" where
  "mem_host =
     \<lparr>CharLowerW = ascii_lower, OrdinalUpperW = ascii_upper, GetFullPathNameW = Some,
      CloudFileStatus = (\<lambda>e. 0xC000CF00 + e),
      GetFileAttributesW = mem_attributes,
      GetFileAttributesExW = mem_attributes_ex,
      OpenReparsePoint = mem_open, OpenFollowing = mem_open,
      FileAttributeTagInfo = mem_get nodeTag, FileBasicAttributes = mem_get nodeAttributes,
      GetReparsePoint = mem_get nodeReparse,
      FindFiles = mem_find,
      ListDirectory = (\<lambda>w h. (map cFileName (mem_children w (h @ [bslash])), ERROR_NO_MORE_FILES)),
      GetFileSizeEx = mem_get (length \<circ> nodeData),
      ReadFile = (\<lambda>w h n. mem_get (take n \<circ> nodeData) w h),
      CreateAlways = mem_create, WriteFile = mem_write, DeleteFileW = mem_delete,
      RemoveDirectoryW = mem_delete,
      CreateDirectoryW = (\<lambda>w p. if mem_key p \<in> fst ` set w then (w, Some ERROR_ALREADY_EXISTS) else (mem_put w p mem_dir, None)),
      MoveFileExW = (\<lambda>w src dst. mem_move w (mem_key src) True dst),
      RenameByHandle = mem_move,
      MarkForDeletePosix = mem_delete, MarkForDeletePlain = mem_delete,
      SetAttributesByHandle = (\<lambda>w h a. (w, None)), SetFileTime = (\<lambda>w h t. (w, None)), SetBasicInfo = (\<lambda>w h t a. (w, None)),
      GrantAccess = (\<lambda>w p a. (w, ERROR_ACCESS_DENIED)),
      fs_remove_all = mem_remove_all,
      fs_create_directories = (\<lambda>w p. (mem_mkdirs w (mem_directories p), None)),
      OpenLockFile = mem_lock, CloseLockFile = (\<lambda>w h. fst (mem_delete w h)),
      GetFinalPathNameByHandleW = (\<lambda>w h n. (if n = 0 then Suc (length h) else length h, h)),
      ProcessThreadSuffix = wlit ''4.8'',
      WideCharToMultiByte = map ucast, MultiByteToWideChar = map ucast,
      Sha1Digest = (\<lambda>bs. Some (take 20 (bs @ replicate 20 0))),
      json_parse = parse_json, json_dump = dump_json\<rparr>"

text \<open>A layer on that disk, and a path of it.\<close>

definition sample_upper :: wstring where "sample_upper = wlit ''C:'' @ [bslash] @ wlit ''u''"
definition sample_lower :: wstring where "sample_lower = wlit ''C:'' @ [bslash] @ wlit ''l''"

definition sample_config :: LayerConfig where
  "sample_config = \<lparr>upperPath = sample_upper, lowerPaths = [sample_lower], workDirPath = wlit ''C:'' @ [bslash] @ wlit ''w'',
     enableProcessTracking = False, processRulesPath = [], accessLogCapacity = 0, pathCacheCapacity = 8,
     hostCapabilities = LM_CAP_ADS\<rparr>"

definition on_disk :: "wstring \<Rightarrow> wstring" where
  "on_disk p = mem_key (WithExtendedPrefix mem_host p)"

section \<open>Documented behaviour of the disk\<close>

text \<open>What an open file holds.\<close>

definition handle_holds :: "('w, 'h) host \<Rightarrow> 'w \<Rightarrow> 'h \<Rightarrow> byte list \<Rightarrow> bool" where
  "handle_holds os w h bs \<longleftrightarrow> GetFileSizeEx os w h = Inr (length bs) \<and> ReadFile os w h (length bs) = Inr bs"

text \<open>
  A complete write to a file that was opened with \<^verbatim>\<open>CREATE_ALWAYS\<close> is what a later open for reading finds, when
  that open succeeds: an open of the entry itself after a create of the entry itself, and an open that follows
  links after a create that follows them and a replacing move. An open may still fail.
\<close>

definition durable :: "('w, 'h) host \<Rightarrow> bool" where
  "durable os \<longleftrightarrow>
     (\<forall>w path a w1 h bs w2 acc g. a AND FILE_FLAG_OPEN_REPARSE_POINT \<noteq> 0 \<longrightarrow> CreateAlways os w path a = (w1, Inr h) \<longrightarrow>
        WriteFile os w1 h bs = (w2, Inr (length bs)) \<longrightarrow> acc AND GENERIC_READ \<noteq> 0 \<longrightarrow> OpenReparsePoint os w2 path acc = Inr g \<longrightarrow>
        handle_holds os w2 g bs) \<and>
     (\<forall>w src dst a w1 h bs w2 w3 acc g. a AND FILE_FLAG_OPEN_REPARSE_POINT = 0 \<longrightarrow> CreateAlways os w src a = (w1, Inr h) \<longrightarrow>
        WriteFile os w1 h bs = (w2, Inr (length bs)) \<longrightarrow> MoveFileExW os w2 src dst = (w3, None) \<longrightarrow> acc AND GENERIC_READ \<noteq> 0 \<longrightarrow>
        OpenFollowing os w3 dst acc = Inr g \<longrightarrow> handle_holds os w3 g bs)"

lemma durableD:
  assumes "durable os" "WriteFile os w1 h bs = (w2, Inr (length bs))" "acc AND GENERIC_READ \<noteq> 0"
  shows "a AND FILE_FLAG_OPEN_REPARSE_POINT \<noteq> 0 \<Longrightarrow> CreateAlways os w path a = (w1, Inr h) \<Longrightarrow> OpenReparsePoint os w2 path acc = Inr g \<Longrightarrow>
      handle_holds os w2 g bs"
    and "a AND FILE_FLAG_OPEN_REPARSE_POINT = 0 \<Longrightarrow> CreateAlways os w path a = (w1, Inr h) \<Longrightarrow> MoveFileExW os w2 path dst = (w3, None) \<Longrightarrow>
      OpenFollowing os w3 dst acc = Inr g \<Longrightarrow> handle_holds os w3 g bs"
  using assms unfolding durable_def by blast+

lemma mem_host_simps [simp]:
  "CreateAlways mem_host = mem_create" "WriteFile mem_host = mem_write" "DeleteFileW mem_host = mem_delete"
  "OpenFollowing mem_host = mem_open" "OpenReparsePoint mem_host = mem_open" "GetFileAttributesW mem_host = mem_attributes"
  "GetFileSizeEx mem_host = mem_get (length \<circ> nodeData)" "ReadFile mem_host = (\<lambda>w h n. mem_get (take n \<circ> nodeData) w h)"
  "MoveFileExW mem_host = (\<lambda>w src dst. mem_move w (mem_key src) True dst)" "FindFiles mem_host = mem_find"
  "FileAttributeTagInfo mem_host = mem_get nodeTag" "RenameByHandle mem_host = mem_move"
  by (simp_all add: mem_host_def)

lemma mem_handle_holds: "handle_holds mem_host w h bs \<longleftrightarrow> (\<exists>n. map_of w h = Some n \<and> nodeData n = bs)"
  by (auto simp: handle_holds_def mem_get_def split: option.splits)

lemma rekey_target: "k \<noteq> dst \<Longrightarrow> mem_rekey src dst k = dst \<longleftrightarrow> k = src"
  by (auto simp: mem_rekey_def starts_with_iff)

lemma map_of_rekey:
  assumes "dst \<noteq> src"
  shows "map_of (map (\<lambda>(k, n). (mem_rekey src dst k, n)) (filter (\<lambda>(k, n). k \<noteq> dst) w)) dst = map_of w src"
proof (induction w)
  case (Cons a w)
  then show ?case using assms rekey_target [of "fst a" dst src] by (cases a) auto
qed simp

lemma mem_move_holds:
  assumes "map_of w src = Some n" "mem_move w src True dst = (w', None)"
  shows "map_of w' (mem_key dst) = Some n"
  using assms map_of_rekey [of "mem_key dst" src w]
  by (cases "mem_key dst = src") (auto simp: mem_move_def split: if_splits)

lemma mem_durable: "durable mem_host"
proof -
  have stored: "\<exists>n. map_of w2 (mem_key path) = Some n \<and> nodeData n = bs"
    if "mem_create w path a = (w1, Inr h)" "mem_write w1 h bs = (w2, Inr (length bs))" for w path a w1 h bs w2
    using that by (auto simp: mem_create_def mem_write_def mem_put_def mem_file_def update_conv' split: option.splits if_splits)
  have opened: "g = mem_key path" if "mem_open w path acc = Inr g" for w path acc g
    using that by (simp add: mem_open_def split: if_splits option.splits)
  have moved: "\<exists>n. map_of w3 (mem_key dst) = Some n \<and> nodeData n = bs"
    if "\<exists>n. map_of w2 (mem_key src) = Some n \<and> nodeData n = bs" "mem_move w2 (mem_key src) True dst = (w3, None)" for w2 w3 src dst bs
    using that mem_move_holds by blast
  show ?thesis
    unfolding durable_def mem_handle_holds mem_host_simps
  proof (intro conjI allI impI)
    fix w path a w1 h bs w2 acc g
    assume "mem_create w path a = (w1, Inr h)" "mem_write w1 h bs = (w2, Inr (length bs))" "mem_open w2 path acc = Inr g"
    then show "\<exists>n. map_of w2 g = Some n \<and> nodeData n = bs" using stored opened by metis
  next
    fix w src dst a w1 h bs w2 w3 acc g
    assume "mem_create w src a = (w1, Inr h)" "mem_write w1 h bs = (w2, Inr (length bs))"
      "mem_move w2 (mem_key src) True dst = (w3, None)" "mem_open w3 dst acc = Inr g"
    then show "\<exists>n. map_of w3 g = Some n \<and> nodeData n = bs" using moved [OF stored] opened by metis
  qed
qed

end
