(* ===== verification/File_Io.thy ===== *)
theory File_Io
  imports Host_Disk
begin

text \<open>
  The calls of Win32 and of \<^verbatim>\<open>ntdll\<close> that the copy of an entry adds to those of the record \<open>host\<close>: opens
  with their access, sharing, disposition and flags, reads and writes at a file pointer, the allocated
  ranges of a sparse file, streams, extended attributes, encryption and security. They are the fields
  of the record \<open>file_io\<close> over the same disks and handles. \<^verbatim>\<open>LONGLONG\<close> values are integers: the sizes
  and offsets of files do not reach the width of the type. The locale \<open>two_files\<close> states the documented
  behaviour of the calls that move data between two open files, and \<open>mem_io\<close> is an instance on the disk
  in memory.
\<close>

section \<open>Data\<close>

abbreviation ERROR_SEEK :: dword where "ERROR_SEEK \<equiv> 25"
abbreviation ERROR_IO_PENDING :: dword where "ERROR_IO_PENDING \<equiv> 997"
abbreviation ERROR_HANDLE_EOF :: dword where "ERROR_HANDLE_EOF \<equiv> 38"
abbreviation ERROR_MORE_DATA :: dword where "ERROR_MORE_DATA \<equiv> 234"

definition GENERIC_WRITE :: dword where "GENERIC_WRITE = 0x40000000"
definition FILE_READ_EA :: dword where "FILE_READ_EA = 0x8"
definition FILE_WRITE_EA :: dword where "FILE_WRITE_EA = 0x10"
definition FILE_SHARE_READ :: dword where "FILE_SHARE_READ = 0x1"
definition FILE_SHARE_WRITE :: dword where "FILE_SHARE_WRITE = 0x2"
definition FILE_SHARE_DELETE :: dword where "FILE_SHARE_DELETE = 0x4"
definition CREATE_NEW :: dword where "CREATE_NEW = 1"
definition CREATE_ALWAYS :: dword where "CREATE_ALWAYS = 2"
definition OPEN_EXISTING :: dword where "OPEN_EXISTING = 3"
definition FILE_FLAG_SEQUENTIAL_SCAN :: dword where "FILE_FLAG_SEQUENTIAL_SCAN = 0x8000000"
definition FILE_ATTRIBUTE_SPARSE_FILE :: dword where "FILE_ATTRIBUTE_SPARSE_FILE = 0x200"
definition FILE_ATTRIBUTE_COMPRESSED :: dword where "FILE_ATTRIBUTE_COMPRESSED = 0x800"
definition FILE_ATTRIBUTE_OFFLINE :: dword where "FILE_ATTRIBUTE_OFFLINE = 0x1000"
definition FILE_ATTRIBUTE_ENCRYPTED :: dword where "FILE_ATTRIBUTE_ENCRYPTED = 0x4000"
definition FILE_ATTRIBUTE_RECALL_ON_OPEN :: dword where "FILE_ATTRIBUTE_RECALL_ON_OPEN = 0x40000"
definition FILE_ATTRIBUTE_PINNED :: dword where "FILE_ATTRIBUTE_PINNED = 0x80000"
definition FILE_ATTRIBUTE_UNPINNED :: dword where "FILE_ATTRIBUTE_UNPINNED = 0x100000"
definition FILE_ATTRIBUTE_RECALL_ON_DATA_ACCESS :: dword where "FILE_ATTRIBUTE_RECALL_ON_DATA_ACCESS = 0x400000"

definition kShareAll :: dword where "kShareAll = FILE_SHARE_READ OR FILE_SHARE_WRITE OR FILE_SHARE_DELETE"

text \<open>The fields of \<^verbatim>\<open>BY_HANDLE_FILE_INFORMATION\<close> that the engine reads.\<close>

record by_handle_info =
  infoAttributes :: dword
  nFileIndexHigh :: dword
  nFileIndexLow :: dword

text \<open>An allocated range: its offset and its length.\<close>

type_synonym file_range = "int \<times> int"

section \<open>Services\<close>

text \<open>
  An open takes the path, the access, the sharing, the disposition, and the flags and attributes.
  \<open>ReadFromPointer\<close> and \<^const>\<open>WriteFile\<close> work at the file pointer of the handle. A range query gives an
  error, or none, and the ranges it stored. A query of extended attributes takes the length of the
  buffer, the index and whether the scan restarts, and gives the status and the bytes it stored.
  \<open>GetLastError\<close> is for the callers of functions whose result does not carry the error.
  A read of security takes the length of the buffer and gives the length that it needs.
  \<open>GetSecurityDescriptorDacl\<close> and \<open>GetSecurityDescriptorSacl\<close> give no result when the call fails or the
  descriptor has no such list, and \<open>Some None\<close> for a list that is present and null.
\<close>

record ('w, 'h) file_io =
  CreateFileW :: "'w \<Rightarrow> wstring \<Rightarrow> dword \<Rightarrow> dword \<Rightarrow> dword \<Rightarrow> dword \<Rightarrow> 'w \<times> (dword + 'h)"
  CloseHandle :: "'w \<Rightarrow> 'h \<Rightarrow> 'w"
  GetLastError :: "'w \<Rightarrow> dword"
  GetFileInformationByHandle :: "'w \<Rightarrow> 'h \<Rightarrow> dword + by_handle_info"
  GetFileTime :: "'w \<Rightarrow> 'h \<Rightarrow> EntryTimes option"
  ReadFromPointer :: "'w \<Rightarrow> 'h \<Rightarrow> nat \<Rightarrow> 'w \<times> (dword + byte list)"
  SetFilePointerEx :: "'w \<Rightarrow> 'h \<Rightarrow> int \<Rightarrow> 'w \<times> dword option"
  SetEndOfFile :: "'w \<Rightarrow> 'h \<Rightarrow> 'w \<times> dword option"
  FsctlQueryAllocatedRanges :: "'w \<Rightarrow> 'h \<Rightarrow> file_range \<Rightarrow> nat \<Rightarrow> dword option \<times> file_range list"
  FsctlSetSparse :: "'w \<Rightarrow> 'h \<Rightarrow> bool \<Rightarrow> 'w \<times> dword option"
  FsctlSetCompression :: "'w \<Rightarrow> 'h \<Rightarrow> 'w \<times> dword option"
  FsctlSetReparsePoint :: "'w \<Rightarrow> 'h \<Rightarrow> byte list \<Rightarrow> 'w \<times> dword option"
  SetAllocationSize :: "'w \<Rightarrow> 'h \<Rightarrow> nat \<Rightarrow> 'w \<times> dword option"
  FileStreamInfo :: "'w \<Rightarrow> 'h \<Rightarrow> nat \<Rightarrow> dword + byte list"
  EncryptFileW :: "'w \<Rightarrow> wstring \<Rightarrow> 'w \<times> dword option"
  hasEaExports :: bool
  NtQueryEaFile :: "'w \<Rightarrow> 'h \<Rightarrow> nat \<Rightarrow> dword option \<Rightarrow> bool \<Rightarrow> 'w \<times> ntstatus \<times> byte list"
  NtSetEaFile :: "'w \<Rightarrow> 'h \<Rightarrow> byte list \<Rightarrow> 'w \<times> ntstatus"
  GetFileSecurityW :: "'w \<Rightarrow> wstring \<Rightarrow> dword \<Rightarrow> nat \<Rightarrow> nat \<times> (dword + byte list)"
  SetFileSecurityW :: "'w \<Rightarrow> wstring \<Rightarrow> dword \<Rightarrow> byte list \<Rightarrow> 'w \<times> dword option"
  GetNamedSecurityInfoW :: "'w \<Rightarrow> wstring \<Rightarrow> dword \<Rightarrow> dword + (byte list \<times> byte list)"
  SetNamedSecurityInfoW :: "'w \<Rightarrow> wstring \<Rightarrow> dword \<Rightarrow> byte list \<times> byte list \<Rightarrow> 'w \<times> dword"
  GetSecurityDescriptorDacl :: "byte list \<Rightarrow> byte list option option"
  GetSecurityDescriptorSacl :: "byte list \<Rightarrow> byte list option option"
  securityPrivilege :: bool
  SystemTimeAsFileTime :: "'w \<Rightarrow> FILETIME"
  CurrentProcessId :: dword
  CurrentThreadId :: dword

section \<open>Two open files\<close>

text \<open>
  \<open>bytes\<close> is the content of the file that is open as a handle and \<open>ptr\<close> its file pointer; \<open>src\<close> and \<open>dst\<close>
  are open for two different files. A read gives the bytes at the pointer, none only at the end of the
  file; a complete write replaces the bytes at the pointer; the ranges of a query lie inside it, in
  order, and every byte outside them is zero, up to the end of the last range when there are more.
\<close>

locale two_files =
  fixes os :: "('w, 'h) host" and io :: "('w, 'h) file_io"
    and bytes :: "'w \<Rightarrow> 'h \<Rightarrow> byte list" and ptr :: "'w \<Rightarrow> 'h \<Rightarrow> nat" and src :: 'h and dst :: 'h
  assumes cloud: "cloud_failures (CloudFileStatus os)"
    and read_ok: "ReadFromPointer io w src n = (w', Inr bs) \<Longrightarrow>
      bytes w' = bytes w \<and> ptr w' dst = ptr w dst \<and> ptr w' src = ptr w src + length bs \<and>
      length bs \<le> n \<and> bs = take (length bs) (drop (ptr w src) (bytes w src)) \<and>
      (bs = [] \<longrightarrow> n = 0 \<or> length (bytes w src) \<le> ptr w src)"
    and read_fails: "ReadFromPointer io w src n = (w', Inl e) \<Longrightarrow> bytes w' src = bytes w src \<and> e \<noteq> ERROR_IO_PENDING"
    and write_ok: "WriteFile os w dst bs = (w', Inr (length bs)) \<Longrightarrow>
      bytes w' src = bytes w src \<and> bytes w' dst = overwrite (bytes w dst) (ptr w dst) bs \<and>
      ptr w' src = ptr w src \<and> ptr w' dst = ptr w dst + length bs"
    and write_source: "WriteFile os w dst bs = (w', written) \<Longrightarrow> bytes w' src = bytes w src \<and> written \<noteq> Inl ERROR_IO_PENDING"
    and seek_ok: "SetFilePointerEx io w h (int p) = (w', r) \<Longrightarrow> h \<in> {src, dst} \<Longrightarrow>
      bytes w' = bytes w \<and> r \<noteq> Some ERROR_IO_PENDING \<and> (r = None \<longrightarrow> ptr w' = (ptr w)(h := p))"
    and end_ok: "SetEndOfFile io w dst = (w', r) \<Longrightarrow>
      bytes w' src = bytes w src \<and> r \<noteq> Some ERROR_IO_PENDING \<and>
      (r = None \<longrightarrow> bytes w' dst = padded_to (ptr w dst) (bytes w dst))"
    and size_ok: "GetFileSizeEx os w h = Inr n \<Longrightarrow> h \<in> {src, dst} \<Longrightarrow> n = length (bytes w h)"
    and size_fails: "GetFileSizeEx os w h \<noteq> Inl ERROR_IO_PENDING"
    and ranges_inside: "FsctlQueryAllocatedRanges io w src (int p, int k) capacity = (err, ranges) \<Longrightarrow>
      (o1, l1) \<in> set ranges \<Longrightarrow> int p \<le> o1 \<and> 0 < l1 \<and> o1 + l1 \<le> int p + int k"
    and ranges_cover: "FsctlQueryAllocatedRanges io w src (int p, int k) capacity = (err, ranges) \<Longrightarrow>
      err = None \<or> err = Some ERROR_MORE_DATA \<and> i < nat (fst (last ranges) + snd (last ranges)) \<Longrightarrow>
      p \<le> i \<Longrightarrow> i < p + k \<Longrightarrow> i < length (bytes w src) \<Longrightarrow> bytes w src ! i \<noteq> 0 \<Longrightarrow>
      \<exists>(o1, l1) \<in> set ranges. o1 \<le> int i \<and> int i < o1 + l1"
    and ranges_more: "FsctlQueryAllocatedRanges io w src (int p, int k) capacity \<noteq> (Some ERROR_MORE_DATA, [])"

section \<open>The disk in memory\<close>

definition mem_update :: "(mem_node \<Rightarrow> mem_node) \<Rightarrow> mem_disk \<Rightarrow> wstring \<Rightarrow> mem_disk \<times> dword option" where
  "mem_update f w h = (case map_of w h of None \<Rightarrow> (w, Some 6) | Some n \<Rightarrow> (AList.update h (f n) w, None))"

definition mem_create_file :: "mem_disk \<Rightarrow> wstring \<Rightarrow> dword \<Rightarrow> mem_disk \<times> (dword + wstring)" where
  "mem_create_file w p disposition =
     (if disposition = OPEN_EXISTING
      then if mem_key p \<in> fst ` set w then (fst (mem_update (nodePointer_update (\<lambda>_. 0)) w (mem_key p)), Inr (mem_key p))
           else (w, Inl ERROR_FILE_NOT_FOUND)
      else if disposition = CREATE_NEW \<and> mem_key p \<in> fst ` set w then (w, Inl 80)
      else mem_create w p FILE_ATTRIBUTE_NORMAL)"

definition mem_read :: "mem_disk \<Rightarrow> wstring \<Rightarrow> nat \<Rightarrow> mem_disk \<times> (dword + byte list)" where
  "mem_read w h n =
     (case map_of w h of
        None \<Rightarrow> (w, Inl 6)
      | Some m \<Rightarrow>
          let bs = take n (drop (nodePointer m) (nodeData m)) in
          (AList.update h (m\<lparr>nodePointer := nodePointer m + length bs\<rparr>) w, Inr bs))"

definition mem_io :: "(mem_disk, wstring) file_io" where
  "mem_io =
     (let t = \<lparr>dwLowDateTime = 0, dwHighDateTime = 0\<rparr> in
      \<lparr>CreateFileW = (\<lambda>w p acc share disposition flags. mem_create_file w p disposition),
       CloseHandle = (\<lambda>w h. w),
       GetLastError = (\<lambda>w. 0),
       GetFileInformationByHandle = mem_get (\<lambda>n. \<lparr>infoAttributes = nodeAttributes n, nFileIndexHigh = 0, nFileIndexLow = 7\<rparr>),
       GetFileTime = (\<lambda>w h. Some \<lparr>creationTime = t, accessTime = t, writeTime = t\<rparr>),
       ReadFromPointer = mem_read,
       SetFilePointerEx = (\<lambda>w h p. mem_update (nodePointer_update (\<lambda>_. nat p)) w h),
       SetEndOfFile = mem_update (\<lambda>n. n\<lparr>nodeData := padded_to (nodePointer n) (nodeData n)\<rparr>),
       FsctlQueryAllocatedRanges = (\<lambda>w h q capacity. (None, if 0 < snd q then [q] else [])),
       FsctlSetSparse = (\<lambda>w h on. mem_update (nodeAttributes_update (\<lambda>a. a OR FILE_ATTRIBUTE_SPARSE_FILE)) w h),
       FsctlSetCompression = (\<lambda>w h. (w, None)),
       FsctlSetReparsePoint = (\<lambda>w h bs. mem_update (nodeReparse_update (\<lambda>_. bs)) w h),
       SetAllocationSize = (\<lambda>w h sz. (w, None)),
       FileStreamInfo = (\<lambda>w h sz. Inl ERROR_HANDLE_EOF),
       EncryptFileW = (\<lambda>w p. (w, None)),
       hasEaExports = True,
       NtQueryEaFile = (\<lambda>w h sz index restart. (w, 0xC0000052, [])),
       NtSetEaFile = (\<lambda>w h bs. (w, STATUS_SUCCESS)),
       GetFileSecurityW = (\<lambda>w p info sz. (1, Inr [0])),
       SetFileSecurityW = (\<lambda>w p info sd. (w, None)),
       GetNamedSecurityInfoW = (\<lambda>w p info. Inr ([], [])),
       SetNamedSecurityInfoW = (\<lambda>w p info lists. (w, ERROR_SUCCESS)),
       GetSecurityDescriptorDacl = (\<lambda>sd. None), GetSecurityDescriptorSacl = (\<lambda>sd. None), securityPrivilege = False,
       SystemTimeAsFileTime = (\<lambda>w. t),
       CurrentProcessId = 4, CurrentThreadId = 8\<rparr>)"

definition mem_bytes :: "mem_disk \<Rightarrow> wstring \<Rightarrow> byte list" where
  "mem_bytes w h = (case map_of w h of None \<Rightarrow> [] | Some n \<Rightarrow> nodeData n)"

definition mem_pointer :: "mem_disk \<Rightarrow> wstring \<Rightarrow> nat" where
  "mem_pointer w h = (case map_of w h of None \<Rightarrow> 0 | Some n \<Rightarrow> nodePointer n)"

definition sample_source :: wstring where "sample_source = wlit ''source''"
definition sample_staged :: wstring where "sample_staged = wlit ''staged''"

lemma sample_handles: "sample_source \<noteq> sample_staged"
  by (simp add: sample_source_def sample_staged_def)

lemma mem_io_calls [simp]:
  "ReadFromPointer mem_io = mem_read"
  "SetFilePointerEx mem_io w h p = mem_update (nodePointer_update (\<lambda>_. nat p)) w h"
  "SetEndOfFile mem_io = mem_update (\<lambda>n. n\<lparr>nodeData := padded_to (nodePointer n) (nodeData n)\<rparr>)"
  "FsctlQueryAllocatedRanges mem_io w h q capacity = (None, if 0 < snd q then [q] else [])"
  by (simp_all add: mem_io_def Let_def)

lemma mem_update_eq:
  assumes "mem_update f w h = (w', r)"
  shows "r \<noteq> Some ERROR_IO_PENDING \<and>
    (r = None \<longrightarrow> (\<exists>n. map_of w h = Some n \<and> map_of w' = (map_of w)(h \<mapsto> f n))) \<and> (r \<noteq> None \<longrightarrow> w' = w)"
  using assms by (auto simp: mem_update_def update_conv' split: option.splits)

lemma mem_read_eq:
  assumes "mem_read w h n = (w', r)"
  shows "case r of
      Inl e \<Rightarrow> w' = w \<and> e = 6
    | Inr bs \<Rightarrow> \<exists>m. map_of w h = Some m \<and> bs = take n (drop (nodePointer m) (nodeData m)) \<and>
        map_of w' = (map_of w)(h \<mapsto> m\<lparr>nodePointer := nodePointer m + length bs\<rparr>)"
  using assms by (auto simp: mem_read_def update_conv' Let_def split: option.splits)

lemma mem_write_eq:
  assumes "mem_write w h bs = (w', r)"
  shows "case r of
      Inl e \<Rightarrow> w' = w \<and> e = 6
    | Inr k \<Rightarrow> k = length bs \<and> (\<exists>m. map_of w h = Some m \<and> map_of w' = (map_of w)(h \<mapsto>
        m\<lparr>nodeData := overwrite (nodeData m) (nodePointer m) bs, nodePointer := nodePointer m + length bs\<rparr>))"
  using assms by (auto simp: mem_write_def update_conv' split: option.splits)

interpretation mem_files: two_files mem_host mem_io mem_bytes mem_pointer sample_source sample_staged
proof (unfold_locales, unfold mem_io_calls mem_host_simps)
  note defs = mem_bytes_def mem_pointer_def
  note other = sample_handles sample_handles [symmetric]
  show "cloud_failures (CloudFileStatus mem_host)"
    by (simp add: mem_host_def cloud_failures_def cloud_file_errors_def NT_SUCCESS_def)
  show "mem_bytes w' = mem_bytes w \<and> mem_pointer w' sample_staged = mem_pointer w sample_staged \<and>
      mem_pointer w' sample_source = mem_pointer w sample_source + length bs \<and> length bs \<le> n \<and>
      bs = take (length bs) (drop (mem_pointer w sample_source) (mem_bytes w sample_source)) \<and>
      (bs = [] \<longrightarrow> n = 0 \<or> length (mem_bytes w sample_source) \<le> mem_pointer w sample_source)"
    if "mem_read w sample_source n = (w', Inr bs)" for w n w' bs
    using mem_read_eq [OF that] other by (auto simp: defs fun_eq_iff min_def)
  show "mem_bytes w' sample_source = mem_bytes w sample_source \<and> e \<noteq> ERROR_IO_PENDING"
    if "mem_read w sample_source n = (w', Inl e)" for w n w' e
    using mem_read_eq [OF that] by simp
  show "mem_bytes w' sample_source = mem_bytes w sample_source \<and>
      mem_bytes w' sample_staged = overwrite (mem_bytes w sample_staged) (mem_pointer w sample_staged) bs \<and>
      mem_pointer w' sample_source = mem_pointer w sample_source \<and>
      mem_pointer w' sample_staged = mem_pointer w sample_staged + length bs"
    if "mem_write w sample_staged bs = (w', Inr (length bs))" for w bs w'
    using mem_write_eq [OF that] other by (auto simp: defs)
  show "mem_bytes w' sample_source = mem_bytes w sample_source \<and> r \<noteq> Inl ERROR_IO_PENDING"
    if "mem_write w sample_staged bs = (w', r)" for w bs w' r
    using mem_write_eq [OF that] other by (auto simp: defs split: sum.splits)
  show "mem_bytes w' = mem_bytes w \<and> r \<noteq> Some ERROR_IO_PENDING \<and> (r = None \<longrightarrow> mem_pointer w' = (mem_pointer w)(h := p))"
    if "mem_update (nodePointer_update (\<lambda>_. nat (int p))) w h = (w', r)" for w h p w' r
    using mem_update_eq [OF that] by (cases r) (auto simp: defs fun_eq_iff)
  show "mem_bytes w' sample_source = mem_bytes w sample_source \<and> r \<noteq> Some ERROR_IO_PENDING \<and>
      (r = None \<longrightarrow> mem_bytes w' sample_staged = padded_to (mem_pointer w sample_staged) (mem_bytes w sample_staged))"
    if "mem_update (\<lambda>n. n\<lparr>nodeData := padded_to (nodePointer n) (nodeData n)\<rparr>) w sample_staged = (w', r)" for w w' r
    using mem_update_eq [OF that] other by (cases r) (auto simp: defs)
qed (auto simp: mem_get_def mem_bytes_def split: option.splits if_splits)

end
