(* ===== verification/Data_Copy.thy ===== *)
theory Data_Copy
  imports File_Io
begin

text \<open>
  The copy of the data of a file (\<^verbatim>\<open>impl/EntryCopy.cpp\<close>): byte by byte through a buffer, or range by
  range when both files are sparse, so that a hole of the source stays a hole. A loop takes a number of
  rounds and gives \<open>None\<close> when it needs more; the theorem shows that a number above the size of the
  source is enough, and that the destination then holds the bytes of the source.
\<close>

section \<open>Bytes through the buffer\<close>

definition kCopyBufferSize :: nat where "kCopyBufferSize = 64 * 1024"

definition WriteChunk :: "('w, 'h) host \<Rightarrow> 'w \<Rightarrow> 'h \<Rightarrow> byte list \<Rightarrow> 'w \<times> ntstatus" where
  "WriteChunk os w dstHandle buffer =
     (case WriteFile os w dstHandle buffer of
        (w1, Inl e) \<Rightarrow> (w1, StatusOfFailedCall (CloudFileStatus os) e ERROR_WRITE_FAULT)
      | (w1, Inr bytesWritten) \<Rightarrow>
          (w1, if bytesWritten \<noteq> length buffer then nt_status os ERROR_WRITE_FAULT else STATUS_SUCCESS))"

text \<open>The last component is \<^verbatim>\<open>bytesCopied\<close>, which starts at zero.\<close>

fun copy_loop ::
  "('w, 'h) host \<Rightarrow> ('w, 'h) file_io \<Rightarrow> nat \<Rightarrow> 'w \<Rightarrow> 'h \<Rightarrow> 'h \<Rightarrow> int \<Rightarrow> int \<Rightarrow> ('w \<times> ntstatus \<times> int) option" where
  "copy_loop os io 0 w srcHandle dstHandle limit bytesCopied = None"
| "copy_loop os io (Suc n) w srcHandle dstHandle limit bytesCopied =
     (if bytesCopied < limit then
        let left = limit - bytesCopied;
            chunk = (if left < int kCopyBufferSize then nat left else kCopyBufferSize) in
        (case ReadFromPointer io w srcHandle chunk of
           (w1, Inl e) \<Rightarrow> Some (w1, StatusOfFailedCall (CloudFileStatus os) e ERROR_READ_FAULT, bytesCopied)
         | (w1, Inr buffer) \<Rightarrow>
             if buffer = [] then Some (w1, STATUS_SUCCESS, bytesCopied)
             else
               (case WriteChunk os w1 dstHandle buffer of
                  (w2, status) \<Rightarrow>
                    if \<not> NT_SUCCESS status then Some (w2, status, bytesCopied)
                    else copy_loop os io n w2 srcHandle dstHandle limit (bytesCopied + int (length buffer))))
      else Some (w, STATUS_SUCCESS, bytesCopied))"

definition CopyBytes ::
  "('w, 'h) host \<Rightarrow> ('w, 'h) file_io \<Rightarrow> nat \<Rightarrow> 'w \<Rightarrow> 'h \<Rightarrow> 'h \<Rightarrow> int \<Rightarrow> ('w \<times> ntstatus \<times> int) option" where
  "CopyBytes os io n w srcHandle dstHandle limit = copy_loop os io n w srcHandle dstHandle limit 0"

definition LLONG_MAX :: int where "LLONG_MAX = 2 ^ 63 - 1"

definition CopyBytesToEnd :: "('w, 'h) host \<Rightarrow> ('w, 'h) file_io \<Rightarrow> nat \<Rightarrow> 'w \<Rightarrow> 'h \<Rightarrow> 'h \<Rightarrow> ('w \<times> ntstatus) option" where
  "CopyBytesToEnd os io n w srcHandle dstHandle =
     map_option (\<lambda>(w1, status, bytesCopied). (w1, status)) (CopyBytes os io n w srcHandle dstHandle LLONG_MAX)"

text \<open>Two seeks, the second only after the first; a refusal of either gives the fallback \<^verbatim>\<open>ERROR_SEEK\<close>.\<close>

definition seek_both :: "('w, 'h) host \<Rightarrow> ('w, 'h) file_io \<Rightarrow> 'w \<Rightarrow> 'h \<Rightarrow> 'h \<Rightarrow> int \<Rightarrow> 'w \<times> ntstatus" where
  "seek_both os io w srcHandle dstHandle offset =
     (case SetFilePointerEx io w srcHandle offset of
        (w1, Some e) \<Rightarrow> (w1, StatusOfFailedCall (CloudFileStatus os) e ERROR_SEEK)
      | (w1, None) \<Rightarrow>
          (case SetFilePointerEx io w1 dstHandle offset of
             (w2, Some e) \<Rightarrow> (w2, StatusOfFailedCall (CloudFileStatus os) e ERROR_SEEK)
           | (w2, None) \<Rightarrow> (w2, STATUS_SUCCESS)))"

definition CopyBytesFromStart :: "('w, 'h) host \<Rightarrow> ('w, 'h) file_io \<Rightarrow> nat \<Rightarrow> 'w \<Rightarrow> 'h \<Rightarrow> 'h \<Rightarrow> ('w \<times> ntstatus) option" where
  "CopyBytesFromStart os io n w srcHandle dstHandle =
     (let (w1, status) = seek_both os io w srcHandle dstHandle 0 in
      if \<not> NT_SUCCESS status then Some (w1, status) else CopyBytesToEnd os io n w1 srcHandle dstHandle)"

section \<open>Allocated ranges\<close>

definition CopyAllocatedRange ::
  "('w, 'h) host \<Rightarrow> ('w, 'h) file_io \<Rightarrow> nat \<Rightarrow> 'w \<Rightarrow> 'h \<Rightarrow> 'h \<Rightarrow> file_range \<Rightarrow> ('w \<times> ntstatus \<times> int) option" where
  "CopyAllocatedRange os io n w srcHandle dstHandle rng =
     (let (w1, status) = seek_both os io w srcHandle dstHandle (fst rng) in
      if \<not> NT_SUCCESS status then Some (w1, status, 0) else CopyBytes os io n w1 srcHandle dstHandle (snd rng))"

datatype RangeQuery = RangeComplete | RangeMore | RangeRefused

definition QueryAllocatedRanges ::
  "('w, 'h) file_io \<Rightarrow> 'w \<Rightarrow> 'h \<Rightarrow> file_range \<Rightarrow> nat \<Rightarrow> RangeQuery \<times> file_range list" where
  "QueryAllocatedRanges io w srcHandle query capacity =
     (case FsctlQueryAllocatedRanges io w srcHandle query capacity of
        (None, ranges) \<Rightarrow> (RangeComplete, ranges)
      | (Some e, ranges) \<Rightarrow> (if e = ERROR_MORE_DATA then RangeMore else RangeRefused, ranges))"

text \<open>The ranges of one answer. The flag tells that the loop over them ran to its end.\<close>

fun copy_ranges ::
  "('w, 'h) host \<Rightarrow> ('w, 'h) file_io \<Rightarrow> nat \<Rightarrow> 'w \<Rightarrow> 'h \<Rightarrow> 'h \<Rightarrow> file_range list \<Rightarrow> ('w \<times> ntstatus \<times> bool) option" where
  "copy_ranges os io n w srcHandle dstHandle [] = Some (w, STATUS_SUCCESS, True)"
| "copy_ranges os io n w srcHandle dstHandle (rng # ranges) =
     (case CopyAllocatedRange os io n w srcHandle dstHandle rng of
        None \<Rightarrow> None
      | Some (w1, status, bytesCopied) \<Rightarrow>
          if \<not> NT_SUCCESS status then Some (w1, status, False)
          else if bytesCopied < snd rng then Some (w1, STATUS_SUCCESS, False)
          else copy_ranges os io n w1 srcHandle dstHandle ranges)"

text \<open>The first number bounds the queries and the second the rounds of each copy. The flag is \<^verbatim>\<open>rangesRefused\<close>.\<close>

fun range_loop ::
  "('w, 'h) host \<Rightarrow> ('w, 'h) file_io \<Rightarrow> nat \<Rightarrow> nat \<Rightarrow> 'w \<Rightarrow> 'h \<Rightarrow> 'h \<Rightarrow> int \<Rightarrow> file_range \<Rightarrow> ('w \<times> ntstatus \<times> bool) option" where
  "range_loop os io 0 n w srcHandle dstHandle srcSize query = None"
| "range_loop os io (Suc m) n w srcHandle dstHandle srcSize query =
     (if fst query < srcSize then
        (case QueryAllocatedRanges io w srcHandle query 64 of
           (RangeRefused, ranges) \<Rightarrow> Some (w, STATUS_SUCCESS, True)
         | (result, ranges) \<Rightarrow>
             (case copy_ranges os io n w srcHandle dstHandle ranges of
                None \<Rightarrow> None
              | Some (w1, status, ranToEnd) \<Rightarrow>
                  if \<not> ranToEnd then Some (w1, status, False)
                  else if result = RangeComplete \<or> ranges = [] then Some (w1, STATUS_SUCCESS, False)
                  else
                    let past = fst (last ranges) + snd (last ranges) in
                    range_loop os io m n w1 srcHandle dstHandle srcSize (past, srcSize - past)))
      else Some (w, STATUS_SUCCESS, False))"

definition CopyAllocatedRanges ::
  "('w, 'h) host \<Rightarrow> ('w, 'h) file_io \<Rightarrow> nat \<Rightarrow> 'w \<Rightarrow> 'h \<Rightarrow> 'h \<Rightarrow> int \<Rightarrow> ('w \<times> ntstatus \<times> bool) option" where
  "CopyAllocatedRanges os io n w srcHandle dstHandle srcSize =
     range_loop os io n n w srcHandle dstHandle srcSize (0, srcSize)"

definition SetEndOfFileIfSizeDiffers :: "('w, 'h) host \<Rightarrow> ('w, 'h) file_io \<Rightarrow> 'w \<Rightarrow> 'h \<Rightarrow> nat \<Rightarrow> 'w \<times> ntstatus" where
  "SetEndOfFileIfSizeDiffers os io w dstHandle sz =
     (case GetFileSizeEx os w dstHandle of
        Inl e \<Rightarrow> (w, StatusOfFailedCall (CloudFileStatus os) e ERROR_READ_FAULT)
      | Inr dstSize \<Rightarrow>
          if dstSize = sz then (w, STATUS_SUCCESS)
          else
            (case SetFilePointerEx io w dstHandle (int sz) of
               (w1, Some e) \<Rightarrow> (w1, StatusOfFailedCall (CloudFileStatus os) e ERROR_WRITE_FAULT)
             | (w1, None) \<Rightarrow>
                 (case SetEndOfFile io w1 dstHandle of
                    (w2, Some e) \<Rightarrow> (w2, StatusOfFailedCall (CloudFileStatus os) e ERROR_WRITE_FAULT)
                  | (w2, None) \<Rightarrow> (w2, STATUS_SUCCESS))))"

section \<open>The copy\<close>

definition HasFileAttribute :: "dword \<Rightarrow> dword \<Rightarrow> bool" where
  "HasFileAttribute attrs flag \<longleftrightarrow> attrs \<noteq> INVALID_FILE_ATTRIBUTES \<and> attrs AND flag \<noteq> 0"

definition IsSparseHandle :: "('w, 'h) file_io \<Rightarrow> 'w \<Rightarrow> 'h \<Rightarrow> bool" where
  "IsSparseHandle io w handle =
     (case GetFileInformationByHandle io w handle of
        Inl e \<Rightarrow> False
      | Inr info \<Rightarrow> HasFileAttribute (infoAttributes info) FILE_ATTRIBUTE_SPARSE_FILE)"

definition MayHoldRemoteData :: "dword \<Rightarrow> bool" where
  "MayHoldRemoteData attrs \<longleftrightarrow>
     (let remote = FILE_ATTRIBUTE_REPARSE_POINT OR FILE_ATTRIBUTE_OFFLINE OR FILE_ATTRIBUTE_RECALL_ON_DATA_ACCESS OR
            FILE_ATTRIBUTE_RECALL_ON_OPEN in
      attrs AND remote \<noteq> 0)"

definition CopyFileDataKeepingHoles :: "('w, 'h) host \<Rightarrow> ('w, 'h) file_io \<Rightarrow> nat \<Rightarrow> 'w \<Rightarrow> 'h \<Rightarrow> 'h \<Rightarrow> ('w \<times> ntstatus) option" where
  "CopyFileDataKeepingHoles os io n w srcHandle dstHandle =
     (let dense =
            (case GetFileInformationByHandle io w srcHandle of
               Inl e \<Rightarrow> True
             | Inr srcInfo \<Rightarrow>
                 \<not> HasFileAttribute (infoAttributes srcInfo) FILE_ATTRIBUTE_SPARSE_FILE \<or>
                 MayHoldRemoteData (infoAttributes srcInfo) \<or> \<not> IsSparseHandle io w dstHandle) in
      if dense then CopyBytesToEnd os io n w srcHandle dstHandle
      else
        (case GetFileSizeEx os w srcHandle of
           Inl e \<Rightarrow> Some (w, StatusOfFailedCall (CloudFileStatus os) e ERROR_READ_FAULT)
         | Inr srcSize \<Rightarrow>
             (case CopyAllocatedRanges os io n w srcHandle dstHandle (int srcSize) of
                None \<Rightarrow> None
              | Some (w1, status, rangesRefused) \<Rightarrow>
                  if \<not> NT_SUCCESS status then Some (w1, status)
                  else if rangesRefused then CopyBytesFromStart os io n w1 srcHandle dstHandle
                  else Some (SetEndOfFileIfSizeDiffers os io w1 dstHandle srcSize))))"

section \<open>Contents after a write\<close>

lemma length_overwrite: "length (overwrite old p bs) = (if bs = [] then length old else max (length old) (p + length bs))"
  by (auto simp: overwrite_def)

lemma nth_overwrite:
  assumes "bs \<noteq> []" "i < max (length old) (p + length bs)"
  shows "overwrite old p bs ! i =
    (if i < p then if i < length old then old ! i else 0 else if i < p + length bs then bs ! (i - p) else old ! i)"
  using assms by (auto simp: overwrite_def nth_append nth_padded_to)

lemma overwrite_overwrite: "overwrite (overwrite old p bs) (p + length bs) cs = overwrite old p (bs @ cs)"
proof (cases "bs = [] \<or> cs = []")
  case False
  have "padded_to (p + length bs) (padded_to p old @ bs @ drop (p + length bs) old) = padded_to p old @ bs"
    by (simp add: padded_to_def [of "p + length bs"])
  then show ?thesis using False by (simp add: overwrite_def add.commute add.left_commute)
qed (auto simp: overwrite_def)

section \<open>Between two files\<close>

lemma StatusOfFailedCall_fails:
  assumes "cloud_failures cloud" "e \<noteq> ERROR_IO_PENDING" "fallback \<noteq> 0" "fallback \<noteq> ERROR_IO_PENDING"
  shows "\<not> NT_SUCCESS (StatusOfFailedCall cloud e fallback)"
  using assms NtStatusFromWin32_success_cases [OF assms(1), of "if e \<noteq> 0 then e else fallback"]
  by (auto simp: StatusOfFailedCall_def StatusFromWin32Error_def NT_SUCCESS_def)

text \<open>
  The destination is part of a copy: it is not longer than the source and each of its bytes is zero or
  the byte of the source. The bytes before a position are copied when no other byte than zero is missing.
\<close>

definition part_of :: "byte list \<Rightarrow> byte list \<Rightarrow> bool" where
  "part_of new old \<longleftrightarrow> length new \<le> length old \<and> (\<forall>i < length new. new ! i = 0 \<or> new ! i = old ! i)"

definition holds_at :: "byte list \<Rightarrow> byte list \<Rightarrow> nat \<Rightarrow> bool" where
  "holds_at new old i \<longleftrightarrow> i < length old \<and> old ! i \<noteq> 0 \<longrightarrow> i < length new \<and> new ! i = old ! i"

lemma part_of_overwrite:
  assumes "part_of new old" "p + k \<le> length old"
  shows "part_of (overwrite new p (take k (drop p old))) old"
    and "holds_at new old i \<or> p \<le> i \<and> i < p + k \<Longrightarrow> holds_at (overwrite new p (take k (drop p old))) old i"
proof -
  have "0 < k \<Longrightarrow> take k (drop p old) \<noteq> []" using assms(2) by auto
  then show "part_of (overwrite new p (take k (drop p old))) old"
    using assms by (cases "k = 0") (auto simp: part_of_def length_overwrite nth_overwrite overwrite_def [of _ _ "[]"])
  show "holds_at (overwrite new p (take k (drop p old))) old i" if "holds_at new old i \<or> p \<le> i \<and> i < p + k"
    using assms that \<open>0 < k \<Longrightarrow> _\<close>
    by (cases "k = 0") (auto simp: part_of_def holds_at_def length_overwrite nth_overwrite overwrite_def [of _ _ "[]"])
qed

lemma overwrite_all: "length new \<le> length old \<Longrightarrow> overwrite new 0 old = old"
  by (auto simp: overwrite_def padded_to_def)

lemma part_extended:
  assumes "part_of new old" "\<And>i. holds_at new old i"
  shows "padded_to (length old) new = old"
proof (rule nth_equalityI)
  fix i
  assume "i < length (padded_to (length old) new)"
  then show "padded_to (length old) new ! i = old ! i"
    using assms(1) assms(2) [of i] by (auto simp: part_of_def holds_at_def nth_padded_to)
qed simp

context two_files
begin

lemma copy_loop_exact:
  assumes "ptr w src = ptr w dst" "length (bytes w src) - ptr w src < n" "0 \<le> b"
  shows "\<exists>w' status c. copy_loop os io n w src dst limit b = Some (w', status, b + int c) \<and>
    bytes w' src = bytes w src \<and>
    (NT_SUCCESS status \<longrightarrow>
      c = min (nat (limit - b)) (length (bytes w src) - ptr w src) \<and>
      bytes w' dst = overwrite (bytes w dst) (ptr w src) (take c (drop (ptr w src) (bytes w src))))"
  using assms
proof (induction n arbitrary: w b)
  case (Suc n)
  let ?chunk = "if limit - b < int kCopyBufferSize then nat (limit - b) else kCopyBufferSize"
  show ?case
  proof (cases "b < limit")
    case False
    then show ?thesis by (intro exI [of _ w] exI [of _ STATUS_SUCCESS] exI [of _ 0]) (simp add: overwrite_def)
  next
    case True
    obtain w1 r where rd: "ReadFromPointer io w src ?chunk = (w1, r)" by fastforce
    show ?thesis
    proof (cases r)
      case (Inl e)
      then show ?thesis using True rd read_fails StatusOfFailedCall_fails [OF cloud, of e ERROR_READ_FAULT]
        by (intro exI [of _ w1] exI exI [of _ 0]) (auto simp: Let_def)
    next
      case (Inr buffer)
      note ro = read_ok [OF rd [unfolded Inr]]
      show ?thesis
      proof (cases "buffer = []")
        case e: True
        have "kCopyBufferSize \<noteq> 0" by (simp add: kCopyBufferSize_def)
        then have "length (bytes w src) \<le> ptr w src" using ro e True by (auto split: if_splits)
        then show ?thesis using True rd Inr e ro
          by (intro exI [of _ w1] exI [of _ STATUS_SUCCESS] exI [of _ 0]) (auto simp: Let_def overwrite_def)
      next
        case ne: False
        obtain w2 wr where wrt: "WriteFile os w1 dst buffer = (w2, wr)" by fastforce
        have src2: "bytes w2 src = bytes w src" using write_source [OF wrt] ro by simp
        show ?thesis
        proof (cases "wr = Inr (length buffer)")
          case False
          have "\<not> NT_SUCCESS (nt_status os ERROR_WRITE_FAULT)"
            using NtStatusFromWin32_success_cases [OF cloud, of ERROR_WRITE_FAULT] by (auto simp: NT_SUCCESS_def)
          then obtain st where st: "WriteChunk os w1 dst buffer = (w2, st)" "\<not> NT_SUCCESS st"
            using False wrt write_source [OF wrt] StatusOfFailedCall_fails [OF cloud, of _ ERROR_WRITE_FAULT]
            by (cases wr) (auto simp: WriteChunk_def)
          then show ?thesis using True rd Inr ne src2
            by (intro exI [of _ w2] exI [of _ st] exI [of _ 0]) (simp add: Let_def)
        next
          case ok: True
          note wo = write_ok [OF wrt [unfolded ok]]
          let ?s = "bytes w src" and ?p = "ptr w src" and ?m = "length buffer"
          have buf: "buffer = take ?m (drop ?p ?s)" using ro by simp
          then have "?m = min (length (drop ?p ?s)) ?m" by (metis length_take)
          then have m: "0 < ?m" "?m \<le> nat (limit - b)" "?m \<le> length ?s - ?p"
            using ro ne True by (auto split: if_splits)
          have step: "copy_loop os io (Suc n) w src dst limit b = copy_loop os io n w2 src dst limit (b + int ?m)"
            using True rd Inr ne wrt ok by (simp add: Let_def WriteChunk_def)
          have p2: "ptr w2 src = ?p + ?m" "bytes w2 dst = overwrite (bytes w dst) ?p buffer" using ro wo Suc.prems by auto
          have "ptr w2 src = ptr w2 dst" "0 \<le> b + int ?m" using ro wo Suc.prems by auto
          moreover have "length (bytes w2 src) - ptr w2 src < n"
            unfolding p2 src2 using m(1,3) Suc.prems(2) by linarith
          ultimately have ih: "ptr w2 src = ptr w2 dst" "length (bytes w2 src) - ptr w2 src < n" "0 \<le> b + int ?m" by auto
          from Suc.IH [OF ih] obtain w' st c where
            IH: "copy_loop os io n w2 src dst limit (b + int ?m) = Some (w', st, b + int ?m + int c)"
              "bytes w' src = bytes w2 src"
              "NT_SUCCESS st \<Longrightarrow> c = min (nat (limit - (b + int ?m))) (length (bytes w2 src) - ptr w2 src) \<and>
                 bytes w' dst = overwrite (bytes w2 dst) (ptr w2 src) (take c (drop (ptr w2 src) (bytes w2 src)))"
            by blast
          have "buffer @ take c (drop (?p + ?m) ?s) = take (?m + c) (drop ?p ?s)"
            unfolding take_add by (simp add: buf [symmetric] add.commute)
          moreover have "c = min (nat (limit - (b + int ?m))) (length ?s - (?p + ?m)) \<Longrightarrow>
              ?m + c = min (nat (limit - b)) (length ?s - ?p)" using m by linarith
          ultimately show ?thesis
            using IH p2 src2 overwrite_overwrite [of "bytes w dst" ?p buffer]
            by (intro exI [of _ w'] exI [of _ st] exI [of _ "?m + c"]) (auto simp: step simp del: copy_loop.simps)
        qed
      qed
    qed
  qed
qed simp

lemma CopyBytes_exact:
  assumes "ptr w src = ptr w dst" "length (bytes w src) < n"
  shows "\<exists>w' status c. CopyBytes os io n w src dst limit = Some (w', status, int c) \<and> bytes w' src = bytes w src \<and>
    (NT_SUCCESS status \<longrightarrow>
      c = min (nat limit) (length (bytes w src) - ptr w src) \<and>
      bytes w' dst = overwrite (bytes w dst) (ptr w src) (take c (drop (ptr w src) (bytes w src))))"
  using copy_loop_exact [of w n 0 limit] assms by (auto simp: CopyBytes_def)

lemma seek_both_ok:
  assumes "seek_both os io w src dst (int p) = (w', status)"
  shows "bytes w' = bytes w \<and> (NT_SUCCESS status \<longrightarrow> ptr w' src = p \<and> ptr w' dst = p)"
  using assms StatusOfFailedCall_fails [OF cloud, of _ ERROR_SEEK]
  by (auto simp: seek_both_def split: prod.splits option.splits dest!: seek_ok)

lemma CopyAllocatedRange_exact:
  assumes "p + k \<le> length (bytes w src)" "length (bytes w src) < n"
  shows "\<exists>w' status c. CopyAllocatedRange os io n w src dst (int p, int k) = Some (w', status, c) \<and> bytes w' src = bytes w src \<and>
    (NT_SUCCESS status \<longrightarrow> c = int k \<and> bytes w' dst = overwrite (bytes w dst) p (take k (drop p (bytes w src))))"
proof -
  obtain w1 st where s: "seek_both os io w src dst (int p) = (w1, st)" by fastforce
  show ?thesis
  proof (cases "NT_SUCCESS st")
    case True
    note s1 = seek_both_ok [OF s]
    have "ptr w1 src = ptr w1 dst" "length (bytes w1 src) < n" using s1 True assms by auto
    from CopyBytes_exact [OF this, of "int k"] obtain w' status c where
      "CopyBytes os io n w1 src dst (int k) = Some (w', status, int c)" "bytes w' src = bytes w1 src"
      "NT_SUCCESS status \<Longrightarrow> c = min k (length (bytes w1 src) - ptr w1 src) \<and>
        bytes w' dst = overwrite (bytes w1 dst) (ptr w1 src) (take c (drop (ptr w1 src) (bytes w1 src)))" by auto
    then show ?thesis using s s1 True assms
      by (intro exI [of _ w'] exI [of _ status] exI [of _ "int c"]) (auto simp: CopyAllocatedRange_def)
  qed (use s seek_both_ok [OF s] in \<open>auto simp: CopyAllocatedRange_def\<close>)
qed

lemma copy_ranges_exact:
  assumes "part_of (bytes w dst) (bytes w src)" "length (bytes w src) < n"
    and "\<And>o1 l1. (o1, l1) \<in> set ranges \<Longrightarrow> 0 \<le> o1 \<and> 0 \<le> l1 \<and> o1 + l1 \<le> int (length (bytes w src))"
  shows "\<exists>w' status ranToEnd. copy_ranges os io n w src dst ranges = Some (w', status, ranToEnd) \<and> bytes w' src = bytes w src \<and>
    (ranToEnd \<longrightarrow> NT_SUCCESS status) \<and>
    (NT_SUCCESS status \<longrightarrow> ranToEnd \<and> part_of (bytes w' dst) (bytes w src) \<and>
      (\<forall>i. holds_at (bytes w dst) (bytes w src) i \<or> (\<exists>(o1, l1) \<in> set ranges. o1 \<le> int i \<and> int i < o1 + l1) \<longrightarrow>
        holds_at (bytes w' dst) (bytes w src) i))"
  using assms
proof (induction ranges arbitrary: w)
  case (Cons r ranges)
  obtain p k where r: "r = (int p, int k)" "p + k \<le> length (bytes w src)"
    using Cons.prems(3) [of "fst r" "snd r"] by (metis list.set_intros(1) nonneg_int_cases of_nat_add of_nat_le_iff prod.collapse)
  from CopyAllocatedRange_exact [OF r(2) Cons.prems(2)] obtain w1 st c where
    c: "CopyAllocatedRange os io n w src dst r = Some (w1, st, c)" "bytes w1 src = bytes w src"
      "NT_SUCCESS st \<Longrightarrow> c = int k \<and> bytes w1 dst = overwrite (bytes w dst) p (take k (drop p (bytes w src)))"
    unfolding r by auto
  show ?case
  proof (cases "NT_SUCCESS st")
    case True
    note d = c(3) [OF True]
    note po = part_of_overwrite [OF Cons.prems(1) r(2)]
    have "part_of (bytes w1 dst) (bytes w1 src)" "length (bytes w1 src) < n" using d c(2) po(1) Cons.prems(2) by simp_all
    from Cons.IH [OF this] Cons.prems(3) c(2) obtain w' st' e where
      ih: "copy_ranges os io n w1 src dst ranges = Some (w', st', e)" "bytes w' src = bytes w1 src" "e \<Longrightarrow> NT_SUCCESS st'"
        "NT_SUCCESS st' \<Longrightarrow> e \<and> part_of (bytes w' dst) (bytes w1 src) \<and>
          (\<forall>i. holds_at (bytes w1 dst) (bytes w1 src) i \<or> (\<exists>(o1, l1) \<in> set ranges. o1 \<le> int i \<and> int i < o1 + l1) \<longrightarrow>
            holds_at (bytes w' dst) (bytes w1 src) i)"
      by fastforce
    have "holds_at (bytes w1 dst) (bytes w src) i" if "holds_at (bytes w dst) (bytes w src) i \<or> int p \<le> int i \<and> int i < int p + int k" for i
      using that po(2) [of i] d by auto
    then have "NT_SUCCESS st' \<longrightarrow>
        (\<forall>i. holds_at (bytes w dst) (bytes w src) i \<or> (\<exists>(o1, l1) \<in> set (r # ranges). o1 \<le> int i \<and> int i < o1 + l1) \<longrightarrow>
          holds_at (bytes w' dst) (bytes w src) i)"
      using ih(4) c(2) r(1) by auto
    moreover have "copy_ranges os io n w src dst (r # ranges) = Some (w', st', e)" using c(1) d True ih(1) r(1) by simp
    ultimately show ?thesis using ih(2,3,4) c(2) by auto
  qed (use c in auto)
qed auto

lemma range_loop_exact:
  assumes "part_of (bytes w dst) (bytes w src)" "length (bytes w src) < n" "length (bytes w src) - p < m"
    and "\<And>i. i < p \<Longrightarrow> holds_at (bytes w dst) (bytes w src) i" "p + k = length (bytes w src)"
  shows "\<exists>w' status refused. range_loop os io m n w src dst (int (length (bytes w src))) (int p, int k) = Some (w', status, refused) \<and>
    bytes w' src = bytes w src \<and>
    (NT_SUCCESS status \<longrightarrow> part_of (bytes w' dst) (bytes w src) \<and> (refused \<or> (\<forall>i. holds_at (bytes w' dst) (bytes w src) i)))"
  using assms
proof (induction m arbitrary: w p k)
  case (Suc m)
  let ?s = "bytes w src"
  obtain err ranges where q: "FsctlQueryAllocatedRanges io w src (int p, int k) 64 = (err, ranges)" by fastforce
  show ?case
  proof (cases "p < length ?s")
    case False
    then have "holds_at (bytes w dst) ?s i" for i using Suc.prems(4) [of i] by (cases "i < p") (auto simp: holds_at_def)
    then show ?thesis using False Suc.prems(1) by auto
  next
    case less: True
    show ?thesis
    proof (cases "err = None \<or> err = Some ERROR_MORE_DATA")
      case False
      then have "QueryAllocatedRanges io w src (int p, int k) 64 = (RangeRefused, ranges)"
        using q by (auto simp: QueryAllocatedRanges_def split: option.splits)
      then show ?thesis using less Suc.prems(1) by auto
    next
      case ok: True
      have ins: "0 \<le> o1 \<and> 0 \<le> l1 \<and> o1 + l1 \<le> int (length ?s)" if "(o1, l1) \<in> set ranges" for o1 l1
        using ranges_inside [OF q that] Suc.prems(5) by linarith
      from copy_ranges_exact [OF Suc.prems(1,2) ins] obtain w1 st e where
        c: "copy_ranges os io n w src dst ranges = Some (w1, st, e)" "bytes w1 src = ?s" "e \<Longrightarrow> NT_SUCCESS st"
          "NT_SUCCESS st \<Longrightarrow> e \<and> part_of (bytes w1 dst) ?s \<and>
            (\<forall>i. holds_at (bytes w dst) ?s i \<or> (\<exists>(o1, l1) \<in> set ranges. o1 \<le> int i \<and> int i < o1 + l1) \<longrightarrow> holds_at (bytes w1 dst) ?s i)"
        by blast
      have cover: "holds_at (bytes w1 dst) ?s i"
        if "NT_SUCCESS st" "err = None \<or> err = Some ERROR_MORE_DATA \<and> i < nat (fst (last ranges) + snd (last ranges))" for i
      proof (cases "i < p \<or> length ?s \<le> i \<or> ?s ! i = 0")
        case True
        then show ?thesis using Suc.prems(4) [of i] c(4) [OF that(1)] by (auto simp: holds_at_def)
      next
        case False
        then show ?thesis using ranges_cover [OF q that(2)] Suc.prems(5) c(4) [OF that(1)] by auto
      qed
      show ?thesis
      proof (cases "NT_SUCCESS st \<and> err = Some ERROR_MORE_DATA")
        case False
        then have "range_loop os io (Suc m) n w src dst (int (length ?s)) (int p, int k) =
            Some (w1, if e then STATUS_SUCCESS else st, False)"
          using less q c ok by (auto simp: QueryAllocatedRanges_def)
        then show ?thesis using c(2-4) False ok cover
          by (intro exI [of _ w1] exI [of _ "if e then STATUS_SUCCESS else st"] exI [of _ False]) (auto simp del: range_loop.simps)
      next
        case more: True
        have ne: "ranges \<noteq> []" using more q ranges_more [of w p k 64] by auto
        let ?past = "fst (last ranges) + snd (last ranges)"
        define p' where "p' = nat ?past"
        have "int p < ?past \<and> ?past \<le> int (length ?s)"
          using ranges_inside [OF q, of "fst (last ranges)" "snd (last ranges)"] ne Suc.prems(5) by auto
        then have p': "?past = int p'" "p < p'" "p' \<le> length ?s" unfolding p'_def by linarith+
        have step: "range_loop os io (Suc m) n w src dst (int (length ?s)) (int p, int k) =
          range_loop os io m n w1 src dst (int (length ?s)) (int p', int (length ?s - p'))"
          using less q c more ne p' by (simp add: QueryAllocatedRanges_def Let_def of_nat_diff)
        have "part_of (bytes w1 dst) (bytes w1 src)" "length (bytes w1 src) < n" "length (bytes w1 src) - p' < m"
          "p' + (length (bytes w1 src) - p') = length (bytes w1 src)"
          using c(2,4) more Suc.prems(2,3) p' less by auto
        moreover have "holds_at (bytes w1 dst) (bytes w1 src) i" if "i < p'" for i
          using cover [of i] more p'(1) that c(2) by simp
        ultimately show ?thesis using Suc.IH [of w1 p' "length (bytes w1 src) - p'"] c(2) by (simp only: step)
      qed
    qed
  qed
qed simp

lemma SetEndOfFile_exact:
  assumes "SetEndOfFileIfSizeDiffers os io w dst (length (bytes w src)) = (w', status)"
    and "part_of (bytes w dst) (bytes w src)" "\<And>i. holds_at (bytes w dst) (bytes w src) i"
  shows "bytes w' src = bytes w src \<and> (NT_SUCCESS status \<longrightarrow> bytes w' dst = bytes w src)"
proof -
  note ext = part_extended [OF assms(2,3)]
  show ?thesis
  proof (cases "GetFileSizeEx os w dst")
    case (Inl e)
    then show ?thesis using assms(1) size_fails [of w dst] StatusOfFailedCall_fails [OF cloud, of e ERROR_READ_FAULT]
      by (auto simp: SetEndOfFileIfSizeDiffers_def)
  next
    case (Inr sz)
    have sz: "sz = length (bytes w dst)" using size_ok [OF Inr] by simp
    show ?thesis
    proof (cases "sz = length (bytes w src)")
      case True
      then have "padded_to (length (bytes w dst)) (bytes w dst) = bytes w src" using sz ext by simp
      then have "bytes w dst = bytes w src" unfolding padded_to_same .
      moreover have "(w', status) = (w, STATUS_SUCCESS)" using assms(1) Inr True by (simp add: SetEndOfFileIfSizeDiffers_def)
      ultimately show ?thesis by simp
    next
      case False
      then show ?thesis using assms(1) Inr ext StatusOfFailedCall_fails [OF cloud, of _ ERROR_WRITE_FAULT]
        by (auto simp: SetEndOfFileIfSizeDiffers_def split: prod.splits option.splits dest!: seek_ok end_ok)
    qed
  qed
qed

lemma CopyBytesToEnd_exact:
  assumes "ptr w src = 0" "ptr w dst = 0" "length (bytes w src) < n" "int (length (bytes w src)) \<le> LLONG_MAX"
    and "length (bytes w dst) \<le> length (bytes w src)"
  shows "\<exists>w' status. CopyBytesToEnd os io n w src dst = Some (w', status) \<and> bytes w' src = bytes w src \<and>
    (NT_SUCCESS status \<longrightarrow> bytes w' dst = bytes w src)"
proof -
  have "ptr w src = ptr w dst" using assms by simp
  from CopyBytes_exact [OF this assms(3), of LLONG_MAX] obtain w' status c where
    "CopyBytes os io n w src dst LLONG_MAX = Some (w', status, int c)" "bytes w' src = bytes w src"
    "NT_SUCCESS status \<Longrightarrow> c = min (nat LLONG_MAX) (length (bytes w src)) \<and>
      bytes w' dst = overwrite (bytes w dst) 0 (take c (bytes w src))" using assms(1) by auto
  moreover have "min (nat LLONG_MAX) (length (bytes w src)) = length (bytes w src)" using assms(4) by linarith
  ultimately show ?thesis using overwrite_all [OF assms(5)] by (auto simp: CopyBytesToEnd_def)
qed

lemma CopyFileDataKeepingHoles_holds:
  assumes "ptr w src = 0" "ptr w dst = 0" "length (bytes w src) < n" "int (length (bytes w src)) \<le> LLONG_MAX"
    and "part_of (bytes w dst) (bytes w src)"
  shows "\<exists>w' status. CopyFileDataKeepingHoles os io n w src dst = Some (w', status) \<and> bytes w' src = bytes w src \<and>
    (NT_SUCCESS status \<longrightarrow> bytes w' dst = bytes w src)"
proof -
  let ?dense = "case GetFileInformationByHandle io w src of Inl e \<Rightarrow> True
    | Inr srcInfo \<Rightarrow> \<not> HasFileAttribute (infoAttributes srcInfo) FILE_ATTRIBUTE_SPARSE_FILE \<or>
        MayHoldRemoteData (infoAttributes srcInfo) \<or> \<not> IsSparseHandle io w dst"
  have len: "length (bytes w dst) \<le> length (bytes w src)" using assms(5) by (simp add: part_of_def)
  show ?thesis
  proof (cases ?dense)
    case True
    then show ?thesis using CopyBytesToEnd_exact [OF assms(1-4) len] by (simp add: CopyFileDataKeepingHoles_def)
  next
    case sparse: False
    show ?thesis
    proof (cases "GetFileSizeEx os w src")
      case (Inl e)
      then show ?thesis using sparse size_fails [of w src] StatusOfFailedCall_fails [OF cloud, of e ERROR_READ_FAULT]
        by (auto simp: CopyFileDataKeepingHoles_def)
    next
      case (Inr sz)
      have sz: "sz = length (bytes w src)" using size_ok [OF Inr] by simp
      from range_loop_exact [of w n 0 n "length (bytes w src)"] assms obtain w1 st refused where
        r: "CopyAllocatedRanges os io n w src dst (int sz) = Some (w1, st, refused)" "bytes w1 src = bytes w src"
          "NT_SUCCESS st \<Longrightarrow> part_of (bytes w1 dst) (bytes w src) \<and> (refused \<or> (\<forall>i. holds_at (bytes w1 dst) (bytes w src) i))"
        by (auto simp: CopyAllocatedRanges_def sz)
      note whole = CopyFileDataKeepingHoles_def [of os io n w src dst] if_not_P [OF sparse] Inr r(1)
      consider "\<not> NT_SUCCESS st" | "NT_SUCCESS st" "\<not> refused" | "NT_SUCCESS st" refused by blast
      then show ?thesis
      proof cases
        case 1
        then show ?thesis using r(2) by (simp add: whole Let_def)
      next
        case 2
        obtain w2 st2 where e: "SetEndOfFileIfSizeDiffers os io w1 dst sz = (w2, st2)" by fastforce
        then show ?thesis using 2 r SetEndOfFile_exact [of w1 w2 st2] by (auto simp: whole Let_def sz)
      next
        case 3
        obtain w2 st2 where e: "seek_both os io w1 src dst 0 = (w2, st2)" by fastforce
        note s2 = seek_both_ok [of w1 0 w2 st2, simplified, OF e]
        show ?thesis
        proof (cases "NT_SUCCESS st2")
          case True
          have "length (bytes w2 dst) \<le> length (bytes w2 src)" using s2 r(2,3) 3 by (simp add: part_of_def)
          then show ?thesis using CopyBytesToEnd_exact [of w2 n] 3 True s2 r(2) e assms(3,4)
            by (simp add: whole Let_def CopyBytesFromStart_def)
        next
          case False
          then show ?thesis using 3 e s2 r(2) by (simp add: whole Let_def CopyBytesFromStart_def)
        qed
      qed
    qed
  qed
qed

end

section \<open>More rounds, and what a copy leaves alone\<close>

text \<open>A copy that ends gives the same result with more rounds.\<close>

lemma copy_loop_more: "copy_loop os io n w src dst limit b = Some r \<Longrightarrow> n \<le> m \<Longrightarrow> copy_loop os io m w src dst limit b = Some r"
proof (induction n arbitrary: w b m)
  case (Suc n)
  then obtain m' where "m = Suc m'" "n \<le> m'" by (cases m) auto
  then show ?case using Suc by (auto simp: Let_def split: if_splits sum.splits prod.splits)
qed simp

lemma CopyAllocatedRange_more:
  "CopyAllocatedRange os io n w src dst r = Some x \<Longrightarrow> n \<le> m \<Longrightarrow> CopyAllocatedRange os io m w src dst r = Some x"
  by (cases "seek_both os io w src dst (fst r)")
     (auto simp: CopyAllocatedRange_def CopyBytes_def intro: copy_loop_more split: if_splits)

lemma copy_ranges_more:
  "copy_ranges os io n w src dst rs = Some r \<Longrightarrow> n \<le> m \<Longrightarrow> copy_ranges os io m w src dst rs = Some r"
proof (induction rs arbitrary: w)
  case (Cons a rs)
  then obtain x where "CopyAllocatedRange os io n w src dst a = Some x" by (auto split: option.splits)
  then show ?case using Cons CopyAllocatedRange_more [of os io n w src dst a x m] by (auto split: prod.splits if_splits)
qed simp

lemma range_loop_more:
  "range_loop os io k n w src dst sz q = Some r \<Longrightarrow> n \<le> m \<Longrightarrow> k \<le> l \<Longrightarrow> range_loop os io l m w src dst sz q = Some r"
proof (induction k arbitrary: w q l)
  case (Suc k)
  then obtain l' where l: "l = Suc l'" "k \<le> l'" by (cases l) auto
  obtain result ranges where q: "QueryAllocatedRanges io w src q 64 = (result, ranges)" by fastforce
  show ?case
  proof (cases "fst q < sz \<and> result \<noteq> RangeRefused")
    case True
    then obtain x where x: "copy_ranges os io n w src dst ranges = Some x"
      using Suc.prems(1) q by (cases result) (auto split: option.splits)
    then show ?thesis using Suc.prems True l q Suc.IH copy_ranges_more [OF x Suc.prems(2)]
      by (cases result) (auto simp: Let_def split: prod.splits if_splits)
  qed (use Suc.prems l q in \<open>auto split: if_splits\<close>)
qed simp

lemma CopyBytesToEnd_more: "CopyBytesToEnd os io n w src dst = Some r \<Longrightarrow> n \<le> m \<Longrightarrow> CopyBytesToEnd os io m w src dst = Some r"
  by (auto simp: CopyBytesToEnd_def CopyBytes_def dest: copy_loop_more)

text \<open>The ways of a copy: through the buffer, or by the ranges with one of three ends.\<close>

lemma CopyFileDataKeepingHoles_cases:
  assumes "CopyFileDataKeepingHoles os io n w src dst = Some r"
  obtains (dense) "CopyBytesToEnd os io n w src dst = Some r" "\<And>m. CopyFileDataKeepingHoles os io m w src dst = CopyBytesToEnd os io m w src dst"
  | (unread) "fst r = w" "\<And>m. CopyFileDataKeepingHoles os io m w src dst = Some r"
  | (ranges) sz w1 st refused where "CopyAllocatedRanges os io n w src dst (int sz) = Some (w1, st, refused)"
      "r = (if \<not> NT_SUCCESS st then (w1, st) else if refused then the (CopyBytesFromStart os io n w1 src dst)
            else SetEndOfFileIfSizeDiffers os io w1 dst sz)"
      "refused \<Longrightarrow> NT_SUCCESS st \<Longrightarrow> CopyBytesFromStart os io n w1 src dst = Some r"
      "\<And>m. CopyAllocatedRanges os io m w src dst (int sz) = Some (w1, st, refused) \<Longrightarrow>
         CopyFileDataKeepingHoles os io m w src dst =
           (if \<not> NT_SUCCESS st then Some (w1, st) else if refused then CopyBytesFromStart os io m w1 src dst
            else Some (SetEndOfFileIfSizeDiffers os io w1 dst sz))"
proof -
  define dense where "dense = (case GetFileInformationByHandle io w src of Inl e \<Rightarrow> True
    | Inr srcInfo \<Rightarrow> \<not> HasFileAttribute (infoAttributes srcInfo) FILE_ATTRIBUTE_SPARSE_FILE \<or>
        MayHoldRemoteData (infoAttributes srcInfo) \<or> \<not> IsSparseHandle io w dst)"
  note whole = CopyFileDataKeepingHoles_def [of os io _ w src dst, unfolded Let_def, folded dense_def]
  show thesis
  proof (cases dense)
    case True
    then show ?thesis using assms by (intro that(1)) (simp_all add: whole)
  next
    case sparse: False
    show ?thesis
    proof (cases "GetFileSizeEx os w src")
      case (Inl e)
      then show ?thesis using assms sparse by (intro that(2)) (auto simp: whole)
    next
      case (Inr sz)
      then obtain w1 st refused where c: "CopyAllocatedRanges os io n w src dst (int sz) = Some (w1, st, refused)"
        using assms sparse by (auto simp: whole split: option.splits)
      show ?thesis using assms sparse Inr c by (intro that(3) [OF c]) (auto simp: whole split: if_splits)
    qed
  qed
qed

lemma CopyFileDataKeepingHoles_more:
  assumes "CopyFileDataKeepingHoles os io n w src dst = Some r" "n \<le> m"
  shows "CopyFileDataKeepingHoles os io m w src dst = Some r"
  using assms(1)
proof (cases rule: CopyFileDataKeepingHoles_cases)
  case dense
  then show ?thesis using CopyBytesToEnd_more [OF dense(1) assms(2)] by simp
next
  case (ranges sz w1 st refused)
  have "CopyAllocatedRanges os io m w src dst (int sz) = Some (w1, st, refused)"
    unfolding CopyAllocatedRanges_def by (rule range_loop_more [OF ranges(1) [unfolded CopyAllocatedRanges_def] assms(2,2)])
  moreover have "CopyBytesFromStart os io m w1 src dst = Some r" if "refused" "NT_SUCCESS st"
    using ranges(3) [OF that] unfolding CopyBytesFromStart_def
    by (auto split: prod.splits if_splits intro: CopyBytesToEnd_more [OF _ assms(2)])
  ultimately show ?thesis using ranges(2) by (auto simp: ranges(4) [of m])
qed simp

text \<open>What the calls of a copy keep, the copy keeps.\<close>

definition copy_calls_keep :: "('w, 'h) host \<Rightarrow> ('w, 'h) file_io \<Rightarrow> 'h \<Rightarrow> 'h \<Rightarrow> ('w \<Rightarrow> bool) \<Rightarrow> bool" where
  "copy_calls_keep os io src dst Q \<longleftrightarrow>
     (\<forall>w. Q w \<longrightarrow> (\<forall>k. Q (fst (ReadFromPointer io w src k))) \<and> (\<forall>bs. Q (fst (WriteFile os w dst bs))) \<and>
        (\<forall>p. Q (fst (SetFilePointerEx io w src p)) \<and> Q (fst (SetFilePointerEx io w dst p))) \<and> Q (fst (SetEndOfFile io w dst)))"

lemma copy_calls_keepD:
  assumes "copy_calls_keep os io src dst Q" "Q w"
  shows "ReadFromPointer io w src k = (w1, r1) \<Longrightarrow> Q w1" "WriteFile os w dst bs = (w1, r2) \<Longrightarrow> Q w1"
    "SetFilePointerEx io w src p = (w1, r3) \<Longrightarrow> Q w1" "SetFilePointerEx io w dst p = (w1, r3) \<Longrightarrow> Q w1"
    "SetEndOfFile io w dst = (w1, r3) \<Longrightarrow> Q w1"
  using assms unfolding copy_calls_keep_def by (metis fst_conv)+

lemma copy_loop_keeps:
  assumes "copy_calls_keep os io src dst Q"
  shows "Q w \<Longrightarrow> copy_loop os io n w src dst limit b = Some (w', r) \<Longrightarrow> Q w'"
proof (induction n arbitrary: w b)
  case (Suc n)
  note calls = copy_calls_keepD [OF assms]
  show ?case
  proof (cases "b < limit")
    case True
    let ?chunk = "if limit - b < int kCopyBufferSize then nat (limit - b) else kCopyBufferSize"
    obtain w1 x where rd: "ReadFromPointer io w src ?chunk = (w1, x)" by fastforce
    have Q1: "Q w1" using calls(1) [OF Suc.prems(1) rd] .
    show ?thesis
    proof (cases x)
      case (Inr buffer)
      obtain w2 st where wc: "WriteChunk os w1 dst buffer = (w2, st)" by fastforce
      have "Q w2" using wc calls(2) [OF Q1] by (auto simp: WriteChunk_def split: sum.splits prod.splits)
      then show ?thesis using Suc.prems(2) Suc.IH [of w2] Q1 True rd Inr wc by (auto simp: Let_def split: if_splits)
    qed (use Suc.prems(2) Q1 True rd in \<open>auto simp: Let_def\<close>)
  qed (use Suc.prems in auto)
qed simp

lemma seek_both_keeps:
  "copy_calls_keep os io src dst Q \<Longrightarrow> Q w \<Longrightarrow> seek_both os io w src dst p = (w', st) \<Longrightarrow> Q w'"
  by (auto simp: seek_both_def split: prod.splits option.splits dest: copy_calls_keepD)

lemma CopyAllocatedRange_keeps:
  "copy_calls_keep os io src dst Q \<Longrightarrow> Q w \<Longrightarrow> CopyAllocatedRange os io n w src dst r = Some (w', x) \<Longrightarrow> Q w'"
  by (auto simp: CopyAllocatedRange_def CopyBytes_def split: prod.splits if_splits dest: seek_both_keeps copy_loop_keeps)

lemma copy_ranges_keeps:
  "copy_calls_keep os io src dst Q \<Longrightarrow> Q w \<Longrightarrow> copy_ranges os io n w src dst rs = Some (w', x) \<Longrightarrow> Q w'"
  by (induction rs arbitrary: w) (auto split: prod.splits option.splits if_splits dest: CopyAllocatedRange_keeps)

lemma range_loop_keeps:
  assumes "copy_calls_keep os io src dst Q"
  shows "Q w \<Longrightarrow> range_loop os io k n w src dst sz q = Some (w', x) \<Longrightarrow> Q w'"
proof (induction k arbitrary: w q)
  case (Suc k)
  obtain result ranges where r: "QueryAllocatedRanges io w src q 64 = (result, ranges)" by fastforce
  show ?case
  proof (cases "fst q < sz \<and> result \<noteq> RangeRefused")
    case True
    then obtain w1 st toEnd where c: "copy_ranges os io n w src dst ranges = Some (w1, st, toEnd)"
      using Suc.prems(2) r by (cases result) (auto split: option.splits)
    have Q1: "Q w1" by (rule copy_ranges_keeps [OF assms Suc.prems(1) c])
    show ?thesis using Suc.prems(2) Suc.IH [OF Q1] True r c Q1 by (cases result) (auto simp: Let_def split: if_splits)
  qed (use Suc.prems r in \<open>cases "fst q < sz"; auto\<close>)
qed simp

lemma CopyBytesToEnd_keeps:
  "copy_calls_keep os io src dst Q \<Longrightarrow> Q w \<Longrightarrow> CopyBytesToEnd os io n w src dst = Some (w', st) \<Longrightarrow> Q w'"
  by (auto simp: CopyBytesToEnd_def CopyBytes_def dest: copy_loop_keeps)

lemma SetEndOfFile_keeps:
  "copy_calls_keep os io src dst Q \<Longrightarrow> Q w \<Longrightarrow> SetEndOfFileIfSizeDiffers os io w dst sz = (w', st) \<Longrightarrow> Q w'"
  by (auto simp: SetEndOfFileIfSizeDiffers_def split: sum.splits prod.splits option.splits if_splits dest: copy_calls_keepD)

lemma CopyFileDataKeepingHoles_keeps:
  assumes "copy_calls_keep os io src dst Q" "Q w" "CopyFileDataKeepingHoles os io n w src dst = Some (w', st)"
  shows "Q w'"
  using assms(3)
proof (cases rule: CopyFileDataKeepingHoles_cases)
  case dense
  then show ?thesis using CopyBytesToEnd_keeps [OF assms(1,2)] by blast
next
  case (ranges sz w1 st1 refused)
  have Q1: "Q w1" using range_loop_keeps [OF assms(1,2)] ranges(1) unfolding CopyAllocatedRanges_def by blast
  have full: "Q w'" if "CopyBytesFromStart os io n w1 src dst = Some (w', st)"
  proof (cases "seek_both os io w1 src dst 0")
    case (Pair w2 st2)
    have "Q w2" using seek_both_keeps [OF assms(1) Q1 Pair] .
    then show ?thesis using that CopyBytesToEnd_keeps [OF assms(1)] unfolding CopyBytesFromStart_def Pair
      by (auto split: if_splits)
  qed
  consider (failed) "\<not> NT_SUCCESS st1" | (again) "NT_SUCCESS st1" refused | (ended) "NT_SUCCESS st1" "\<not> refused" by blast
  then show ?thesis
  proof cases
    case failed
    then show ?thesis using ranges(2) Q1 by simp
  next
    case again
    then show ?thesis using full ranges(3) [OF again(2,1)] by blast
  next
    case ended
    then show ?thesis using SetEndOfFile_keeps [OF assms(1) Q1, of sz w' st] ranges(2) by simp
  qed
qed (use assms(2) in simp)

section \<open>The property\<close>

text \<open>
  C21: a copy of the data of one open file to another ends, whichever way it takes: through the buffer, by
  the allocated ranges of a sparse source, or through the buffer again after the volume refused the
  range query. The source keeps its bytes, and when the copy reports success the destination holds
  exactly the bytes of the source. It holds for a new destination and for a metacopy shell that an
  earlier fill left half done: not longer than the source, each byte zero or already copied.
\<close>

theorem CopyFileDataKeepingHoles_exact:
  assumes "two_files os io bytes ptr src dst" "ptr w src = 0" "ptr w dst = 0"
    and "length (bytes w src) < n" "int (length (bytes w src)) \<le> LLONG_MAX" "part_of (bytes w dst) (bytes w src)"
  shows "\<exists>w' status. CopyFileDataKeepingHoles os io n w src dst = Some (w', status) \<and> bytes w' src = bytes w src \<and>
    (NT_SUCCESS status \<longrightarrow> bytes w' dst = bytes w src)"
  by (rule two_files.CopyFileDataKeepingHoles_holds [OF assms])

definition sparse_pair :: mem_disk where
  "sparse_pair =
     [(sample_source, (mem_file [1, 0, 2])\<lparr>nodeAttributes := FILE_ATTRIBUTE_SPARSE_FILE\<rparr>),
      (sample_staged, (mem_file [1, 0])\<lparr>nodeAttributes := FILE_ATTRIBUTE_SPARSE_FILE\<rparr>)]"

theorem CopyFileDataKeepingHoles_exact_witness:
  "part_of (mem_bytes sparse_pair sample_staged) (mem_bytes sparse_pair sample_source) \<and>
   (\<exists>w' status. CopyFileDataKeepingHoles mem_host mem_io 4 sparse_pair sample_source sample_staged = Some (w', status) \<and>
     (NT_SUCCESS status \<longrightarrow> mem_bytes w' sample_staged = [1, 0, 2]))"
proof -
  have bs: "mem_bytes sparse_pair sample_source = [1, 0, 2]" "mem_bytes sparse_pair sample_staged = [1, 0]"
    "mem_pointer sparse_pair sample_source = 0" "mem_pointer sparse_pair sample_staged = 0"
    using sample_handles by (auto simp: mem_bytes_def mem_pointer_def sparse_pair_def mem_file_def)
  have p: "part_of (mem_bytes sparse_pair sample_staged) (mem_bytes sparse_pair sample_source)"
    by (simp add: bs part_of_def less_Suc_eq numeral_2_eq_2)
  have "\<exists>w' status. CopyFileDataKeepingHoles mem_host mem_io 4 sparse_pair sample_source sample_staged = Some (w', status) \<and>
      mem_bytes w' sample_source = mem_bytes sparse_pair sample_source \<and>
      (NT_SUCCESS status \<longrightarrow> mem_bytes w' sample_staged = mem_bytes sparse_pair sample_source)"
    by (rule CopyFileDataKeepingHoles_exact [OF mem_files.two_files_axioms _ _ _ _ p]) (simp_all add: bs LLONG_MAX_def)
  then show ?thesis using p bs by auto
qed

end
