(* ===== verification/Entry_Probe.thy ===== *)
theory Entry_Probe
  imports Host_Disk
begin

text \<open>
  How the engine reads one entry on disk, without following a link at it: the reparse tag, the
  kind of the entry, the reparse data of a symbolic link, and what a link leads to. Source:
  \<^verbatim>\<open>impl/LayerPath.cpp\<close>. An output parameter that a failing path leaves alone is part of the
  result with the value that the function or its caller gave it before.
\<close>

section \<open>Reparse tags and kinds\<close>

definition OpenReparseEntry :: "('w, 'h) host \<Rightarrow> 'w \<Rightarrow> wstring \<Rightarrow> dword \<Rightarrow> dword + 'h" where
  "OpenReparseEntry os w path acc = OpenReparsePoint os w (WithExtendedPrefix os path) acc"

text \<open>The status and the tag; the tag is 0, the callers' initial value, when the status reports the failed call.\<close>

definition ReadReparseTag :: "('w, 'h) host \<Rightarrow> 'w \<Rightarrow> wstring \<Rightarrow> ntstatus \<times> dword" where
  "ReadReparseTag os w path =
     (case OpenReparseEntry os w path FILE_READ_ATTRIBUTES of
        Inl e \<Rightarrow> (nt_status os e, 0)
      | Inr entry \<Rightarrow>
          (case FileAttributeTagInfo os w entry of
             Inl e \<Rightarrow> (nt_status os e, 0)
           | Inr tag \<Rightarrow> (STATUS_SUCCESS, tag)))"

definition IO_REPARSE_TAG_SYMLINK :: dword where "IO_REPARSE_TAG_SYMLINK = 0xA000000C"
definition IO_REPARSE_TAG_AF_UNIX :: dword where "IO_REPARSE_TAG_AF_UNIX = 0x80000023"
definition IO_REPARSE_TAG_APPEXECLINK :: dword where "IO_REPARSE_TAG_APPEXECLINK = 0x8000001B"
definition kReparseTagLxFifo :: dword where "kReparseTagLxFifo = 0x80000024"
definition kReparseTagLxChr :: dword where "kReparseTagLxChr = 0x80000025"
definition kReparseTagLxBlk :: dword where "kReparseTagLxBlk = 0x80000026"

definition IsLinkReparseTag :: "dword \<Rightarrow> bool" where
  "IsLinkReparseTag tag = IsReparseTagNameSurrogate tag"

definition IsSelfContainedFileReparseTag :: "dword \<Rightarrow> bool" where
  "IsSelfContainedFileReparseTag tag \<longleftrightarrow>
     tag = IO_REPARSE_TAG_AF_UNIX \<or> tag = kReparseTagLxFifo \<or> tag = kReparseTagLxChr \<or>
     tag = kReparseTagLxBlk \<or> tag = IO_REPARSE_TAG_APPEXECLINK"

definition IsDirectoryLink :: "('w, 'h) host \<Rightarrow> 'w \<Rightarrow> wstring \<Rightarrow> dword \<Rightarrow> ntstatus \<times> bool" where
  "IsDirectoryLink os w path attrs =
     (if attrs = INVALID_FILE_ATTRIBUTES then (STATUS_INVALID_PARAMETER, False)
      else
        let kDirectoryReparsePoint = FILE_ATTRIBUTE_DIRECTORY OR FILE_ATTRIBUTE_REPARSE_POINT in
        if attrs AND kDirectoryReparsePoint \<noteq> kDirectoryReparsePoint then (STATUS_SUCCESS, False)
        else
          let (status, tag) = ReadReparseTag os w path in
          if \<not> NT_SUCCESS status then (status, False) else (STATUS_SUCCESS, IsLinkReparseTag tag))"

text \<open>\<open>kind\<close> is the value the caller's variable has before the call.\<close>

definition EntryKindOf :: "('w, 'h) host \<Rightarrow> 'w \<Rightarrow> wstring \<Rightarrow> dword \<Rightarrow> EntryKind \<Rightarrow> ntstatus \<times> EntryKind" where
  "EntryKindOf os w path attrs kind =
     (if attrs AND FILE_ATTRIBUTE_DIRECTORY = 0 then (STATUS_SUCCESS, FileEntry)
      else
        let (status, isLink) = IsDirectoryLink os w path attrs in
        if \<not> NT_SUCCESS status then (status, kind)
        else (STATUS_SUCCESS, if isLink then LinkEntry else DirectoryEntry))"

definition ClonesReparsePoint :: "('w, 'h) host \<Rightarrow> 'w \<Rightarrow> wstring \<Rightarrow> dword \<Rightarrow> ntstatus \<times> bool" where
  "ClonesReparsePoint os w path attrs =
     (if attrs = INVALID_FILE_ATTRIBUTES then (STATUS_INVALID_PARAMETER, False)
      else if attrs AND FILE_ATTRIBUTE_REPARSE_POINT = 0 then (STATUS_SUCCESS, False)
      else
        let (status, tag) = ReadReparseTag os w path in
        if \<not> NT_SUCCESS status then (status, False)
        else
          let isDirectory = attrs AND FILE_ATTRIBUTE_DIRECTORY \<noteq> 0 in
          (STATUS_SUCCESS, IsLinkReparseTag tag \<or> (\<not> isDirectory \<and> IsSelfContainedFileReparseTag tag)))"

section \<open>Reparse data\<close>

datatype ReparseLink = ReparseNone | RelativeSymlink | OtherLink

text \<open>Little-endian fields of \<^verbatim>\<open>SymbolicLinkReparseHeader\<close> and the code units of a name.\<close>

definition le16 :: "byte list \<Rightarrow> nat \<Rightarrow> 16 word" where
  "le16 bs i = (ucast (bs ! i) :: 16 word) OR push_bit 8 (ucast (bs ! Suc i))"

definition le32 :: "byte list \<Rightarrow> nat \<Rightarrow> dword" where
  "le32 bs i = (ucast (le16 bs i) :: dword) OR push_bit 16 (ucast (le16 bs (i + 2)))"

definition utf16_at :: "byte list \<Rightarrow> nat \<Rightarrow> nat \<Rightarrow> wstring" where
  "utf16_at bs start n = map (\<lambda>i. le16 bs (start + 2 * i)) [0..<n]"

definition kSymbolicLinkReparseHeader :: nat where "kSymbolicLinkReparseHeader = 20"
definition kSymlinkFlagRelative :: dword where "kSymlinkFlagRelative = 1"

definition parse_reparse_data :: "byte list \<Rightarrow> ReparseLink \<times> wstring" where
  "parse_reparse_data data =
     (if length data < 4 then (OtherLink, [])
      else
        let tag = le32 data 0 in
        if \<not> IsLinkReparseTag tag then (ReparseNone, [])
        else if tag \<noteq> IO_REPARSE_TAG_SYMLINK \<or> length data < kSymbolicLinkReparseHeader then (OtherLink, [])
        else
          let nameStart = kSymbolicLinkReparseHeader + unat (le16 data 8);
              substituteNameLength = unat (le16 data 10);
              flags = le32 data 16 in
          if flags AND kSymlinkFlagRelative = 0 \<or> nameStart + substituteNameLength > length data then (OtherLink, [])
          else
            let target = utf16_at data nameStart (substituteNameLength div 2) in
            if wcolon \<in> set target then (OtherLink, []) else (RelativeSymlink, target))"

definition ReadReparseLink :: "('w, 'h) host \<Rightarrow> 'w \<Rightarrow> wstring \<Rightarrow> ReparseLink \<times> wstring" where
  "ReadReparseLink os w path =
     (case OpenReparseEntry os w path FILE_READ_ATTRIBUTES of
        Inl e \<Rightarrow> (OtherLink, [])
      | Inr entry \<Rightarrow>
          (case GetReparsePoint os w entry of Inl e \<Rightarrow> (OtherLink, []) | Inr data \<Rightarrow> parse_reparse_data data))"

section \<open>What a link leads to\<close>

datatype LinkTargetKind = TargetDirectory | TargetNoDirectory | TargetFailed

definition LinkTargetOf :: "('w, 'h) host \<Rightarrow> 'w \<Rightarrow> wstring \<Rightarrow> LinkTargetKind \<times> ntstatus" where
  "LinkTargetOf os w path =
     (case OpenFollowing os w (WithExtendedPrefix os path) FILE_READ_ATTRIBUTES of
        Inl e \<Rightarrow>
          if e = ERROR_FILE_NOT_FOUND \<or> e = ERROR_PATH_NOT_FOUND \<or> e = ERROR_DIRECTORY
          then (TargetNoDirectory, STATUS_SUCCESS) else (TargetFailed, nt_status os e)
      | Inr target \<Rightarrow>
          (case FileBasicAttributes os w target of
             Inl e \<Rightarrow> (TargetFailed, nt_status os e)
           | Inr attrs \<Rightarrow>
               if attrs AND FILE_ATTRIBUTE_DIRECTORY \<noteq> 0 then (TargetDirectory, STATUS_SUCCESS)
               else (TargetNoDirectory, STATUS_SUCCESS)))"

definition ShownLinkTarget :: "('w, 'h) host \<Rightarrow> 'w \<Rightarrow> ResolvedPath \<Rightarrow> LinkTargetKind \<times> ntstatus" where
  "ShownLinkTarget os w shown =
     (if \<not> Found shown \<or> attributes shown AND FILE_ATTRIBUTE_DIRECTORY = 0 then (TargetNoDirectory, STATUS_SUCCESS)
      else if attributes shown AND FILE_ATTRIBUTE_REPARSE_POINT \<noteq> 0 then LinkTargetOf os w (absolutePath shown)
      else (TargetDirectory, STATUS_SUCCESS))"

definition WithStoredLeafName :: "('w, 'h) host \<Rightarrow> 'w \<Rightarrow> wstring \<Rightarrow> wstring \<Rightarrow> wstring" where
  "WithStoredLeafName os w targetPath entryPath =
     (case FindFiles os w (WithExtendedPrefix os entryPath) of
        Inr (fd # _, _) \<Rightarrow> take (case wfind_last targetPath bslash of None \<Rightarrow> 0 | Some i \<Rightarrow> Suc i) targetPath @ cFileName fd
      | _ \<Rightarrow> targetPath)"

section \<open>Decoding a symbolic link\<close>

text \<open>The bytes of a relative symbolic link with substitute name \<open>t\<close> at the start of the name buffer.\<close>

definition le16_bytes :: "16 word \<Rightarrow> byte list" where
  "le16_bytes x = [ucast x, ucast (drop_bit 8 x)]"

definition utf16_bytes :: "wstring \<Rightarrow> byte list" where
  "utf16_bytes t = concat (map le16_bytes t)"

lemma length_utf16_bytes [simp]: "length (utf16_bytes t) = 2 * length t"
  by (induction t) (simp_all add: utf16_bytes_def le16_bytes_def)

lemma le16_bytes_inverse:
  "le16_bytes x = [bs ! i, bs ! Suc i] \<longleftrightarrow> le16 bs i = x"
proof
  assume "le16_bytes x = [bs ! i, bs ! Suc i]"
  then have "bs ! i = ucast x" "bs ! Suc i = ucast (drop_bit 8 x)" by (simp_all add: le16_bytes_def)
  then show "le16 bs i = x"
    by (intro bit_word_eqI) (auto simp: le16_def bit_simps)
next
  assume x: "le16 bs i = x"
  have "\<not> bit (bs ! i) (8 + n)" for n using bit_imp_le_length [of "bs ! i" "8 + n"] by auto
  with x show "le16_bytes x = [bs ! i, bs ! Suc i]"
    by (auto simp: le16_bytes_def le16_def bit_simps intro!: bit_word_eqI)
qed

lemma utf16_at_eq_iff:
  assumes "start + 2 * n \<le> length bs"
  shows "utf16_at bs start n = t \<longleftrightarrow> length t = n \<and> take (2 * n) (drop start bs) = utf16_bytes t"
  using assms
proof (induction n arbitrary: start t)
  case 0
  then show ?case by (auto simp: utf16_at_def utf16_bytes_def)
next
  case (Suc n)
  have step: "utf16_at bs start (Suc n) = le16 bs start # utf16_at bs (start + 2) n"
    by (simp add: utf16_at_def upt_conv_Cons map_Suc_upt [symmetric] del: upt_Suc)
  have "start < length bs" "Suc start < length bs" using Suc.prems by simp_all
  then have bs: "drop start bs = bs ! start # bs ! Suc start # drop (start + 2) bs"
    by (simp add: Cons_nth_drop_Suc [symmetric])
  have tk: "take (2 * Suc n) (drop start bs) = bs ! start # bs ! Suc start # take (2 * n) (drop (start + 2) bs)"
    using bs by simp
  show ?case
  proof (cases t)
    case Nil
    then show ?thesis by (simp add: step)
  next
    case (Cons x t')
    have "take (2 * Suc n) (drop start bs) = utf16_bytes t \<longleftrightarrow>
      le16_bytes x = [bs ! start, bs ! Suc start] \<and> take (2 * n) (drop (start + 2) bs) = utf16_bytes t'"
      unfolding tk by (auto simp: Cons utf16_bytes_def le16_bytes_def)
    then show ?thesis using Suc.IH [of "start + 2" t'] Suc.prems
      by (auto simp: step Cons le16_bytes_inverse)
  qed
qed

lemma parse_relative_no_colon: "parse_reparse_data data = (RelativeSymlink, t) \<Longrightarrow> wcolon \<notin> set t"
  by (auto simp: parse_reparse_data_def Let_def split: if_splits)

lemma ReadReparseLink_no_colon: "ReadReparseLink os w path = (RelativeSymlink, t) \<Longrightarrow> wcolon \<notin> set t"
  by (auto simp: ReadReparseLink_def split: sum.splits dest: parse_relative_no_colon)

text \<open>
  C29: The decoder of a reparse buffer never reads past the bytes the file system returned, and it
  gives a relative symbolic link exactly for a buffer with the symbolic link tag, the relative flag
  and a name range inside the buffer that holds no colon; the target is then the name range's code
  units.
\<close>

theorem parse_reparse_data_relative_iff:
  "parse_reparse_data data = (RelativeSymlink, t) \<longleftrightarrow>
     20 \<le> length data \<and> le32 data 0 = IO_REPARSE_TAG_SYMLINK \<and> le32 data 16 AND 1 \<noteq> 0 \<and>
     20 + unat (le16 data 8) + unat (le16 data 10) \<le> length data \<and>
     length t = unat (le16 data 10) div 2 \<and>
     take (2 * length t) (drop (20 + unat (le16 data 8)) data) = utf16_bytes t \<and> wcolon \<notin> set t"
proof -
  let ?start = "20 + unat (le16 data 8)" and ?n = "unat (le16 data 10) div 2"
  have link: "IsLinkReparseTag IO_REPARSE_TAG_SYMLINK"
    by (simp add: IsLinkReparseTag_def IsReparseTagNameSurrogate_def IO_REPARSE_TAG_SYMLINK_def)
  have eq: "utf16_at data ?start ?n = t \<longleftrightarrow> length t = ?n \<and> take (2 * ?n) (drop ?start data) = utf16_bytes t"
    if "?start + unat (le16 data 10) \<le> length data"
    using that by (intro utf16_at_eq_iff) simp
  show ?thesis
    using eq link
    by (auto simp: parse_reparse_data_def Let_def kSymbolicLinkReparseHeader_def kSymlinkFlagRelative_def)
qed

end
