(* ===== verification/Ea_List.thy ===== *)
theory Ea_List
  imports Entry_Probe
begin

text \<open>
  Lists of extended attributes (\<^verbatim>\<open>FILE_FULL_EA_INFORMATION\<close>) and the filter that a copy of an entry
  applies to them (\<^verbatim>\<open>impl/EntryCopy.cpp\<close>). A list is its bytes; the fields of \<^verbatim>\<open>FullEaHeader\<close> are read at
  their offsets. The theorem relates the filtered bytes to the entries that a reader of the list finds.
\<close>

section \<open>The bytes of a list\<close>

definition FullEaHeader_size :: nat where "FullEaHeader_size = 8"

definition nextEntryOffset :: "byte list \<Rightarrow> nat \<Rightarrow> dword" where "nextEntryOffset bs offset = le32 bs offset"
definition nameLength :: "byte list \<Rightarrow> nat \<Rightarrow> nat" where "nameLength bs offset = unat (bs ! (offset + 5))"
definition valueLength :: "byte list \<Rightarrow> nat \<Rightarrow> nat" where "valueLength bs offset = unat (le16 bs (offset + 6))"

definition entrySize :: "byte list \<Rightarrow> nat \<Rightarrow> nat" where
  "entrySize bs offset = FullEaHeader_size + nameLength bs offset + 1 + valueLength bs offset"

definition byte_lower :: "byte \<Rightarrow> byte" where
  "byte_lower c = (if 65 \<le> c \<and> c \<le> 90 then c + 32 else c)"

text \<open>\<^verbatim>\<open>_strnicmp\<close> compares up to the length of the prefix, which holds no null byte.\<close>

definition IsKernelExtendedAttributeName :: "byte list \<Rightarrow> bool" where
  "IsKernelExtendedAttributeName name \<longleftrightarrow>
     (let prefix = blit ''$KERNEL.'' in
      length prefix \<le> length name \<and> map byte_lower (take (length prefix) name) = map byte_lower prefix)"

text \<open>\<^verbatim>\<open>(offset + sizeof(ULONG) - 1) & ~(sizeof(ULONG) - 1)\<close>; no offset here comes near the width of \<^verbatim>\<open>size_t\<close>.\<close>

definition AlignedToUlong :: "nat \<Rightarrow> nat" where
  "AlignedToUlong offset = nat ((int offset + 4 - 1) AND NOT (4 - 1))"

definition le32_bytes :: "dword \<Rightarrow> byte list" where
  "le32_bytes x = le16_bytes (ucast x) @ le16_bytes (ucast (drop_bit 16 x))"

text \<open>A write of \<^verbatim>\<open>nextEntryOffset\<close> in place; \<^const>\<open>padded_to\<close> is \<^verbatim>\<open>std::vector::resize\<close>.\<close>

definition put32 :: "byte list \<Rightarrow> nat \<Rightarrow> dword \<Rightarrow> byte list" where
  "put32 bs offset x = take offset bs @ le32_bytes x @ drop (offset + 4) bs"

section \<open>The filter (EntryCopy.cpp)\<close>

lemma entry_step: "offset + FullEaHeader_size \<le> length bs \<Longrightarrow> x \<noteq> 0 \<Longrightarrow> length bs - (offset + unat x) < length bs - offset"
  for x :: dword
  using unat_gt_0 [of x] by (simp add: FullEaHeader_size_def)

function ea_count :: "byte list \<Rightarrow> nat \<Rightarrow> nat" where
  "ea_count bs offset =
     (if offset + FullEaHeader_size \<le> length bs
      then if nextEntryOffset bs offset = 0 then 1 else Suc (ea_count bs (offset + unat (nextEntryOffset bs offset)))
      else 0)"
  by pat_completeness auto
termination by (relation "measure (\<lambda>(bs, offset). length bs - offset)") (auto intro: entry_step)

definition FullEaEntryCount :: "byte list \<Rightarrow> nat" where
  "FullEaEntryCount bs = ea_count bs 0"

text \<open>One kept entry: the buffer \<open>settable\<close> and the offset \<open>lastKept\<close> of the entry kept before it.\<close>

definition keep_entry :: "byte list \<times> nat \<Rightarrow> byte list \<Rightarrow> byte list \<times> nat" where
  "keep_entry st entry =
     (let (settable, lastKept) = st;
          settable1 =
            (if settable = [] then settable
             else
               let resized = padded_to (AlignedToUlong (length settable)) settable in
               put32 resized lastKept (of_nat (length resized - lastKept)));
          lastKept1 = length settable1 in
      (put32 (settable1 @ entry) lastKept1 0, lastKept1))"

function ea_filter :: "byte list \<Rightarrow> nat \<Rightarrow> byte list \<times> nat \<Rightarrow> byte list" where
  "ea_filter bs offset st =
     (if offset + FullEaHeader_size \<le> length bs then
        let size = entrySize bs offset in
        if length bs < offset + size then fst st
        else
          let name = take (nameLength bs offset) (drop (offset + FullEaHeader_size) bs);
              st1 = (if IsKernelExtendedAttributeName name then st else keep_entry st (take size (drop offset bs))) in
          if nextEntryOffset bs offset = 0 then fst st1
          else ea_filter bs (offset + unat (nextEntryOffset bs offset)) st1
      else fst st)"
  by pat_completeness auto
termination by (relation "measure (\<lambda>(bs, offset, st). length bs - offset)") (auto intro: entry_step)

definition ExtendedAttributesUserModeCanSet :: "byte list \<Rightarrow> byte list" where
  "ExtendedAttributesUserModeCanSet bs = ea_filter bs 0 ([], 0)"

declare ea_count.simps [simp del] ea_filter.simps [simp del]

section \<open>The entries a reader finds\<close>

text \<open>
  An entry without its link to the next one: the flags, the two lengths, the name, the null byte and
  the value. A reader takes the entries that lie inside the list, each with its offset.
\<close>

function ea_entries :: "byte list \<Rightarrow> nat \<Rightarrow> (nat \<times> byte list) list" where
  "ea_entries bs offset =
     (if offset + FullEaHeader_size \<le> length bs \<and> offset + entrySize bs offset \<le> length bs
      then
        (offset, take (entrySize bs offset - 4) (drop (offset + 4) bs)) #
        (if nextEntryOffset bs offset = 0 then [] else ea_entries bs (offset + unat (nextEntryOffset bs offset)))
      else [])"
  by pat_completeness auto
termination by (relation "measure (\<lambda>(bs, offset). length bs - offset)") (auto intro: entry_step)

declare ea_entries.simps [simp del]

definition ea_name :: "byte list \<Rightarrow> byte list" where
  "ea_name body = take (unat (body ! 1)) (drop 4 body)"

definition well_sized :: "byte list \<Rightarrow> bool" where
  "well_sized body \<longleftrightarrow> 4 \<le> length body \<and> length body = 5 + unat (body ! 1) + unat (le16 body 2)"

section \<open>Fields at an offset\<close>

lemma le16_append [simp]: "le16 (pre @ bs) (length pre + i) = le16 bs i"
  by (simp add: le16_def nth_append)

lemma le16_drop: "i + j + 1 < length bs \<Longrightarrow> le16 (drop i bs) j = le16 bs (i + j)"
  by (simp add: le16_def)

lemma le16_take: "i + 1 < n \<Longrightarrow> le16 (take n bs) i = le16 bs i"
  by (simp add: le16_def)

lemma length_le32_bytes [simp]: "length (le32_bytes x) = 4"
  by (simp add: le32_bytes_def le16_bytes_def)

lemma le32_bytes_not_Nil [simp]: "le32_bytes x \<noteq> []"
  by (simp add: le32_bytes_def le16_bytes_def)

lemma le32_at [simp]: "le32 (pre @ le32_bytes x @ bs) (length pre) = x"
proof -
  have 1: "le16 (le32_bytes x @ bs) 0 = ucast x" "le16 (le32_bytes x @ bs) 2 = ucast (drop_bit 16 x)"
    by (simp_all add: le16_bytes_inverse [symmetric] le32_bytes_def le16_bytes_def)
  have "le16 (pre @ le32_bytes x @ bs) (length pre) = ucast x"
    "le16 (pre @ le32_bytes x @ bs) (length pre + 2) = ucast (drop_bit 16 x)"
    using 1 le16_append [of pre "le32_bytes x @ bs" 0] le16_append [of pre "le32_bytes x @ bs" 2] by simp_all
  then show ?thesis unfolding le32_def
    by (intro bit_word_eqI) (auto simp: bit_simps)
qed

lemma AlignedToUlong_eq: "AlignedToUlong n = (n + 3) div 4 * 4"
proof -
  have "k AND NOT (mask m) = push_bit m (drop_bit m k)" for k :: int and m
    by (intro bit_eqI) (auto simp: bit_simps)
  from this [of "int n + 3" 2] have "(int n + 3) AND NOT 3 = (int n + 3) div 4 * 4"
    by (simp add: mask_eq_exp_minus_1 push_bit_eq_mult drop_bit_eq_div)
  then have "(int n + 3) AND NOT 3 = int ((n + 3) div 4 * 4)" by (simp add: zdiv_int)
  then show ?thesis by (simp add: AlignedToUlong_def add.commute)
qed

section \<open>The filtered list\<close>

text \<open>
  The bytes of a list with the given entries: each entry but the last links to the next one, which
  starts at the next multiple of four.
\<close>

definition ea_chunk :: "byte list \<Rightarrow> byte list" where
  "ea_chunk body =
     (let size = AlignedToUlong (4 + length body) in
      le32_bytes (of_nat size) @ body @ replicate (size - (4 + length body)) 0)"

definition ea_bytes :: "byte list list \<Rightarrow> byte list" where
  "ea_bytes bodies =
     (if bodies = [] then [] else concat (map ea_chunk (butlast bodies)) @ le32_bytes 0 @ last bodies)"

lemma length_ea_chunk: "length (ea_chunk body) = AlignedToUlong (4 + length body)"
  by (simp add: ea_chunk_def AlignedToUlong_eq Let_def)

lemma chunks_aligned: "4 dvd length (concat (map ea_chunk bodies))"
  by (induction bodies) (simp_all add: length_ea_chunk AlignedToUlong_eq)

lemma aligned_after: "4 dvd m \<Longrightarrow> AlignedToUlong (m + k) = m + AlignedToUlong k"
  by (auto simp: AlignedToUlong_eq add.assoc)

lemma aligned_ge: "k \<le> AlignedToUlong k"
  by (simp add: AlignedToUlong_eq)

lemma keep_entry_bytes:
  assumes "length link = 4"
  shows "keep_entry (ea_bytes ks, length (concat (map ea_chunk (butlast ks)))) (link @ body) =
    (ea_bytes (ks @ [body]), length (concat (map ea_chunk ks)))"
proof (cases ks rule: rev_cases)
  case Nil
  then show ?thesis using assms by (simp add: keep_entry_def ea_bytes_def put32_def)
next
  case (snoc init k)
  let ?pre = "concat (map ea_chunk init)" and ?size = "AlignedToUlong (4 + length k)"
  have len: "AlignedToUlong (length ?pre + (4 + length k)) = length ?pre + ?size"
    using aligned_after [OF chunks_aligned] .
  have r: "padded_to (length ?pre + ?size) (?pre @ le32_bytes 0 @ k) = ?pre @ le32_bytes 0 @ k @ replicate (?size - (4 + length k)) 0"
    using aligned_ge [of "4 + length k"] by (simp add: padded_to_def)
  have p: "put32 (?pre @ le32_bytes 0 @ k @ replicate (?size - (4 + length k)) 0) (length ?pre) (of_nat ?size) = concat (map ea_chunk ks)"
    by (simp add: put32_def snoc ea_chunk_def Let_def)
  have l: "length (?pre @ le32_bytes 0 @ k @ replicate (?size - (4 + length k)) 0) - length ?pre = ?size"
    using aligned_ge [of "4 + length k"] by simp
  show ?thesis
    using assms len r p l by (simp add: keep_entry_def snoc ea_bytes_def Let_def put32_def [of "_ @ link @ _"] butlast_append)
qed

lemma entry_body:
  assumes "offset + entrySize bs offset \<le> length bs"
  defines "body \<equiv> take (entrySize bs offset - 4) (drop (offset + 4) bs)"
  shows "well_sized body" "take (entrySize bs offset) (drop offset bs) = take 4 (drop offset bs) @ body"
    "ea_name body = take (nameLength bs offset) (drop (offset + FullEaHeader_size) bs)"
proof -
  have len: "length body = entrySize bs offset - 4" "8 < entrySize bs offset"
    using assms(1) by (auto simp: body_def entrySize_def FullEaHeader_size_def)
  have b1: "body ! 1 = bs ! (offset + 5)" "le16 body 2 = le16 bs (offset + 6)"
    using assms(1) len by (simp_all add: body_def le16_take le16_drop add.commute)
  show "well_sized body"
    using len b1 by (simp add: well_sized_def entrySize_def FullEaHeader_size_def nameLength_def valueLength_def)
  show "take (entrySize bs offset) (drop offset bs) = take 4 (drop offset bs) @ body"
    using len(2) take_add [of 4 "entrySize bs offset - 4" "drop offset bs"] by (simp add: body_def add.commute)
  have "drop 4 body = take (entrySize bs offset - 8) (drop (offset + 8) bs)" by (simp add: body_def drop_take add.commute)
  then show "ea_name body = take (nameLength bs offset) (drop (offset + FullEaHeader_size) bs)"
    using b1 by (simp add: ea_name_def entrySize_def FullEaHeader_size_def nameLength_def min_def)
qed

lemma ea_filter_bytes:
  "ea_filter bs offset (ea_bytes ks, length (concat (map ea_chunk (butlast ks)))) =
     ea_bytes (ks @ filter (\<lambda>body. \<not> IsKernelExtendedAttributeName (ea_name body)) (map snd (ea_entries bs offset)))"
proof (induction bs offset arbitrary: ks rule: ea_entries.induct)
  case (1 bs offset)
  show ?case
  proof (cases "offset + FullEaHeader_size \<le> length bs \<and> offset + entrySize bs offset \<le> length bs")
    case False
    then show ?thesis by (subst ea_filter.simps, subst ea_entries.simps) (auto simp: Let_def)
  next
    case True
    let ?body = "take (entrySize bs offset - 4) (drop (offset + 4) bs)"
      and ?kernel = "\<lambda>body. IsKernelExtendedAttributeName (ea_name body)"
    let ?ks = "if ?kernel ?body then ks else ks @ [?body]"
    note b = entry_body [OF True [THEN conjunct2]]
    have "length (take 4 (drop offset bs)) = 4" using True [THEN conjunct1] by (simp add: FullEaHeader_size_def)
    then have keep: "(if ?kernel ?body then (ea_bytes ks, length (concat (map ea_chunk (butlast ks))))
        else keep_entry (ea_bytes ks, length (concat (map ea_chunk (butlast ks)))) (take (entrySize bs offset) (drop offset bs))) =
      (ea_bytes ?ks, length (concat (map ea_chunk (butlast ?ks))))"
      using keep_entry_bytes [of "take 4 (drop offset bs)" ks ?body] b(2) by simp
    show ?thesis
      using True keep 1 [OF True, of ?ks] b(3)
      by (subst ea_filter.simps, subst ea_entries.simps) (auto simp: Let_def)
  qed
qed

lemma ea_entries_sized: "list_all well_sized (map snd (ea_entries bs offset))"
proof (induction bs offset rule: ea_entries.induct)
  case (1 bs offset)
  then show ?case using entry_body(1) [of offset bs] by (subst ea_entries.simps) (fastforce simp: list_all_iff)
qed

lemma ea_entries_body:
  assumes "well_sized body"
  shows "ea_entries (pre @ le32_bytes x @ body @ rest) (length pre) =
    (length pre, body) # (if x = 0 then [] else ea_entries (pre @ le32_bytes x @ body @ rest) (length pre + unat x))"
proof -
  let ?bs = "pre @ le32_bytes x @ body @ rest" and ?n = "length pre"
  have n: "nextEntryOffset ?bs ?n = x" by (simp add: nextEntryOffset_def)
  have "?bs ! (?n + 5) = body ! 1" using assms by (simp add: nth_append well_sized_def)
  moreover have "le16 ?bs (?n + 6) = le16 body 2"
    using assms le16_append [of "pre @ le32_bytes x" "body @ rest" 2] by (simp add: le16_def nth_append well_sized_def)
  ultimately have s: "entrySize ?bs ?n = 4 + length body"
    using assms by (simp add: entrySize_def nameLength_def valueLength_def FullEaHeader_size_def well_sized_def)
  have "?n + FullEaHeader_size \<le> length ?bs" using assms by (simp add: FullEaHeader_size_def well_sized_def)
  then show ?thesis using n s by (subst ea_entries.simps) simp
qed

lemma ea_entries_bytes:
  assumes "list_all well_sized ks" "list_all (\<lambda>k. 4 + length k < 2 ^ 31) ks" "4 dvd length pre"
  shows "map snd (ea_entries (pre @ ea_bytes ks) (length pre)) = ks \<and>
    (\<forall>offset \<in> fst ` set (ea_entries (pre @ ea_bytes ks) (length pre)). 4 dvd offset)"
  using assms
proof (induction ks arbitrary: pre)
  case Nil
  then show ?case by (subst (1 2) ea_entries.simps) (simp add: ea_bytes_def FullEaHeader_size_def)
next
  case (Cons k ks)
  have w: "well_sized k" using Cons.prems by simp
  show ?case
  proof (cases "ks = []")
    case True
    then show ?thesis using ea_entries_body [OF w, of pre 0 "[]"] Cons.prems by (simp add: ea_bytes_def)
  next
    case False
    let ?size = "AlignedToUlong (4 + length k)"
    let ?pad = "replicate (?size - (4 + length k)) 0"
    have "?size \<le> 7 + length k" by (simp add: AlignedToUlong_eq)
    then have small: "?size < 2 ^ 32" "0 < ?size" using Cons.prems aligned_ge [of "4 + length k"] by auto
    then have u: "unat (of_nat ?size :: dword) = ?size" by (simp add: unsigned_of_nat take_bit_nat_eq_self)
    then have nz: "of_nat ?size \<noteq> (0 :: dword)" using small by (metis less_irrefl unat_0)
    have eq: "pre @ ea_bytes (k # ks) = pre @ le32_bytes (of_nat ?size) @ k @ (?pad @ ea_bytes ks)"
      using False by (simp add: ea_bytes_def ea_chunk_def Let_def)
    have len: "length pre + ?size = length (pre @ ea_chunk k)" by (simp add: length_ea_chunk)
    have "4 dvd length (pre @ ea_chunk k)" using Cons.prems chunks_aligned [of "[k]"] by simp
    note IH = Cons.IH [OF _ _ this]
    have "ea_entries (pre @ ea_bytes (k # ks)) (length pre) =
      (length pre, k) # ea_entries ((pre @ ea_chunk k) @ ea_bytes ks) (length (pre @ ea_chunk k))"
      unfolding eq using ea_entries_body [OF w, of pre "of_nat ?size" "?pad @ ea_bytes ks"] nz u aligned_ge [of "4 + length k"]
      by (simp add: len [symmetric] ea_chunk_def Let_def)
    then show ?thesis using IH Cons.prems by simp
  qed
qed

lemma well_sized_small: "well_sized body \<Longrightarrow> 4 + length body < 2 ^ 31"
  using unsigned_less [of "body ! 1", where 'a = nat] unsigned_less [of "le16 body 2", where 'a = nat] by (simp add: well_sized_def)

text \<open>
  C28: the list that a copy sets on the new entry holds exactly the extended attributes of the source
  list whose names are not reserved for the kernel, each with its flags, name and value, in the order of
  the source, and each at a multiple of four bytes; an entry that runs past the list ends it.
\<close>

theorem ExtendedAttributesUserModeCanSet_exact:
  "map snd (ea_entries (ExtendedAttributesUserModeCanSet bs) 0) =
     filter (\<lambda>body. \<not> IsKernelExtendedAttributeName (ea_name body)) (map snd (ea_entries bs 0)) \<and>
   list_all (\<lambda>(offset, body). 4 dvd offset) (ea_entries (ExtendedAttributesUserModeCanSet bs) 0)"
proof -
  let ?ks = "filter (\<lambda>body. \<not> IsKernelExtendedAttributeName (ea_name body)) (map snd (ea_entries bs 0))"
  have "list_all well_sized ?ks" using ea_entries_sized [of bs 0] by (auto simp: list_all_iff)
  moreover have "list_all (\<lambda>k. 4 + length k < 2 ^ 31) ?ks"
    using ea_entries_sized [of bs 0] well_sized_small by (auto simp: list_all_iff)
  moreover have "ExtendedAttributesUserModeCanSet bs = ea_bytes ?ks"
    using ea_filter_bytes [of bs 0 "[]"] by (simp add: ExtendedAttributesUserModeCanSet_def ea_bytes_def)
  ultimately show ?thesis using ea_entries_bytes [of ?ks "[]"] by (auto simp: list_all_iff)
qed

end
