(* ===== verification/Metadata_Store.thy ===== *)
theory Metadata_Store
  imports Entry_Probe
begin

text \<open>
  The two stores of per-entry overlay metadata: the sidecar files of \<^verbatim>\<open>impl/SidecarMetadata.cpp\<close>, keyed
  by a hash of the entry's path, and the alternate data streams of \<^verbatim>\<open>impl/MetadataStore.cpp\<close>, with
  the dispatch between them. An operation takes the disk and returns the disk it leaves; a bool or
  a status is the code's own return value.
\<close>

section \<open>Records and JSON\<close>

definition FileTimeToUint64 :: "FILETIME \<Rightarrow> uint64" where
  "FileTimeToUint64 ft = push_bit 32 (ucast (dwHighDateTime ft)) OR ucast (dwLowDateTime ft)"

definition Uint64ToFileTime :: "uint64 \<Rightarrow> FILETIME" where
  "Uint64ToFileTime val = \<lparr>dwLowDateTime = ucast (val AND 0xFFFFFFFF), dwHighDateTime = ucast (drop_bit 32 val)\<rparr>"

definition WideToUtf8 :: "('w, 'h) host \<Rightarrow> wstring \<Rightarrow> byte list" where
  "WideToUtf8 os wide = (if wide = [] then [] else WideCharToMultiByte os wide)"

definition Utf8ToWide :: "('w, 'h) host \<Rightarrow> byte list \<Rightarrow> wstring" where
  "Utf8ToWide os utf8 = (if utf8 = [] then [] else MultiByteToWideChar os utf8)"

text \<open>
  \<^verbatim>\<open>json::value(key, default)\<close> for the three value types: \<open>None\<close> is the \<^verbatim>\<open>json::type_error\<close> of a value
  that is not an object, or of a member of another type. A member that is missing gives the default.
\<close>

fun json_value :: "(json \<Rightarrow> 'a option) \<Rightarrow> json \<Rightarrow> byte list \<Rightarrow> 'a \<Rightarrow> 'a option" where
  "json_value conv (JObject ms) key dflt = (case map_of ms key of None \<Rightarrow> Some dflt | Some v \<Rightarrow> conv v)"
| "json_value conv j key dflt = None"

fun json_bool :: "json \<Rightarrow> bool option" where
  "json_bool (JBool b) = Some b"
| "json_bool j = None"

fun json_string :: "json \<Rightarrow> byte list option" where
  "json_string (JString s) = Some s"
| "json_string j = None"

fun json_uint64 :: "json \<Rightarrow> uint64 option" where
  "json_uint64 (JUnsigned n) = Some n"
| "json_uint64 (JInteger i) = Some (word_of_int i)"
| "json_uint64 (JFloat n) = Some n"
| "json_uint64 (JBool b) = Some (if b then 1 else 0)"
| "json_uint64 j = None"

definition MetadataToJson :: "('w, 'h) host \<Rightarrow> LayerMountMetadata \<Rightarrow> json" where
  "MetadataToJson os m = JObject
     [(blit ''opaque'', JBool (opaque m)),
      (blit ''metacopy'', JBool (metacopy m)),
      (blit ''redirect'', JString (WideToUtf8 os (redirect m))),
      (blit ''copyUpTimestamp'', JUnsigned (FileTimeToUint64 (copyUpTimestamp m))),
      (blit ''originLayer'', JString (WideToUtf8 os (originLayer m))),
      (blit ''hasStableIndexNumber'', JBool (hasStableIndexNumber m)),
      (blit ''stableIndexNumber'', JUnsigned (stableIndexNumber m))]"

definition JsonToMetadata :: "('w, 'h) host \<Rightarrow> json \<Rightarrow> LayerMountMetadata option" where
  "JsonToMetadata os j =
     Option.bind (json_value json_bool j (blit ''opaque'') False) (\<lambda>oq.
     Option.bind (json_value json_bool j (blit ''metacopy'') False) (\<lambda>mc.
     Option.bind (json_value json_string j (blit ''redirect'') []) (\<lambda>rd.
     Option.bind (json_value json_uint64 j (blit ''copyUpTimestamp'') 0) (\<lambda>ts.
     Option.bind (json_value json_string j (blit ''originLayer'') []) (\<lambda>ol.
     Option.bind (json_value json_bool j (blit ''hasStableIndexNumber'') False) (\<lambda>hs.
     Option.bind (json_value json_uint64 j (blit ''stableIndexNumber'') 0) (\<lambda>si.
       Some \<lparr>opaque = oq, metacopy = mc, redirect = Utf8ToWide os rd, copyUpTimestamp = Uint64ToFileTime ts,
             originLayer = Utf8ToWide os ol, hasStableIndexNumber = hs, stableIndexNumber = si\<rparr>)))))))"

definition IsDefaultMetadata :: "LayerMountMetadata \<Rightarrow> bool" where
  "IsDefaultMetadata m \<longleftrightarrow>
     \<not> opaque m \<and> \<not> metacopy m \<and> redirect m = [] \<and>
     dwLowDateTime (copyUpTimestamp m) = 0 \<and> dwHighDateTime (copyUpTimestamp m) = 0 \<and>
     originLayer m = [] \<and> \<not> hasStableIndexNumber m \<and> stableIndexNumber m = 0"

text \<open>
  Reading an open record: the record, and whether the read or the parse failed. A record of 0
  bytes counts as absent.
\<close>

definition ReadOpenRecord :: "('w, 'h) host \<Rightarrow> 'w \<Rightarrow> 'h \<Rightarrow> LayerMountMetadata \<times> bool" where
  "ReadOpenRecord os w h =
     (case GetFileSizeEx os w h of
        Inl e \<Rightarrow> (default_metadata, True)
      | Inr fileSize \<Rightarrow>
          if fileSize = 0 then (default_metadata, False)
          else if fileSize > 0xFFFFFFFF then (default_metadata, True)
          else
            (case ReadFile os w h fileSize of
               Inl e \<Rightarrow> (default_metadata, True)
             | Inr buffer \<Rightarrow>
                 if buffer = [] then (default_metadata, True)
                 else
                   (case Option.bind (json_parse os buffer) (JsonToMetadata os) of
                      None \<Rightarrow> (default_metadata, True)
                    | Some m \<Rightarrow> (m, False))))"

section \<open>Sidecar files\<close>

definition kMetaSuffix :: wstring where "kMetaSuffix = wlit ''.meta.json''"
definition kOpaqueSuffix :: wstring where "kOpaqueSuffix = wlit ''.opaque''"

definition hex_digit :: "byte \<Rightarrow> wchar" where
  "hex_digit d = wlit ''0123456789abcdef'' ! unat (d AND 0xF)"

text \<open>An empty string when BCrypt fails.\<close>

definition Sha1Hex :: "('w, 'h) host \<Rightarrow> byte list \<Rightarrow> wstring" where
  "Sha1Hex os data =
     (case Sha1Digest os data of
        None \<Rightarrow> []
      | Some digest \<Rightarrow> concat (map (\<lambda>d. [hex_digit (drop_bit 4 d), hex_digit d]) digest))"

definition LowerCase :: "('w, 'h) host \<Rightarrow> wstring \<Rightarrow> wstring" where
  "LowerCase os s = map (CharLowerW os) s"

definition IsNotFoundError :: "dword \<Rightarrow> bool" where
  "IsNotFoundError error \<longleftrightarrow> error = ERROR_FILE_NOT_FOUND \<or> error = ERROR_PATH_NOT_FOUND"

text \<open>The directory of the sidecar files of the overlay whose upper root is \<open>root\<close>.\<close>

definition win32Directory :: "('w, 'h) host \<Rightarrow> wstring \<Rightarrow> wstring" where
  "win32Directory os root = JoinDirPath (ForWin32 os root) kSidecarDirName"

definition BaseOf :: "('w, 'h) host \<Rightarrow> wstring \<Rightarrow> wstring \<Rightarrow> wstring option" where
  "BaseOf os root entryPath =
     (let hash = Sha1Hex os (WideToUtf8 os (LowerCase os entryPath)) in
      if hash = [] then None else Some (win32Directory os root @ [bslash] @ hash))"

definition FileOf :: "('w, 'h) host \<Rightarrow> wstring \<Rightarrow> wstring \<Rightarrow> wstring \<Rightarrow> wstring option" where
  "FileOf os root entryPath suffix = map_option (\<lambda>base. base @ suffix) (BaseOf os root entryPath)"

definition EnsureDirectory :: "('w, 'h) host \<Rightarrow> 'w \<Rightarrow> wstring \<Rightarrow> 'w \<times> bool" where
  "EnsureDirectory os w root =
     (let (w', ec) = fs_create_directories os w (win32Directory os root) in (w', ec = None))"

definition MoveRecordFile :: "('w, 'h) host \<Rightarrow> 'w \<Rightarrow> wstring \<Rightarrow> wstring \<Rightarrow> 'w \<times> dword" where
  "MoveRecordFile os w from to =
     (case MoveFileExW os w from to of
        (w1, None) \<Rightarrow> (w1, ERROR_SUCCESS)
      | (w1, Some moveErr) \<Rightarrow>
          if \<not> IsNotFoundError moveErr then (w1, moveErr)
          else
            (case DeleteFileW os w1 to of
               (w2, None) \<Rightarrow> (w2, ERROR_SUCCESS)
             | (w2, Some deleteErr) \<Rightarrow> (w2, if IsNotFoundError deleteErr then ERROR_SUCCESS else deleteErr)))"

definition Sidecar_Read :: "('w, 'h) host \<Rightarrow> 'w \<Rightarrow> wstring \<Rightarrow> wstring \<Rightarrow> LayerMountMetadata" where
  "Sidecar_Read os w root filePath =
     (case FileOf os root filePath kMetaSuffix of
        None \<Rightarrow> default_metadata
      | Some path \<Rightarrow>
          (case OpenFollowing os w path GENERIC_READ of
             Inl e \<Rightarrow> default_metadata
           | Inr h \<Rightarrow> fst (ReadOpenRecord os w h)))"

definition Sidecar_Write :: "('w, 'h) host \<Rightarrow> 'w \<Rightarrow> wstring \<Rightarrow> wstring \<Rightarrow> LayerMountMetadata \<Rightarrow> 'w \<times> bool" where
  "Sidecar_Write os w root filePath metadata =
     (case EnsureDirectory os w root of
        (w1, False) \<Rightarrow> (w1, False)
      | (w1, True) \<Rightarrow>
          (case FileOf os root filePath kMetaSuffix of
             None \<Rightarrow> (w1, False)
           | Some path \<Rightarrow>
               let tempPath = path @ wlit ''.tmp.'' @ ProcessThreadSuffix os in
               (case CreateAlways os w1 tempPath FILE_ATTRIBUTE_NORMAL of
                  (w2, Inl e) \<Rightarrow> (w2, False)
                | (w2, Inr h) \<Rightarrow>
                    let bytes = json_dump os (MetadataToJson os metadata) in
                    (case WriteFile os w2 h bytes of
                       (w3, Inr written) \<Rightarrow>
                         if written \<noteq> length bytes then (fst (DeleteFileW os w3 tempPath), False)
                         else
                           (case MoveFileExW os w3 tempPath path of
                              (w4, None) \<Rightarrow> (w4, True)
                            | (w4, Some e) \<Rightarrow> (fst (DeleteFileW os w4 tempPath), False))
                     | (w3, Inl e) \<Rightarrow> (fst (DeleteFileW os w3 tempPath), False)))))"

definition Sidecar_Remove :: "('w, 'h) host \<Rightarrow> 'w \<Rightarrow> wstring \<Rightarrow> wstring \<Rightarrow> 'w \<times> bool" where
  "Sidecar_Remove os w root filePath =
     (case FileOf os root filePath kMetaSuffix of
        None \<Rightarrow> (w, True)
      | Some file \<Rightarrow>
          (case DeleteFileW os w file of
             (w1, None) \<Rightarrow> (w1, True)
           | (w1, Some e) \<Rightarrow> (w1, e = ERROR_FILE_NOT_FOUND)))"

definition Sidecar_Move :: "('w, 'h) host \<Rightarrow> 'w \<Rightarrow> wstring \<Rightarrow> wstring \<Rightarrow> wstring \<Rightarrow> 'w \<times> ntstatus" where
  "Sidecar_Move os w root fromPath toPath =
     (case (BaseOf os root fromPath, BaseOf os root toPath) of
        (Some fromBase, Some toBase) \<Rightarrow>
          if fromBase = toBase then (w, STATUS_SUCCESS)
          else
            let (w1, metaErr) = MoveRecordFile os w (fromBase @ kMetaSuffix) (toBase @ kMetaSuffix) in
            if metaErr \<noteq> ERROR_SUCCESS then (w1, nt_status os metaErr)
            else
              let (w2, opaqueErr) = MoveRecordFile os w1 (fromBase @ kOpaqueSuffix) (toBase @ kOpaqueSuffix) in
              if opaqueErr \<noteq> ERROR_SUCCESS
              then (fst (MoveRecordFile os w2 (toBase @ kMetaSuffix) (fromBase @ kMetaSuffix)), nt_status os opaqueErr)
              else (w2, STATUS_SUCCESS)
      | _ \<Rightarrow> (w, STATUS_SUCCESS))"

definition exists_at :: "('w, 'h) host \<Rightarrow> 'w \<Rightarrow> wstring \<Rightarrow> bool" where
  "exists_at os w win32Path \<longleftrightarrow> (case GetFileAttributesW os w win32Path of Inl e \<Rightarrow> False | Inr a \<Rightarrow> True)"

definition Sidecar_HasRecord :: "('w, 'h) host \<Rightarrow> 'w \<Rightarrow> wstring \<Rightarrow> wstring \<Rightarrow> bool" where
  "Sidecar_HasRecord os w root filePath =
     (case FileOf os root filePath kMetaSuffix of None \<Rightarrow> False | Some file \<Rightarrow> exists_at os w file)"

definition Sidecar_HasOpaque :: "('w, 'h) host \<Rightarrow> 'w \<Rightarrow> wstring \<Rightarrow> wstring \<Rightarrow> bool" where
  "Sidecar_HasOpaque os w root dirPath =
     (case FileOf os root dirPath kOpaqueSuffix of None \<Rightarrow> False | Some file \<Rightarrow> exists_at os w file)"

definition Sidecar_SetOpaque :: "('w, 'h) host \<Rightarrow> 'w \<Rightarrow> wstring \<Rightarrow> wstring \<Rightarrow> 'w \<times> bool" where
  "Sidecar_SetOpaque os w root dirPath =
     (case EnsureDirectory os w root of
        (w1, False) \<Rightarrow> (w1, False)
      | (w1, True) \<Rightarrow>
          (case FileOf os root dirPath kOpaqueSuffix of
             None \<Rightarrow> (w1, False)
           | Some file \<Rightarrow>
               (case CreateAlways os w1 file FILE_ATTRIBUTE_NORMAL of
                  (w2, Inl e) \<Rightarrow> (w2, False)
                | (w2, Inr h) \<Rightarrow> (w2, True))))"

definition Sidecar_RemoveOpaque :: "('w, 'h) host \<Rightarrow> 'w \<Rightarrow> wstring \<Rightarrow> wstring \<Rightarrow> 'w \<times> bool" where
  "Sidecar_RemoveOpaque os w root dirPath =
     (case FileOf os root dirPath kOpaqueSuffix of
        None \<Rightarrow> (w, True)
      | Some file \<Rightarrow>
          (case DeleteFileW os w file of
             (w1, None) \<Rightarrow> (w1, True)
           | (w1, Some e) \<Rightarrow> (w1, IsNotFoundError e)))"

section \<open>Streams\<close>

text \<open>
  The open for reading. After the first of the two opens the code also asks the system, with a
  \<^verbatim>\<open>SetFileTime\<close> of all ones, not to advance the access time through this handle; access times of reads are not part
  of the disk here, so that call is not either.
\<close>

definition OpenAdsForReadWithAccessTimeKeptWhereAllowed :: "('w, 'h) host \<Rightarrow> 'w \<Rightarrow> wstring \<Rightarrow> dword + 'h" where
  "OpenAdsForReadWithAccessTimeKeptWhereAllowed os w adsPath =
     (case OpenReparsePoint os w adsPath (GENERIC_READ OR FILE_WRITE_ATTRIBUTES) of
        Inr h \<Rightarrow> Inr h
      | Inl err \<Rightarrow>
          if err = ERROR_FILE_NOT_FOUND \<or> err = ERROR_PATH_NOT_FOUND then Inl err
          else OpenReparsePoint os w adsPath GENERIC_READ)"

definition ReadAdsOnly :: "('w, 'h) host \<Rightarrow> 'w \<Rightarrow> wstring \<Rightarrow> LayerMountMetadata \<times> bool" where
  "ReadAdsOnly os w filePath =
     (case OpenAdsForReadWithAccessTimeKeptWhereAllowed os w (ExtendedStreamPath os filePath kLayerMountADSStream) of
        Inl err \<Rightarrow> (default_metadata, err \<noteq> ERROR_FILE_NOT_FOUND \<and> err \<noteq> ERROR_PATH_NOT_FOUND)
      | Inr h \<Rightarrow> ReadOpenRecord os w h)"

definition WriteAdsOnly :: "('w, 'h) host \<Rightarrow> 'w \<Rightarrow> wstring \<Rightarrow> LayerMountMetadata \<Rightarrow> 'w \<times> bool" where
  "WriteAdsOnly os w filePath metadata =
     (case CreateAlways os w (ExtendedStreamPath os filePath kLayerMountADSStream)
        (FILE_ATTRIBUTE_NORMAL OR FILE_FLAG_BACKUP_SEMANTICS OR FILE_FLAG_OPEN_REPARSE_POINT) of
        (w1, Inl e) \<Rightarrow> (w1, False)
      | (w1, Inr h) \<Rightarrow>
          let bytes = json_dump os (MetadataToJson os metadata) in
          (case WriteFile os w1 h bytes of
             (w2, Inl e) \<Rightarrow> (w2, False)
           | (w2, Inr written) \<Rightarrow> (w2, written = length bytes)))"

definition RemoveAdsOnly :: "('w, 'h) host \<Rightarrow> 'w \<Rightarrow> wstring \<Rightarrow> 'w \<times> bool" where
  "RemoveAdsOnly os w filePath =
     (case DeleteFileW os w (ExtendedStreamPath os filePath kLayerMountADSStream) of
        (w1, None) \<Rightarrow> (w1, True)
      | (w1, Some e) \<Rightarrow> (w1, e = ERROR_FILE_NOT_FOUND))"

definition HasOpaqueAdsOnly :: "('w, 'h) host \<Rightarrow> 'w \<Rightarrow> wstring \<Rightarrow> bool" where
  "HasOpaqueAdsOnly os w directoryPath = exists_at os w (ExtendedStreamPath os directoryPath kOpaqueADSStream)"

definition SetOpaqueAdsOnly :: "('w, 'h) host \<Rightarrow> 'w \<Rightarrow> wstring \<Rightarrow> 'w \<times> bool" where
  "SetOpaqueAdsOnly os w directoryPath =
     (case CreateAlways os w (ExtendedStreamPath os directoryPath kOpaqueADSStream)
        (FILE_ATTRIBUTE_NORMAL OR FILE_FLAG_OPEN_REPARSE_POINT) of
        (w1, Inl e) \<Rightarrow> (w1, False)
      | (w1, Inr h) \<Rightarrow>
          (case WriteFile os w1 h (blit ''y'') of
             (w2, Inl e) \<Rightarrow> (w2, False)
           | (w2, Inr written) \<Rightarrow> (w2, written = 1)))"

definition RemoveOpaqueAdsOnly :: "('w, 'h) host \<Rightarrow> 'w \<Rightarrow> wstring \<Rightarrow> 'w \<times> bool" where
  "RemoveOpaqueAdsOnly os w directoryPath =
     (case DeleteFileW os w (ExtendedStreamPath os directoryPath kOpaqueADSStream) of
        (w1, None) \<Rightarrow> (w1, True)
      | (w1, Some err) \<Rightarrow> (w1, err = ERROR_FILE_NOT_FOUND \<or> err = ERROR_PATH_NOT_FOUND))"

section \<open>The dispatch\<close>

text \<open>\<open>None\<close> is a null configuration.\<close>

definition UseSidecarFor :: "LayerConfig option \<Rightarrow> bool" where
  "UseSidecarFor config = (case config of None \<Rightarrow> False | Some c \<Rightarrow> \<not> HasAds (hostCapabilities c))"

definition ReadLayerMountMetadata :: "('w, 'h) host \<Rightarrow> 'w \<Rightarrow> wstring \<Rightarrow> LayerConfig option \<Rightarrow> LayerMountMetadata" where
  "ReadLayerMountMetadata os w filePath config =
     (let (fromAds, adsCorrupted) = ReadAdsOnly os w filePath in
      if adsCorrupted \<and> \<not> UseSidecarFor config then fromAds
      else
        (case config of
           None \<Rightarrow> fromAds
         | Some c \<Rightarrow> if \<not> IsDefaultMetadata fromAds then fromAds else Sidecar_Read os w (upperPath c) filePath))"

definition WriteLayerMountMetadata ::
  "('w, 'h) host \<Rightarrow> 'w \<Rightarrow> wstring \<Rightarrow> LayerMountMetadata \<Rightarrow> LayerConfig option \<Rightarrow> 'w \<times> bool" where
  "WriteLayerMountMetadata os w filePath metadata config =
     (case config of
        Some c \<Rightarrow> if UseSidecarFor config then Sidecar_Write os w (upperPath c) filePath metadata
                  else WriteAdsOnly os w filePath metadata
      | None \<Rightarrow> WriteAdsOnly os w filePath metadata)"

definition RemoveLayerMountMetadata :: "('w, 'h) host \<Rightarrow> 'w \<Rightarrow> wstring \<Rightarrow> LayerConfig option \<Rightarrow> 'w \<times> bool" where
  "RemoveLayerMountMetadata os w filePath config =
     (let (w1, adsOk) = RemoveAdsOnly os w filePath in
      case config of
        None \<Rightarrow> (w1, adsOk)
      | Some c \<Rightarrow> let (w2, sidecarOk) = Sidecar_Remove os w1 (upperPath c) filePath in (w2, adsOk \<and> sidecarOk))"

definition HasOpaqueMetadata :: "('w, 'h) host \<Rightarrow> 'w \<Rightarrow> wstring \<Rightarrow> LayerConfig option \<Rightarrow> bool" where
  "HasOpaqueMetadata os w directoryPath config =
     (if HasOpaqueAdsOnly os w directoryPath then True
      else (case config of None \<Rightarrow> False | Some c \<Rightarrow> Sidecar_HasOpaque os w (upperPath c) directoryPath))"

definition SetOpaqueMetadata :: "('w, 'h) host \<Rightarrow> 'w \<Rightarrow> wstring \<Rightarrow> LayerConfig option \<Rightarrow> 'w \<times> bool" where
  "SetOpaqueMetadata os w directoryPath config =
     (case config of
        Some c \<Rightarrow> if UseSidecarFor config then Sidecar_SetOpaque os w (upperPath c) directoryPath
                  else SetOpaqueAdsOnly os w directoryPath
      | None \<Rightarrow> SetOpaqueAdsOnly os w directoryPath)"

definition RemoveOpaqueMetadata :: "('w, 'h) host \<Rightarrow> 'w \<Rightarrow> wstring \<Rightarrow> LayerConfig option \<Rightarrow> 'w \<times> bool" where
  "RemoveOpaqueMetadata os w directoryPath config =
     (let (w1, adsOk) = RemoveOpaqueAdsOnly os w directoryPath in
      case config of
        None \<Rightarrow> (w1, adsOk)
      | Some c \<Rightarrow>
          let (w2, sidecarOk) = Sidecar_RemoveOpaque os w1 (upperPath c) directoryPath in (w2, adsOk \<and> sidecarOk))"

section \<open>What is written is read back\<close>

lemma FileTime_roundtrip [simp]: "Uint64ToFileTime (FileTimeToUint64 ft) = ft"
proof -
  have m: "(0xFFFFFFFF :: uint64) = mask 32" by (simp add: mask_eq_exp_minus_1)
  have "ucast ((push_bit 32 (ucast h) OR ucast l :: uint64) AND mask 32) = l" for h l :: dword
    by (intro bit_word_eqI) (auto simp: bit_simps)
  moreover have "ucast (drop_bit 32 (push_bit 32 (ucast h) OR ucast l :: uint64)) = h" for h l :: dword
    by (intro bit_word_eqI) (auto simp: bit_simps dest: bit_imp_le_length)
  ultimately show ?thesis by (simp add: Uint64ToFileTime_def FileTimeToUint64_def m)
qed

text \<open>The UTF-8 conversions give back the text of the record. They do for text without lone surrogates.\<close>

definition utf8_keeps :: "('w, 'h) host \<Rightarrow> LayerMountMetadata \<Rightarrow> bool" where
  "utf8_keeps os m \<longleftrightarrow>
     Utf8ToWide os (WideToUtf8 os (redirect m)) = redirect m \<and> Utf8ToWide os (WideToUtf8 os (originLayer m)) = originLayer m"

lemma blit_inject: "blit a = blit b \<longleftrightarrow> map (of_char :: char \<Rightarrow> byte) a = map of_char b"
  by (simp add: blit_def)

lemma metadata_json: "utf8_keeps os m \<Longrightarrow> JsonToMetadata os (MetadataToJson os m) = Some m"
  by (simp add: JsonToMetadata_def MetadataToJson_def utf8_keeps_def blit_def)

text \<open>The library parses what it prints, into at most 4 GiB.\<close>

definition json_keeps :: "('w, 'h) host \<Rightarrow> LayerMountMetadata \<Rightarrow> bool" where
  "json_keeps os m \<longleftrightarrow>
     (let bytes = json_dump os (MetadataToJson os m) in
      bytes \<noteq> [] \<and> length bytes \<le> 0xFFFFFFFF \<and> json_parse os bytes = Some (MetadataToJson os m))"

lemma ReadOpenRecord_stored:
  assumes "handle_holds os w h (json_dump os (MetadataToJson os m))" "utf8_keeps os m" "json_keeps os m"
  shows "ReadOpenRecord os w h = (m, False)"
  using assms metadata_json [OF assms(2)]
  by (auto simp: ReadOpenRecord_def handle_holds_def json_keeps_def Let_def)

lemma Sidecar_Write_stores:
  assumes "durable os" "Sidecar_Write os w root path m = (w', True)" "FileOf os root path kMetaSuffix = Some f"
    and "OpenFollowing os w' f GENERIC_READ = Inr g"
  shows "handle_holds os w' g (json_dump os (MetadataToJson os m))"
proof -
  let ?bs = "json_dump os (MetadataToJson os m)"
  obtain w1 where w1: "EnsureDirectory os w root = (w1, True)"
    using assms(2) by (cases "EnsureDirectory os w root"; cases "snd (EnsureDirectory os w root)") (auto simp: Sidecar_Write_def)
  let ?tmp = "f @ wlit ''.tmp.'' @ ProcessThreadSuffix os"
  obtain w2 h where c: "CreateAlways os w1 ?tmp FILE_ATTRIBUTE_NORMAL = (w2, Inr h)"
    using assms(2,3) w1 by (auto simp: Sidecar_Write_def Let_def split: prod.splits sum.splits)
  obtain w3 where wr: "WriteFile os w2 h ?bs = (w3, Inr (length ?bs))"
    using assms(2,3) w1 c by (auto simp: Sidecar_Write_def Let_def split: prod.splits sum.splits if_splits)
  have mv: "MoveFileExW os w3 ?tmp f = (w', None)"
    using assms(2,3) w1 c wr by (auto simp: Sidecar_Write_def Let_def split: prod.splits option.splits)
  show ?thesis
    by (rule durableD(2) [OF assms(1) wr _ _ c mv assms(4)])
      (simp_all add: GENERIC_READ_def FILE_ATTRIBUTE_NORMAL_def FILE_FLAG_OPEN_REPARSE_POINT_def)
qed

lemma WriteAdsOnly_stores:
  assumes "durable os" "WriteAdsOnly os w path m = (w', True)"
    and "OpenAdsForReadWithAccessTimeKeptWhereAllowed os w' (ExtendedStreamPath os path kLayerMountADSStream) = Inr g"
  shows "handle_holds os w' g (json_dump os (MetadataToJson os m))"
proof -
  let ?p = "ExtendedStreamPath os path kLayerMountADSStream" and ?bs = "json_dump os (MetadataToJson os m)"
  let ?a = "FILE_ATTRIBUTE_NORMAL OR FILE_FLAG_BACKUP_SEMANTICS OR FILE_FLAG_OPEN_REPARSE_POINT"
  obtain w1 h where c: "CreateAlways os w ?p ?a = (w1, Inr h)" and wr: "WriteFile os w1 h ?bs = (w', Inr (length ?bs))"
    using assms(2) by (auto simp: WriteAdsOnly_def Let_def split: prod.splits sum.splits)
  obtain acc where acc: "acc = GENERIC_READ OR FILE_WRITE_ATTRIBUTES \<or> acc = GENERIC_READ" and o: "OpenReparsePoint os w' ?p acc = Inr g"
    using assms(3) by (auto simp: OpenAdsForReadWithAccessTimeKeptWhereAllowed_def split: sum.splits if_splits)
  have "acc AND GENERIC_READ \<noteq> 0" using acc by (auto simp: GENERIC_READ_def FILE_WRITE_ATTRIBUTES_def)
  moreover have "?a AND FILE_FLAG_OPEN_REPARSE_POINT \<noteq> 0"
    by (simp add: FILE_ATTRIBUTE_NORMAL_def FILE_FLAG_BACKUP_SEMANTICS_def FILE_FLAG_OPEN_REPARSE_POINT_def)
  ultimately show ?thesis using durableD(1) [OF assms(1) wr _ _ c o] by blast
qed

text \<open>
  C24: A metadata record that a write reports as stored is the record that the next read gives, when
  that read can open it; an open can fail, and then the read gives the default record. On a
  host with alternate data streams this holds for every record that is not the default one, which
  the read cannot tell from a missing stream; on a host without them, the write goes to the sidecar
  file through a temporary file and a replacing move, and the read gives it whenever the entry has
  no stream of its own.
\<close>

theorem metadata_write_then_read:
  assumes "durable os" "utf8_keeps os m" "json_keeps os m"
    and "WriteLayerMountMetadata os w path m (Some cfg) = (w', True)"
    and "HasAds (hostCapabilities cfg) \<longrightarrow> \<not> IsDefaultMetadata m \<and>
      OpenAdsForReadWithAccessTimeKeptWhereAllowed os w' (ExtendedStreamPath os path kLayerMountADSStream) = Inr g"
    and "\<not> HasAds (hostCapabilities cfg) \<longrightarrow> IsDefaultMetadata (fst (ReadAdsOnly os w' path)) \<and>
      FileOf os (upperPath cfg) path kMetaSuffix = Some f \<and> OpenFollowing os w' f GENERIC_READ = Inr g"
  shows "ReadLayerMountMetadata os w' path (Some cfg) = m"
proof (cases "HasAds (hostCapabilities cfg)")
  case True
  then have wr: "WriteAdsOnly os w path m = (w', True)"
    using assms(4) by (simp add: WriteLayerMountMetadata_def UseSidecarFor_def)
  have o: "OpenAdsForReadWithAccessTimeKeptWhereAllowed os w' (ExtendedStreamPath os path kLayerMountADSStream) = Inr g"
    using assms(5) True by blast
  have "ReadAdsOnly os w' path = (m, False)"
    using ReadOpenRecord_stored [OF WriteAdsOnly_stores [OF assms(1) wr o] assms(2,3)] by (simp add: ReadAdsOnly_def o)
  then show ?thesis using True assms(5) by (simp add: ReadLayerMountMetadata_def)
next
  case False
  then have wr: "Sidecar_Write os w (upperPath cfg) path m = (w', True)"
    using assms(4) by (simp add: WriteLayerMountMetadata_def UseSidecarFor_def)
  have f: "FileOf os (upperPath cfg) path kMetaSuffix = Some f" and o: "OpenFollowing os w' f GENERIC_READ = Inr g"
    using assms(6) False by blast+
  have "Sidecar_Read os w' (upperPath cfg) path = m"
    using ReadOpenRecord_stored [OF Sidecar_Write_stores [OF assms(1) wr f o] assms(2,3)] by (simp add: Sidecar_Read_def f o)
  then show ?thesis using False assms(6)
    by (auto simp: ReadLayerMountMetadata_def UseSidecarFor_def split: prod.splits)
qed

text \<open>A record for the witness, on the disk in memory, whose JSON bytes are a full encoding.\<close>

definition sample_metadata :: LayerMountMetadata where
  "sample_metadata = default_metadata\<lparr>redirect := wlit ''a'', copyUpTimestamp := \<lparr>dwLowDateTime = 7, dwHighDateTime = 9\<rparr>\<rparr>"

lemma mem_host_keeps: "utf8_keeps mem_host sample_metadata" "json_keeps mem_host sample_metadata"
proof -
  show "utf8_keeps mem_host sample_metadata"
    by (simp add: utf8_keeps_def sample_metadata_def default_metadata_def WideToUtf8_def Utf8ToWide_def mem_host_def)
  have "json_parse mem_host = parse_json" "json_dump mem_host = dump_json" by (simp_all add: mem_host_def)
  moreover have "length (dump_json (MetadataToJson mem_host sample_metadata)) < 255" by code_simp
  moreover have "dump_json j \<noteq> []" for j by (simp add: dump_json_def)
  ultimately show "json_keeps mem_host sample_metadata"
    by (simp add: json_keeps_def parse_dump_json Let_def)
qed

theorem metadata_write_then_read_witness:
  "ReadLayerMountMetadata mem_host (fst (WriteLayerMountMetadata mem_host [] (sample_upper @ wlit ''f'') sample_metadata (Some sample_config)))
     (sample_upper @ wlit ''f'') (Some sample_config) = sample_metadata"
proof (rule metadata_write_then_read [OF mem_durable mem_host_keeps, where
      g = "mem_key (ExtendedStreamPath mem_host (sample_upper @ wlit ''f'') kLayerMountADSStream)"])
  let ?w = "fst (WriteLayerMountMetadata mem_host [] (sample_upper @ wlit ''f'') sample_metadata (Some sample_config))"
  let ?p = "ExtendedStreamPath mem_host (sample_upper @ wlit ''f'') kLayerMountADSStream"
  show "WriteLayerMountMetadata mem_host [] (sample_upper @ wlit ''f'') sample_metadata (Some sample_config) = (?w, True)"
    by code_simp
  have "OpenAdsForReadWithAccessTimeKeptWhereAllowed mem_host ?w ?p = Inr (mem_key ?p)" by code_simp
  moreover have "\<not> IsDefaultMetadata sample_metadata" by (simp add: IsDefaultMetadata_def sample_metadata_def)
  ultimately show "HasAds (hostCapabilities sample_config) \<longrightarrow> \<not> IsDefaultMetadata sample_metadata \<and>
      OpenAdsForReadWithAccessTimeKeptWhereAllowed mem_host ?w ?p = Inr (mem_key ?p)" by blast
qed (simp add: sample_config_def HasAds_def LM_CAP_ADS_def)

end
