(* ===== verification/Layer_Walk.thy ===== *)
theory Layer_Walk
  imports Metadata_Store
begin

text \<open>
  What one layer holds along a path: the walks of \<^verbatim>\<open>impl/LayerPath.cpp\<close> from the layer root and the
  whiteout and opaque reads of \<^verbatim>\<open>impl/WhiteoutManager.cpp\<close>, and the first link of a path in the merged
  view. A layer is the text of its root path; a lower also has its index. The whiteout manager of
  the code is its configuration \<open>cfg\<close>, which it reads the sidecar store of.
\<close>

section \<open>Components\<close>

datatype ComponentKind = KindMissing | KindDirectory | KindFile | KindLink | KindUnreadable

datatype WalkStop = StopNone | StopFile | StopLink | StopUnreadable

datatype LinkStop = LinkStopNone | LinkStopLink | LinkStopUnreadable

datatype LinkOnPath = LinkNone | LinkSelf | LinkAncestor | LinkUnreadable

record LayerWalk =
  walkStop :: WalkStop
  walkComponent :: wstring

definition WalkStopAt :: "ComponentKind \<Rightarrow> WalkStop" where
  "WalkStopAt kind =
     (case kind of
        KindFile \<Rightarrow> StopFile
      | KindLink \<Rightarrow> StopLink
      | KindUnreadable \<Rightarrow> StopUnreadable
      | KindMissing \<Rightarrow> StopNone
      | KindDirectory \<Rightarrow> StopNone)"

definition ComponentKindInLayer :: "('w, 'h) host \<Rightarrow> 'w \<Rightarrow> wstring \<Rightarrow> wstring \<Rightarrow> ComponentKind" where
  "ComponentKindInLayer os w layerPath relativePath =
     (let componentPath = JoinDirPath layerPath relativePath in
      case GetFileAttributesW os w (WithExtendedPrefix os componentPath) of
        Inl error \<Rightarrow>
          if error = ERROR_FILE_NOT_FOUND \<or> error = ERROR_PATH_NOT_FOUND then KindMissing else KindUnreadable
      | Inr attrs \<Rightarrow>
          let (status, kind) = EntryKindOf os w componentPath attrs DirectoryEntry in
          if \<not> NT_SUCCESS status then KindUnreadable
          else (case kind of FileEntry \<Rightarrow> KindFile | LinkEntry \<Rightarrow> KindLink | DirectoryEntry \<Rightarrow> KindDirectory))"

text \<open>The loop of \<open>WalkToFirstNonDirectory\<close> over the values of \<^verbatim>\<open>walked\<close>.\<close>

fun walk_components :: "('w, 'h) host \<Rightarrow> 'w \<Rightarrow> wstring \<Rightarrow> wstring list \<Rightarrow> LayerWalk" where
  "walk_components os w layerPath [] = \<lparr>walkStop = StopNone, walkComponent = []\<rparr>"
| "walk_components os w layerPath (p # ps) =
     (case ComponentKindInLayer os w layerPath p of
        KindMissing \<Rightarrow> \<lparr>walkStop = StopNone, walkComponent = []\<rparr>
      | KindUnreadable \<Rightarrow> \<lparr>walkStop = StopUnreadable, walkComponent = p\<rparr>
      | KindFile \<Rightarrow> \<lparr>walkStop = StopFile, walkComponent = p\<rparr>
      | KindLink \<Rightarrow> \<lparr>walkStop = StopLink, walkComponent = p\<rparr>
      | KindDirectory \<Rightarrow> walk_components os w layerPath ps)"

definition WalkToFirstNonDirectory :: "('w, 'h) host \<Rightarrow> 'w \<Rightarrow> wstring \<Rightarrow> wstring \<Rightarrow> LayerWalk" where
  "WalkToFirstNonDirectory os w layerPath dirRelativePath = walk_components os w layerPath (walked_paths dirRelativePath)"

definition HoldsEntryInLayer :: "('w, 'h) host \<Rightarrow> 'w \<Rightarrow> wstring \<Rightarrow> wstring \<Rightarrow> bool" where
  "HoldsEntryInLayer os w layerPath relativePath =
     (case GetFileAttributesW os w (WithExtendedPrefix os (JoinDirPath layerPath relativePath)) of
        Inr attrs \<Rightarrow> True
      | Inl error \<Rightarrow> error \<noteq> ERROR_FILE_NOT_FOUND \<and> error \<noteq> ERROR_PATH_NOT_FOUND)"

definition HasNonDirectoryOrLinkSelfOrAncestorInLayer :: "('w, 'h) host \<Rightarrow> 'w \<Rightarrow> wstring \<Rightarrow> wstring \<Rightarrow> bool" where
  "HasNonDirectoryOrLinkSelfOrAncestorInLayer os w layerPath dirRelativePath \<longleftrightarrow>
     walkStop (WalkToFirstNonDirectory os w layerPath dirRelativePath) \<noteq> StopNone"

definition LinkStopOf :: "WalkStop \<Rightarrow> LinkStop" where
  "LinkStopOf s =
     (case s of
        StopLink \<Rightarrow> LinkStopLink
      | StopUnreadable \<Rightarrow> LinkStopUnreadable
      | StopNone \<Rightarrow> LinkStopNone
      | StopFile \<Rightarrow> LinkStopNone)"

definition EndsAtLinkOrUnreadable :: "WalkStop \<Rightarrow> bool" where
  "EndsAtLinkOrUnreadable s \<longleftrightarrow> LinkStopOf s \<noteq> LinkStopNone"

definition FindLinkOnPath :: "('w, 'h) host \<Rightarrow> 'w \<Rightarrow> wstring \<Rightarrow> wstring \<Rightarrow> LinkOnPath" where
  "FindLinkOnPath os w layerPath dirRelativePath =
     (let walk = WalkToFirstNonDirectory os w layerPath dirRelativePath in
      case LinkStopOf (walkStop walk) of
        LinkStopLink \<Rightarrow> if walkComponent walk = dirRelativePath then LinkSelf else LinkAncestor
      | LinkStopUnreadable \<Rightarrow> LinkUnreadable
      | LinkStopNone \<Rightarrow> LinkNone)"

section \<open>Higher layers\<close>

text \<open>\<open>index\<close> is the index of a lower.\<close>

definition HigherLayerHoldsEntry :: "('w, 'h) host \<Rightarrow> 'w \<Rightarrow> LayerConfig \<Rightarrow> nat \<Rightarrow> wstring \<Rightarrow> bool" where
  "HigherLayerHoldsEntry os w cfg index relativePath \<longleftrightarrow>
     HoldsEntryInLayer os w (upperPath cfg) relativePath \<or>
     list_ex (\<lambda>higher. HoldsEntryInLayer os w higher relativePath) (take index (lowerPaths cfg))"

definition HasLinkUnderHigherLayerEntry :: "('w, 'h) host \<Rightarrow> 'w \<Rightarrow> LayerConfig \<Rightarrow> nat \<Rightarrow> wstring \<Rightarrow> bool" where
  "HasLinkUnderHigherLayerEntry os w cfg index dirRelativePath \<longleftrightarrow>
     (let walk = WalkToFirstNonDirectory os w (lowerPaths cfg ! index) dirRelativePath in
      walkStop walk = StopLink \<and> HigherLayerHoldsEntry os w cfg index (walkComponent walk))"

section \<open>Markers\<close>

definition MarkerFileExists :: "('w, 'h) host \<Rightarrow> 'w \<Rightarrow> wstring \<Rightarrow> bool" where
  "MarkerFileExists os w path = exists_at os w (WithExtendedPrefix os path)"

definition MarkerDirectoryOf :: "wstring \<Rightarrow> wstring" where
  "MarkerDirectoryOf relativePath = NormalizePathPreserveCase (parent_path relativePath)"

definition HasWhiteoutUnderWalkedDirectoryInLayer :: "('w, 'h) host \<Rightarrow> 'w \<Rightarrow> wstring \<Rightarrow> wstring \<Rightarrow> bool" where
  "HasWhiteoutUnderWalkedDirectoryInLayer os w relativePath layerPath =
     MarkerFileExists os w (GetWhiteoutFullPath layerPath relativePath)"

definition HasWhiteout :: "('w, 'h) host \<Rightarrow> 'w \<Rightarrow> wstring \<Rightarrow> wstring \<Rightarrow> bool" where
  "HasWhiteout os w relativePath layerPath \<longleftrightarrow>
     HasWhiteoutUnderWalkedDirectoryInLayer os w relativePath layerPath \<and>
     FindLinkOnPath os w layerPath (MarkerDirectoryOf relativePath) = LinkNone"

definition HasWhiteoutInAnyLayer :: "('w, 'h) host \<Rightarrow> 'w \<Rightarrow> LayerConfig \<Rightarrow> wstring \<Rightarrow> bool" where
  "HasWhiteoutInAnyLayer os w cfg relativePath \<longleftrightarrow>
     HasWhiteout os w relativePath (upperPath cfg) \<or> list_ex (HasWhiteout os w relativePath) (lowerPaths cfg)"

definition HoldsOpaqueMarker :: "('w, 'h) host \<Rightarrow> 'w \<Rightarrow> LayerConfig \<Rightarrow> wstring \<Rightarrow> bool" where
  "HoldsOpaqueMarker os w cfg dirFullPath \<longleftrightarrow>
     HasOpaqueMetadata os w dirFullPath (Some cfg) \<or> MarkerFileExists os w (JoinDirPath dirFullPath kOpaqueMarkerFile)"

definition IsOpaqueWalkedDirectoryInLayer :: "('w, 'h) host \<Rightarrow> 'w \<Rightarrow> LayerConfig \<Rightarrow> wstring \<Rightarrow> wstring \<Rightarrow> bool" where
  "IsOpaqueWalkedDirectoryInLayer os w cfg dirRelativePath layerPath =
     HoldsOpaqueMarker os w cfg (JoinDirPath layerPath dirRelativePath)"

definition IsOpaqueInLayer :: "('w, 'h) host \<Rightarrow> 'w \<Rightarrow> LayerConfig \<Rightarrow> wstring \<Rightarrow> wstring \<Rightarrow> bool" where
  "IsOpaqueInLayer os w cfg dirRelativePath layerPath \<longleftrightarrow>
     HoldsOpaqueMarker os w cfg (JoinDirPath layerPath dirRelativePath) \<and>
     FindLinkOnPath os w layerPath (NormalizePathPreserveCase dirRelativePath) = LinkNone"

definition IsOpaque :: "('w, 'h) host \<Rightarrow> 'w \<Rightarrow> LayerConfig \<Rightarrow> wstring \<Rightarrow> bool" where
  "IsOpaque os w cfg dirRelativePath = IsOpaqueInLayer os w cfg dirRelativePath (upperPath cfg)"

text \<open>\<open>probed\<close> is \<^verbatim>\<open>LayerRoot::Probed\<close>.\<close>

definition AnyDirectoryUpToRoot :: "wstring \<Rightarrow> bool \<Rightarrow> (wstring \<Rightarrow> bool) \<Rightarrow> bool" where
  "AnyDirectoryUpToRoot dir probed hasMarker \<longleftrightarrow> list_ex hasMarker (parent_chain dir) \<or> probed \<and> hasMarker []"

definition HasOpaqueSelfOrAncestorInLayer :: "('w, 'h) host \<Rightarrow> 'w \<Rightarrow> LayerConfig \<Rightarrow> wstring \<Rightarrow> wstring \<Rightarrow> bool" where
  "HasOpaqueSelfOrAncestorInLayer os w cfg dirRelativePath layerPath =
     AnyDirectoryUpToRoot dirRelativePath True (\<lambda>dir. IsOpaqueInLayer os w cfg dir layerPath)"

definition HasWhitedOutAncestorInLayer :: "('w, 'h) host \<Rightarrow> 'w \<Rightarrow> wstring \<Rightarrow> wstring \<Rightarrow> bool" where
  "HasWhitedOutAncestorInLayer os w relativePath layerPath =
     AnyDirectoryUpToRoot (parent_path relativePath) False (\<lambda>dir. HasWhiteout os w dir layerPath)"

datatype LowerVisibility = LowersVisible | HiddenByOpaqueMarker | HiddenByNonDirectoryOrLink

definition LowersBelow :: "('w, 'h) host \<Rightarrow> 'w \<Rightarrow> LayerConfig \<Rightarrow> wstring \<Rightarrow> wstring \<Rightarrow> LowerVisibility" where
  "LowersBelow os w cfg layerPath dirNorm =
     (if HasOpaqueSelfOrAncestorInLayer os w cfg dirNorm layerPath then HiddenByOpaqueMarker
      else if HasNonDirectoryOrLinkSelfOrAncestorInLayer os w layerPath dirNorm then HiddenByNonDirectoryOrLink
      else LowersVisible)"

section \<open>The ancestry of a directory in a layer\<close>

record LayerAncestry =
  whitedOut :: bool
  isOpaque :: bool
  firstNonDirectory :: WalkStop
  linkUnderHigherEntry :: bool
  absent :: bool

text \<open>\<open>index\<close> is \<open>-1\<close> for the upper.\<close>

definition StepLayerAncestry ::
  "('w, 'h) host \<Rightarrow> 'w \<Rightarrow> LayerConfig \<Rightarrow> wstring \<Rightarrow> wstring \<Rightarrow> int \<Rightarrow> LayerAncestry \<Rightarrow> LayerAncestry" where
  "StepLayerAncestry os w cfg layerPath dirNorm index parent =
     (if absent parent then parent
      else if firstNonDirectory parent \<noteq> StopNone then parent
      else
        let kind = ComponentKindInLayer os w layerPath dirNorm in
        \<lparr>whitedOut = whitedOut parent \<or> HasWhiteoutUnderWalkedDirectoryInLayer os w dirNorm layerPath,
         isOpaque = isOpaque parent \<or>
           (kind = KindDirectory \<and> IsOpaqueWalkedDirectoryInLayer os w cfg dirNorm layerPath),
         firstNonDirectory = WalkStopAt kind,
         linkUnderHigherEntry = (kind = KindLink \<and> index \<ge> 0 \<and> HigherLayerHoldsEntry os w cfg (nat index) dirNorm),
         absent = (kind = KindMissing)\<rparr>)"

definition LayerAncestryOf ::
  "('w, 'h) host \<Rightarrow> 'w \<Rightarrow> LayerConfig \<Rightarrow> wstring \<Rightarrow> wstring \<Rightarrow> int \<Rightarrow> LayerAncestry" where
  "LayerAncestryOf os w cfg layerPath dirNorm index =
     foldl (\<lambda>ancestry walkedPath. StepLayerAncestry os w cfg layerPath walkedPath index ancestry)
       \<lparr>whitedOut = False, isOpaque = IsOpaqueInLayer os w cfg [] layerPath, firstNonDirectory = StopNone,
        linkUnderHigherEntry = False, absent = False\<rparr>
       (walked_paths dirNorm)"

section \<open>The first link in the merged view\<close>

record LinkInView =
  linkStop :: LinkStop
  linkSource :: LayerSource
  linkPath :: wstring

definition no_link :: LinkInView where
  "no_link = \<lparr>linkStop = LinkStopNone, linkSource = SourceNone, linkPath = []\<rparr>"

definition WalkLowers :: "('w, 'h) host \<Rightarrow> 'w \<Rightarrow> LayerConfig \<Rightarrow> wstring \<Rightarrow> LayerWalk list" where
  "WalkLowers os w cfg dirNorm = map (\<lambda>lowerPath. WalkToFirstNonDirectory os w lowerPath dirNorm) (lowerPaths cfg)"

text \<open>The loop over the lowers, from index \<open>i\<close>; the list holds the walks of the lowers from there.\<close>

fun find_lower_link ::
  "('w, 'h) host \<Rightarrow> 'w \<Rightarrow> LayerConfig \<Rightarrow> wstring \<Rightarrow> nat \<Rightarrow> LayerWalk list \<Rightarrow> LinkInView" where
  "find_lower_link os w cfg dirNorm i [] = no_link"
| "find_lower_link os w cfg dirNorm i (walk # walks) =
     (let lowerAncestry = LayerAncestryOf os w cfg (lowerPaths cfg ! i) dirNorm (int i) in
      if whitedOut lowerAncestry \<or> linkUnderHigherEntry lowerAncestry then no_link
      else if EndsAtLinkOrUnreadable (walkStop walk)
      then \<lparr>linkStop = LinkStopOf (walkStop walk), linkSource = Lower, linkPath = walkComponent walk\<rparr>
      else if isOpaque lowerAncestry \<or> walkStop walk = StopFile then no_link
      else find_lower_link os w cfg dirNorm (Suc i) walks)"

definition FindLinkInView :: "('w, 'h) host \<Rightarrow> 'w \<Rightarrow> LayerConfig \<Rightarrow> wstring \<Rightarrow> LinkInView" where
  "FindLinkInView os w cfg dirNorm =
     (let upperWalk = WalkToFirstNonDirectory os w (upperPath cfg) dirNorm in
      if EndsAtLinkOrUnreadable (walkStop upperWalk)
      then \<lparr>linkStop = LinkStopOf (walkStop upperWalk), linkSource = Upper, linkPath = walkComponent upperWalk\<rparr>
      else if walkStop upperWalk = StopFile then no_link
      else
        let lowerWalks = WalkLowers os w cfg dirNorm in
        if \<not> list_ex (\<lambda>walk. EndsAtLinkOrUnreadable (walkStop walk)) lowerWalks then no_link
        else
          let upperAncestry = LayerAncestryOf os w cfg (upperPath cfg) dirNorm (- 1) in
          if whitedOut upperAncestry \<or> isOpaque upperAncestry then no_link
          else find_lower_link os w cfg dirNorm 0 lowerWalks)"

definition FindLinkAbove :: "('w, 'h) host \<Rightarrow> 'w \<Rightarrow> LayerConfig \<Rightarrow> wstring \<Rightarrow> LinkInView" where
  "FindLinkAbove os w cfg normalizedPath = FindLinkInView os w cfg (parent_path normalizedPath)"

section \<open>Reserved paths (DirectoryMerge.cpp)\<close>

definition IsInLinkTarget :: "('w, 'h) host \<Rightarrow> 'w \<Rightarrow> LayerConfig \<Rightarrow> wstring \<Rightarrow> bool" where
  "IsInLinkTarget os w cfg dirNorm \<longleftrightarrow> linkStop (FindLinkInView os w cfg dirNorm) \<noteq> LinkStopNone"

definition IsReservedOverlayPath :: "('w, 'h) host \<Rightarrow> 'w \<Rightarrow> LayerConfig \<Rightarrow> wstring \<Rightarrow> bool" where
  "IsReservedOverlayPath os w cfg normalized =
     (if IsRootSidecarPath normalized then True
      else
        (case ParentOfFirstMarkerSegment os normalized of
           None \<Rightarrow> False
         | Some markerParent \<Rightarrow> markerParent = [] \<or> \<not> IsInLinkTarget os w cfg markerParent))"

section \<open>Walks as searches of a list\<close>

text \<open>\<open>P\<close> holds at an element that every element before satisfies \<open>Q\<close> up to.\<close>

fun reaches :: "('a \<Rightarrow> bool) \<Rightarrow> ('a \<Rightarrow> bool) \<Rightarrow> 'a list \<Rightarrow> bool" where
  "reaches Q P [] = False"
| "reaches Q P (x # xs) = (P x \<or> Q x \<and> reaches Q P xs)"

lemma reaches_append: "reaches Q P (xs @ ys) \<longleftrightarrow> reaches Q P xs \<or> list_all Q xs \<and> reaches Q P ys"
  by (induction xs) auto

lemma reaches_iff: "reaches Q P xs \<longleftrightarrow> (\<exists>k<length xs. list_all Q (take k xs) \<and> P (xs ! k))"
proof (induction xs)
  case (Cons x xs)
  show ?case by (simp only: reaches.simps Cons.IH Ex_less_Suc2 length_Cons) auto
qed simp

lemma not_all_first:
  "\<not> list_all Q xs \<Longrightarrow> \<exists>j<length xs. list_all Q (take j xs) \<and> \<not> Q (xs ! j)"
proof (induction xs)
  case (Cons x xs)
  show ?case
  proof (cases "Q x")
    case True
    then obtain j where "j < length xs" "list_all Q (take j xs)" "\<not> Q (xs ! j)" using Cons by auto
    then show ?thesis using True by (intro exI [of _ "Suc j"]) simp
  qed (intro exI [of _ 0]; simp)
qed simp

abbreviation is_directory_in :: "('w, 'h) host \<Rightarrow> 'w \<Rightarrow> wstring \<Rightarrow> wstring \<Rightarrow> bool" where
  "is_directory_in os w L p \<equiv> ComponentKindInLayer os w L p = KindDirectory"

lemma walk_append:
  "walk_components os w L (xs @ ys) =
     (if list_all (is_directory_in os w L) xs then walk_components os w L ys else walk_components os w L xs)"
  by (induction xs) (auto split: ComponentKind.splits)

lemma walk_all_directories:
  "list_all (is_directory_in os w L) xs \<Longrightarrow> walk_components os w L xs = \<lparr>walkStop = StopNone, walkComponent = []\<rparr>"
  by (induction xs) auto

lemma walk_first_stop:
  assumes "list_all (is_directory_in os w L) (take j xs)" "j < length xs" "\<not> is_directory_in os w L (xs ! j)"
  shows "walkStop (walk_components os w L xs) = WalkStopAt (ComponentKindInLayer os w L (xs ! j))"
proof -
  have "xs = take j xs @ xs ! j # drop (Suc j) xs" using assms(2) by (rule id_take_nth_drop)
  then have "walk_components os w L xs = walk_components os w L (xs ! j # drop (Suc j) xs)"
    using assms(1) by (metis walk_append)
  then show ?thesis using assms(3) by (auto simp: WalkStopAt_def split: ComponentKind.splits)
qed

abbreviation ancestry_start :: "bool \<Rightarrow> LayerAncestry" where
  "ancestry_start root_opaque \<equiv> \<lparr>whitedOut = False, isOpaque = root_opaque, firstNonDirectory = StopNone,
     linkUnderHigherEntry = False, absent = False\<rparr>"

definition ancestry_over ::
  "('w, 'h) host \<Rightarrow> 'w \<Rightarrow> LayerConfig \<Rightarrow> wstring \<Rightarrow> int \<Rightarrow> bool \<Rightarrow> wstring list \<Rightarrow> LayerAncestry" where
  "ancestry_over os w cfg L index root_opaque =
     foldl (\<lambda>a p. StepLayerAncestry os w cfg L p index a) (ancestry_start root_opaque)"

lemma LayerAncestryOf_over:
  "LayerAncestryOf os w cfg L dirNorm index =
     ancestry_over os w cfg L index (IsOpaqueInLayer os w cfg [] L) (walked_paths dirNorm)"
  by (simp add: LayerAncestryOf_def ancestry_over_def)

lemma ancestry_over_fields:
  "firstNonDirectory (ancestry_over os w cfg L index r xs) = walkStop (walk_components os w L xs) \<and>
    (absent (ancestry_over os w cfg L index r xs) \<longleftrightarrow> \<not> list_all (is_directory_in os w L) xs \<and> walkStop (walk_components os w L xs) = StopNone) \<and>
    (whitedOut (ancestry_over os w cfg L index r xs) \<longleftrightarrow>
       reaches (is_directory_in os w L) (\<lambda>p. HasWhiteoutUnderWalkedDirectoryInLayer os w p L) xs) \<and>
    (isOpaque (ancestry_over os w cfg L index r xs) \<longleftrightarrow>
       r \<or> reaches (is_directory_in os w L) (\<lambda>p. is_directory_in os w L p \<and> IsOpaqueWalkedDirectoryInLayer os w cfg p L) xs) \<and>
    (linkUnderHigherEntry (ancestry_over os w cfg L index r xs) \<longleftrightarrow>
       index \<ge> 0 \<and> walkStop (walk_components os w L xs) = StopLink \<and>
       HigherLayerHoldsEntry os w cfg (nat index) (walkComponent (walk_components os w L xs)))"
proof (induction xs rule: rev_induct)
  case Nil
  show ?case by (simp add: ancestry_over_def)
next
  case (snoc x xs)
  let ?A = "ancestry_over os w cfg L index r"
  have step: "?A (xs @ [x]) = StepLayerAncestry os w cfg L x index (?A xs)" by (simp add: ancestry_over_def)
  show ?case
  proof (cases "list_all (is_directory_in os w L) xs")
    case True
    then have "walkStop (walk_components os w L xs) = StopNone" by (simp add: walk_all_directories)
    then show ?thesis using True snoc.IH
      by (auto simp: step StepLayerAncestry_def Let_def walk_append reaches_append WalkStopAt_def
          split: ComponentKind.splits)
  next
    case False
    then have "absent (?A xs) \<or> firstNonDirectory (?A xs) \<noteq> StopNone" using snoc.IH by simp
    then have "?A (xs @ [x]) = ?A xs" by (auto simp: step StepLayerAncestry_def)
    then show ?thesis using False snoc.IH by (auto simp: walk_append reaches_append)
  qed
qed

lemmas ancestry_simps =
  ancestry_over_fields [THEN conjunct1]
  ancestry_over_fields [THEN conjunct2, THEN conjunct1]
  ancestry_over_fields [THEN conjunct2, THEN conjunct2, THEN conjunct1]
  ancestry_over_fields [THEN conjunct2, THEN conjunct2, THEN conjunct2, THEN conjunct1]
  ancestry_over_fields [THEN conjunct2, THEN conjunct2, THEN conjunct2, THEN conjunct2]

section \<open>Two ways to read what hides a directory\<close>

text \<open>
  The resolver asks a layer about a path with \<open>HasWhiteout\<close>, \<open>HasWhitedOutAncestorInLayer\<close>,
  \<open>LowersBelow\<close> and \<open>HasLinkUnderHigherLayerEntry\<close>, each of which walks the path again; the directory
  merge reads the same facts in one pass with \<open>LayerAncestryOf\<close>. Two properties of the disk make
  them agree: nothing is below a missing entry or a file, and no opaque record is left where no
  entry is.
\<close>

definition tree_like :: "('w, 'h) host \<Rightarrow> 'w \<Rightarrow> wstring \<Rightarrow> bool" where
  "tree_like os w L \<longleftrightarrow>
     (\<forall>ss ts. names (ss @ ts) \<longrightarrow> ss \<noteq> [] \<longrightarrow> ts \<noteq> [] \<longrightarrow>
        ComponentKindInLayer os w L (join_with bslash ss) \<in> {KindMissing, KindFile} \<longrightarrow>
        ComponentKindInLayer os w L (join_with bslash (ss @ ts)) = KindMissing)"

definition no_stale_opaque :: "('w, 'h) host \<Rightarrow> 'w \<Rightarrow> LayerConfig \<Rightarrow> wstring \<Rightarrow> bool" where
  "no_stale_opaque os w cfg L \<longleftrightarrow>
     (\<forall>ss. names ss \<longrightarrow> ss \<noteq> [] \<longrightarrow> HoldsOpaqueMarker os w cfg (JoinDirPath L (join_with bslash ss)) \<longrightarrow>
        ComponentKindInLayer os w L (join_with bslash ss) \<noteq> KindMissing)"

lemma tree_likeD:
  assumes "tree_like os w L" "names (ss @ ts)" "ss \<noteq> []" "ts \<noteq> []"
    and "ComponentKindInLayer os w L (join_with bslash ss) \<in> {KindMissing, KindFile}"
  shows "ComponentKindInLayer os w L (join_with bslash (ss @ ts)) = KindMissing"
  using assms unfolding tree_like_def by blast

lemma missing_not_there:
  "ComponentKindInLayer os w L r = KindMissing \<Longrightarrow> \<not> MarkerFileExists os w (JoinDirPath L r)"
  by (auto simp: ComponentKindInLayer_def MarkerFileExists_def exists_at_def Let_def
      split: sum.splits if_splits prod.splits EntryKind.splits)

lemma normal_form_join: "names ss \<Longrightarrow> normal_form (join_with bslash ss)"
proof -
  assume n: "names ss"
  have "set (join_with bslash ss) \<subseteq> insert bslash (\<Union> (set ` set ss))"
    by (induction "bslash" ss rule: join_with.induct) auto
  then have "fslash \<notin> set (join_with bslash ss)" using n is_nameD(3) by (fastforce simp: list_all_iff)
  then show ?thesis
    using hd_join_names [OF n] last_join_names [OF n]
    by (cases "ss = []") (auto simp: normal_form_def is_slash_def)
qed

lemma names_take: "names ss \<Longrightarrow> names (take k ss)"
  by (auto simp: list_all_iff dest: in_set_takeD)

lemma walked_nth:
  "names ss \<Longrightarrow> k < length ss \<Longrightarrow> walked_paths (join_with bslash ss) ! k = join_with bslash (take (Suc k) ss)"
  by (simp add: walked_paths_join)

lemma walked_take:
  "names ss \<Longrightarrow> k \<le> length ss \<Longrightarrow> take k (walked_paths (join_with bslash ss)) = walked_paths (join_with bslash (take k ss))"
  by (auto simp: walked_paths_join names_take take_map min_def intro!: nth_equalityI)

text \<open>\<open>HasWhiteout\<close> and \<open>IsOpaqueInLayer\<close> at the walked paths of \<open>ss\<close>.\<close>

lemma FindLinkOnPath_none:
  "FindLinkOnPath os w L d = LinkNone \<longleftrightarrow> \<not> EndsAtLinkOrUnreadable (walkStop (WalkToFirstNonDirectory os w L d))"
  by (auto simp: FindLinkOnPath_def EndsAtLinkOrUnreadable_def Let_def split: LinkStop.splits)

lemma HasWhiteout_walked:
  assumes "names ss" "k < length ss"
  shows "HasWhiteout os w (join_with bslash (take (Suc k) ss)) L \<longleftrightarrow>
    HasWhiteoutUnderWalkedDirectoryInLayer os w (join_with bslash (take (Suc k) ss)) L \<and>
    \<not> EndsAtLinkOrUnreadable (walkStop (walk_components os w L (take k (walked_paths (join_with bslash ss)))))"
proof -
  have t: "take (Suc k) ss = take k ss @ [ss ! k]" using assms(2) by (simp add: take_Suc_conv_app_nth)
  have n: "names (take k ss @ [ss ! k])" using names_take [OF assms(1), of "Suc k"] t by simp
  have "MarkerDirectoryOf (join_with bslash (take (Suc k) ss)) = join_with bslash (take k ss)"
    unfolding t MarkerDirectoryOf_def
    using n names_take [OF assms(1)] by (simp add: NormalizePathPreserveCase_id normal_form_join)
  then show ?thesis using assms
    by (simp add: HasWhiteout_def FindLinkOnPath_none WalkToFirstNonDirectory_def walked_take)
qed

lemma IsOpaque_walked:
  assumes "names ss" "k < length ss"
  shows "IsOpaqueInLayer os w cfg (join_with bslash (take (Suc k) ss)) L \<longleftrightarrow>
    IsOpaqueWalkedDirectoryInLayer os w cfg (join_with bslash (take (Suc k) ss)) L \<and>
    \<not> EndsAtLinkOrUnreadable (walkStop (walk_components os w L (take (Suc k) (walked_paths (join_with bslash ss)))))"
  using assms names_take [OF assms(1)]
  by (simp add: IsOpaqueInLayer_def IsOpaqueWalkedDirectoryInLayer_def FindLinkOnPath_none WalkToFirstNonDirectory_def
      NormalizePathPreserveCase_id normal_form_join walked_take Suc_leI)

lemma no_marker_below:
  assumes "tree_like os w L" "names ss" "j < k" "k < length ss"
    and "ComponentKindInLayer os w L (join_with bslash (take (Suc j) ss)) \<in> {KindMissing, KindFile}"
  shows "\<not> HasWhiteoutUnderWalkedDirectoryInLayer os w (join_with bslash (take (Suc k) ss)) L"
proof -
  let ?ts = "drop (Suc j) (take k ss) @ [kWhiteoutPrefix @ ss ! k]"
  have t: "take (Suc k) ss = take k ss @ [ss ! k]" using assms(4) by (simp add: take_Suc_conv_app_nth)
  have n: "names (take k ss @ [ss ! k])" using names_take [OF assms(2), of "Suc k"] t by simp
  have eq: "take k ss = take (Suc j) ss @ drop (Suc j) (take k ss)"
    using assms(3) by (metis append_take_drop_id min.absorb1 Suc_leI take_take)
  have "names (take (Suc j) ss @ ?ts)"
    using assms(2,4) by (auto simp: list_all_iff dest!: in_set_takeD in_set_dropD intro!: is_name_prefixed)
  then have "ComponentKindInLayer os w L (join_with bslash (take (Suc j) ss @ ?ts)) = KindMissing"
    using assms(4,5) by (intro tree_likeD [OF assms(1)]) auto
  moreover have "take (Suc j) ss @ ?ts = take k ss @ [kWhiteoutPrefix @ ss ! k]" using eq by simp
  ultimately have "\<not> MarkerFileExists os w (JoinDirPath L (join_with bslash (take k ss @ [kWhiteoutPrefix @ ss ! k])))"
    by (metis missing_not_there)
  then show ?thesis
    using GetWhiteoutFileName_join [OF n]
    by (simp add: HasWhiteoutUnderWalkedDirectoryInLayer_def GetWhiteoutFullPath_def t)
qed

lemma stop_is_missing_or_file:
  "WalkStopAt kind \<noteq> StopLink \<Longrightarrow> WalkStopAt kind \<noteq> StopUnreadable \<Longrightarrow> kind \<noteq> KindDirectory \<Longrightarrow> kind \<in> {KindMissing, KindFile}"
  by (cases kind) (simp_all add: WalkStopAt_def)

lemma EndsAtLinkOrUnreadable_iff: "EndsAtLinkOrUnreadable s \<longleftrightarrow> s = StopLink \<or> s = StopUnreadable"
  by (cases s) (simp_all add: EndsAtLinkOrUnreadable_def LinkStopOf_def)

text \<open>A walk of a prefix that meets neither a link nor an unreadable entry meets only directories, or a missing entry or a file.\<close>

lemma walk_prefix_cases:
  assumes "names ss" "m \<le> length ss"
    and "\<not> EndsAtLinkOrUnreadable (walkStop (walk_components os w L (take m (walked_paths (join_with bslash ss)))))"
  obtains (directories) "list_all (is_directory_in os w L) (take m (walked_paths (join_with bslash ss)))"
  | (stopped) j where "j < m" "list_all (is_directory_in os w L) (take j (walked_paths (join_with bslash ss)))"
      "ComponentKindInLayer os w L (join_with bslash (take (Suc j) ss)) \<in> {KindMissing, KindFile}"
proof (cases "list_all (is_directory_in os w L) (take m (walked_paths (join_with bslash ss)))")
  case False
  let ?xs = "walked_paths (join_with bslash ss)"
  have len: "length ?xs = length ss" using assms(1) by (simp add: walked_paths_join)
  from not_all_first [OF False] obtain j where j: "j < m" "list_all (is_directory_in os w L) (take j (take m ?xs))"
    "\<not> is_directory_in os w L (take m ?xs ! j)" using len by auto
  then have nth: "take m ?xs ! j = join_with bslash (take (Suc j) ss)"
    using assms(1,2) by (simp add: walked_nth)
  have "walkStop (walk_components os w L (take m ?xs)) = WalkStopAt (ComponentKindInLayer os w L (take m ?xs ! j))"
    using j len assms(2) by (intro walk_first_stop) auto
  then have "ComponentKindInLayer os w L (join_with bslash (take (Suc j) ss)) \<in> {KindMissing, KindFile}"
    using assms(3) j(3) nth by (intro stop_is_missing_or_file) (auto simp: EndsAtLinkOrUnreadable_iff)
  then show thesis using j by (intro stopped) (auto simp: min_def)
qed (rule directories)

lemma whiteout_readers_agree:
  assumes "tree_like os w L" "names ss"
  shows "reaches (is_directory_in os w L) (\<lambda>p. HasWhiteoutUnderWalkedDirectoryInLayer os w p L) (walked_paths (join_with bslash ss)) \<longleftrightarrow>
    list_ex (\<lambda>p. HasWhiteout os w p L) (walked_paths (join_with bslash ss))"
proof -
  let ?xs = "walked_paths (join_with bslash ss)"
  have len: "length ?xs = length ss" using assms(2) by (simp add: walked_paths_join)
  have at: "HasWhiteout os w (?xs ! k) L \<longleftrightarrow>
      list_all (is_directory_in os w L) (take k ?xs) \<and> HasWhiteoutUnderWalkedDirectoryInLayer os w (?xs ! k) L"
    if k: "k < length ss" for k
  proof
    assume "HasWhiteout os w (?xs ! k) L"
    then have m: "HasWhiteoutUnderWalkedDirectoryInLayer os w (join_with bslash (take (Suc k) ss)) L"
      and e: "\<not> EndsAtLinkOrUnreadable (walkStop (walk_components os w L (take k ?xs)))"
      unfolding walked_nth [OF assms(2) k] HasWhiteout_walked [OF assms(2) k] by auto
    from assms(2) less_imp_le [OF k] e
    show "list_all (is_directory_in os w L) (take k ?xs) \<and> HasWhiteoutUnderWalkedDirectoryInLayer os w (?xs ! k) L"
    proof (cases rule: walk_prefix_cases)
      case directories
      then show ?thesis using m walked_nth [OF assms(2) k] by simp
    next
      case (stopped j)
      then show ?thesis using no_marker_below [OF assms stopped(1) k] m by blast
    qed
  next
    assume "list_all (is_directory_in os w L) (take k ?xs) \<and> HasWhiteoutUnderWalkedDirectoryInLayer os w (?xs ! k) L"
    then show "HasWhiteout os w (?xs ! k) L"
      unfolding walked_nth [OF assms(2) k] HasWhiteout_walked [OF assms(2) k]
      by (simp add: walk_all_directories EndsAtLinkOrUnreadable_iff)
  qed
  then show ?thesis using len by (auto simp: reaches_iff list_ex_length)
qed

lemma opaque_readers_agree:
  assumes "tree_like os w L" "no_stale_opaque os w cfg L" "names ss"
    and "walkStop (walk_components os w L (walked_paths (join_with bslash ss))) = StopNone"
  shows "reaches (is_directory_in os w L) (\<lambda>p. is_directory_in os w L p \<and> IsOpaqueWalkedDirectoryInLayer os w cfg p L)
      (walked_paths (join_with bslash ss)) \<longleftrightarrow>
    list_ex (\<lambda>p. IsOpaqueInLayer os w cfg p L) (walked_paths (join_with bslash ss))"
proof -
  let ?xs = "walked_paths (join_with bslash ss)"
  have len: "length ?xs = length ss" using assms(3) by (simp add: walked_paths_join)
  have at: "IsOpaqueInLayer os w cfg (?xs ! k) L \<longleftrightarrow>
      list_all (is_directory_in os w L) (take k ?xs) \<and> is_directory_in os w L (?xs ! k) \<and>
      IsOpaqueWalkedDirectoryInLayer os w cfg (?xs ! k) L"
    if k: "k < length ss" for k
  proof
    have tk: "take (Suc k) ?xs = take k ?xs @ [?xs ! k]" using k len by (simp add: take_Suc_conv_app_nth)
    assume "IsOpaqueInLayer os w cfg (?xs ! k) L"
    then have o: "IsOpaqueWalkedDirectoryInLayer os w cfg (join_with bslash (take (Suc k) ss)) L"
      and e: "\<not> EndsAtLinkOrUnreadable (walkStop (walk_components os w L (take (Suc k) ?xs)))"
      unfolding walked_nth [OF assms(3) k] IsOpaque_walked [OF assms(3) k] by auto
    have nm: "ComponentKindInLayer os w L (join_with bslash (take (Suc k) ss)) \<noteq> KindMissing"
      using o assms(2) k names_take [OF assms(3), of "Suc k"]
      unfolding no_stale_opaque_def IsOpaqueWalkedDirectoryInLayer_def by (cases ss) auto
    from assms(3) Suc_leI [OF k] e
    show "list_all (is_directory_in os w L) (take k ?xs) \<and> is_directory_in os w L (?xs ! k) \<and>
      IsOpaqueWalkedDirectoryInLayer os w cfg (?xs ! k) L"
    proof (cases rule: walk_prefix_cases)
      case directories
      then show ?thesis using o walked_nth [OF assms(3) k] tk by simp
    next
      case (stopped j)
      have "ComponentKindInLayer os w L (join_with bslash (take (Suc j) ss)) = KindMissing"
      proof -
        have "walkStop (walk_components os w L ?xs) = WalkStopAt (ComponentKindInLayer os w L (?xs ! j))"
          using stopped len k walked_nth [OF assms(3), of j] by (intro walk_first_stop) auto
        then show ?thesis using stopped assms(4) k walked_nth [OF assms(3), of j] by (auto simp: WalkStopAt_def)
      qed
      have eq: "take (Suc k) ss = take (Suc j) ss @ drop (Suc j) (take (Suc k) ss)"
        using stopped(1) by (metis append_take_drop_id min.absorb1 Suc_leI take_take)
      have "ComponentKindInLayer os w L (join_with bslash (take (Suc j) ss @ drop (Suc j) (take (Suc k) ss))) = KindMissing"
        if "j \<noteq> k"
      proof (rule tree_likeD [OF assms(1) _ _ _ stopped(3)])
        show "names (take (Suc j) ss @ drop (Suc j) (take (Suc k) ss))"
          using names_take [OF assms(3), of "Suc k"] eq by simp
      qed (use that stopped(1) k in auto)
      then have "ComponentKindInLayer os w L (join_with bslash (take (Suc k) ss)) = KindMissing" if "j \<noteq> k"
        using that eq by simp
      with nm \<open>ComponentKindInLayer os w L (join_with bslash (take (Suc j) ss)) = KindMissing\<close> show ?thesis
        by (cases "j = k") auto
    qed
  next
    have tk: "take (Suc k) ?xs = take k ?xs @ [?xs ! k]" using k len by (simp add: take_Suc_conv_app_nth)
    assume "list_all (is_directory_in os w L) (take k ?xs) \<and> is_directory_in os w L (?xs ! k) \<and>
      IsOpaqueWalkedDirectoryInLayer os w cfg (?xs ! k) L"
    then show "IsOpaqueInLayer os w cfg (?xs ! k) L"
      using tk unfolding walked_nth [OF assms(3) k] IsOpaque_walked [OF assms(3) k]
      by (simp add: walk_append EndsAtLinkOrUnreadable_iff)
  qed
  then show ?thesis using len by (auto simp: reaches_iff list_ex_length)
qed

lemma ancestry_whitedOut:
  assumes "tree_like os w L" "names ss"
  shows "whitedOut (LayerAncestryOf os w cfg L (join_with bslash ss) index) \<longleftrightarrow>
    ss \<noteq> [] \<and> (HasWhiteout os w (join_with bslash ss) L \<or> HasWhitedOutAncestorInLayer os w (join_with bslash ss) L)"
proof (cases ss rule: rev_cases)
  case Nil
  then show ?thesis using walked_paths_join [of "[]"] by (simp add: LayerAncestryOf_def)
next
  case (snoc ts t)
  have n: "names (ts @ [t])" and nt: "names ts" using assms(2) snoc by auto
  have split: "walked_paths (join_with bslash (ts @ [t])) = walked_paths (join_with bslash ts) @ [join_with bslash (ts @ [t])]"
    using n nt by (simp add: walked_paths_join)
  have "HasWhitedOutAncestorInLayer os w (join_with bslash (ts @ [t])) L \<longleftrightarrow>
      list_ex (\<lambda>p. HasWhiteout os w p L) (walked_paths (join_with bslash ts))"
    using n nt by (simp add: HasWhitedOutAncestorInLayer_def AnyDirectoryUpToRoot_def parent_chain_join list_ex_iff)
  moreover have "whitedOut (LayerAncestryOf os w cfg L (join_with bslash (ts @ [t])) index) \<longleftrightarrow>
      list_ex (\<lambda>p. HasWhiteout os w p L) (walked_paths (join_with bslash (ts @ [t])))"
    by (simp only: LayerAncestryOf_over ancestry_simps whiteout_readers_agree [OF assms(1) n])
  ultimately show ?thesis unfolding snoc split by auto
qed

lemma ancestry_stop:
  "firstNonDirectory (LayerAncestryOf os w cfg L d index) = walkStop (WalkToFirstNonDirectory os w L d)"
  by (simp add: LayerAncestryOf_over ancestry_simps WalkToFirstNonDirectory_def)

lemma ancestry_link_under:
  "0 \<le> index \<Longrightarrow> lowerPaths cfg ! nat index = L \<Longrightarrow>
   linkUnderHigherEntry (LayerAncestryOf os w cfg L d index) = HasLinkUnderHigherLayerEntry os w cfg (nat index) d"
  by (auto simp: LayerAncestryOf_over ancestry_simps HasLinkUnderHigherLayerEntry_def WalkToFirstNonDirectory_def Let_def)

text \<open>The part of an ancestry that hides the layers below.\<close>

definition ancestry_hides :: "LayerAncestry \<Rightarrow> bool" where
  "ancestry_hides a \<longleftrightarrow> isOpaque a \<or> firstNonDirectory a \<noteq> StopNone"

lemma ancestry_hides_lowers:
  assumes "tree_like os w L" "no_stale_opaque os w cfg L" "names ss"
  shows "ancestry_hides (LayerAncestryOf os w cfg L (join_with bslash ss) index) \<longleftrightarrow>
    LowersBelow os w cfg L (join_with bslash ss) \<noteq> LowersVisible"
proof (cases "walkStop (walk_components os w L (walked_paths (join_with bslash ss))) = StopNone")
  case True
  have "HasOpaqueSelfOrAncestorInLayer os w cfg (join_with bslash ss) L \<longleftrightarrow>
      IsOpaqueInLayer os w cfg [] L \<or> list_ex (\<lambda>p. IsOpaqueInLayer os w cfg p L) (walked_paths (join_with bslash ss))"
    using assms(3) by (auto simp: HasOpaqueSelfOrAncestorInLayer_def AnyDirectoryUpToRoot_def parent_chain_join list_ex_iff)
  then show ?thesis
    unfolding ancestry_hides_def LayerAncestryOf_over ancestry_simps opaque_readers_agree [OF assms True]
    by (simp add: True LowersBelow_def HasNonDirectoryOrLinkSelfOrAncestorInLayer_def WalkToFirstNonDirectory_def)
next
  case False
  then show ?thesis
    by (simp add: ancestry_hides_def ancestry_stop LowersBelow_def HasNonDirectoryOrLinkSelfOrAncestorInLayer_def
        WalkToFirstNonDirectory_def)
qed

text \<open>
  C20: The one-pass ancestry read of the directory merge agrees with the readers of the path
  resolver. For every path of plain names, in a layer that is a tree and holds no stale opaque
  record: the layer whites the directory out exactly when \<open>HasWhiteout\<close> holds for it or
  \<open>HasWhitedOutAncestorInLayer\<close> does, the walk stops where \<open>WalkToFirstNonDirectory\<close> stops, the lowers
  below it are hidden exactly when \<open>LowersBelow\<close> says so, and a lower's link counts as shadowed
  exactly when \<open>HasLinkUnderHigherLayerEntry\<close> holds.
\<close>

theorem LayerAncestryOf_agrees:
  assumes "tree_like os w L" "no_stale_opaque os w cfg L" "names ss"
  shows "(whitedOut (LayerAncestryOf os w cfg L (join_with bslash ss) index) \<longleftrightarrow>
      ss \<noteq> [] \<and> (HasWhiteout os w (join_with bslash ss) L \<or> HasWhitedOutAncestorInLayer os w (join_with bslash ss) L)) \<and>
    firstNonDirectory (LayerAncestryOf os w cfg L (join_with bslash ss) index) =
      walkStop (WalkToFirstNonDirectory os w L (join_with bslash ss)) \<and>
    (isOpaque (LayerAncestryOf os w cfg L (join_with bslash ss) index) \<or>
     firstNonDirectory (LayerAncestryOf os w cfg L (join_with bslash ss) index) \<noteq> StopNone \<longleftrightarrow>
      LowersBelow os w cfg L (join_with bslash ss) \<noteq> LowersVisible) \<and>
    (0 \<le> index \<and> lowerPaths cfg ! nat index = L \<longrightarrow>
      linkUnderHigherEntry (LayerAncestryOf os w cfg L (join_with bslash ss) index) =
      HasLinkUnderHigherLayerEntry os w cfg (nat index) (join_with bslash ss))"
  unfolding ancestry_hides_lowers [OF assms, unfolded ancestry_hides_def] ancestry_whitedOut [OF assms(1,3)]
  by (simp add: ancestry_stop ancestry_link_under)

section \<open>Trees in memory\<close>

text \<open>
  A check of the finitely many entries of a disk in memory that makes a layer of it tree-like and
  free of stale opaque records. \<open>mem_base L\<close> is the key of the layer root with a separator.
\<close>

definition mem_base :: "wstring \<Rightarrow> wstring" where
  "mem_base L = mem_key (kExtended @ L @ [bslash])"

definition drive_root :: "wstring \<Rightarrow> bool" where
  "drive_root L \<longleftrightarrow> length L \<ge> 2 \<and> L ! 1 = wcolon \<and> last L \<noteq> bslash"

definition mem_directory :: "mem_disk \<Rightarrow> wstring \<Rightarrow> bool" where
  "mem_directory w k =
     (case map_of w k of
        None \<Rightarrow> False
      | Some n \<Rightarrow> nodeAttributes n AND FILE_ATTRIBUTE_DIRECTORY \<noteq> 0)"

definition mem_tree :: "mem_disk \<Rightarrow> wstring \<Rightarrow> bool" where
  "mem_tree w L \<longleftrightarrow>
     list_all (\<lambda>(k, n). starts_with k (mem_base L) \<longrightarrow>
       (let segs = split_on bslash (drop (length (mem_base L)) k) in
        wcolon \<notin> set (drop (length (mem_base L)) k) \<and>
        list_all (\<lambda>i. mem_directory w (mem_base L @ join_with bslash (take i segs))) [1..<length segs])) w"

lemma ascii_lower_punct [simp]:
  "ascii_lower bslash = bslash" "ascii_lower wcolon = wcolon" "ascii_lower c = bslash \<longleftrightarrow> c = bslash"
  "ascii_lower c = wcolon \<longleftrightarrow> c = wcolon"
  using ascii_lower_table_ok lower_table_punct [of ascii_text bslash c] lower_table_punct [of ascii_text wcolon c]
  by (simp_all add: ascii_text_def ascii_lower_def)

lemma drive_extended:
  assumes "drive_root L"
  shows "WithExtendedPrefix mem_host (JoinDirPath L p) = kExtended @ L @ bslash # p"
proof -
  obtain a b c where L: "L = a # b # c" using assms by (cases L; cases "tl L") (auto simp: drive_root_def)
  have "JoinDirPath L p = L @ bslash # p"
    using assms by (auto simp: JoinDirPath_def DirWithSeparator_def drive_root_def)
  moreover have "\<not> starts_with (L @ x) kExtended" "\<not> starts_with (L @ x) kDevice" "\<not> starts_with (L @ x) kUnc" for x
    using assms L by (auto simp: starts_with_iff prefix_defs drive_root_def)
  moreover have "FullPathName mem_host q = Some q" for q by (simp add: FullPathName_def mem_host_def)
  ultimately show ?thesis by (simp add: WithExtendedPrefix_def)
qed

lemma mem_key_base: "mem_key (kExtended @ L @ bslash # p) = mem_base L @ map ascii_lower p"
  by (simp add: mem_key_def mem_base_def)

lemma mem_kind:
  assumes "drive_root L"
  shows "ComponentKindInLayer mem_host w L p = KindMissing \<longleftrightarrow> map_of w (mem_base L @ map ascii_lower p) = None"
    and "mem_directory w (mem_base L @ map ascii_lower p) \<Longrightarrow> ComponentKindInLayer mem_host w L p \<notin> {KindMissing, KindFile}"
  by (auto simp: ComponentKindInLayer_def drive_extended [OF assms] mem_attributes_def mem_key_base mem_directory_def
      EntryKindOf_def Let_def split: option.splits prod.splits EntryKind.splits if_splits)

lemma lower_join: "map ascii_lower (join_with bslash ss) = join_with bslash (map (map ascii_lower) ss)"
  by (induction "bslash" ss rule: join_with.induct) simp_all

lemma split_lower_join:
  assumes "names ss" "ss \<noteq> []"
  shows "split_on bslash (map ascii_lower (join_with bslash ss)) = map (map ascii_lower) ss"
proof -
  have "bslash \<notin> set (map ascii_lower s)" if "s \<in> set ss" for s
    using is_nameD(2) [of s] assms(1) that by (auto simp: list_all_iff)
  then show ?thesis unfolding lower_join using assms(2) by (intro split_join) auto
qed

lemma mem_tree_prefix:
  assumes "mem_tree w L" "map_of w (mem_base L @ map ascii_lower (join_with bslash (ss @ ts))) = Some n"
    "names (ss @ ts)" "ss \<noteq> []" "ts \<noteq> []"
  shows "mem_directory w (mem_base L @ map ascii_lower (join_with bslash ss))"
proof -
  let ?k = "mem_base L @ map ascii_lower (join_with bslash (ss @ ts))"
  have "(?k, n) \<in> set w" using assms(2) by (rule map_of_SomeD)
  moreover have "split_on bslash (drop (length (mem_base L)) ?k) = map (map ascii_lower) (ss @ ts)"
    using split_lower_join [of "ss @ ts"] assms(3,4) by simp
  ultimately have "\<forall>i\<in>set [1..<length (ss @ ts)].
      mem_directory w (mem_base L @ join_with bslash (take i (map (map ascii_lower) (ss @ ts))))"
    using assms(1) unfolding mem_tree_def list_all_iff Let_def by fastforce
  moreover have "length ss \<in> set [1..<length (ss @ ts)]" using assms(4,5) by (simp add: Suc_le_eq)
  ultimately have "mem_directory w (mem_base L @ join_with bslash (take (length ss) (map (map ascii_lower) (ss @ ts))))"
    by blast
  then show ?thesis by (simp add: lower_join)
qed

lemma mem_tree_like:
  assumes "mem_tree w L" "drive_root L"
  shows "tree_like mem_host w L"
  unfolding tree_like_def
proof (intro allI impI, rule ccontr)
  fix ss ts
  assume n: "names (ss @ ts)" "ss \<noteq> []" "ts \<noteq> []"
    and k: "ComponentKindInLayer mem_host w L (join_with bslash ss) \<in> {KindMissing, KindFile}"
    and m: "ComponentKindInLayer mem_host w L (join_with bslash (ss @ ts)) \<noteq> KindMissing"
  from m obtain x where "map_of w (mem_base L @ map ascii_lower (join_with bslash (ss @ ts))) = Some x"
    unfolding mem_kind(1) [OF assms(2)] by auto
  from mem_tree_prefix [OF assms(1) this n] k mem_kind(2) [OF assms(2)] show False by blast
qed

text \<open>Without stream entries and sidecar files, an opaque marker is a marker file in an existing directory.\<close>

lemma mem_no_stale_opaque:
  assumes "mem_tree w L" "drive_root L" "drive_root (upperPath cfg)"
    and "list_all (\<lambda>(k, n). \<not> starts_with k (mem_key (win32Directory mem_host (upperPath cfg)))) w"
  shows "no_stale_opaque mem_host w cfg L"
  unfolding no_stale_opaque_def
proof (intro allI impI)
  fix ss
  assume n: "names ss" "ss \<noteq> []" and h: "HoldsOpaqueMarker mem_host w cfg (JoinDirPath L (join_with bslash ss))"
  let ?d = "JoinDirPath L (join_with bslash ss)"
  have ex: "exists_at mem_host w q \<longleftrightarrow> map_of w (mem_key q) \<noteq> None" for q
    by (auto simp: exists_at_def mem_attributes_def split: option.splits)
  have "\<not> HasOpaqueAdsOnly mem_host w ?d"
  proof
    assume "HasOpaqueAdsOnly mem_host w ?d"
    then obtain x where "(mem_base L @ map ascii_lower (join_with bslash ss @ kOpaqueADSStream), x) \<in> set w"
      by (auto simp: HasOpaqueAdsOnly_def ex ExtendedStreamPath_def drive_extended [OF assms(2)] mem_base_def mem_key_def
          dest!: map_of_SomeD)
    then have "wcolon \<notin> set (map ascii_lower (join_with bslash ss @ kOpaqueADSStream))"
      using assms(1) unfolding mem_tree_def list_all_iff Let_def by fastforce
    then show False by (simp add: kOpaqueADSStream_def)
  qed
  moreover have "\<not> Sidecar_HasOpaque mem_host w (upperPath cfg) ?d"
  proof
    assume "Sidecar_HasOpaque mem_host w (upperPath cfg) ?d"
    then obtain base x where "BaseOf mem_host (upperPath cfg) ?d = Some base"
      "(mem_key (base @ kOpaqueSuffix), x) \<in> set w"
      by (auto simp: Sidecar_HasOpaque_def FileOf_def ex dest!: map_of_SomeD split: option.splits)
    moreover from this have "starts_with (mem_key (base @ kOpaqueSuffix)) (mem_key (win32Directory mem_host (upperPath cfg)))"
      by (auto simp: BaseOf_def Let_def starts_with_iff mem_key_def split: if_splits)
    ultimately show False using assms(4) by (fastforce simp: list_all_iff)
  qed
  ultimately have m: "MarkerFileExists mem_host w (JoinDirPath ?d kOpaqueMarkerFile)"
    using h by (auto simp: HoldsOpaqueMarker_def HasOpaqueMetadata_def)
  have "last (JoinDirPath L (join_with bslash ss)) \<noteq> bslash"
    using n last_join_names [OF n] join_with_eq_Nil [OF n(1)] by (auto simp: JoinDirPath_def is_slash_def)
  then have "JoinDirPath ?d kOpaqueMarkerFile = JoinDirPath L (join_with bslash (ss @ [kOpaqueMarkerFile]))"
    using n by (simp add: JoinDirPath_def DirWithSeparator_def join_with_snoc)
  then obtain x where x: "map_of w (mem_base L @ map ascii_lower (join_with bslash (ss @ [kOpaqueMarkerFile]))) = Some x"
    using m by (auto simp: MarkerFileExists_def ex drive_extended [OF assms(2)] mem_key_base)
  have "names (ss @ [kOpaqueMarkerFile])" using n by (simp add: is_name_def kOpaqueMarkerFile_def is_slash_def)
  from mem_tree_prefix [OF assms(1) x this n(2)] mem_kind(2) [OF assms(2)]
  show "ComponentKindInLayer mem_host w L (join_with bslash ss) \<noteq> KindMissing" by blast
qed

text \<open>A disk with an upper that holds an opaque directory \<open>a\<close> and a whiteout for \<open>b\<close>, and a lower with \<open>b\<close> and \<open>c\<close>.\<close>

definition sample_disk :: mem_disk where
  "sample_disk =
     [(on_disk sample_upper, mem_dir),
      (on_disk (JoinDirPath sample_upper (wlit ''a'')), mem_dir),
      (on_disk (JoinDirPath sample_upper (wlit ''a'' @ [bslash] @ kOpaqueMarkerFile)), mem_file []),
      (on_disk (JoinDirPath sample_upper (wlit ''.wh.b'')), mem_file []),
      (on_disk sample_lower, mem_dir),
      (on_disk (JoinDirPath sample_lower (wlit ''a'')), mem_dir),
      (on_disk (JoinDirPath sample_lower (wlit ''a'' @ [bslash] @ wlit ''x'')), mem_file []),
      (on_disk (JoinDirPath sample_lower (wlit ''b'')), mem_file []),
      (on_disk (JoinDirPath sample_lower (wlit ''c'')), mem_file [])]"

lemma sample_roots: "drive_root sample_upper" "drive_root sample_lower" "upperPath sample_config = sample_upper"
  by (simp_all add: drive_root_def sample_upper_def sample_lower_def sample_config_def)

lemma sample_trees: "mem_tree sample_disk sample_upper" "mem_tree sample_disk sample_lower"
  by code_simp+

lemma sample_disk_laws:
  "tree_like mem_host sample_disk sample_upper" "tree_like mem_host sample_disk sample_lower"
  "no_stale_opaque mem_host sample_disk sample_config sample_upper"
  "no_stale_opaque mem_host sample_disk sample_config sample_lower"
proof -
  have s: "list_all (\<lambda>(k, n). \<not> starts_with k (mem_key (win32Directory mem_host (upperPath sample_config)))) sample_disk"
    by code_simp
  show "tree_like mem_host sample_disk sample_upper" "tree_like mem_host sample_disk sample_lower"
    using mem_tree_like sample_trees sample_roots by blast+
  show "no_stale_opaque mem_host sample_disk sample_config sample_upper"
    "no_stale_opaque mem_host sample_disk sample_config sample_lower"
    using mem_no_stale_opaque [OF _ _ _ s] sample_trees sample_roots by auto
qed

theorem LayerAncestryOf_agrees_witness:
  "whitedOut (LayerAncestryOf mem_host sample_disk sample_config sample_upper (wlit ''b'') (- 1)) \<and>
   HasWhiteout mem_host sample_disk (wlit ''b'') sample_upper"
proof -
  have "names [wlit ''b'']" by (simp add: is_name_def is_slash_def)
  moreover have "HasWhiteout mem_host sample_disk (wlit ''b'') sample_upper" by code_simp
  ultimately show ?thesis
    using LayerAncestryOf_agrees [OF sample_disk_laws(1,3), of "[wlit ''b'']" "- 1"] by simp
qed

end
