(* ===== verification/Lru_Cache.thy ===== *)
theory Lru_Cache
  imports Layer_Types "HOL-Library.AList"
begin

text \<open>
  The resolved-path cache of \<^verbatim>\<open>impl/Cache.cpp\<close>. The hash map is an association list in iteration
  order; a reading of the steady clock is the argument \<open>now\<close>; the shared and exclusive locks make
  each operation one step. The interface \<open>path_cache\<close> states what the resolver relies on: a lookup
  returns what was stored, and the cache may forget an entry but never invents one.
\<close>

section \<open>State and operations\<close>

record CacheEntry =
  resolved :: ResolvedPath
  lastAccessTicks :: int

record Cache =
  cacheEntries :: "(wstring \<times> CacheEntry) list"
  cacheCapacity :: nat
  cacheHits :: uint64
  cacheMisses :: uint64

definition new_Cache :: "nat \<Rightarrow> Cache" where
  "new_Cache maxCapacity = \<lparr>cacheEntries = [], cacheCapacity = maxCapacity, cacheHits = 0, cacheMisses = 0\<rparr>"

definition Cache_Get :: "'a win32_text_scheme \<Rightarrow> int \<Rightarrow> Cache \<Rightarrow> wstring \<Rightarrow> Cache \<times> ResolvedPath option" where
  "Cache_Get T now c relativePath =
     (let key = NormalizePath T relativePath in
      case map_of (cacheEntries c) key of
        None \<Rightarrow> (c\<lparr>cacheMisses := cacheMisses c + 1\<rparr>, None)
      | Some e \<Rightarrow>
          (c\<lparr>cacheHits := cacheHits c + 1, cacheEntries := AList.update key (e\<lparr>lastAccessTicks := now\<rparr>) (cacheEntries c)\<rparr>,
           Some (resolved e)))"

text \<open>The scan of \<open>EvictLRU\<close>: the first entry in iteration order with the least tick.\<close>

definition oldest_entry :: "wstring \<times> CacheEntry \<Rightarrow> (wstring \<times> CacheEntry) list \<Rightarrow> wstring \<times> CacheEntry" where
  "oldest_entry first es =
     foldl (\<lambda>oldest it. if lastAccessTicks (snd it) < lastAccessTicks (snd oldest) then it else oldest) first es"

definition EvictLRU :: "Cache \<Rightarrow> Cache" where
  "EvictLRU c =
     (case cacheEntries c of
        [] \<Rightarrow> c
      | e # es \<Rightarrow> c\<lparr>cacheEntries := AList.delete (fst (oldest_entry e (e # es))) (e # es)\<rparr>)"

definition Cache_Put :: "'a win32_text_scheme \<Rightarrow> int \<Rightarrow> Cache \<Rightarrow> wstring \<Rightarrow> ResolvedPath \<Rightarrow> Cache" where
  "Cache_Put T now c relativePath r =
     (let key = NormalizePath T relativePath;
          c' = c\<lparr>cacheEntries := AList.update key \<lparr>resolved = r, lastAccessTicks = now\<rparr> (cacheEntries c)\<rparr>
      in if length (cacheEntries c') > cacheCapacity c' then EvictLRU c' else c')"

definition Cache_Invalidate :: "'a win32_text_scheme \<Rightarrow> Cache \<Rightarrow> wstring \<Rightarrow> Cache" where
  "Cache_Invalidate T c relativePath =
     (let key = NormalizePath T relativePath in
      c\<lparr>cacheEntries := filter (\<lambda>it. \<not> IsInsideDirectory (fst it) key) (AList.delete key (cacheEntries c))\<rparr>)"

definition InvalidateWithAncestors :: "'a win32_text_scheme \<Rightarrow> Cache \<Rightarrow> wstring \<Rightarrow> Cache" where
  "InvalidateWithAncestors T c relativePath =
     (let key = NormalizePath T relativePath;
          ancestors = parent_chain (parent_path key)
      in c\<lparr>cacheEntries := filter (\<lambda>it. \<not> (fst it = key \<or> IsInsideDirectory (fst it) key \<or> fst it \<in> set ancestors))
                         (cacheEntries c)\<rparr>)"

definition Cache_Clear :: "Cache \<Rightarrow> Cache" where
  "Cache_Clear c = c\<lparr>cacheEntries := []\<rparr>"

definition Cache_Size :: "Cache \<Rightarrow> nat" where
  "Cache_Size c = length (cacheEntries c)"

definition Cache_Hits :: "Cache \<Rightarrow> uint64" where "Cache_Hits c = cacheHits c"
definition Cache_Misses :: "Cache \<Rightarrow> uint64" where "Cache_Misses c = cacheMisses c"

section \<open>Abstraction and invariant\<close>

text \<open>What the cache holds for a key.\<close>

definition cached :: "Cache \<Rightarrow> wstring \<Rightarrow> ResolvedPath option" where
  "cached c key = map_option resolved (map_of (cacheEntries c) key)"

definition cache_inv :: "Cache \<Rightarrow> bool" where
  "cache_inv c \<longleftrightarrow> distinct (map fst (cacheEntries c)) \<and> length (cacheEntries c) \<le> cacheCapacity c"

lemma length_update: "length (AList.update k v xs) \<le> Suc (length xs)"
  by (induction xs) auto

lemma length_update_old: "k \<in> fst ` set xs \<Longrightarrow> length (AList.update k v xs) = length xs"
  by (induction xs) auto

lemma length_delete_old:
  "distinct (map fst xs) \<Longrightarrow> k \<in> fst ` set xs \<Longrightarrow> Suc (length (AList.delete k xs)) = length xs"
proof (induction xs)
  case (Cons x xs)
  show ?case
  proof (cases "fst x = k")
    case True
    then have "AList.delete k (x # xs) = xs"
      using Cons.prems by (auto simp: AList.delete_eq filter_id_conv image_iff)
    then show ?thesis by simp
  next
    case False
    then show ?thesis using Cons by (auto simp: AList.delete_eq)
  qed
qed simp

lemma distinct_two: "distinct (map fst xs) \<Longrightarrow> length xs \<ge> 2 \<Longrightarrow> \<exists>x\<in>set xs. fst x \<noteq> k"
  by (cases xs; cases "tl xs") auto

lemma oldest_entry_in: "oldest_entry e es \<in> insert e (set es)"
  unfolding oldest_entry_def by (induction es arbitrary: e) (auto split: if_splits)

lemma oldest_entry_least:
  "x \<in> insert e (set es) \<Longrightarrow> lastAccessTicks (snd (oldest_entry e es)) \<le> lastAccessTicks (snd x)"
proof (induction es arbitrary: e x)
  case (Cons y es)
  let ?m = "if lastAccessTicks (snd y) < lastAccessTicks (snd e) then y else e"
  have eq: "oldest_entry e (y # es) = oldest_entry ?m es" by (simp add: oldest_entry_def)
  have "lastAccessTicks (snd (oldest_entry ?m es)) \<le> lastAccessTicks (snd ?m)" by (rule Cons.IH) simp
  then show ?case
    using Cons.prems Cons.IH [of x ?m] unfolding eq by (auto split: if_splits)
qed (simp add: oldest_entry_def)

lemma EvictLRU_inv:
  assumes "distinct (map fst (cacheEntries c))" "length (cacheEntries c) \<le> Suc (cacheCapacity c)"
  shows "cache_inv (EvictLRU c)"
proof (cases "cacheEntries c")
  case Nil
  then show ?thesis by (simp add: EvictLRU_def cache_inv_def)
next
  case (Cons e es)
  let ?k = "fst (oldest_entry e (e # es))"
  have "?k \<in> fst ` set (e # es)" using oldest_entry_in [of e "e # es"] by auto
  then have "Suc (length (AList.delete ?k (e # es))) = length (e # es)"
    using assms(1) Cons by (intro length_delete_old) auto
  moreover have "distinct (map fst (AList.delete ?k (e # es)))"
    using assms(1) Cons by (intro AList.distinct_delete) auto
  ultimately show ?thesis using Cons assms(2) by (simp add: EvictLRU_def cache_inv_def)
qed

lemma cacheCapacity_ops [simp]:
  "cacheCapacity (EvictLRU c) = cacheCapacity c"
  "cacheCapacity (Cache_Put T now c k r) = cacheCapacity c"
  "cacheCapacity (fst (Cache_Get T now c k)) = cacheCapacity c"
  "cacheCapacity (Cache_Invalidate T c k) = cacheCapacity c"
  "cacheCapacity (InvalidateWithAncestors T c k) = cacheCapacity c"
  "cacheCapacity (Cache_Clear c) = cacheCapacity c"
  by (auto simp: EvictLRU_def Cache_Put_def Cache_Get_def Cache_Invalidate_def Let_def
      InvalidateWithAncestors_def Cache_Clear_def split: list.splits option.splits)

lemma Cache_Get_inv: "cache_inv c \<Longrightarrow> cache_inv (fst (Cache_Get T now c k))"
proof (cases "map_of (cacheEntries c) (NormalizePath T k)")
  case (Some e)
  assume "cache_inv c"
  moreover have "NormalizePath T k \<in> fst ` set (cacheEntries c)"
    using map_of_SomeD [OF Some] by force
  ultimately show ?thesis
    using Some by (simp add: Cache_Get_def cache_inv_def Let_def AList.distinct_update length_update_old)
qed (simp add: Cache_Get_def cache_inv_def Let_def)

lemma Cache_Put_inv: "cache_inv c \<Longrightarrow> cache_inv (Cache_Put T now c k r)"
proof -
  assume a: "cache_inv c"
  let ?c = "c\<lparr>cacheEntries := AList.update (NormalizePath T k) \<lparr>resolved = r, lastAccessTicks = now\<rparr> (cacheEntries c)\<rparr>"
  have d: "distinct (map fst (cacheEntries ?c))" using a by (simp add: cache_inv_def AList.distinct_update)
  moreover have "length (cacheEntries ?c) \<le> Suc (cacheCapacity ?c)"
    using a length_update [of "NormalizePath T k" "\<lparr>resolved = r, lastAccessTicks = now\<rparr>" "cacheEntries c"]
    by (simp add: cache_inv_def)
  ultimately have "cache_inv (EvictLRU ?c)" by (rule EvictLRU_inv)
  with d show ?thesis by (auto simp: Cache_Put_def Let_def cache_inv_def)
qed

lemma filter_inv: "cache_inv c \<Longrightarrow> cache_inv (c\<lparr>cacheEntries := filter P (cacheEntries c)\<rparr>)"
  by (auto simp: cache_inv_def distinct_map_filter intro: le_trans [OF length_filter_le])

lemma Invalidate_as_filter:
  "Cache_Invalidate T c k =
     c\<lparr>cacheEntries := filter (\<lambda>it. \<not> (fst it = NormalizePath T k \<or> IsInsideDirectory (fst it) (NormalizePath T k)))
        (cacheEntries c)\<rparr>"
proof -
  have "filter (\<lambda>it. \<not> IsInsideDirectory (fst it) n) (AList.delete n xs) =
      filter (\<lambda>it. \<not> (fst it = n \<or> IsInsideDirectory (fst it) n)) xs"
    for n and xs :: "(wstring \<times> CacheEntry) list"
    by (auto simp: AList.delete_eq intro!: filter_cong)
  then show ?thesis by (simp add: Cache_Invalidate_def Let_def)
qed

lemma Invalidate_inv: "cache_inv c \<Longrightarrow> cache_inv (Cache_Invalidate T c k)"
  by (simp only: Invalidate_as_filter filter_inv)

lemma InvalidateWithAncestors_inv: "cache_inv c \<Longrightarrow> cache_inv (InvalidateWithAncestors T c k)"
  by (simp only: InvalidateWithAncestors_def Let_def filter_inv)

lemma cached_filter:
  assumes "cache_inv c"
  shows "cached (c\<lparr>cacheEntries := filter (\<lambda>it. P (fst it)) (cacheEntries c)\<rparr>) k = (if P k then cached c k else None)"
proof -
  have "map_of (filter (\<lambda>it. P (fst it)) xs) k = (if P k then map_of xs k else None)" for xs :: "(wstring \<times> CacheEntry) list"
    by (induction xs) auto
  then show ?thesis by (simp add: cached_def)
qed

lemma cached_InvalidateWithAncestors:
  assumes "cache_inv c"
  shows "cached (InvalidateWithAncestors T c p) k =
    (if k = NormalizePath T p \<or> IsInsideDirectory k (NormalizePath T p) \<or>
        k \<in> set (parent_chain (parent_path (NormalizePath T p)))
     then None else cached c k)"
  using cached_filter [OF assms, of "\<lambda>x. \<not> (x = NormalizePath T p \<or> IsInsideDirectory x (NormalizePath T p) \<or>
      x \<in> set (parent_chain (parent_path (NormalizePath T p))))" k]
  by (simp only: InvalidateWithAncestors_def Let_def) auto

section \<open>The cache interface\<close>

locale path_cache =
  fixes norm :: "'k \<Rightarrow> 'k"
    and lookup :: "'c \<Rightarrow> 'k \<Rightarrow> 'v option"
    and get :: "'c \<Rightarrow> 'k \<Rightarrow> 'c \<times> 'v option"
    and put :: "'c \<Rightarrow> 'k \<Rightarrow> 'v \<Rightarrow> 'c"
    and forget :: "'c \<Rightarrow> 'k \<Rightarrow> 'c"
    and invar :: "'c \<Rightarrow> bool"
  assumes get_result: "invar c \<Longrightarrow> snd (get c k) = lookup c (norm k)"
    and get_lookup: "invar c \<Longrightarrow> lookup (fst (get c k)) = lookup c"
    and put_lookup: "invar c \<Longrightarrow> lookup (put c k v) k' = Some u \<Longrightarrow>
           (k' = norm k \<and> u = v) \<or> lookup c k' = Some u"
    and forget_lookup: "invar c \<Longrightarrow> lookup (forget c k) k' = Some u \<Longrightarrow> lookup c k' = Some u"
    and invar_get: "invar c \<Longrightarrow> invar (fst (get c k))"
    and invar_put: "invar c \<Longrightarrow> invar (put c k v)"
    and invar_forget: "invar c \<Longrightarrow> invar (forget c k)"
begin

text \<open>Every binding of the cache is one that \<open>sem\<close> allows.\<close>

definition agrees :: "('k \<Rightarrow> 'v \<Rightarrow> bool) \<Rightarrow> 'c \<Rightarrow> bool" where
  "agrees sem c \<longleftrightarrow> invar c \<and> (\<forall>k v. lookup c k = Some v \<longrightarrow> sem k v)"

lemma agrees_get: "agrees sem c \<Longrightarrow> agrees sem (fst (get c k))"
  by (simp add: agrees_def get_lookup invar_get)

lemma agrees_hit: "agrees sem c \<Longrightarrow> snd (get c k) = Some v \<Longrightarrow> sem (norm k) v"
  by (auto simp: agrees_def get_result)

lemma agrees_put: "agrees sem c \<Longrightarrow> sem (norm k) v \<Longrightarrow> agrees sem (put c k v)"
  by (auto simp: agrees_def invar_put dest: put_lookup)

lemma agrees_forget: "agrees sem c \<Longrightarrow> agrees sem (forget c k)"
  by (auto simp: agrees_def invar_forget dest: forget_lookup)

end

lemma map_of_delete: "map_of (AList.delete k xs) = (map_of xs)(k := None)"
  by (rule AList.delete_conv')

lemma cached_EvictLRU: "cached (EvictLRU c) k = Some r \<Longrightarrow> cached c k = Some r"
  by (auto simp: EvictLRU_def cached_def map_of_delete split: list.splits if_splits)

lemma cached_update:
  "cached (c\<lparr>cacheEntries := AList.update k \<lparr>resolved = r, lastAccessTicks = now\<rparr> (cacheEntries c)\<rparr>) =
     (cached c)(k \<mapsto> r)"
  by (auto simp: cached_def AList.update_conv' fun_eq_iff)

lemma cached_misses [simp]: "cached (c\<lparr>cacheMisses := m\<rparr>) = cached c"
  by (auto simp: cached_def)

lemma cached_touch:
  "map_of (cacheEntries c) k = Some e \<Longrightarrow>
   cached (c\<lparr>cacheHits := h, cacheEntries := AList.update k (e\<lparr>lastAccessTicks := now\<rparr>) (cacheEntries c)\<rparr>) = cached c"
  by (auto simp: cached_def AList.update_conv' fun_eq_iff)

lemma cached_Put: "cached (Cache_Put T now c k r) k' = Some u \<Longrightarrow> (k' = NormalizePath T k \<and> u = r) \<or> cached c k' = Some u"
  by (auto simp: Cache_Put_def Let_def cached_update split: if_splits dest!: cached_EvictLRU)

interpretation lru: path_cache "NormalizePath T" cached "Cache_Get T now" "Cache_Put T now"
  "InvalidateWithAncestors T" cache_inv for T :: "'a win32_text_scheme" and now
proof (unfold_locales, goal_cases)
  case (1 c k)
  then show ?case by (auto simp: Cache_Get_def cached_def Let_def split: option.split)
next
  case (2 c k)
  then show ?case by (auto simp: Cache_Get_def Let_def cached_touch split: option.split)
next
  case (3 c k v k' u)
  then show ?case by (intro cached_Put) simp
next
  case (4 c k k' u)
  then show ?case
    by (auto simp: cached_InvalidateWithAncestors split: if_splits)
next
  case (5 c k)
  then show ?case by (rule Cache_Get_inv)
next
  case (6 c k v)
  then show ?case by (rule Cache_Put_inv)
next
  case (7 c k)
  then show ?case by (rule InvalidateWithAncestors_inv)
qed

section \<open>Properties\<close>

datatype cache_op =
    OpGet int wstring | OpPut int wstring ResolvedPath | OpInvalidate wstring
  | OpInvalidateWithAncestors wstring | OpClear

fun cache_step :: "'a win32_text_scheme \<Rightarrow> Cache \<Rightarrow> cache_op \<Rightarrow> Cache" where
  "cache_step T c (OpGet now k) = fst (Cache_Get T now c k)"
| "cache_step T c (OpPut now k r) = Cache_Put T now c k r"
| "cache_step T c (OpInvalidate k) = Cache_Invalidate T c k"
| "cache_step T c (OpInvalidateWithAncestors k) = InvalidateWithAncestors T c k"
| "cache_step T c OpClear = Cache_Clear c"

definition cache_run :: "'a win32_text_scheme \<Rightarrow> Cache \<Rightarrow> cache_op list \<Rightarrow> Cache" where
  "cache_run T = foldl (cache_step T)"

lemma cache_step_inv: "cache_inv c \<Longrightarrow> cache_inv (cache_step T c op)"
proof (cases op)
  case OpClear
  then show ?thesis by (simp add: Cache_Clear_def cache_inv_def)
qed (simp_all add: lru.invar_get lru.invar_put lru.invar_forget Invalidate_inv)

lemma cache_run_inv: "cache_inv c \<Longrightarrow> cache_inv (cache_run T c ops)"
  unfolding cache_run_def by (induction ops arbitrary: c) (auto intro: cache_step_inv)

lemma cache_step_capacity: "cacheCapacity (cache_step T c op) = cacheCapacity c"
  by (cases op) auto

lemma cache_run_capacity: "cacheCapacity (cache_run T c ops) = cacheCapacity c"
  unfolding cache_run_def by (induction ops arbitrary: c) (auto simp: cache_step_capacity)

text \<open>
  C30: after any sequence of operations a cache holds at most its configured capacity of entries,
  and at most one entry per key.
\<close>

theorem cache_run_bounded:
  "Cache_Size (cache_run T (new_Cache capacity) ops) \<le> capacity \<and>
   distinct (map fst (cacheEntries (cache_run T (new_Cache capacity) ops)))"
proof -
  have "cache_inv (new_Cache capacity)" by (simp add: cache_inv_def new_Cache_def)
  then have "cache_inv (cache_run T (new_Cache capacity) ops)" by (rule cache_run_inv)
  then show ?thesis by (simp add: cache_inv_def Cache_Size_def cache_run_capacity) (simp add: new_Cache_def)
qed

text \<open>
  \<open>InvalidateWithAncestors\<close> drops exactly the entries of the path, of everything below it and
  of its ancestors, and keeps every other entry: no stale view of a changed name or of its parents
  survives, and no unrelated entry is lost.
\<close>

theorem InvalidateWithAncestors_exact:
  assumes "cache_inv c" "names (ss @ [s])" "NormalizePath T p = join_with bslash (ss @ [s])"
  shows "cached (InvalidateWithAncestors T c p) k =
    (if k = NormalizePath T p \<or> IsInsideDirectory k (NormalizePath T p) \<or>
        k \<in> {join_with bslash (take n ss) | n. 0 < n \<and> n \<le> length ss}
     then None else cached c k)"
proof -
  have n: "names ss" using assms(2) by simp
  have "parent_path (NormalizePath T p) = join_with bslash ss"
    using assms(2,3) by simp
  then have chain: "parent_chain (parent_path (NormalizePath T p)) = rev (walked_paths (join_with bslash ss))"
    using parent_chain_join [OF n] by simp
  have "set (walked_paths (join_with bslash ss)) = {join_with bslash (take n ss) | n. 0 < n \<and> n \<le> length ss}"
  proof -
    have "(\<lambda>i. join_with bslash (take (Suc i) ss)) ` {0..<length ss} =
        (\<lambda>n. join_with bslash (take n ss)) ` (Suc ` {0..<length ss})" by (simp only: image_image)
    also have "Suc ` {0..<length ss} = {n. 0 < n \<and> n \<le> length ss}"
      by (auto simp: image_iff)
    finally show ?thesis unfolding walked_paths_join [OF n] by auto
  qed
  then show ?thesis
    using assms(1) chain by (simp add: cached_InvalidateWithAncestors)
qed

text \<open>The mutated path \<open>d\f\<close> drops itself and its parent \<open>d\<close>, and keeps its sibling.\<close>

definition sample_hit :: ResolvedPath where
  "sample_hit = empty_resolved\<lparr>absolutePath := wlit ''x'', source := Upper\<rparr>"

definition sample_cache :: Cache where
  "sample_cache = cache_run ascii_text (new_Cache 8)
     [OpPut 1 (wlit ''d'') sample_hit, OpPut 2 (wlit ''d/f'') sample_hit, OpPut 3 (wlit ''d/g'') sample_hit]"

theorem InvalidateWithAncestors_exact_witness:
  "cached (InvalidateWithAncestors ascii_text sample_cache (wlit ''D/F'')) (wlit ''d'') = None \<and>
   cached sample_cache (wlit ''d'') = Some sample_hit"
proof -
  have inv: "cache_inv sample_cache"
    unfolding sample_cache_def by (rule cache_run_inv) (simp add: cache_inv_def new_Cache_def)
  have nm: "names ([wlit ''d''] @ [wlit ''f''])" by (simp add: is_name_def is_slash_def)
  have norm: "NormalizePath ascii_text (wlit ''D/F'') = join_with bslash ([wlit ''d''] @ [wlit ''f''])"
    by (simp add: path_text_defs ascii_text_def ascii_lower_def)
  have "wlit ''d'' \<in> {join_with bslash (take n [wlit ''d'']) | n. 0 < n \<and> n \<le> length [wlit ''d'']}"
    by (auto intro!: exI [of _ 1])
  then have "cached (InvalidateWithAncestors ascii_text sample_cache (wlit ''D/F'')) (wlit ''d'') = None"
    using InvalidateWithAncestors_exact [OF inv nm norm, of "wlit ''d''"] by simp
  moreover have "cached sample_cache (wlit ''d'') = Some sample_hit"
    by (simp add: sample_cache_def cache_run_def Cache_Put_def new_Cache_def cached_def
        path_text_defs ascii_text_def ascii_lower_def Let_def)
  ultimately show ?thesis by simp
qed

text \<open>
  \<open>Put\<close> stores its entry, and makes room by dropping the least recently used one. When the clock
  reading is later than every recorded access and the capacity is not zero, the stored path is
  found afterwards, and any key that the call loses had an access time no later than the access
  time of every key that stays.
\<close>

theorem Cache_Put_lru:
  assumes "cache_inv c" "0 < cacheCapacity c"
    and "\<And>k e. map_of (cacheEntries c) k = Some e \<Longrightarrow> lastAccessTicks e < now"
  shows "cached (Cache_Put T now c p r) (NormalizePath T p) = Some r \<and>
    (\<forall>k e k' e'. map_of (cacheEntries c) k = Some e \<and> cached (Cache_Put T now c p r) k = None \<and>
       map_of (cacheEntries c) k' = Some e' \<and> cached (Cache_Put T now c p r) k' \<noteq> None
       \<longrightarrow> lastAccessTicks e \<le> lastAccessTicks e' \<or> k' = NormalizePath T p)"
proof -
  let ?key = "NormalizePath T p" and ?new = "\<lparr>resolved = r, lastAccessTicks = now\<rparr>"
  let ?es = "AList.update ?key ?new (cacheEntries c)"
  have upd: "map_of ?es = (map_of (cacheEntries c))(?key \<mapsto> ?new)" by (rule AList.update_conv')
  have dist: "distinct (map fst ?es)" using assms(1) by (simp add: cache_inv_def AList.distinct_update)
  show ?thesis
  proof (cases "length ?es > cacheCapacity c")
    case False
    then have "cached (Cache_Put T now c p r) = (cached c)(?key \<mapsto> r)"
      by (simp add: Cache_Put_def Let_def cached_update)
    then show ?thesis by (auto simp: cached_def)
  next
    case True
    then obtain e es where es: "?es = e # es" by (cases ?es) auto
    obtain ko eo where old: "oldest_entry e ?es = (ko, eo)" by fastforce
    have in_old: "(ko, eo) \<in> set ?es" using oldest_entry_in [of e ?es] old es by auto
    have least: "lastAccessTicks eo \<le> lastAccessTicks x" if "map_of ?es k = Some x" for k x
      using oldest_entry_least [of "(k, x)" e ?es] old es map_of_SomeD [OF that] by auto
    have put: "cached (Cache_Put T now c p r) k = (if k = ko then None else map_option resolved (map_of ?es k))" for k
      using True es old by (simp add: Cache_Put_def Let_def EvictLRU_def cached_def map_of_delete)
    have "ko \<noteq> ?key"
    proof
      assume "ko = ?key"
      then have "eo = ?new" using map_of_is_SomeI [OF dist in_old] upd by simp
      have "length ?es \<ge> 2" using True assms(2) by linarith
      then obtain kx where "kx \<in> set ?es" "fst kx \<noteq> ?key"
        using distinct_two [OF dist] by blast
      then obtain k x where kx: "(k, x) \<in> set ?es" "k \<noteq> ?key" by (metis prod.collapse)
      then have "map_of (cacheEntries c) k = Some x" using map_of_is_SomeI [OF dist kx(1)] upd by simp
      then have "lastAccessTicks x < now" by (rule assms(3))
      moreover have "lastAccessTicks eo \<le> lastAccessTicks x" using least map_of_is_SomeI [OF dist kx(1)] by blast
      ultimately show False using \<open>eo = ?new\<close> by simp
    qed
    then have hit: "cached (Cache_Put T now c p r) ?key = Some r" using put upd by simp
    have "lastAccessTicks a \<le> lastAccessTicks b \<or> k' = ?key"
      if "map_of (cacheEntries c) k = Some a" "cached (Cache_Put T now c p r) k = None"
         "map_of (cacheEntries c) k' = Some b" for k a k' b
    proof -
      have "k = ko" using that(1,2) put upd by (auto split: if_splits)
      then have "a = eo" using map_of_is_SomeI [OF dist in_old] upd that(1) \<open>ko \<noteq> ?key\<close> by simp
      then show ?thesis using least [of k' b] upd that(3) by auto
    qed
    then show ?thesis using hit by blast
  qed
qed

theorem Cache_Put_lru_witness:
  "cached (Cache_Put ascii_text 9 (sample_cache\<lparr>cacheCapacity := 3\<rparr>) (wlit ''new'') sample_hit) (wlit ''new'')
     = Some sample_hit \<and>
   cached (Cache_Put ascii_text 9 (sample_cache\<lparr>cacheCapacity := 3\<rparr>) (wlit ''new'') sample_hit) (wlit ''d'') = None"
proof -
  let ?c = "sample_cache\<lparr>cacheCapacity := 3\<rparr>"
  have es: "cacheEntries ?c =
      [(wlit ''d'', \<lparr>resolved = sample_hit, lastAccessTicks = 1\<rparr>),
       (wlit ''d'' @ bslash # wlit ''f'', \<lparr>resolved = sample_hit, lastAccessTicks = 2\<rparr>),
       (wlit ''d'' @ bslash # wlit ''g'', \<lparr>resolved = sample_hit, lastAccessTicks = 3\<rparr>)]"
    by (simp add: sample_cache_def cache_run_def Cache_Put_def new_Cache_def
        path_text_defs ascii_text_def ascii_lower_def Let_def)
  have norm: "NormalizePath ascii_text (wlit ''new'') = wlit ''new''"
    by (simp add: path_text_defs ascii_text_def ascii_lower_def)
  have inv: "cache_inv ?c" by (simp only: cache_inv_def es) simp
  have ticks: "map_of (cacheEntries ?c) k = Some e \<Longrightarrow> lastAccessTicks e < 9" for k e
    by (simp only: es) (auto split: if_splits)
  have "cached (Cache_Put ascii_text 9 ?c (wlit ''new'') sample_hit) (wlit ''d'') = None"
    by (simp add: Cache_Put_def Let_def norm EvictLRU_def cached_def oldest_entry_def es
        del: wlit_Cons) (simp add: es)
  then show ?thesis
    using Cache_Put_lru [where T = ascii_text and p = "wlit ''new''" and r = sample_hit, OF inv _ ticks] norm by simp
qed

end
