(* ===== verification/Path_Resolver.thy ===== *)
theory Path_Resolver
  imports Layer_Walk Lru_Cache
begin

text \<open>
  The path resolver of \<^verbatim>\<open>impl/PathResolver.cpp\<close>: where the merged view shows a path, the first lower
  that holds it, and the view path behind relative symbolic links. The resolver's state is the
  cache, which each operation takes and returns; \<open>now\<close> is the clock reading of the call.
\<close>

section \<open>Helpers\<close>

definition IsDirectoryAttr :: "dword \<Rightarrow> bool" where
  "IsDirectoryAttr attrs \<longleftrightarrow> attrs AND FILE_ATTRIBUTE_DIRECTORY \<noteq> 0"

definition ParentDir :: "wstring \<Rightarrow> wstring" where
  "ParentDir normalized = parent_path normalized"

definition LowersBelowParentOf :: "('w, 'h) host \<Rightarrow> 'w \<Rightarrow> LayerConfig \<Rightarrow> wstring \<Rightarrow> wstring \<Rightarrow> LowerVisibility" where
  "LowersBelowParentOf os w cfg layerPath normalized = LowersBelow os w cfg layerPath (ParentDir normalized)"

definition IsResolvablePath :: "('w, 'h) host \<Rightarrow> 'w \<Rightarrow> LayerConfig \<Rightarrow> wstring \<Rightarrow> bool" where
  "IsResolvablePath os w cfg normalized \<longleftrightarrow> IsSafeRelativePath normalized \<and> \<not> IsReservedOverlayPath os w cfg normalized"

definition ResolvableNormalized :: "('w, 'h) host \<Rightarrow> 'w \<Rightarrow> LayerConfig \<Rightarrow> wstring \<Rightarrow> wstring option" where
  "ResolvableNormalized os w cfg relativePath =
     (let normalized = NormalizePath os relativePath in
      if normalized = [] \<or> \<not> IsResolvablePath os w cfg normalized then None else Some normalized)"

definition kMaxRedirectDepth :: nat where "kMaxRedirectDepth = 40"
definition kMaxLinkHops :: nat where "kMaxLinkHops = 40"

section \<open>What the upper hides\<close>

datatype UpperHiding = HidingNone | HidingWhiteout | HidingOpaqueMarker | HidingNonDirectoryOrLink

definition UpperAncestorHiding :: "('w, 'h) host \<Rightarrow> 'w \<Rightarrow> LayerConfig \<Rightarrow> wstring \<Rightarrow> UpperHiding" where
  "UpperAncestorHiding os w cfg normalized =
     (if HasWhitedOutAncestorInLayer os w normalized (upperPath cfg) then HidingWhiteout
      else
        (case LowersBelowParentOf os w cfg (upperPath cfg) normalized of
           HiddenByOpaqueMarker \<Rightarrow> HidingOpaqueMarker
         | HiddenByNonDirectoryOrLink \<Rightarrow> HidingNonDirectoryOrLink
         | LowersVisible \<Rightarrow> HidingNone))"

definition HidingInUpper :: "('w, 'h) host \<Rightarrow> 'w \<Rightarrow> LayerConfig \<Rightarrow> wstring \<Rightarrow> UpperHiding" where
  "HidingInUpper os w cfg normalized =
     (if HasWhiteout os w normalized (upperPath cfg) then HidingWhiteout else UpperAncestorHiding os w cfg normalized)"

section \<open>The lowers\<close>

definition lower_hit :: "('w, 'h) host \<Rightarrow> 'w \<Rightarrow> LayerConfig \<Rightarrow> wstring \<Rightarrow> nat \<Rightarrow> ResolvedPath option" where
  "lower_hit os w cfg normalized i =
     (let fullPath = JoinDirPath (lowerPaths cfg ! i) normalized in
      case GetFileAttributesW os w (WithExtendedPrefix os fullPath) of
        Inl e \<Rightarrow> None
      | Inr attrs \<Rightarrow> Some \<lparr>absolutePath = fullPath, source = Lower, lowerIndex = int i, isWhiteout = False, attributes = attrs\<rparr>)"

function FindInLowers :: "('w, 'h) host \<Rightarrow> 'w \<Rightarrow> LayerConfig \<Rightarrow> wstring \<Rightarrow> nat \<Rightarrow> ResolvedPath" where
  "FindInLowers os w cfg normalized i =
     (if i \<ge> length (lowerPaths cfg) then empty_resolved
      else if HasWhiteout os w normalized (lowerPaths cfg ! i) then empty_resolved
      else if HasWhitedOutAncestorInLayer os w normalized (lowerPaths cfg ! i) then empty_resolved
      else if HasLinkUnderHigherLayerEntry os w cfg i (ParentDir normalized) then empty_resolved
      else
        (case lower_hit os w cfg normalized i of
           Some hit \<Rightarrow> hit
         | None \<Rightarrow>
             if LowersBelowParentOf os w cfg (lowerPaths cfg ! i) normalized \<noteq> LowersVisible then empty_resolved
             else FindInLowers os w cfg normalized (Suc i)))"
  by pat_completeness auto
termination by (relation "measure (\<lambda>(os, w, cfg, p, i). length (lowerPaths cfg) - i)") auto

declare FindInLowers.simps [simp del]

definition ResolveLowerPath :: "('w, 'h) host \<Rightarrow> 'w \<Rightarrow> LayerConfig \<Rightarrow> wstring \<Rightarrow> ResolvedPath" where
  "ResolveLowerPath os w cfg relativePath =
     (case ResolvableNormalized os w cfg relativePath of
        None \<Rightarrow> empty_resolved
      | Some normalized \<Rightarrow>
          if UpperAncestorHiding os w cfg normalized \<noteq> HidingNone then empty_resolved
          else FindInLowers os w cfg normalized 0)"

section \<open>Resolution\<close>

definition ResolveRoot :: "('w, 'h) host \<Rightarrow> 'w \<Rightarrow> LayerConfig \<Rightarrow> ResolvedPath" where
  "ResolveRoot os w cfg =
     \<lparr>absolutePath = upperPath cfg, source = Upper, lowerIndex = -1, isWhiteout = False,
      attributes = attributes_at os w (upperPath cfg)\<rparr>"

text \<open>The hit that \<open>ResolveInUpper\<close> caches.\<close>

definition upper_hit :: "LayerConfig \<Rightarrow> wstring \<Rightarrow> dword \<Rightarrow> ResolvedPath" where
  "upper_hit cfg normalized attrs =
     \<lparr>absolutePath = JoinDirPath (upperPath cfg) normalized, source = Upper, lowerIndex = -1, isWhiteout = False,
      attributes = attrs\<rparr>"

definition whiteout_result :: ResolvedPath where
  "whiteout_result = empty_resolved\<lparr>isWhiteout := True\<rparr>"

text \<open>
  \<open>ResolvePathInternal\<close> gives the cache, the result and what \<^verbatim>\<open>*lowerWalk\<close> receives; \<open>ResolveInUpper\<close>
  gives the cache and the upper's entry.
\<close>

function ResolvePathInternal ::
    "('w, 'h) host \<Rightarrow> 'w \<Rightarrow> LayerConfig \<Rightarrow> int \<Rightarrow> Cache \<Rightarrow> wstring \<Rightarrow> nat \<Rightarrow> Cache \<times> ResolvedPath \<times> ResolvedPath option"
  and ResolveInUpper ::
    "('w, 'h) host \<Rightarrow> 'w \<Rightarrow> LayerConfig \<Rightarrow> int \<Rightarrow> Cache \<Rightarrow> wstring \<Rightarrow> nat \<Rightarrow> Cache \<times> ResolvedPath option" where
  "ResolvePathInternal os w cfg now c relativePath redirectDepth =
     (if redirectDepth > kMaxRedirectDepth then (c, empty_resolved, None)
      else
        let normalized = NormalizePath os relativePath in
        if normalized = [] then (c, ResolveRoot os w cfg, None)
        else if \<not> IsResolvablePath os w cfg normalized then (c, empty_resolved, None)
        else
          (case Cache_Get os now c normalized of
             (c1, Some r) \<Rightarrow> (c1, r, None)
           | (c1, None) \<Rightarrow>
               (case ResolveInUpper os w cfg now c1 normalized redirectDepth of
                  (c2, Some r) \<Rightarrow> (c2, r, None)
                | (c2, None) \<Rightarrow>
                    (case HidingInUpper os w cfg normalized of
                       HidingWhiteout \<Rightarrow> (Cache_Put os now c2 normalized whiteout_result, whiteout_result, None)
                     | HidingNonDirectoryOrLink \<Rightarrow>
                         (Cache_Put os now c2 normalized empty_resolved, empty_resolved, Some empty_resolved)
                     | HidingOpaqueMarker \<Rightarrow>
                         (Cache_Put os now c2 normalized empty_resolved, empty_resolved, Some empty_resolved)
                     | HidingNone \<Rightarrow>
                         let lowerResult = FindInLowers os w cfg normalized 0 in
                         if \<not> Found lowerResult then (c2, empty_resolved, Some lowerResult)
                         else (Cache_Put os now c2 normalized lowerResult, lowerResult, Some lowerResult)))))"
| "ResolveInUpper os w cfg now c normalized redirectDepth =
     (let upperFullPath = JoinDirPath (upperPath cfg) normalized in
      case GetFileAttributesW os w (WithExtendedPrefix os upperFullPath) of
        Inl e \<Rightarrow> (c, None)
      | Inr upperAttrs \<Rightarrow>
          let metadata = ReadLayerMountMetadata os w upperFullPath (Some cfg) in
          if redirect metadata \<noteq> []
          then
            (case ResolvePathInternal os w cfg now c (redirect metadata) (redirectDepth + 1) of
               (c1, r, _) \<Rightarrow> (c1, Some r))
          else
            let result = upper_hit cfg normalized upperAttrs in
            (Cache_Put os now c normalized result, Some result))"
  by pat_completeness auto
termination
  by (relation "measure (\<lambda>x. case x of
        Inl (os, w, cfg, now, c, p, d) \<Rightarrow> 2 * (Suc kMaxRedirectDepth - d)
      | Inr (os, w, cfg, now, c, p, d) \<Rightarrow> 2 * (kMaxRedirectDepth - d) + 1)")
     (auto simp: not_less)

declare ResolvePathInternal.simps [simp del] ResolveInUpper.simps [simp del]

definition ResolvePath ::
  "('w, 'h) host \<Rightarrow> 'w \<Rightarrow> LayerConfig \<Rightarrow> int \<Rightarrow> Cache \<Rightarrow> wstring \<Rightarrow> Cache \<times> ResolvedPath" where
  "ResolvePath os w cfg now c relativePath =
     (case ResolvePathInternal os w cfg now c relativePath 0 of (c1, r, _) \<Rightarrow> (c1, r))"

definition ResolveForCreate ::
  "('w, 'h) host \<Rightarrow> 'w \<Rightarrow> LayerConfig \<Rightarrow> int \<Rightarrow> Cache \<Rightarrow> wstring \<Rightarrow> Cache \<times> CreateResolution" where
  "ResolveForCreate os w cfg now c relativePath =
     (let normalized = NormalizePath os relativePath in
      case ResolvePathInternal os w cfg now c normalized 0 of
        (c1, r, lowerWalk) \<Rightarrow>
          (c1, \<lparr>overlayHit = r,
                whiteoutAtPath = HasWhiteout os w normalized (upperPath cfg),
                lower = (case lowerWalk of Some l \<Rightarrow> l | None \<Rightarrow> ResolveLowerPath os w cfg normalized)\<rparr>))"

section \<open>The first visible layer\<close>

text \<open>
  A search of the layers in priority order: \<open>blocked i\<close> ends it before layer \<open>i\<close>, \<open>closes i\<close> after it,
  and the first layer that holds an entry gives the result. The resolver and the directory merge
  are both such searches.
\<close>

locale layer_search =
  fixes find :: "nat \<Rightarrow> 'e option"
    and count :: nat
    and blocked closes :: "nat \<Rightarrow> bool"
    and entry :: "nat \<Rightarrow> 'e option"
  assumes find_step:
    "find i =
       (if i \<ge> count \<or> blocked i then None
        else (case entry i of Some e \<Rightarrow> Some e | None \<Rightarrow> if closes i then None else find (Suc i)))"
begin

text \<open>The search from \<open>i\<close> reaches layer \<open>j\<close>.\<close>

definition passes :: "nat \<Rightarrow> nat \<Rightarrow> bool" where
  "passes i j \<longleftrightarrow> i \<le> j \<and> (\<forall>k. i \<le> k \<longrightarrow> k < j \<longrightarrow> \<not> blocked k \<and> entry k = None \<and> \<not> closes k)"

lemma passes_Suc: "passes i j \<longleftrightarrow> i = j \<or> \<not> blocked i \<and> entry i = None \<and> \<not> closes i \<and> passes (Suc i) j"
proof -
  have "(\<forall>k. i \<le> k \<longrightarrow> k < j \<longrightarrow> P k) \<longleftrightarrow> P i \<and> (\<forall>k. Suc i \<le> k \<longrightarrow> k < j \<longrightarrow> P k)" if "i < j" for P
    using that by (metis Suc_leD Suc_leI le_neq_implies_less order_refl)
  then show ?thesis unfolding passes_def by (cases "i < j") auto
qed

theorem find_iff: "find i = Some e \<longleftrightarrow> (\<exists>j<count. passes i j \<and> \<not> blocked j \<and> entry j = Some e)"
proof (induction "count - i" arbitrary: i)
  case 0
  then show ?case using find_step [of i] by (auto simp: passes_def)
next
  case (Suc n)
  have IH: "find (Suc i) = Some e \<longleftrightarrow> (\<exists>j<count. passes (Suc i) j \<and> \<not> blocked j \<and> entry j = Some e)"
    using Suc by simp
  have "passes i i" by (simp add: passes_def)
  have i: "i < count" using Suc by simp
  show ?case
  proof (cases "blocked i")
    case True
    then show ?thesis using find_step [of i] passes_Suc [of i] by auto
  next
    case False
    show ?thesis
    proof (cases "entry i")
      case None
      then show ?thesis using find_step [of i] False i IH passes_Suc [of i] by auto
    next
      case (Some x)
      then have "passes i j \<longleftrightarrow> j = i" for j using passes_Suc [of i j] by auto
      then show ?thesis using find_step [of i] False i Some by auto
    qed
  qed
qed

text \<open>A blocked or closing layer hides everything the layers below it hold.\<close>

lemma hidden_below:
  assumes "find i = Some e" "i \<le> k" "blocked k \<or> closes k"
  shows "\<exists>j\<le>k. entry j = Some e"
proof -
  obtain j where j: "passes i j" "entry j = Some e" using assms(1) unfolding find_iff by blast
  then have "\<not> k < j" using assms(2,3) unfolding passes_def by blast
  then show ?thesis using j(2) not_less by blast
qed

end

abbreviation found_of :: "ResolvedPath \<Rightarrow> ResolvedPath option" where
  "found_of r \<equiv> if Found r then Some r else None"

definition lower_blocked :: "('w, 'h) host \<Rightarrow> 'w \<Rightarrow> LayerConfig \<Rightarrow> wstring \<Rightarrow> nat \<Rightarrow> bool" where
  "lower_blocked os w cfg p i \<longleftrightarrow>
     HasWhiteout os w p (lowerPaths cfg ! i) \<or> HasWhitedOutAncestorInLayer os w p (lowerPaths cfg ! i) \<or>
     HasLinkUnderHigherLayerEntry os w cfg i (ParentDir p)"

definition lower_closes :: "('w, 'h) host \<Rightarrow> 'w \<Rightarrow> LayerConfig \<Rightarrow> wstring \<Rightarrow> nat \<Rightarrow> bool" where
  "lower_closes os w cfg p i \<longleftrightarrow> LowersBelowParentOf os w cfg (lowerPaths cfg ! i) p \<noteq> LowersVisible"

lemma lower_hit_found: "lower_hit os w cfg p i = Some r \<Longrightarrow> Found r \<and> source r = Lower \<and> lowerIndex r = int i"
  by (auto simp: lower_hit_def Found_def JoinDirPath_def DirWithSeparator_def Let_def split: sum.splits if_splits)

interpretation lowers: layer_search "\<lambda>i. found_of (FindInLowers os w cfg p i)" "length (lowerPaths cfg)"
  "lower_blocked os w cfg p" "lower_closes os w cfg p" "lower_hit os w cfg p"
  for os :: "('w, 'h) host" and w cfg p
proof (unfold_locales, goal_cases)
  case (1 i)
  show ?case
  proof (cases "i \<ge> length (lowerPaths cfg) \<or> lower_blocked os w cfg p i")
    case True
    then have "FindInLowers os w cfg p i = empty_resolved"
      by (auto simp: FindInLowers.simps [of os w cfg p i] lower_blocked_def)
    then show ?thesis using True by simp
  next
    case False
    then have *: "FindInLowers os w cfg p i =
        (case lower_hit os w cfg p i of Some hit \<Rightarrow> hit
         | None \<Rightarrow> if lower_closes os w cfg p i then empty_resolved else FindInLowers os w cfg p (Suc i))"
      by (simp add: FindInLowers.simps [of os w cfg p i] lower_blocked_def lower_closes_def)
    show ?thesis using False by (cases "lower_hit os w cfg p i") (simp_all add: * lower_hit_found)
  qed
qed

lemma FindInLowers_index:
  assumes "Found (FindInLowers os w cfg p i)"
  shows "i \<le> nat (lowerIndex (FindInLowers os w cfg p i)) \<and> nat (lowerIndex (FindInLowers os w cfg p i)) < length (lowerPaths cfg)"
proof -
  have "found_of (FindInLowers os w cfg p i) = Some (FindInLowers os w cfg p i)" using assms by simp
  then obtain j where "j < length (lowerPaths cfg)" "i \<le> j" "lower_hit os w cfg p j = Some (FindInLowers os w cfg p i)"
    unfolding lowers.find_iff lowers.passes_def by blast
  then show ?thesis using lower_hit_found by fastforce
qed

section \<open>Diagnostics of a type conflict\<close>

text \<open>
  The loop of \<open>LogTypeConflictInDeeperLowers\<close> from the visible lower \<open>i\<close>: the lower whose entry it
  logs as the conflict, if any. The caller's result does not depend on it.
\<close>

function type_conflict_below :: "('w, 'h) host \<Rightarrow> 'w \<Rightarrow> LayerConfig \<Rightarrow> wstring \<Rightarrow> bool \<Rightarrow> nat \<Rightarrow> nat option" where
  "type_conflict_below os w cfg normalized hitIsDir i =
     (if LowersBelow os w cfg (lowerPaths cfg ! i) (ParentDir normalized) \<noteq> LowersVisible then None
      else
        let visible = FindInLowers os w cfg normalized (Suc i) in
        if \<not> Found visible then None
        else if hitIsDir \<noteq> IsDirectoryAttr (attributes visible) then Some (nat (lowerIndex visible))
        else type_conflict_below os w cfg normalized hitIsDir (nat (lowerIndex visible)))"
  by pat_completeness auto
termination
proof (relation "measure (\<lambda>(os, w, cfg, p, d, i). length (lowerPaths cfg) - i)", simp, goal_cases)
  case (1 os w cfg p d i x)
  then show ?case using FindInLowers_index [of os w cfg p "Suc i"] by auto
qed

declare type_conflict_below.simps [simp del]

definition LogTypeConflictInDeeperLowers :: "('w, 'h) host \<Rightarrow> 'w \<Rightarrow> LayerConfig \<Rightarrow> wstring \<Rightarrow> ResolvedPath \<Rightarrow> nat option" where
  "LogTypeConflictInDeeperLowers os w cfg normalized hit =
     type_conflict_below os w cfg normalized (IsDirectoryAttr (attributes hit)) (nat (lowerIndex hit))"

section \<open>Upper paths\<close>

definition GetUpperPath :: "('w, 'h) host \<Rightarrow> LayerConfig \<Rightarrow> wstring \<Rightarrow> wstring" where
  "GetUpperPath os cfg relativePath =
     (let normalized = NormalizePath os relativePath in
      if normalized = [] then upperPath cfg else JoinDirPath (upperPath cfg) normalized)"

definition UpperAttributes :: "('w, 'h) host \<Rightarrow> 'w \<Rightarrow> LayerConfig \<Rightarrow> wstring \<Rightarrow> dword" where
  "UpperAttributes os w cfg relativePath = attributes_at os w (GetUpperPath os cfg relativePath)"

definition ExistsInUpper :: "('w, 'h) host \<Rightarrow> 'w \<Rightarrow> LayerConfig \<Rightarrow> wstring \<Rightarrow> bool" where
  "ExistsInUpper os w cfg relativePath \<longleftrightarrow> UpperAttributes os w cfg relativePath \<noteq> INVALID_FILE_ATTRIBUTES"

text \<open>A caller path is its text.\<close>

definition GetUpperPathForNewEntry :: "LayerConfig \<Rightarrow> wstring \<Rightarrow> wstring" where
  "GetUpperPathForNewEntry cfg path = BuildUpperPathPreserveCase (upperPath cfg) path"

definition GetUpperPathForCopyUp :: "('w, 'h) host \<Rightarrow> 'w \<Rightarrow> LayerConfig \<Rightarrow> wstring \<Rightarrow> ResolvedPath \<Rightarrow> wstring" where
  "GetUpperPathForCopyUp os w cfg relativePath lowerSource =
     WithStoredLeafName os w (GetUpperPath os cfg relativePath) (absolutePath lowerSource)"

definition GetStoredUpperPath :: "('w, 'h) host \<Rightarrow> 'w \<Rightarrow> LayerConfig \<Rightarrow> wstring \<Rightarrow> wstring" where
  "GetStoredUpperPath os w cfg relativePath =
     (let path = BuildUpperPathPreserveCase (upperPath cfg) relativePath in WithStoredLeafName os w path path)"

definition GetUpperPathForRenameSource :: "('w, 'h) host \<Rightarrow> 'w \<Rightarrow> LayerConfig \<Rightarrow> wstring \<Rightarrow> wstring" where
  "GetUpperPathForRenameSource os w cfg relativePath =
     (let normalized = NormalizePath os relativePath in
      if ExistsInUpper os w cfg normalized then GetStoredUpperPath os w cfg relativePath
      else GetUpperPathForCopyUp os w cfg normalized (ResolveLowerPath os w cfg normalized))"

definition HasTypeConflict :: "('w, 'h) host \<Rightarrow> 'w \<Rightarrow> LayerConfig \<Rightarrow> wstring \<Rightarrow> bool" where
  "HasTypeConflict os w cfg relativePath =
     (let normalized = NormalizePath os relativePath;
          probe = (\<lambda>root. GetFileAttributesW os w (JoinDirPath (ForWin32 os root) normalized));
          foundAttrs = concat (map (\<lambda>root. case probe root of Inl e \<Rightarrow> [] | Inr a \<Rightarrow> [a]) (upperPath cfg # lowerPaths cfg)) in
      if length foundAttrs < 2 then False
      else list_ex (\<lambda>a. IsDirectoryAttr a \<noteq> IsDirectoryAttr (hd foundAttrs)) (tl foundAttrs))"

section \<open>View paths through links\<close>

record ViewPath =
  viewText :: wstring
  viewNormalized :: wstring

text \<open>
  The walk of \<open>ViewPathThroughLinks\<close>: the cache, and the components where it stops, or \<open>None\<close> after
  more than \<open>kMaxLinkHops\<close> links.
\<close>

function view_walk ::
  "('w, 'h) host \<Rightarrow> 'w \<Rightarrow> LayerConfig \<Rightarrow> int \<Rightarrow> FinalLink \<Rightarrow> Cache \<Rightarrow> wstring list \<Rightarrow> nat \<Rightarrow> nat \<Rightarrow> Cache \<times> wstring list option" where
  "view_walk os w cfg now finalLink c components walked hops =
     (if walked \<ge> length components then (c, Some components)
      else if walked + 1 = length components \<and> finalLink = Keep then (c, Some components)
      else
        (case ResolvePath os w cfg now c (JoinComponents components (walked + 1)) of
           (c1, shown) \<Rightarrow>
             if \<not> Found shown then (c1, Some components)
             else
               let (link, target) =
                 (if attributes shown AND FILE_ATTRIBUTE_REPARSE_POINT \<noteq> 0 then ReadReparseLink os w (absolutePath shown)
                  else (ReparseNone, [])) in
               if link = OtherLink then (c1, Some components)
               else if link = RelativeSymlink then
                 (if hops + 1 > kMaxLinkHops then (c1, None)
                  else view_walk os w cfg now finalLink c1 (SpliceLinkTarget components walked target) 0 (hops + 1))
               else if \<not> IsDirectoryAttr (attributes shown) then (c1, Some components)
               else view_walk os w cfg now finalLink c1 components (walked + 1) hops))"
  by pat_completeness auto
termination
  by (relation "measures [\<lambda>(os, w, cfg, now, f, c, cs, walked, hops). Suc kMaxLinkHops - hops,
        \<lambda>(os, w, cfg, now, f, c, cs, walked, hops). length cs - walked]") auto

declare view_walk.simps [simp del]

definition ViewPathThroughLinks ::
  "('w, 'h) host \<Rightarrow> 'w \<Rightarrow> LayerConfig \<Rightarrow> int \<Rightarrow> Cache \<Rightarrow> wstring \<Rightarrow> FinalLink \<Rightarrow> Cache \<times> ntstatus \<times> ViewPath" where
  "ViewPathThroughLinks os w cfg now c path finalLink =
     (let callerPath = NormalizePathPreserveCase path;
          colon = wfind callerPath wcolon 0;
          streamSuffix = (case colon of None \<Rightarrow> [] | Some i \<Rightarrow> drop i callerPath);
          components = SplitComponents (case colon of None \<Rightarrow> callerPath | Some i \<Rightarrow> take i callerPath) in
      if [wdot, wdot] \<in> set components
      then (c, STATUS_SUCCESS, \<lparr>viewText = callerPath, viewNormalized = NormalizePath os callerPath\<rparr>)
      else
        (case view_walk os w cfg now finalLink c (filter (\<lambda>s. s \<noteq> [wdot]) components) 0 0 of
           (c1, None) \<Rightarrow> (c1, STATUS_REPARSE_POINT_NOT_RESOLVED, \<lparr>viewText = [], viewNormalized = []\<rparr>)
         | (c1, Some walkedComponents) \<Rightarrow>
             let viewPath = JoinComponents walkedComponents (length walkedComponents) @ streamSuffix in
             (c1, STATUS_SUCCESS, \<lparr>viewText = viewPath, viewNormalized = NormalizePath os viewPath\<rparr>)))"

section \<open>The view without a cache\<close>

text \<open>
  What the layers alone say of a normalized path: the result that the resolver may cache for it.
  A path whose upper entry holds a redirect has none, and neither has a path that no layer holds.
\<close>

definition leaf_result :: "('w, 'h) host \<Rightarrow> 'w \<Rightarrow> LayerConfig \<Rightarrow> wstring \<Rightarrow> ResolvedPath option" where
  "leaf_result os w cfg k =
     (case GetFileAttributesW os w (WithExtendedPrefix os (JoinDirPath (upperPath cfg) k)) of
        Inr a \<Rightarrow>
          if redirect (ReadLayerMountMetadata os w (JoinDirPath (upperPath cfg) k) (Some cfg)) = []
          then Some (upper_hit cfg k a) else None
      | Inl e \<Rightarrow>
          (case HidingInUpper os w cfg k of
             HidingWhiteout \<Rightarrow> Some whiteout_result
           | HidingOpaqueMarker \<Rightarrow> Some empty_resolved
           | HidingNonDirectoryOrLink \<Rightarrow> Some empty_resolved
           | HidingNone \<Rightarrow> found_of (FindInLowers os w cfg k 0)))"

text \<open>The redirect that the upper entry at a normalized path holds.\<close>

definition upper_redirect :: "('w, 'h) host \<Rightarrow> 'w \<Rightarrow> LayerConfig \<Rightarrow> wstring \<Rightarrow> wstring option" where
  "upper_redirect os w cfg k =
     (case GetFileAttributesW os w (WithExtendedPrefix os (JoinDirPath (upperPath cfg) k)) of
        Inl e \<Rightarrow> None
      | Inr a \<Rightarrow>
          let r = redirect (ReadLayerMountMetadata os w (JoinDirPath (upperPath cfg) k) (Some cfg)) in
          if r = [] then None else Some r)"

text \<open>The view of a path after at most \<open>n - 1\<close> redirects.\<close>

fun resolve_view :: "('w, 'h) host \<Rightarrow> 'w \<Rightarrow> LayerConfig \<Rightarrow> nat \<Rightarrow> wstring \<Rightarrow> ResolvedPath" where
  "resolve_view os w cfg 0 p = empty_resolved"
| "resolve_view os w cfg (Suc n) p =
     (let k = NormalizePath os p in
      if k = [] then ResolveRoot os w cfg
      else if \<not> IsResolvablePath os w cfg k then empty_resolved
      else
        (case upper_redirect os w cfg k of
           Some r \<Rightarrow> resolve_view os w cfg n r
         | None \<Rightarrow> (case leaf_result os w cfg k of Some r \<Rightarrow> r | None \<Rightarrow> empty_resolved)))"

definition coherent :: "('w, 'h) host \<Rightarrow> 'w \<Rightarrow> LayerConfig \<Rightarrow> Cache \<Rightarrow> bool" where
  "coherent os w cfg c \<longleftrightarrow> cache_inv c \<and> (\<forall>k r. cached c k = Some r \<longrightarrow> leaf_result os w cfg k = Some r)"

lemma coherent_agrees: "coherent os w cfg c \<longleftrightarrow> lru.agrees (\<lambda>k r. leaf_result os w cfg k = Some r) c"
  by (simp add: coherent_def lru.agrees_def)

lemma coherent_new: "coherent os w cfg (new_Cache n)"
  by (simp add: coherent_def new_Cache_def cache_inv_def cached_def)

lemma coherent_get:
  assumes "coherent os w cfg c" "Cache_Get os now c k = (c1, x)"
  shows "coherent os w cfg c1" "x = Some r \<Longrightarrow> leaf_result os w cfg (NormalizePath os k) = Some r"
  using lru.agrees_get [OF assms(1) [unfolded coherent_agrees], of os now k]
    lru.agrees_hit [OF assms(1) [unfolded coherent_agrees], of os now k r] assms(2)
  by (simp_all add: coherent_agrees)

lemma coherent_put:
  "coherent os w cfg c \<Longrightarrow> leaf_result os w cfg (NormalizePath os k) = Some r \<Longrightarrow> coherent os w cfg (Cache_Put os now c k r)"
  unfolding coherent_agrees by (rule lru.agrees_put)

text \<open>A cached result is never one that a redirect stands before.\<close>

lemma leaf_no_redirect: "leaf_result os w cfg k = Some r \<Longrightarrow> upper_redirect os w cfg k = None"
  by (auto simp: leaf_result_def upper_redirect_def Let_def split: sum.splits if_splits)

lemma leaf_in_view:
  assumes "NormalizePath os p = k" "k \<noteq> []" "IsResolvablePath os w cfg k" "leaf_result os w cfg k = Some r"
  shows "resolve_view os w cfg (Suc n) p = r"
  using assms leaf_no_redirect [OF assms(4)] by simp

text \<open>The part of \<open>ResolvePathInternal\<close> after the cache and the upper missed.\<close>

definition below_upper ::
  "('w, 'h) host \<Rightarrow> 'w \<Rightarrow> LayerConfig \<Rightarrow> int \<Rightarrow> Cache \<Rightarrow> wstring \<Rightarrow> Cache \<times> ResolvedPath \<times> ResolvedPath option" where
  "below_upper os w cfg now c k =
     (case HidingInUpper os w cfg k of
        HidingWhiteout \<Rightarrow> (Cache_Put os now c k whiteout_result, whiteout_result, None)
      | HidingNonDirectoryOrLink \<Rightarrow> (Cache_Put os now c k empty_resolved, empty_resolved, Some empty_resolved)
      | HidingOpaqueMarker \<Rightarrow> (Cache_Put os now c k empty_resolved, empty_resolved, Some empty_resolved)
      | HidingNone \<Rightarrow>
          let lowerResult = FindInLowers os w cfg k 0 in
          if \<not> Found lowerResult then (c, empty_resolved, Some lowerResult)
          else (Cache_Put os now c k lowerResult, lowerResult, Some lowerResult))"

lemma ResolvePathInternal_miss:
  assumes "\<not> d > kMaxRedirectDepth" "NormalizePath os p = k" "k \<noteq> []" "IsResolvablePath os w cfg k"
    and "Cache_Get os now c k = (c1, None)"
  shows "ResolvePathInternal os w cfg now c p d =
    (case ResolveInUpper os w cfg now c1 k d of
       (c2, Some r) \<Rightarrow> (c2, r, None)
     | (c2, None) \<Rightarrow> below_upper os w cfg now c2 k)"
  using assms by (simp add: ResolvePathInternal.simps [of os w cfg now c p d] below_upper_def Let_def cong: option.case_cong)

lemma ResolveInUpper_cases:
  "GetFileAttributesW os w (WithExtendedPrefix os (JoinDirPath (upperPath cfg) k)) = Inl e \<Longrightarrow>
     ResolveInUpper os w cfg now c k d = (c, None)"
  "GetFileAttributesW os w (WithExtendedPrefix os (JoinDirPath (upperPath cfg) k)) = Inr a \<Longrightarrow>
     upper_redirect os w cfg k = None \<Longrightarrow>
     ResolveInUpper os w cfg now c k d = (Cache_Put os now c k (upper_hit cfg k a), Some (upper_hit cfg k a))"
  "upper_redirect os w cfg k = Some t \<Longrightarrow>
     ResolveInUpper os w cfg now c k d =
       (case ResolvePathInternal os w cfg now c t (Suc d) of (c1, r, _) \<Rightarrow> (c1, Some r))"
  by (auto simp: ResolveInUpper.simps upper_redirect_def Let_def split: sum.splits if_splits)

lemma below_upper_view:
  assumes "coherent os w cfg c" "NormalizePath os k = k" "below_upper os w cfg now c k = (c', r, lw)"
    and "GetFileAttributesW os w (WithExtendedPrefix os (JoinDirPath (upperPath cfg) k)) = Inl e"
  shows "coherent os w cfg c' \<and> r = (case leaf_result os w cfg k of Some r \<Rightarrow> r | None \<Rightarrow> empty_resolved)"
  using assms(3) coherent_put [OF assms(1), of k] assms(1,2,4)
  by (auto simp: below_upper_def leaf_result_def Let_def split: UpperHiding.splits if_splits)

lemma resolve_miss_view:
  assumes "coherent os w cfg c1" "NormalizePath os k = k"
    and "\<And>c t c' r lw. coherent os w cfg c \<Longrightarrow> ResolvePathInternal os w cfg now c t (Suc d) = (c', r, lw) \<Longrightarrow>
      r = resolve_view os w cfg n t \<and> coherent os w cfg c'"
    and "(case ResolveInUpper os w cfg now c1 k d of
       (c2, Some r) \<Rightarrow> (c2, r, None)
     | (c2, None) \<Rightarrow> below_upper os w cfg now c2 k) = (c', r, lw)"
  shows "coherent os w cfg c' \<and>
    r = (case upper_redirect os w cfg k of
           Some t \<Rightarrow> resolve_view os w cfg n t
         | None \<Rightarrow> (case leaf_result os w cfg k of Some r \<Rightarrow> r | None \<Rightarrow> empty_resolved))"
proof (cases "upper_redirect os w cfg k")
  case (Some t)
  obtain c2 r2 lw2 where rec: "ResolvePathInternal os w cfg now c1 t (Suc d) = (c2, r2, lw2)"
    by (cases "ResolvePathInternal os w cfg now c1 t (Suc d)")
  then show ?thesis using assms(3) [OF assms(1) rec] assms(4) Some by (simp add: ResolveInUpper_cases(3))
next
  case None
  show ?thesis
  proof (cases "GetFileAttributesW os w (WithExtendedPrefix os (JoinDirPath (upperPath cfg) k))")
    case (Inl e)
    then have "below_upper os w cfg now c1 k = (c', r, lw)" using assms(4) by (simp add: ResolveInUpper_cases(1))
    then show ?thesis using below_upper_view [OF assms(1,2) _ Inl] None by simp
  next
    case (Inr a)
    have leaf: "leaf_result os w cfg k = Some (upper_hit cfg k a)"
      using Inr None by (auto simp: leaf_result_def upper_redirect_def Let_def split: if_splits)
    have "c' = Cache_Put os now c1 k (upper_hit cfg k a) \<and> r = upper_hit cfg k a"
      using assms(4) ResolveInUpper_cases(2) [OF Inr None, of now c1 d] by auto
    then show ?thesis using coherent_put [OF assms(1), of k] leaf assms(2) None by simp
  qed
qed

lemma ResolvePathInternal_view:
  assumes "lower_table_ok os" "coherent os w cfg c"
    and "ResolvePathInternal os w cfg now c p d = (c', r, lw)"
  shows "r = resolve_view os w cfg (Suc kMaxRedirectDepth - d) p \<and> coherent os w cfg c'"
  using assms(2,3)
proof (induction "Suc kMaxRedirectDepth - d" arbitrary: d c p c' r lw)
  case 0
  then have "d > kMaxRedirectDepth" by simp
  then show ?case using 0 by (simp add: ResolvePathInternal.simps [of os w cfg now c p d])
next
  case (Suc n)
  then have d: "\<not> d > kMaxRedirectDepth" "Suc kMaxRedirectDepth - d = Suc n" "n = Suc kMaxRedirectDepth - Suc d" by auto
  let ?k = "NormalizePath os p"
  have kk: "NormalizePath os ?k = ?k" by (rule NormalizePath_fixed [OF assms(1)])
  show ?case
  proof (cases "?k = [] \<or> \<not> IsResolvablePath os w cfg ?k")
    case True
    then show ?thesis using Suc.prems d
      by (auto simp: ResolvePathInternal.simps [of os w cfg now c p d] Let_def)
  next
    case False
    then have k: "?k \<noteq> []" "IsResolvablePath os w cfg ?k" by auto
    obtain c1 x where g: "Cache_Get os now c ?k = (c1, x)" by fastforce
    have c1: "coherent os w cfg c1" by (rule coherent_get(1) [OF Suc.prems(1) g])
    show ?thesis
    proof (cases x)
      case (Some y)
      then have "leaf_result os w cfg ?k = Some y" using coherent_get(2) [OF Suc.prems(1) g] kk by simp
      then have "resolve_view os w cfg (Suc n) p = y" using leaf_in_view [OF refl k] by blast
      then show ?thesis using Suc.prems d k g Some c1
        by (simp add: ResolvePathInternal.simps [of os w cfg now c p d] Let_def)
    next
      case None
      have "(case ResolveInUpper os w cfg now c1 ?k d of
         (c2, Some r) \<Rightarrow> (c2, r, None) | (c2, None) \<Rightarrow> below_upper os w cfg now c2 ?k) = (c', r, lw)"
        using Suc.prems(2) ResolvePathInternal_miss [OF d(1) refl k g [unfolded None]] by simp
      moreover have "r' = resolve_view os w cfg n t \<and> coherent os w cfg c''"
        if "coherent os w cfg b" "ResolvePathInternal os w cfg now b t (Suc d) = (c'', r', lw')" for b t c'' r' lw'
        using Suc.hyps(1) [OF d(3) that] d(3) by simp
      ultimately have "coherent os w cfg c' \<and>
          r = (case upper_redirect os w cfg ?k of Some t \<Rightarrow> resolve_view os w cfg n t
               | None \<Rightarrow> (case leaf_result os w cfg ?k of Some r \<Rightarrow> r | None \<Rightarrow> empty_resolved))"
        by (intro resolve_miss_view [OF c1 kk])
      then show ?thesis using k d(2) by (simp add: Let_def)
    qed
  qed
qed

section \<open>Properties\<close>

text \<open>Lookups one after the other, each with its clock reading.\<close>

fun resolve_all ::
  "('w, 'h) host \<Rightarrow> 'w \<Rightarrow> LayerConfig \<Rightarrow> Cache \<Rightarrow> (int \<times> wstring) list \<Rightarrow> ResolvedPath list" where
  "resolve_all os w cfg c [] = []"
| "resolve_all os w cfg c ((now, p) # ps) =
     (case ResolvePath os w cfg now c p of (c1, r) \<Rightarrow> r # resolve_all os w cfg c1 ps)"

lemma ResolvePath_view:
  assumes "lower_table_ok os" "coherent os w cfg c" "ResolvePath os w cfg now c p = (c1, r)"
  shows "r = resolve_view os w cfg (Suc kMaxRedirectDepth) p \<and> coherent os w cfg c1"
  using assms(3) ResolvePathInternal_view [OF assms(1,2), of now p 0]
  by (auto simp: ResolvePath_def split: prod.splits)

lemma resolve_all_view:
  "lower_table_ok os \<Longrightarrow> coherent os w cfg c \<Longrightarrow>
   resolve_all os w cfg c ps = map (\<lambda>(now, p). resolve_view os w cfg (Suc kMaxRedirectDepth) p) ps"
  by (induction ps arbitrary: c) (auto split: prod.splits dest!: ResolvePath_view)

text \<open>
  C3: The path cache is transparent. From an empty cache of any capacity, every lookup of a
  sequence of lookups gives what the layers alone say of the path, in particular the result of a
  lookup never depends on which paths were looked up before, on evictions or on the clock.
\<close>

theorem ResolvePath_cache_transparent:
  assumes "lower_table_ok os"
  shows "resolve_all os w cfg (new_Cache n) ps =
    map (\<lambda>(now, p). resolve_view os w cfg (Suc kMaxRedirectDepth) p) ps"
  by (rule resolve_all_view [OF assms coherent_new])

lemma mem_host_lower_table: "lower_table_ok mem_host"
  using ascii_lower_table_ok by (simp add: lower_table_ok_def ascii_text_def mem_host_def)

theorem ResolvePath_cache_transparent_witness:
  "resolve_all mem_host sample_disk sample_config (new_Cache 1) [(1, wlit ''c''), (2, wlit ''a''), (3, wlit ''/C'')] =
     map (resolve_view mem_host sample_disk sample_config 41) [wlit ''c'', wlit ''a'', wlit ''/C'']"
  unfolding ResolvePath_cache_transparent [OF mem_host_lower_table] by (simp add: kMaxRedirectDepth_def)

text \<open>
  C18: The first visible lower wins. \<open>FindInLowers\<close> gives the entry of the lower \<open>j\<close> exactly when \<open>j\<close>
  holds the path, no whiteout of \<open>j\<close> or shadowed link of \<open>j\<close> blocks it, and every lower before \<open>j\<close> from
  the start index neither blocks, nor holds the path, nor hides the lowers below it.
\<close>

theorem FindInLowers_first_visible:
  "Found (FindInLowers os w cfg p i) \<and> FindInLowers os w cfg p i = r \<longleftrightarrow>
     (\<exists>j<length (lowerPaths cfg). i \<le> j \<and> lower_hit os w cfg p j = Some r \<and> \<not> lower_blocked os w cfg p j \<and>
        (\<forall>k. i \<le> k \<and> k < j \<longrightarrow>
           \<not> lower_blocked os w cfg p k \<and> lower_hit os w cfg p k = None \<and>
           LowersBelowParentOf os w cfg (lowerPaths cfg ! k) p = LowersVisible))"
proof -
  have "Found (FindInLowers os w cfg p i) \<and> FindInLowers os w cfg p i = r \<longleftrightarrow> found_of (FindInLowers os w cfg p i) = Some r"
    by auto
  then show ?thesis unfolding lowers.find_iff lowers.passes_def lower_closes_def by blast
qed

theorem FindInLowers_first_visible_witness:
  "Found (FindInLowers mem_host sample_disk sample_config (wlit ''c'') 0) \<and>
   absolutePath (FindInLowers mem_host sample_disk sample_config (wlit ''c'') 0) = JoinDirPath sample_lower (wlit ''c'')"
proof -
  obtain r where r: "lower_hit mem_host sample_disk sample_config (wlit ''c'') 0 = Some r"
    "absolutePath r = JoinDirPath sample_lower (wlit ''c'')"
  proof
    show "lower_hit mem_host sample_disk sample_config (wlit ''c'') 0 =
      Some \<lparr>absolutePath = JoinDirPath sample_lower (wlit ''c''), source = Lower, lowerIndex = 0, isWhiteout = False,
            attributes = FILE_ATTRIBUTE_NORMAL\<rparr>" by code_simp
  qed simp
  have "\<not> lower_blocked mem_host sample_disk sample_config (wlit ''c'') 0" by code_simp
  then show ?thesis
    using FindInLowers_first_visible [of mem_host sample_disk sample_config "wlit ''c''" 0 r] r
    by (auto simp: sample_config_def)
qed

lemma ResolvePath_by_layer:
  assumes "lower_table_ok os" "coherent os w cfg c"
    and "NormalizePath os p = k" "k \<noteq> []" "IsResolvablePath os w cfg k" "upper_redirect os w cfg k = None"
  shows "snd (ResolvePath os w cfg now c p) =
    (case GetFileAttributesW os w (WithExtendedPrefix os (JoinDirPath (upperPath cfg) k)) of
       Inr a \<Rightarrow> upper_hit cfg k a
     | Inl e \<Rightarrow>
         if HasWhiteout os w k (upperPath cfg) \<or> HasWhitedOutAncestorInLayer os w k (upperPath cfg) then whiteout_result
         else if LowersBelow os w cfg (upperPath cfg) (parent_path k) \<noteq> LowersVisible then empty_resolved
         else if Found (FindInLowers os w cfg k 0) then FindInLowers os w cfg k 0 else empty_resolved)"
proof -
  obtain c1 r where r: "ResolvePath os w cfg now c p = (c1, r)" by fastforce
  have "r = (case leaf_result os w cfg k of Some r \<Rightarrow> r | None \<Rightarrow> empty_resolved)"
    using ResolvePath_view [OF assms(1,2) r] assms(3-6) by (simp add: Let_def)
  moreover have "redirect (ReadLayerMountMetadata os w (JoinDirPath (upperPath cfg) k) (Some cfg)) = []"
    if "GetFileAttributesW os w (WithExtendedPrefix os (JoinDirPath (upperPath cfg) k)) = Inr a" for a
    using assms(6) that by (auto simp: upper_redirect_def Let_def split: if_splits)
  ultimately show ?thesis
    by (auto simp: r leaf_result_def HidingInUpper_def UpperAncestorHiding_def LowersBelowParentOf_def ParentDir_def
        split: sum.splits LowerVisibility.splits)
qed

text \<open>
  C2: Layer precedence. For a safe path that is not reserved and whose upper entry holds no
  redirect, a lookup with a coherent cache gives the upper's own entry when the upper has one,
  whatever the markers say; otherwise a whiteout of the path or of an ancestor in the upper gives
  the whiteout result; otherwise an opaque, non-directory or link ancestor in the upper gives
  nothing; and only then the first visible lower decides.
\<close>

theorem ResolvePath_precedence:
  assumes "lower_table_ok os" "coherent os w cfg c"
    and "NormalizePath os p = k" "k \<noteq> []" "IsResolvablePath os w cfg k" "upper_redirect os w cfg k = None"
  shows "snd (ResolvePath os w cfg now c p) =
    (case GetFileAttributesW os w (WithExtendedPrefix os (JoinDirPath (upperPath cfg) k)) of
       Inr a \<Rightarrow> upper_hit cfg k a
     | Inl e \<Rightarrow>
         if HasWhiteout os w k (upperPath cfg) \<or> HasWhitedOutAncestorInLayer os w k (upperPath cfg) then whiteout_result
         else if LowersBelow os w cfg (upperPath cfg) (parent_path k) \<noteq> LowersVisible then empty_resolved
         else if Found (FindInLowers os w cfg k 0) then FindInLowers os w cfg k 0 else empty_resolved)"
  by (rule ResolvePath_by_layer [OF assms])

theorem ResolvePath_precedence_witness:
  "snd (ResolvePath mem_host sample_disk sample_config 5 (new_Cache 4) (wlit ''B'')) = whiteout_result"
proof -
  have "snd (ResolvePath mem_host sample_disk sample_config 5 (new_Cache 4) (wlit ''B'')) =
    (case GetFileAttributesW mem_host sample_disk (WithExtendedPrefix mem_host (JoinDirPath (upperPath sample_config) (wlit ''b''))) of
       Inr a \<Rightarrow> upper_hit sample_config (wlit ''b'') a
     | Inl e \<Rightarrow>
         if HasWhiteout mem_host sample_disk (wlit ''b'') (upperPath sample_config) \<or>
            HasWhitedOutAncestorInLayer mem_host sample_disk (wlit ''b'') (upperPath sample_config) then whiteout_result
         else if LowersBelow mem_host sample_disk sample_config (upperPath sample_config) (parent_path (wlit ''b'')) \<noteq> LowersVisible
         then empty_resolved
         else if Found (FindInLowers mem_host sample_disk sample_config (wlit ''b'') 0)
         then FindInLowers mem_host sample_disk sample_config (wlit ''b'') 0 else empty_resolved)"
  proof (rule ResolvePath_precedence [OF mem_host_lower_table coherent_new])
    show "NormalizePath mem_host (wlit ''B'') = wlit ''b''" by code_simp
    show "IsResolvablePath mem_host sample_disk sample_config (wlit ''b'')" by code_simp
    show "upper_redirect mem_host sample_disk sample_config (wlit ''b'') = None" by code_simp
  qed simp
  moreover have "GetFileAttributesW mem_host sample_disk (WithExtendedPrefix mem_host (JoinDirPath (upperPath sample_config) (wlit ''b'')))
      = Inl ERROR_FILE_NOT_FOUND" by code_simp
  moreover have "HasWhiteout mem_host sample_disk (wlit ''b'') (upperPath sample_config)" by code_simp
  ultimately show ?thesis by simp
qed

lemma learned_lower_walk:
  assumes "lower_table_ok os" "ResolvePathInternal os w cfg now c p d = (c', r, Some l)"
  shows "l = ResolveLowerPath os w cfg p"
proof -
  let ?k = "NormalizePath os p"
  have d: "\<not> d > kMaxRedirectDepth" and k: "?k \<noteq> []" "IsResolvablePath os w cfg ?k"
    using assms(2) by (auto simp: ResolvePathInternal.simps [of os w cfg now c p d] Let_def split: if_splits)
  obtain c1 where g: "Cache_Get os now c ?k = (c1, None)"
    using assms(2) d k
    by (cases "Cache_Get os now c ?k"; cases "snd (Cache_Get os now c ?k)")
       (auto simp: ResolvePathInternal.simps [of os w cfg now c p d] Let_def)
  obtain c2 where "ResolveInUpper os w cfg now c1 ?k d = (c2, None)" "below_upper os w cfg now c2 ?k = (c', r, Some l)"
    using assms(2) ResolvePathInternal_miss [OF d refl k g] by (auto split: prod.splits option.splits)
  then have "UpperAncestorHiding os w cfg ?k \<noteq> HidingNone \<and> l = empty_resolved \<or>
      UpperAncestorHiding os w cfg ?k = HidingNone \<and> l = FindInLowers os w cfg ?k 0"
    by (auto simp: below_upper_def HidingInUpper_def Let_def split: UpperHiding.splits if_splits)
  then show ?thesis using k by (auto simp: ResolveLowerPath_def ResolvableNormalized_def Let_def)
qed

lemma ResolveLowerPath_norm:
  "lower_table_ok os \<Longrightarrow> ResolveLowerPath os w cfg (NormalizePath os p) = ResolveLowerPath os w cfg p"
  by (simp add: ResolveLowerPath_def ResolvableNormalized_def NormalizePath_fixed Let_def)

text \<open>
  A create learns the lower entry for free. The lower entry that \<open>ResolveForCreate\<close> reports, taken
  from the walk its own resolution happened to do when there was one, is always the result of
  \<open>ResolveLowerPath\<close>, whatever the cache holds; the hit is that of \<open>ResolvePath\<close> and the whiteout flag
  that of the upper.
\<close>

theorem ResolveForCreate_exact:
  assumes "lower_table_ok os"
  shows "lower (snd (ResolveForCreate os w cfg now c p)) = ResolveLowerPath os w cfg p \<and>
    overlayHit (snd (ResolveForCreate os w cfg now c p)) = snd (ResolvePath os w cfg now c (NormalizePath os p)) \<and>
    whiteoutAtPath (snd (ResolveForCreate os w cfg now c p)) = HasWhiteout os w (NormalizePath os p) (upperPath cfg)"
proof -
  obtain c1 r lw where r: "ResolvePathInternal os w cfg now c (NormalizePath os p) 0 = (c1, r, lw)"
    by (cases "ResolvePathInternal os w cfg now c (NormalizePath os p) 0")
  have "l = ResolveLowerPath os w cfg p" if "lw = Some l" for l
    using learned_lower_walk [OF assms r [unfolded that]] ResolveLowerPath_norm [OF assms] by simp
  then show ?thesis
    using ResolveLowerPath_norm [OF assms]
    by (cases lw) (simp_all add: ResolveForCreate_def ResolvePath_def r Let_def)
qed

theorem ResolveForCreate_exact_witness:
  "lower (snd (ResolveForCreate mem_host sample_disk sample_config 3 (new_Cache 4) (wlit ''A''))) =
     ResolveLowerPath mem_host sample_disk sample_config (wlit ''A'')"
  using ResolveForCreate_exact [OF mem_host_lower_table] by blast

text \<open>
  C19: A redirect cycle is harmless. When every path of a set redirects into the set, a lookup of any
  of them ends and finds nothing, after at most \<open>kMaxRedirectDepth\<close> redirects.
\<close>

theorem redirect_cycle_not_found:
  assumes "lower_table_ok os" "coherent os w cfg c" "NormalizePath os p \<in> S"
    and "\<forall>k\<in>S. k \<noteq> [] \<and> IsResolvablePath os w cfg k \<and> (\<exists>t. upper_redirect os w cfg k = Some t \<and> NormalizePath os t \<in> S)"
  shows "snd (ResolvePath os w cfg now c p) = empty_resolved"
proof -
  have cyc: "resolve_view os w cfg n q = empty_resolved" if "NormalizePath os q \<in> S" for n q
    using that
  proof (induction n arbitrary: q)
    case (Suc n)
    then obtain t where "upper_redirect os w cfg (NormalizePath os q) = Some t" "NormalizePath os t \<in> S"
      "NormalizePath os q \<noteq> []" "IsResolvablePath os w cfg (NormalizePath os q)" using assms(4) by blast
    then show ?case using Suc.IH by simp
  qed simp
  obtain c1 r where r: "ResolvePath os w cfg now c p = (c1, r)" by fastforce
  have "r = resolve_view os w cfg (Suc kMaxRedirectDepth) p" using ResolvePath_view [OF assms(1,2) r] by blast
  then have "r = empty_resolved" using cyc [OF assms(3)] by (rule trans)
  then show ?thesis using r by simp
qed

text \<open>An upper entry whose record redirects to itself.\<close>

definition cycle_disk :: mem_disk where
  "cycle_disk = [(on_disk (JoinDirPath sample_upper (wlit ''a'')), mem_dir),
     (on_disk (JoinDirPath sample_upper (wlit ''a'')) @ kLayerMountADSStream, mem_file (dump_json (MetadataToJson mem_host sample_metadata)))]"

theorem redirect_cycle_not_found_witness:
  "snd (ResolvePath mem_host cycle_disk sample_config 3 (new_Cache 4) (wlit ''a'')) = empty_resolved"
proof (rule redirect_cycle_not_found [OF mem_host_lower_table coherent_new, where S = "{wlit ''a''}"])
  have norm: "NormalizePath mem_host (wlit ''a'') = wlit ''a''" by code_simp
  then show "NormalizePath mem_host (wlit ''a'') \<in> {wlit ''a''}" by simp
  let ?a = "JoinDirPath (upperPath sample_config) (wlit ''a'')"
  let ?s = "ExtendedStreamPath mem_host ?a kLayerMountADSStream"
  have attr: "GetFileAttributesW mem_host cycle_disk (WithExtendedPrefix mem_host ?a) = Inr FILE_ATTRIBUTE_DIRECTORY" by code_simp
  have opened: "OpenAdsForReadWithAccessTimeKeptWhereAllowed mem_host cycle_disk ?s = Inr (mem_key ?s)" by code_simp
  have "map_of cycle_disk (mem_key ?s) = Some (mem_file (dump_json (MetadataToJson mem_host sample_metadata)))" by code_simp
  then have "handle_holds mem_host cycle_disk (mem_key ?s) (json_dump mem_host (MetadataToJson mem_host sample_metadata))"
    unfolding mem_handle_holds by (simp add: mem_file_def mem_host_def)
  then have "ReadAdsOnly mem_host cycle_disk ?a = (sample_metadata, False)"
    unfolding ReadAdsOnly_def opened sum.case by (rule ReadOpenRecord_stored [OF _ mem_host_keeps])
  then have "ReadLayerMountMetadata mem_host cycle_disk ?a (Some sample_config) = sample_metadata"
    by (simp add: ReadLayerMountMetadata_def IsDefaultMetadata_def sample_metadata_def)
  then have "upper_redirect mem_host cycle_disk sample_config (wlit ''a'') = Some (wlit ''a'')"
    using attr by (simp add: upper_redirect_def sample_metadata_def)
  moreover have "IsResolvablePath mem_host cycle_disk sample_config (wlit ''a'')" by code_simp
  ultimately show "\<forall>k\<in>{wlit ''a''}. k \<noteq> [] \<and> IsResolvablePath mem_host cycle_disk sample_config k \<and>
      (\<exists>t. upper_redirect mem_host cycle_disk sample_config k = Some t \<and> NormalizePath mem_host t \<in> {wlit ''a''})"
    using norm by simp
qed

section \<open>View paths\<close>

lemma SpliceLinkTarget_view:
  assumes "list_all view_component cs" "wcolon \<notin> set t"
  shows "list_all view_component (SpliceLinkTarget cs i t)"
proof -
  have "list_all view_component (take i cs)" "list_all view_component (drop (i + 1) cs)"
    using assms(1) by (auto simp: list_all_iff dest: in_set_takeD in_set_dropD)
  then show ?thesis using ResolveRelativeTarget_view [OF _ assms(2)] by (simp add: SpliceLinkTarget_def)
qed

lemma view_walk_view:
  assumes "list_all view_component cs" "view_walk os w cfg now f c cs walked hops = (c', Some cs')"
  shows "list_all view_component cs'"
  using assms
proof (induction os w cfg now f c cs walked hops arbitrary: c' cs' rule: view_walk.induct)
  case (1 os w cfg now f c cs walked hops)
  obtain c1 shown where sh: "ResolvePath os w cfg now c (JoinComponents cs (walked + 1)) = (c1, shown)" by fastforce
  obtain link t where lt: "(if attributes shown AND FILE_ATTRIBUTE_REPARSE_POINT \<noteq> 0 then ReadReparseLink os w (absolutePath shown)
      else (ReparseNone, [])) = (link, t)" by fastforce
  have nc: "wcolon \<notin> set t" if "link = RelativeSymlink"
    using lt that by (auto split: if_splits dest: ReadReparseLink_no_colon)
  note u = "1.prems"(2) [unfolded view_walk.simps [of os w cfg now f c cs walked hops] sh prod.case Let_def lt]
  show ?case
  proof (cases "walked \<ge> length cs \<or> walked + 1 = length cs \<and> f = Keep \<or> \<not> Found shown \<or> link = OtherLink")
    case True
    then have "cs' = cs" using u by (auto split: if_splits)
    then show ?thesis using "1.prems"(1) by simp
  next
    case False
    then have g: "\<not> walked \<ge> length cs" "\<not> (walked + 1 = length cs \<and> f = Keep)" "Found shown" "link \<noteq> OtherLink" by auto
    show ?thesis
    proof (cases "link = RelativeSymlink")
      case True
      then have "\<not> hops + 1 > kMaxLinkHops"
        and "view_walk os w cfg now f c1 (SpliceLinkTarget cs walked t) 0 (hops + 1) = (c', Some cs')"
        using u g by (auto split: if_splits)
      then show ?thesis
        using "1.IH"(1) [OF g(1,2) sh [symmetric] _ refl lt [symmetric]] g True
          SpliceLinkTarget_view [OF "1.prems"(1) nc [OF True]] by auto
    next
      case False
      then consider "cs' = cs" | "view_walk os w cfg now f c1 cs (walked + 1) hops = (c', Some cs')" "IsDirectoryAttr (attributes shown)"
        using u g by (auto split: if_splits)
      then show ?thesis
      proof cases
        case 2
        then show ?thesis
          using "1.IH"(2) [OF g(1,2) sh [symmetric] _ refl lt [symmetric]] g False "1.prems"(1) by auto
      qed (use "1.prems"(1) in simp)
    qed
  qed
qed

text \<open>
  What the view shows at a path: a relative link, or an entry at which the walk along a path ends,
  because nothing is found there, or the host follows the link itself, or it is no directory.
\<close>

definition shows_link :: "('w, 'h) host \<Rightarrow> 'w \<Rightarrow> ResolvedPath \<Rightarrow> ReparseLink" where
  "shows_link os w r =
     (if Found r \<and> attributes r AND FILE_ATTRIBUTE_REPARSE_POINT \<noteq> 0 then fst (ReadReparseLink os w (absolutePath r))
      else ReparseNone)"

definition walk_ends_at :: "('w, 'h) host \<Rightarrow> 'w \<Rightarrow> ResolvedPath \<Rightarrow> bool" where
  "walk_ends_at os w r \<longleftrightarrow> \<not> Found r \<or> shows_link os w r = OtherLink \<or> \<not> IsDirectoryAttr (attributes r)"

definition links_followed :: "('w, 'h) host \<Rightarrow> 'w \<Rightarrow> LayerConfig \<Rightarrow> FinalLink \<Rightarrow> wstring list \<Rightarrow> bool" where
  "links_followed os w cfg f cs \<longleftrightarrow>
     (\<forall>i \<le> length cs. 0 < i \<longrightarrow>
        (\<forall>j<i. 0 < j \<longrightarrow> \<not> walk_ends_at os w (resolve_view os w cfg (Suc kMaxRedirectDepth) (JoinComponents cs j))) \<longrightarrow>
        i = length cs \<and> f = Keep \<or>
        shows_link os w (resolve_view os w cfg (Suc kMaxRedirectDepth) (JoinComponents cs i)) \<noteq> RelativeSymlink)"

lemma links_followed_walked:
  assumes "\<forall>i \<le> n. 0 < i \<longrightarrow> shows_link os w (resolve_view os w cfg (Suc kMaxRedirectDepth) (JoinComponents cs i)) \<noteq> RelativeSymlink"
    and "n \<ge> length cs \<or> n + 1 = length cs \<and> f = Keep \<or>
      0 < n \<and> walk_ends_at os w (resolve_view os w cfg (Suc kMaxRedirectDepth) (JoinComponents cs n))"
  shows "links_followed os w cfg f cs"
  unfolding links_followed_def
proof (intro allI impI)
  fix i
  assume i: "i \<le> length cs" "0 < i"
    and on: "\<forall>j<i. 0 < j \<longrightarrow> \<not> walk_ends_at os w (resolve_view os w cfg (Suc kMaxRedirectDepth) (JoinComponents cs j))"
  show "i = length cs \<and> f = Keep \<or>
      shows_link os w (resolve_view os w cfg (Suc kMaxRedirectDepth) (JoinComponents cs i)) \<noteq> RelativeSymlink"
  proof (cases "i \<le> n")
    case False
    then have "n < i" by simp
    then have "\<not> (0 < n \<and> walk_ends_at os w (resolve_view os w cfg (Suc kMaxRedirectDepth) (JoinComponents cs n)))"
      using on by blast
    then show ?thesis using assms(2) i False by auto
  qed (use assms(1) i in blast)
qed

lemma view_walk_coherent:
  assumes "lower_table_ok os" "coherent os w cfg c" "view_walk os w cfg now f c cs walked hops = (c', x)"
  shows "coherent os w cfg c'"
  using assms
proof (induction os w cfg now f c cs walked hops arbitrary: c' x rule: view_walk.induct)
  case (1 os w cfg now f c cs walked hops)
  obtain c1 shown where sh: "ResolvePath os w cfg now c (JoinComponents cs (walked + 1)) = (c1, shown)" by fastforce
  obtain link t where lt: "(if attributes shown AND FILE_ATTRIBUTE_REPARSE_POINT \<noteq> 0 then ReadReparseLink os w (absolutePath shown)
      else (ReparseNone, [])) = (link, t)" by fastforce
  have c1: "coherent os w cfg c1" using ResolvePath_view [OF "1.prems"(1,2) sh] by blast
  note u = "1.prems"(3) [unfolded view_walk.simps [of os w cfg now f c cs walked hops] sh prod.case Let_def lt]
  show ?case
    using u c1 "1.prems"(1,2)
      "1.IH"(1) [OF _ _ sh [symmetric] _ refl lt [symmetric] _ _ _ "1.prems"(1) c1]
      "1.IH"(2) [OF _ _ sh [symmetric] _ refl lt [symmetric] _ _ _ "1.prems"(1) c1]
    by (auto split: if_splits)
qed

lemma view_walk_follows:
  assumes "lower_table_ok os" "coherent os w cfg c" "view_walk os w cfg now f c cs walked hops = (c', Some cs')"
    and "\<forall>i \<le> walked. 0 < i \<longrightarrow>
      shows_link os w (resolve_view os w cfg (Suc kMaxRedirectDepth) (JoinComponents cs i)) \<noteq> RelativeSymlink"
  shows "links_followed os w cfg f cs'"
  using assms
proof (induction os w cfg now f c cs walked hops arbitrary: c' cs' rule: view_walk.induct)
  case (1 os w cfg now f c cs walked hops)
  obtain c1 shown where sh: "ResolvePath os w cfg now c (JoinComponents cs (walked + 1)) = (c1, shown)" by fastforce
  obtain link t where lt: "(if attributes shown AND FILE_ATTRIBUTE_REPARSE_POINT \<noteq> 0 then ReadReparseLink os w (absolutePath shown)
      else (ReparseNone, [])) = (link, t)" by fastforce
  have v: "shown = resolve_view os w cfg (Suc kMaxRedirectDepth) (JoinComponents cs (walked + 1))" and c1: "coherent os w cfg c1"
    using ResolvePath_view [OF "1.prems"(1,2) sh] by blast+
  have link: "link = shows_link os w shown" if "Found shown"
    using lt that by (auto simp: shows_link_def split: if_splits)
  have next_ok: "\<forall>i \<le> walked + 1. 0 < i \<longrightarrow>
      shows_link os w (resolve_view os w cfg (Suc kMaxRedirectDepth) (JoinComponents cs i)) \<noteq> RelativeSymlink"
    if "shows_link os w shown \<noteq> RelativeSymlink"
    using "1.prems"(4) that v by (auto simp: le_Suc_eq simp del: resolve_view.simps)
  note u = "1.prems"(3) [unfolded view_walk.simps [of os w cfg now f c cs walked hops] sh prod.case Let_def lt]
  consider (finished) "cs' = cs" "walked \<ge> length cs \<or> walked + 1 = length cs \<and> f = Keep"
    | (stop) "cs' = cs" "\<not> Found shown \<or> link = OtherLink \<or> link \<noteq> RelativeSymlink \<and> \<not> IsDirectoryAttr (attributes shown)"
    | (follow) "view_walk os w cfg now f c1 (SpliceLinkTarget cs walked t) 0 (hops + 1) = (c', Some cs')"
        "\<not> length cs \<le> walked" "\<not> (walked + 1 = length cs \<and> f = Keep)" "Found shown" "link = RelativeSymlink" "\<not> kMaxLinkHops < hops + 1"
    | (down) "view_walk os w cfg now f c1 cs (walked + 1) hops = (c', Some cs')"
        "\<not> length cs \<le> walked" "\<not> (walked + 1 = length cs \<and> f = Keep)" "Found shown" "link \<noteq> OtherLink" "link \<noteq> RelativeSymlink"
        "IsDirectoryAttr (attributes shown)"
    using u by (auto split: if_splits)
  then show ?case
  proof cases
    case finished
    show ?thesis using links_followed_walked [OF "1.prems"(4)] finished by blast
  next
    case stop
    then have "shows_link os w shown \<noteq> RelativeSymlink" "walk_ends_at os w shown"
      using link by (auto simp: walk_ends_at_def shows_link_def)
    then show ?thesis using links_followed_walked [OF next_ok] stop(1) unfolding v by simp
  next
    case follow
    show ?thesis
      using "1.IH"(1) [OF follow(2,3) sh [symmetric] _ refl lt [symmetric] _ follow(5,6) "1.prems"(1) c1 follow(1)] follow by simp
  next
    case down
    show ?thesis
      using "1.IH"(2) [OF down(2,3) sh [symmetric] _ refl lt [symmetric] _ down(6) _ "1.prems"(1) c1 down(1) next_ok] down link by simp
  qed
qed

text \<open>
  Following links ends inside the view. For a path with no \<open>..\<close> component and no colon, so no stream
  suffix, a walk that does not refuse with \<open>STATUS_REPARSE_POINT_NOT_RESOLVED\<close> returns
  a list of ordinary names, none of them empty, dotted or holding a colon or separator; and walking
  those names down the view meets no relative link any more (save the last name when the caller
  keeps it), up to the first entry that is missing, no directory, or a link the host follows.
  The normalised form it returns is that of the text.
\<close>

lemma ViewPathThroughLinks_follows:
  assumes "lower_table_ok os" "coherent os w cfg c" "wcolon \<notin> set (NormalizePathPreserveCase p)"
    and "[wdot, wdot] \<notin> set (SplitComponents (NormalizePathPreserveCase p))"
    and "ViewPathThroughLinks os w cfg now c p f = (c', st, v)"
  shows "coherent os w cfg c' \<and>
    (st = STATUS_REPARSE_POINT_NOT_RESOLVED \<or>
     st = STATUS_SUCCESS \<and> viewNormalized v = NormalizePath os (viewText v) \<and>
     (\<exists>cs. viewText v = JoinComponents cs (length cs) \<and> list_all view_component cs \<and> links_followed os w cfg f cs))"
proof -
  let ?cs = "filter (\<lambda>s. s \<noteq> [wdot]) (SplitComponents (NormalizePathPreserveCase p))"
  obtain c1 o1 where vw: "view_walk os w cfg now f c ?cs 0 0 = (c1, o1)" by fastforce
  have "fslash \<notin> set (NormalizePathPreserveCase p)"
    using NormalizePathPreserveCase_normal [of p] by (simp add: normal_form_def)
  then have "list_all view_component ?cs"
    using names_SplitComponents [OF assms(3)] assms(4) by (auto simp: list_all_iff view_component_def)
  then have "list_all view_component cs \<and> links_followed os w cfg f cs" if "o1 = Some cs" for cs
    using view_walk_view [OF _ vw [unfolded that]] view_walk_follows [OF assms(1,2) vw [unfolded that]] by simp
  moreover have "coherent os w cfg c1" using view_walk_coherent [OF assms(1,2) vw] .
  ultimately show ?thesis
    using assms(3-5) vw by (auto simp: ViewPathThroughLinks_def Let_def wfind_None_iff [THEN iffD2] split: option.splits)
qed

end
