(* ===== verification/Upper_Entries.thy ===== *)
theory Upper_Entries
  imports Layer_Walk
begin

text \<open>
  How the engine moves and removes upper entries: the sidecar records that follow the entries of a
  tree (\<^verbatim>\<open>impl/MetadataStore.cpp\<close>), the moves with their undo, the removals and the delete of a staged
  tree (\<^verbatim>\<open>impl/LayerPath.cpp\<close>). A walk over a directory tree takes a depth \<open>n\<close>: it gives \<open>None\<close> only when
  the tree is deeper, and the last section shows that a depth past the longest path is always
  enough. A directory is read at the state of the disk when its enumeration starts.
\<close>

section \<open>Walks over a tree (MetadataStore.cpp)\<close>

text \<open>
  The walks carry a state \<open>'s\<close> that holds the disk; \<open>disk_of\<close> reads it. A visit gives its status and the
  new state.
\<close>

type_synonym 's visit = "wstring \<Rightarrow> 's \<Rightarrow> ntstatus \<times> 's"

definition keepFirstListingError :: "ntstatus \<Rightarrow> ntstatus \<Rightarrow> ntstatus" where
  "keepFirstListingError listingError status = (if NT_SUCCESS listingError then status else listingError)"

text \<open>The loop over one enumeration; \<open>enter\<close> walks a directory below.\<close>

fun visit_found ::
  "'s visit \<Rightarrow> (wstring \<Rightarrow> ntstatus \<Rightarrow> 's \<Rightarrow> (ntstatus \<times> ntstatus \<times> 's) option) \<Rightarrow> wstring \<Rightarrow> find_data list \<Rightarrow>
   ntstatus \<Rightarrow> 's \<Rightarrow> (ntstatus \<times> ntstatus \<times> 's) option" where
  "visit_found visit enter dirPath [] listingError s = Some (STATUS_SUCCESS, listingError, s)"
| "visit_found visit enter dirPath (fd # fds) listingError s =
     (if cFileName fd = [wdot] \<or> cFileName fd = [wdot, wdot] then visit_found visit enter dirPath fds listingError s
      else
        let childPath = JoinDirPath dirPath (cFileName fd); (status, s1) = visit childPath s in
        if \<not> NT_SUCCESS status then Some (status, listingError, s1)
        else
          let isLink = dwFileAttributes fd AND FILE_ATTRIBUTE_REPARSE_POINT \<noteq> 0 \<and> IsReparseTagNameSurrogate (dwReserved0 fd) in
          if dwFileAttributes fd AND FILE_ATTRIBUTE_DIRECTORY \<noteq> 0 \<and> \<not> isLink
          then
            (case enter childPath listingError s1 of
               None \<Rightarrow> None
             | Some (status2, listingError2, s2) \<Rightarrow>
                 if \<not> NT_SUCCESS status2 then Some (status2, listingError2, s2)
                 else visit_found visit enter dirPath fds listingError2 s2)
          else visit_found visit enter dirPath fds listingError s1)"

fun VisitEntriesBelow ::
  "('w, 'h) host \<Rightarrow> ('s \<Rightarrow> 'w) \<Rightarrow> 's visit \<Rightarrow> nat \<Rightarrow> wstring \<Rightarrow> ntstatus \<Rightarrow> 's \<Rightarrow> (ntstatus \<times> ntstatus \<times> 's) option" where
  "VisitEntriesBelow os disk_of visit 0 dirPath listingError s = None"
| "VisitEntriesBelow os disk_of visit (Suc n) dirPath listingError s =
     (case FindFiles os (disk_of s) (WithExtendedPrefix os (JoinDirPath dirPath (wlit ''*''))) of
        Inl e \<Rightarrow>
          Some (STATUS_SUCCESS, keepFirstListingError listingError (StatusOfFailedCall (CloudFileStatus os) e ERROR_READ_FAULT), s)
      | Inr (found, endError) \<Rightarrow>
          (case visit_found visit (VisitEntriesBelow os disk_of visit n) dirPath found listingError s of
             None \<Rightarrow> None
           | Some (status, listingError1, s1) \<Rightarrow>
               Some (status,
                 if NT_SUCCESS status \<and> endError \<noteq> ERROR_NO_MORE_FILES
                 then keepFirstListingError listingError1 (StatusOfFailedCall (CloudFileStatus os) endError ERROR_READ_FAULT)
                 else listingError1,
                 s1)))"

definition ForEachEntryBelow ::
  "('w, 'h) host \<Rightarrow> ('s \<Rightarrow> 'w) \<Rightarrow> nat \<Rightarrow> wstring \<Rightarrow> 's visit \<Rightarrow> 's \<Rightarrow> (ntstatus \<times> 's) option" where
  "ForEachEntryBelow os disk_of n dirPath visit s =
     map_option (\<lambda>(visitStatus, listingError, s1). (if NT_SUCCESS visitStatus then listingError else visitStatus, s1))
       (VisitEntriesBelow os disk_of visit n dirPath STATUS_SUCCESS s)"

definition IsDirectoryButNotLink :: "('w, 'h) host \<Rightarrow> 'w \<Rightarrow> wstring \<Rightarrow> bool" where
  "IsDirectoryButNotLink os w path =
     (case GetFileAttributesW os w (WithExtendedPrefix os path) of
        Inl e \<Rightarrow> False
      | Inr attrs \<Rightarrow>
          if attrs AND FILE_ATTRIBUTE_DIRECTORY = 0 then False
          else let (status, isLink) = IsDirectoryLink os w path attrs in NT_SUCCESS status \<and> \<not> isLink)"

definition ForEachMovedEntry ::
  "('w, 'h) host \<Rightarrow> ('s \<Rightarrow> 'w) \<Rightarrow> nat \<Rightarrow> wstring \<Rightarrow> wstring \<Rightarrow> (wstring \<Rightarrow> wstring \<Rightarrow> 's \<Rightarrow> ntstatus \<times> 's) \<Rightarrow> 's \<Rightarrow> (ntstatus \<times> 's) option" where
  "ForEachMovedEntry os disk_of n src dst visit s =
     (let (status, s1) = visit src dst s in
      if \<not> NT_SUCCESS status \<or> \<not> IsDirectoryButNotLink os (disk_of s1) dst then Some (status, s1)
      else ForEachEntryBelow os disk_of n dst (\<lambda>movedPath. visit (src @ drop (length dst) movedPath) movedPath) s1)"

section \<open>Sidecar records of moved and removed entries\<close>

definition RemoveRecordsOfReplacedEntry :: "('w, 'h) host \<Rightarrow> 'w \<Rightarrow> wstring \<Rightarrow> wstring \<Rightarrow> wstring \<Rightarrow> 'w" where
  "RemoveRecordsOfReplacedEntry os w root fromPath toPath =
     (let w1 = (if Sidecar_HasRecord os w root fromPath then fst (Sidecar_Remove os w root toPath) else w) in
      fst (Sidecar_RemoveOpaque os w1 root toPath))"

text \<open>The records moved so far are in the order of the moves.\<close>

definition MoveSidecarRecords ::
  "('w, 'h) host \<Rightarrow> nat \<Rightarrow> 'w \<Rightarrow> LayerConfig \<Rightarrow> wstring \<Rightarrow> wstring \<Rightarrow> (ntstatus \<times> 'w \<times> (wstring \<times> wstring) list) option" where
  "MoveSidecarRecords os n w cfg src dst =
     (if \<not> UseSidecarFor (Some cfg) then Some (STATUS_SUCCESS, w, [])
      else
        ForEachMovedEntry os fst n src dst
          (\<lambda>fromPath toPath (w, moved).
             let (w1, status) = Sidecar_Move os w (upperPath cfg) fromPath toPath in
             (status, w1, if NT_SUCCESS status then moved @ [(fromPath, toPath)] else moved))
          (w, []))"

definition MoveSidecarRecordsLeavingStuckOnes ::
  "('w, 'h) host \<Rightarrow> nat \<Rightarrow> 'w \<Rightarrow> LayerConfig \<Rightarrow> wstring \<Rightarrow> wstring \<Rightarrow> ('w \<times> ntstatus) option" where
  "MoveSidecarRecordsLeavingStuckOnes os n w cfg src dst =
     (if \<not> UseSidecarFor (Some cfg) then Some (w, STATUS_SUCCESS)
      else
        map_option (\<lambda>(walkStatus, w1, firstError). (w1, if NT_SUCCESS firstError then walkStatus else firstError))
          (ForEachMovedEntry os fst n src dst
             (\<lambda>fromPath toPath (w, firstError).
                let (w1, status) = Sidecar_Move os w (upperPath cfg) fromPath toPath in
                if NT_SUCCESS status then (STATUS_SUCCESS, w1, firstError)
                else
                  (STATUS_SUCCESS, RemoveRecordsOfReplacedEntry os w1 (upperPath cfg) fromPath toPath,
                   if NT_SUCCESS firstError then status else firstError))
             (w, STATUS_SUCCESS)))"

definition move_record_back ::
  "('w, 'h) host \<Rightarrow> LayerConfig \<Rightarrow> wstring \<times> wstring \<Rightarrow> 'w \<times> ntstatus \<Rightarrow> 'w \<times> ntstatus" where
  "move_record_back os cfg rec st =
     (let (w1, status) = Sidecar_Move os (fst st) (upperPath cfg) (snd rec) (fst rec) in
      (w1, if \<not> NT_SUCCESS status \<and> NT_SUCCESS (snd st) then status else snd st))"

definition MoveSidecarRecordsBack ::
  "('w, 'h) host \<Rightarrow> 'w \<Rightarrow> LayerConfig \<Rightarrow> (wstring \<times> wstring) list \<Rightarrow> 'w \<times> ntstatus" where
  "MoveSidecarRecordsBack os w cfg moved = fold (move_record_back os cfg) (rev moved) (w, STATUS_SUCCESS)"

definition ListSidecarKeyedEntries ::
  "('w, 'h) host \<Rightarrow> nat \<Rightarrow> 'w \<Rightarrow> LayerConfig \<Rightarrow> wstring \<Rightarrow> wstring list option" where
  "ListSidecarKeyedEntries os n w cfg path =
     (if \<not> UseSidecarFor (Some cfg) then Some []
      else if IsDirectoryButNotLink os w path
      then
        map_option snd
          (ForEachEntryBelow os (\<lambda>_. w) n path (\<lambda>entryPath entries. (STATUS_SUCCESS, entries @ [entryPath])) [path])
      else Some [path])"

definition remove_gone_record :: "('w, 'h) host \<Rightarrow> LayerConfig \<Rightarrow> wstring \<Rightarrow> 'w \<Rightarrow> 'w" where
  "remove_gone_record os cfg entryPath w =
     (case GetFileAttributesW os w (WithExtendedPrefix os entryPath) of
        Inr a \<Rightarrow> w
      | Inl probeErr \<Rightarrow>
          if probeErr \<noteq> ERROR_FILE_NOT_FOUND \<and> probeErr \<noteq> ERROR_PATH_NOT_FOUND then w
          else
            let w1 = fst (Sidecar_Remove os w (upperPath cfg) entryPath) in
            fst (Sidecar_RemoveOpaque os w1 (upperPath cfg) entryPath))"

definition RemoveSidecarRecordsOfGoneEntries ::
  "('w, 'h) host \<Rightarrow> 'w \<Rightarrow> LayerConfig \<Rightarrow> wstring list \<Rightarrow> 'w" where
  "RemoveSidecarRecordsOfGoneEntries os w cfg entries =
     (if \<not> UseSidecarFor (Some cfg) then w else fold (remove_gone_record os cfg) entries w)"

section \<open>Moves (LayerPath.cpp)\<close>

datatype ReplaceExisting = ReplaceNo | ReplaceYes

record UpperEntryMove =
  moveStatus :: ntstatus
  recordLeftBehind :: ntstatus

definition MoveUpperEntryOnDisk :: "('w, 'h) host \<Rightarrow> 'w \<Rightarrow> wstring \<Rightarrow> wstring \<Rightarrow> ReplaceExisting \<Rightarrow> 'w \<times> ntstatus" where
  "MoveUpperEntryOnDisk os w src dst replace =
     (case OpenReparseEntry os w src (DELETE_ACCESS OR SYNCHRONIZE) of
        Inl e \<Rightarrow> (w, nt_status os e)
      | Inr entry \<Rightarrow>
          (case RenameByHandle os w entry (replace = ReplaceYes) (WithExtendedPrefix os dst) of
             (w1, Some e) \<Rightarrow> (w1, nt_status os e)
           | (w1, None) \<Rightarrow> (w1, STATUS_SUCCESS)))"

definition RemoveUpperEntryOnDisk :: "('w, 'h) host \<Rightarrow> 'w \<Rightarrow> wstring \<Rightarrow> EntryKind \<Rightarrow> 'w \<times> ntstatus" where
  "RemoveUpperEntryOnDisk os w path kind =
     (let extendedPath = WithExtendedPrefix os path in
      if kind = DirectoryEntry
      then
        (case fs_remove_all os w extendedPath of
           (w1, None) \<Rightarrow> (w1, STATUS_SUCCESS)
         | (w1, Some ec) \<Rightarrow> (w1, nt_status os (Win32FromErrorCode ec)))
      else
        (case (if kind = LinkEntry then RemoveDirectoryW os w extendedPath else DeleteFileW os w extendedPath) of
           (w1, None) \<Rightarrow> (w1, STATUS_SUCCESS)
         | (w1, Some removeErr) \<Rightarrow>
             if removeErr \<noteq> ERROR_FILE_NOT_FOUND \<and> removeErr \<noteq> ERROR_PATH_NOT_FOUND
             then (w1, nt_status os removeErr) else (w1, STATUS_SUCCESS)))"

definition MoveUpperEntry ::
  "('w, 'h) host \<Rightarrow> nat \<Rightarrow> 'w \<Rightarrow> LayerConfig \<Rightarrow> wstring \<Rightarrow> wstring \<Rightarrow> ReplaceExisting \<Rightarrow> ('w \<times> UpperEntryMove) option" where
  "MoveUpperEntry os n w cfg src dst replace =
     (case MoveUpperEntryOnDisk os w src dst replace of
        (w1, status) \<Rightarrow>
          if \<not> NT_SUCCESS status then Some (w1, \<lparr>moveStatus = status, recordLeftBehind = STATUS_SUCCESS\<rparr>)
          else
            (case MoveSidecarRecords os n w1 cfg src dst of
               None \<Rightarrow> None
             | Some (recordStatus, w2, moved) \<Rightarrow>
                 if NT_SUCCESS recordStatus then Some (w2, \<lparr>moveStatus = STATUS_SUCCESS, recordLeftBehind = STATUS_SUCCESS\<rparr>)
                 else
                   let (w3, entryBack) = MoveUpperEntryOnDisk os w2 dst src ReplaceNo;
                       (w4, recordsBack) = MoveSidecarRecordsBack os w3 cfg moved in
                   if NT_SUCCESS entryBack then Some (w4, \<lparr>moveStatus = recordStatus, recordLeftBehind = recordsBack\<rparr>)
                   else if \<not> NT_SUCCESS recordsBack then Some (w4, \<lparr>moveStatus = STATUS_SUCCESS, recordLeftBehind = recordsBack\<rparr>)
                   else
                     map_option (\<lambda>(w5, stuck). (w5, \<lparr>moveStatus = STATUS_SUCCESS, recordLeftBehind = stuck\<rparr>))
                       (MoveSidecarRecordsLeavingStuckOnes os n w4 cfg src dst)))"

definition MoveUpperEntryLeavingStuckRecords ::
  "('w, 'h) host \<Rightarrow> nat \<Rightarrow> 'w \<Rightarrow> LayerConfig \<Rightarrow> wstring \<Rightarrow> wstring \<Rightarrow> ReplaceExisting \<Rightarrow> ('w \<times> UpperEntryMove) option" where
  "MoveUpperEntryLeavingStuckRecords os n w cfg src dst replace =
     (case MoveUpperEntryOnDisk os w src dst replace of
        (w1, status) \<Rightarrow>
          if \<not> NT_SUCCESS status then Some (w1, \<lparr>moveStatus = status, recordLeftBehind = STATUS_SUCCESS\<rparr>)
          else
            map_option (\<lambda>(w2, stuck). (w2, \<lparr>moveStatus = STATUS_SUCCESS, recordLeftBehind = stuck\<rparr>))
              (MoveSidecarRecordsLeavingStuckOnes os n w1 cfg src dst))"

text \<open>\<open>newAsidePath\<close> is the path that the caller's \<^verbatim>\<open>newAsidePath()\<close> gives; the last component is \<^verbatim>\<open>*asidePath\<close>.\<close>

definition MoveUpperEntryAside ::
  "('w, 'h) host \<Rightarrow> nat \<Rightarrow> 'w \<Rightarrow> LayerConfig \<Rightarrow> wstring \<Rightarrow> wstring \<Rightarrow> ('w \<times> UpperEntryMove \<times> wstring) option" where
  "MoveUpperEntryAside os n w cfg path newAsidePath =
     (case GetFileAttributesW os w (WithExtendedPrefix os path) of
        Inl probeErr \<Rightarrow>
          if probeErr = ERROR_FILE_NOT_FOUND \<or> probeErr = ERROR_PATH_NOT_FOUND
          then Some (w, \<lparr>moveStatus = STATUS_SUCCESS, recordLeftBehind = STATUS_SUCCESS\<rparr>, [])
          else Some (w, \<lparr>moveStatus = nt_status os probeErr, recordLeftBehind = STATUS_SUCCESS\<rparr>, [])
      | Inr a \<Rightarrow>
          map_option (\<lambda>(w1, move). (w1, move, if NT_SUCCESS (moveStatus move) then newAsidePath else []))
            (MoveUpperEntry os n w cfg path newAsidePath ReplaceNo))"

section \<open>Removals\<close>

text \<open>The status, \<^verbatim>\<open>*exists\<close> and \<^verbatim>\<open>*kind\<close>, which keeps the caller's value when it is not set.\<close>

definition ProbeUpperEntry :: "('w, 'h) host \<Rightarrow> 'w \<Rightarrow> wstring \<Rightarrow> EntryKind \<Rightarrow> ntstatus \<times> bool \<times> EntryKind" where
  "ProbeUpperEntry os w path kind =
     (case GetFileAttributesW os w (WithExtendedPrefix os path) of
        Inl probeErr \<Rightarrow>
          if probeErr = ERROR_FILE_NOT_FOUND \<or> probeErr = ERROR_PATH_NOT_FOUND then (STATUS_SUCCESS, False, kind)
          else (nt_status os probeErr, False, kind)
      | Inr attrs \<Rightarrow>
          let (kindStatus, kind1) = EntryKindOf os w path attrs kind in
          if kindStatus = STATUS_OBJECT_NAME_NOT_FOUND \<or> kindStatus = STATUS_OBJECT_PATH_NOT_FOUND then (STATUS_SUCCESS, False, kind1)
          else if \<not> NT_SUCCESS kindStatus then (kindStatus, False, kind1)
          else (STATUS_SUCCESS, True, kind1))"

definition RemoveUpperEntryOfKind ::
  "('w, 'h) host \<Rightarrow> nat \<Rightarrow> 'w \<Rightarrow> LayerConfig \<Rightarrow> wstring \<Rightarrow> EntryKind \<Rightarrow> ('w \<times> ntstatus) option" where
  "RemoveUpperEntryOfKind os n w cfg path kind =
     (case ListSidecarKeyedEntries os n w cfg path of
        None \<Rightarrow> None
      | Some entries \<Rightarrow>
          let (w1, status) = RemoveUpperEntryOnDisk os w path kind in
          Some (RemoveSidecarRecordsOfGoneEntries os w1 cfg entries, status))"

definition RemoveUpperEntry :: "('w, 'h) host \<Rightarrow> nat \<Rightarrow> 'w \<Rightarrow> LayerConfig \<Rightarrow> wstring \<Rightarrow> ('w \<times> ntstatus) option" where
  "RemoveUpperEntry os n w cfg path =
     (case ProbeUpperEntry os w path FileEntry of
        (probe, exists, kind) \<Rightarrow>
          if \<not> NT_SUCCESS probe \<or> \<not> exists then Some (w, probe) else RemoveUpperEntryOfKind os n w cfg path kind)"

definition CreateDirectoryOrUseExisting :: "('w, 'h) host \<Rightarrow> 'w \<Rightarrow> wstring \<Rightarrow> 'w \<times> ntstatus" where
  "CreateDirectoryOrUseExisting os w path =
     (let extendedPath = WithExtendedPrefix os path in
      case CreateDirectoryW os w extendedPath of
        (w1, None) \<Rightarrow> (w1, STATUS_SUCCESS)
      | (w1, Some createErr) \<Rightarrow>
          if createErr \<noteq> ERROR_ALREADY_EXISTS then (w1, nt_status os createErr)
          else
            (case GetFileAttributesW os w1 extendedPath of
               Inl e \<Rightarrow> (w1, nt_status os e)
             | Inr existingAttrs \<Rightarrow>
                 if existingAttrs AND FILE_ATTRIBUTE_DIRECTORY = 0 then (w1, STATUS_OBJECT_NAME_COLLISION)
                 else (w1, STATUS_SUCCESS)))"

section \<open>The delete of a staged tree\<close>

definition FILE_ATTRIBUTE_ARCHIVE :: dword where "FILE_ATTRIBUTE_ARCHIVE = 0x20"
definition FILE_ATTRIBUTE_TEMPORARY :: dword where "FILE_ATTRIBUTE_TEMPORARY = 0x100"
definition FILE_ATTRIBUTE_NOT_CONTENT_INDEXED :: dword where "FILE_ATTRIBUTE_NOT_CONTENT_INDEXED = 0x2000"
definition FILE_ATTRIBUTE_NO_SCRUB_DATA :: dword where "FILE_ATTRIBUTE_NO_SCRUB_DATA = 0x20000"

definition AttributesFileBasicInfoCanSet :: "dword \<Rightarrow> dword" where
  "AttributesFileBasicInfoCanSet attrs =
     (let settable = FILE_ATTRIBUTE_READONLY OR FILE_ATTRIBUTE_HIDDEN OR FILE_ATTRIBUTE_SYSTEM OR FILE_ATTRIBUTE_ARCHIVE OR
            FILE_ATTRIBUTE_TEMPORARY OR FILE_ATTRIBUTE_NOT_CONTENT_INDEXED OR FILE_ATTRIBUTE_NO_SCRUB_DATA;
          kept = attrs AND settable in
      if attrs AND FILE_ATTRIBUTE_DIRECTORY \<noteq> 0 then kept OR FILE_ATTRIBUTE_DIRECTORY
      else if kept = 0 then FILE_ATTRIBUTE_NORMAL else kept)"

text \<open>\<open>None\<close> is success and \<open>Some\<close> the error of the write.\<close>

definition ClearReadOnly :: "('w, 'h) host \<Rightarrow> 'w \<Rightarrow> 'h \<Rightarrow> dword \<Rightarrow> 'w \<times> dword option" where
  "ClearReadOnly os w entry attrs =
     (if attrs AND FILE_ATTRIBUTE_READONLY = 0 then (w, None)
      else SetAttributesByHandle os w entry (AttributesFileBasicInfoCanSet (attrs AND NOT FILE_ATTRIBUTE_READONLY)))"

definition kDeleteEntryAccess :: dword where
  "kDeleteEntryAccess = DELETE_ACCESS OR FILE_READ_ATTRIBUTES OR FILE_WRITE_ATTRIBUTES OR SYNCHRONIZE"
definition kListDirectoryAccess :: dword where "kListDirectoryAccess = FILE_LIST_DIRECTORY OR SYNCHRONIZE"
definition kTreeDeleteAccess :: dword where "kTreeDeleteAccess = kDeleteEntryAccess OR kListDirectoryAccess"

text \<open>\<open>GrantAccess\<close> replaces the DACL of the open entry by a protected one that grants the access to the thread's user.\<close>

definition GrantTreeDeleteAccess :: "('w, 'h) host \<Rightarrow> 'w \<Rightarrow> wstring \<Rightarrow> 'w \<times> dword" where
  "GrantTreeDeleteAccess os w path =
     (case OpenReparseEntry os w path WRITE_DAC of
        Inl e \<Rightarrow> (w, e)
      | Inr entry \<Rightarrow> GrantAccess os w entry kTreeDeleteAccess)"

definition OpenForTreeDelete :: "('w, 'h) host \<Rightarrow> 'w \<Rightarrow> wstring \<Rightarrow> dword \<Rightarrow> 'w \<times> (dword + 'h)" where
  "OpenForTreeDelete os w path acc =
     (case OpenReparseEntry os w path acc of
        Inr entry \<Rightarrow> (w, Inr entry)
      | Inl openError \<Rightarrow>
          if openError \<noteq> ERROR_ACCESS_DENIED then (w, Inl openError)
          else
            let (w1, grantError) = GrantTreeDeleteAccess os w path in
            if grantError \<noteq> ERROR_SUCCESS then (w1, Inl openError)
            else (w1, OpenReparseEntry os w1 path acc))"

definition ListDirectoryForTreeDelete :: "('w, 'h) host \<Rightarrow> 'w \<Rightarrow> wstring \<Rightarrow> 'w \<times> (dword + wstring list)" where
  "ListDirectoryForTreeDelete os w path =
     (case OpenForTreeDelete os w path kListDirectoryAccess of
        (w1, Inl openError) \<Rightarrow> (w1, Inl openError)
      | (w1, Inr directory) \<Rightarrow>
          let (listed, error) = ListDirectory os w1 directory in
          (w1, if error = ERROR_NO_MORE_FILES then Inr (filter (\<lambda>name. name \<noteq> [wdot] \<and> name \<noteq> [wdot, wdot]) listed)
               else Inl error))"

definition MarkForDelete :: "('w, 'h) host \<Rightarrow> 'w \<Rightarrow> 'h \<Rightarrow> 'w \<times> dword option" where
  "MarkForDelete os w entry =
     (case MarkForDeletePosix os w entry of
        (w1, None) \<Rightarrow> (w1, None)
      | (w1, Some e) \<Rightarrow> MarkForDeletePlain os w1 entry)"

definition EntersEntry :: "('w, 'h) host \<Rightarrow> 'w \<Rightarrow> 'h \<Rightarrow> dword \<Rightarrow> dword + bool" where
  "EntersEntry os w entry attrs =
     (if attrs AND FILE_ATTRIBUTE_DIRECTORY = 0 then Inr False
      else if attrs AND FILE_ATTRIBUTE_REPARSE_POINT = 0 then Inr True
      else
        (case FileAttributeTagInfo os w entry of
           Inl e \<Rightarrow> Inl e
         | Inr tag \<Rightarrow> Inr (\<not> IsReparseTagNameSurrogate tag)))"

text \<open>
  A failure is the path and the error. The loop over the names of a directory takes the delete of
  one child; the results are the first failure, the disk and the deleted paths.
\<close>

type_synonym 'w delete_result = "(wstring \<times> dword) option \<times> 'w \<times> wstring list"

fun delete_names ::
  "(wstring \<Rightarrow> 'w \<Rightarrow> wstring list \<Rightarrow> 'w delete_result option) \<Rightarrow> wstring \<Rightarrow> wstring list \<Rightarrow> 'w \<Rightarrow> wstring list \<Rightarrow> 'w delete_result option" where
  "delete_names delete path [] w deleted = Some (None, w, deleted)"
| "delete_names delete path (name # listed) w deleted =
     (case delete (JoinDirPath path name) w deleted of
        None \<Rightarrow> None
      | Some (Some failure, w1, deleted1) \<Rightarrow> Some (Some failure, w1, deleted1)
      | Some (None, w1, deleted1) \<Rightarrow> delete_names delete path listed w1 deleted1)"

definition delete_opened ::
  "('w, 'h) host \<Rightarrow> wstring \<Rightarrow> 'h \<Rightarrow> dword \<Rightarrow> 'w \<Rightarrow> wstring list \<Rightarrow> 'w delete_result" where
  "delete_opened os path entry attrs w deleted =
     (case ClearReadOnly os w entry attrs of
        (w1, Some e) \<Rightarrow> (Some (path, e), w1, deleted)
      | (w1, None) \<Rightarrow>
          (case MarkForDelete os w1 entry of
             (w2, Some e) \<Rightarrow> (Some (path, e), w2, deleted)
           | (w2, None) \<Rightarrow> (None, w2, deleted @ [path])))"

fun DeleteTree :: "('w, 'h) host \<Rightarrow> nat \<Rightarrow> wstring \<Rightarrow> 'w \<Rightarrow> wstring list \<Rightarrow> 'w delete_result option" where
  "DeleteTree os 0 path w deleted = None"
| "DeleteTree os (Suc n) path w deleted =
     (let win32Path = ForWin32 os path in
      case OpenForTreeDelete os w win32Path kDeleteEntryAccess of
        (w1, Inl openError) \<Rightarrow>
          if IsGone openError then Some (None, w1, deleted) else Some (Some (path, openError), w1, deleted)
      | (w1, Inr entry) \<Rightarrow>
          (case FileBasicAttributes os w1 entry of
             Inl e \<Rightarrow> Some (Some (path, e), w1, deleted)
           | Inr attrs \<Rightarrow>
               (case EntersEntry os w1 entry attrs of
                  Inl e \<Rightarrow> Some (Some (path, e), w1, deleted)
                | Inr False \<Rightarrow> Some (delete_opened os path entry attrs w1 deleted)
                | Inr True \<Rightarrow>
                    (case ListDirectoryForTreeDelete os w1 win32Path of
                       (w2, Inl listError) \<Rightarrow> Some (Some (path, listError), w2, deleted)
                     | (w2, Inr listed) \<Rightarrow>
                         (case delete_names (DeleteTree os n) path listed w2 deleted of
                            None \<Rightarrow> None
                          | Some (Some failure, w3, deleted3) \<Rightarrow> Some (Some failure, w3, deleted3)
                          | Some (None, w3, deleted3) \<Rightarrow> Some (delete_opened os path entry attrs w3 deleted3))))))"

definition RemoveStagedEntry ::
  "('w, 'h) host \<Rightarrow> nat \<Rightarrow> 'w \<Rightarrow> LayerConfig \<Rightarrow> wstring \<Rightarrow> ('w \<times> (wstring \<times> dword) option) option" where
  "RemoveStagedEntry os n w cfg path =
     map_option (\<lambda>(failure, w1, deleted). (RemoveSidecarRecordsOfGoneEntries os w1 cfg deleted, failure))
       (DeleteTree os n path w [])"

section \<open>Depth is enough\<close>

text \<open>
  A path longer than the limit of Windows cannot be enumerated or opened, and a name that an
  enumeration gives is not empty.
\<close>

definition path_limit :: nat where "path_limit = 32767"

definition enumerates :: "('w, 'h) host \<Rightarrow> bool" where
  "enumerates os \<longleftrightarrow>
     (\<forall>w p. length p > path_limit \<longrightarrow> (\<exists>e. FindFiles os w (WithExtendedPrefix os p) = Inl e)) \<and>
     (\<forall>w p acc. length p > path_limit \<longrightarrow> (\<exists>e. OpenReparseEntry os w (ForWin32 os p) acc = Inl e)) \<and>
     (\<forall>w p found e. FindFiles os w p = Inr (found, e) \<longrightarrow> (\<forall>f \<in> set found. cFileName f \<noteq> [])) \<and>
     (\<forall>w h. [] \<notin> set (fst (ListDirectory os w h)))"

lemma length_JoinDirPath: "length d + length n \<le> length (JoinDirPath d n)" "n \<noteq> [] \<Longrightarrow> length d < length (JoinDirPath d n)"
  by (auto simp: JoinDirPath_def DirWithSeparator_def)

lemma visit_found_total:
  assumes "\<And>fd le s. fd \<in> set fds \<Longrightarrow> enter (JoinDirPath d (cFileName fd)) le s \<noteq> None"
  shows "visit_found visit enter d fds le s \<noteq> None"
  using assms
proof (induction fds arbitrary: le s)
  case (Cons fd fds)
  have rest: "\<exists>r. visit_found visit enter d fds le s = Some r" for le s using Cons by simp
  obtain status s1 where v: "visit (JoinDirPath d (cFileName fd)) s = (status, s1)" by fastforce
  have "enter (JoinDirPath d (cFileName fd)) le s1 \<noteq> None" using Cons.prems by (simp del: not_None_eq)
  then obtain status2 le2 s2 where e: "enter (JoinDirPath d (cFileName fd)) le s1 = Some (status2, le2, s2)" by auto
  show ?case using rest [of le s] rest [of le s1] rest [of le2 s2] by (auto simp: v e Let_def)
qed simp

lemma VisitEntriesBelow_total:
  assumes "enumerates os" "path_limit < n + length d"
  shows "0 < n \<Longrightarrow> VisitEntriesBelow os disk_of visit n d le s \<noteq> None"
  using assms(2)
proof (induction n arbitrary: d le s)
  case (Suc n)
  show ?case
  proof (cases "FindFiles os (disk_of s) (WithExtendedPrefix os (JoinDirPath d (wlit ''*'')))")
    case (Inr fe)
    obtain found e where fe: "fe = (found, e)" by fastforce
    have "length (JoinDirPath d (wlit ''*'')) \<le> path_limit"
      using assms(1) Inr by (metis enumerates_def Inl_Inr_False not_le)
    then have len: "length d < path_limit" using length_JoinDirPath(2) [of "wlit ''*''" d] by simp
    have "VisitEntriesBelow os disk_of visit n (JoinDirPath d (cFileName fd)) le s \<noteq> None" if "fd \<in> set found" for fd le s
    proof -
      have "cFileName fd \<noteq> []" using assms(1) Inr fe that unfolding enumerates_def by blast
      then have "length d < length (JoinDirPath d (cFileName fd))" by (rule length_JoinDirPath(2))
      then show ?thesis using Suc.prems len by (intro Suc.IH) auto
    qed
    then have "visit_found visit (VisitEntriesBelow os disk_of visit n) d found le s \<noteq> None" by (rule visit_found_total)
    then show ?thesis using Inr fe by auto
  qed simp
qed simp

lemma delete_names_total:
  assumes "\<And>name w ds. name \<in> set listed \<Longrightarrow> delete (JoinDirPath p name) w ds \<noteq> None"
  shows "delete_names delete p listed w ds \<noteq> None"
  using assms
proof (induction listed arbitrary: w ds)
  case (Cons name listed)
  have "delete (JoinDirPath p name) w ds \<noteq> None" using Cons.prems by (simp del: not_None_eq)
  then obtain f w1 ds1 where d: "delete (JoinDirPath p name) w ds = Some (f, w1, ds1)" by auto
  have "\<exists>r. delete_names delete p listed w1 ds1 = Some r" using Cons by simp
  then show ?case by (auto simp: d split: option.splits)
qed simp

lemma OpenForTreeDelete_length:
  assumes "enumerates os" "OpenForTreeDelete os w (ForWin32 os p) acc = (w1, Inr h)"
  shows "length p \<le> path_limit"
proof (rule ccontr)
  assume "\<not> ?thesis"
  then have "\<exists>e. OpenReparseEntry os w' (ForWin32 os p) acc = Inl e" for w'
    using assms(1) unfolding enumerates_def by simp
  then show False using assms(2) by (auto simp: OpenForTreeDelete_def split: sum.splits if_splits prod.splits) (metis Inl_Inr_False)+
qed

lemma listed_names:
  assumes "enumerates os" "ListDirectoryForTreeDelete os w p = (w1, Inr listed)"
  shows "[] \<notin> set listed"
proof -
  have "[] \<notin> set (fst (ListDirectory os w' h))" for w' h using assms(1) unfolding enumerates_def by blast
  then have "(xs, e) = ListDirectory os w' h \<Longrightarrow> [] \<notin> set xs" for xs e w' h by (metis fst_conv)
  then show ?thesis using assms(2) by (auto simp: ListDirectoryForTreeDelete_def Let_def split: prod.splits sum.splits if_splits) metis+
qed

lemma DeleteTree_total:
  assumes "enumerates os" "Suc path_limit < n + length p" "0 < n"
  shows "DeleteTree os n p w ds \<noteq> None"
  using assms(2,3)
proof (induction n arbitrary: p w ds)
  case (Suc n)
  obtain w1 r where o: "OpenForTreeDelete os w (ForWin32 os p) kDeleteEntryAccess = (w1, r)" by fastforce
  obtain w2 l where l: "ListDirectoryForTreeDelete os w1 (ForWin32 os p) = (w2, l)" by fastforce
  have names: "delete_names (DeleteTree os n) p listed w2 ds \<noteq> None" if r: "r = Inr h" and "l = Inr listed" for h listed
  proof (rule delete_names_total)
    fix name w ds
    assume "name \<in> set listed"
    then have "name \<noteq> []" using listed_names [OF assms(1) l [unfolded that(2)]] by metis
    then have "length p < length (JoinDirPath p name)" by (rule length_JoinDirPath(2))
    moreover have "length p \<le> path_limit" using OpenForTreeDelete_length [OF assms(1) o [unfolded r]] .
    ultimately show "DeleteTree os n (JoinDirPath p name) w ds \<noteq> None" using Suc.prems by (intro Suc.IH) auto
  qed
  show ?case
  proof (cases "\<exists>h attrs listed. r = Inr h \<and> FileBasicAttributes os w1 h = Inr attrs \<and> EntersEntry os w1 h attrs = Inr True \<and> l = Inr listed")
    case True
    then obtain h attrs listed where *: "r = Inr h" "FileBasicAttributes os w1 h = Inr attrs" "EntersEntry os w1 h attrs = Inr True" "l = Inr listed"
      by blast
    obtain f w3 ds3 where d: "delete_names (DeleteTree os n) p listed w2 ds = Some (f, w3, ds3)"
      using names [OF *(1,4)] by auto
    show ?thesis by (cases f) (simp_all add: o l * d Let_def)
  next
    case False
    show ?thesis
    proof (cases r)
      case (Inr h)
      show ?thesis
      proof (cases "FileBasicAttributes os w1 h")
        case (Inr attrs)
        show ?thesis
          using False \<open>r = Inr h\<close> Inr
          by (cases "EntersEntry os w1 h attrs"; cases l) (auto simp: o l Let_def simp del: not_None_eq split: bool.split)
      qed (simp add: o \<open>r = Inr h\<close> Let_def)
    qed (simp add: o Let_def)
  qed
qed simp

lemma ForEachEntryBelow_total:
  "enumerates os \<Longrightarrow> path_limit < n \<Longrightarrow> ForEachEntryBelow os disk_of n d visit s \<noteq> None"
  using VisitEntriesBelow_total [of os n d disk_of visit STATUS_SUCCESS s] by (simp add: ForEachEntryBelow_def del: not_None_eq)

lemma ForEachMovedEntry_total:
  "enumerates os \<Longrightarrow> path_limit < n \<Longrightarrow> ForEachMovedEntry os disk_of n src dst visit s \<noteq> None"
  by (simp add: ForEachMovedEntry_def Let_def ForEachEntryBelow_total del: not_None_eq split: prod.split)

lemma record_moves_total:
  assumes "enumerates os" "path_limit < n"
  shows "MoveSidecarRecords os n w cfg src dst \<noteq> None" "MoveSidecarRecordsLeavingStuckOnes os n w cfg src dst \<noteq> None"
    "ListSidecarKeyedEntries os n w cfg src \<noteq> None"
  by (simp_all add: MoveSidecarRecords_def MoveSidecarRecordsLeavingStuckOnes_def ListSidecarKeyedEntries_def
      ForEachMovedEntry_total [OF assms] ForEachEntryBelow_total [OF assms] del: not_None_eq)

text \<open>
  C40: The tree walks end. On a file system with the path limit of Windows whose enumerations give
  non-empty names, a depth past the limit is enough for every walk, whatever the tree holds and
  whatever fails on the way: each move, removal and staged delete gives a result.
\<close>

theorem tree_walks_end:
  assumes "enumerates os" "Suc path_limit < n"
  shows "MoveUpperEntry os n w cfg src dst replace \<noteq> None \<and>
    MoveUpperEntryLeavingStuckRecords os n w cfg src dst replace \<noteq> None \<and>
    RemoveUpperEntryOfKind os n w cfg src kind \<noteq> None \<and> RemoveStagedEntry os n w cfg src \<noteq> None"
proof -
  have n: "path_limit < n" using assms(2) by simp
  note total = record_moves_total [OF assms(1) n]
  obtain w1 st where m: "MoveUpperEntryOnDisk os w src dst replace = (w1, st)" by fastforce
  obtain rs w2 mv where r: "MoveSidecarRecords os n w1 cfg src dst = Some (rs, w2, mv)" using total(1) by (metis option.exhaust prod_cases3)
  have "MoveUpperEntry os n w cfg src dst replace \<noteq> None"
    using total(2) by (simp add: MoveUpperEntry_def m r Let_def del: not_None_eq split: prod.split)
  moreover have "MoveUpperEntryLeavingStuckRecords os n w cfg src dst replace \<noteq> None"
    using total(2) by (simp add: MoveUpperEntryLeavingStuckRecords_def m del: not_None_eq)
  moreover have "RemoveUpperEntryOfKind os n w cfg src kind \<noteq> None"
    using total(3) [of w cfg src] by (auto simp: RemoveUpperEntryOfKind_def Let_def split: prod.split)
  moreover have "RemoveStagedEntry os n w cfg src \<noteq> None"
    using DeleteTree_total [OF assms(1), of n src w "[]"] assms(2) by (simp add: RemoveStagedEntry_def del: not_None_eq)
  ultimately show ?thesis by blast
qed

text \<open>The disk in memory with the path limit.\<close>

definition limited_host :: "(mem_disk, wstring) host" where
  "limited_host = mem_host
     \<lparr>FindFiles := \<lambda>w p. if length p > path_limit then Inl 206 else mem_find w p,
      OpenReparsePoint := \<lambda>w p acc. if length p > path_limit then Inl 206 else mem_open w p acc\<rparr>"

lemma length_extended: "GetFullPathNameW T = Some \<Longrightarrow> length p \<le> length (WithExtendedPrefix T p)"
  by (auto simp: WithExtendedPrefix_def FullPathName_def kExtendedUnc_def kExtended_def kUnc_def)

lemma limited_host_enumerates: "enumerates limited_host"
proof -
  have g: "GetFullPathNameW limited_host = Some" by (simp add: limited_host_def mem_host_def)
  have "cFileName f \<noteq> []" if "f \<in> set (mem_children w d)" for f w d using that by (auto simp: mem_children_def)
  then show ?thesis
    using order_less_le_trans [OF _ length_extended [OF g]] length_extended [OF g]
    by (auto simp: enumerates_def limited_host_def mem_host_def mem_find_def OpenReparseEntry_def ForWin32_def Let_def image_iff
        split: if_splits option.splits) (metis le_trans not_le)+
qed

theorem tree_walks_end_witness:
  "RemoveStagedEntry limited_host (path_limit + 2) sample_disk sample_config sample_upper \<noteq> None"
  using tree_walks_end [OF limited_host_enumerates, of "path_limit + 2"] by simp


section \<open>Where a moved entry is\<close>

text \<open>
  The documented behaviour of renames: an entry that was opened and renamed is at its new path, a
  failed rename or open changes nothing and gives an error other than \<^verbatim>\<open>ERROR_IO_PENDING\<close>. A move or delete of a file in the record
  directory does not reach a path outside that directory.
\<close>

definition call_fails :: "dword \<Rightarrow> bool" where
  "call_fails e \<longleftrightarrow> e \<noteq> ERROR_SUCCESS \<and> e \<noteq> 997"

definition renames_entries :: "('w, 'h) host \<Rightarrow> bool" where
  "renames_entries os \<longleftrightarrow>
     (\<forall>w p acc h r q w'. OpenReparsePoint os w p acc = Inr h \<longrightarrow> RenameByHandle os w h r q = (w', None) \<longrightarrow> exists_at os w' q) \<and>
     (\<forall>w h r q w' e. RenameByHandle os w h r q = (w', Some e) \<longrightarrow> w' = w \<and> call_fails e) \<and>
     (\<forall>w p acc e. OpenReparsePoint os w p acc = Inl e \<longrightarrow> call_fails e)"

definition in_record_directory :: "('w, 'h) host \<Rightarrow> wstring \<Rightarrow> wstring \<Rightarrow> bool" where
  "in_record_directory os root p \<longleftrightarrow> starts_with p (win32Directory os root @ [bslash])"

definition records_keep :: "('w, 'h) host \<Rightarrow> wstring \<Rightarrow> ('w \<Rightarrow> 'a) \<Rightarrow> bool" where
  "records_keep os root Q \<longleftrightarrow>
     (\<forall>w a b. in_record_directory os root a \<longrightarrow> in_record_directory os root b \<longrightarrow> Q (fst (MoveFileExW os w a b)) = Q w) \<and>
     (\<forall>w a. in_record_directory os root a \<longrightarrow> Q (fst (DeleteFileW os w a)) = Q w)"

abbreviation records_apart :: "('w, 'h) host \<Rightarrow> wstring \<Rightarrow> wstring \<Rightarrow> bool" where
  "records_apart os root p \<equiv> records_keep os root (\<lambda>w. exists_at os w p)"

lemma BaseOf_inside: "BaseOf os root p = Some b \<Longrightarrow> in_record_directory os root (b @ x)"
  by (auto simp: BaseOf_def in_record_directory_def starts_with_iff Let_def split: if_splits)

lemma MoveRecordFile_keeps:
  assumes "records_keep os root Q" "in_record_directory os root a" "in_record_directory os root b"
  shows "Q (fst (MoveRecordFile os w a b)) = Q w"
proof -
  obtain w1 e where m: "MoveFileExW os w a b = (w1, e)" by fastforce
  obtain w2 e2 where d: "DeleteFileW os w1 b = (w2, e2)" by fastforce
  have "Q w1 = Q w" "Q w2 = Q w1"
    using assms m d unfolding records_keep_def by (metis fst_conv)+
  then show ?thesis by (simp add: MoveRecordFile_def m d split: option.split)
qed

lemma Sidecar_Move_keeps:
  assumes "records_keep os root Q"
  shows "Q (fst (Sidecar_Move os w root a b)) = Q w"
proof -
  have *: "Q (fst (MoveRecordFile os w (x @ s) (y @ t))) = Q w"
    if "BaseOf os root u = Some x" "BaseOf os root v = Some y" for w u v x y s t
    using assms that by (intro MoveRecordFile_keeps [OF assms] BaseOf_inside)
  then show ?thesis
    by (auto simp: Sidecar_Move_def Let_def split: option.split prod.split) (metis fst_conv)+
qed

lemma Sidecar_removes_keep:
  assumes "records_keep os root Q"
  shows "Q (fst (Sidecar_Remove os w root a)) = Q w"
    and "Q (fst (Sidecar_RemoveOpaque os w root a)) = Q w"
proof -
  have *: "Q (fst (DeleteFileW os w f)) = Q w" if "FileOf os root a x = Some f" for w x f
    using assms that BaseOf_inside [of os root a] unfolding records_keep_def FileOf_def by auto
  show "Q (fst (Sidecar_Remove os w root a)) = Q w"
    by (auto simp: Sidecar_Remove_def split: option.split prod.split dest!: * [of _ _ w])
  show "Q (fst (Sidecar_RemoveOpaque os w root a)) = Q w"
    by (auto simp: Sidecar_RemoveOpaque_def split: option.split prod.split dest!: * [of _ _ w])
qed

text \<open>What every visit keeps, a walk keeps.\<close>

lemma visit_found_keeps:
  assumes "\<And>p s. I s \<Longrightarrow> I (snd (visit p s))"
    and "\<And>p le s r. I s \<Longrightarrow> enter p le s = Some r \<Longrightarrow> I (snd (snd r))"
  shows "I s \<Longrightarrow> visit_found visit enter d fds le s = Some r \<Longrightarrow> I (snd (snd r))"
proof (induction fds arbitrary: le s)
  case (Cons fd fds)
  let ?c = "JoinDirPath d (cFileName fd)"
  obtain status s1 where v: "visit ?c s = (status, s1)" by fastforce
  then have 1: "I s1" using assms(1) [OF Cons.prems(1), of ?c] by simp
  have 2: "enter ?c le s1 = Some (st, le2, s2) \<Longrightarrow> I s2" for st le2 s2 using assms(2) [OF 1] by fastforce
  show ?case
    using Cons.prems 1 2 Cons.IH [of s] Cons.IH [of s1] Cons.IH
    by (auto simp: v Let_def split: if_splits option.splits)
qed auto

lemma VisitEntriesBelow_keeps:
  assumes "\<And>p s. I s \<Longrightarrow> I (snd (visit p s))"
  shows "I s \<Longrightarrow> VisitEntriesBelow os disk_of visit n d le s = Some r \<Longrightarrow> I (snd (snd r))"
proof (induction n arbitrary: d le s r)
  case (Suc n)
  show ?case
  proof (cases "FindFiles os (disk_of s) (WithExtendedPrefix os (JoinDirPath d (wlit ''*'')))")
    case (Inr fe)
    then obtain found e where f: "FindFiles os (disk_of s) (WithExtendedPrefix os (JoinDirPath d (wlit ''*''))) = Inr (found, e)"
      by (cases fe) auto
    show ?thesis
    proof (cases "visit_found visit (VisitEntriesBelow os disk_of visit n) d found le s")
      case (Some q)
      have "I (snd (snd q))" by (rule visit_found_keeps [OF assms Suc.IH Suc.prems(1) Some])
      then show ?thesis using Suc.prems(2) unfolding VisitEntriesBelow.simps f by (auto simp: Some split: prod.splits)
    qed (use Suc.prems(2) in \<open>unfold VisitEntriesBelow.simps f, simp\<close>)
  qed (use Suc.prems in auto)
qed simp

lemma ForEachMovedEntry_keeps:
  assumes "\<And>a b s. I s \<Longrightarrow> I (snd (visit a b s))" "I s" "ForEachMovedEntry os disk_of n src dst visit s = Some (st, s')"
  shows "I s'"
proof -
  obtain st1 s1 where v: "visit src dst s = (st1, s1)" by fastforce
  then have s1: "I s1" using assms(1) [OF assms(2), of src dst] by simp
  have "I (snd (snd r))" if "VisitEntriesBelow os disk_of (\<lambda>m. visit (src @ drop (length dst) m) m) n dst le s1 = Some r" for le r
    by (rule VisitEntriesBelow_keeps [where I = I, OF _ s1 that]) (rule assms(1))
  then show ?thesis
    using assms(3) s1 by (fastforce simp: ForEachMovedEntry_def ForEachEntryBelow_def v split: if_splits)
qed

lemma record_moves_keep:
  assumes "records_keep os (upperPath cfg) Q"
  shows "MoveSidecarRecords os n w cfg src dst = Some (st, w', moved) \<Longrightarrow> Q w' = Q w"
    and "MoveSidecarRecordsLeavingStuckOnes os n w cfg src dst = Some (w2, st2) \<Longrightarrow> Q w2 = Q w"
    and "Q (fst (MoveSidecarRecordsBack os w cfg moved)) = Q w"
proof -
  note keep = Sidecar_Move_keeps [OF assms] Sidecar_removes_keep [OF assms]
  let ?I = "\<lambda>s. Q (fst s) = Q w"
  show "Q w' = Q w" if "MoveSidecarRecords os n w cfg src dst = Some (st, w', moved)"
  proof (cases "UseSidecarFor (Some cfg)")
    case True
    let ?v = "\<lambda>fromPath toPath (w, moved).
             let (w1, status) = Sidecar_Move os w (upperPath cfg) fromPath toPath in
             (status, w1, if NT_SUCCESS status then moved @ [(fromPath, toPath)] else moved)"
    have r: "ForEachMovedEntry os fst n src dst ?v (w, []) = Some (st, w', moved)"
      using that True by (simp add: MoveSidecarRecords_def)
    have v: "?I (snd (?v a b s))" if "?I s" for a b s
      using that keep(1) [of "fst s" a b] by (auto simp: Let_def split: prod.splits)
    have "?I (w', moved)" by (rule ForEachMovedEntry_keeps [where I = ?I, OF v _ r]) simp_all
    then show ?thesis by simp
  qed (use that in \<open>simp add: MoveSidecarRecords_def\<close>)
  show "Q w2 = Q w" if t: "MoveSidecarRecordsLeavingStuckOnes os n w cfg src dst = Some (w2, st2)"
  proof (cases "UseSidecarFor (Some cfg)")
    case True
    let ?v = "\<lambda>fromPath toPath (w, firstError).
                let (w1, status) = Sidecar_Move os w (upperPath cfg) fromPath toPath in
                if NT_SUCCESS status then (STATUS_SUCCESS, w1, firstError)
                else
                  (STATUS_SUCCESS, RemoveRecordsOfReplacedEntry os w1 (upperPath cfg) fromPath toPath,
                   if NT_SUCCESS firstError then status else firstError)"
    obtain ws fe where r: "ForEachMovedEntry os fst n src dst ?v (w, STATUS_SUCCESS) = Some (ws, w2, fe)"
      using t True by (auto simp: MoveSidecarRecordsLeavingStuckOnes_def)
    have v: "?I (snd (?v a b s))" if "?I s" for a b s
      using that keep(1) [of "fst s" a b] by (auto simp: Let_def RemoveRecordsOfReplacedEntry_def keep(2,3) split: prod.splits)
    have "?I (w2, fe)" by (rule ForEachMovedEntry_keeps [where I = ?I, OF v _ r]) simp_all
    then show ?thesis by simp
  qed (use that in \<open>simp add: MoveSidecarRecordsLeavingStuckOnes_def\<close>)
  have "Q (fst (fold (move_record_back os cfg) rs s)) = Q (fst s)" for rs s
  proof (induction rs arbitrary: s)
    case (Cons r rs)
    then show ?case using keep(1) [of "fst s" "snd r" "fst r"] by (auto simp: move_record_back_def split: prod.splits)
  qed simp
  then show "Q (fst (MoveSidecarRecordsBack os w cfg moved)) = Q w"
    by (simp add: MoveSidecarRecordsBack_def)
qed


lemma MoveUpperEntryOnDisk_contract:
  assumes "renames_entries os" "cloud_failures (CloudFileStatus os)" "MoveUpperEntryOnDisk os w src dst replace = (w', st)"
  shows "(NT_SUCCESS st \<longrightarrow> exists_at os w' (WithExtendedPrefix os dst)) \<and> (\<not> NT_SUCCESS st \<longrightarrow> w' = w)"
proof -
  have fails: "call_fails e \<Longrightarrow> \<not> NT_SUCCESS (nt_status os e)" for e
    using NtStatusFromWin32_success_cases [OF assms(2)] by (auto simp: call_fails_def)
  show ?thesis
  proof (cases "OpenReparsePoint os w (WithExtendedPrefix os src) (DELETE_ACCESS OR SYNCHRONIZE)")
    case (Inl e)
    then have "\<not> NT_SUCCESS (nt_status os e)" using assms(1) fails unfolding renames_entries_def by blast
    then show ?thesis using assms(3) Inl by (simp add: MoveUpperEntryOnDisk_def OpenReparseEntry_def)
  next
    case (Inr h)
    obtain w1 r where m: "RenameByHandle os w h (replace = ReplaceYes) (WithExtendedPrefix os dst) = (w1, r)" by fastforce
    have "r = None \<Longrightarrow> exists_at os w1 (WithExtendedPrefix os dst)" "r = Some e \<Longrightarrow> w1 = w \<and> call_fails e" for e
      using assms(1) Inr m unfolding renames_entries_def by blast+
    then show ?thesis using assms(3) Inr m fails
      by (cases r) (auto simp: MoveUpperEntryOnDisk_def OpenReparseEntry_def)
  qed
qed

lemma MoveUpperEntry_where:
  assumes "renames_entries os" "cloud_failures (CloudFileStatus os)"
    and "records_apart os (upperPath cfg) (WithExtendedPrefix os src)" "records_apart os (upperPath cfg) (WithExtendedPrefix os dst)"
    and "exists_at os w (WithExtendedPrefix os src)"
    and "MoveUpperEntry os n w cfg src dst replace = Some (w', mv)"
  shows "exists_at os w' (WithExtendedPrefix os (if NT_SUCCESS (moveStatus mv) then dst else src))"
proof -
  note disk = MoveUpperEntryOnDisk_contract [OF assms(1,2)]
  note keep = record_moves_keep [OF assms(3)] record_moves_keep [OF assms(4)]
  obtain w1 st where m: "MoveUpperEntryOnDisk os w src dst replace = (w1, st)" by fastforce
  show ?thesis
  proof (cases "NT_SUCCESS st")
    case False
    then show ?thesis using disk [OF m] assms(5,6) by (auto simp: MoveUpperEntry_def m)
  next
    case True
    then obtain rs w2 moved where r: "MoveSidecarRecords os n w1 cfg src dst = Some (rs, w2, moved)"
      using assms(6) by (cases "MoveSidecarRecords os n w1 cfg src dst") (auto simp: MoveUpperEntry_def m)
    have at2: "exists_at os w2 (WithExtendedPrefix os dst)" using disk [OF m] True keep(4) [OF r] by simp
    obtain w3 eb where b: "MoveUpperEntryOnDisk os w2 dst src ReplaceNo = (w3, eb)" by fastforce
    obtain w4 rb where q: "MoveSidecarRecordsBack os w3 cfg moved = (w4, rb)" by fastforce
    have at4: "exists_at os w4 (WithExtendedPrefix os src) = exists_at os w3 (WithExtendedPrefix os src)"
      "exists_at os w4 (WithExtendedPrefix os dst) = exists_at os w3 (WithExtendedPrefix os dst)"
      using keep(3) [of w3 moved] keep(6) [of w3 moved] q by simp_all
    have success: "NT_SUCCESS STATUS_SUCCESS" by (simp add: NT_SUCCESS_def)
    have stuck: "exists_at os w5 (WithExtendedPrefix os dst) = exists_at os w4 (WithExtendedPrefix os dst)"
      if "MoveSidecarRecordsLeavingStuckOnes os n w4 cfg src dst = Some (w5, st5)" for w5 st5 using keep(5) [OF that] .
    show ?thesis
      using assms(6) True at2 at4 disk [OF b] success stuck
      by (auto simp: MoveUpperEntry_def m r b q split: if_splits)
  qed
qed

text \<open>
  C39: A move of an upper entry never loses the entry. Whatever step fails (the rename, the move of a
  sidecar record, the move back, the move back of the records), the status tells where the entry is:
  on success it is at the new path, on failure it is at the old path.
\<close>

theorem MoveUpperEntry_contract:
  assumes "renames_entries os" "cloud_failures (CloudFileStatus os)"
    and "records_apart os (upperPath cfg) (WithExtendedPrefix os src)" "records_apart os (upperPath cfg) (WithExtendedPrefix os dst)"
    and "exists_at os w (WithExtendedPrefix os src)"
    and "MoveUpperEntry os n w cfg src dst replace = Some (w', mv)"
  shows "exists_at os w' (WithExtendedPrefix os (if NT_SUCCESS (moveStatus mv) then dst else src))"
  by (rule MoveUpperEntry_where [OF assms])

lemma mem_renames: "renames_entries mem_host"
  by (auto simp: renames_entries_def mem_open_def mem_move_def exists_at_def mem_attributes_def call_fails_def
      map_of_rekey split: option.splits if_splits)

lemma mem_cloud: "cloud_failures (CloudFileStatus mem_host)"
  by (simp add: mem_host_def cloud_failures_def cloud_file_errors_def NT_SUCCESS_def)


lemma starts_with_key: "starts_with a b \<Longrightarrow> starts_with (mem_key a) (mem_key b)"
  by (auto simp: starts_with_iff mem_key_def)

lemma rekey_inside:
  assumes "starts_with src d" "starts_with dst d" "\<not> starts_with k d"
  shows "mem_rekey src dst k' = k \<longleftrightarrow> k' = k"
  using assms by (auto simp: mem_rekey_def starts_with_iff)

lemma map_of_rekey_outside:
  assumes "starts_with src d" "starts_with dst d" "\<not> starts_with k d"
  shows "map_of (map (\<lambda>(k, n). (mem_rekey src dst k, n)) (filter (\<lambda>(k, n). k \<noteq> dst) w)) k = map_of w k"
proof (induction w)
  case (Cons a w)
  have "k \<noteq> dst" using assms(2,3) by auto
  then show ?case using Cons rekey_inside [OF assms, of "fst a"] by (cases a) auto
qed simp

lemma mem_records_keep:
  assumes "\<not> starts_with (mem_key p) (mem_key (win32Directory mem_host root @ [bslash]))"
  shows "records_keep mem_host root (\<lambda>w. map_of w (mem_key p))"
proof -
  let ?d = "mem_key (win32Directory mem_host root @ [bslash])"
  have inside: "starts_with (mem_key a) ?d" if "in_record_directory mem_host root a" for a
    using that starts_with_key unfolding in_record_directory_def by blast
  have "map_of (fst (MoveFileExW mem_host w a b)) (mem_key p) = map_of w (mem_key p)"
    if "in_record_directory mem_host root a" "in_record_directory mem_host root b" for w a b
    using map_of_rekey_outside [OF inside [OF that(1)] inside [OF that(2)] assms, of w] by (simp add: mem_move_def)
  moreover have "map_of (fst (DeleteFileW mem_host w a)) (mem_key p) = map_of w (mem_key p)"
    if "in_record_directory mem_host root a" for w a
  proof -
    have "mem_key a \<noteq> mem_key p" using inside [OF that] assms by auto
    then show ?thesis by (simp add: mem_delete_def delete_conv')
  qed
  ultimately show ?thesis unfolding records_keep_def by blast
qed

lemma records_keep_function:
  "records_keep os root Q \<Longrightarrow> (\<And>w. R w = f (Q w)) \<Longrightarrow> records_keep os root R"
  by (simp add: records_keep_def)

lemma mem_records_apart:
  assumes "\<not> starts_with (mem_key p) (mem_key (win32Directory mem_host root @ [bslash]))"
  shows "records_apart mem_host root p"
  by (rule records_keep_function [OF mem_records_keep [OF assms], of _ "\<lambda>m. m \<noteq> None"])
     (auto simp: exists_at_def mem_attributes_def split: option.split)

definition sidecar_config :: LayerConfig where
  "sidecar_config = sample_config\<lparr>hostCapabilities := 0\<rparr>"

theorem MoveUpperEntry_contract_witness:
  "\<exists>w' mv. MoveUpperEntry mem_host 3 sample_disk sidecar_config (JoinDirPath sample_upper (wlit ''a''))
      (JoinDirPath sample_upper (wlit ''d'')) ReplaceNo = Some (w', mv) \<and> moveStatus mv = STATUS_SUCCESS \<and>
      exists_at mem_host w' (WithExtendedPrefix mem_host (JoinDirPath sample_upper (wlit ''d'')))"
proof -
  let ?a = "JoinDirPath sample_upper (wlit ''a'')" and ?d = "JoinDirPath sample_upper (wlit ''d'')"
  have "map_option (moveStatus \<circ> snd) (MoveUpperEntry mem_host 3 sample_disk sidecar_config ?a ?d ReplaceNo) = Some STATUS_SUCCESS"
    by code_simp
  then obtain w' mv where m: "MoveUpperEntry mem_host 3 sample_disk sidecar_config ?a ?d ReplaceNo = Some (w', mv)"
    and st: "moveStatus mv = STATUS_SUCCESS" by auto
  have apart: "records_apart mem_host (upperPath sidecar_config) (WithExtendedPrefix mem_host ?a)"
    "records_apart mem_host (upperPath sidecar_config) (WithExtendedPrefix mem_host ?d)"
    by (rule mem_records_apart, code_simp)+
  have "exists_at mem_host sample_disk (WithExtendedPrefix mem_host ?a)" by code_simp
  then show ?thesis
    using MoveUpperEntry_contract [OF mem_renames mem_cloud apart _ m] m st by (simp add: NT_SUCCESS_def)
qed

end
