(* ===== verification/Whiteout_Ops.thy ===== *)
theory Whiteout_Ops
  imports Path_Resolver Upper_Entries
begin

text \<open>
  The operations of the whiteout manager that change the upper layer (\<^verbatim>\<open>impl/WhiteoutManager.cpp\<close>), with
  the cache and the event sink that the constructor of the engine (\<^verbatim>\<open>impl/LayerMount.cpp\<close>) wires to it.
  The state of the engine that they change is the disk, the path cache and the list of the events
  emitted so far.
\<close>

section \<open>The state of the engine\<close>

definition S_OK :: "32 word" where "S_OK = 0"

datatype LM_EVENT_TYPE = LM_EVT_WARNING | LM_EVT_COPY_UP | LM_EVT_WHITEOUT_CREATED | LM_EVT_ACCESS_DENIED

text \<open>The arguments of an emit; an absent message is empty.\<close>

record lm_event =
  evType :: LM_EVENT_TYPE
  evResult :: "32 word"
  evPath :: wstring
  evMessage :: wstring
  evPid :: dword

record 'w engine =
  engineDisk :: 'w
  engineCache :: Cache
  engineEvents :: "lm_event list"

definition Emit :: "'w engine \<Rightarrow> LM_EVENT_TYPE \<Rightarrow> 32 word \<Rightarrow> wstring \<Rightarrow> wstring \<Rightarrow> 'w engine" where
  "Emit s type hr relativePath message =
     s\<lparr>engineEvents := engineEvents s @ [\<lparr>evType = type, evResult = hr, evPath = relativePath, evMessage = message, evPid = 0\<rparr>]\<rparr>"

section \<open>Times (EntryCopy.cpp)\<close>

definition EntryTimesOf :: "attribute_data \<Rightarrow> EntryTimes" where
  "EntryTimesOf info = dataTimes info"

definition ReadEntryTimes :: "('w, 'h) host \<Rightarrow> 'w \<Rightarrow> wstring \<Rightarrow> EntryTimes option" where
  "ReadEntryTimes os w path =
     (case GetFileAttributesExW os w (WithExtendedPrefix os path) of Inl e \<Rightarrow> None | Inr info \<Rightarrow> Some (EntryTimesOf info))"

definition WriteEntryTimes :: "('w, 'h) host \<Rightarrow> 'w \<Rightarrow> wstring \<Rightarrow> EntryTimes \<Rightarrow> dword option \<Rightarrow> 'w \<times> bool" where
  "WriteEntryTimes os w path entryTimes attrs =
     (case OpenFollowing os w (WithExtendedPrefix os path) FILE_WRITE_ATTRIBUTES of
        Inl e \<Rightarrow> (w, False)
      | Inr handle \<Rightarrow>
          (case (case attrs of
                   Some a \<Rightarrow> SetBasicInfo os w handle entryTimes (AttributesFileBasicInfoCanSet a)
                 | None \<Rightarrow> SetFileTime os w handle entryTimes) of
             (w1, Some e) \<Rightarrow> (w1, False)
           | (w1, None) \<Rightarrow> (w1, True)))"

section \<open>Markers\<close>

definition EnsureDirectoryExists :: "('w, 'h) host \<Rightarrow> 'w \<Rightarrow> wstring \<Rightarrow> 'w \<times> bool" where
  "EnsureDirectoryExists os w path =
     (let (w1, ec) = fs_create_directories os w (WithExtendedPrefix os path) in (w1, ec = None))"

definition CreateHiddenMarkerFile :: "('w, 'h) host \<Rightarrow> 'w \<Rightarrow> wstring \<Rightarrow> 'w \<times> dword" where
  "CreateHiddenMarkerFile os w path =
     (case CreateAlways os w (WithExtendedPrefix os path)
        (FILE_ATTRIBUTE_HIDDEN OR FILE_ATTRIBUTE_SYSTEM OR FILE_FLAG_BACKUP_SEMANTICS) of
        (w1, Inl e) \<Rightarrow> (w1, e)
      | (w1, Inr h) \<Rightarrow> (w1, ERROR_SUCCESS))"

definition DeleteMarkerFile :: "('w, 'h) host \<Rightarrow> 'w \<Rightarrow> wstring \<Rightarrow> 'w \<times> bool" where
  "DeleteMarkerFile os w path =
     (case DeleteFileW os w (WithExtendedPrefix os path) of
        (w1, None) \<Rightarrow> (w1, True)
      | (w1, Some e) \<Rightarrow> (w1, e = ERROR_FILE_NOT_FOUND))"

definition MarkerDirectoryStatus :: "LinkInView \<Rightarrow> ntstatus" where
  "MarkerDirectoryStatus link =
     (case linkStop link of
        LinkStopLink \<Rightarrow> STATUS_NOT_A_DIRECTORY
      | LinkStopUnreadable \<Rightarrow> STATUS_ACCESS_DENIED
      | LinkStopNone \<Rightarrow> STATUS_SUCCESS)"

datatype WhiteoutType = WhiteoutNone | WhiteoutFile | WhiteoutDirectory | WhiteoutOpaque

section \<open>Opaque directories\<close>

definition WriteOpaqueMarkers :: "('w, 'h) host \<Rightarrow> LayerConfig \<Rightarrow> 'w \<Rightarrow> wstring \<Rightarrow> 'w \<times> ntstatus" where
  "WriteOpaqueMarkers os cfg w dirFullPath =
     (let before = ReadEntryTimes os w dirFullPath;
          (w1, metadataOk) = SetOpaqueMetadata os w dirFullPath (Some cfg);
          (w2, markerError) = CreateHiddenMarkerFile os w1 (JoinDirPath dirFullPath kOpaqueMarkerFile);
          w3 = (case before of None \<Rightarrow> w2 | Some entryTimes \<Rightarrow> fst (WriteEntryTimes os w2 dirFullPath entryTimes None)) in
      (w3, if metadataOk \<or> markerError = ERROR_SUCCESS then STATUS_SUCCESS else nt_status os markerError))"

definition SetOpaque :: "('w, 'h) host \<Rightarrow> LayerConfig \<Rightarrow> 'w engine \<Rightarrow> wstring \<Rightarrow> 'w engine \<times> ntstatus" where
  "SetOpaque os cfg s dirRelativePath =
     (let normalized = NormalizePathPreserveCase dirRelativePath;
          directoryStatus = MarkerDirectoryStatus (FindLinkInView os (engineDisk s) cfg normalized) in
      if \<not> NT_SUCCESS directoryStatus then (s, directoryStatus)
      else
        let dirFullPath = JoinDirPath (upperPath cfg) normalized;
            (w1, ensured) = EnsureDirectoryExists os (engineDisk s) dirFullPath;
            (w2, status) = WriteOpaqueMarkers os cfg w1 dirFullPath in
        (s\<lparr>engineDisk := w2, engineCache := Cache_Invalidate os (engineCache s) (NormalizePath os dirRelativePath)\<rparr>, status))"

definition SetOpaqueAtPath :: "('w, 'h) host \<Rightarrow> LayerConfig \<Rightarrow> 'w \<Rightarrow> wstring \<Rightarrow> 'w \<times> ntstatus" where
  "SetOpaqueAtPath os cfg w dirFullPath =
     (case GetFileAttributesW os w (WithExtendedPrefix os dirFullPath) of
        Inl e \<Rightarrow> WriteOpaqueMarkers os cfg w dirFullPath
      | Inr attrs \<Rightarrow>
          let (probe, isLink) = IsDirectoryLink os w dirFullPath attrs in
          if \<not> NT_SUCCESS probe then (w, probe)
          else if isLink then (w, STATUS_NOT_A_DIRECTORY)
          else WriteOpaqueMarkers os cfg w dirFullPath)"

definition RemoveOpaque :: "('w, 'h) host \<Rightarrow> LayerConfig \<Rightarrow> 'w engine \<Rightarrow> wstring \<Rightarrow> 'w engine \<times> bool" where
  "RemoveOpaque os cfg s dirRelativePath =
     (let normalized = NormalizePathPreserveCase dirRelativePath;
          link = FindLinkOnPath os (engineDisk s) (upperPath cfg) normalized in
      if link = LinkAncestor then (s, True)
      else if link = LinkUnreadable then (s, False)
      else
        let dirFullPath = JoinDirPath (upperPath cfg) normalized;
            (w1, metadataOk) = RemoveOpaqueMetadata os (engineDisk s) dirFullPath (Some cfg);
            (w2, fileOk) =
              (if link = LinkSelf then (w1, True) else DeleteMarkerFile os w1 (JoinDirPath dirFullPath kOpaqueMarkerFile)) in
        (s\<lparr>engineDisk := w2, engineCache := Cache_Invalidate os (engineCache s) (NormalizePath os dirRelativePath)\<rparr>,
         metadataOk \<and> fileOk))"

section \<open>Whiteouts\<close>

definition CreateWhiteout :: "('w, 'h) host \<Rightarrow> LayerConfig \<Rightarrow> 'w engine \<Rightarrow> wstring \<Rightarrow> WhiteoutType \<Rightarrow> 'w engine \<times> ntstatus" where
  "CreateWhiteout os cfg s relativePath type =
     (if type = WhiteoutOpaque then SetOpaque os cfg s relativePath
      else
        let directoryStatus = MarkerDirectoryStatus (FindLinkInView os (engineDisk s) cfg (MarkerDirectoryOf relativePath)) in
        if \<not> NT_SUCCESS directoryStatus then (s, directoryStatus)
        else
          let whPath = GetWhiteoutFullPath (upperPath cfg) relativePath;
              parentDir = parent_path whPath;
              w1 = (if parentDir = [] then engineDisk s else fst (EnsureDirectoryExists os (engineDisk s) parentDir));
              (w2, markerError) = CreateHiddenMarkerFile os w1 whPath in
          if markerError \<noteq> ERROR_SUCCESS then (s\<lparr>engineDisk := w2\<rparr>, nt_status os markerError)
          else
            (Emit (s\<lparr>engineDisk := w2,
                     engineCache := InvalidateWithAncestors os (engineCache s) (NormalizePath os relativePath)\<rparr>)
               LM_EVT_WHITEOUT_CREATED S_OK relativePath [],
             STATUS_SUCCESS))"

definition RemoveWhiteout :: "('w, 'h) host \<Rightarrow> LayerConfig \<Rightarrow> 'w engine \<Rightarrow> wstring \<Rightarrow> 'w engine \<times> ntstatus" where
  "RemoveWhiteout os cfg s relativePath =
     (case FindLinkOnPath os (engineDisk s) (upperPath cfg) (MarkerDirectoryOf relativePath) of
        LinkSelf \<Rightarrow> (s, STATUS_SUCCESS)
      | LinkAncestor \<Rightarrow> (s, STATUS_SUCCESS)
      | LinkUnreadable \<Rightarrow> (s, STATUS_ACCESS_DENIED)
      | LinkNone \<Rightarrow>
          let whPath = GetWhiteoutFullPath (upperPath cfg) relativePath;
              invalidate =
                (\<lambda>w1. s\<lparr>engineDisk := w1,
                   engineCache := InvalidateWithAncestors os (engineCache s) (NormalizePath os relativePath)\<rparr>) in
          (case DeleteFileW os (engineDisk s) (WithExtendedPrefix os whPath) of
             (w1, None) \<Rightarrow> (invalidate w1, STATUS_SUCCESS)
           | (w1, Some deleteErr) \<Rightarrow>
               if deleteErr \<noteq> ERROR_FILE_NOT_FOUND
               then (s\<lparr>engineDisk := w1\<rparr>, StatusFromWin32Error (CloudFileStatus os) deleteErr ERROR_WRITE_FAULT)
               else (invalidate w1, STATUS_SUCCESS)))"


section \<open>What a creation does to the disk\<close>

text \<open>
  What the reads of the engine show at a path: nothing when the entry is not there, an error, or the
  attributes and the reparse tag.
\<close>

definition tag_read :: "('w, 'h) host \<Rightarrow> 'w \<Rightarrow> wstring \<Rightarrow> dword + dword" where
  "tag_read os w q = (case OpenReparsePoint os w q FILE_READ_ATTRIBUTES of Inl e \<Rightarrow> Inl e | Inr h \<Rightarrow> FileAttributeTagInfo os w h)"

definition shown :: "('w, 'h) host \<Rightarrow> 'w \<Rightarrow> wstring \<Rightarrow> (dword + dword \<times> (dword + dword)) option" where
  "shown os w q =
     (case GetFileAttributesW os w q of
        Inl e \<Rightarrow> if e = ERROR_FILE_NOT_FOUND \<or> e = ERROR_PATH_NOT_FOUND then None else Some (Inl e)
      | Inr a \<Rightarrow> Some (Inr (a, tag_read os w q)))"

text \<open>
  A create of a file or of directories changes what is shown only where nothing was, to a file or a
  directory that is no reparse point, or where a plain file was, to a plain file.
\<close>

definition plain_file :: "dword \<Rightarrow> bool" where
  "plain_file a \<longleftrightarrow> a AND FILE_ATTRIBUTE_DIRECTORY = 0 \<and> a AND FILE_ATTRIBUTE_REPARSE_POINT = 0"

definition becomes_plain :: "(dword + dword \<times> (dword + dword)) option \<Rightarrow> (dword + dword \<times> (dword + dword)) option \<Rightarrow> bool" where
  "becomes_plain x y \<longleftrightarrow>
     x = None \<and> (\<exists>a t. y = Some (Inr (a, t)) \<and> a AND FILE_ATTRIBUTE_REPARSE_POINT = 0) \<or>
     (\<exists>a t. x = Some (Inr (a, t)) \<and> plain_file a) \<and> (\<exists>a t. y = Some (Inr (a, t)) \<and> plain_file a)"

definition plain_step :: "('w, 'h) host \<Rightarrow> 'w \<Rightarrow> 'w \<Rightarrow> bool" where
  "plain_step os w w' \<longleftrightarrow> (\<forall>q. shown os w' q = shown os w q \<or> becomes_plain (shown os w q) (shown os w' q))"

text \<open>
  The documented behaviour of the calls that write markers: each is such a step, an entry that was
  created exists, and a failed create has an error.
\<close>

definition creates_plain :: "('w, 'h) host \<Rightarrow> bool" where
  "creates_plain os \<longleftrightarrow>
     (\<forall>w q a w' r. plain_file a \<longrightarrow> CreateAlways os w q a = (w', r) \<longrightarrow>
        plain_step os w w' \<and> (case r of Inl e \<Rightarrow> call_fails e | Inr h \<Rightarrow> exists_at os w' q)) \<and>
     (\<forall>w h bs. plain_step os w (fst (WriteFile os w h bs))) \<and>
     (\<forall>w h t. plain_step os w (fst (SetFileTime os w h t))) \<and>
     (\<forall>w q. plain_step os w (fst (fs_create_directories os w q)))"

lemma creates_plainD:
  assumes "creates_plain os"
  shows "plain_file a \<Longrightarrow> CreateAlways os w q a = (w', r) \<Longrightarrow> plain_step os w w'"
    and "plain_file a \<Longrightarrow> CreateAlways os w q a = (w', Inl e) \<Longrightarrow> call_fails e"
    and "plain_file a \<Longrightarrow> CreateAlways os w q a = (w', Inr h) \<Longrightarrow> exists_at os w' q"
    and "plain_step os w (fst (WriteFile os w hnd bs))" "plain_step os w (fst (SetFileTime os w hnd t))"
    and "plain_step os w (fst (fs_create_directories os w q))"
  using assms unfolding creates_plain_def by (fastforce split: sum.splits)+

lemma plain_step_refl [intro, simp]: "plain_step os w w"
  by (simp add: plain_step_def)

lemma becomes_plain_trans:
  "becomes_plain x y \<Longrightarrow> becomes_plain y z \<Longrightarrow> becomes_plain x z"
  by (auto simp: becomes_plain_def plain_file_def)

lemma plain_step_trans: "plain_step os w1 w2 \<Longrightarrow> plain_step os w2 w3 \<Longrightarrow> plain_step os w1 w3"
proof (unfold plain_step_def, intro allI)
  fix q
  assume "\<forall>q. shown os w2 q = shown os w1 q \<or> becomes_plain (shown os w1 q) (shown os w2 q)"
    and "\<forall>q. shown os w3 q = shown os w2 q \<or> becomes_plain (shown os w2 q) (shown os w3 q)"
  from this [THEN spec [of _ q]] show "shown os w3 q = shown os w1 q \<or> becomes_plain (shown os w1 q) (shown os w3 q)"
    using becomes_plain_trans [of "shown os w1 q" "shown os w2 q" "shown os w3 q"] by auto
qed

lemma exists_shown: "exists_at os w q \<longleftrightarrow> (\<exists>x. shown os w q = Some (Inr x))"
  by (auto simp: exists_at_def shown_def split: sum.splits)

lemma plain_step_exists: "plain_step os w w' \<Longrightarrow> exists_at os w q \<Longrightarrow> exists_at os w' q"
  unfolding plain_step_def exists_shown by (drule spec [of _ q]) (auto simp: becomes_plain_def)

text \<open>The kind of a component is a function of what is shown.\<close>

definition kind_shown :: "('w, 'h) host \<Rightarrow> (dword + dword \<times> (dword + dword)) option \<Rightarrow> ComponentKind" where
  "kind_shown os x =
     (case x of
        None \<Rightarrow> KindMissing
      | Some (Inl e) \<Rightarrow> KindUnreadable
      | Some (Inr (a, t)) \<Rightarrow>
          if a AND FILE_ATTRIBUTE_DIRECTORY = 0 then KindFile
          else if a = INVALID_FILE_ATTRIBUTES then KindUnreadable
          else if a AND FILE_ATTRIBUTE_REPARSE_POINT = 0 then KindDirectory
          else
            (case t of
               Inl e \<Rightarrow> if \<not> NT_SUCCESS (nt_status os e) then KindUnreadable else if IsLinkReparseTag 0 then KindLink else KindDirectory
             | Inr tag \<Rightarrow> if IsLinkReparseTag tag then KindLink else KindDirectory))"


lemma ReadReparseTag_shown:
  "ReadReparseTag os w p = (case tag_read os w (WithExtendedPrefix os p) of Inl e \<Rightarrow> (nt_status os e, 0) | Inr t \<Rightarrow> (STATUS_SUCCESS, t))"
  by (auto simp: ReadReparseTag_def tag_read_def OpenReparseEntry_def split: sum.split)

lemma single_bit: "a AND 2 ^ n \<noteq> 0 \<Longrightarrow> a AND 2 ^ n = 2 ^ n" for a :: dword
  by (intro bit_word_eqI) (auto simp: bit_simps and_exp_eq_0_iff_not_bit)

lemma directory_reparse_bits:
  assumes "a AND FILE_ATTRIBUTE_DIRECTORY \<noteq> 0"
  shows "a AND (FILE_ATTRIBUTE_DIRECTORY OR FILE_ATTRIBUTE_REPARSE_POINT) = FILE_ATTRIBUTE_DIRECTORY OR FILE_ATTRIBUTE_REPARSE_POINT \<longleftrightarrow>
    a AND FILE_ATTRIBUTE_REPARSE_POINT \<noteq> 0"
proof -
  have d: "FILE_ATTRIBUTE_DIRECTORY = 2 ^ 4" "FILE_ATTRIBUTE_REPARSE_POINT = 2 ^ 10"
    by (simp_all add: FILE_ATTRIBUTE_DIRECTORY_def FILE_ATTRIBUTE_REPARSE_POINT_def)
  have "a AND 2 ^ 4 = 2 ^ 4" using assms single_bit [of a 4] d by simp
  moreover have "(2 :: dword) ^ 4 \<noteq> 2 ^ 4 OR 2 ^ 10" by simp
  moreover have "a AND 2 ^ 10 = 0 \<or> a AND 2 ^ 10 = 2 ^ 10" using single_bit [of a 10] by blast
  ultimately show ?thesis unfolding d bit.conj_disj_distrib by (elim disjE) simp_all
qed

lemma ComponentKindInLayer_shown:
  "ComponentKindInLayer os w L r = kind_shown os (shown os w (WithExtendedPrefix os (JoinDirPath L r)))"
proof (cases "GetFileAttributesW os w (WithExtendedPrefix os (JoinDirPath L r))")
  case (Inr a)
  have "a AND (FILE_ATTRIBUTE_DIRECTORY OR FILE_ATTRIBUTE_REPARSE_POINT) = FILE_ATTRIBUTE_DIRECTORY OR FILE_ATTRIBUTE_REPARSE_POINT \<longleftrightarrow>
      a AND FILE_ATTRIBUTE_REPARSE_POINT \<noteq> 0" if "a AND FILE_ATTRIBUTE_DIRECTORY \<noteq> 0"
    using that directory_reparse_bits by simp
  then show ?thesis using Inr
    by (auto simp: ComponentKindInLayer_def kind_shown_def shown_def EntryKindOf_def IsDirectoryLink_def ReadReparseTag_shown Let_def
        NT_SUCCESS_def split: sum.split)
qed (simp add: ComponentKindInLayer_def kind_shown_def shown_def Let_def)

lemma kind_plain_step:
  assumes "plain_step os w w'"
  shows "ComponentKindInLayer os w' L r = ComponentKindInLayer os w L r \<or>
    ComponentKindInLayer os w L r = KindMissing \<and> ComponentKindInLayer os w' L r \<in> {KindFile, KindDirectory}"
proof -
  have inv: "a AND FILE_ATTRIBUTE_REPARSE_POINT = 0 \<Longrightarrow> a \<noteq> INVALID_FILE_ATTRIBUTES" for a
    by (auto simp: INVALID_FILE_ATTRIBUTES_def FILE_ATTRIBUTE_REPARSE_POINT_def)
  show ?thesis
    using assms [unfolded plain_step_def, THEN spec, of "WithExtendedPrefix os (JoinDirPath L r)"]
    by (auto simp: ComponentKindInLayer_shown becomes_plain_def kind_shown_def plain_file_def dest: inv split: if_splits)
qed

text \<open>A walk that meets no link and nothing unreadable still meets none after a plain step.\<close>

lemma walk_plain_step:
  assumes "plain_step os w w'" "tree_like os w L" "names ss"
    and "FindLinkOnPath os w L (join_with bslash ss) = LinkNone"
  shows "FindLinkOnPath os w' L (join_with bslash ss) = LinkNone"
proof (rule ccontr)
  assume "FindLinkOnPath os w' L (join_with bslash ss) \<noteq> LinkNone"
  let ?xs = "walked_paths (join_with bslash ss)" and ?K = "ComponentKindInLayer os"
  have ends: "EndsAtLinkOrUnreadable (walkStop (walk_components os w' L ?xs))"
    using \<open>_ \<noteq> LinkNone\<close> by (simp add: FindLinkOnPath_none WalkToFirstNonDirectory_def)
  have "\<not> list_all (is_directory_in os w' L) ?xs"
    using ends by (auto simp: walk_all_directories EndsAtLinkOrUnreadable_iff)
  then obtain k where k: "k < length ?xs" "list_all (is_directory_in os w' L) (take k ?xs)" "\<not> is_directory_in os w' L (?xs ! k)"
    using not_all_first [of "is_directory_in os w' L" ?xs] by auto
  have kk: "?K w' L (?xs ! k) \<in> {KindLink, KindUnreadable}"
    using ends walk_first_stop [OF k(2,1,3)]
    by (cases "?K w' L (?xs ! k)") (auto simp: WalkStopAt_def EndsAtLinkOrUnreadable_iff)
  then have kw: "?K w L (?xs ! k) = ?K w' L (?xs ! k)" using kind_plain_step [OF assms(1), of L "?xs ! k"] by auto
  have len: "k < length ss" using k(1) assms(3) by (simp add: walked_paths_join)
  have before: "is_directory_in os w L (?xs ! j)" if "j < k" for j
  proof (rule ccontr)
    assume n: "\<not> is_directory_in os w L (?xs ! j)"
    have "is_directory_in os w' L (?xs ! j)" using k(1,2) that by (simp add: list_all_length)
    then have "?K w L (?xs ! j) = KindMissing" using n kind_plain_step [OF assms(1), of L "?xs ! j"] by auto
    then have m: "?K w L (join_with bslash (take (Suc j) ss)) \<in> {KindMissing, KindFile}"
      using walked_nth [OF assms(3), of j] that len by simp
    have "take (Suc k) ss = take (Suc j) ss @ drop (Suc j) (take (Suc k) ss)"
      using that by (metis append_take_drop_id min.absorb1 less_imp_le Suc_le_mono take_take)
    moreover have "ss \<noteq> []" using len by auto
    ultimately have "?K w L (join_with bslash (take (Suc k) ss)) = KindMissing"
      using tree_likeD [OF assms(2) _ _ _ m, of "drop (Suc j) (take (Suc k) ss)"] names_take [OF assms(3), of "Suc k"] that len
      by auto
    then show False using kk kw walked_nth [OF assms(3) len] by simp
  qed
  then have "list_all (is_directory_in os w L) (take k ?xs)" using k(1) by (simp add: list_all_length)
  then have "walkStop (walk_components os w L ?xs) = WalkStopAt (?K w L (?xs ! k))"
    using walk_first_stop k(1) kk kw by (metis ComponentKind.distinct insertE singletonD)
  then show False
    using assms(4) kk kw by (auto simp: FindLinkOnPath_none WalkToFirstNonDirectory_def EndsAtLinkOrUnreadable_iff WalkStopAt_def)
qed


section \<open>Links stop the markers\<close>

lemma view_without_link:
  "NT_SUCCESS (MarkerDirectoryStatus (FindLinkInView os w cfg d)) \<longleftrightarrow> linkStop (FindLinkInView os w cfg d) = LinkStopNone"
  by (auto simp: MarkerDirectoryStatus_def NT_SUCCESS_def split: LinkStop.split)

lemma view_without_link_upper:
  "linkStop (FindLinkInView os w cfg d) = LinkStopNone \<Longrightarrow> FindLinkOnPath os w (upperPath cfg) d = LinkNone"
  by (auto simp: FindLinkInView_def FindLinkOnPath_none EndsAtLinkOrUnreadable_def Let_def split: if_splits)

section \<open>What a lookup finds after a marker\<close>

lemma IsResolvable_plain:
  "IsSafeRelativePath k \<Longrightarrow> \<not> IsReservedRelativePath os k \<Longrightarrow> IsResolvablePath os w cfg k"
  by (auto simp: IsResolvablePath_def IsReservedOverlayPath_def IsReservedRelativePath_def split: option.splits)

lemma ResolvePath_upper_miss:
  assumes "cache_inv c" "cached c k = None" "NormalizePath os k = k" "k \<noteq> []" "IsResolvablePath os w cfg k"
    and "GetFileAttributesW os w (WithExtendedPrefix os (JoinDirPath (upperPath cfg) k)) = Inl e"
  shows "snd (ResolvePath os w cfg now c k) =
    (if HasWhiteout os w k (upperPath cfg) \<or> HasWhitedOutAncestorInLayer os w k (upperPath cfg) then whiteout_result
     else if LowersBelow os w cfg (upperPath cfg) (parent_path k) \<noteq> LowersVisible then empty_resolved
     else if Found (FindInLowers os w cfg k 0) then FindInLowers os w cfg k 0 else empty_resolved)"
proof -
  obtain c1 x where g: "Cache_Get os now c k = (c1, x)" by fastforce
  have x: "x = None" using lru.get_result [OF assms(1), of os now k] assms(2,3) g by simp
  have depth: "\<not> 0 > kMaxRedirectDepth" by (simp add: kMaxRedirectDepth_def)
  have "ResolvePathInternal os w cfg now c k 0 = below_upper os w cfg now c1 k"
    using ResolvePathInternal_miss [OF depth assms(3-5) g [unfolded x]] ResolveInUpper_cases(1) [OF assms(6)] by simp
  then show ?thesis
    by (auto simp: ResolvePath_def below_upper_def HidingInUpper_def UpperAncestorHiding_def LowersBelowParentOf_def ParentDir_def
        Let_def split: LowerVisibility.splits prod.splits)
qed

lemma marker_attributes_plain:
  "plain_file (FILE_ATTRIBUTE_HIDDEN OR FILE_ATTRIBUTE_SYSTEM OR FILE_FLAG_BACKUP_SEMANTICS)" "plain_file FILE_ATTRIBUTE_NORMAL"
  "plain_file (FILE_ATTRIBUTE_NORMAL OR FILE_FLAG_OPEN_REPARSE_POINT)"
  by (simp_all add: plain_file_def attribute_defs FILE_FLAG_BACKUP_SEMANTICS_def FILE_FLAG_OPEN_REPARSE_POINT_def)

lemma CreateHiddenMarkerFile_creates:
  assumes "creates_plain os" "CreateHiddenMarkerFile os w p = (w', e)"
  shows "plain_step os w w'" "e = ERROR_SUCCESS \<Longrightarrow> exists_at os w' (WithExtendedPrefix os p)"
    "e \<noteq> ERROR_SUCCESS \<Longrightarrow> call_fails e"
proof -
  obtain w1 r where c: "CreateAlways os w (WithExtendedPrefix os p) (FILE_ATTRIBUTE_HIDDEN OR FILE_ATTRIBUTE_SYSTEM OR FILE_FLAG_BACKUP_SEMANTICS) = (w1, r)"
    by fastforce
  note law = creates_plainD(1-3) [OF assms(1) marker_attributes_plain(1)]
  show "plain_step os w w'" using law(1) [OF c] assms(2) c by (auto simp: CreateHiddenMarkerFile_def split: sum.splits)
  have "call_fails x" if "r = Inl x" for x using law(2) c that by simp
  then show "e = ERROR_SUCCESS \<Longrightarrow> exists_at os w' (WithExtendedPrefix os p)" "e \<noteq> ERROR_SUCCESS \<Longrightarrow> call_fails e"
    using assms(2) c law(3) by (cases r; auto simp: CreateHiddenMarkerFile_def call_fails_def)+
qed

lemma call_fails_status: "cloud_failures (CloudFileStatus os) \<Longrightarrow> call_fails e \<Longrightarrow> \<not> NT_SUCCESS (nt_status os e)"
  using NtStatusFromWin32_success_cases [of "CloudFileStatus os" e] by (auto simp: call_fails_def)

lemma marker_directory_join: "names (ss @ [n]) \<Longrightarrow> MarkerDirectoryOf (join_with bslash (ss @ [n])) = join_with bslash ss"
  by (simp add: MarkerDirectoryOf_def NormalizePathPreserveCase_id normal_form_join)


lemma EnsureDirectoryExists_plain: "creates_plain os \<Longrightarrow> plain_step os w (fst (EnsureDirectoryExists os w p))"
  by (simp add: EnsureDirectoryExists_def case_prod_beta Let_def creates_plainD(6))

lemma CreateWhiteout_writes:
  assumes "creates_plain os" "cloud_failures (CloudFileStatus os)" "tree_like os (engineDisk s) (upperPath cfg)"
    and "names (ss @ [n])" "type \<noteq> WhiteoutOpaque" "CreateWhiteout os cfg s (join_with bslash (ss @ [n])) type = (s', st)" "NT_SUCCESS st"
  shows "HasWhiteout os (engineDisk s') (join_with bslash (ss @ [n])) (upperPath cfg) \<and> plain_step os (engineDisk s) (engineDisk s') \<and>
    engineCache s' = InvalidateWithAncestors os (engineCache s) (NormalizePath os (join_with bslash (ss @ [n]))) \<and>
    engineEvents s' = engineEvents s @ [\<lparr>evType = LM_EVT_WHITEOUT_CREATED, evResult = S_OK, evPath = join_with bslash (ss @ [n]), evMessage = [], evPid = 0\<rparr>]"
proof -
  let ?k = "join_with bslash (ss @ [n])" and ?w = "engineDisk s" and ?U = "upperPath cfg"
  let ?wh = "GetWhiteoutFullPath ?U ?k"
  let ?w1 = "if parent_path ?wh = [] then ?w else fst (EnsureDirectoryExists os ?w (parent_path ?wh))"
  obtain w2 e where m: "CreateHiddenMarkerFile os ?w1 ?wh = (w2, e)" by fastforce
  have dir: "NT_SUCCESS (MarkerDirectoryStatus (FindLinkInView os ?w cfg (MarkerDirectoryOf ?k)))"
    using assms(5-7) by (auto simp: CreateWhiteout_def Let_def split: if_splits)
  have "e = ERROR_SUCCESS"
    using assms(5-7) dir m call_fails_status [OF assms(2)] CreateHiddenMarkerFile_creates(3) [OF assms(1) m]
    by (auto simp: CreateWhiteout_def Let_def split: if_splits)
  then have s': "s' = Emit (s\<lparr>engineDisk := w2, engineCache := InvalidateWithAncestors os (engineCache s) (NormalizePath os ?k)\<rparr>)
      LM_EVT_WHITEOUT_CREATED S_OK ?k []"
    using assms(5,6) dir m by (simp add: CreateWhiteout_def Let_def)
  have "plain_step os ?w ?w1" using EnsureDirectoryExists_plain [OF assms(1)] by simp
  then have step: "plain_step os ?w w2" by (rule plain_step_trans) (rule CreateHiddenMarkerFile_creates(1) [OF assms(1) m])
  have "linkStop (FindLinkInView os ?w cfg (join_with bslash ss)) = LinkStopNone"
    using dir view_without_link [of os ?w cfg "join_with bslash ss"] by (simp add: marker_directory_join [OF assms(4)])
  then have "FindLinkOnPath os ?w ?U (join_with bslash ss) = LinkNone" by (rule view_without_link_upper)
  then have "FindLinkOnPath os w2 ?U (join_with bslash ss) = LinkNone"
    using walk_plain_step [OF step assms(3), of ss] assms(4) by simp
  moreover have "MarkerFileExists os w2 ?wh"
    using CreateHiddenMarkerFile_creates(2) [OF assms(1) m] \<open>e = ERROR_SUCCESS\<close> by (simp add: MarkerFileExists_def)
  ultimately have "HasWhiteout os w2 ?k ?U"
    by (simp add: HasWhiteout_def HasWhiteoutUnderWalkedDirectoryInLayer_def marker_directory_join [OF assms(4)])
  then show ?thesis using step by (simp add: s' Emit_def)
qed

text \<open>
  C32: A whiteout hides its path. When the create of a whiteout reports success, the upper holds the
  marker, one event tells the host, and the next lookup of the path, from the cache the create left,
  gives the whiteout result as long as the upper has no entry of its own there, whatever the lowers
  hold and whatever the cache held before.
\<close>

theorem CreateWhiteout_hides:
  assumes "creates_plain os" "cloud_failures (CloudFileStatus os)" "tree_like os (engineDisk s) (upperPath cfg)" "cache_inv (engineCache s)"
    and "names (ss @ [n])" "k = join_with bslash (ss @ [n])" "NormalizePath os k = k" "IsSafeRelativePath k" "\<not> IsReservedRelativePath os k"
    and "type \<noteq> WhiteoutOpaque" "CreateWhiteout os cfg s k type = (s', st)" "NT_SUCCESS st"
    and "GetFileAttributesW os (engineDisk s') (WithExtendedPrefix os (JoinDirPath (upperPath cfg) k)) = Inl e"
  shows "HasWhiteout os (engineDisk s') k (upperPath cfg) \<and>
    snd (ResolvePath os (engineDisk s') cfg now (engineCache s') k) = whiteout_result \<and>
    engineEvents s' = engineEvents s @ [\<lparr>evType = LM_EVT_WHITEOUT_CREATED, evResult = S_OK, evPath = k, evMessage = [], evPid = 0\<rparr>]"
proof -
  note written = CreateWhiteout_writes [OF assms(1-3,5,10) assms(11) [unfolded assms(6)] assms(12), folded assms(6)]
  have inv: "cache_inv (engineCache s')" using written InvalidateWithAncestors_inv [OF assms(4)] by simp
  have miss: "cached (engineCache s') k = None"
    using written assms(7) by (simp add: cached_InvalidateWithAncestors [OF assms(4)])
  have "k \<noteq> []" using assms(5,6) hd_join_names by (auto simp: join_with_eq_Nil)
  then show ?thesis
    using written ResolvePath_upper_miss [OF inv miss assms(7) _ IsResolvable_plain [OF assms(8,9)] assms(13)] by simp
qed


text \<open>A deleted file is gone, and so is one that the delete did not find; a failed delete has an error.\<close>

definition deletes_files :: "('w, 'h) host \<Rightarrow> bool" where
  "deletes_files os \<longleftrightarrow>
     (\<forall>w q w' r. DeleteFileW os w q = (w', r) \<longrightarrow>
        (r = None \<or> r = Some ERROR_FILE_NOT_FOUND \<longrightarrow> \<not> exists_at os w' q) \<and> (\<forall>e. r = Some e \<longrightarrow> call_fails e))"

text \<open>
  C38: The removal of a whiteout is complete. When it reports success, the upper holds no whiteout of
  the path any more, on every branch: after a delete, when there was none, and under a link, where a
  file with the name of a marker is an ordinary file and stays.
\<close>

theorem RemoveWhiteout_clears:
  assumes "deletes_files os" "cloud_failures (CloudFileStatus os)" "RemoveWhiteout os cfg s p = (s', st)" "NT_SUCCESS st"
  shows "\<not> HasWhiteout os (engineDisk s') p (upperPath cfg)"
proof (cases "FindLinkOnPath os (engineDisk s) (upperPath cfg) (MarkerDirectoryOf p) = LinkNone")
  case True
  let ?q = "WithExtendedPrefix os (GetWhiteoutFullPath (upperPath cfg) p)"
  obtain w1 r where d: "DeleteFileW os (engineDisk s) ?q = (w1, r)" by fastforce
  have law: "r = None \<or> r = Some ERROR_FILE_NOT_FOUND \<Longrightarrow> \<not> exists_at os w1 ?q" "r = Some e \<Longrightarrow> call_fails e" for e
    using assms(1) d unfolding deletes_files_def by blast+
  have "\<not> NT_SUCCESS (StatusFromWin32Error (CloudFileStatus os) e ERROR_WRITE_FAULT)" if "r = Some e" for e
    using call_fails_status [OF assms(2) law(2) [OF that]] law(2) [OF that] by (simp add: StatusFromWin32Error_def call_fails_def)
  then have "(r = None \<or> r = Some ERROR_FILE_NOT_FOUND) \<and> engineDisk s' = w1"
    using assms(3,4) True d by (cases r) (auto simp: RemoveWhiteout_def Let_def split: if_splits)
  then show ?thesis using law(1) by (simp add: HasWhiteout_def HasWhiteoutUnderWalkedDirectoryInLayer_def MarkerFileExists_def)
next
  case False
  then have "s' = s" using assms(3) by (auto simp: RemoveWhiteout_def Let_def split: LinkOnPath.splits)
  then show ?thesis using False by (simp add: HasWhiteout_def)
qed

text \<open>
  A marker whose directory is not in the upper either is not a missing marker for the removal: the
  error \<^verbatim>\<open>ERROR_PATH_NOT_FOUND\<close> is reported.
\<close>

lemma RemoveWhiteout_missing_directory:
  assumes "FindLinkOnPath os (engineDisk s) (upperPath cfg) (MarkerDirectoryOf p) = LinkNone"
    and "DeleteFileW os (engineDisk s) (WithExtendedPrefix os (GetWhiteoutFullPath (upperPath cfg) p)) = (w1, Some ERROR_PATH_NOT_FOUND)"
  shows "snd (RemoveWhiteout os cfg s p) = nt_status os ERROR_PATH_NOT_FOUND"
  using assms by (simp add: RemoveWhiteout_def Let_def StatusFromWin32Error_def)

lemma SetOpaqueMetadata_writes:
  assumes "creates_plain os" "SetOpaqueMetadata os w d (Some cfg) = (w', ok)"
  shows "plain_step os w w' \<and> (ok \<longrightarrow> HasOpaqueMetadata os w' d (Some cfg))"
proof (cases "UseSidecarFor (Some cfg)")
  case True
  obtain w1 ok1 where e: "EnsureDirectory os w (upperPath cfg) = (w1, ok1)" by fastforce
  have 1: "plain_step os w w1" using creates_plainD(6) [OF assms(1), of w "win32Directory os (upperPath cfg)"] e
    by (auto simp: EnsureDirectory_def split: prod.splits)
  show ?thesis
  proof (cases "ok1 \<and> FileOf os (upperPath cfg) d kOpaqueSuffix \<noteq> None")
    case c: True
    then obtain f where f: "FileOf os (upperPath cfg) d kOpaqueSuffix = Some f" by auto
    obtain w2 r where a: "CreateAlways os w1 f FILE_ATTRIBUTE_NORMAL = (w2, r)" by fastforce
    note law = creates_plainD(1-3) [OF assms(1) marker_attributes_plain(2)]
    have "plain_step os w w2" using plain_step_trans [OF 1 law(1) [OF a]] .
    then show ?thesis using assms(2) True c e f a law(3)
      by (auto simp: SetOpaqueMetadata_def Sidecar_SetOpaque_def HasOpaqueMetadata_def Sidecar_HasOpaque_def split: sum.splits)
  next
    case False
    then show ?thesis using assms(2) True e 1
      by (cases ok1) (auto simp: SetOpaqueMetadata_def Sidecar_SetOpaque_def split: option.splits)
  qed
next
  case False
  let ?f = "ExtendedStreamPath os d kOpaqueADSStream"
  obtain w1 r where a: "CreateAlways os w ?f (FILE_ATTRIBUTE_NORMAL OR FILE_FLAG_OPEN_REPARSE_POINT) = (w1, r)" by fastforce
  note law = creates_plainD(1-3) [OF assms(1) marker_attributes_plain(3)]
  show ?thesis
  proof (cases r)
    case (Inr h)
    obtain w2 q where b: "WriteFile os w1 h (blit ''y'') = (w2, q)" by fastforce
    have 2: "plain_step os w1 w2" using creates_plainD(4) [OF assms(1), of w1 h "blit ''y''"] b by simp
    have 3: "exists_at os w2 ?f" using plain_step_exists [OF 2 law(3)] a Inr by simp
    show ?thesis using assms(2) False a Inr b 3 plain_step_trans [OF law(1) [OF a] 2]
      by (auto simp: SetOpaqueMetadata_def SetOpaqueAdsOnly_def HasOpaqueMetadata_def HasOpaqueAdsOnly_def split: sum.splits)
  qed (use assms(2) False a law(1) [OF a] in \<open>auto simp: SetOpaqueMetadata_def SetOpaqueAdsOnly_def\<close>)
qed

lemma WriteEntryTimes_plain: "creates_plain os \<Longrightarrow> plain_step os w (fst (WriteEntryTimes os w p t None))"
  using creates_plainD(5) [of os w _ t] by (auto simp: WriteEntryTimes_def split: sum.split prod.split option.split) (metis fst_conv)+

lemma HoldsOpaqueMarker_plain: "plain_step os w w' \<Longrightarrow> HoldsOpaqueMarker os w cfg d \<Longrightarrow> HoldsOpaqueMarker os w' cfg d"
  by (auto simp: HoldsOpaqueMarker_def HasOpaqueMetadata_def HasOpaqueAdsOnly_def Sidecar_HasOpaque_def MarkerFileExists_def
      dest: plain_step_exists split: option.splits if_splits)

lemma WriteOpaqueMarkers_writes:
  assumes "creates_plain os" "cloud_failures (CloudFileStatus os)" "WriteOpaqueMarkers os cfg w d = (w', st)"
  shows "plain_step os w w' \<and> (NT_SUCCESS st \<longrightarrow> HoldsOpaqueMarker os w' cfg d)"
proof -
  obtain w1 ok where m: "SetOpaqueMetadata os w d (Some cfg) = (w1, ok)" by fastforce
  obtain w2 e where f: "CreateHiddenMarkerFile os w1 (JoinDirPath d kOpaqueMarkerFile) = (w2, e)" by fastforce
  note meta = SetOpaqueMetadata_writes [OF assms(1) m] and mark = CreateHiddenMarkerFile_creates [OF assms(1) f]
  have w': "w' = (case ReadEntryTimes os w d of None \<Rightarrow> w2 | Some t \<Rightarrow> fst (WriteEntryTimes os w2 d t None))"
    and st: "st = (if ok \<or> e = ERROR_SUCCESS then STATUS_SUCCESS else nt_status os e)"
    using assms(3) m f by (auto simp: WriteOpaqueMarkers_def Let_def)
  have 3: "plain_step os w2 w'" using WriteEntryTimes_plain [OF assms(1)] by (simp add: w' split: option.split)
  have "plain_step os w w2" using plain_step_trans [OF _ mark(1)] meta by blast
  moreover have "HoldsOpaqueMarker os w2 cfg d" if "NT_SUCCESS st"
  proof (cases "e = ERROR_SUCCESS")
    case True
    then show ?thesis using mark(2) by (simp add: HoldsOpaqueMarker_def MarkerFileExists_def)
  next
    case False
    then have ok using that st call_fails_status [OF assms(2) mark(3)] by (auto split: if_splits)
    then have "HoldsOpaqueMarker os w1 cfg d" using meta by (simp add: HoldsOpaqueMarker_def)
    then show ?thesis by (rule HoldsOpaqueMarker_plain [OF mark(1)])
  qed
  ultimately show ?thesis using plain_step_trans [OF _ 3, of w] HoldsOpaqueMarker_plain [OF 3, of cfg d] by blast
qed


lemma SetOpaque_writes:
  assumes "creates_plain os" "cloud_failures (CloudFileStatus os)" "tree_like os (engineDisk s) (upperPath cfg)"
    and "names ds" "SetOpaque os cfg s (join_with bslash ds) = (s', st)" "NT_SUCCESS st"
  shows "IsOpaqueInLayer os (engineDisk s') cfg (join_with bslash ds) (upperPath cfg) \<and>
    engineCache s' = Cache_Invalidate os (engineCache s) (NormalizePath os (join_with bslash ds))"
proof -
  let ?d = "join_with bslash ds" and ?U = "upperPath cfg"
  have norm: "NormalizePathPreserveCase ?d = ?d" using assms(4) by (simp add: NormalizePathPreserveCase_id normal_form_join)
  obtain w1 b where e: "EnsureDirectoryExists os (engineDisk s) (JoinDirPath ?U ?d) = (w1, b)" by fastforce
  obtain w2 st2 where m: "WriteOpaqueMarkers os cfg w1 (JoinDirPath ?U ?d) = (w2, st2)" by fastforce
  have dir: "NT_SUCCESS (MarkerDirectoryStatus (FindLinkInView os (engineDisk s) cfg ?d))"
    using assms(5,6) norm by (auto simp: SetOpaque_def Let_def split: if_splits)
  then have s': "s' = s\<lparr>engineDisk := w2, engineCache := Cache_Invalidate os (engineCache s) (NormalizePath os ?d)\<rparr>" "st = st2"
    using assms(5) norm e m by (auto simp: SetOpaque_def Let_def)
  have "plain_step os (engineDisk s) w1" using EnsureDirectoryExists_plain [OF assms(1), of "engineDisk s" "JoinDirPath ?U ?d"] e by simp
  then have step: "plain_step os (engineDisk s) w2"
    by (rule plain_step_trans) (use WriteOpaqueMarkers_writes [OF assms(1,2) m] in blast)
  have "FindLinkOnPath os (engineDisk s) ?U ?d = LinkNone" using dir by (simp add: view_without_link view_without_link_upper)
  then have "FindLinkOnPath os w2 ?U ?d = LinkNone" by (rule walk_plain_step [OF step assms(3,4)])
  then show ?thesis
    using WriteOpaqueMarkers_writes [OF assms(1,2) m] assms(6) by (simp add: s' IsOpaqueInLayer_def norm)
qed

lemma inside_join: "names (ds @ ts) \<Longrightarrow> ds \<noteq> [] \<Longrightarrow> ts \<noteq> [] \<Longrightarrow> IsInsideDirectory (join_with bslash (ds @ ts)) (join_with bslash ds)"
  using join_append_sep [of ds ts bslash] by (auto simp: IsInsideDirectory_def starts_with_iff nth_append)

lemma opaque_ancestor:
  assumes "names (ds @ ts)" "ds \<noteq> []" "IsOpaqueInLayer os w cfg (join_with bslash ds) L"
  shows "LowersBelow os w cfg L (join_with bslash (ds @ ts)) = HiddenByOpaqueMarker"
proof -
  have "join_with bslash ds \<in> set (walked_paths (join_with bslash (ds @ ts)))"
    using assms(2) unfolding walked_paths_join [OF assms(1)]
    by (cases ds) (auto intro!: image_eqI [of _ _ "length ds - 1"])
  then show ?thesis
    using assms(1,3) by (auto simp: LowersBelow_def HasOpaqueSelfOrAncestorInLayer_def AnyDirectoryUpToRoot_def parent_chain_join list_ex_iff)
qed

text \<open>
  C33: An opaque directory hides the lowers. When the marking of a directory as opaque reports
  success, the upper holds an opaque marker of it, and from then on the lookup of a path below it
  that has no upper entry finds nothing, whatever the lowers hold and whatever the cache held for
  that path before.
\<close>

theorem SetOpaque_hides_lowers:
  assumes "creates_plain os" "cloud_failures (CloudFileStatus os)" "tree_like os (engineDisk s) (upperPath cfg)" "cache_inv (engineCache s)"
    and "names (ds @ ts @ [n])" "ds \<noteq> []" "k = join_with bslash (ds @ ts @ [n])"
    and "NormalizePath os (join_with bslash ds) = join_with bslash ds" "NormalizePath os k = k"
    and "IsSafeRelativePath k" "\<not> IsReservedRelativePath os k"
    and "SetOpaque os cfg s (join_with bslash ds) = (s', st)" "NT_SUCCESS st"
    and "GetFileAttributesW os (engineDisk s') (WithExtendedPrefix os (JoinDirPath (upperPath cfg) k)) = Inl e"
  shows "IsOpaque os (engineDisk s') cfg (join_with bslash ds) \<and>
    \<not> Found (snd (ResolvePath os (engineDisk s') cfg now (engineCache s') k))"
proof -
  have nd: "names ds" using assms(5) by simp
  note written = SetOpaque_writes [OF assms(1-3) nd assms(12,13)]
  have inv: "cache_inv (engineCache s')" using written Invalidate_inv [OF assms(4)] by simp
  have inside: "IsInsideDirectory k (join_with bslash ds)" using inside_join [of ds "ts @ [n]"] assms(5-7) by simp
  have miss: "cached (engineCache s') k = None"
    using written assms(8) inside cached_filter [OF assms(4), of "\<lambda>x. \<not> (x = join_with bslash ds \<or> IsInsideDirectory x (join_with bslash ds))" k]
    by (simp add: Invalidate_as_filter)
  have "parent_path k = join_with bslash (ds @ ts)" using assms(5,7) parent_path_join [of "ds @ ts" n] by simp
  then have hidden: "LowersBelow os (engineDisk s') cfg (upperPath cfg) (parent_path k) = HiddenByOpaqueMarker"
    using opaque_ancestor [of ds ts os "engineDisk s'" cfg "upperPath cfg"] assms(5,6) written by simp
  have "k \<noteq> []" using assms(5,7) by (auto simp: join_with_eq_Nil)
  then show ?thesis
    using written hidden ResolvePath_upper_miss [OF inv miss assms(9) _ IsResolvable_plain [OF assms(10,11)] assms(14)]
    by (auto simp: IsOpaque_def whiteout_result_def empty_resolved_def Found_def)
qed


section \<open>On the disk in memory\<close>

lemma mem_shown: "shown mem_host w q = map_option (\<lambda>n. Inr (nodeAttributes n, Inr (nodeTag n))) (map_of w (mem_key q))"
  by (auto simp: shown_def tag_read_def mem_attributes_def mem_open_def mem_get_def split: option.split)

lemma mem_plain_step:
  "plain_step mem_host w w' \<longleftrightarrow>
     (\<forall>q. map_option (\<lambda>n. (nodeAttributes n, nodeTag n)) (map_of w' (mem_key q)) =
          map_option (\<lambda>n. (nodeAttributes n, nodeTag n)) (map_of w (mem_key q)) \<or>
        (case map_of w' (mem_key q) of
           None \<Rightarrow> False
         | Some n \<Rightarrow> nodeAttributes n AND FILE_ATTRIBUTE_REPARSE_POINT = 0 \<and>
             (case map_of w (mem_key q) of None \<Rightarrow> True | Some m \<Rightarrow> plain_file (nodeAttributes m) \<and> plain_file (nodeAttributes n))))"
  unfolding plain_step_def mem_shown
  by (intro arg_cong [where f = All] ext) (auto simp: becomes_plain_def plain_file_def split: option.splits)

lemma mem_create_plain:
  assumes "plain_file a" "mem_create w q a = (w', r)"
  shows "plain_step mem_host w w' \<and> (case r of Inl e \<Rightarrow> call_fails e | Inr h \<Rightarrow> exists_at mem_host w' q)"
proof -
  have p: "x AND (FILE_ATTRIBUTE_DIRECTORY OR FILE_ATTRIBUTE_REPARSE_POINT) = 0 \<Longrightarrow> plain_file x" for x
    by (simp add: plain_file_def bit.conj_disj_distrib or_eq_0_iff)
  have m: "plain_file (a AND 0xFFFF)"
    using assms(1) by (simp add: plain_file_def attribute_defs and.assoc and.commute [of 0xFFFF])
  show ?thesis
    using assms p m
    by (auto simp: mem_create_def mem_plain_step mem_put_def update_conv' exists_at_def mem_attributes_def call_fails_def plain_file_def
        split: option.splits if_splits)
qed

lemma mem_mkdirs_plain: "plain_step mem_host w (mem_mkdirs w ps)"
proof (induction ps arbitrary: w)
  case (Cons p ps)
  have "plain_step mem_host w (mem_put w p mem_dir)" if "mem_key p \<notin> fst ` set w"
  proof -
    have "map_of w (mem_key p) = None" using that by (simp add: map_of_eq_None_iff)
    then show ?thesis by (auto simp: mem_plain_step mem_put_def update_conv' mem_dir_def attribute_defs)
  qed
  then have "plain_step mem_host w (if mem_key p \<in> fst ` set w then w else mem_put w p mem_dir)" by simp
  then show ?case using plain_step_trans Cons.IH by fastforce
qed simp

lemma mem_creates_plain: "creates_plain mem_host"
proof -
  have "plain_step mem_host w (fst (mem_write w h bs))" for w h bs
    by (auto simp: mem_write_def mem_plain_step update_conv' split: option.splits)
  moreover have "SetFileTime mem_host w h t = (w, None)" for w h t by (simp add: mem_host_def)
  moreover have "fst (fs_create_directories mem_host w q) = mem_mkdirs w (mem_directories q)" for w q by (simp add: mem_host_def)
  ultimately show ?thesis
    unfolding creates_plain_def using mem_create_plain mem_mkdirs_plain by simp
qed


definition sample_engine :: "mem_disk engine" where
  "sample_engine = \<lparr>engineDisk = sample_disk, engineCache = new_Cache 4, engineEvents = []\<rparr>"

lemma sample_engine_laws:
  "tree_like mem_host (engineDisk sample_engine) (upperPath sample_config)" "cache_inv (engineCache sample_engine)"
  using sample_disk_laws(1) by (simp_all add: sample_engine_def sample_roots new_Cache_def cache_inv_def)

theorem CreateWhiteout_hides_witness:
  "HasWhiteout mem_host (engineDisk (fst (CreateWhiteout mem_host sample_config sample_engine (wlit ''c'') WhiteoutFile)))
     (wlit ''c'') (upperPath sample_config)"
proof -
  let ?r = "CreateWhiteout mem_host sample_config sample_engine (wlit ''c'') WhiteoutFile"
  have n: "names ([] @ [wlit ''c''])" "wlit ''c'' = join_with bslash ([] @ [wlit ''c''])" by (simp_all add: is_name_def is_slash_def)
  have k: "NormalizePath mem_host (wlit ''c'') = wlit ''c''" "IsSafeRelativePath (wlit ''c'')" "\<not> IsReservedRelativePath mem_host (wlit ''c'')"
    by code_simp+
  have ok: "NT_SUCCESS (snd ?r)" by code_simp
  have gone: "GetFileAttributesW mem_host (engineDisk (fst ?r))
      (WithExtendedPrefix mem_host (JoinDirPath (upperPath sample_config) (wlit ''c''))) = Inl ERROR_FILE_NOT_FOUND" by code_simp
  show ?thesis
    using CreateWhiteout_hides [OF mem_creates_plain mem_cloud sample_engine_laws n k _ _ ok gone, of WhiteoutFile 0] by simp
qed

theorem SetOpaque_hides_lowers_witness:
  "\<not> Found (snd (ResolvePath mem_host (engineDisk (fst (SetOpaque mem_host sidecar_config sample_engine (wlit ''d'')))) sidecar_config 7
     (engineCache (fst (SetOpaque mem_host sidecar_config sample_engine (wlit ''d'')))) (wlit ''d'' @ [bslash] @ wlit ''x'')))"
proof -
  let ?r = "SetOpaque mem_host sidecar_config sample_engine (join_with bslash [wlit ''d''])"
  let ?k = "wlit ''d'' @ [bslash] @ wlit ''x''"
  have n: "names ([wlit ''d''] @ [] @ [wlit ''x''])" "[wlit ''d''] \<noteq> []" "?k = join_with bslash ([wlit ''d''] @ [] @ [wlit ''x''])"
    by (simp_all add: is_name_def is_slash_def)
  have k: "NormalizePath mem_host (join_with bslash [wlit ''d'']) = join_with bslash [wlit ''d'']" "NormalizePath mem_host ?k = ?k"
    "IsSafeRelativePath ?k" "\<not> IsReservedRelativePath mem_host ?k"
    by code_simp+
  have u: "upperPath sidecar_config = upperPath sample_config" by (simp add: sidecar_config_def)
  have ok: "NT_SUCCESS (snd ?r)" by code_simp
  have gone: "GetFileAttributesW mem_host (engineDisk (fst ?r))
      (WithExtendedPrefix mem_host (JoinDirPath (upperPath sidecar_config) ?k)) = Inl ERROR_FILE_NOT_FOUND" by code_simp
  show ?thesis
    using SetOpaque_hides_lowers [OF mem_creates_plain mem_cloud sample_engine_laws(1) [folded u] sample_engine_laws(2) n k _ ok gone, of 7] by simp
qed

text \<open>The disk with a junction \<^verbatim>\<open>j\<close> in the lower.\<close>

definition linked_engine :: "mem_disk engine" where
  "linked_engine = sample_engine\<lparr>engineDisk := (on_disk (JoinDirPath sample_lower (wlit ''j'')), mem_link 0xA0000003 []) # sample_disk\<rparr>"

theorem RemoveWhiteout_clears_witness:
  "\<not> HasWhiteout mem_host (engineDisk (fst (RemoveWhiteout mem_host sample_config sample_engine (wlit ''b'')))) (wlit ''b'') sample_upper \<and>
   HasWhiteout mem_host (engineDisk sample_engine) (wlit ''b'') sample_upper"
proof -
  have law: "deletes_files mem_host"
    by (auto simp: deletes_files_def mem_delete_def exists_at_def mem_attributes_def call_fails_def delete_conv' map_of_eq_None_iff
        dom_map_of_conv_image_fst [symmetric] split: if_splits option.splits)
  have ok: "NT_SUCCESS (snd (RemoveWhiteout mem_host sample_config sample_engine (wlit ''b'')))" by code_simp
  have "HasWhiteout mem_host (engineDisk sample_engine) (wlit ''b'') sample_upper" by code_simp
  then show ?thesis using RemoveWhiteout_clears [OF law mem_cloud surjective_pairing ok] by (simp add: sample_roots)
qed

end
