(* ===== verification/Entry_Copy.thy ===== *)
theory Entry_Copy
  imports Data_Copy Ea_List Whiteout_Ops
begin

text \<open>
  The copy of an entry with what belongs to it (\<^verbatim>\<open>impl/EntryCopy.cpp\<close>, and \<^verbatim>\<open>BuildInContainerAndMove\<close> of
  \<^verbatim>\<open>impl/LayerPath.cpp\<close>): the copy-up record, user streams, extended attributes, compression,
  encryption, security, and the clone of a reparse point. \<open>None\<close> is a loop that needs more rounds than it
  was given, or a stream list whose entries point outside of it.
\<close>

section \<open>Copy-up records\<close>

definition MakeIndexNumber :: "by_handle_info \<Rightarrow> uint64" where
  "MakeIndexNumber info = push_bit 32 (ucast (nFileIndexHigh info)) OR ucast (nFileIndexLow info)"

definition TryGetStableIndexNumberFromHandle :: "('w, 'h) file_io \<Rightarrow> 'w \<Rightarrow> 'h \<Rightarrow> uint64 option" where
  "TryGetStableIndexNumberFromHandle io w h =
     (case GetFileInformationByHandle io w h of Inl e \<Rightarrow> None | Inr info \<Rightarrow> Some (MakeIndexNumber info))"

definition TryGetStableIndexNumberFromPath :: "('w, 'h) host \<Rightarrow> ('w, 'h) file_io \<Rightarrow> 'w \<Rightarrow> wstring \<Rightarrow> 'w \<times> uint64 option" where
  "TryGetStableIndexNumberFromPath os io w path =
     (let extendedPath = WithExtendedPrefix os path in
      case GetFileAttributesW os w extendedPath of
        Inl e \<Rightarrow> (w, None)
      | Inr attrs \<Rightarrow>
          let flags = (if attrs AND FILE_ATTRIBUTE_DIRECTORY \<noteq> 0 then FILE_FLAG_BACKUP_SEMANTICS else 0) OR
                (if attrs AND FILE_ATTRIBUTE_REPARSE_POINT \<noteq> 0 then FILE_FLAG_OPEN_REPARSE_POINT else 0) in
          (case CreateFileW io w extendedPath FILE_READ_ATTRIBUTES kShareAll OPEN_EXISTING flags of
             (w1, Inl e) \<Rightarrow> (w1, None)
           | (w1, Inr h) \<Rightarrow> (CloseHandle io w1 h, TryGetStableIndexNumberFromHandle io w1 h)))"

definition AddSourceFileId :: "('w, 'h) host \<Rightarrow> ('w, 'h) file_io \<Rightarrow> 'w \<Rightarrow> LayerMountMetadata \<Rightarrow> wstring \<Rightarrow> 'w \<times> LayerMountMetadata" where
  "AddSourceFileId os io w metadata sourcePath =
     (case TryGetStableIndexNumberFromPath os io w sourcePath of
        (w1, None) \<Rightarrow> (w1, metadata)
      | (w1, Some index) \<Rightarrow> (w1, metadata\<lparr>hasStableIndexNumber := True, stableIndexNumber := index\<rparr>))"

definition CarriedCopyUpMetadata :: "('w, 'h) host \<Rightarrow> ('w, 'h) file_io \<Rightarrow> 'w \<Rightarrow> wstring \<Rightarrow> LayerConfig \<Rightarrow> 'w \<times> LayerMountMetadata" where
  "CarriedCopyUpMetadata os io w sourcePath cfg =
     (let metadata = ReadLayerMountMetadata os w sourcePath (Some cfg) in
      if \<not> hasStableIndexNumber metadata then AddSourceFileId os io w metadata sourcePath else (w, metadata))"

definition MakeCopyUpMetadata :: "('w, 'h) host \<Rightarrow> ('w, 'h) file_io \<Rightarrow> 'w \<Rightarrow> wstring \<Rightarrow> 'w \<times> LayerMountMetadata" where
  "MakeCopyUpMetadata os io w sourcePath =
     AddSourceFileId os io w
       (default_metadata\<lparr>copyUpTimestamp := SystemTimeAsFileTime io w, originLayer := sourcePath\<rparr>) sourcePath"

datatype CopiedEntryRecord = NewFromSource | CarriedFromSource

definition CopiedEntryMetadata ::
  "('w, 'h) host \<Rightarrow> ('w, 'h) file_io \<Rightarrow> 'w \<Rightarrow> wstring \<Rightarrow> CopiedEntryRecord \<Rightarrow> LayerConfig \<Rightarrow> 'w \<times> LayerMountMetadata" where
  "CopiedEntryMetadata os io w sourcePath record cfg =
     (if record = CarriedFromSource then CarriedCopyUpMetadata os io w sourcePath cfg
      else MakeCopyUpMetadata os io w sourcePath)"

section \<open>Layout\<close>

definition SetCompressed :: "('w, 'h) file_io \<Rightarrow> 'w \<Rightarrow> 'h \<Rightarrow> 'w" where
  "SetCompressed io w handle = fst (FsctlSetCompression io w handle)"

definition SetCompressedDirectory :: "('w, 'h) host \<Rightarrow> ('w, 'h) file_io \<Rightarrow> 'w \<Rightarrow> wstring \<Rightarrow> 'w" where
  "SetCompressedDirectory os io w path =
     (case CreateFileW io w (WithExtendedPrefix os path) (GENERIC_READ OR GENERIC_WRITE) (FILE_SHARE_READ OR FILE_SHARE_WRITE)
             OPEN_EXISTING FILE_FLAG_BACKUP_SEMANTICS of
        (w1, Inl e) \<Rightarrow> w1
      | (w1, Inr handle) \<Rightarrow> CloseHandle io (SetCompressed io w1 handle) handle)"

definition SetCompressedIfSource :: "('w, 'h) file_io \<Rightarrow> 'w \<Rightarrow> 'h \<Rightarrow> dword \<Rightarrow> 'w" where
  "SetCompressedIfSource io w handle srcAttrs =
     (if HasFileAttribute srcAttrs FILE_ATTRIBUTE_COMPRESSED then SetCompressed io w handle else w)"

definition AttributesOrNone :: "dword \<Rightarrow> dword option" where
  "AttributesOrNone attrs = (if attrs = INVALID_FILE_ATTRIBUTES then None else Some attrs)"

text \<open>\<open>None\<close> is success and \<open>Some\<close> the error that \<^verbatim>\<open>GetLastError\<close> then has.\<close>

definition ApplyEncryptedStateIfNeeded :: "('w, 'h) host \<Rightarrow> ('w, 'h) file_io \<Rightarrow> 'w \<Rightarrow> wstring \<Rightarrow> dword \<Rightarrow> 'w \<times> dword option" where
  "ApplyEncryptedStateIfNeeded os io w path attrs =
     (if attrs = INVALID_FILE_ATTRIBUTES \<or> attrs AND FILE_ATTRIBUTE_ENCRYPTED = 0 then (w, None)
      else
        let extendedPath = ForWin32 os path in
        (case EncryptFileW io w extendedPath of
           (w1, None) \<Rightarrow> (w1, None)
         | (w1, Some encryptErr) \<Rightarrow>
             let refused = (w1, Some (if encryptErr \<noteq> 0 then encryptErr else ERROR_ACCESS_DENIED)) in
             (case GetFileAttributesW os w1 extendedPath of
                Inl e \<Rightarrow> refused
              | Inr encryptedAttrs \<Rightarrow> if encryptedAttrs AND FILE_ATTRIBUTE_ENCRYPTED \<noteq> 0 then (w1, None) else refused)))"

definition SetSparse :: "('w, 'h) file_io \<Rightarrow> 'w \<Rightarrow> 'h \<Rightarrow> 'w \<times> dword option" where
  "SetSparse io w handle = FsctlSetSparse io w handle True"

definition SparseRefusalStatus :: "('w, 'h) host \<Rightarrow> dword \<Rightarrow> ntstatus" where
  "SparseRefusalStatus os e = StatusOfFailedCall (CloudFileStatus os) e ERROR_ACCESS_DENIED"

definition OpenSourceFileForCopy :: "('w, 'h) host \<Rightarrow> ('w, 'h) file_io \<Rightarrow> 'w \<Rightarrow> wstring \<Rightarrow> 'w \<times> (dword + 'h)" where
  "OpenSourceFileForCopy os io w path =
     CreateFileW io w (WithExtendedPrefix os path) GENERIC_READ FILE_SHARE_READ OPEN_EXISTING
       (FILE_FLAG_SEQUENTIAL_SCAN OR FILE_FLAG_BACKUP_SEMANTICS)"

section \<open>Streams\<close>

definition CopyAlternateStream ::
  "('w, 'h) host \<Rightarrow> ('w, 'h) file_io \<Rightarrow> nat \<Rightarrow> wstring \<Rightarrow> wstring \<Rightarrow> wstring \<Rightarrow> 'w \<Rightarrow> (ntstatus \<times> 'w) option" where
  "CopyAlternateStream os io n srcPath dstPath streamName w =
     (let srcFull = ForWin32 os srcPath @ streamName; dstFull = ForWin32 os dstPath @ streamName in
      case CreateFileW io w srcFull GENERIC_READ kShareAll OPEN_EXISTING (FILE_FLAG_SEQUENTIAL_SCAN OR FILE_FLAG_BACKUP_SEMANTICS) of
        (w1, Inl e) \<Rightarrow> Some (StatusOfFailedCall (CloudFileStatus os) e ERROR_READ_FAULT, w1)
      | (w1, Inr srcHandle) \<Rightarrow>
          (case CreateFileW io w1 dstFull GENERIC_WRITE kShareAll CREATE_ALWAYS (FILE_ATTRIBUTE_NORMAL OR FILE_FLAG_BACKUP_SEMANTICS) of
             (w2, Inl e) \<Rightarrow> Some (StatusOfFailedCall (CloudFileStatus os) e ERROR_WRITE_FAULT, CloseHandle io w2 srcHandle)
           | (w2, Inr dstHandle) \<Rightarrow>
               map_option
                 (\<lambda>(w3, status).
                    let w4 = CloseHandle io w3 dstHandle;
                        w5 = (if NT_SUCCESS status then w4 else fst (DeleteFileW os w4 dstFull)) in
                    (status, CloseHandle io w5 srcHandle))
                 (CopyBytesToEnd os io n w2 srcHandle dstHandle)))"

definition kInitialStreamListSize :: nat where "kInitialStreamListSize = 64 * 1024"
definition MAXDWORD :: nat where "MAXDWORD = 0xFFFFFFFF"

text \<open>The size of the buffer is the initial size times two to the power \<open>k\<close>.\<close>

function stream_list_loop :: "('w, 'h) host \<Rightarrow> ('w, 'h) file_io \<Rightarrow> 'w \<Rightarrow> 'h \<Rightarrow> nat \<Rightarrow> ntstatus \<times> byte list" where
  "stream_list_loop os io w handle k =
     (let sz = kInitialStreamListSize * 2 ^ k in
      case FileStreamInfo io w handle sz of
        Inr bs \<Rightarrow> (STATUS_SUCCESS, bs)
      | Inl err \<Rightarrow>
          if err = ERROR_HANDLE_EOF then (STATUS_SUCCESS, [])
          else if err \<noteq> ERROR_MORE_DATA then (StatusFromWin32Error (CloudFileStatus os) err ERROR_READ_FAULT, [])
          else if MAXDWORD div 2 < sz then (STATUS_INSUFFICIENT_RESOURCES, [])
          else stream_list_loop os io w handle (Suc k))"
  by pat_completeness auto
termination
proof (relation "measure (\<lambda>(os, io, w, handle, k). 16 - k)")
  fix os io w handle k sz err
  assume "sz = kInitialStreamListSize * 2 ^ k" "\<not> MAXDWORD div 2 < sz"
  then have "\<not> 16 \<le> k"
    using power_increasing [of 16 k "2 :: nat"] by (auto simp: kInitialStreamListSize_def MAXDWORD_def)
  then show "((os, io, w, handle, Suc k), (os, io, w, handle, k)) \<in> measure (\<lambda>(os, io, w, handle, k). 16 - k)" by simp
qed simp

declare stream_list_loop.simps [simp del]

definition ReadStreamList :: "('w, 'h) host \<Rightarrow> ('w, 'h) file_io \<Rightarrow> 'w \<Rightarrow> 'h \<Rightarrow> ntstatus \<times> byte list" where
  "ReadStreamList os io w handle = stream_list_loop os io w handle 0"

definition ReadStreamListOfPath :: "('w, 'h) host \<Rightarrow> ('w, 'h) file_io \<Rightarrow> 'w \<Rightarrow> wstring \<Rightarrow> 'w \<times> ntstatus \<times> byte list" where
  "ReadStreamListOfPath os io w path =
     (case CreateFileW io w (WithExtendedPrefix os path) FILE_READ_ATTRIBUTES kShareAll OPEN_EXISTING FILE_FLAG_BACKUP_SEMANTICS of
        (w1, Inl e) \<Rightarrow> (w1, StatusOfFailedCall (CloudFileStatus os) e ERROR_READ_FAULT, [])
      | (w1, Inr handle) \<Rightarrow> (CloseHandle io w1 handle, ReadStreamList os io w1 handle))"

text \<open>
  The fields of \<^verbatim>\<open>FILE_STREAM_INFO\<close>: the offset of the next entry, the length of the name in bytes, two
  sizes and the name. The code reads a field without a check of the bounds of the list.
\<close>

function for_each_stream ::
  "'a win32_text_scheme \<Rightarrow> byte list \<Rightarrow> (wstring \<Rightarrow> 's \<Rightarrow> (ntstatus \<times> 's) option) \<Rightarrow> nat \<Rightarrow> 's \<Rightarrow> (ntstatus \<times> 's) option" where
  "for_each_stream T bs visit offset s =
     (if length bs < offset + 24 \<or> length bs < offset + 24 + unat (le32 bs (offset + 4)) then None
      else
        let name = utf16_at bs (offset + 24) (unat (le32 bs (offset + 4)) div 2);
            nextOffset = le32 bs offset;
            proceed = (\<lambda>s1. if nextOffset = 0 then Some (STATUS_SUCCESS, s1)
                            else for_each_stream T bs visit (offset + unat nextOffset) s1) in
        if IsUserAlternateStream T name then
          (case visit name s of
             None \<Rightarrow> None
           | Some (status, s1) \<Rightarrow> if \<not> NT_SUCCESS status then Some (status, s1) else proceed s1)
        else proceed s)"
  by pat_completeness auto
termination
  by (relation "measure (\<lambda>(T, bs, visit, offset, s). length bs - offset)")
     (auto simp: unat_gt_0 intro!: diff_less_mono2)

declare for_each_stream.simps [simp del]

definition ForEachUserStream ::
  "'a win32_text_scheme \<Rightarrow> byte list \<Rightarrow> (wstring \<Rightarrow> 's \<Rightarrow> (ntstatus \<times> 's) option) \<Rightarrow> 's \<Rightarrow> (ntstatus \<times> 's) option" where
  "ForEachUserStream T bs visit s = (if bs = [] then Some (STATUS_SUCCESS, s) else for_each_stream T bs visit 0 s)"

definition CopyUserAlternateDataStreams ::
  "('w, 'h) host \<Rightarrow> ('w, 'h) file_io \<Rightarrow> nat \<Rightarrow> 'w \<Rightarrow> wstring \<Rightarrow> wstring \<Rightarrow> ('w \<times> ntstatus) option" where
  "CopyUserAlternateDataStreams os io n w srcPath dstPath =
     (case ReadStreamListOfPath os io w srcPath of
        (w1, listStatus, bs) \<Rightarrow>
          if \<not> NT_SUCCESS listStatus then Some (w1, listStatus)
          else map_option (\<lambda>(status, w2). (w2, status)) (ForEachUserStream os bs (CopyAlternateStream os io n srcPath dstPath) w1))"

text \<open>The last component is \<^verbatim>\<open>*has\<close>, which keeps the caller's value on a failure.\<close>

definition HasUserAlternateDataStream ::
  "('w, 'h) host \<Rightarrow> ('w, 'h) file_io \<Rightarrow> 'w \<Rightarrow> wstring \<Rightarrow> bool \<Rightarrow> ('w \<times> ntstatus \<times> bool) option" where
  "HasUserAlternateDataStream os io w path has =
     (case ReadStreamListOfPath os io w path of
        (w1, listStatus, bs) \<Rightarrow>
          if \<not> NT_SUCCESS listStatus then Some (w1, listStatus, has)
          else
            map_option (\<lambda>(status, found). (w1, status, if NT_SUCCESS status then found else has))
              (ForEachUserStream os bs (\<lambda>name found. Some (STATUS_SUCCESS, True)) False))"

section \<open>Extended attributes\<close>

abbreviation STATUS_NO_EAS_ON_FILE :: ntstatus where "STATUS_NO_EAS_ON_FILE \<equiv> 0xC0000052"
abbreviation STATUS_NO_MORE_EAS :: ntstatus where "STATUS_NO_MORE_EAS \<equiv> 0x80000012"
abbreviation STATUS_PROCEDURE_NOT_FOUND :: ntstatus where "STATUS_PROCEDURE_NOT_FOUND \<equiv> 0xC000007A"

definition kExtendedAttributeBufferSize :: nat where "kExtendedAttributeBufferSize = 64 * 1024"

definition RefusesExtendedAttributes :: "ntstatus \<Rightarrow> bool" where
  "RefusesExtendedAttributes status \<longleftrightarrow>
     status = STATUS_EAS_NOT_SUPPORTED \<or> status = STATUS_NOT_SUPPORTED \<or> status = STATUS_INVALID_DEVICE_REQUEST"

definition kOpenLinkItself :: dword where
  "kOpenLinkItself = FILE_FLAG_OPEN_REPARSE_POINT OR FILE_FLAG_BACKUP_SEMANTICS"

text \<open>The destination is opened once, before the first write; \<open>dst\<close> is its handle.\<close>

fun ea_copy_loop ::
  "('w, 'h) host \<Rightarrow> ('w, 'h) file_io \<Rightarrow> nat \<Rightarrow> 'h \<Rightarrow> wstring \<Rightarrow> dword \<Rightarrow> 'h option \<Rightarrow> 'w \<Rightarrow> ('w \<times> ntstatus \<times> 'h option) option" where
  "ea_copy_loop os io 0 srcHandle dstPath nextIndex dst w = None"
| "ea_copy_loop os io (Suc n) srcHandle dstPath nextIndex dst w =
     (let firstQuery = (nextIndex = 1) in
      case NtQueryEaFile io w srcHandle kExtendedAttributeBufferSize (if firstQuery then None else Some nextIndex) firstQuery of
        (w1, readStatus, buffer) \<Rightarrow>
          if readStatus = STATUS_NO_EAS_ON_FILE \<or> readStatus = STATUS_NO_MORE_EAS \<or> RefusesExtendedAttributes readStatus
          then Some (w1, STATUS_SUCCESS, dst)
          else if \<not> NT_SUCCESS readStatus \<and> readStatus \<noteq> STATUS_BUFFER_OVERFLOW then Some (w1, readStatus, dst)
          else if buffer = [] then Some (w1, STATUS_SUCCESS, dst)
          else
            let nextIndex1 = nextIndex + of_nat (FullEaEntryCount buffer);
                settable = ExtendedAttributesUserModeCanSet buffer in
            if settable = [] then ea_copy_loop os io n srcHandle dstPath nextIndex1 dst w1
            else
              (case (case dst of
                       Some h \<Rightarrow> (w1, Inr h)
                     | None \<Rightarrow> CreateFileW io w1 (WithExtendedPrefix os dstPath) FILE_WRITE_EA kShareAll OPEN_EXISTING kOpenLinkItself) of
                 (w2, Inl e) \<Rightarrow> Some (w2, StatusOfFailedCall (CloudFileStatus os) e ERROR_WRITE_FAULT, None)
               | (w2, Inr h) \<Rightarrow>
                   (case NtSetEaFile io w2 h settable of
                      (w3, writeStatus) \<Rightarrow>
                        if RefusesExtendedAttributes writeStatus then Some (w3, STATUS_SUCCESS, Some h)
                        else if \<not> NT_SUCCESS writeStatus then Some (w3, writeStatus, Some h)
                        else ea_copy_loop os io n srcHandle dstPath nextIndex1 (Some h) w3)))"

definition CopyExtendedAttributes ::
  "('w, 'h) host \<Rightarrow> ('w, 'h) file_io \<Rightarrow> nat \<Rightarrow> 'w \<Rightarrow> wstring \<Rightarrow> wstring \<Rightarrow> ('w \<times> ntstatus) option" where
  "CopyExtendedAttributes os io n w srcPath dstPath =
     (if \<not> hasEaExports io then Some (w, STATUS_PROCEDURE_NOT_FOUND)
      else
        (case CreateFileW io w (WithExtendedPrefix os srcPath) FILE_READ_EA kShareAll OPEN_EXISTING kOpenLinkItself of
           (w1, Inl e) \<Rightarrow> Some (w1, StatusOfFailedCall (CloudFileStatus os) e ERROR_READ_FAULT)
         | (w1, Inr srcHandle) \<Rightarrow>
             map_option
               (\<lambda>(w2, status, dst). (CloseHandle io (case dst of None \<Rightarrow> w2 | Some h \<Rightarrow> CloseHandle io w2 h) srcHandle, status))
               (ea_copy_loop os io n srcHandle dstPath 1 None w1)))"

definition CopyDirectoryOwnMetadata ::
  "('w, 'h) host \<Rightarrow> ('w, 'h) file_io \<Rightarrow> nat \<Rightarrow> 'w \<Rightarrow> wstring \<Rightarrow> wstring \<Rightarrow> ('w \<times> ntstatus) option" where
  "CopyDirectoryOwnMetadata os io n w srcAbs dstAbs =
     (let srcAttrs = attributes_at os w srcAbs;
          (w2, encrypted) =
            (if srcAttrs = INVALID_FILE_ATTRIBUTES then (w, None)
             else
               let w1 = (if HasFileAttribute srcAttrs FILE_ATTRIBUTE_COMPRESSED then SetCompressedDirectory os io w dstAbs else w) in
               ApplyEncryptedStateIfNeeded os io w1 dstAbs srcAttrs) in
      case encrypted of
        Some e \<Rightarrow> Some (w2, StatusOfFailedCall (CloudFileStatus os) e ERROR_ACCESS_DENIED)
      | None \<Rightarrow>
          (case CopyUserAlternateDataStreams os io n w2 srcAbs dstAbs of
             None \<Rightarrow> None
           | Some (w3, streamStatus) \<Rightarrow>
               if \<not> NT_SUCCESS streamStatus then Some (w3, streamStatus) else CopyExtendedAttributes os io n w3 srcAbs dstAbs))"

section \<open>Clones of reparse points\<close>

definition CopyUpReparsePointEntry ::
  "('w, 'h) host \<Rightarrow> ('w, 'h) file_io \<Rightarrow> 'w \<Rightarrow> wstring \<Rightarrow> wstring \<Rightarrow> dword \<Rightarrow> 'w \<times> ntstatus" where
  "CopyUpReparsePointEntry os io w srcAbsolute dstAbsolute srcAttrs =
     (case CreateFileW io w (WithExtendedPrefix os srcAbsolute) FILE_READ_ATTRIBUTES kShareAll OPEN_EXISTING kOpenLinkItself of
        (w1, Inl e) \<Rightarrow> (w1, StatusOfFailedCall (CloudFileStatus os) e ERROR_READ_FAULT)
      | (w1, Inr srcH) \<Rightarrow>
          (case GetReparsePoint os w1 srcH of
             Inl err \<Rightarrow> (CloseHandle io w1 srcH, StatusFromWin32Error (CloudFileStatus os) err ERROR_READ_FAULT)
           | Inr reparseBuf \<Rightarrow>
               let w2 = CloseHandle io w1 srcH;
                   extendedDst = WithExtendedPrefix os dstAbsolute;
                   (w3, created) =
                     (if srcAttrs AND FILE_ATTRIBUTE_DIRECTORY \<noteq> 0 then CreateDirectoryOrUseExisting os w2 dstAbsolute
                      else
                        (case CreateFileW io w2 extendedDst GENERIC_WRITE 0 CREATE_ALWAYS FILE_ATTRIBUTE_NORMAL of
                           (w3, Inl e) \<Rightarrow> (w3, StatusOfFailedCall (CloudFileStatus os) e ERROR_WRITE_FAULT)
                         | (w3, Inr dstCreate) \<Rightarrow> (CloseHandle io w3 dstCreate, STATUS_SUCCESS))) in
               if \<not> NT_SUCCESS created then (w3, created)
               else
                 (case CreateFileW io w3 extendedDst FILE_WRITE_ATTRIBUTES kShareAll OPEN_EXISTING kOpenLinkItself of
                    (w4, Inl e) \<Rightarrow> (w4, StatusOfFailedCall (CloudFileStatus os) e ERROR_WRITE_FAULT)
                  | (w4, Inr dstH) \<Rightarrow>
                      (case FsctlSetReparsePoint io w4 dstH reparseBuf of
                         (w5, Some err) \<Rightarrow> (CloseHandle io w5 dstH, StatusFromWin32Error (CloudFileStatus os) err ERROR_WRITE_FAULT)
                       | (w5, None) \<Rightarrow> (CloseHandle io w5 dstH, STATUS_SUCCESS)))))"

datatype NewUpperEntryKind = NewFile | NewDirectory

definition NewUpperEntryKindOf :: "dword \<Rightarrow> NewUpperEntryKind" where
  "NewUpperEntryKindOf attrs = (if attrs AND FILE_ATTRIBUTE_DIRECTORY \<noteq> 0 then NewDirectory else NewFile)"

definition RemoveNewUpperEntry :: "('w, 'h) host \<Rightarrow> 'w \<Rightarrow> wstring \<Rightarrow> NewUpperEntryKind \<Rightarrow> 'w" where
  "RemoveNewUpperEntry os w path kind =
     (let extendedPath = WithExtendedPrefix os path in
      fst (if kind = NewDirectory then RemoveDirectoryW os w extendedPath else DeleteFileW os w extendedPath))"

definition WriteCopyUpRecordOrRemoveEntry ::
  "('w, 'h) host \<Rightarrow> ('w, 'h) file_io \<Rightarrow> 'w \<Rightarrow> wstring \<Rightarrow> LayerMountMetadata \<Rightarrow> NewUpperEntryKind \<Rightarrow> LayerConfig \<Rightarrow> 'w \<times> ntstatus" where
  "WriteCopyUpRecordOrRemoveEntry os io w path metadata kind cfg =
     (case WriteLayerMountMetadata os w path metadata (Some cfg) of
        (w1, True) \<Rightarrow> (w1, STATUS_SUCCESS)
      | (w1, False) \<Rightarrow>
          (RemoveNewUpperEntry os w1 path kind, StatusFromWin32Error (CloudFileStatus os) (GetLastError io w1) ERROR_WRITE_FAULT))"

record SourceEntry =
  sourceEntryPath :: wstring
  sourceEntryAttributes :: dword

definition CloneReparsePointWithCopyUpRecord ::
  "('w, 'h) host \<Rightarrow> ('w, 'h) file_io \<Rightarrow> nat \<Rightarrow> 'w \<Rightarrow> SourceEntry \<Rightarrow> wstring \<Rightarrow> CopiedEntryRecord \<Rightarrow> LayerConfig \<Rightarrow> ('w \<times> ntstatus) option" where
  "CloneReparsePointWithCopyUpRecord os io n w entry dstAbsolute record cfg =
     (let kind = NewUpperEntryKindOf (sourceEntryAttributes entry);
          (w1, cloned) = CopyUpReparsePointEntry os io w (sourceEntryPath entry) dstAbsolute (sourceEntryAttributes entry) in
      case (if NT_SUCCESS cloned then CopyExtendedAttributes os io n w1 (sourceEntryPath entry) dstAbsolute else Some (w1, cloned)) of
        None \<Rightarrow> None
      | Some (w2, status) \<Rightarrow>
          if \<not> NT_SUCCESS status then Some (RemoveNewUpperEntry os w2 dstAbsolute kind, status)
          else
            let (w3, metadata) = CopiedEntryMetadata os io w2 (sourceEntryPath entry) record cfg in
            Some (WriteCopyUpRecordOrRemoveEntry os io w3 dstAbsolute metadata kind cfg))"

section \<open>Attributes and security\<close>

definition WriteOwnAttributes :: "('w, 'h) host \<Rightarrow> ('w, 'h) file_io \<Rightarrow> 'w \<Rightarrow> wstring \<Rightarrow> dword \<Rightarrow> 'w \<times> dword option" where
  "WriteOwnAttributes os io w path attrs =
     (case CreateFileW io w (WithExtendedPrefix os path) FILE_WRITE_ATTRIBUTES kShareAll OPEN_EXISTING
             (FILE_FLAG_BACKUP_SEMANTICS OR FILE_FLAG_OPEN_REPARSE_POINT) of
        (w1, Inl e) \<Rightarrow> (w1, Some e)
      | (w1, Inr handle) \<Rightarrow>
          let settable = FILE_ATTRIBUTE_READONLY OR FILE_ATTRIBUTE_HIDDEN OR FILE_ATTRIBUTE_SYSTEM OR FILE_ATTRIBUTE_ARCHIVE OR
                FILE_ATTRIBUTE_TEMPORARY OR FILE_ATTRIBUTE_OFFLINE OR FILE_ATTRIBUTE_NOT_CONTENT_INDEXED OR
                FILE_ATTRIBUTE_NO_SCRUB_DATA OR FILE_ATTRIBUTE_PINNED OR FILE_ATTRIBUTE_UNPINNED OR FILE_ATTRIBUTE_DIRECTORY;
              kept = attrs AND settable;
              (w2, r) = SetAttributesByHandle os w1 handle (if kept \<noteq> 0 then kept else FILE_ATTRIBUTE_NORMAL) in
          (CloseHandle io w2 handle, r))"

definition OWNER_SECURITY_INFORMATION :: dword where "OWNER_SECURITY_INFORMATION = 0x1"
definition GROUP_SECURITY_INFORMATION :: dword where "GROUP_SECURITY_INFORMATION = 0x2"
definition DACL_SECURITY_INFORMATION :: dword where "DACL_SECURITY_INFORMATION = 0x4"
definition SACL_SECURITY_INFORMATION :: dword where "SACL_SECURITY_INFORMATION = 0x8"
definition PROTECTED_DACL_SECURITY_INFORMATION :: dword where "PROTECTED_DACL_SECURITY_INFORMATION = 0x80000000"
definition PROTECTED_SACL_SECURITY_INFORMATION :: dword where "PROTECTED_SACL_SECURITY_INFORMATION = 0x40000000"

text \<open>\<open>securityPrivilege\<close> is what \<^verbatim>\<open>IsSecurityPrivilegeHeld\<close> found at its first call.\<close>

definition DropSaclWithoutPrivilege :: "('w, 'h) file_io \<Rightarrow> dword \<Rightarrow> dword" where
  "DropSaclWithoutPrivilege io info = (if securityPrivilege io then info else info AND NOT SACL_SECURITY_INFORMATION)"

definition WriteSecurityToInheritAs :: "('w, 'h) host \<Rightarrow> ('w, 'h) file_io \<Rightarrow> 'w \<Rightarrow> wstring \<Rightarrow> wstring \<Rightarrow> 'w \<times> ntstatus" where
  "WriteSecurityToInheritAs os io w dirAbs parentAbs =
     (let lists = DropSaclWithoutPrivilege io (DACL_SECURITY_INFORMATION OR SACL_SECURITY_INFORMATION) in
      case GetNamedSecurityInfoW io w (WithExtendedPrefix os parentAbs) lists of
        Inl readError \<Rightarrow> (w, nt_status os readError)
      | Inr parentLists \<Rightarrow>
          let protection = (if lists AND SACL_SECURITY_INFORMATION \<noteq> 0
                then PROTECTED_DACL_SECURITY_INFORMATION OR PROTECTED_SACL_SECURITY_INFORMATION
                else PROTECTED_DACL_SECURITY_INFORMATION);
              (w1, writeError) = SetNamedSecurityInfoW io w (WithExtendedPrefix os dirAbs) (lists OR protection) parentLists in
          (w1, if writeError \<noteq> ERROR_SUCCESS then nt_status os writeError else STATUS_SUCCESS))"

section \<open>Entries built in a container (LayerPath.cpp)\<close>

definition BuildInContainerAndMove ::
  "('w, 'h) host \<Rightarrow> ('w, 'h) file_io \<Rightarrow> nat \<Rightarrow> 'w \<Rightarrow> LayerConfig \<Rightarrow> wstring \<Rightarrow> wstring \<Rightarrow> ('w \<Rightarrow> wstring \<Rightarrow> ('w \<times> ntstatus) option) \<Rightarrow>
     ('w \<times> ntstatus) option" where
  "BuildInContainerAndMove os io n w cfg containerPath path build =
     (let stagedPath = containerPath @ [bslash] @ wlit ''entry'';
          (w1, prepared) =
            (case CreateDirectoryW os w (ForWin32 os containerPath) of
               (w1, None) \<Rightarrow> WriteSecurityToInheritAs os io w1 containerPath (parent_path path)
             | (w1, Some e) \<Rightarrow> (w1, StatusOfFailedCall (CloudFileStatus os) e ERROR_WRITE_FAULT)) in
      case (if NT_SUCCESS prepared then build w1 stagedPath else Some (w1, prepared)) of
        None \<Rightarrow> None
      | Some (w2, built) \<Rightarrow>
          (case (if NT_SUCCESS built
                 then map_option (\<lambda>(w3, move). (w3, moveStatus move)) (MoveUpperEntry os n w2 cfg stagedPath path ReplaceNo)
                 else Some (w2, built)) of
             None \<Rightarrow> None
           | Some (w3, status) \<Rightarrow> map_option (\<lambda>(w4, failure). (w4, status)) (RemoveStagedEntry os n w3 cfg containerPath)))"

definition CloneReparsePointThroughWorkDir ::
  "('w, 'h) host \<Rightarrow> ('w, 'h) file_io \<Rightarrow> nat \<Rightarrow> 'w \<Rightarrow> SourceEntry \<Rightarrow> wstring \<Rightarrow> wstring \<Rightarrow> CopiedEntryRecord \<Rightarrow> LayerConfig \<Rightarrow>
     ('w \<times> ntstatus) option" where
  "CloneReparsePointThroughWorkDir os io n w entry containerPath path record cfg =
     BuildInContainerAndMove os io n w cfg containerPath path
       (\<lambda>w1 stagedPath. CloneReparsePointWithCopyUpRecord os io n w1 entry stagedPath record cfg)"

end
