(* ===== verification/Rename_Steps.thy ===== *)
theory Rename_Steps
  imports Whiteout_Ops
begin

text \<open>
  The steps of a rename and of a removal that combine the upper moves with the markers: the undo of
  a rename (\<^verbatim>\<open>impl/RenameRollback.cpp\<close>), the check against links (\<^verbatim>\<open>impl/RenameLinkBoundary.cpp\<close>) and the
  removal of an entry from the merged view (\<^verbatim>\<open>impl/UpperEntryRemover.cpp\<close>). \<open>n\<close> is the depth of the
  walks over moved trees.
\<close>

section \<open>Data (RenameResult.h, RenameLinkBoundary.h)\<close>

datatype UndoOpaqueMarker = UndoKeep | UndoRemove

record UpperRename =
  oldNorm :: wstring
  newNorm :: wstring
  oldUpperPath :: wstring
  opaqueMarker :: UndoOpaqueMarker

record RenameStepResult =
  stepStatus :: ntstatus
  newNameOccupied :: bool

record RenameLinks =
  sourceInLinkTarget :: bool
  destinationInLinkTarget :: bool
  lowerLinkToCopyUp :: "wstring option"

section \<open>Undo (RenameRollback.cpp)\<close>

definition E_FAIL :: "32 word" where "E_FAIL = 0x80004005"

definition WarnRecordLeftBehind :: "'w engine \<Rightarrow> UpperEntryMove \<Rightarrow> wstring \<Rightarrow> 'w engine" where
  "WarnRecordLeftBehind s move relativePath =
     (if NT_SUCCESS (recordLeftBehind move) then s
      else Emit s LM_EVT_WARNING (HresultFromNtStatus (recordLeftBehind move)) relativePath
        (wlit ''A sidecar record did not move with its entry''))"

definition WarnUndoFailed :: "'w engine \<Rightarrow> 32 word \<Rightarrow> wstring \<Rightarrow> wstring \<Rightarrow> 'w engine" where
  "WarnUndoFailed s failure relativePath message = Emit s LM_EVT_WARNING failure relativePath message"

definition MoveBack ::
  "('w, 'h) host \<Rightarrow> nat \<Rightarrow> LayerConfig \<Rightarrow> 'w engine \<Rightarrow> UpperRename \<Rightarrow> ('w engine \<times> ntstatus) option" where
  "MoveBack os n cfg s rename =
     (case MoveUpperEntry os n (engineDisk s) cfg (GetStoredUpperPath os (engineDisk s) cfg (newNorm rename))
             (oldUpperPath rename) ReplaceNo of
        None \<Rightarrow> None
      | Some (w1, move) \<Rightarrow>
          let moveBack = moveStatus move;
              s1 = WarnRecordLeftBehind (s\<lparr>engineDisk := w1\<rparr>) move (if NT_SUCCESS moveBack then oldNorm rename else newNorm rename);
              s2 =
                (if NT_SUCCESS moveBack \<and> opaqueMarker rename = UndoRemove
                 then
                   let (s2, removed) = RemoveOpaque os cfg s1 (oldNorm rename) in
                   if removed then s2
                   else WarnUndoFailed s2 E_FAIL (oldNorm rename)
                          (wlit ''The undo of a failed rename could not remove the opaque marker it wrote'')
                 else s1);
              c1 = InvalidateWithAncestors os (engineCache s2) (oldNorm rename);
              c2 = InvalidateWithAncestors os c1 (newNorm rename) in
          Some (s2\<lparr>engineCache := c2\<rparr>, moveBack))"

definition WhiteOutSource ::
  "('w, 'h) host \<Rightarrow> nat \<Rightarrow> LayerConfig \<Rightarrow> 'w engine \<Rightarrow> UpperRename \<Rightarrow> WhiteoutType \<Rightarrow> ('w engine \<times> RenameStepResult) option" where
  "WhiteOutSource os n cfg s rename type =
     (case CreateWhiteout os cfg s (oldNorm rename) type of
        (s1, whiteout) \<Rightarrow>
          if NT_SUCCESS whiteout then Some (s1, \<lparr>stepStatus = STATUS_SUCCESS, newNameOccupied = False\<rparr>)
          else
            (case MoveBack os n cfg s1 rename of
               None \<Rightarrow> None
             | Some (s2, moveBack) \<Rightarrow>
                 if NT_SUCCESS moveBack then Some (s2, \<lparr>stepStatus = whiteout, newNameOccupied = False\<rparr>)
                 else
                   let s3 = WarnUndoFailed s2 (HresultFromNtStatus moveBack) (newNorm rename)
                              (wlit ''The undo of a failed rename could not move the entry back'');
                       (s4, destinationWhiteout) = RemoveWhiteout os cfg s3 (newNorm rename);
                       s5 =
                         (if NT_SUCCESS destinationWhiteout then s4
                          else WarnUndoFailed s4 (HresultFromNtStatus destinationWhiteout) (newNorm rename)
                                 (wlit ''The undo of a failed rename could not remove the whiteout at the new name'')) in
                   Some (s5, \<lparr>stepStatus = whiteout, newNameOccupied = True\<rparr>)))"

definition RemoveDestinationWhiteoutOrUndo ::
  "('w, 'h) host \<Rightarrow> nat \<Rightarrow> LayerConfig \<Rightarrow> 'w engine \<Rightarrow> UpperRename \<Rightarrow> ('w engine \<times> RenameStepResult) option" where
  "RemoveDestinationWhiteoutOrUndo os n cfg s rename =
     (case RemoveWhiteout os cfg s (newNorm rename) of
        (s1, removeStatus) \<Rightarrow>
          if NT_SUCCESS removeStatus then Some (s1, \<lparr>stepStatus = STATUS_SUCCESS, newNameOccupied = False\<rparr>)
          else
            (case MoveBack os n cfg s1 rename of
               None \<Rightarrow> None
             | Some (s2, moveBack) \<Rightarrow>
                 if \<not> NT_SUCCESS moveBack
                 then
                   Some (WarnUndoFailed s2 (HresultFromNtStatus moveBack) (newNorm rename)
                           (wlit ''The undo of a failed rename could not move the entry back''),
                         \<lparr>stepStatus = removeStatus, newNameOccupied = True\<rparr>)
                 else
                   let (s3, sourceWhiteout) = RemoveWhiteout os cfg s2 (oldNorm rename);
                       s4 =
                         (if NT_SUCCESS sourceWhiteout then s3
                          else WarnUndoFailed s3 (HresultFromNtStatus sourceWhiteout) (oldNorm rename)
                                 (wlit ''The undo of a failed rename could not remove the whiteout at the old name'')) in
                   Some (s4, \<lparr>stepStatus = removeStatus, newNameOccupied = False\<rparr>)))"

section \<open>Links (RenameLinkBoundary.cpp)\<close>

definition ShownParentTarget ::
  "('w, 'h) host \<Rightarrow> 'w \<Rightarrow> LayerConfig \<Rightarrow> int \<Rightarrow> Cache \<Rightarrow> wstring \<Rightarrow> Cache \<times> LinkTargetKind \<times> ntstatus" where
  "ShownParentTarget os w cfg now c normalizedPath =
     (let parent = ParentOfNormalizedPath normalizedPath in
      if parent = [] then (c, TargetDirectory, STATUS_SUCCESS)
      else let (c1, r) = ResolvePath os w cfg now c parent in (c1, ShownLinkTarget os w r))"

text \<open>\<open>links\<close> is the caller's structure, which a refused rename leaves alone.\<close>

definition CheckRenameLinkBoundary ::
  "('w, 'h) host \<Rightarrow> 'w \<Rightarrow> LayerConfig \<Rightarrow> int \<Rightarrow> Cache \<Rightarrow> wstring \<Rightarrow> wstring \<Rightarrow> RenameLinks \<Rightarrow> Cache \<times> ntstatus \<times> RenameLinks" where
  "CheckRenameLinkBoundary os w cfg now c oldPath newPath links =
     (let sourceLink = FindLinkAbove os w cfg oldPath; destination = FindLinkAbove os w cfg newPath in
      if linkStop sourceLink = LinkStopUnreadable \<or> linkStop destination = LinkStopUnreadable then (c, STATUS_ACCESS_DENIED, links)
      else
        let links1 = \<lparr>sourceInLinkTarget = (linkStop sourceLink = LinkStopLink),
                      destinationInLinkTarget = (linkStop destination = LinkStopLink), lowerLinkToCopyUp = None\<rparr>;
            sameLink = (linkStop sourceLink = linkStop destination \<and> linkPath sourceLink = linkPath destination);
            withinLowerLink = (sameLink \<and> linkStop sourceLink = LinkStopLink \<and> linkSource sourceLink = Lower) in
        if sameLink \<and> \<not> withinLowerLink then (c, STATUS_SUCCESS, links1)
        else
          (case ShownParentTarget os w cfg now c newPath of
             (c1, TargetNoDirectory, _) \<Rightarrow> (c1, STATUS_SUCCESS, links1)
           | (c1, TargetFailed, failure) \<Rightarrow> (c1, failure, links1)
           | (c1, TargetDirectory, _) \<Rightarrow>
               if \<not> sameLink then (c1, STATUS_NOT_SAME_DEVICE, links1)
               else (c1, STATUS_SUCCESS, links1\<lparr>lowerLinkToCopyUp := Some (linkPath sourceLink)\<rparr>)))"

section \<open>Removal from the view (UpperEntryRemover.cpp)\<close>

text \<open>The part on the upper entry; a failure ends the removal.\<close>

definition remove_upper_part ::
  "('w, 'h) host \<Rightarrow> nat \<Rightarrow> LayerConfig \<Rightarrow> 'w engine \<Rightarrow> wstring \<Rightarrow> ('w engine \<times> ntstatus) option" where
  "remove_upper_part os n cfg s normalized =
     (let upper = GetUpperPath os cfg normalized;
          (probe, upperExists, kind) = ProbeUpperEntry os (engineDisk s) upper FileEntry in
      if \<not> NT_SUCCESS probe then Some (s, probe)
      else if \<not> upperExists then Some (s, STATUS_SUCCESS)
      else
        let s1 = (if kind \<noteq> FileEntry \<and> IsOpaque os (engineDisk s) cfg normalized
                  then fst (RemoveOpaque os cfg s normalized) else s) in
        (case RemoveUpperEntryOfKind os n (engineDisk s1) cfg upper kind of
           None \<Rightarrow> None
         | Some (w2, removal) \<Rightarrow>
             let s2 = s1\<lparr>engineDisk := w2\<rparr> in
             if \<not> NT_SUCCESS removal
             then Some (s2\<lparr>engineCache := InvalidateWithAncestors os (engineCache s2) normalized\<rparr>, removal)
             else Some (s2, STATUS_SUCCESS)))"

definition Remove ::
  "('w, 'h) host \<Rightarrow> nat \<Rightarrow> LayerConfig \<Rightarrow> int \<Rightarrow> 'w engine \<Rightarrow> wstring \<Rightarrow> ('w engine \<times> ntstatus) option" where
  "Remove os n cfg now s normalized =
     (let (c1, r) = ResolvePath os (engineDisk s) cfg now (engineCache s) normalized;
          s1 = s\<lparr>engineCache := c1\<rparr>;
          isDirectory = (Found r \<and> attributes r AND FILE_ATTRIBUTE_DIRECTORY \<noteq> 0);
          lowerHasIt = Found (ResolveLowerPath os (engineDisk s) cfg normalized) in
      case remove_upper_part os n cfg s1 normalized of
        None \<Rightarrow> None
      | Some (s2, removal) \<Rightarrow>
          if \<not> NT_SUCCESS removal then Some (s2, removal)
          else
            let (s3, whiteout) =
                  (if lowerHasIt
                   then CreateWhiteout os cfg s2 normalized (if isDirectory then WhiteoutDirectory else WhiteoutFile)
                   else (s2, STATUS_SUCCESS)) in
            Some (s3\<lparr>engineCache := InvalidateWithAncestors os (engineCache s3) normalized\<rparr>,
                  if NT_SUCCESS whiteout then STATUS_SUCCESS else whiteout))"


section \<open>Where the undo leaves the entry\<close>

lemma engine_emits [simp]:
  "engineDisk (Emit s t h p m) = engineDisk s" "engineDisk (WarnUndoFailed s h p m) = engineDisk s"
  "engineDisk (WarnRecordLeftBehind s mv p) = engineDisk s"
  by (simp_all add: Emit_def WarnUndoFailed_def WarnRecordLeftBehind_def)

text \<open>The files that the removals of whiteouts and of an opaque marker delete, the sidecar records apart.\<close>

definition opaque_files :: "('w, 'h) host \<Rightarrow> LayerConfig \<Rightarrow> wstring \<Rightarrow> wstring set" where
  "opaque_files os cfg p =
     (let d = JoinDirPath (upperPath cfg) (NormalizePathPreserveCase p) in
      {ExtendedStreamPath os d kOpaqueADSStream, WithExtendedPrefix os (JoinDirPath d kOpaqueMarkerFile)})"

definition marker_files :: "('w, 'h) host \<Rightarrow> LayerConfig \<Rightarrow> UpperRename \<Rightarrow> wstring set" where
  "marker_files os cfg rename =
     {WithExtendedPrefix os (GetWhiteoutFullPath (upperPath cfg) (oldNorm rename)),
      WithExtendedPrefix os (GetWhiteoutFullPath (upperPath cfg) (newNorm rename))} \<union> opaque_files os cfg (oldNorm rename)"

text \<open>A delete of another file does not remove the entry at \<open>p\<close>.\<close>

definition deletes_apart :: "('w, 'h) host \<Rightarrow> wstring \<Rightarrow> wstring set \<Rightarrow> bool" where
  "deletes_apart os p Q \<longleftrightarrow> (\<forall>w. \<forall>q \<in> Q. exists_at os (fst (DeleteFileW os w q)) p = exists_at os w p)"

lemma deletes_apartD: "deletes_apart os p Q \<Longrightarrow> q \<in> Q \<Longrightarrow> exists_at os (fst (DeleteFileW os w q)) p = exists_at os w p"
  by (simp add: deletes_apart_def)

lemma RemoveWhiteout_keeps:
  assumes "deletes_apart os p Q" "WithExtendedPrefix os (GetWhiteoutFullPath (upperPath cfg) k) \<in> Q"
  shows "exists_at os (engineDisk (fst (RemoveWhiteout os cfg s k))) p = exists_at os (engineDisk s) p"
  using deletes_apartD [OF assms, of "engineDisk s"]
  by (auto simp: RemoveWhiteout_def Let_def split: LinkOnPath.split prod.split option.split)

lemma RemoveOpaque_keeps:
  assumes "deletes_apart os p Q" "opaque_files os cfg k \<subseteq> Q" "records_apart os (upperPath cfg) p"
  shows "exists_at os (engineDisk (fst (RemoveOpaque os cfg s k))) p = exists_at os (engineDisk s) p"
proof -
  let ?d = "JoinDirPath (upperPath cfg) (NormalizePathPreserveCase k)"
  have q: "ExtendedStreamPath os ?d kOpaqueADSStream \<in> Q" "WithExtendedPrefix os (JoinDirPath ?d kOpaqueMarkerFile) \<in> Q"
    using assms(2) by (auto simp: opaque_files_def Let_def)
  have ads: "exists_at os (fst (RemoveOpaqueAdsOnly os w ?d)) p = exists_at os w p" for w
    using deletes_apartD [OF assms(1) q(1), of w] by (auto simp: RemoveOpaqueAdsOnly_def split: prod.split option.split)
  have meta: "exists_at os (fst (RemoveOpaqueMetadata os w ?d (Some cfg))) p = exists_at os w p" for w
    using ads [of w] Sidecar_removes_keep(2) [OF assms(3)] by (simp add: RemoveOpaqueMetadata_def case_prod_beta Let_def)
  have mark: "exists_at os (fst (DeleteMarkerFile os w (JoinDirPath ?d kOpaqueMarkerFile))) p = exists_at os w p" for w
    using deletes_apartD [OF assms(1) q(2), of w] by (auto simp: DeleteMarkerFile_def split: prod.split option.split)
  show ?thesis using meta mark by (simp add: RemoveOpaque_def case_prod_beta Let_def)
qed

lemma SetOpaque_plain:
  assumes "creates_plain os" "cloud_failures (CloudFileStatus os)"
  shows "plain_step os (engineDisk s) (engineDisk (fst (SetOpaque os cfg s p)))"
proof -
  have "plain_step os w (fst (WriteOpaqueMarkers os cfg w d))" for w d
    using WriteOpaqueMarkers_writes [OF assms, of cfg w d] by (cases "WriteOpaqueMarkers os cfg w d") simp
  then have "plain_step os w (fst (WriteOpaqueMarkers os cfg (fst (EnsureDirectoryExists os w q)) d))" for w q d
    using plain_step_trans [OF EnsureDirectoryExists_plain [OF assms(1)]] by blast
  then show ?thesis by (simp add: SetOpaque_def case_prod_beta Let_def)
qed

lemma CreateWhiteout_plain:
  assumes "creates_plain os" "cloud_failures (CloudFileStatus os)"
  shows "plain_step os (engineDisk s) (engineDisk (fst (CreateWhiteout os cfg s p type)))"
proof -
  have mark: "plain_step os w (fst (CreateHiddenMarkerFile os w d))" for w d
    using CreateHiddenMarkerFile_creates(1) [OF assms(1), of w d] by (cases "CreateHiddenMarkerFile os w d") simp
  have "plain_step os w (fst (CreateHiddenMarkerFile os (fst (EnsureDirectoryExists os w q)) d))" for w q d
    by (rule plain_step_trans [OF EnsureDirectoryExists_plain [OF assms(1)] mark])
  then show ?thesis using mark SetOpaque_plain [OF assms]
    by (simp add: CreateWhiteout_def case_prod_beta Let_def)
qed

text \<open>What the theorem below relies on for one of the two places of the entry.\<close>

definition undo_apart :: "('w, 'h) host \<Rightarrow> LayerConfig \<Rightarrow> UpperRename \<Rightarrow> wstring \<Rightarrow> bool" where
  "undo_apart os cfg rename p \<longleftrightarrow>
     records_apart os (upperPath cfg) (WithExtendedPrefix os p) \<and> deletes_apart os (WithExtendedPrefix os p) (marker_files os cfg rename)"

lemma MoveBack_where:
  assumes "renames_entries os" "cloud_failures (CloudFileStatus os)"
    and "undo_apart os cfg rename (oldUpperPath rename)" "undo_apart os cfg rename new"
    and "GetStoredUpperPath os (engineDisk s) cfg (newNorm rename) = new" "exists_at os (engineDisk s) (WithExtendedPrefix os new)"
    and "MoveBack os n cfg s rename = Some (s', st)"
  shows "exists_at os (engineDisk s') (WithExtendedPrefix os (if NT_SUCCESS st then oldUpperPath rename else new))"
proof -
  obtain w1 mv where m: "MoveUpperEntry os n (engineDisk s) cfg new (oldUpperPath rename) ReplaceNo = Some (w1, mv)"
    using assms(5,7) by (auto simp: MoveBack_def split: option.splits)
  have st: "st = moveStatus mv" using assms(5,7) m by (auto simp: MoveBack_def Let_def)
  have at: "exists_at os w1 (WithExtendedPrefix os (if NT_SUCCESS st then oldUpperPath rename else new))"
    unfolding st using assms(3,4) by (intro MoveUpperEntry_where [OF assms(1,2) _ _ assms(6) m]) (simp_all add: undo_apart_def)
  have keep: "exists_at os (engineDisk (fst (RemoveOpaque os cfg t (oldNorm rename)))) (WithExtendedPrefix os (oldUpperPath rename)) =
      exists_at os (engineDisk t) (WithExtendedPrefix os (oldUpperPath rename))" for t
    using assms(3) by (intro RemoveOpaque_keeps [where Q = "marker_files os cfg rename"]) (auto simp: undo_apart_def marker_files_def)
  let ?s1 = "WarnRecordLeftBehind (s\<lparr>engineDisk := w1\<rparr>) mv (if NT_SUCCESS st then oldNorm rename else newNorm rename)"
  have "engineDisk s' = w1 \<or> NT_SUCCESS st \<and> engineDisk s' = engineDisk (fst (RemoveOpaque os cfg ?s1 (oldNorm rename)))"
    using assms(5,7) m by (auto simp: MoveBack_def Let_def st split: if_splits prod.splits)
  then show ?thesis using at keep [of ?s1] by auto
qed


lemma RemoveWhiteout_events: "engineEvents (fst (RemoveWhiteout os cfg s k)) = engineEvents s"
  by (auto simp: RemoveWhiteout_def Let_def split: LinkOnPath.split prod.split option.split)

lemma warn_events: "engineEvents (WarnUndoFailed s h p m) = engineEvents s @ [\<lparr>evType = LM_EVT_WARNING, evResult = h, evPath = p, evMessage = m, evPid = 0\<rparr>]"
  by (simp add: WarnUndoFailed_def Emit_def)

text \<open>
  C34: The steps of a rename after its move never lose the entry. Whatever fails (the whiteout of the
  source, the removal of the whiteout at the destination, the move back, the removals of the undo),
  the result tells where the entry is: at the new name when the step succeeds or reports the new name
  as occupied, at the old path otherwise. A step that leaves the new name occupied failed and has
  warned the host about the new name.
\<close>

theorem rename_undo_tells_where:
  assumes "renames_entries os" "cloud_failures (CloudFileStatus os)" "creates_plain os"
    and "undo_apart os cfg rename (oldUpperPath rename)" "undo_apart os cfg rename new"
    and "exists_at os (engineDisk s) (WithExtendedPrefix os new)"
    and "GetStoredUpperPath os (engineDisk (fst (CreateWhiteout os cfg s (oldNorm rename) type))) cfg (newNorm rename) = new"
    and "GetStoredUpperPath os (engineDisk (fst (RemoveWhiteout os cfg s (newNorm rename)))) cfg (newNorm rename) = new"
    and "WhiteOutSource os n cfg s rename type = Some (s', r) \<or> RemoveDestinationWhiteoutOrUndo os n cfg s rename = Some (s', r)"
  shows "exists_at os (engineDisk s')
      (WithExtendedPrefix os (if NT_SUCCESS (stepStatus r) \<or> newNameOccupied r then new else oldUpperPath rename)) \<and>
    (newNameOccupied r \<longrightarrow> \<not> NT_SUCCESS (stepStatus r) \<and>
       (\<exists>ev \<in> set (engineEvents s'). evType ev = LM_EVT_WARNING \<and> evPath ev = newNorm rename))"
proof -
  note undone = MoveBack_where [OF assms(1,2,4,5)]
  have new: "deletes_apart os (WithExtendedPrefix os new) (marker_files os cfg rename)"
    and old: "deletes_apart os (WithExtendedPrefix os (oldUpperPath rename)) (marker_files os cfg rename)"
    using assms(4,5) by (simp_all add: undo_apart_def)
  have markers: "WithExtendedPrefix os (GetWhiteoutFullPath (upperPath cfg) (newNorm rename)) \<in> marker_files os cfg rename"
    "WithExtendedPrefix os (GetWhiteoutFullPath (upperPath cfg) (oldNorm rename)) \<in> marker_files os cfg rename"
    by (simp_all add: marker_files_def)
  note keep_new = RemoveWhiteout_keeps [OF new markers(1)] and keep_old = RemoveWhiteout_keeps [OF old markers(2)]
  have ok: "NT_SUCCESS STATUS_SUCCESS" by (simp add: NT_SUCCESS_def)
  from assms(9) show ?thesis
  proof
    assume w: "WhiteOutSource os n cfg s rename type = Some (s', r)"
    obtain s1 st where c: "CreateWhiteout os cfg s (oldNorm rename) type = (s1, st)" by fastforce
    have at1: "exists_at os (engineDisk s1) (WithExtendedPrefix os new)"
      using plain_step_exists [OF CreateWhiteout_plain [OF assms(3,2)] assms(6), of cfg "oldNorm rename" type] c by simp
    show ?thesis
    proof (cases "NT_SUCCESS st")
      case True
      then show ?thesis using w c at1 ok by (auto simp: WhiteOutSource_def)
    next
      case False
      then obtain s2 mb where m: "MoveBack os n cfg s1 rename = Some (s2, mb)" using w c by (auto simp: WhiteOutSource_def split: option.splits)
      note at2 = undone [OF assms(7) [unfolded c fst_conv] at1 m]
      let ?s3 = "WarnUndoFailed s2 (HresultFromNtStatus mb) (newNorm rename) (wlit ''The undo of a failed rename could not move the entry back'')"
      obtain s4 dw where d: "RemoveWhiteout os cfg ?s3 (newNorm rename) = (s4, dw)" by fastforce
      have "\<exists>ev \<in> set (engineEvents s4). evType ev = LM_EVT_WARNING \<and> evPath ev = newNorm rename"
        using RemoveWhiteout_events [of os cfg ?s3 "newNorm rename"] unfolding d by (simp add: warn_events)
      then show ?thesis
        using w c m False at2 keep_new [of ?s3] d
        by (auto simp: WhiteOutSource_def Let_def warn_events split: if_splits)
    qed
  next
    assume w: "RemoveDestinationWhiteoutOrUndo os n cfg s rename = Some (s', r)"
    obtain s1 st where c: "RemoveWhiteout os cfg s (newNorm rename) = (s1, st)" by fastforce
    have at1: "exists_at os (engineDisk s1) (WithExtendedPrefix os new)" using keep_new [of s] assms(6) c by simp
    show ?thesis
    proof (cases "NT_SUCCESS st")
      case True
      then show ?thesis using w c at1 ok by (auto simp: RemoveDestinationWhiteoutOrUndo_def)
    next
      case False
      then obtain s2 mb where m: "MoveBack os n cfg s1 rename = Some (s2, mb)"
        using w c by (auto simp: RemoveDestinationWhiteoutOrUndo_def split: option.splits)
      note at2 = undone [OF assms(8) [unfolded c fst_conv] at1 m]
      show ?thesis
        using w c m False at2 keep_old [of s2]
        by (auto simp: RemoveDestinationWhiteoutOrUndo_def Let_def warn_events split: if_splits prod.splits)
    qed
  qed
qed

text \<open>An error of an open or of a query is one that a failed call sets.\<close>

definition open_errors :: "('w, 'h) host \<Rightarrow> bool" where
  "open_errors os \<longleftrightarrow> cloud_failures (CloudFileStatus os) \<and>
     (\<forall>w p acc e. OpenFollowing os w p acc = Inl e \<longrightarrow> call_fails e) \<and> (\<forall>w h e. FileBasicAttributes os w h = Inl e \<longrightarrow> call_fails e)"

lemma LinkTargetOf_fails: "open_errors os \<Longrightarrow> LinkTargetOf os w p = (TargetFailed, st) \<Longrightarrow> \<not> NT_SUCCESS st"
  by (auto simp: LinkTargetOf_def open_errors_def call_fails_status split: sum.splits if_splits)

text \<open>A failed look at the new parent is never reported as a success.\<close>

lemma ShownParentTarget_fails:
  assumes "open_errors os" "ShownParentTarget os w cfg now c p = (c', TargetFailed, st)"
  shows "\<not> NT_SUCCESS st"
  using assms LinkTargetOf_fails [OF assms(1)]
  by (auto simp: ShownParentTarget_def ShownLinkTarget_def Let_def split: if_splits prod.splits)

text \<open>
  C36: A rename that passes the link check stays on one side of a link. Neither path has a component
  above it that cannot be read, and either both are under the same link (or under none), or the
  destination's parent is not shown as a directory, so the rename fails later. A lower link is
  copied up exactly when both paths are under it and the destination's parent is a directory. A look at
  the destination's parent that fails is no such pass: its status is a failure. It is assumed that
  an open or a query that fails sets an error that stands for a failure.
\<close>

theorem CheckRenameLinkBoundary_stays:
  assumes "open_errors os" "CheckRenameLinkBoundary os w cfg now c old new links = (c', st, links')" "NT_SUCCESS st"
    and "a = FindLinkAbove os w cfg old" "b = FindLinkAbove os w cfg new" "t = fst (snd (ShownParentTarget os w cfg now c new))"
  shows "linkStop a \<noteq> LinkStopUnreadable \<and> linkStop b \<noteq> LinkStopUnreadable \<and>
    (linkStop a = linkStop b \<and> linkPath a = linkPath b \<or> t = TargetNoDirectory) \<and>
    (lowerLinkToCopyUp links' =
       (if linkStop a = LinkStopLink \<and> linkStop b = LinkStopLink \<and> linkPath a = linkPath b \<and> linkSource a = Lower \<and> t = TargetDirectory
        then Some (linkPath a) else None)) \<and>
    (sourceInLinkTarget links' \<longleftrightarrow> linkStop a = LinkStopLink) \<and> (destinationInLinkTarget links' \<longleftrightarrow> linkStop b = LinkStopLink)"
proof -
  obtain c1 k f where t: "ShownParentTarget os w cfg now c new = (c1, k, f)" by (metis prod_cases3)
  then have k: "k = t" using assms(6) by simp
  have n: "\<not> NT_SUCCESS STATUS_NOT_SAME_DEVICE" "\<not> NT_SUCCESS STATUS_ACCESS_DENIED" by (simp_all add: NT_SUCCESS_def)
  have failed: "\<not> NT_SUCCESS f" if "t = TargetFailed" using ShownParentTarget_fails [OF assms(1)] t k that by simp
  show ?thesis
    using assms(2,3) n failed unfolding CheckRenameLinkBoundary_def Let_def assms(4,5) [symmetric] t k
    by (cases t) (auto split: if_splits)
qed


section \<open>What a removal leaves\<close>

lemma remove_upper_part_cache:
  assumes "cache_inv (engineCache s)" "remove_upper_part os n cfg s k = Some (s', st)"
  shows "cache_inv (engineCache s')"
proof -
  have o: "cache_inv (engineCache (fst (RemoveOpaque os cfg s k)))"
    using assms(1) Invalidate_inv by (auto simp: RemoveOpaque_def Let_def split: prod.split)
  show ?thesis
    using assms o InvalidateWithAncestors_inv
    by (auto simp: remove_upper_part_def Let_def split: prod.splits if_splits option.splits)
qed

text \<open>
  C35: A removal never uncovers a lower entry. When the removal of a path that a lower holds reports
  success, the upper holds a whiteout of the path, and the next lookup gives the whiteout result as
  long as the upper has no entry of its own there. A removal whose whiteout could not be written
  reports the failure.
\<close>

theorem Remove_whites_out:
  assumes "creates_plain os" "cloud_failures (CloudFileStatus os)" "lower_table_ok os" "coherent os (engineDisk s) cfg (engineCache s)"
    and "names (ss @ [x])" "k = join_with bslash (ss @ [x])" "NormalizePath os k = k" "IsSafeRelativePath k" "\<not> IsReservedRelativePath os k"
    and "Found (ResolveLowerPath os (engineDisk s) cfg k)"
    and "remove_upper_part os n cfg (s\<lparr>engineCache := fst (ResolvePath os (engineDisk s) cfg now (engineCache s) k)\<rparr>) k = Some (s2, STATUS_SUCCESS)"
    and "tree_like os (engineDisk s2) (upperPath cfg)"
    and "Remove os n cfg now s k = Some (s', st)"
  shows "(NT_SUCCESS st \<longrightarrow> HasWhiteout os (engineDisk s') k (upperPath cfg) \<and>
      (GetFileAttributesW os (engineDisk s') (WithExtendedPrefix os (JoinDirPath (upperPath cfg) k)) = Inl e \<longrightarrow>
         snd (ResolvePath os (engineDisk s') cfg later (engineCache s') k) = whiteout_result)) \<and>
    (\<forall>type. type \<noteq> WhiteoutOpaque \<and> \<not> NT_SUCCESS (snd (CreateWhiteout os cfg s2 k type)) \<longrightarrow> \<not> NT_SUCCESS st)"
proof -
  obtain c1 r where r: "ResolvePath os (engineDisk s) cfg now (engineCache s) k = (c1, r)" by fastforce
  let ?type = "if Found r \<and> attributes r AND FILE_ATTRIBUTE_DIRECTORY \<noteq> 0 then WhiteoutDirectory else WhiteoutFile"
  obtain s3 wh where w: "CreateWhiteout os cfg s2 k ?type = (s3, wh)" by fastforce
  have ok: "NT_SUCCESS STATUS_SUCCESS" by (simp add: NT_SUCCESS_def)
  have s': "s' = s3\<lparr>engineCache := InvalidateWithAncestors os (engineCache s3) k\<rparr>" "st = (if NT_SUCCESS wh then STATUS_SUCCESS else wh)"
    using assms(10,11,13) r w ok by (auto simp: Remove_def Let_def)
  have same: "snd (CreateWhiteout os cfg s2 k type) = wh" if "type \<noteq> WhiteoutOpaque" for type
    using w that by (auto simp: CreateWhiteout_def Let_def split: if_splits prod.splits)
  have "cache_inv (engineCache s2)"
    using ResolvePath_view [OF assms(3,4) r] remove_upper_part_cache [OF _ assms(11)] r by (simp add: coherent_def)
  moreover have "HasWhiteout os (engineDisk s3) k (upperPath cfg) \<and>
      engineCache s3 = InvalidateWithAncestors os (engineCache s2) (NormalizePath os k)" if "NT_SUCCESS wh"
    using CreateWhiteout_writes [OF assms(1,2,12,5) _ w [unfolded assms(6)] that] by (simp add: assms(6))
  ultimately have wrote: "HasWhiteout os (engineDisk s') k (upperPath cfg) \<and> cache_inv (engineCache s') \<and> cached (engineCache s') k = None"
    if "NT_SUCCESS wh"
    using that assms(7) by (simp add: s' InvalidateWithAncestors_inv cached_InvalidateWithAncestors)
  have "k \<noteq> []" using assms(5,6) by (auto simp: join_with_eq_Nil)
  then have "snd (ResolvePath os (engineDisk s') cfg later (engineCache s') k) = whiteout_result"
    if "NT_SUCCESS wh" "GetFileAttributesW os (engineDisk s') (WithExtendedPrefix os (JoinDirPath (upperPath cfg) k)) = Inl e"
    using wrote [OF that(1)] ResolvePath_upper_miss [OF _ _ assms(7) _ IsResolvable_plain [OF assms(8,9)] that(2)] by simp
  then show ?thesis using wrote same s'(2) by auto
qed

section \<open>On the disk in memory\<close>

lemma mem_deletes_apart: "(\<forall>q \<in> Q. mem_key q \<noteq> mem_key p) \<Longrightarrow> deletes_apart mem_host p Q"
  by (auto simp: deletes_apart_def exists_at_def mem_attributes_def mem_delete_def delete_conv')

text \<open>A rename to \<^verbatim>\<open>a\<close> whose source is under the lower link \<^verbatim>\<open>j\<close>, so that the whiteout of the source is refused.\<close>

definition sample_rename :: UpperRename where
  "sample_rename = \<lparr>oldNorm = wlit ''j'' @ [bslash] @ wlit ''x'', newNorm = wlit ''a'',
     oldUpperPath = JoinDirPath sample_upper (wlit ''q''), opaqueMarker = UndoKeep\<rparr>"

theorem rename_undo_tells_where_witness:
  "\<exists>s' r. WhiteOutSource mem_host 3 sample_config linked_engine sample_rename WhiteoutFile = Some (s', r) \<and>
     \<not> NT_SUCCESS (stepStatus r) \<and> exists_at mem_host (engineDisk s') (WithExtendedPrefix mem_host (JoinDirPath sample_upper (wlit ''q'')))"
proof -
  let ?step = "WhiteOutSource mem_host 3 sample_config linked_engine sample_rename WhiteoutFile"
  let ?new = "JoinDirPath sample_upper (wlit ''a'')"
  have "map_option (\<lambda>(s, r). (NT_SUCCESS (stepStatus r), newNameOccupied r)) ?step = Some (False, False)" by code_simp
  then obtain s' r where w: "?step = Some (s', r)" "\<not> NT_SUCCESS (stepStatus r)" "\<not> newNameOccupied r" by auto
  have k: "\<not> starts_with (mem_key (WithExtendedPrefix mem_host p)) (mem_key (win32Directory mem_host (upperPath sample_config) @ [bslash]))"
    "\<forall>q \<in> marker_files mem_host sample_config sample_rename. mem_key q \<noteq> mem_key (WithExtendedPrefix mem_host p)"
    if "p = oldUpperPath sample_rename \<or> p = ?new" for p
    using that by (elim disjE; hypsubst; code_simp)+
  have apart: "undo_apart mem_host sample_config sample_rename p" if "p = oldUpperPath sample_rename \<or> p = ?new" for p
    unfolding undo_apart_def using mem_records_apart [OF k(1) [OF that]] mem_deletes_apart [OF k(2) [OF that]] by blast
  have at: "exists_at mem_host (engineDisk linked_engine) (WithExtendedPrefix mem_host ?new)" by code_simp
  have stored: "GetStoredUpperPath mem_host (engineDisk (fst (CreateWhiteout mem_host sample_config linked_engine (oldNorm sample_rename) WhiteoutFile)))
      sample_config (newNorm sample_rename) = ?new"
    "GetStoredUpperPath mem_host (engineDisk (fst (RemoveWhiteout mem_host sample_config linked_engine (newNorm sample_rename))))
      sample_config (newNorm sample_rename) = ?new"
    by code_simp+
  show ?thesis
    using rename_undo_tells_where [OF mem_renames mem_cloud mem_creates_plain apart apart at stored, of 3 s' r] w
    by (auto simp: sample_rename_def)
qed

lemma mem_open_errors: "open_errors mem_host"
proof -
  have "call_fails e" if "mem_open w p acc = Inl e" for w p acc e
    using that by (auto simp: mem_open_def call_fails_def split: option.splits if_splits)
  moreover have "call_fails e" if "mem_get f w h = Inl e" for w h e and f :: "mem_node \<Rightarrow> dword"
    using that by (auto simp: mem_get_def call_fails_def split: option.splits if_splits)
  ultimately show ?thesis by (simp add: open_errors_def mem_host_def cloud_failures_def cloud_file_errors_def NT_SUCCESS_def)
qed

theorem CheckRenameLinkBoundary_stays_witness:
  "lowerLinkToCopyUp (snd (snd (CheckRenameLinkBoundary mem_host (engineDisk linked_engine) sample_config 3 (new_Cache 4)
     (wlit ''j'' @ [bslash] @ wlit ''x'') (wlit ''j'' @ [bslash] @ wlit ''y'')
     \<lparr>sourceInLinkTarget = False, destinationInLinkTarget = False, lowerLinkToCopyUp = None\<rparr>))) = Some (wlit ''j'')"
proof -
  let ?w = "engineDisk linked_engine" and ?x = "wlit ''j'' @ [bslash] @ wlit ''x''" and ?y = "wlit ''j'' @ [bslash] @ wlit ''y''"
  let ?l = "\<lparr>sourceInLinkTarget = False, destinationInLinkTarget = False, lowerLinkToCopyUp = None\<rparr>"
  let ?link = "\<lparr>linkStop = LinkStopLink, linkSource = Lower, linkPath = wlit ''j''\<rparr>"
  obtain c' st l' where r: "CheckRenameLinkBoundary mem_host ?w sample_config 3 (new_Cache 4) ?x ?y ?l = (c', st, l')" by (metis prod_cases3)
  obtain c1 k f where p: "ShownParentTarget mem_host ?w sample_config 3 (new_Cache 4) ?y = (c1, k, f)" by (metis prod_cases3)
  have t: "fst (snd (ShownParentTarget mem_host ?w sample_config 3 (new_Cache 4) ?y)) = TargetDirectory" by code_simp
  have a: "FindLinkAbove mem_host ?w sample_config ?x = ?link" "FindLinkAbove mem_host ?w sample_config ?y = ?link" by code_simp+
  have "NT_SUCCESS st"
    using r t unfolding CheckRenameLinkBoundary_def a p Let_def by (auto simp: NT_SUCCESS_def)
  then show ?thesis
    using CheckRenameLinkBoundary_stays [OF mem_open_errors r _ a(1) [symmetric] a(2) [symmetric] t [symmetric]] r by simp
qed

theorem Remove_whites_out_witness:
  "\<exists>s'. Remove mem_host 3 sample_config 5 sample_engine (wlit ''a'') = Some (s', STATUS_SUCCESS) \<and>
     HasWhiteout mem_host (engineDisk s') (wlit ''a'') (upperPath sample_config)"
proof -
  let ?c = "fst (ResolvePath mem_host (engineDisk sample_engine) sample_config 5 (engineCache sample_engine) (wlit ''a''))"
  let ?part = "remove_upper_part mem_host 3 sample_config (sample_engine\<lparr>engineCache := ?c\<rparr>) (wlit ''a'')"
  have "map_option snd (Remove mem_host 3 sample_config 5 sample_engine (wlit ''a'')) = Some STATUS_SUCCESS" by code_simp
  then obtain s' where s': "Remove mem_host 3 sample_config 5 sample_engine (wlit ''a'') = Some (s', STATUS_SUCCESS)" by auto
  have "map_option (\<lambda>(s, st). (mem_tree (engineDisk s) sample_upper, st)) ?part = Some (True, STATUS_SUCCESS)" by code_simp
  then obtain s2 where p: "?part = Some (s2, STATUS_SUCCESS)" and "mem_tree (engineDisk s2) sample_upper" by auto
  then have tree: "tree_like mem_host (engineDisk s2) (upperPath sample_config)" using mem_tree_like sample_roots by simp
  have coh: "coherent mem_host (engineDisk sample_engine) sample_config (engineCache sample_engine)"
    by (simp add: sample_engine_def coherent_new)
  have n: "names ([] @ [wlit ''a''])" "wlit ''a'' = join_with bslash ([] @ [wlit ''a''])" by (simp_all add: is_name_def is_slash_def)
  have k: "NormalizePath mem_host (wlit ''a'') = wlit ''a''" "IsSafeRelativePath (wlit ''a'')" "\<not> IsReservedRelativePath mem_host (wlit ''a'')"
    "Found (ResolveLowerPath mem_host (engineDisk sample_engine) sample_config (wlit ''a''))"
    by code_simp+
  have "NT_SUCCESS STATUS_SUCCESS" by (simp add: NT_SUCCESS_def)
  then show ?thesis
    using Remove_whites_out [OF mem_creates_plain mem_cloud mem_host_lower_table coh n k p tree s', of 0 0] s' by simp
qed

end
