(* ===== verification/Work_Directory.thy ===== *)
theory Work_Directory
  imports Upper_Entries
begin

text \<open>
  The work directory of an overlay (\<^verbatim>\<open>impl/WorkDirectory.cpp\<close>): which layouts of work directory, upper
  and lowers it accepts, and how it takes the two locks and resets the staging area. The token
  privileges that the open enables do not show in the model.
\<close>

section \<open>Final paths (LayerPath.cpp)\<close>

definition FinalPathNameOf :: "('w, 'h) host \<Rightarrow> 'w \<Rightarrow> 'h \<Rightarrow> wstring" where
  "FinalPathNameOf os w handle =
     (let bytes = fst (GetFinalPathNameByHandleW os w handle 0) in
      if bytes = 0 then []
      else
        let (len, path) = GetFinalPathNameByHandleW os w handle bytes in
        if len = 0 \<or> len \<ge> bytes then [] else take len path)"

definition FinalPathOfDirectory :: "('w, 'h) host \<Rightarrow> 'w \<Rightarrow> wstring \<Rightarrow> wstring" where
  "FinalPathOfDirectory os w path =
     (case OpenFollowing os w (ForWin32 os path) FILE_READ_ATTRIBUTES of
        Inl e \<Rightarrow> []
      | Inr directory \<Rightarrow> FinalPathNameOf os w directory)"

section \<open>The layout rule\<close>

definition kStagingAreaName :: wstring where "kStagingAreaName = wlit ''work''"
definition kWorkDirectoryLockName :: wstring where "kWorkDirectoryLockName = wlit ''.layermount.lock''"
definition kUpperLockName :: wstring where "kUpperLockName = wlit ''.layermount.upper.lock''"

record LayoutPath =
  writtenPath :: wstring
  resolvedPath :: wstring

definition WrittenPath :: "('w, 'h) host \<Rightarrow> wstring \<Rightarrow> LayoutPath" where
  "WrittenPath os path = \<lparr>writtenPath = ComparablePath os path, resolvedPath = []\<rparr>"

definition WrittenAndResolvedPath :: "('w, 'h) host \<Rightarrow> 'w \<Rightarrow> wstring \<Rightarrow> LayoutPath" where
  "WrittenAndResolvedPath os w path =
     (let finalPath = FinalPathOfDirectory os w path in
      \<lparr>writtenPath = ComparablePath os path, resolvedPath = (if finalPath = [] then [] else ComparablePath os finalPath)\<rparr>)"

definition PathsToCompare :: "LayoutPath \<Rightarrow> LayoutPath \<Rightarrow> wstring \<times> wstring" where
  "PathsToCompare a b =
     (if resolvedPath a \<noteq> [] \<and> resolvedPath b \<noteq> [] then (resolvedPath a, resolvedPath b) else (writtenPath a, writtenPath b))"

definition AreSameOrNested :: "wstring \<Rightarrow> wstring \<Rightarrow> bool" where
  "AreSameOrNested a b \<longleftrightarrow> a = b \<or> IsInsideDirectory a b \<or> IsInsideDirectory b a"

definition OverlapsUpper :: "LayoutPath \<Rightarrow> LayoutPath \<Rightarrow> bool" where
  "OverlapsUpper work upper =
     (let (workPath, upPath) = PathsToCompare work upper in
      workPath \<noteq> JoinDirPath upPath kSidecarDirName \<and> AreSameOrNested workPath upPath)"

definition OverlapsLower :: "LayoutPath \<Rightarrow> LayoutPath \<Rightarrow> bool" where
  "OverlapsLower work low = (let (workPath, lowPath) = PathsToCompare work low in AreSameOrNested workPath lowPath)"

definition E_INVALIDARG :: "32 word" where "E_INVALIDARG = 0x80070057"

text \<open>The result and the text of \<open>error\<close>, which is left alone on success. \<open>lowers\<close> are the lowers still to check.\<close>

fun check_lowers :: "(wstring \<Rightarrow> LayoutPath) \<Rightarrow> LayoutPath \<Rightarrow> wstring list \<Rightarrow> wstring \<Rightarrow> 32 word \<times> wstring" where
  "check_lowers readPath work [] error = (0, error)"
| "check_lowers readPath work (low # lowers) error =
     (if OverlapsLower work (readPath low)
      then (E_INVALIDARG,
        wlit ''The work directory and a lower layer must not be the same directory or contain one another: '' @ low)
      else check_lowers readPath work lowers error)"

definition CheckLayoutWith :: "LayerConfig \<Rightarrow> (wstring \<Rightarrow> LayoutPath) \<Rightarrow> wstring \<Rightarrow> 32 word \<times> wstring" where
  "CheckLayoutWith cfg readPath error =
     (let work = readPath (workDirPath cfg) in
      if OverlapsUpper work (readPath (upperPath cfg))
      then (E_INVALIDARG,
        wlit ''The work directory and the upper layer must not be the same directory or contain one another: '' @ workDirPath cfg)
      else check_lowers readPath work (lowerPaths cfg) error)"

definition CheckLayout :: "('w, 'h) host \<Rightarrow> LayerConfig \<Rightarrow> wstring \<Rightarrow> 32 word \<times> wstring" where
  "CheckLayout os cfg error = CheckLayoutWith cfg (WrittenPath os) error"

section \<open>Locks and the staging area\<close>

definition HRESULT_FROM_WIN32 :: "dword \<Rightarrow> 32 word" where
  "HRESULT_FROM_WIN32 e = (if sint e \<le> 0 then e else (e AND 0xFFFF) OR 0x80070000)"

definition FAILED :: "32 word \<Rightarrow> bool" where
  "FAILED hr \<longleftrightarrow> sint hr < 0"

text \<open>The lock is \<open>None\<close> when it was not taken.\<close>

definition TakeLock ::
  "('w, 'h) host \<Rightarrow> 'w \<Rightarrow> wstring \<Rightarrow> wstring \<Rightarrow> wstring \<Rightarrow> wstring \<Rightarrow> wstring \<Rightarrow> 'w \<times> 32 word \<times> 'h option \<times> wstring" where
  "TakeLock os w lockDirectory lockName directory role error =
     (let lockPath = JoinDirPath (ForWin32 os lockDirectory) lockName in
      case OpenLockFile os w lockPath of
        (w1, Inr lock) \<Rightarrow> (w1, 0, Some lock, error)
      | (w1, Inl lockError) \<Rightarrow>
          if lockError = ERROR_SHARING_VIOLATION
          then (w1, HRESULT_FROM_WIN32 ERROR_BUSY, None,
                wlit ''The '' @ role @ wlit '' is in use by another overlay: '' @ directory)
          else (w1, HRESULT_FROM_WIN32 lockError, None, wlit ''Failed to lock the '' @ role @ wlit '': '' @ directory))"

definition LockUpper :: "('w, 'h) host \<Rightarrow> 'w \<Rightarrow> wstring \<Rightarrow> wstring \<Rightarrow> 'w \<times> 32 word \<times> 'h option \<times> wstring" where
  "LockUpper os w upPath error =
     (let lockDirectory = JoinDirPath upPath kSidecarDirName;
          w1 = fst (CreateDirectoryW os w (ForWin32 os lockDirectory)) in
      TakeLock os w1 lockDirectory kUpperLockName upPath (wlit ''upper layer'') error)"

definition StagingAreaPath :: "wstring \<Rightarrow> wstring" where
  "StagingAreaPath workDir = JoinDirPath workDir kStagingAreaName"

definition ResetStagingArea ::
  "('w, 'h) host \<Rightarrow> nat \<Rightarrow> 'w \<Rightarrow> LayerConfig \<Rightarrow> wstring \<Rightarrow> ('w \<times> 32 word \<times> wstring) option" where
  "ResetStagingArea os n w cfg error =
     (let staging = StagingAreaPath (workDirPath cfg) in
      case RemoveStagedEntry os n w cfg staging of
        None \<Rightarrow> None
      | Some (w1, Some (path, failure)) \<Rightarrow>
          Some (w1, HRESULT_FROM_WIN32 failure, wlit ''Failed to delete a leftover entry from the work directory: '' @ path)
      | Some (w1, None) \<Rightarrow>
          (case CreateDirectoryW os w1 (ForWin32 os staging) of
             (w2, Some createError) \<Rightarrow>
               Some (w2, HRESULT_FROM_WIN32 createError,
                     wlit ''Failed to create the staging area of the work directory: '' @ staging)
           | (w2, None) \<Rightarrow> Some (w2, 0, error)))"

text \<open>
  A lock that goes out of scope is closed. The third component is the work directory object: the two
  locks that it holds.
\<close>

definition close_lock :: "('w, 'h) host \<Rightarrow> 'h option \<Rightarrow> 'w \<Rightarrow> 'w" where
  "close_lock os lock w = (case lock of None \<Rightarrow> w | Some h \<Rightarrow> CloseLockFile os w h)"

definition WorkDirectory_Open ::
  "('w, 'h) host \<Rightarrow> nat \<Rightarrow> 'w \<Rightarrow> LayerConfig \<Rightarrow> wstring \<Rightarrow> ('w \<times> 32 word \<times> ('h option \<times> 'h option) option \<times> wstring) option" where
  "WorkDirectory_Open os n w cfg error =
     (case CheckLayoutWith cfg (WrittenAndResolvedPath os w) error of
        (layout, error1) \<Rightarrow>
          if FAILED layout then Some (w, layout, None, error1)
          else
            (case TakeLock os w (workDirPath cfg) kWorkDirectoryLockName (workDirPath cfg) (wlit ''work directory'') error1 of
               (w1, workDirectoryLocked, workDirectoryLock, error2) \<Rightarrow>
                 if FAILED workDirectoryLocked then Some (close_lock os workDirectoryLock w1, workDirectoryLocked, None, error2)
                 else
                   (case LockUpper os w1 (upperPath cfg) error2 of
                      (w2, upperLocked, upperLock, error3) \<Rightarrow>
                        if FAILED upperLocked
                        then Some (close_lock os workDirectoryLock (close_lock os upperLock w2), upperLocked, None, error3)
                        else
                          (case ResetStagingArea os n w2 cfg error3 of
                             None \<Rightarrow> None
                           | Some (w3, reset, error4) \<Rightarrow>
                               if FAILED reset
                               then Some (close_lock os workDirectoryLock (close_lock os upperLock w3), reset, None, error4)
                               else Some (w3, 0, Some (workDirectoryLock, upperLock), error4)))))"


section \<open>Which layouts are accepted\<close>

text \<open>A directory tree is the directory and what is inside it.\<close>

definition in_tree :: "wstring \<Rightarrow> wstring \<Rightarrow> bool" where
  "in_tree d p \<longleftrightarrow> p = d \<or> IsInsideDirectory p d"

lemma inside_both:
  assumes "IsInsideDirectory p a" "IsInsideDirectory p b" "length a \<le> length b"
  shows "in_tree a b"
proof (cases "length a = length b")
  case True
  then show ?thesis using assms by (auto simp: in_tree_def IsInsideDirectory_def)
next
  case False
  then have "length a < length b" using assms(3) by simp
  moreover have "take (length a) b = a" using assms calculation by (metis IsInsideDirectory_def min.absorb1 less_imp_le take_take)
  moreover have "b ! length a = bslash" using assms calculation by (metis IsInsideDirectory_def nth_take)
  ultimately show ?thesis by (simp add: in_tree_def IsInsideDirectory_def)
qed

lemma AreSameOrNested_iff: "AreSameOrNested a b \<longleftrightarrow> (\<exists>p. in_tree a p \<and> in_tree b p)"
proof
  assume "\<exists>p. in_tree a p \<and> in_tree b p"
  then obtain p where p: "in_tree a p" "in_tree b p" by blast
  consider "p = a" | "p = b" | "IsInsideDirectory p a" "IsInsideDirectory p b" using p by (auto simp: in_tree_def)
  then show "AreSameOrNested a b"
  proof cases
    case 3
    then have "in_tree a b \<or> in_tree b a" using inside_both by (meson linear)
    then show ?thesis by (auto simp: in_tree_def AreSameOrNested_def)
  qed (use p in \<open>auto simp: in_tree_def AreSameOrNested_def\<close>)
qed (auto simp: in_tree_def AreSameOrNested_def)

lemma check_lowers_ok:
  "fst (check_lowers readPath work lowers err) = (if \<exists>low \<in> set lowers. OverlapsLower work (readPath low) then E_INVALIDARG else 0)"
  by (induction lowers) auto

text \<open>
  C37: The layout check accepts exactly the layouts whose directory trees do not overlap. With the
  paths that it compares for a pair, a layout passes if and only if no path is both in the work
  directory and in the upper, unless the work directory is the upper's \<^verbatim>\<open>.overlay\<close>, and none is both
  in the work directory and in a lower; every other layout is refused with \<^verbatim>\<open>E_INVALIDARG\<close>.
\<close>

theorem CheckLayout_iff:
  assumes "work = readPath (workDirPath cfg)" "(wu, u) = PathsToCompare work (readPath (upperPath cfg))"
  shows "fst (CheckLayoutWith cfg readPath err) =
    (if (wu = JoinDirPath u kSidecarDirName \<or> \<not> (\<exists>p. in_tree wu p \<and> in_tree u p)) \<and>
        (\<forall>low \<in> set (lowerPaths cfg). \<forall>wl l. (wl, l) = PathsToCompare work (readPath low) \<longrightarrow> \<not> (\<exists>p. in_tree wl p \<and> in_tree l p))
     then 0 else E_INVALIDARG)"
proof -
  have "OverlapsUpper work (readPath (upperPath cfg)) \<longleftrightarrow> wu \<noteq> JoinDirPath u kSidecarDirName \<and> (\<exists>p. in_tree wu p \<and> in_tree u p)"
    unfolding OverlapsUpper_def assms(2) [symmetric] by (simp add: AreSameOrNested_iff)
  moreover have "OverlapsLower work (readPath low) \<longleftrightarrow>
      (\<exists>wl l. (wl, l) = PathsToCompare work (readPath low) \<and> (\<exists>p. in_tree wl p \<and> in_tree l p))" for low
    by (cases "PathsToCompare work (readPath low)") (simp add: OverlapsLower_def AreSameOrNested_iff)
  ultimately show ?thesis
    unfolding CheckLayoutWith_def assms(1) [symmetric] Let_def by (auto simp: check_lowers_ok)
qed

theorem CheckLayout_iff_witness:
  "fst (CheckLayout mem_host (sample_config\<lparr>workDirPath := JoinDirPath sample_upper (wlit ''.overlay'')\<rparr>) []) = 0 \<and>
   fst (CheckLayout mem_host (sample_config\<lparr>workDirPath := JoinDirPath sample_lower (wlit ''w'')\<rparr>) []) = E_INVALIDARG"
proof -
  let ?c = "sample_config\<lparr>workDirPath := JoinDirPath sample_upper (wlit ''.overlay'')\<rparr>"
  let ?d = "sample_config\<lparr>workDirPath := JoinDirPath sample_lower (wlit ''w'')\<rparr>"
  let ?w = "wlit ''c:'' @ [bslash] @ wlit ''u'' @ [bslash] @ wlit ''.overlay''" and ?u = "wlit ''c:'' @ [bslash] @ wlit ''u''"
  let ?l = "wlit ''c:'' @ [bslash] @ wlit ''l''"
  have p: "PathsToCompare (WrittenPath mem_host (workDirPath ?c)) (WrittenPath mem_host (upperPath ?c)) = (?w, ?u)" by code_simp
  have q: "PathsToCompare (WrittenPath mem_host (workDirPath ?c)) (WrittenPath mem_host sample_lower) = (?w, ?l)" by code_simp
  have "\<not> AreSameOrNested ?w ?l" by code_simp
  then have "\<not> (\<exists>p. in_tree ?w p \<and> in_tree ?l p)" unfolding AreSameOrNested_iff .
  moreover have "?w = JoinDirPath ?u kSidecarDirName" by code_simp
  moreover have "lowerPaths ?c = [sample_lower]" by (simp add: sample_config_def)
  ultimately have "fst (CheckLayoutWith ?c (WrittenPath mem_host) []) = 0"
    unfolding CheckLayout_iff [OF refl p [symmetric]] using q by (simp del: wlit_Cons)
  moreover have "fst (CheckLayout mem_host ?d []) = E_INVALIDARG" by code_simp
  ultimately show ?thesis by (simp add: CheckLayout_def)
qed

section \<open>What the open guarantees\<close>

definition delete_calls_fail :: "('w, 'h) host \<Rightarrow> bool" where
  "delete_calls_fail os \<longleftrightarrow>
     (\<forall>w p acc e. OpenReparsePoint os w p acc = Inl e \<longrightarrow> e \<noteq> 0) \<and>
     (\<forall>w h e. FileBasicAttributes os w h = Inl e \<longrightarrow> e \<noteq> 0) \<and> (\<forall>w h e. FileAttributeTagInfo os w h = Inl e \<longrightarrow> e \<noteq> 0) \<and>
     (\<forall>w h. snd (ListDirectory os w h) \<noteq> 0) \<and> (\<forall>w h a. snd (SetAttributesByHandle os w h a) \<noteq> Some 0) \<and>
     (\<forall>w h. snd (MarkForDeletePlain os w h) \<noteq> Some 0)"


lemma delete_opened_error:
  assumes "delete_calls_fail os" "delete_opened os p h a w ds = (Some (q, e), w', ds')"
  shows "e \<noteq> 0"
  using assms unfolding delete_calls_fail_def delete_opened_def MarkForDelete_def ClearReadOnly_def
  by (auto split: prod.splits option.splits if_splits) (metis snd_conv)+

lemma delete_names_error:
  assumes "\<And>c w ds q e w' ds'. delete c w ds = Some (Some (q, e), w', ds') \<Longrightarrow> e \<noteq> 0"
  shows "delete_names delete p listed w ds = Some (Some (q, e), w', ds') \<Longrightarrow> e \<noteq> 0"
proof (induction listed arbitrary: w ds)
  case (Cons name listed)
  then show ?case using assms [of "JoinDirPath p name" w ds] by (auto split: option.splits)
qed simp

lemma open_errors:
  assumes "delete_calls_fail os"
  shows "OpenForTreeDelete os w p acc = (w', Inl e) \<Longrightarrow> e \<noteq> 0"
    and "ListDirectoryForTreeDelete os w p = (w', Inl e) \<Longrightarrow> e \<noteq> 0"
    and "EntersEntry os w h a = Inl e \<Longrightarrow> e \<noteq> 0"
proof -
  have o: "OpenReparseEntry os w p acc = Inl e \<Longrightarrow> e \<noteq> 0" for w p acc e
    using assms unfolding delete_calls_fail_def OpenReparseEntry_def by blast
  show *: "OpenForTreeDelete os w p acc = (w', Inl e) \<Longrightarrow> e \<noteq> 0" for w p acc w' e
    by (auto simp: OpenForTreeDelete_def split: sum.splits if_splits prod.splits dest: o)
  have l: "snd (ListDirectory os w h) \<noteq> 0" for w h using assms unfolding delete_calls_fail_def by blast
  show "ListDirectoryForTreeDelete os w p = (w', Inl e) \<Longrightarrow> e \<noteq> 0"
    using * [of w p kListDirectoryAccess w' e] l
    by (auto simp: ListDirectoryForTreeDelete_def Let_def split: prod.splits sum.splits if_splits) (metis snd_conv)
  show "EntersEntry os w h a = Inl e \<Longrightarrow> e \<noteq> 0"
    using assms by (auto simp: EntersEntry_def delete_calls_fail_def split: if_splits sum.splits)
qed

lemma DeleteTree_error:
  assumes "delete_calls_fail os"
  shows "DeleteTree os n p w ds = Some (Some (q, e), w', ds') \<Longrightarrow> e \<noteq> 0"
proof (induction n arbitrary: p w ds q e w' ds')
  case (Suc n)
  have basic: "FileBasicAttributes os w h = Inl x \<Longrightarrow> x \<noteq> 0" for w h x using assms unfolding delete_calls_fail_def by blast
  note opened = delete_opened_error [OF assms] and errs = open_errors [OF assms]
  have names: "delete_names (DeleteTree os n) c listed w1 d = Some (Some (q1, e1), w2, d2) \<Longrightarrow> e1 \<noteq> 0" for c listed w1 d q1 e1 w2 d2
    by (rule delete_names_error) (rule Suc.IH)
  show ?case
    using Suc.prems
    by (auto simp: Let_def split: prod.splits sum.splits if_splits bool.splits option.splits dest: basic errs names opened)
qed simp


lemma not_FAILED_0 [simp]: "\<not> FAILED 0"
  by (simp add: FAILED_def)

lemma FAILED_from_win32: "FAILED (HRESULT_FROM_WIN32 e) \<longleftrightarrow> e \<noteq> 0"
proof -
  have sgn: "sint x < 0 \<longleftrightarrow> bit x 31" for x :: dword using bit_last_iff [of x] by auto
  have "bit ((e AND 0xFFFF) OR 0x80070000) 31" by (simp add: bit_or_iff)
  moreover have "e = 0" if "sint e = 0" using that by (metis signed_eq_0_iff)
  ultimately show ?thesis by (auto simp: FAILED_def HRESULT_FROM_WIN32_def sgn [symmetric] order.order_iff_strict)
qed

text \<open>
  The documented behaviour of the lock files and of a directory create: a lock that cannot be opened
  leaves the disk alone and has an error, and a created directory exists.
\<close>

definition lock_calls :: "('w, 'h) host \<Rightarrow> bool" where
  "lock_calls os \<longleftrightarrow>
     (\<forall>w p w' e. OpenLockFile os w p = (w', Inl e) \<longrightarrow> w' = w \<and> e \<noteq> 0) \<and>
     (\<forall>w p w'. CreateDirectoryW os w p = (w', None) \<longrightarrow> exists_at os w' p) \<and>
     (\<forall>w p w'. CreateDirectoryW os w p \<noteq> (w', Some 0))"

lemma TakeLock_result:
  assumes "lock_calls os" "TakeLock os w d l dir role err = (w', hr, lock, err')"
  shows "(FAILED hr \<longleftrightarrow> lock = None) \<and> (lock = None \<longrightarrow> w' = w)"
proof (cases "OpenLockFile os w (JoinDirPath (ForWin32 os d) l)")
  case (Pair w1 r)
  then have "r = Inl e \<Longrightarrow> w1 = w \<and> e \<noteq> 0" for e using assms(1) unfolding lock_calls_def by blast
  then show ?thesis using assms(2) Pair
    by (cases r) (auto simp: TakeLock_def FAILED_from_win32 simp del: wlit_Cons split: if_splits)
qed

lemma ResetStagingArea_result:
  assumes "lock_calls os" "delete_calls_fail os" "ResetStagingArea os n w cfg err = Some (w', hr, err')" "\<not> FAILED hr"
  shows "exists_at os w' (ForWin32 os (StagingAreaPath (workDirPath cfg)))"
proof -
  let ?s = "StagingAreaPath (workDirPath cfg)"
  obtain w1 f where r: "RemoveStagedEntry os n w cfg ?s = Some (w1, f)"
    using assms(3) by (auto simp: ResetStagingArea_def Let_def split: option.splits)
  have "e \<noteq> 0" if "f = Some (q, e)" for q e
    using r that by (auto simp: RemoveStagedEntry_def dest: DeleteTree_error [OF assms(2)])
  then have f: "f = None" using assms(3,4) r by (cases f) (auto simp: ResetStagingArea_def Let_def FAILED_from_win32 simp del: wlit_Cons)
  obtain w2 c where c: "CreateDirectoryW os w1 (ForWin32 os ?s) = (w2, c)" by fastforce
  have "c \<noteq> Some 0" using assms(1) c unfolding lock_calls_def by blast
  then have "c = None" "w' = w2" using assms(3,4) r f c by (cases c; auto simp: ResetStagingArea_def Let_def FAILED_from_win32 simp del: wlit_Cons)+
  then show ?thesis using assms(1) c unfolding lock_calls_def by blast
qed

text \<open>
  An overlay opens its work directory only alone. A refused layout and a work directory that
  another overlay holds leave the disk as it was, with \<^verbatim>\<open>E_INVALIDARG\<close> and \<^verbatim>\<open>ERROR_BUSY\<close>. The open
  gives a work directory object exactly when it does not fail; then the object has two locks, the layout
  was accepted, and there is a staging area.
\<close>

lemma WorkDirectory_Open_alone:
  assumes "lock_calls os" "delete_calls_fail os" "WorkDirectory_Open os n w cfg err = Some (w', hr, dir, err')"
    and "layout = fst (CheckLayoutWith cfg (WrittenAndResolvedPath os w) err)"
  shows "(FAILED layout \<longrightarrow> w' = w \<and> hr = layout \<and> dir = None) \<and>
    (\<not> FAILED layout \<and> snd (OpenLockFile os w (JoinDirPath (ForWin32 os (workDirPath cfg)) kWorkDirectoryLockName)) = Inl ERROR_SHARING_VIOLATION \<longrightarrow>
       w' = w \<and> hr = HRESULT_FROM_WIN32 ERROR_BUSY \<and> dir = None) \<and>
    (FAILED hr \<longleftrightarrow> dir = None) \<and>
    (\<not> FAILED hr \<longrightarrow> \<not> FAILED layout \<and> (\<exists>a b. dir = Some (Some a, Some b)) \<and>
       exists_at os w' (ForWin32 os (StagingAreaPath (workDirPath cfg))))"
proof -
  obtain err1 where l: "CheckLayoutWith cfg (WrittenAndResolvedPath os w) err = (layout, err1)"
    using assms(4) by (metis prod.collapse)
  obtain w1 h1 lock1 err2 where t: "TakeLock os w (workDirPath cfg) kWorkDirectoryLockName (workDirPath cfg) (wlit ''work directory'') err1 = (w1, h1, lock1, err2)"
    by (metis prod_cases4)
  obtain w2 h2 lock2 err3 where u: "LockUpper os w1 (upperPath cfg) err2 = (w2, h2, lock2, err3)" by (metis prod_cases4)
  note t' = TakeLock_result [OF assms(1) t] and u' = TakeLock_result [OF assms(1) u [unfolded LockUpper_def Let_def]]
  have busy: "w1 = w \<and> h1 = HRESULT_FROM_WIN32 ERROR_BUSY \<and> lock1 = None"
    if "snd (OpenLockFile os w (JoinDirPath (ForWin32 os (workDirPath cfg)) kWorkDirectoryLockName)) = Inl ERROR_SHARING_VIOLATION"
    using that t t' by (cases "OpenLockFile os w (JoinDirPath (ForWin32 os (workDirPath cfg)) kWorkDirectoryLockName)")
      (auto simp: TakeLock_def)
  show ?thesis
  proof (cases "FAILED layout \<or> FAILED h1 \<or> FAILED h2")
    case True
    then show ?thesis using assms(3) l t t' u u' busy
      by (auto simp: WorkDirectory_Open_def close_lock_def FAILED_from_win32 split: if_splits)
  next
    case False
    then obtain w3 h3 err4 where r: "ResetStagingArea os n w2 cfg err3 = Some (w3, h3, err4)"
      using assms(3) l t u by (auto simp: WorkDirectory_Open_def split: option.splits)
    have "\<not> FAILED h3 \<Longrightarrow> exists_at os w3 (ForWin32 os (StagingAreaPath (workDirPath cfg)))"
      by (rule ResetStagingArea_result [OF assms(1,2) r])
    moreover have "h1 \<noteq> HRESULT_FROM_WIN32 ERROR_BUSY" using False FAILED_from_win32 [of ERROR_BUSY] by auto
    ultimately show ?thesis using assms(3) l t t' u u' r busy False
      by (auto simp: WorkDirectory_Open_def split: if_splits)
  qed
qed


lemma mem_lock_calls: "lock_calls mem_host"
  by (auto simp: lock_calls_def mem_host_def mem_lock_def mem_put_def exists_at_def mem_attributes_def update_conv' split: if_splits)

lemma mem_delete_calls_fail: "delete_calls_fail mem_host"
  by (auto simp: delete_calls_fail_def mem_host_def mem_open_def mem_get_def mem_delete_def split: option.splits if_splits)

end
