(* ===== verification/Copy_Up.thy ===== *)
theory Copy_Up
  imports Entry_Copy Rename_Steps Work_Directory
begin

text \<open>
  Copy-up (\<^verbatim>\<open>impl/CopyUp.cpp\<close>): a lower entry is built in the staging area of the work directory and
  moved to the upper with one rename. The state is the engine with the counters of the copy-up and the
  set of the paths that are being copied up. A path that is already in that set makes the thread wait;
  the set is per engine, so in a run of one thread that wait never ends, and the run gives \<open>Waits\<close>.
  \<open>NeedsRounds\<close> is a loop that needs more rounds than \<open>n\<close>. \<open>now\<close> is the clock of the path cache.
\<close>

section \<open>Runs\<close>

datatype 'a run = Finished 'a | Waits wstring | NeedsRounds

fun and_then :: "'a run \<Rightarrow> ('a \<Rightarrow> 'b run) \<Rightarrow> 'b run" where
  "and_then (Finished x) f = f x"
| "and_then (Waits p) f = Waits p"
| "and_then NeedsRounds f = NeedsRounds"

fun rounds :: "'a option \<Rightarrow> 'a run" where
  "rounds None = NeedsRounds"
| "rounds (Some x) = Finished x"

lemma and_then_cong [fundef_cong]:
  "x = y \<Longrightarrow> (\<And>a. y = Finished a \<Longrightarrow> f a = g a) \<Longrightarrow> and_then x f = and_then y g"
  by (cases y) auto

section \<open>State\<close>

record 'w copy_up_state =
  cuEngine :: "'w engine"
  workCounter :: uint64
  copyUpCount :: uint64
  inFlightCopyUps :: "wstring list"
  fillFailure :: "(32 word \<times> wstring) option"

abbreviation cu_disk :: "'w copy_up_state \<Rightarrow> 'w" where "cu_disk st \<equiv> engineDisk (cuEngine st)"

definition set_disk :: "'w copy_up_state \<Rightarrow> 'w \<Rightarrow> 'w copy_up_state" where
  "set_disk st w = st\<lparr>cuEngine := (cuEngine st)\<lparr>engineDisk := w\<rparr>\<rparr>"

definition invalidate_with_ancestors :: "('w, 'h) host \<Rightarrow> 'w copy_up_state \<Rightarrow> wstring \<Rightarrow> 'w copy_up_state" where
  "invalidate_with_ancestors os st path =
     st\<lparr>cuEngine := (cuEngine st)\<lparr>engineCache := InvalidateWithAncestors os (engineCache (cuEngine st)) path\<rparr>\<rparr>"

text \<open>\<^verbatim>\<open>PathReservation\<close>: the constructor, the work, and the destructor.\<close>

definition PathReservation ::
  "'w copy_up_state \<Rightarrow> wstring \<Rightarrow> ('w copy_up_state \<Rightarrow> ('w copy_up_state \<times> 'a) run) \<Rightarrow> ('w copy_up_state \<times> 'a) run" where
  "PathReservation st path work =
     (if path \<in> set (inFlightCopyUps st) then Waits path
      else
        and_then (work (st\<lparr>inFlightCopyUps := path # inFlightCopyUps st\<rparr>))
          (\<lambda>(st1, r). Finished (st1\<lparr>inFlightCopyUps := remove1 path (inFlightCopyUps st1)\<rparr>, r)))"

lemma PathReservation_cong [fundef_cong]:
  "st = st' \<Longrightarrow> path = path' \<Longrightarrow> (\<And>s. f s = g s) \<Longrightarrow> PathReservation st path f = PathReservation st' path' g"
  by (simp add: PathReservation_def)

definition RecordCopyUp :: "'w copy_up_state \<Rightarrow> wstring \<Rightarrow> 'w copy_up_state" where
  "RecordCopyUp st relativePath =
     st\<lparr>copyUpCount := copyUpCount st + 1, cuEngine := Emit (cuEngine st) LM_EVT_COPY_UP S_OK relativePath []\<rparr>"

section \<open>Names\<close>

fun to_wstring :: "nat \<Rightarrow> wstring" where
  "to_wstring k = (if k < 10 then [48 + of_nat k] else to_wstring (k div 10) @ [48 + of_nat (k mod 10)])"

declare to_wstring.simps [simp del]

definition whash :: wchar where "whash = 35"

definition UniqueEntryName :: "('w, 'h) file_io \<Rightarrow> 'w copy_up_state \<Rightarrow> 'w copy_up_state \<times> wstring" where
  "UniqueEntryName io st =
     (let counter = workCounter st;
          ft = SystemTimeAsFileTime io (cu_disk st);
          timestamp = (push_bit 32 (ucast (dwHighDateTime ft)) OR ucast (dwLowDateTime ft)) :: uint64 in
      (st\<lparr>workCounter := workCounter st + 1\<rparr>,
       [whash] @ to_wstring (unat (CurrentProcessId io)) @ [wdot] @ to_wstring (unat (CurrentThreadId io)) @ [wdot] @
       to_wstring (unat counter) @ [wdot] @ to_wstring (unat timestamp) @ wlit ''.tmp''))"

definition GenerateStagingPath :: "('w, 'h) file_io \<Rightarrow> LayerConfig \<Rightarrow> 'w copy_up_state \<Rightarrow> 'w copy_up_state \<times> wstring" where
  "GenerateStagingPath io cfg st =
     (let (st1, name) = UniqueEntryName io st in (st1, JoinDirPath (StagingAreaPath (workDirPath cfg)) name))"

definition kAsideNamePrefix :: wstring where "kAsideNamePrefix = wlit ''.layermount''"

text \<open>Without a separator \<^verbatim>\<open>find_last_of\<close> gives \<^verbatim>\<open>npos\<close>, and the substring is the whole path.\<close>

definition GenerateAsidePathNextTo :: "('w, 'h) file_io \<Rightarrow> 'w copy_up_state \<Rightarrow> wstring \<Rightarrow> 'w copy_up_state \<times> wstring" where
  "GenerateAsidePathNextTo io st path =
     (let directory = (case wfind_last path bslash of None \<Rightarrow> path | Some i \<Rightarrow> take i path);
          (st1, name) = UniqueEntryName io st in
      (st1, JoinDirPath directory (kAsideNamePrefix @ name)))"

section \<open>Attributes and times\<close>

definition zero_times :: EntryTimes where
  "zero_times = (let t = \<lparr>dwLowDateTime = 0, dwHighDateTime = 0\<rparr> in \<lparr>creationTime = t, accessTime = t, writeTime = t\<rparr>)"

text \<open>\<^verbatim>\<open>FileBasicInfoGuard\<close>: the captured times, the attributes and the target.\<close>

record FileBasicInfoGuard =
  guardTimes :: EntryTimes
  guardAttributes :: "dword option"
  guardTarget :: wstring

definition guard_of_handle :: "('w, 'h) file_io \<Rightarrow> 'w \<Rightarrow> 'h option \<Rightarrow> dword option \<Rightarrow> wstring \<Rightarrow> FileBasicInfoGuard" where
  "guard_of_handle io w handle attrs target =
     \<lparr>guardTimes =
        (case handle of None \<Rightarrow> zero_times | Some h \<Rightarrow> (case GetFileTime io w h of None \<Rightarrow> zero_times | Some t \<Rightarrow> t)),
      guardAttributes = attrs, guardTarget = target\<rparr>"

definition guard_of_data :: "attribute_data \<Rightarrow> dword option \<Rightarrow> wstring \<Rightarrow> FileBasicInfoGuard" where
  "guard_of_data info attrs target = \<lparr>guardTimes = EntryTimesOf info, guardAttributes = attrs, guardTarget = target\<rparr>"

definition Guard_Restore :: "('w, 'h) host \<Rightarrow> 'w \<Rightarrow> FileBasicInfoGuard \<Rightarrow> 'w \<times> bool" where
  "Guard_Restore os w g = WriteEntryTimes os w (guardTarget g) (guardTimes g) (guardAttributes g)"

definition StagedFileAttributes :: "dword \<Rightarrow> dword option" where
  "StagedFileAttributes attrs = map_option (\<lambda>a. a OR FILE_ATTRIBUTE_ARCHIVE) (AttributesOrNone attrs)"

definition MetacopyShellCreateAttributes :: "dword \<Rightarrow> dword" where
  "MetacopyShellCreateAttributes attrs =
     (let kCreatable = FILE_ATTRIBUTE_HIDDEN OR FILE_ATTRIBUTE_SYSTEM OR FILE_ATTRIBUTE_ARCHIVE OR FILE_ATTRIBUTE_TEMPORARY OR
            FILE_ATTRIBUTE_NOT_CONTENT_INDEXED OR FILE_ATTRIBUTE_ENCRYPTED in
      attrs AND kCreatable)"

definition ClearReadOnlyAtPath :: "('w, 'h) host \<Rightarrow> ('w, 'h) file_io \<Rightarrow> 'w \<Rightarrow> wstring \<Rightarrow> dword \<Rightarrow> 'w \<times> dword option" where
  "ClearReadOnlyAtPath os io w path attrs =
     (if attrs AND FILE_ATTRIBUTE_READONLY = 0 then (w, None)
      else
        (case CreateFileW io w (WithExtendedPrefix os path) FILE_WRITE_ATTRIBUTES kShareAll OPEN_EXISTING FILE_FLAG_BACKUP_SEMANTICS of
           (w1, Inl e) \<Rightarrow> (w1, Some e)
         | (w1, Inr entry) \<Rightarrow> let (w2, r) = ClearReadOnly os w1 entry attrs in (CloseHandle io w2 entry, r)))"

definition HideEntry :: "('w, 'h) host \<Rightarrow> ('w, 'h) file_io \<Rightarrow> 'w \<Rightarrow> wstring \<Rightarrow> 'w \<times> dword option" where
  "HideEntry os io w path =
     (let attrs = attributes_at os w path in
      if attrs = INVALID_FILE_ATTRIBUTES then (w, None)
      else
        let (w1, r) = WriteOwnAttributes os io w path (attrs OR FILE_ATTRIBUTE_HIDDEN) in
        (w1, if r = None then Some attrs else None))"

definition CopySecurityDescriptor :: "('w, 'h) host \<Rightarrow> ('w, 'h) file_io \<Rightarrow> 'w \<Rightarrow> wstring \<Rightarrow> wstring \<Rightarrow> 'w \<times> bool" where
  "CopySecurityDescriptor os io w srcPath dstPath =
     (let secInfo = DropSaclWithoutPrivilege io (OWNER_SECURITY_INFORMATION OR GROUP_SECURITY_INFORMATION OR
            DACL_SECURITY_INFORMATION OR SACL_SECURITY_INFORMATION);
          extendedSrc = WithExtendedPrefix os srcPath;
          sdSize = fst (GetFileSecurityW io w extendedSrc secInfo 0) in
      if sdSize = 0 then (w, False)
      else
        (case snd (GetFileSecurityW io w extendedSrc secInfo sdSize) of
           Inl e \<Rightarrow> (w, False)
         | Inr sd \<Rightarrow>
             let (w1, r) = SetFileSecurityW io w (WithExtendedPrefix os dstPath) secInfo sd in (w1, r = None)))"

definition CopyTimestamps :: "('w, 'h) host \<Rightarrow> ('w, 'h) file_io \<Rightarrow> 'w \<Rightarrow> 'h \<Rightarrow> 'h \<Rightarrow> 'w \<times> bool" where
  "CopyTimestamps os io w srcHandle dstHandle =
     (case GetFileTime io w srcHandle of
        None \<Rightarrow> (w, False)
      | Some t \<Rightarrow> let (w1, r) = SetFileTime os w dstHandle t in (w1, r = None))"

section \<open>Staged files\<close>

definition CopyStagedFileMetadata ::
  "('w, 'h) host \<Rightarrow> ('w, 'h) file_io \<Rightarrow> nat \<Rightarrow> 'w \<Rightarrow> wstring \<Rightarrow> dword \<Rightarrow> wstring \<Rightarrow> ('w \<times> ntstatus) option" where
  "CopyStagedFileMetadata os io n w sourcePath srcAttrs workPath =
     (case ApplyEncryptedStateIfNeeded os io w workPath srcAttrs of
        (w1, Some err) \<Rightarrow> Some (w1, nt_status os (if err \<noteq> 0 then err else ERROR_ACCESS_DENIED))
      | (w1, None) \<Rightarrow>
          (case CopyExtendedAttributes os io n w1 sourcePath workPath of
             None \<Rightarrow> None
           | Some (w2, eaStatus) \<Rightarrow>
               if \<not> NT_SUCCESS eaStatus then Some (w2, eaStatus)
               else
                 (case CopySecurityDescriptor os io w2 sourcePath workPath of
                    (w3, True) \<Rightarrow> Some (w3, STATUS_SUCCESS)
                  | (w3, False) \<Rightarrow>
                      let err = GetLastError io w3 in
                      Some (w3, nt_status os (if err \<noteq> 0 then err else ERROR_ACCESS_DENIED)))))"

text \<open>The third component tells that the source handle is still open.\<close>

definition StageFileInWorkDir ::
  "('w, 'h) host \<Rightarrow> ('w, 'h) file_io \<Rightarrow> nat \<Rightarrow> LayerConfig \<Rightarrow> 'w \<Rightarrow> wstring \<Rightarrow> 'h \<Rightarrow> dword \<Rightarrow> wstring \<Rightarrow> ('w \<times> ntstatus \<times> bool) option" where
  "StageFileInWorkDir os io n cfg w sourcePath srcHandle srcAttrs workPath =
     (case CreateFileW io w (ForWin32 os workPath) (GENERIC_READ OR GENERIC_WRITE) 0 CREATE_NEW FILE_ATTRIBUTE_NORMAL of
        (w1, Inl e) \<Rightarrow> Some (w1, nt_status os e, True)
      | (w1, Inr dstHandle) \<Rightarrow>
          let (w2, refused) =
                (if HasFileAttribute srcAttrs FILE_ATTRIBUTE_SPARSE_FILE \<and> HasSparseFiles (hostCapabilities cfg)
                 then SetSparse io w1 dstHandle else (w1, None)) in
          (case refused of
             Some e \<Rightarrow> Some (CloseHandle io w2 dstHandle, SparseRefusalStatus os e, True)
           | None \<Rightarrow>
               (case CopyFileDataKeepingHoles os io n (SetCompressedIfSource io w2 dstHandle srcAttrs) srcHandle dstHandle of
                  None \<Rightarrow> None
                | Some (w3, status) \<Rightarrow>
                    if \<not> NT_SUCCESS status then Some (CloseHandle io w3 dstHandle, status, True)
                    else
                      map_option (\<lambda>(w5, metadataStatus). (w5, metadataStatus, False))
                        (CopyStagedFileMetadata os io n (CloseHandle io (CloseHandle io w3 srcHandle) dstHandle)
                           sourcePath srcAttrs workPath))))"

definition RecordStagedFile ::
  "('w, 'h) host \<Rightarrow> ('w, 'h) file_io \<Rightarrow> LayerConfig \<Rightarrow> 'w \<Rightarrow> wstring \<Rightarrow> LayerMountMetadata \<Rightarrow> FileBasicInfoGuard \<Rightarrow> 'w \<times> ntstatus" where
  "RecordStagedFile os io cfg w workPath metadata basicInfo =
     (case WriteLayerMountMetadata os w workPath metadata (Some cfg) of
        (w1, False) \<Rightarrow> (w1, StatusOfFailedCall (CloudFileStatus os) (GetLastError io w1) ERROR_WRITE_FAULT)
      | (w1, True) \<Rightarrow>
          (case Guard_Restore os w1 basicInfo of
             (w2, False) \<Rightarrow> (w2, StatusOfFailedCall (CloudFileStatus os) (GetLastError io w2) ERROR_ACCESS_DENIED)
           | (w2, True) \<Rightarrow> (w2, STATUS_SUCCESS)))"

definition FinishStagedFile ::
  "('w, 'h) host \<Rightarrow> ('w, 'h) file_io \<Rightarrow> nat \<Rightarrow> LayerConfig \<Rightarrow> 'w \<Rightarrow> wstring \<Rightarrow> wstring \<Rightarrow> FileBasicInfoGuard \<Rightarrow> ('w \<times> ntstatus) option" where
  "FinishStagedFile os io n cfg w sourcePath workPath basicInfo =
     (case CopyUserAlternateDataStreams os io n w sourcePath workPath of
        None \<Rightarrow> None
      | Some (w1, streamStatus) \<Rightarrow>
          if \<not> NT_SUCCESS streamStatus then Some (w1, streamStatus)
          else
            let (w2, metadata) = MakeCopyUpMetadata os io w1 sourcePath in
            Some (RecordStagedFile os io cfg w2 workPath metadata basicInfo))"

definition CommitFromWorkDir ::
  "('w, 'h) host \<Rightarrow> nat \<Rightarrow> LayerConfig \<Rightarrow> 'w \<Rightarrow> wstring \<Rightarrow> wstring \<Rightarrow> ('w \<times> ntstatus) option" where
  "CommitFromWorkDir os n cfg w workPath finalUpperPath =
     (let parentDir = parent_path finalUpperPath;
          w1 = (if parentDir \<noteq> [] then fst (EnsureDirectoryExists os w parentDir) else w) in
      case MoveUpperEntry os n w1 cfg workPath finalUpperPath ReplaceNo of
        None \<Rightarrow> None
      | Some (w2, move) \<Rightarrow>
          if NT_SUCCESS (moveStatus move) then Some (w2, moveStatus move)
          else map_option (\<lambda>(w3, failure). (w3, moveStatus move)) (RemoveStagedEntry os n w2 cfg workPath))"

definition CommitStagedFile ::
  "('w, 'h) host \<Rightarrow> nat \<Rightarrow> LayerConfig \<Rightarrow> 'w copy_up_state \<Rightarrow> wstring \<Rightarrow> wstring \<Rightarrow> wstring \<Rightarrow> ('w copy_up_state \<times> ntstatus) option" where
  "CommitStagedFile os n cfg st normalized workPath path =
     map_option
       (\<lambda>(w1, status).
          let st1 = set_disk st w1 in
          if \<not> NT_SUCCESS status then (st1, status)
          else (RecordCopyUp (invalidate_with_ancestors os st1 normalized) normalized, STATUS_SUCCESS))
       (CommitFromWorkDir os n cfg (cu_disk st) workPath path)"

section \<open>Directories\<close>

record CopyUpTarget =
  targetSource :: ResolvedPath
  targetUpperPath :: wstring

definition CopyUpReparseCloneAndCount ::
  "('w, 'h) host \<Rightarrow> ('w, 'h) file_io \<Rightarrow> nat \<Rightarrow> LayerConfig \<Rightarrow> 'w copy_up_state \<Rightarrow> wstring \<Rightarrow> CopyUpTarget \<Rightarrow>
     ('w copy_up_state \<times> ntstatus) option" where
  "CopyUpReparseCloneAndCount os io n cfg st normalized target =
     (let (st1, containerPath) = GenerateStagingPath io cfg st;
          entry = \<lparr>sourceEntryPath = absolutePath (targetSource target), sourceEntryAttributes = attributes (targetSource target)\<rparr> in
      map_option
        (\<lambda>(w1, status).
           let st2 = set_disk st1 w1 in
           if \<not> NT_SUCCESS status then (st2, status)
           else (RecordCopyUp (invalidate_with_ancestors os st2 normalized) normalized, STATUS_SUCCESS))
        (CloneReparsePointThroughWorkDir os io n (cu_disk st1) entry containerPath (targetUpperPath target) NewFromSource cfg))"

definition BuildStagedDirectory ::
  "('w, 'h) host \<Rightarrow> ('w, 'h) file_io \<Rightarrow> nat \<Rightarrow> LayerConfig \<Rightarrow> 'w \<Rightarrow> wstring \<Rightarrow> wstring \<Rightarrow> ('w \<times> ntstatus) option" where
  "BuildStagedDirectory os io n cfg w sourcePath stagedPath =
     (case CreateDirectoryW os w (ForWin32 os stagedPath) of
        (w1, Some e) \<Rightarrow> Some (w1, StatusOfFailedCall (CloudFileStatus os) e ERROR_WRITE_FAULT)
      | (w1, None) \<Rightarrow>
          (case CopyDirectoryOwnMetadata os io n w1 sourcePath stagedPath of
             None \<Rightarrow> None
           | Some (w2, status) \<Rightarrow>
               if \<not> NT_SUCCESS status then Some (w2, status)
               else
                 (case CopySecurityDescriptor os io w2 sourcePath stagedPath of
                    (w3, False) \<Rightarrow> Some (w3, StatusOfFailedCall (CloudFileStatus os) (GetLastError io w3) ERROR_ACCESS_DENIED)
                  | (w3, True) \<Rightarrow>
                      let (w4, metadata) = MakeCopyUpMetadata os io w3 sourcePath in
                      (case WriteLayerMountMetadata os w4 stagedPath metadata (Some cfg) of
                         (w5, False) \<Rightarrow> Some (w5, StatusOfFailedCall (CloudFileStatus os) (GetLastError io w5) ERROR_WRITE_FAULT)
                       | (w5, True) \<Rightarrow> Some (w5, STATUS_SUCCESS)))))"

text \<open>
  The part of \<^verbatim>\<open>CopyUpDirectory\<close> after its target is known. The destructor of the guard writes the times
  once more when the build failed and \<^verbatim>\<open>Restore\<close> did not run.
\<close>

definition copy_up_directory_to ::
  "('w, 'h) host \<Rightarrow> ('w, 'h) file_io \<Rightarrow> nat \<Rightarrow> LayerConfig \<Rightarrow> 'w copy_up_state \<Rightarrow> wstring \<Rightarrow> CopyUpTarget \<Rightarrow>
     ('w copy_up_state \<times> ntstatus) option" where
  "copy_up_directory_to os io n cfg st normalized target =
     (let sourcePath = absolutePath (targetSource target);
          (status, clones) = ClonesReparsePoint os (cu_disk st) sourcePath (attributes (targetSource target)) in
      if \<not> NT_SUCCESS status then Some (st, status)
      else if clones then CopyUpReparseCloneAndCount os io n cfg st normalized target
      else
        let srcAttrs = attributes_at os (cu_disk st) sourcePath;
            (w1, opened) = CreateFileW io (cu_disk st) (WithExtendedPrefix os sourcePath) GENERIC_READ
              (FILE_SHARE_READ OR FILE_SHARE_WRITE) OPEN_EXISTING FILE_FLAG_BACKUP_SEMANTICS;
            srcHandle = (case opened of Inl e \<Rightarrow> None | Inr h \<Rightarrow> Some h);
            (st1, stagedPath) = GenerateStagingPath io cfg (set_disk st w1);
            basicInfo = guard_of_handle io w1 srcHandle (AttributesOrNone srcAttrs) stagedPath;
            w2 = (case srcHandle of None \<Rightarrow> w1 | Some h \<Rightarrow> CloseHandle io w1 h) in
        (case BuildStagedDirectory os io n cfg w2 sourcePath stagedPath of
           None \<Rightarrow> None
         | Some (w3, built) \<Rightarrow>
             if \<not> NT_SUCCESS built
             then
               map_option (\<lambda>(w4, failure). (set_disk st1 (fst (Guard_Restore os w4 basicInfo)), built))
                 (RemoveStagedEntry os n w3 cfg stagedPath)
             else
               (case MoveUpperEntry os n (fst (Guard_Restore os w3 basicInfo)) cfg stagedPath (targetUpperPath target) ReplaceNo of
                  None \<Rightarrow> None
                | Some (w5, move) \<Rightarrow>
                    if \<not> NT_SUCCESS (moveStatus move)
                    then map_option (\<lambda>(w6, failure). (set_disk st1 w6, moveStatus move)) (RemoveStagedEntry os n w5 cfg stagedPath)
                    else
                      Some (RecordCopyUp (invalidate_with_ancestors os (set_disk st1 w5) normalized) normalized, STATUS_SUCCESS))))"

text \<open>
  What \<^verbatim>\<open>EnsureUpperParent\<close> decides from the layers: the status to return, or \<open>None\<close> when it copies the
  parent up. The lookup of the parent uses the path cache.
\<close>

definition upper_parent_status ::
  "('w, 'h) host \<Rightarrow> int \<Rightarrow> LayerConfig \<Rightarrow> 'w copy_up_state \<Rightarrow> wstring \<Rightarrow> 'w copy_up_state \<times> ntstatus option" where
  "upper_parent_status os now cfg st parent =
     (let w = cu_disk st;
          upperAttributes = UpperAttributes os w cfg parent;
          upperHoldsParent = (upperAttributes \<noteq> INVALID_FILE_ATTRIBUTES);
          (c1, shown) =
            (if upperHoldsParent
             then (engineCache (cuEngine st),
                   \<lparr>absolutePath = GetUpperPath os cfg parent, source = Upper, lowerIndex = -1, isWhiteout = False,
                    attributes = upperAttributes\<rparr>)
             else ResolvePath os w cfg now (engineCache (cuEngine st)) parent);
          st1 = st\<lparr>cuEngine := (cuEngine st)\<lparr>engineCache := c1\<rparr>\<rparr>;
          (kind, failure) = ShownLinkTarget os w shown in
      (st1,
       case kind of
         TargetNoDirectory \<Rightarrow> Some STATUS_OBJECT_PATH_NOT_FOUND
       | TargetFailed \<Rightarrow> Some failure
       | TargetDirectory \<Rightarrow>
           if upperHoldsParent then Some STATUS_SUCCESS
           else if source shown = Lower then None else Some STATUS_OBJECT_PATH_NOT_FOUND))"

text \<open>The end of \<^verbatim>\<open>PrepareCopyUpTarget\<close>, after the parent is in the upper.\<close>

definition target_below_parent ::
  "('w, 'h) host \<Rightarrow> LayerConfig \<Rightarrow> 'w copy_up_state \<Rightarrow> wstring \<Rightarrow> ResolvedPath \<Rightarrow> CopyUpTarget option" where
  "target_below_parent os cfg st normalized src =
     (let parent = parent_path normalized;
          link = FindLinkOnPath os (cu_disk st) (upperPath cfg) parent in
      if (link = LinkSelf \<or> link = LinkAncestor) \<and> ExistsInUpper os (cu_disk st) cfg normalized then None
      else Some \<lparr>targetSource = src, targetUpperPath = GetUpperPathForCopyUp os (cu_disk st) cfg normalized src\<rparr>)"

lemma length_NormalizePath: "length (NormalizePath T p) \<le> length p"
proof -
  have "length (strip_end P xs) \<le> length xs" for P and xs :: wstring
    using length_dropWhile_le [of P "rev xs"] by (simp add: strip_end_def)
  then show ?thesis
    unfolding NormalizePath_def NormalizePathPreserveCase_def length_map
    by (metis (no_types, lifting) le_trans length_dropWhile_le length_map)
qed

lemma length_ParentOfNormalizedPath: "ParentOfNormalizedPath p \<noteq> [] \<Longrightarrow> length (ParentOfNormalizedPath p) < length p"
  by (auto simp: ParentOfNormalizedPath_def wfind_last_def split: option.splits)

function CopyUpDirectory ::
    "('w, 'h) host \<Rightarrow> ('w, 'h) file_io \<Rightarrow> int \<Rightarrow> nat \<Rightarrow> LayerConfig \<Rightarrow> 'w copy_up_state \<Rightarrow> wstring \<Rightarrow> ('w copy_up_state \<times> ntstatus) run"
  and PrepareCopyUpTarget ::
    "('w, 'h) host \<Rightarrow> ('w, 'h) file_io \<Rightarrow> int \<Rightarrow> nat \<Rightarrow> LayerConfig \<Rightarrow> 'w copy_up_state \<Rightarrow> wstring \<Rightarrow>
       ('w copy_up_state \<times> ntstatus \<times> CopyUpTarget option) run"
  and EnsureUpperParent ::
    "('w, 'h) host \<Rightarrow> ('w, 'h) file_io \<Rightarrow> int \<Rightarrow> nat \<Rightarrow> LayerConfig \<Rightarrow> 'w copy_up_state \<Rightarrow> wstring \<Rightarrow> ('w copy_up_state \<times> ntstatus) run"
where
  "CopyUpDirectory os io now n cfg st relativePath =
     (let normalized = NormalizePath os relativePath in
      PathReservation st normalized
        (\<lambda>st1.
           if ExistsInUpper os (cu_disk st1) cfg normalized then Finished (st1, STATUS_SUCCESS)
           else
             and_then (PrepareCopyUpTarget os io now n cfg st1 normalized)
               (\<lambda>(st2, status, target).
                  if \<not> NT_SUCCESS status then Finished (st2, status)
                  else
                    (case target of
                       None \<Rightarrow> Finished (st2, status)
                     | Some t \<Rightarrow> rounds (copy_up_directory_to os io n cfg st2 normalized t)))))"
| "PrepareCopyUpTarget os io now n cfg st normalized =
     (let src = ResolveLowerPath os (cu_disk st) cfg normalized in
      if \<not> Found src then Finished (st, STATUS_OBJECT_NAME_NOT_FOUND, None)
      else
        and_then (EnsureUpperParent os io now n cfg st normalized)
          (\<lambda>(st1, status).
             Finished (st1, status, if NT_SUCCESS status then target_below_parent os cfg st1 normalized src else None)))"
| "EnsureUpperParent os io now n cfg st normalizedPath =
     (let parent = ParentOfNormalizedPath normalizedPath in
      if parent = [] then Finished (st, STATUS_SUCCESS)
      else
        (case upper_parent_status os now cfg st parent of
           (st1, Some status) \<Rightarrow> Finished (st1, status)
         | (st1, None) \<Rightarrow> CopyUpDirectory os io now n cfg st1 parent))"
  by pat_completeness auto
termination
proof (relation "measure (\<lambda>x. case x of
        Inl (os, io, now, n, cfg, st, p) \<Rightarrow> 3 * length p + 2
      | Inr (Inl (os, io, now, n, cfg, st, p)) \<Rightarrow> 3 * length p + 1
      | Inr (Inr (os, io, now, n, cfg, st, p)) \<Rightarrow> 3 * length p)", goal_cases)
  case (2 os io now n cfg st p x s)
  then show ?case using length_NormalizePath [of os p] by simp
next
  case (4 os io now n cfg st p x st1)
  then show ?case using length_ParentOfNormalizedPath [of p] by simp
qed auto

declare CopyUpDirectory.simps [simp del] PrepareCopyUpTarget.simps [simp del] EnsureUpperParent.simps [simp del]

definition CopyUpLowerLinkAbove ::
  "('w, 'h) host \<Rightarrow> ('w, 'h) file_io \<Rightarrow> int \<Rightarrow> nat \<Rightarrow> LayerConfig \<Rightarrow> 'w copy_up_state \<Rightarrow> wstring \<Rightarrow> ('w copy_up_state \<times> ntstatus) run" where
  "CopyUpLowerLinkAbove os io now n cfg st normalizedPath =
     (let link = FindLinkAbove os (cu_disk st) cfg normalizedPath in
      case linkStop link of
        LinkStopLink \<Rightarrow>
          if linkSource link = Lower then CopyUpDirectory os io now n cfg st (linkPath link) else Finished (st, STATUS_SUCCESS)
      | LinkStopUnreadable \<Rightarrow> Finished (st, STATUS_SUCCESS)
      | LinkStopNone \<Rightarrow> Finished (st, STATUS_SUCCESS))"

section \<open>Files\<close>

definition copy_up_file_to ::
  "('w, 'h) host \<Rightarrow> ('w, 'h) file_io \<Rightarrow> nat \<Rightarrow> LayerConfig \<Rightarrow> 'w copy_up_state \<Rightarrow> wstring \<Rightarrow> CopyUpTarget \<Rightarrow>
     ('w copy_up_state \<times> ntstatus) option" where
  "copy_up_file_to os io n cfg st normalized target =
     (let sourcePath = absolutePath (targetSource target);
          (status, clones) = ClonesReparsePoint os (cu_disk st) sourcePath (attributes (targetSource target)) in
      if \<not> NT_SUCCESS status then Some (st, status)
      else if clones then CopyUpReparseCloneAndCount os io n cfg st normalized target
      else
        (case OpenSourceFileForCopy os io (cu_disk st) sourcePath of
           (w1, Inl e) \<Rightarrow> Some (set_disk st w1, nt_status os e)
         | (w1, Inr srcHandle) \<Rightarrow>
             let srcAttrs = attributes_at os w1 sourcePath;
                 (st1, workPath) = GenerateStagingPath io cfg (set_disk st w1);
                 basicInfo = guard_of_handle io w1 (Some srcHandle) (StagedFileAttributes srcAttrs) workPath in
             (case StageFileInWorkDir os io n cfg w1 sourcePath srcHandle srcAttrs workPath of
                None \<Rightarrow> None
              | Some (w2, staged, srcOpen) \<Rightarrow>
                  (case (if NT_SUCCESS staged then FinishStagedFile os io n cfg w2 sourcePath workPath basicInfo
                         else Some (w2, staged)) of
                     None \<Rightarrow> None
                   | Some (w3, finished) \<Rightarrow>
                       if \<not> NT_SUCCESS finished
                       then
                         map_option (\<lambda>(w4, failure). (set_disk st1 (if srcOpen then CloseHandle io w4 srcHandle else w4), finished))
                           (RemoveStagedEntry os n w3 cfg workPath)
                       else CommitStagedFile os n cfg (set_disk st1 w3) normalized workPath (targetUpperPath target)))))"

definition CopyUpFile ::
  "('w, 'h) host \<Rightarrow> ('w, 'h) file_io \<Rightarrow> int \<Rightarrow> nat \<Rightarrow> LayerConfig \<Rightarrow> 'w copy_up_state \<Rightarrow> wstring \<Rightarrow> ('w copy_up_state \<times> ntstatus) run" where
  "CopyUpFile os io now n cfg st relativePath =
     (let normalized = NormalizePath os relativePath in
      PathReservation st normalized
        (\<lambda>st1.
           if ExistsInUpper os (cu_disk st1) cfg normalized then Finished (st1, STATUS_SUCCESS)
           else
             and_then (PrepareCopyUpTarget os io now n cfg st1 normalized)
               (\<lambda>(st2, status, target).
                  if \<not> NT_SUCCESS status then Finished (st2, status)
                  else
                    (case target of
                       None \<Rightarrow> Finished (st2, status)
                     | Some t \<Rightarrow> rounds (copy_up_file_to os io n cfg st2 normalized t)))))"

section \<open>Metacopy shells\<close>

definition MarkPlaceholderSparseOrAbort ::
  "('w, 'h) host \<Rightarrow> ('w, 'h) file_io \<Rightarrow> nat \<Rightarrow> LayerConfig \<Rightarrow> 'w \<Rightarrow> 'h \<Rightarrow> wstring \<Rightarrow> ('w \<times> ntstatus) option" where
  "MarkPlaceholderSparseOrAbort os io n cfg w dstHandle workPath =
     (case SetSparse io w dstHandle of
        (w1, None) \<Rightarrow> Some (w1, STATUS_SUCCESS)
      | (w1, Some e) \<Rightarrow>
          map_option (\<lambda>(w2, failure). (w2, SparseRefusalStatus os e))
            (RemoveStagedEntry os n (CloseHandle io w1 dstHandle) cfg workPath))"

text \<open>\<^verbatim>\<open>LARGE_INTEGER\<close> from the two halves of the size.\<close>

definition file_size_of :: "attribute_data \<Rightarrow> int" where
  "file_size_of info = sint ((push_bit 32 (ucast (nFileSizeHigh info)) OR ucast (nFileSizeLow info)) :: uint64)"

definition StageMetacopyShellInWorkDir ::
  "('w, 'h) host \<Rightarrow> ('w, 'h) file_io \<Rightarrow> nat \<Rightarrow> LayerConfig \<Rightarrow> 'w \<Rightarrow> wstring \<Rightarrow> attribute_data \<Rightarrow> wstring \<Rightarrow> ('w \<times> ntstatus) option" where
  "StageMetacopyShellInWorkDir os io n cfg w sourcePath srcAttrs workPath =
     (case CreateFileW io w (ForWin32 os workPath) (GENERIC_READ OR GENERIC_WRITE) 0 CREATE_NEW
             (MetacopyShellCreateAttributes (dataAttributes srcAttrs)) of
        (w1, Inl e) \<Rightarrow> Some (w1, nt_status os e)
      | (w1, Inr dstHandle) \<Rightarrow>
          (case MarkPlaceholderSparseOrAbort os io n cfg w1 dstHandle workPath of
             None \<Rightarrow> None
           | Some (w2, sparseStatus) \<Rightarrow>
               if \<not> NT_SUCCESS sparseStatus then Some (w2, sparseStatus)
               else
                 let w3 = SetCompressedIfSource io w2 dstHandle (dataAttributes srcAttrs);
                     w4 = fst (SetFilePointerEx io w3 dstHandle (file_size_of srcAttrs));
                     w5 = fst (SetEndOfFile io w4 dstHandle) in
                 CopyStagedFileMetadata os io n (CloseHandle io w5 dstHandle) sourcePath (dataAttributes srcAttrs) workPath))"

definition LowerUserStreamStatus ::
  "('w, 'h) host \<Rightarrow> ('w, 'h) file_io \<Rightarrow> LayerConfig \<Rightarrow> 'w \<Rightarrow> wstring \<Rightarrow> ('w \<times> ntstatus) option" where
  "LowerUserStreamStatus os io cfg w normalized =
     (let lowerSource = ResolveLowerPath os w cfg normalized in
      if \<not> Found lowerSource then Some (w, STATUS_SUCCESS)
      else
        map_option
          (\<lambda>(w1, streamStatus, hasUserStream).
             (w1, if \<not> NT_SUCCESS streamStatus then streamStatus
                  else if hasUserStream then STATUS_INVALID_PARAMETER else STATUS_SUCCESS))
          (HasUserAlternateDataStream os io w (absolutePath lowerSource) False))"

definition BuildMetacopyShell ::
  "('w, 'h) host \<Rightarrow> ('w, 'h) file_io \<Rightarrow> nat \<Rightarrow> LayerConfig \<Rightarrow> 'w \<Rightarrow> wstring \<Rightarrow> wstring \<Rightarrow> ('w \<times> ntstatus) option" where
  "BuildMetacopyShell os io n cfg w sourcePath workPath =
     (case GetFileAttributesExW os w (WithExtendedPrefix os sourcePath) of
        Inl e \<Rightarrow> Some (w, nt_status os e)
      | Inr srcAttrs \<Rightarrow>
          let basicInfo = guard_of_data srcAttrs (StagedFileAttributes (dataAttributes srcAttrs)) workPath in
          (case StageMetacopyShellInWorkDir os io n cfg w sourcePath srcAttrs workPath of
             None \<Rightarrow> None
           | Some (w1, staged) \<Rightarrow>
               let (w2, status) =
                     (if NT_SUCCESS staged
                      then
                        let (w2, metadata) = MakeCopyUpMetadata os io w1 sourcePath in
                        RecordStagedFile os io cfg w2 workPath (metadata\<lparr>metacopy := True\<rparr>) basicInfo
                      else (w1, staged)) in
               if \<not> NT_SUCCESS status
               then map_option (\<lambda>(w3, failure). (w3, status)) (RemoveStagedEntry os n w2 cfg workPath)
               else Some (w2, status)))"

record FileCopyUpResult =
  copyUpStatus :: ntstatus
  stagedShell :: bool

definition CopyUpMetadataOnly ::
  "('w, 'h) host \<Rightarrow> ('w, 'h) file_io \<Rightarrow> int \<Rightarrow> nat \<Rightarrow> LayerConfig \<Rightarrow> 'w copy_up_state \<Rightarrow> wstring \<Rightarrow> ('w copy_up_state \<times> FileCopyUpResult) run" where
  "CopyUpMetadataOnly os io now n cfg st relativePath =
     (let normalized = NormalizePath os relativePath;
          entryInUpper = \<lparr>copyUpStatus = STATUS_SUCCESS, stagedShell = True\<rparr>;
          noShell = (\<lambda>status. \<lparr>copyUpStatus = status, stagedShell = False\<rparr>) in
      if ExistsInUpper os (cu_disk st) cfg normalized then Finished (st, entryInUpper)
      else
        PathReservation st normalized
          (\<lambda>st1.
             if ExistsInUpper os (cu_disk st1) cfg normalized then Finished (st1, entryInUpper)
             else
               and_then (rounds (LowerUserStreamStatus os io cfg (cu_disk st1) normalized))
                 (\<lambda>(w1, streamStatus).
                    if \<not> NT_SUCCESS streamStatus then Finished (set_disk st1 w1, noShell streamStatus)
                    else
                      and_then (PrepareCopyUpTarget os io now n cfg (set_disk st1 w1) normalized)
                        (\<lambda>(st2, status, target).
                           if \<not> NT_SUCCESS status then Finished (st2, noShell status)
                           else
                             (case target of
                                None \<Rightarrow> Finished (st2, noShell status)
                              | Some t \<Rightarrow>
                                  let (st3, workPath) = GenerateStagingPath io cfg st2 in
                                  and_then (rounds (BuildMetacopyShell os io n cfg (cu_disk st3) (absolutePath (targetSource t)) workPath))
                                    (\<lambda>(w4, built).
                                       if \<not> NT_SUCCESS built then Finished (set_disk st3 w4, noShell built)
                                       else
                                         and_then (rounds (CommitStagedFile os n cfg (set_disk st3 w4) normalized workPath (targetUpperPath t)))
                                           (\<lambda>(st5, committed).
                                              Finished (st5, \<lparr>copyUpStatus = committed, stagedShell = NT_SUCCESS committed\<rparr>))))))))"

definition CopyUpFileOrShell ::
  "('w, 'h) host \<Rightarrow> ('w, 'h) file_io \<Rightarrow> int \<Rightarrow> nat \<Rightarrow> LayerConfig \<Rightarrow> 'w copy_up_state \<Rightarrow> wstring \<Rightarrow> int option \<Rightarrow>
     ('w copy_up_state \<times> FileCopyUpResult) run" where
  "CopyUpFileOrShell os io now n cfg st relativePath shellOnlyAboveBytes =
     (let noShell = (\<lambda>status. \<lparr>copyUpStatus = status, stagedShell = False\<rparr>);
          copyInFull = (\<lambda>st1. and_then (CopyUpFile os io now n cfg st1 relativePath) (\<lambda>(st2, status). Finished (st2, noShell status)));
          src = ResolveLowerPath os (cu_disk st) cfg (NormalizePath os relativePath);
          tooSmall =
            (case shellOnlyAboveBytes of
               None \<Rightarrow> False
             | Some limit \<Rightarrow>
                 (case GetFileAttributesExW os (cu_disk st) (WithExtendedPrefix os (absolutePath src)) of
                    Inl e \<Rightarrow> True
                  | Inr info \<Rightarrow> file_size_of info \<le> limit)) in
      if \<not> HasSparseFiles (hostCapabilities cfg) then copyInFull st
      else if \<not> Found src then copyInFull st
      else if tooSmall then copyInFull st
      else
        let (status, clones) = ClonesReparsePoint os (cu_disk st) (absolutePath src) (attributes src) in
        if \<not> NT_SUCCESS status then Finished (st, noShell status)
        else if clones then copyInFull st
        else
          and_then (rounds (HasUserAlternateDataStream os io (cu_disk st) (absolutePath src) False))
            (\<lambda>(w1, streamStatus, hasUserStream).
               let st1 = set_disk st w1 in
               if \<not> NT_SUCCESS streamStatus then Finished (st1, noShell streamStatus)
               else if hasUserStream then copyInFull st1
               else CopyUpMetadataOnly os io now n cfg st1 relativePath))"

section \<open>The fill of a shell\<close>

definition hex_upper :: "nat \<Rightarrow> wchar" where
  "hex_upper d = (if d < 10 then 48 + of_nat d else 55 + of_nat d)"

text \<open>\<^verbatim>\<open>0x%08lX\<close>.\<close>

definition status_text :: "ntstatus \<Rightarrow> wstring" where
  "status_text status = wlit ''0x'' @ map (\<lambda>i. hex_upper (unat (drop_bit (28 - 4 * i) status AND 15))) [0..<8]"

definition wquote :: wchar where "wquote = 39"

definition RecordFillFailure :: "'w copy_up_state \<Rightarrow> wstring \<Rightarrow> wstring \<Rightarrow> ntstatus \<Rightarrow> 'w copy_up_state \<times> ntstatus" where
  "RecordFillFailure st relativePath stage status =
     (let message = wlit ''The metacopy fill of '' @ [wquote] @ relativePath @ [wquote] @ wlit '' failed to '' @ stage @
            wlit '' (NTSTATUS '' @ status_text status @ wlit '').'' in
      (st\<lparr>fillFailure := Some (HresultFromNtStatus status, message)\<rparr>, status))"

definition ClearSparseAndTrimAllocation :: "('w, 'h) host \<Rightarrow> ('w, 'h) file_io \<Rightarrow> 'w \<Rightarrow> 'h \<Rightarrow> 'w \<times> dword option" where
  "ClearSparseAndTrimAllocation os io w handle =
     (case FsctlSetSparse io w handle False of
        (w1, Some e) \<Rightarrow> (w1, Some e)
      | (w1, None) \<Rightarrow>
          (case GetFileSizeEx os w1 handle of
             Inl e \<Rightarrow> (w1, Some e)
           | Inr fileSize \<Rightarrow> SetAllocationSize io w1 handle fileSize))"

text \<open>The third component tells that the source handle is still open.\<close>

definition FillMetacopyShell ::
  "('w, 'h) host \<Rightarrow> ('w, 'h) file_io \<Rightarrow> nat \<Rightarrow> 'w \<Rightarrow> 'h \<Rightarrow> wstring \<Rightarrow> ('w \<times> ntstatus \<times> bool) option" where
  "FillMetacopyShell os io n w srcHandle path =
     (case CreateFileW io w (WithExtendedPrefix os path) GENERIC_WRITE kShareAll OPEN_EXISTING FILE_FLAG_BACKUP_SEMANTICS of
        (w1, Inl e) \<Rightarrow> Some (w1, nt_status os e, True)
      | (w1, Inr dstHandle) \<Rightarrow>
          let w2 = fst (SetFilePointerEx io w1 srcHandle 0);
              w3 = fst (SetFilePointerEx io w2 dstHandle 0) in
          (case CopyFileDataKeepingHoles os io n w3 srcHandle dstHandle of
             None \<Rightarrow> None
           | Some (w4, status) \<Rightarrow>
               if \<not> NT_SUCCESS status then Some (CloseHandle io w4 dstHandle, status, True)
               else
                 (case GetFileInformationByHandle io w4 srcHandle of
                    Inl e \<Rightarrow> Some (CloseHandle io w4 dstHandle, nt_status os e, True)
                  | Inr originInfo \<Rightarrow>
                      let (w5, trimmed) =
                            (if \<not> HasFileAttribute (infoAttributes originInfo) FILE_ATTRIBUTE_SPARSE_FILE
                             then ClearSparseAndTrimAllocation os io w4 dstHandle else (w4, None)) in
                      (case trimmed of
                         Some err \<Rightarrow>
                           Some (CloseHandle io w5 dstHandle, nt_status os (if err \<noteq> 0 then err else ERROR_ACCESS_DENIED), True)
                       | None \<Rightarrow> Some (CloseHandle io (CloseHandle io w5 srcHandle) dstHandle, STATUS_SUCCESS, False)))))"

definition FinishFilledShell ::
  "('w, 'h) host \<Rightarrow> ('w, 'h) file_io \<Rightarrow> LayerConfig \<Rightarrow> 'w \<Rightarrow> wstring \<Rightarrow> LayerMountMetadata \<Rightarrow> 'w \<times> ntstatus" where
  "FinishFilledShell os io cfg w path metadata =
     (case WriteLayerMountMetadata os w path (metadata\<lparr>metacopy := False\<rparr>) (Some cfg) of
        (w1, False) \<Rightarrow>
          let err = GetLastError io w1 in (w1, nt_status os (if err \<noteq> 0 then err else ERROR_WRITE_FAULT))
      | (w1, True) \<Rightarrow> (w1, STATUS_SUCCESS))"

definition empty_data :: attribute_data where
  "empty_data = \<lparr>dataAttributes = 0, dataTimes = zero_times, nFileSizeHigh = 0, nFileSizeLow = 0\<rparr>"

text \<open>
  The guard restores the shell on every way out after it was made; \<open>fail\<close> is a return with a recorded
  failure, with the write of the destructor when \<^verbatim>\<open>Restore\<close> did not run, and the close of the source.
\<close>

definition CompleteLazyCopyUp ::
  "('w, 'h) host \<Rightarrow> ('w, 'h) file_io \<Rightarrow> nat \<Rightarrow> LayerConfig \<Rightarrow> 'w copy_up_state \<Rightarrow> wstring \<Rightarrow> ('w copy_up_state \<times> ntstatus) run" where
  "CompleteLazyCopyUp os io n cfg st relativePath =
     (let normalized = NormalizePath os relativePath;
          path = GetUpperPath os cfg normalized in
      PathReservation st normalized
        (\<lambda>st1.
           let metadata = ReadLayerMountMetadata os (cu_disk st1) path (Some cfg) in
           if \<not> metacopy metadata then Finished (st1, STATUS_SUCCESS)
           else
             (case OpenSourceFileForCopy os io (cu_disk st1) (originLayer metadata) of
                (w1, Inl e) \<Rightarrow> Finished (RecordFillFailure (set_disk st1 w1) normalized (wlit ''open the origin file'') (nt_status os e))
              | (w1, Inr srcHandle) \<Rightarrow>
                  let (shellInfo, shellAttributes) =
                        (case GetFileAttributesExW os w1 (WithExtendedPrefix os path) of
                           Inl e \<Rightarrow> (empty_data, None) | Inr info \<Rightarrow> (info, Some (dataAttributes info)));
                      basicInfo = guard_of_data shellInfo shellAttributes path;
                      fail =
                        (\<lambda>w restored srcOpen stage status.
                           let w' = (if restored then w else fst (Guard_Restore os w basicInfo)) in
                           Finished (RecordFillFailure (set_disk st1 (if srcOpen then CloseHandle io w' srcHandle else w')) normalized stage status));
                      (w2, cleared) =
                        (case shellAttributes of None \<Rightarrow> (w1, None) | Some a \<Rightarrow> ClearReadOnlyAtPath os io w1 path a) in
                  (case cleared of
                     Some e \<Rightarrow>
                       fail w2 False True (wlit ''clear the read-only attribute of the shell'')
                         (StatusOfFailedCall (CloudFileStatus os) e ERROR_ACCESS_DENIED)
                   | None \<Rightarrow>
                       and_then (rounds (FillMetacopyShell os io n w2 srcHandle path))
                         (\<lambda>(w3, filled, srcOpen).
                            if \<not> NT_SUCCESS filled
                            then
                              fail w3 False srcOpen (wlit ''copy the origin'' @ [wquote] @ wlit ''s data into the shell'') filled
                            else
                              let (w4, finished) = FinishFilledShell os io cfg w3 path metadata in
                              if \<not> NT_SUCCESS finished then fail w4 False srcOpen (wlit ''finish the filled shell'') finished
                              else
                                (case Guard_Restore os w4 basicInfo of
                                   (w5, False) \<Rightarrow>
                                     fail w5 True srcOpen (wlit ''restore the attributes and times of the filled file'')
                                       (StatusOfFailedCall (CloudFileStatus os) (GetLastError io w5) ERROR_ACCESS_DENIED)
                                 | (w5, True) \<Rightarrow> Finished (set_disk st1 w5, STATUS_SUCCESS)))))))"

section \<open>Rename destinations set aside\<close>

datatype DestinationAside = AsideWorkDirectory | AsideNextToDestination

record HeldAside =
  heldNormalizedPath :: wstring
  heldUpperPath :: wstring
  heldAsidePath :: wstring
  attributesToRestore :: "dword option"
  heldWhere :: DestinationAside

text \<open>\<^verbatim>\<open>removeCopy\<close> of the rules for a place; its result is not used.\<close>

definition remove_aside_copy ::
  "('w, 'h) host \<Rightarrow> nat \<Rightarrow> LayerConfig \<Rightarrow> DestinationAside \<Rightarrow> wstring \<Rightarrow> 'w \<Rightarrow> 'w option" where
  "remove_aside_copy os n cfg place path w =
     (if place = AsideWorkDirectory then map_option fst (RemoveStagedEntry os n w cfg path)
      else map_option fst (RemoveUpperEntry os n w cfg path))"

definition CheckDestinationReplaceable :: "('w, 'h) host \<Rightarrow> LayerConfig \<Rightarrow> 'w \<Rightarrow> wstring \<Rightarrow> EntryKind \<Rightarrow> ntstatus" where
  "CheckDestinationReplaceable os cfg w newPath destinationKind =
     (if destinationKind \<noteq> FileEntry then STATUS_SUCCESS
      else
        let attrs = UpperAttributes os w cfg newPath in
        if attrs \<noteq> INVALID_FILE_ATTRIBUTES \<and> attrs AND FILE_ATTRIBUTE_READONLY \<noteq> 0 then STATUS_ACCESS_DENIED else STATUS_SUCCESS)"

text \<open>\<^verbatim>\<open>newAsidePath\<close> is called only for an entry that is there, so the counter moves only then.\<close>

definition SetRenameDestinationAside ::
  "('w, 'h) host \<Rightarrow> ('w, 'h) file_io \<Rightarrow> nat \<Rightarrow> LayerConfig \<Rightarrow> 'w copy_up_state \<Rightarrow> wstring \<Rightarrow> EntryKind \<Rightarrow> DestinationAside \<Rightarrow>
     ('w copy_up_state \<times> ntstatus \<times> HeldAside option) option" where
  "SetRenameDestinationAside os io n cfg st newPath destinationKind place =
     (let replaceable = CheckDestinationReplaceable os cfg (cu_disk st) newPath destinationKind in
      if \<not> NT_SUCCESS replaceable then Some (st, replaceable, None)
      else
        let path = GetStoredUpperPath os (cu_disk st) cfg newPath;
            (st1, newAside) =
              (case GetFileAttributesW os (cu_disk st) (WithExtendedPrefix os path) of
                 Inl e \<Rightarrow> (st, [])
               | Inr a \<Rightarrow> if place = AsideWorkDirectory then GenerateStagingPath io cfg st else GenerateAsidePathNextTo io st path) in
        (case MoveUpperEntryAside os n (cu_disk st1) cfg path newAside of
           None \<Rightarrow> None
         | Some (w2, move, asidePath) \<Rightarrow>
             let st2 = set_disk st1 w2;
                 st3 = st2\<lparr>cuEngine := WarnRecordLeftBehind (cuEngine st2) move newPath\<rparr> in
             if \<not> NT_SUCCESS (moveStatus move) \<or> asidePath = [] then Some (st3, moveStatus move, None)
             else
               let st4 = invalidate_with_ancestors os st3 newPath;
                   (w5, restore) = (if place = AsideNextToDestination then HideEntry os io (cu_disk st4) asidePath else (cu_disk st4, None)) in
               Some (set_disk st4 w5, STATUS_SUCCESS,
                     Some \<lparr>heldNormalizedPath = newPath, heldUpperPath = path, heldAsidePath = asidePath,
                           attributesToRestore = restore, heldWhere = place\<rparr>)))"

text \<open>The destructor of \<^verbatim>\<open>RenameDestinationAside\<close> and its \<^verbatim>\<open>Commit\<close>; \<^verbatim>\<open>Release\<close> forgets the held entry.\<close>

definition RenameDestinationAside_destroy ::
  "('w, 'h) host \<Rightarrow> ('w, 'h) file_io \<Rightarrow> nat \<Rightarrow> LayerConfig \<Rightarrow> 'w engine \<Rightarrow> HeldAside option \<Rightarrow> 'w engine option" where
  "RenameDestinationAside_destroy os io n cfg s held =
     (case held of
        None \<Rightarrow> Some s
      | Some h \<Rightarrow>
          let invalidate = (\<lambda>s1. s1\<lparr>engineCache := InvalidateWithAncestors os (engineCache s1) (heldNormalizedPath h)\<rparr>) in
          if attributes_at os (engineDisk s) (heldUpperPath h) \<noteq> INVALID_FILE_ATTRIBUTES
          then map_option (\<lambda>w1. invalidate (s\<lparr>engineDisk := w1\<rparr>)) (remove_aside_copy os n cfg (heldWhere h) (heldAsidePath h) (engineDisk s))
          else
            (case MoveUpperEntryLeavingStuckRecords os n (engineDisk s) cfg (heldAsidePath h) (heldUpperPath h) ReplaceNo of
               None \<Rightarrow> None
             | Some (w1, moveBack) \<Rightarrow>
                 let s1 = WarnRecordLeftBehind (s\<lparr>engineDisk := w1\<rparr>) moveBack (heldNormalizedPath h);
                     s2 =
                       (case attributesToRestore h of
                          None \<Rightarrow> s1
                        | Some a \<Rightarrow>
                            if \<not> NT_SUCCESS (moveStatus moveBack) then s1
                            else
                              (case WriteOwnAttributes os io (engineDisk s1) (heldUpperPath h) a of
                                 (w2, None) \<Rightarrow> s1\<lparr>engineDisk := w2\<rparr>
                               | (w2, Some e) \<Rightarrow>
                                   Emit (s1\<lparr>engineDisk := w2\<rparr>) LM_EVT_WARNING (HRESULT_FROM_WIN32 e) (heldNormalizedPath h)
                                     (wlit ''The destination that a failed rename moved back stays hidden''))) in
                 Some (invalidate s2)))"

definition RenameDestinationAside_Commit ::
  "('w, 'h) host \<Rightarrow> nat \<Rightarrow> LayerConfig \<Rightarrow> 'w engine \<Rightarrow> HeldAside option \<Rightarrow> ('w engine \<times> HeldAside option) option" where
  "RenameDestinationAside_Commit os n cfg s held =
     (case held of
        None \<Rightarrow> Some (s, None)
      | Some h \<Rightarrow>
          map_option (\<lambda>w1. (s\<lparr>engineDisk := w1\<rparr>, None)) (remove_aside_copy os n cfg (heldWhere h) (heldAsidePath h) (engineDisk s)))"

definition RenameDestinationAside_Release :: "HeldAside option \<Rightarrow> HeldAside option" where
  "RenameDestinationAside_Release held = None"

section \<open>Renames that change only the case\<close>

definition RenameDirectoryCase ::
  "('w, 'h) host \<Rightarrow> ('w, 'h) file_io \<Rightarrow> int \<Rightarrow> nat \<Rightarrow> LayerConfig \<Rightarrow> 'w copy_up_state \<Rightarrow> wstring \<Rightarrow> wstring \<Rightarrow> EntryKind \<Rightarrow>
     ('w copy_up_state \<times> ntstatus) run" where
  "RenameDirectoryCase os io now n cfg st oldCallerPath newCallerPath sourceKind =
     (let normalized = NormalizePath os oldCallerPath;
          newUpperPath = GetUpperPathForNewEntry cfg newCallerPath;
          src = ResolveLowerPath os (cu_disk st) cfg normalized in
      if sourceKind = LinkEntry \<and> \<not> ExistsInUpper os (cu_disk st) cfg normalized \<and> Found src
      then
        and_then (EnsureUpperParent os io now n cfg st (NormalizePath os newCallerPath))
          (\<lambda>(st1, status).
             if \<not> NT_SUCCESS status then Finished (st1, status)
             else
               let (st2, containerPath) = GenerateStagingPath io cfg st1;
                   entry = \<lparr>sourceEntryPath = absolutePath src, sourceEntryAttributes = attributes src\<rparr> in
               and_then (rounds (CloneReparsePointThroughWorkDir os io n (cu_disk st2) entry containerPath newUpperPath NewFromSource cfg))
                 (\<lambda>(w3, cloned).
                    let st3 = set_disk st2 w3 in
                    if \<not> NT_SUCCESS cloned then Finished (st3, cloned)
                    else Finished (invalidate_with_ancestors os st3 normalized, STATUS_SUCCESS)))
      else
        and_then (CopyUpDirectory os io now n cfg st oldCallerPath)
          (\<lambda>(st1, status).
             if \<not> NT_SUCCESS status then Finished (st1, status)
             else
               and_then (rounds (MoveUpperEntry os n (cu_disk st1) cfg (GetStoredUpperPath os (cu_disk st1) cfg oldCallerPath) newUpperPath ReplaceNo))
                 (\<lambda>(w2, move). Finished (invalidate_with_ancestors os (set_disk st1 w2) normalized, moveStatus move))))"

end
