(* ===== verification/Copy_Up_Runs.thy ===== *)
theory Copy_Up_Runs
  imports Copy_Up
begin

text \<open>
  Reservations of copy-ups. A copy-up reserves its path and may copy its parents up while it holds the
  reservation. The theorem shows that a thread never waits for a path that it holds itself.
\<close>

section \<open>Reservations\<close>

lemma state_simps [simp]:
  "inFlightCopyUps (set_disk st w) = inFlightCopyUps st" "cu_disk (set_disk st w) = w"
  "inFlightCopyUps (invalidate_with_ancestors os st p) = inFlightCopyUps st" "cu_disk (invalidate_with_ancestors os st p) = cu_disk st"
  "inFlightCopyUps (RecordCopyUp st p) = inFlightCopyUps st" "cu_disk (RecordCopyUp st p) = cu_disk st"
  by (simp_all add: set_disk_def invalidate_with_ancestors_def RecordCopyUp_def Emit_def)

lemma GenerateStagingPath_simps [simp]:
  "inFlightCopyUps (fst (GenerateStagingPath io cfg st)) = inFlightCopyUps st"
  "cu_disk (fst (GenerateStagingPath io cfg st)) = cu_disk st"
  by (simp_all add: GenerateStagingPath_def UniqueEntryName_def Let_def)

text \<open>A run that does not wait and leaves the reservations as they were.\<close>

definition settles :: "wstring list \<Rightarrow> ('w copy_up_state \<times> 'a) run \<Rightarrow> bool" where
  "settles held r \<longleftrightarrow> (case r of Finished (st, x) \<Rightarrow> inFlightCopyUps st = held | Waits p \<Rightarrow> False | NeedsRounds \<Rightarrow> True)"

lemma settles_simps [simp]:
  "settles held (Finished (st, x)) \<longleftrightarrow> inFlightCopyUps st = held" "\<not> settles held (Waits p)" "settles held NeedsRounds"
  by (simp_all add: settles_def)

lemma settles_and_then:
  assumes "settles held r" "\<And>st x. r = Finished (st, x) \<Longrightarrow> inFlightCopyUps st = held \<Longrightarrow> settles held' (f (st, x))"
  shows "settles held' (and_then r f)"
proof (cases r)
  case (Finished a)
  then show ?thesis using assms by (cases a) simp
qed (use assms in simp_all)

lemma settles_rounds:
  assumes "\<And>st x. r = Some (st, x) \<Longrightarrow> inFlightCopyUps st = held"
  shows "settles held (rounds r)"
  using assms by (cases r) auto

lemma settles_rounds_then:
  assumes "\<And>x. r = Some x \<Longrightarrow> settles held (f x)"
  shows "settles held (and_then (rounds r) f)"
  using assms by (cases r) auto

lemma settles_reservation:
  assumes "path \<notin> set (inFlightCopyUps st)"
    and "\<And>st1. inFlightCopyUps st1 = path # inFlightCopyUps st \<Longrightarrow> settles (path # inFlightCopyUps st) (work st1)"
  shows "settles (inFlightCopyUps st) (PathReservation st path work)"
  using assms(1) assms(2) [of "st\<lparr>inFlightCopyUps := path # inFlightCopyUps st\<rparr>"]
  by (auto simp: PathReservation_def intro!: settles_and_then)

lemma settles_alone:
  assumes "inFlightCopyUps st = []" "\<And>st1. inFlightCopyUps st1 = [path] \<Longrightarrow> settles [path] (work st1)"
  shows "settles [] (PathReservation st path work)"
  using settles_reservation [of path st work] assms by simp

lemma CommitStagedFile_keeps:
  "CommitStagedFile os n cfg st normalized workPath path = Some (st', status) \<Longrightarrow> inFlightCopyUps st' = inFlightCopyUps st"
  by (auto simp: CommitStagedFile_def Let_def split: if_splits)

lemma CopyUpReparseCloneAndCount_keeps:
  "CopyUpReparseCloneAndCount os io n cfg st normalized target = Some (st', status) \<Longrightarrow> inFlightCopyUps st' = inFlightCopyUps st"
  by (auto simp: CopyUpReparseCloneAndCount_def case_prod_beta Let_def split: if_splits)

lemma copy_up_directory_to_keeps:
  "copy_up_directory_to os io n cfg st normalized target = Some (st', status) \<Longrightarrow> inFlightCopyUps st' = inFlightCopyUps st"
  by (auto simp: copy_up_directory_to_def case_prod_beta Let_def split: if_splits option.splits dest: CopyUpReparseCloneAndCount_keeps)

lemma copy_up_file_to_keeps:
  "copy_up_file_to os io n cfg st normalized target = Some (st', status) \<Longrightarrow> inFlightCopyUps st' = inFlightCopyUps st"
  by (auto simp: copy_up_file_to_def case_prod_beta Let_def split: if_splits option.splits sum.splits prod.splits
      dest: CopyUpReparseCloneAndCount_keeps CommitStagedFile_keeps)

lemma upper_parent_status_keeps:
  "upper_parent_status os now cfg st parent = (st1, r) \<Longrightarrow> inFlightCopyUps st1 = inFlightCopyUps st"
  by (auto simp: upper_parent_status_def case_prod_beta Let_def)

definition longer_than :: "wstring \<Rightarrow> wstring list \<Rightarrow> bool" where
  "longer_than p held \<longleftrightarrow> (\<forall>q \<in> set held. length p < length q)"

lemma copy_up_settles:
  "longer_than (NormalizePath os p) (inFlightCopyUps st) \<Longrightarrow> settles (inFlightCopyUps st) (CopyUpDirectory os io now n cfg st p)"
  "(\<And>q. q \<in> set (inFlightCopyUps st) \<Longrightarrow> length p \<le> length q) \<Longrightarrow> settles (inFlightCopyUps st) (PrepareCopyUpTarget os io now n cfg st p)"
  "(\<And>q. q \<in> set (inFlightCopyUps st) \<Longrightarrow> length p \<le> length q) \<Longrightarrow> settles (inFlightCopyUps st) (EnsureUpperParent os io now n cfg st p)"
proof (induction os io now n cfg st p and os io now n cfg st p and os io now n cfg st p
    rule: CopyUpDirectory_PrepareCopyUpTarget_EnsureUpperParent.induct)
  case (1 os io now n cfg st p)
  let ?p = "NormalizePath os p"
  have "?p \<notin> set (inFlightCopyUps st)" using "1.prems" by (auto simp: longer_than_def)
  then show ?case
    unfolding CopyUpDirectory.simps [of os io now n cfg st p] Let_def
  proof (rule settles_reservation)
    fix st1 :: "'a copy_up_state"
    assume held: "inFlightCopyUps st1 = ?p # inFlightCopyUps st"
    have "length ?p \<le> length q" if "q \<in> set (inFlightCopyUps st1)" for q
      using that held "1.prems" by (auto simp: longer_than_def less_imp_le)
    then have "settles (inFlightCopyUps st1) (PrepareCopyUpTarget os io now n cfg st1 ?p)"
      if "\<not> ExistsInUpper os (cu_disk st1) cfg ?p" using that by (intro "1.IH") auto
    then show "settles (?p # inFlightCopyUps st)
        (if ExistsInUpper os (cu_disk st1) cfg ?p then Finished (st1, STATUS_SUCCESS)
         else and_then (PrepareCopyUpTarget os io now n cfg st1 ?p)
           (\<lambda>(st2, status, target). if \<not> NT_SUCCESS status then Finished (st2, status)
              else case target of None \<Rightarrow> Finished (st2, status) | Some t \<Rightarrow> rounds (copy_up_directory_to os io n cfg st2 ?p t)))"
      using held by (auto intro!: settles_and_then settles_rounds split: option.splits dest!: copy_up_directory_to_keeps)
  qed
next
  case (2 os io now n cfg st p)
  then show ?case
    by (subst PrepareCopyUpTarget.simps) (auto simp: Let_def intro!: settles_and_then)
next
  case (3 os io now n cfg st p)
  let ?q = "ParentOfNormalizedPath p"
  show ?case
  proof (cases "?q = []")
    case False
    obtain st1 r where u: "upper_parent_status os now cfg st ?q = (st1, r)" by fastforce
    note keeps = upper_parent_status_keeps [OF u]
    have "length (NormalizePath os ?q) < length q" if "q \<in> set (inFlightCopyUps st)" for q
      using "3.prems" [OF that] length_NormalizePath [of os ?q] length_ParentOfNormalizedPath [OF False] by linarith
    then have "longer_than (NormalizePath os ?q) (inFlightCopyUps st1)" by (simp add: longer_than_def keeps)
    then show ?thesis using "3.IH" [OF refl False u [symmetric]] u keeps False
      by (subst EnsureUpperParent.simps) (auto simp: Let_def split: option.splits)
  qed (subst EnsureUpperParent.simps, simp)
qed

lemma CopyUpFile_settles:
  assumes "inFlightCopyUps st = []"
  shows "settles [] (CopyUpFile os io now n cfg st p)"
proof -
  let ?p = "NormalizePath os p"
  have "settles (inFlightCopyUps st1) (PrepareCopyUpTarget os io now n cfg st1 ?p)" if "inFlightCopyUps st1 = [?p]" for st1
    using that by (intro copy_up_settles) auto
  then show ?thesis unfolding CopyUpFile_def Let_def assms [symmetric] using assms
    by (intro settles_reservation) (auto intro!: settles_and_then settles_rounds split: option.splits dest!: copy_up_file_to_keeps)
qed

lemma CopyUpDirectory_settles: "inFlightCopyUps st = [] \<Longrightarrow> settles [] (CopyUpDirectory os io now n cfg st p)"
  using copy_up_settles(1) [of os p st io now n cfg] by (simp add: longer_than_def)

lemma CopyUpMetadataOnly_settles:
  assumes "inFlightCopyUps st = []"
  shows "settles [] (CopyUpMetadataOnly os io now n cfg st p)"
proof -
  let ?p = "NormalizePath os p"
  have prep: "settles [?p] (PrepareCopyUpTarget os io now n cfg st1 ?p)" if "inFlightCopyUps st1 = [?p]" for st1
    using copy_up_settles(2) [of st1 ?p os io now n cfg] that by simp
  have shell: "settles [?p] (let (st3, workPath) = GenerateStagingPath io cfg st2 in
      and_then (rounds (BuildMetacopyShell os io n cfg (cu_disk st3) src workPath))
        (\<lambda>(w4, built). if \<not> NT_SUCCESS built then Finished (set_disk st3 w4, f built)
           else and_then (rounds (CommitStagedFile os n cfg (set_disk st3 w4) ?p workPath path)) (\<lambda>(st5, r). Finished (st5, g r))))"
    if "inFlightCopyUps st2 = [?p]" for st2 src path f g
    using that by (auto simp: case_prod_beta Let_def intro!: settles_rounds_then dest!: CommitStagedFile_keeps)
  show ?thesis unfolding CopyUpMetadataOnly_def Let_def
    using assms
    by (auto intro!: settles_alone settles_rounds_then settles_and_then [OF prep] shell [unfolded Let_def] split: option.splits)
qed

lemma CopyUpFileOrShell_settles:
  assumes "inFlightCopyUps st = []"
  shows "settles [] (CopyUpFileOrShell os io now n cfg st p limit)"
proof -
  have full: "settles [] (and_then (CopyUpFile os io now n cfg st1 p) (\<lambda>(st2, status). Finished (st2, f status)))"
    if "inFlightCopyUps st1 = []" for st1 f
    using CopyUpFile_settles [OF that] by (rule settles_and_then) auto
  have "settles [] (and_then (rounds (HasUserAlternateDataStream os io (cu_disk st) path False))
      (\<lambda>(w1, streamStatus, hasUserStream). if \<not> NT_SUCCESS streamStatus then Finished (set_disk st w1, f streamStatus)
         else if hasUserStream then and_then (CopyUpFile os io now n cfg (set_disk st w1) p) (\<lambda>(st2, status). Finished (st2, g status))
         else CopyUpMetadataOnly os io now n cfg (set_disk st w1) p))" for path f g
    using assms by (auto intro!: settles_rounds_then full CopyUpMetadataOnly_settles)
  then show ?thesis using assms full [OF assms] by (auto simp: CopyUpFileOrShell_def Let_def case_prod_beta)
qed

lemma fill_failure_keeps [simp]: "inFlightCopyUps (fst (RecordFillFailure st p stage status)) = inFlightCopyUps st"
  by (simp add: RecordFillFailure_def Let_def)

lemma settles_finished: "settles held (Finished r) \<longleftrightarrow> inFlightCopyUps (fst r) = held"
  by (cases r) simp

lemma CompleteLazyCopyUp_settles:
  assumes "inFlightCopyUps st = []"
  shows "settles [] (CompleteLazyCopyUp os io n cfg st p)"
  unfolding CompleteLazyCopyUp_def Let_def assms [symmetric] using assms
  by (intro settles_reservation)
     (auto simp: settles_finished case_prod_beta intro!: settles_rounds_then split: sum.split option.split prod.split bool.split)

lemma RenameDirectoryCase_settles:
  assumes "inFlightCopyUps st = []"
  shows "settles [] (RenameDirectoryCase os io now n cfg st old new kind)"
proof -
  have parent: "settles [] (EnsureUpperParent os io now n cfg st q)" for q
    using copy_up_settles(3) [of st q os io now n cfg] assms by simp
  have first: "settles [] (and_then (EnsureUpperParent os io now n cfg st q) f)"
    if "\<And>st1 status. inFlightCopyUps st1 = [] \<Longrightarrow> settles [] (f (st1, status))" for q f
    using parent by (rule settles_and_then) (simp add: that)
  have second: "settles [] (and_then (CopyUpDirectory os io now n cfg st old) f)"
    if "\<And>st1 status. inFlightCopyUps st1 = [] \<Longrightarrow> settles [] (f (st1, status))" for f
    using CopyUpDirectory_settles [OF assms] by (rule settles_and_then) (simp add: that)
  show ?thesis unfolding RenameDirectoryCase_def Let_def
    by (auto simp: case_prod_beta intro!: first second settles_rounds_then)
qed

text \<open>
  A copy-up never waits for itself. When no copy-up is running, no operation that copies up reaches
  a reservation of a path that is already held, although it reserves the path and then each parent that
  it copies up; and it gives every reservation back, on success and on failure.
\<close>

theorem copy_up_never_waits:
  assumes "inFlightCopyUps st = []"
  shows "settles [] (CopyUpFile os io now n cfg st p) \<and> settles [] (CopyUpDirectory os io now n cfg st p) \<and>
    settles [] (CopyUpFileOrShell os io now n cfg st p limit) \<and> settles [] (CopyUpMetadataOnly os io now n cfg st p) \<and>
    settles [] (CompleteLazyCopyUp os io n cfg st p) \<and> settles [] (RenameDirectoryCase os io now n cfg st p q kind)"
  by (intro conjI CopyUpFile_settles CopyUpDirectory_settles CopyUpFileOrShell_settles CopyUpMetadataOnly_settles
      CompleteLazyCopyUp_settles RenameDirectoryCase_settles assms)

definition sample_copy_up :: "mem_disk \<Rightarrow> mem_disk copy_up_state" where
  "sample_copy_up w =
     \<lparr>cuEngine = \<lparr>engineDisk = w, engineCache = new_Cache 8, engineEvents = []\<rparr>, workCounter = 0, copyUpCount = 0,
      inFlightCopyUps = [], fillFailure = None\<rparr>"

theorem copy_up_never_waits_witness:
  "settles [] (CopyUpFile mem_host mem_io 0 9 sample_config (sample_copy_up sample_disk) (wlit ''d'' @ [bslash] @ wlit ''x'')) \<and>
   (\<forall>p. CopyUpDirectory mem_host mem_io 0 9 sample_config (sample_copy_up sample_disk) (wlit ''d'') \<noteq> Waits p)"
proof -
  have e: "inFlightCopyUps (sample_copy_up sample_disk) = []" by (simp add: sample_copy_up_def)
  have d: "settles [] (CopyUpDirectory mem_host mem_io 0 9 sample_config (sample_copy_up sample_disk) (wlit ''d''))"
    using copy_up_never_waits [OF e, of mem_host mem_io 0 9 sample_config "wlit ''d''"] by (rule conjunct1 [OF conjunct2])
  have f: "settles [] (CopyUpFile mem_host mem_io 0 9 sample_config (sample_copy_up sample_disk) (wlit ''d'' @ [bslash] @ wlit ''x''))"
    using copy_up_never_waits [OF e, of mem_host mem_io 0 9 sample_config "wlit ''d'' @ [bslash] @ wlit ''x''"] by (rule conjunct1)
  have "r \<noteq> Waits p" if "settles [] r" for r :: "(mem_disk copy_up_state \<times> ntstatus) run" and p using that by auto
  with d f show ?thesis by blast
qed

end
