(* ===== verification/Directory_Merge.thy ===== *)
theory Directory_Merge
  imports Path_Resolver
begin

text \<open>
  The merged listing of a directory, \<^verbatim>\<open>impl/DirectoryMerge.cpp\<close>: the scan of one layer's directory, the
  walk over the layers from the upper down, and the merge of a child directory from its parent's.
  Slot \<open>0\<close> of a merge is the upper and slot \<open>i + 1\<close> is lower \<open>i\<close>. The search of one name through the
  slots is a \<open>layer_search\<close> too, and the last section shows that a listing and a lookup agree.
\<close>

section \<open>Scans\<close>

datatype WhiteoutNames = AreMarkers | AreOrdinary

record MergedEntry =
  findData :: find_data
  mergedSource :: LayerSource
  mergedLowerIndex :: int

record MergedDirectory =
  mergedStatus :: ntstatus
  mergedEntries :: "wstring \<rightharpoonup> MergedEntry"

record MergedDirectoryWithAncestry =
  merged :: MergedDirectory
  mergedDirPath :: wstring
  mergedLayers :: "LayerAncestry list"

definition WhiteoutNamesIn :: "LayerAncestry \<Rightarrow> WhiteoutNames" where
  "WhiteoutNamesIn ancestry = (if EndsAtLinkOrUnreadable (firstNonDirectory ancestry) then AreOrdinary else AreMarkers)"

definition VisibleEntryKey :: "'a win32_text_scheme \<Rightarrow> wstring \<Rightarrow> wstring \<Rightarrow> wstring option" where
  "VisibleEntryKey T dirNorm name =
     (if name = [wdot] \<or> name = [wdot, wdot] then None
      else
        let key = CaseFoldedName T name in
        if dirNorm = [] \<and> IsReservedRelativePath T key then None else Some key)"

record DirectoryMerge =
  mergeEntries :: "wstring \<rightharpoonup> MergedEntry"
  mergeWhitedOutNames :: "wstring set"

definition IsDirectoryAbsentError :: "dword \<Rightarrow> bool" where
  "IsDirectoryAbsentError e \<longleftrightarrow> e = ERROR_FILE_NOT_FOUND \<or> e = ERROR_PATH_NOT_FOUND \<or> e = ERROR_DIRECTORY"

record LayerDirectoryScan =
  scanStatus :: ntstatus
  scanWhitedOutNames :: "wstring list"
  scanEntries :: "(wstring \<times> find_data) list"

definition AddOrdinaryEntry :: "'a win32_text_scheme \<Rightarrow> wstring \<Rightarrow> find_data \<Rightarrow> LayerDirectoryScan \<Rightarrow> LayerDirectoryScan" where
  "AddOrdinaryEntry T dirNorm d scan =
     (case VisibleEntryKey T dirNorm (cFileName d) of
        None \<Rightarrow> scan
      | Some key \<Rightarrow> scan\<lparr>scanEntries := scanEntries scan @ [(key, d)]\<rparr>)"

definition AddMarkerOrEntry :: "'a win32_text_scheme \<Rightarrow> wstring \<Rightarrow> find_data \<Rightarrow> LayerDirectoryScan \<Rightarrow> LayerDirectoryScan" where
  "AddMarkerOrEntry T dirNorm d scan =
     (case WhitedOutNameOfEntry T (cFileName d) of
        Some hidden \<Rightarrow> scan\<lparr>scanWhitedOutNames := scanWhitedOutNames scan @ [CaseFoldedName T hidden]\<rparr>
      | None \<Rightarrow> if IsWhiteoutName T (cFileName d) then scan else AddOrdinaryEntry T dirNorm d scan)"

text \<open>\<open>FindFiles\<close> gives what the enumeration reads and the error that ends it.\<close>

definition ScanLayerDirectory :: "('w, 'h) host \<Rightarrow> 'w \<Rightarrow> wstring \<Rightarrow> wstring \<Rightarrow> WhiteoutNames \<Rightarrow> LayerDirectoryScan" where
  "ScanLayerDirectory os w layerPath dirNorm whiteoutNames =
     (let addEntry = (case whiteoutNames of AreMarkers \<Rightarrow> AddMarkerOrEntry os dirNorm | AreOrdinary \<Rightarrow> AddOrdinaryEntry os dirNorm);
          scan = \<lparr>scanStatus = STATUS_SUCCESS, scanWhitedOutNames = [], scanEntries = []\<rparr> in
      case FindFiles os w (WithExtendedPrefix os (JoinLayerScanPath layerPath dirNorm)) of
        Inl openError \<Rightarrow>
          if \<not> IsDirectoryAbsentError openError then scan\<lparr>scanStatus := ScanFailureStatus (CloudFileStatus os) openError\<rparr> else scan
      | Inr (found, scanEndError) \<Rightarrow>
          let scan = fold addEntry found scan in
          if scanEndError \<noteq> ERROR_NO_MORE_FILES then scan\<lparr>scanStatus := ScanFailureStatus (CloudFileStatus os) scanEndError\<rparr>
          else scan)"

definition AddLayerWhiteouts :: "LayerDirectoryScan \<Rightarrow> DirectoryMerge \<Rightarrow> DirectoryMerge" where
  "AddLayerWhiteouts scan m = m\<lparr>mergeWhitedOutNames := mergeWhitedOutNames m \<union> set (scanWhitedOutNames scan)\<rparr>"

section \<open>Layers\<close>

record MergeLayer =
  mlPath :: wstring
  mlSource :: LayerSource
  mlLowerIndex :: int

definition MergeLayerAt :: "LayerConfig \<Rightarrow> nat \<Rightarrow> MergeLayer" where
  "MergeLayerAt cfg slot =
     (if slot = 0 then \<lparr>mlPath = upperPath cfg, mlSource = Upper, mlLowerIndex = - 1\<rparr>
      else \<lparr>mlPath = lowerPaths cfg ! (slot - 1), mlSource = Lower, mlLowerIndex = int (slot - 1)\<rparr>)"

definition AddVisibleEntry :: "MergeLayer \<Rightarrow> wstring \<times> find_data \<Rightarrow> DirectoryMerge \<Rightarrow> DirectoryMerge" where
  "AddVisibleEntry layer e m =
     (if mergeEntries m (fst e) \<noteq> None \<or> fst e \<in> mergeWhitedOutNames m then m
      else m\<lparr>mergeEntries := (mergeEntries m)(fst e \<mapsto>
             \<lparr>findData = snd e, mergedSource = mlSource layer, mergedLowerIndex = mlLowerIndex layer\<rparr>)\<rparr>)"

definition MergeLayerEntries ::
  "('w, 'h) host \<Rightarrow> 'w \<Rightarrow> MergeLayer \<Rightarrow> wstring \<Rightarrow> WhiteoutNames \<Rightarrow> DirectoryMerge \<Rightarrow> DirectoryMerge \<times> ntstatus" where
  "MergeLayerEntries os w layer dirPath whiteoutNames m =
     (let scan = ScanLayerDirectory os w (mlPath layer) dirPath whiteoutNames in
      if \<not> NT_SUCCESS (scanStatus scan) then (m, scanStatus scan)
      else
        let m1 = (if mlSource layer = Lower then AddLayerWhiteouts scan m else m);
            m2 = fold (AddVisibleEntry layer) (scanEntries scan) m1;
            m3 = (if mlSource layer = Upper then AddLayerWhiteouts scan m2 else m2) in
        (m3, STATUS_SUCCESS))"

definition HidesLayerAndBelow :: "MergeLayer \<Rightarrow> LayerAncestry \<Rightarrow> bool" where
  "HidesLayerAndBelow layer ancestry \<longleftrightarrow> mlSource layer = Lower \<and> (whitedOut ancestry \<or> linkUnderHigherEntry ancestry)"

definition HidesLayersBelow :: "MergeLayer \<Rightarrow> LayerAncestry \<Rightarrow> bool" where
  "HidesLayersBelow layer ancestry \<longleftrightarrow>
     isOpaque ancestry \<or> firstNonDirectory ancestry \<noteq> StopNone \<or> mlSource layer = Upper \<and> whitedOut ancestry"

text \<open>
  The loop of \<open>ForEachScannedLayer\<close> from \<open>slot\<close>. The callbacks work on a state: \<open>ancestryAt\<close> returns the
  ancestry and the new state, \<open>scanLayer\<close> the new state and whether the walk goes on.
\<close>

function scan_slots ::
  "LayerConfig \<Rightarrow> nat \<Rightarrow> (nat \<Rightarrow> MergeLayer \<Rightarrow> 's \<Rightarrow> LayerAncestry \<times> 's) \<Rightarrow>
   (MergeLayer \<Rightarrow> LayerAncestry \<Rightarrow> 's \<Rightarrow> bool \<times> 's) \<Rightarrow> nat \<Rightarrow> 's \<Rightarrow> 's" where
  "scan_slots cfg slotCount ancestryAt scanLayer slot s =
     (if slot \<ge> slotCount then s
      else
        let layer = MergeLayerAt cfg slot; (ancestry, s1) = ancestryAt slot layer s in
        if HidesLayerAndBelow layer ancestry then s1
        else
          let (goesOn, s2) = scanLayer layer ancestry s1 in
          if \<not> goesOn then s2
          else if HidesLayersBelow layer ancestry then s2
          else scan_slots cfg slotCount ancestryAt scanLayer (Suc slot) s2)"
  by pat_completeness auto
termination by (relation "measure (\<lambda>(cfg, n, a, l, i, s). n - i)") auto

declare scan_slots.simps [simp del]

definition ForEachScannedLayer ::
  "LayerConfig \<Rightarrow> nat \<Rightarrow> (nat \<Rightarrow> MergeLayer \<Rightarrow> 's \<Rightarrow> LayerAncestry \<times> 's) \<Rightarrow>
   (MergeLayer \<Rightarrow> LayerAncestry \<Rightarrow> 's \<Rightarrow> bool \<times> 's) \<Rightarrow> 's \<Rightarrow> 's" where
  "ForEachScannedLayer cfg slotLimit ancestryAt scanLayer s =
     scan_slots cfg (min slotLimit (length (lowerPaths cfg) + 1)) ancestryAt scanLayer 0 s"

text \<open>The state of \<open>MergeLayers\<close>: the layers reached, the merge and the status.\<close>

type_synonym merge_state = "LayerAncestry list \<times> DirectoryMerge \<times> ntstatus"

definition merge_ancestry :: "(nat \<Rightarrow> MergeLayer \<Rightarrow> LayerAncestry) \<Rightarrow> nat \<Rightarrow> MergeLayer \<Rightarrow> merge_state \<Rightarrow> LayerAncestry \<times> merge_state" where
  "merge_ancestry ancestryAt slot layer = (\<lambda>(layers, m, status). (ancestryAt slot layer, layers @ [ancestryAt slot layer], m, status))"

definition merge_scan :: "('w, 'h) host \<Rightarrow> 'w \<Rightarrow> wstring \<Rightarrow> MergeLayer \<Rightarrow> LayerAncestry \<Rightarrow> merge_state \<Rightarrow> bool \<times> merge_state" where
  "merge_scan os w dirPath layer ancestry =
     (\<lambda>(layers, m, status).
        let (m1, status1) = MergeLayerEntries os w layer dirPath (WhiteoutNamesIn ancestry) m in
        (NT_SUCCESS status1, layers, m1, status1))"

definition MergeLayers ::
  "('w, 'h) host \<Rightarrow> 'w \<Rightarrow> LayerConfig \<Rightarrow> wstring \<Rightarrow> nat \<Rightarrow> (nat \<Rightarrow> MergeLayer \<Rightarrow> LayerAncestry) \<Rightarrow> MergedDirectoryWithAncestry" where
  "MergeLayers os w cfg dirPath slotLimit ancestryAt =
     (case ForEachScannedLayer cfg slotLimit (merge_ancestry ancestryAt) (merge_scan os w dirPath)
             ([], \<lparr>mergeEntries = Map.empty, mergeWhitedOutNames = {}\<rparr>, STATUS_SUCCESS) of
        (layers, m, status) \<Rightarrow>
          \<lparr>merged = \<lparr>mergedStatus = status, mergedEntries = (if NT_SUCCESS status then mergeEntries m else Map.empty)\<rparr>,
           mergedDirPath = dirPath, mergedLayers = layers\<rparr>)"

section \<open>Merges\<close>

definition MergeDirectoryWithAncestry :: "('w, 'h) host \<Rightarrow> 'w \<Rightarrow> LayerConfig \<Rightarrow> wstring \<Rightarrow> MergedDirectoryWithAncestry" where
  "MergeDirectoryWithAncestry os w cfg dirRelativePath =
     (let dirNorm = NormalizePath os dirRelativePath in
      if dirNorm \<noteq> [] \<and> \<not> IsSafeRelativePath dirNorm \<or> IsReservedOverlayPath os w cfg dirNorm
      then \<lparr>merged = \<lparr>mergedStatus = STATUS_SUCCESS, mergedEntries = Map.empty\<rparr>, mergedDirPath = dirNorm, mergedLayers = []\<rparr>
      else MergeLayers os w cfg dirNorm (length (lowerPaths cfg) + 1)
             (\<lambda>slot layer. LayerAncestryOf os w cfg (mlPath layer) dirNorm (mlLowerIndex layer)))"

definition MergeChildDirectory ::
  "('w, 'h) host \<Rightarrow> 'w \<Rightarrow> LayerConfig \<Rightarrow> MergedDirectoryWithAncestry \<Rightarrow> wstring \<Rightarrow> MergedDirectoryWithAncestry" where
  "MergeChildDirectory os w cfg parent childName =
     (let childPath = mergedDirPath parent @ [bslash] @ childName in
      MergeLayers os w cfg childPath (length (mergedLayers parent))
        (\<lambda>slot layer. StepLayerAncestry os w cfg (mlPath layer) childPath (mlLowerIndex layer) (mergedLayers parent ! slot)))"

definition MergeDirectoryAcrossLayers :: "('w, 'h) host \<Rightarrow> 'w \<Rightarrow> LayerConfig \<Rightarrow> wstring \<Rightarrow> MergedDirectory" where
  "MergeDirectoryAcrossLayers os w cfg dirRelativePath = merged (MergeDirectoryWithAncestry os w cfg dirRelativePath)"

section \<open>One name through the layers\<close>

text \<open>
  What slot \<open>i\<close> says of the name \<open>k\<close>, with the ancestry \<open>anc i\<close> of the directory there: whether it hides
  itself, whether it hides the slots below, and the entry its scan lists.
\<close>

definition slot_scan :: "('w, 'h) host \<Rightarrow> 'w \<Rightarrow> LayerConfig \<Rightarrow> wstring \<Rightarrow> (nat \<Rightarrow> LayerAncestry) \<Rightarrow> nat \<Rightarrow> LayerDirectoryScan" where
  "slot_scan os w cfg d anc i = ScanLayerDirectory os w (mlPath (MergeLayerAt cfg i)) d (WhiteoutNamesIn (anc i))"

definition slot_blocked :: "('w, 'h) host \<Rightarrow> 'w \<Rightarrow> LayerConfig \<Rightarrow> wstring \<Rightarrow> (nat \<Rightarrow> LayerAncestry) \<Rightarrow> wstring \<Rightarrow> nat \<Rightarrow> bool" where
  "slot_blocked os w cfg d anc k i \<longleftrightarrow>
     HidesLayerAndBelow (MergeLayerAt cfg i) (anc i) \<or> i > 0 \<and> k \<in> set (scanWhitedOutNames (slot_scan os w cfg d anc i))"

definition slot_closes :: "('w, 'h) host \<Rightarrow> 'w \<Rightarrow> LayerConfig \<Rightarrow> wstring \<Rightarrow> (nat \<Rightarrow> LayerAncestry) \<Rightarrow> wstring \<Rightarrow> nat \<Rightarrow> bool" where
  "slot_closes os w cfg d anc k i \<longleftrightarrow>
     HidesLayersBelow (MergeLayerAt cfg i) (anc i) \<or> i = 0 \<and> k \<in> set (scanWhitedOutNames (slot_scan os w cfg d anc i))"

definition slot_entry ::
  "('w, 'h) host \<Rightarrow> 'w \<Rightarrow> LayerConfig \<Rightarrow> wstring \<Rightarrow> (nat \<Rightarrow> LayerAncestry) \<Rightarrow> wstring \<Rightarrow> nat \<Rightarrow> MergedEntry option" where
  "slot_entry os w cfg d anc k i =
     map_option (\<lambda>f. \<lparr>findData = f, mergedSource = mlSource (MergeLayerAt cfg i), mergedLowerIndex = mlLowerIndex (MergeLayerAt cfg i)\<rparr>)
       (map_of (scanEntries (slot_scan os w cfg d anc i)) k)"

function slot_search ::
  "('w, 'h) host \<Rightarrow> 'w \<Rightarrow> LayerConfig \<Rightarrow> wstring \<Rightarrow> (nat \<Rightarrow> LayerAncestry) \<Rightarrow> wstring \<Rightarrow> nat \<Rightarrow> nat \<Rightarrow> MergedEntry option" where
  "slot_search os w cfg d anc k n i =
     (if i \<ge> n \<or> slot_blocked os w cfg d anc k i then None
      else (case slot_entry os w cfg d anc k i of
              Some e \<Rightarrow> Some e
            | None \<Rightarrow> if slot_closes os w cfg d anc k i then None else slot_search os w cfg d anc k n (Suc i)))"
  by pat_completeness auto
termination by (relation "measure (\<lambda>(os, w, cfg, d, anc, k, n, i). n - i)") auto

declare slot_search.simps [simp del]

interpretation slots: layer_search "slot_search os w cfg d anc k n" n "slot_blocked os w cfg d anc k"
  "slot_closes os w cfg d anc k" "slot_entry os w cfg d anc k"
  for os :: "('w, 'h) host" and w cfg d anc k n
  by unfold_locales (rule slot_search.simps)

lemma add_visible_entries:
  "mergeEntries (fold (AddVisibleEntry layer) es m) k =
     (if mergeEntries m k \<noteq> None \<or> k \<in> mergeWhitedOutNames m then mergeEntries m k
      else map_option (\<lambda>f. \<lparr>findData = f, mergedSource = mlSource layer, mergedLowerIndex = mlLowerIndex layer\<rparr>) (map_of es k)) \<and>
   mergeWhitedOutNames (fold (AddVisibleEntry layer) es m) = mergeWhitedOutNames m"
proof (induction es arbitrary: m)
  case (Cons e es)
  have "mergeEntries (AddVisibleEntry layer e m) k =
      (if mergeEntries m k = None \<and> k \<notin> mergeWhitedOutNames m \<and> fst e = k
       then Some \<lparr>findData = snd e, mergedSource = mlSource layer, mergedLowerIndex = mlLowerIndex layer\<rparr> else mergeEntries m k)"
    "mergeWhitedOutNames (AddVisibleEntry layer e m) = mergeWhitedOutNames m"
    by (auto simp: AddVisibleEntry_def)
  then show ?case using Cons.IH [of "AddVisibleEntry layer e m"] by (cases e) auto
qed simp

lemma slot_sources [simp]:
  "mlSource (MergeLayerAt cfg i) = Upper \<longleftrightarrow> i = 0" "mlSource (MergeLayerAt cfg i) = Lower \<longleftrightarrow> i > 0"
  by (auto simp: MergeLayerAt_def)

lemma merge_layer_entries:
  assumes "NT_SUCCESS (scanStatus (slot_scan os w cfg d anc i))"
  shows "\<exists>m'. MergeLayerEntries os w (MergeLayerAt cfg i) d (WhiteoutNamesIn (anc i)) m = (m', STATUS_SUCCESS) \<and>
    mergeWhitedOutNames m' = mergeWhitedOutNames m \<union> set (scanWhitedOutNames (slot_scan os w cfg d anc i)) \<and>
    (\<forall>k. mergeEntries m' k =
       (if mergeEntries m k \<noteq> None \<or> k \<in> mergeWhitedOutNames m \<or>
           i > 0 \<and> k \<in> set (scanWhitedOutNames (slot_scan os w cfg d anc i)) then mergeEntries m k
        else slot_entry os w cfg d anc k i))"
  using assms
  by (auto simp: MergeLayerEntries_def slot_scan_def [symmetric] AddLayerWhiteouts_def add_visible_entries slot_entry_def Let_def)

lemma merge_callbacks [simp]:
  "merge_ancestry ancestryAt slot layer (ls, m, st) = (ancestryAt slot layer, ls @ [ancestryAt slot layer], m, st)"
  "merge_scan os w d layer ancestry (ls, m, st) =
     (case MergeLayerEntries os w layer d (WhiteoutNamesIn ancestry) m of (m1, st1) \<Rightarrow> (NT_SUCCESS st1, ls, m1, st1))"
  by (simp_all add: merge_ancestry_def merge_scan_def)

text \<open>The walk from slot \<open>i\<close> gives each name that has no entry and no whiteout yet what \<open>slot_search\<close> says of it.\<close>

lemma scan_slots_search:
  assumes "scan_slots cfg n (merge_ancestry (\<lambda>slot layer. anc slot)) (merge_scan os w d) i (ls, m, st) = (ls', m', st')" "NT_SUCCESS st'"
  shows "mergeEntries m' k =
    (if mergeEntries m k \<noteq> None \<or> k \<in> mergeWhitedOutNames m then mergeEntries m k else slot_search os w cfg d anc k n i)"
  using assms(1)
proof (induction "n - i" arbitrary: i ls m st)
  case 0
  then show ?case
    by (simp add: scan_slots.simps [of cfg n _ _ i] slot_search.simps [of os w cfg d anc k n i])
next
  case (Suc x)
  then have i: "\<not> n \<le> i" by simp
  note u = Suc.prems [unfolded scan_slots.simps [of cfg n _ _ i] Let_def, simplified i, simplified]
  show ?case
  proof (cases "HidesLayerAndBelow (MergeLayerAt cfg i) (anc i)")
    case True
    then show ?thesis using u i by (auto simp: slot_search.simps [of os w cfg d anc k n i] slot_blocked_def)
  next
    case False
    have ok: "NT_SUCCESS (scanStatus (slot_scan os w cfg d anc i))"
    proof (rule ccontr)
      assume bad: "\<not> ?thesis"
      then have "st' = scanStatus (slot_scan os w cfg d anc i)"
        using u False by (auto simp: MergeLayerEntries_def slot_scan_def [symmetric])
      then show False using assms(2) bad by simp
    qed
    then obtain m1 where m1: "MergeLayerEntries os w (MergeLayerAt cfg i) d (WhiteoutNamesIn (anc i)) m = (m1, STATUS_SUCCESS)"
      "mergeWhitedOutNames m1 = mergeWhitedOutNames m \<union> set (scanWhitedOutNames (slot_scan os w cfg d anc i))"
      "mergeEntries m1 k =
       (if mergeEntries m k \<noteq> None \<or> k \<in> mergeWhitedOutNames m \<or>
           i > 0 \<and> k \<in> set (scanWhitedOutNames (slot_scan os w cfg d anc i)) then mergeEntries m k
        else slot_entry os w cfg d anc k i)"
      using merge_layer_entries by metis
    show ?thesis
    proof (cases "HidesLayersBelow (MergeLayerAt cfg i) (anc i)")
      case True
      then have "m' = m1" using u False m1(1) by simp
      then show ?thesis
        using m1(3) True False i
        by (auto simp: slot_search.simps [of os w cfg d anc k n i] slot_blocked_def slot_closes_def split: option.splits)
    next
      case rest: False
      have "mergeEntries m' k = (if mergeEntries m1 k \<noteq> None \<or> k \<in> mergeWhitedOutNames m1 then mergeEntries m1 k
          else slot_search os w cfg d anc k n (Suc i))"
        by (rule Suc.hyps(1) [where ls = "ls @ [anc i]" and st = STATUS_SUCCESS]) (use Suc.hyps(2) u False rest m1(1) in simp_all)
      then show ?thesis
        using m1(2,3) False rest i
        by (auto simp: slot_search.simps [of os w cfg d anc k n i] slot_blocked_def slot_closes_def split: option.splits)
    qed
  qed
qed

section \<open>The layers a merge reaches\<close>

definition slot_stops :: "LayerConfig \<Rightarrow> (nat \<Rightarrow> LayerAncestry) \<Rightarrow> nat \<Rightarrow> bool" where
  "slot_stops cfg anc i \<longleftrightarrow> HidesLayerAndBelow (MergeLayerAt cfg i) (anc i) \<or> HidesLayersBelow (MergeLayerAt cfg i) (anc i)"

text \<open>Slot \<open>i\<close> is one that the walk over the ancestries scans.\<close>

definition slot_scanned :: "LayerConfig \<Rightarrow> (nat \<Rightarrow> LayerAncestry) \<Rightarrow> nat \<Rightarrow> nat \<Rightarrow> bool" where
  "slot_scanned cfg anc from_slot i \<longleftrightarrow>
     \<not> HidesLayerAndBelow (MergeLayerAt cfg i) (anc i) \<and> (\<forall>j. from_slot \<le> j \<longrightarrow> j < i \<longrightarrow> \<not> slot_stops cfg anc j)"

abbreviation ancestry_of_slot :: "(nat \<Rightarrow> MergeLayer \<Rightarrow> LayerAncestry) \<Rightarrow> LayerConfig \<Rightarrow> nat \<Rightarrow> LayerAncestry" where
  "ancestry_of_slot A cfg i \<equiv> A i (MergeLayerAt cfg i)"

text \<open>A walk that is told less of the slots below one that stops it is the same walk.\<close>

lemma scan_slots_cong:
  assumes "\<forall>j<n'. ancestry_of_slot A' cfg j = ancestry_of_slot A cfg j" "n' \<le> n"
    and "n' < n \<Longrightarrow> i < n' \<and> slot_stops cfg (ancestry_of_slot A cfg) (n' - 1)"
  shows "scan_slots cfg n' (merge_ancestry A') scanLayer i s = scan_slots cfg n (merge_ancestry A) scanLayer i s"
  using assms(3)
proof (induction "n' - i" arbitrary: i s)
  case 0
  then have "n' = n" using assms(2) by fastforce
  then show ?case using 0 by (simp add: scan_slots.simps [of cfg _ _ _ i])
next
  case (Suc x)
  then have i: "i < n'" by simp
  obtain ls m st where s: "s = (ls, m, st)" by (cases s)
  have a: "ancestry_of_slot A' cfg i = ancestry_of_slot A cfg i" using assms(1) i by simp
  have step: "scan_slots cfg n' (merge_ancestry A') scanLayer (Suc i) s2 = scan_slots cfg n (merge_ancestry A) scanLayer (Suc i) s2"
    if "\<not> slot_stops cfg (ancestry_of_slot A cfg) i" for s2
  proof (rule Suc.hyps(1))
    show "x = n' - Suc i" using Suc.hyps(2) by simp
    assume "n' < n"
    then have "slot_stops cfg (ancestry_of_slot A cfg) (n' - 1)" using Suc.prems by blast
    then have "i \<noteq> n' - 1" using that by blast
    then show "Suc i < n' \<and> slot_stops cfg (ancestry_of_slot A cfg) (n' - 1)" using i \<open>slot_stops cfg (ancestry_of_slot A cfg) (n' - 1)\<close> by linarith
  qed
  have "\<not> n' \<le> i" "\<not> n \<le> i" using i assms(2) by auto
  then show ?case
    using step
    by (simp add: scan_slots.simps [of cfg n' _ _ i] scan_slots.simps [of cfg n _ _ i] s a slot_stops_def Let_def
        split: prod.split)
qed

text \<open>The ancestries a successful walk keeps are those of the slots up to the first that stops it.\<close>

lemma scan_slots_layers:
  assumes "scan_slots cfg n (merge_ancestry (\<lambda>slot layer. anc slot)) (merge_scan os w d) i (ls, m, st) = (ls', m', st')"
    and "NT_SUCCESS st'" "i \<le> n"
  shows "\<exists>n'. i \<le> n' \<and> n' \<le> n \<and> ls' = ls @ map anc [i..<n'] \<and> (n' < n \<longrightarrow> i < n' \<and> slot_stops cfg anc (n' - 1))"
  using assms(1,3)
proof (induction "n - i" arbitrary: i ls m st)
  case 0
  then have "i = n" "ls' = ls" by (simp_all add: scan_slots.simps [of cfg _ _ _ i])
  then show ?case by (intro exI [of _ n]) simp
next
  case (Suc x)
  then have i: "\<not> n \<le> i" by simp
  note u = Suc.prems(1) [unfolded scan_slots.simps [of cfg n _ _ i] Let_def, simplified i, simplified]
  obtain m1 st1 where m1: "MergeLayerEntries os w (MergeLayerAt cfg i) d (WhiteoutNamesIn (anc i)) m = (m1, st1)" by fastforce
  show ?case
  proof (cases "slot_stops cfg anc i")
    case True
    have "ls' = ls @ [anc i]" using u True m1 by (auto simp: slot_stops_def split: if_splits)
    then show ?thesis using i True by (intro exI [of _ "Suc i"]) auto
  next
    case False
    then have "scan_slots cfg n (merge_ancestry (\<lambda>slot layer. anc slot)) (merge_scan os w d) (Suc i) (ls @ [anc i], m1, st1) = (ls', m', st')"
      using u m1 assms(2) by (auto simp: slot_stops_def split: if_splits)
    note rest = this
    have x: "x = n - Suc i" and si: "Suc i \<le> n" using Suc.hyps(2) i by simp_all
    from rest obtain n' where "Suc i \<le> n'" "n' \<le> n" "ls' = (ls @ [anc i]) @ map anc [Suc i..<n']"
      "n' < n \<longrightarrow> Suc i < n' \<and> slot_stops cfg anc (n' - 1)"
      using Suc.hyps(1) [OF x _ si] by blast
    then show ?thesis by (intro exI [of _ n']) (auto simp: upt_conv_Cons)
  qed
qed

text \<open>The walk fails when a scan fails, and succeeds when every scan does.\<close>

lemma scan_slots_status:
  assumes "scan_slots cfg n (merge_ancestry (\<lambda>slot layer. anc slot)) (merge_scan os w d) i (ls, m, st) = (ls', m', st')" "NT_SUCCESS st"
  shows "NT_SUCCESS st' \<longleftrightarrow> (\<forall>j. i \<le> j \<longrightarrow> j < n \<longrightarrow> slot_scanned cfg anc i j \<longrightarrow> NT_SUCCESS (scanStatus (slot_scan os w cfg d anc j)))"
  using assms
proof (induction "n - i" arbitrary: i ls m st)
  case 0
  then show ?case by (simp add: scan_slots.simps [of cfg n _ _ i])
next
  case (Suc x)
  then have i: "\<not> n \<le> i" by simp
  note u = Suc.prems(1) [unfolded scan_slots.simps [of cfg n _ _ i] Let_def, simplified i, simplified]
  have "{i..<n} = insert i {Suc i..<n}" using i by auto
  then have "(\<forall>j\<in>{i..<n}. P j) \<longleftrightarrow> P i \<and> (\<forall>j\<in>{Suc i..<n}. P j)" for P by simp
  then have "(\<forall>j. i \<le> j \<longrightarrow> j < n \<longrightarrow> P j) \<longleftrightarrow> P i \<and> (\<forall>j. Suc i \<le> j \<longrightarrow> j < n \<longrightarrow> P j)" for P
    by (simp add: Ball_def imp_conjL)
  note split_first = this [of "\<lambda>j. slot_scanned cfg anc i j \<longrightarrow> NT_SUCCESS (scanStatus (slot_scan os w cfg d anc j))"]
  have x: "x = n - Suc i" using Suc.hyps(2) by simp
  have here: "slot_scanned cfg anc i i \<longleftrightarrow> \<not> HidesLayerAndBelow (MergeLayerAt cfg i) (anc i)" by (auto simp: slot_scanned_def)
  have below: "slot_scanned cfg anc i j \<longleftrightarrow> \<not> slot_stops cfg anc i \<and> slot_scanned cfg anc (Suc i) j" if "Suc i \<le> j" for j
    using that by (auto simp: slot_scanned_def dest: Suc_leI le_neq_implies_less)
  obtain m1 st1 where m1: "MergeLayerEntries os w (MergeLayerAt cfg i) d (WhiteoutNamesIn (anc i)) m = (m1, st1)" by fastforce
  have st1: "NT_SUCCESS st1 \<longleftrightarrow> NT_SUCCESS (scanStatus (slot_scan os w cfg d anc i))"
    using m1 by (auto simp: MergeLayerEntries_def slot_scan_def Let_def split: if_splits)
  show ?case
  proof (cases "HidesLayerAndBelow (MergeLayerAt cfg i) (anc i)")
    case True
    then have "st' = st" using u by simp
    moreover have "slot_stops cfg anc i" using True by (simp add: slot_stops_def)
    ultimately show ?thesis unfolding split_first using Suc.prems(2) True below here by blast
  next
    case False
    show ?thesis
    proof (cases "NT_SUCCESS st1 \<and> \<not> HidesLayersBelow (MergeLayerAt cfg i) (anc i)")
      case True
      then have "scan_slots cfg n (merge_ancestry (\<lambda>slot layer. anc slot)) (merge_scan os w d) (Suc i) (ls @ [anc i], m1, st1) = (ls', m', st')"
        using u m1 False by simp
      then have "NT_SUCCESS st' \<longleftrightarrow>
          (\<forall>j. Suc i \<le> j \<longrightarrow> j < n \<longrightarrow> slot_scanned cfg anc (Suc i) j \<longrightarrow> NT_SUCCESS (scanStatus (slot_scan os w cfg d anc j)))"
        using Suc.hyps(1) [OF x] True by blast
      moreover have "\<not> slot_stops cfg anc i" using True False by (simp add: slot_stops_def)
      ultimately show ?thesis unfolding split_first using True st1 below by blast
    next
      case stop: False
      then have "st' = st1" using u m1 False by (auto split: if_splits)
      moreover have "slot_stops cfg anc i" if "NT_SUCCESS st1" using stop that by (simp add: slot_stops_def)
      ultimately show ?thesis unfolding split_first using st1 here False below by blast
    qed
  qed
qed

section \<open>What a listing holds\<close>

abbreviation slot_ancestry :: "('w, 'h) host \<Rightarrow> 'w \<Rightarrow> LayerConfig \<Rightarrow> wstring \<Rightarrow> nat \<Rightarrow> LayerAncestry" where
  "slot_ancestry os w cfg d i \<equiv> LayerAncestryOf os w cfg (mlPath (MergeLayerAt cfg i)) d (mlLowerIndex (MergeLayerAt cfg i))"

abbreviation merge_from_scratch :: "('w, 'h) host \<Rightarrow> 'w \<Rightarrow> LayerConfig \<Rightarrow> wstring \<Rightarrow> merge_state" where
  "merge_from_scratch os w cfg d \<equiv>
     scan_slots cfg (Suc (length (lowerPaths cfg))) (merge_ancestry (\<lambda>slot layer. slot_ancestry os w cfg d slot)) (merge_scan os w d) 0
       ([], \<lparr>mergeEntries = Map.empty, mergeWhitedOutNames = {}\<rparr>, STATUS_SUCCESS)"

definition merge_result :: "wstring \<Rightarrow> merge_state \<Rightarrow> MergedDirectoryWithAncestry" where
  "merge_result dirPath = (\<lambda>(layers, m, status).
     \<lparr>merged = \<lparr>mergedStatus = status, mergedEntries = (if NT_SUCCESS status then mergeEntries m else Map.empty)\<rparr>,
      mergedDirPath = dirPath, mergedLayers = layers\<rparr>)"

lemma MergeDirectory_scratch:
  assumes "NormalizePath os dir = d" "d = [] \<or> IsSafeRelativePath d" "\<not> IsReservedOverlayPath os w cfg d"
  shows "MergeDirectoryWithAncestry os w cfg dir = merge_result d (merge_from_scratch os w cfg d)"
proof -
  have "scan_slots cfg (Suc (length (lowerPaths cfg)))
      (merge_ancestry (\<lambda>slot layer. LayerAncestryOf os w cfg (mlPath layer) d (mlLowerIndex layer))) (merge_scan os w d) 0
      ([], \<lparr>mergeEntries = Map.empty, mergeWhitedOutNames = {}\<rparr>, STATUS_SUCCESS) = merge_from_scratch os w cfg d"
    by (rule scan_slots_cong) auto
  then show ?thesis
    using assms by (auto simp: MergeDirectoryWithAncestry_def MergeLayers_def ForEachScannedLayer_def merge_result_def)
qed

lemma NT_SUCCESS_0 [simp]: "NT_SUCCESS STATUS_SUCCESS"
  by (simp add: NT_SUCCESS_def)

text \<open>
  C16: What a listing holds. A merge of a directory succeeds exactly when every layer it scans can be
  listed, and a failed one holds no entries. In a successful merge a name has an entry exactly when
  the first layer, from the upper down, that lists the name is not behind a layer that hides it: one
  with a whiteout for the name, one whose copy of the directory is opaque, whited out or no plain
  directory, or a link under a higher entry. The entry is that layer's, with its source and index.
\<close>

theorem MergeDirectory_first_visible:
  assumes "d = NormalizePath os dir" "d = [] \<or> IsSafeRelativePath d" "\<not> IsReservedOverlayPath os w cfg d"
    and "anc = slot_ancestry os w cfg d" "r = MergeDirectoryAcrossLayers os w cfg dir"
  shows "(NT_SUCCESS (mergedStatus r) \<longleftrightarrow>
       (\<forall>j \<le> length (lowerPaths cfg). slot_scanned cfg anc 0 j \<longrightarrow> NT_SUCCESS (scanStatus (slot_scan os w cfg d anc j)))) \<and>
    (\<not> NT_SUCCESS (mergedStatus r) \<longrightarrow> mergedEntries r = Map.empty) \<and>
    (NT_SUCCESS (mergedStatus r) \<longrightarrow>
       (mergedEntries r k = Some e \<longleftrightarrow>
        (\<exists>j \<le> length (lowerPaths cfg).
           (\<forall>i<j. \<not> slot_blocked os w cfg d anc k i \<and> slot_entry os w cfg d anc k i = None \<and> \<not> slot_closes os w cfg d anc k i) \<and>
           \<not> slot_blocked os w cfg d anc k j \<and> slot_entry os w cfg d anc k j = Some e)))"
proof -
  obtain ls m st where s: "merge_from_scratch os w cfg d = (ls, m, st)" by (rule prod_cases3)
  have r: "mergedStatus r = st" "mergedEntries r = (if NT_SUCCESS st then mergeEntries m else Map.empty)"
    using MergeDirectory_scratch [OF assms(1) [symmetric] assms(2,3)] s assms(5)
    by (simp_all add: MergeDirectoryAcrossLayers_def merge_result_def)
  have "mergeEntries m k = slot_search os w cfg d anc k (Suc (length (lowerPaths cfg))) 0" if "NT_SUCCESS st"
    using scan_slots_search [OF s that, of k] assms(4) by simp
  then have entry: "mergeEntries m k = Some e \<longleftrightarrow> (\<exists>j \<le> length (lowerPaths cfg).
      (\<forall>i<j. \<not> slot_blocked os w cfg d anc k i \<and> slot_entry os w cfg d anc k i = None \<and> \<not> slot_closes os w cfg d anc k i) \<and>
      \<not> slot_blocked os w cfg d anc k j \<and> slot_entry os w cfg d anc k j = Some e)"
    if "NT_SUCCESS st"
    using slots.find_iff [of os w cfg d anc k "Suc (length (lowerPaths cfg))" 0 e] that
    by (simp add: less_Suc_eq_le slots.passes_def)
  have status: "NT_SUCCESS st \<longleftrightarrow>
      (\<forall>j \<le> length (lowerPaths cfg). slot_scanned cfg anc 0 j \<longrightarrow> NT_SUCCESS (scanStatus (slot_scan os w cfg d anc j)))"
    using scan_slots_status [OF s NT_SUCCESS_0] assms(4) by (simp add: less_Suc_eq_le)
  show ?thesis unfolding r status [symmetric] using entry by (cases "NT_SUCCESS st") simp_all
qed

theorem MergeDirectory_first_visible_witness:
  "mergedEntries (MergeDirectoryAcrossLayers mem_host sample_disk sample_config []) (wlit ''b'') = None"
proof -
  let ?d = "NormalizePath mem_host []" and ?w = sample_disk and ?c = sample_config
  have d: "?d = []" by code_simp
  have "\<not> IsReservedOverlayPath mem_host ?w ?c ?d" by code_simp
  note first = MergeDirectory_first_visible [OF refl disjI1 [OF d] this refl refl]
  have hidden: "slot_closes mem_host ?w ?c ?d (slot_ancestry mem_host ?w ?c ?d) (wlit ''b'') 0"
    "slot_entry mem_host ?w ?c ?d (slot_ancestry mem_host ?w ?c ?d) (wlit ''b'') 0 = None" by code_simp+
  have ok: "NT_SUCCESS (mergedStatus (MergeDirectoryAcrossLayers mem_host ?w ?c []))" by code_simp
  show ?thesis
  proof (rule ccontr)
    assume "\<not> ?thesis"
    then obtain e where "mergedEntries (MergeDirectoryAcrossLayers mem_host ?w ?c []) (wlit ''b'') = Some e" by blast
    then obtain j where j: "slot_entry mem_host ?w ?c ?d (slot_ancestry mem_host ?w ?c ?d) (wlit ''b'') j = Some e"
      "\<forall>i<j. \<not> slot_closes mem_host ?w ?c ?d (slot_ancestry mem_host ?w ?c ?d) (wlit ''b'') i"
      using first [THEN conjunct2, THEN conjunct2, rule_format, OF ok, of "wlit ''b''" e] by blast
    have "\<not> 0 < j" using j(2) hidden(1) by blast
    then show False using j(1) hidden(2) by simp
  qed
qed

section \<open>A child directory\<close>

lemma step_keeps_hiding:
  assumes "linkUnderHigherEntry a \<Longrightarrow> firstNonDirectory a \<noteq> StopNone"
  shows "HidesLayerAndBelow l a \<Longrightarrow> HidesLayerAndBelow l (StepLayerAncestry os w cfg L p i a)"
    and "HidesLayersBelow l a \<Longrightarrow> HidesLayersBelow l (StepLayerAncestry os w cfg L p i a)"
  using assms by (auto simp: HidesLayerAndBelow_def HidesLayersBelow_def StepLayerAncestry_def Let_def)

lemma split_names: "names ss \<Longrightarrow> ss \<noteq> [] \<Longrightarrow> split_on bslash (join_with bslash ss) = ss"
  by (rule split_join) (auto simp: list_all_iff dest: is_nameD(2))

lemma ancestry_step:
  assumes "names (ss @ [c])" "ss \<noteq> []"
  shows "LayerAncestryOf os w cfg L (join_with bslash ss @ [bslash] @ c) index =
    StepLayerAncestry os w cfg L (join_with bslash ss @ [bslash] @ c) index (LayerAncestryOf os w cfg L (join_with bslash ss) index)"
proof -
  have j: "join_with bslash ss @ [bslash] @ c = join_with bslash (ss @ [c])" using join_with_snoc [OF assms(2)] by simp
  have "walked_paths (join_with bslash (ss @ [c])) = walked_paths (join_with bslash ss) @ [join_with bslash (ss @ [c])]"
    using assms(1) by (simp add: walked_paths_join take_Cons')
  then show ?thesis unfolding j by (simp add: LayerAncestryOf_def)
qed

lemma ancestry_link_stops:
  "linkUnderHigherEntry (LayerAncestryOf os w cfg L d index) \<Longrightarrow> firstNonDirectory (LayerAncestryOf os w cfg L d index) \<noteq> StopNone"
  by (simp add: LayerAncestryOf_over ancestry_simps)

text \<open>
  C17: Listing a tree downwards is exact. From a successful merge of a directory other than the root,
  \<open>MergeChildDirectory\<close> gives for each child the same merge, entries, status and kept ancestries, as
  merging the child's path from the layer roots does, though it reads only the child's own path in
  the layers its parent reached.
\<close>

theorem MergeChildDirectory_exact:
  assumes "names (ss @ [c])" "ss \<noteq> []" "d = join_with bslash ss" "NormalizePath os d = d" "NormalizePath os (d @ [bslash] @ c) = d @ [bslash] @ c"
    and "IsSafeRelativePath (d @ [bslash] @ c)" "\<not> IsReservedOverlayPath os w cfg d" "\<not> IsReservedOverlayPath os w cfg (d @ [bslash] @ c)"
    and "NT_SUCCESS (mergedStatus (merged (MergeDirectoryWithAncestry os w cfg d)))"
  shows "MergeChildDirectory os w cfg (MergeDirectoryWithAncestry os w cfg d) c = MergeDirectoryWithAncestry os w cfg (d @ [bslash] @ c)"
proof -
  let ?c = "d @ [bslash] @ c" and ?n = "Suc (length (lowerPaths cfg))"
  have n: "names ss" using assms(1) by simp
  have "split_on bslash d = ss" using split_names [OF n assms(2)] assms(3) by simp
  moreover have "split_on bslash ?c = ss @ [c]"
    using split_names [OF assms(1)] join_with_snoc [OF assms(2), of bslash c] assms(3) by simp
  moreover have "d \<noteq> []" using join_with_eq_Nil [OF n] assms(2,3) by simp
  ultimately have "IsSafeRelativePath d" using assms(6) by (simp add: IsSafe_segments)
  then have p: "MergeDirectoryWithAncestry os w cfg d = merge_result d (merge_from_scratch os w cfg d)"
    using MergeDirectory_scratch [OF assms(4) _ assms(7)] by simp
  obtain ls m st where s: "merge_from_scratch os w cfg d = (ls, m, st)" by (rule prod_cases3)
  have "NT_SUCCESS st" using assms(9) p s by (simp add: merge_result_def)
  then obtain k where n: "k \<le> ?n" "ls = map (slot_ancestry os w cfg d) [0..<k]"
    "k < ?n \<longrightarrow> 0 < k \<and> slot_stops cfg (slot_ancestry os w cfg d) (k - 1)"
    using scan_slots_layers [OF s] by auto
  have step: "slot_ancestry os w cfg ?c i = StepLayerAncestry os w cfg (mlPath (MergeLayerAt cfg i)) ?c (mlLowerIndex (MergeLayerAt cfg i)) (slot_ancestry os w cfg d i)" for i
    unfolding assms(3) by (rule ancestry_step [OF assms(1,2)])
  have "slot_stops cfg (slot_ancestry os w cfg ?c) i" if "slot_stops cfg (slot_ancestry os w cfg d) i" for i
    using that unfolding slot_stops_def step by (auto simp: step_keeps_hiding ancestry_link_stops simp del: append.simps append_Cons)
  then have "scan_slots cfg k (merge_ancestry (\<lambda>slot layer. StepLayerAncestry os w cfg (mlPath layer) ?c (mlLowerIndex layer) (ls ! slot)))
      (merge_scan os w ?c) 0 z = scan_slots cfg ?n (merge_ancestry (\<lambda>slot layer. slot_ancestry os w cfg ?c slot)) (merge_scan os w ?c) 0 z" for z
    using n step by (intro scan_slots_cong) simp_all
  moreover have "min (length ls) ?n = k" using n by simp
  ultimately have "MergeChildDirectory os w cfg (MergeDirectoryWithAncestry os w cfg d) c = merge_result ?c (merge_from_scratch os w cfg ?c)"
    using s unfolding p by (simp add: MergeChildDirectory_def MergeLayers_def ForEachScannedLayer_def merge_result_def Let_def)
  then show ?thesis using MergeDirectory_scratch [OF assms(5) _ assms(8)] assms(6) by simp
qed

theorem MergeChildDirectory_exact_witness:
  "MergeChildDirectory mem_host sample_disk sample_config
     (MergeDirectoryWithAncestry mem_host sample_disk sample_config (wlit ''a'')) (wlit ''x'') =
   MergeDirectoryWithAncestry mem_host sample_disk sample_config (wlit ''a'' @ [bslash] @ wlit ''x'')"
proof (rule MergeChildDirectory_exact [where ss = "[wlit ''a'']"])
  show "names ([wlit ''a''] @ [wlit ''x''])" by (simp add: is_name_def is_slash_def)
  show "NormalizePath mem_host (wlit ''a'') = wlit ''a''" by code_simp
  show "NormalizePath mem_host (wlit ''a'' @ [bslash] @ wlit ''x'') = wlit ''a'' @ [bslash] @ wlit ''x''" by code_simp
  show "IsSafeRelativePath (wlit ''a'' @ [bslash] @ wlit ''x'')" by code_simp
  show "\<not> IsReservedOverlayPath mem_host sample_disk sample_config (wlit ''a'')" by code_simp
  show "\<not> IsReservedOverlayPath mem_host sample_disk sample_config (wlit ''a'' @ [bslash] @ wlit ''x'')" by code_simp
  show "NT_SUCCESS (mergedStatus (merged (MergeDirectoryWithAncestry mem_host sample_disk sample_config (wlit ''a''))))" by code_simp
qed simp_all

end
