(* ===== verification/Entry_Rename.thy ===== *)
theory Entry_Rename
  imports Copy_Up_Runs Directory_Merge "HOL-Library.List_Lexorder"
begin

text \<open>
  The renames of directories and files of the merged view (\<^verbatim>\<open>impl/DirectoryRename.cpp\<close>,
  \<^verbatim>\<open>impl/FileRename.cpp\<close>). A directory that a lower holds is copied as the merged view shows it, in a
  container of the work directory, marked opaque and moved to its new name; an upper directory or file
  moves. Every operation works on the state of the copy-ups; \<open>n\<close> is the number of rounds of the loops and
  \<open>depth\<close> bounds the depth of a copied tree, both as in the theories below.
\<close>

section \<open>Security\<close>

definition UNPROTECTED_DACL_SECURITY_INFORMATION :: dword where "UNPROTECTED_DACL_SECURITY_INFORMATION = 0x20000000"
definition UNPROTECTED_SACL_SECURITY_INFORMATION :: dword where "UNPROTECTED_SACL_SECURITY_INFORMATION = 0x10000000"

text \<open>The read of one part of the security of a path: the two calls, for the length and for the bytes.\<close>

definition read_security :: "('w, 'h) file_io \<Rightarrow> 'w \<Rightarrow> wstring \<Rightarrow> dword \<Rightarrow> byte list option" where
  "read_security io w path info =
     (let sz = fst (GetFileSecurityW io w path info 0) in
      if sz = 0 then None
      else (case snd (GetFileSecurityW io w path info sz) of Inl e \<Rightarrow> None | Inr sd \<Rightarrow> Some sd))"

text \<open>\<^verbatim>\<open>keepFirst\<close>.\<close>

definition keep_first :: "dword \<Rightarrow> dword \<Rightarrow> dword" where
  "keep_first firstError e = (if firstError = ERROR_SUCCESS then e else firstError)"

definition copy_owner_and_group :: "('w, 'h) file_io \<Rightarrow> 'w \<Rightarrow> wstring \<Rightarrow> wstring \<Rightarrow> 'w \<times> dword" where
  "copy_owner_and_group io w extendedSrc extendedDst =
     (let ogInfo = OWNER_SECURITY_INFORMATION OR GROUP_SECURITY_INFORMATION in
      case read_security io w extendedSrc ogInfo of
        None \<Rightarrow> (w, ERROR_SUCCESS)
      | Some sd \<Rightarrow>
          (case SetFileSecurityW io w extendedDst ogInfo sd of
             (w1, None) \<Rightarrow> (w1, ERROR_SUCCESS)
           | (w1, Some err) \<Rightarrow> (w1, if err \<noteq> 0 then err else ERROR_ACCESS_DENIED)))"

definition copy_dacl :: "('w, 'h) file_io \<Rightarrow> 'w \<Rightarrow> wstring \<Rightarrow> wstring \<Rightarrow> 'w \<times> dword" where
  "copy_dacl io w extendedSrc extendedDst =
     (case read_security io w extendedSrc DACL_SECURITY_INFORMATION of
        None \<Rightarrow> (w, ERROR_SUCCESS)
      | Some dsd \<Rightarrow>
          (case GetSecurityDescriptorDacl io dsd of
             Some (Some dacl) \<Rightarrow>
               SetNamedSecurityInfoW io w extendedDst (DACL_SECURITY_INFORMATION OR UNPROTECTED_DACL_SECURITY_INFORMATION) (dacl, [])
           | _ \<Rightarrow> (w, ERROR_SUCCESS)))"

definition copy_sacl :: "('w, 'h) file_io \<Rightarrow> 'w \<Rightarrow> wstring \<Rightarrow> wstring \<Rightarrow> 'w \<times> dword" where
  "copy_sacl io w extendedSrc extendedDst =
     (if \<not> securityPrivilege io then (w, ERROR_SUCCESS)
      else
        (case read_security io w extendedSrc SACL_SECURITY_INFORMATION of
           None \<Rightarrow> (w, ERROR_SUCCESS)
         | Some ssd \<Rightarrow>
             (case GetSecurityDescriptorSacl io ssd of
                Some (Some sacl) \<Rightarrow>
                  SetNamedSecurityInfoW io w extendedDst (SACL_SECURITY_INFORMATION OR UNPROTECTED_SACL_SECURITY_INFORMATION) ([], sacl)
              | _ \<Rightarrow> (w, ERROR_SUCCESS))))"

definition CopySecurityKeepingInheritance :: "('w, 'h) host \<Rightarrow> ('w, 'h) file_io \<Rightarrow> 'w \<Rightarrow> wstring \<Rightarrow> wstring \<Rightarrow> 'w \<times> dword" where
  "CopySecurityKeepingInheritance os io w srcAbs dstAbs =
     (let extendedSrc = WithExtendedPrefix os srcAbs; extendedDst = WithExtendedPrefix os dstAbs;
          (w1, e1) = copy_owner_and_group io w extendedSrc extendedDst;
          (w2, e2) = copy_dacl io w1 extendedSrc extendedDst;
          (w3, e3) = copy_sacl io w2 extendedSrc extendedDst in
      (w3, keep_first (keep_first e1 e2) e3))"

section \<open>Copies of files\<close>

definition CopyFileMetadataAfterData ::
  "('w, 'h) host \<Rightarrow> ('w, 'h) file_io \<Rightarrow> nat \<Rightarrow> 'w \<Rightarrow> wstring \<Rightarrow> dword \<Rightarrow> wstring \<Rightarrow> CopiedEntryRecord \<Rightarrow> LayerConfig \<Rightarrow> ('w \<times> ntstatus) option" where
  "CopyFileMetadataAfterData os io n w srcAbs srcAttrs dstAbs record cfg =
     (case ApplyEncryptedStateIfNeeded os io w dstAbs srcAttrs of
        (w1, Some e) \<Rightarrow> Some (w1, nt_status os e)
      | (w1, None) \<Rightarrow>
          (case CopyUserAlternateDataStreams os io n w1 srcAbs dstAbs of
             None \<Rightarrow> None
           | Some (w2, streamStatus) \<Rightarrow>
               if \<not> NT_SUCCESS streamStatus then Some (w2, streamStatus)
               else
                 (case CopyExtendedAttributes os io n w2 srcAbs dstAbs of
                    None \<Rightarrow> None
                  | Some (w3, eaStatus) \<Rightarrow>
                      if \<not> NT_SUCCESS eaStatus then Some (w3, eaStatus)
                      else
                        let (w4, securityError) = CopySecurityKeepingInheritance os io w3 srcAbs dstAbs in
                        if securityError \<noteq> ERROR_SUCCESS then Some (w4, nt_status os securityError)
                        else
                          let (w5, metadata) = CopiedEntryMetadata os io w4 srcAbs record cfg in
                          Some (WriteCopyUpRecordOrRemoveEntry os io w5 dstAbs metadata NewFile cfg))))"

text \<open>
  On an early return the destructors close the destination before the source; the code after the data
  copy closes the source first. A time that \<^verbatim>\<open>GetFileTime\<close> does not give stays zero.
\<close>

definition CopyFilePreservingMetadata ::
  "('w, 'h) host \<Rightarrow> ('w, 'h) file_io \<Rightarrow> nat \<Rightarrow> 'w \<Rightarrow> wstring \<Rightarrow> wstring \<Rightarrow> CopiedEntryRecord \<Rightarrow> LayerConfig \<Rightarrow> ('w \<times> ntstatus) option" where
  "CopyFilePreservingMetadata os io n w srcAbs dstAbs record cfg =
     (case OpenSourceFileForCopy os io w srcAbs of
        (w1, Inl e) \<Rightarrow> Some (w1, nt_status os e)
      | (w1, Inr srcHandle) \<Rightarrow>
          (case GetFileAttributesW os w1 (WithExtendedPrefix os srcAbs) of
             Inl e \<Rightarrow> Some (CloseHandle io w1 srcHandle, nt_status os e)
           | Inr srcAttrs \<Rightarrow>
               let srcTimes = (case GetFileTime io w1 srcHandle of None \<Rightarrow> zero_times | Some t \<Rightarrow> t) in
               (case CreateFileW io w1 (WithExtendedPrefix os dstAbs) (GENERIC_READ OR GENERIC_WRITE) 0 CREATE_ALWAYS FILE_ATTRIBUTE_NORMAL of
                  (w2, Inl e) \<Rightarrow> Some (CloseHandle io w2 srcHandle, nt_status os e)
                | (w2, Inr dstHandle) \<Rightarrow>
                    let closeBoth = (\<lambda>v. CloseHandle io (CloseHandle io v dstHandle) srcHandle);
                        (w3, refused) =
                          (if HasFileAttribute srcAttrs FILE_ATTRIBUTE_SPARSE_FILE \<and> HasSparseFiles (hostCapabilities cfg)
                           then SetSparse io w2 dstHandle else (w2, None)) in
                    (case refused of
                       Some e \<Rightarrow> Some (closeBoth w3, SparseRefusalStatus os e)
                     | None \<Rightarrow>
                         (case CopyFileDataKeepingHoles os io n (SetCompressedIfSource io w3 dstHandle srcAttrs) srcHandle dstHandle of
                            None \<Rightarrow> None
                          | Some (w4, dataStatus) \<Rightarrow>
                              if \<not> NT_SUCCESS dataStatus then Some (closeBoth w4, dataStatus)
                              else
                                map_option
                                  (\<lambda>(w5, metadataStatus).
                                     if \<not> NT_SUCCESS metadataStatus then (w5, metadataStatus)
                                     else (fst (WriteEntryTimes os w5 dstAbs srcTimes (Some srcAttrs)), STATUS_SUCCESS))
                                  (CopyFileMetadataAfterData os io n (CloseHandle io (CloseHandle io w4 srcHandle) dstHandle)
                                     srcAbs srcAttrs dstAbs record cfg))))))"

section \<open>Copies of directories\<close>

definition WriteDirectoryCopyUpRecord ::
  "('w, 'h) host \<Rightarrow> ('w, 'h) file_io \<Rightarrow> 'w \<Rightarrow> wstring \<Rightarrow> wstring \<Rightarrow> CopiedEntryRecord \<Rightarrow> LayerConfig \<Rightarrow> 'w \<times> ntstatus" where
  "WriteDirectoryCopyUpRecord os io w srcAbs dstAbs record cfg =
     (let (w1, metadata) = CopiedEntryMetadata os io w srcAbs record cfg in
      case WriteLayerMountMetadata os w1 dstAbs metadata (Some cfg) of
        (w2, True) \<Rightarrow> (w2, STATUS_SUCCESS)
      | (w2, False) \<Rightarrow>
          let err = GetLastError io w2 in (w2, nt_status os (if err \<noteq> 0 then err else ERROR_WRITE_FAULT)))"

definition ApplyDirectoryBasicInfoAndSecurity ::
  "('w, 'h) host \<Rightarrow> ('w, 'h) file_io \<Rightarrow> 'w \<Rightarrow> wstring \<Rightarrow> wstring \<Rightarrow> 'w \<times> ntstatus" where
  "ApplyDirectoryBasicInfoAndSecurity os io w srcAbs dstAbs =
     (let w1 =
            (case GetFileAttributesExW os w (WithExtendedPrefix os srcAbs) of
               Inl e \<Rightarrow> w
             | Inr info \<Rightarrow> fst (WriteEntryTimes os w dstAbs (EntryTimesOf info) (Some (dataAttributes info))));
          (w2, securityError) = CopySecurityKeepingInheritance os io w1 srcAbs dstAbs in
      (w2, if securityError \<noteq> ERROR_SUCCESS then nt_status os securityError else STATUS_SUCCESS))"

definition FinishCopiedDirectory ::
  "('w, 'h) host \<Rightarrow> ('w, 'h) file_io \<Rightarrow> nat \<Rightarrow> 'w \<Rightarrow> wstring \<Rightarrow> wstring \<Rightarrow> wstring \<Rightarrow> CopiedEntryRecord \<Rightarrow> LayerConfig \<Rightarrow>
     ('w \<Rightarrow> 'w \<times> ntstatus) \<Rightarrow> ('w \<times> ntstatus) option" where
  "FinishCopiedDirectory os io n w viewSrcAbs recordSrcAbs dstAbs record cfg markCopy =
     (case CopyDirectoryOwnMetadata os io n w viewSrcAbs dstAbs of
        None \<Rightarrow> None
      | Some (w1, ownMetadataStatus) \<Rightarrow>
          if \<not> NT_SUCCESS ownMetadataStatus then Some (w1, ownMetadataStatus)
          else
            let (w2, recordStatus) = WriteDirectoryCopyUpRecord os io w1 recordSrcAbs dstAbs record cfg in
            if \<not> NT_SUCCESS recordStatus then Some (w2, recordStatus)
            else
              let (w3, markStatus) = markCopy w2 in
              if \<not> NT_SUCCESS markStatus then Some (w3, markStatus)
              else Some (ApplyDirectoryBasicInfoAndSecurity os io w3 viewSrcAbs dstAbs))"

definition IsDirectoryAt :: "('w, 'h) host \<Rightarrow> 'w \<Rightarrow> wstring \<Rightarrow> bool" where
  "IsDirectoryAt os w path =
     (let attrs = attributes_at os w path in attrs \<noteq> INVALID_FILE_ATTRIBUTES \<and> attrs AND FILE_ATTRIBUTE_DIRECTORY \<noteq> 0)"

text \<open>The layer root of a merged entry and the record that its copy gets.\<close>

definition SourceOf :: "LayerConfig \<Rightarrow> MergedEntry \<Rightarrow> wstring \<times> CopiedEntryRecord" where
  "SourceOf cfg entry =
     (if mergedSource entry = Upper then (upperPath cfg, CarriedFromSource)
      else (lowerPaths cfg ! nat (mergedLowerIndex entry), NewFromSource))"

definition CopyEntry ::
  "('w, 'h) host \<Rightarrow> ('w, 'h) file_io \<Rightarrow> nat \<Rightarrow> 'w \<Rightarrow> wstring \<Rightarrow> dword \<Rightarrow> wstring \<Rightarrow> CopiedEntryRecord \<Rightarrow> LayerConfig \<Rightarrow>
     ('w \<Rightarrow> ('w \<times> ntstatus) option) \<Rightarrow> ('w \<times> ntstatus) option" where
  "CopyEntry os io n w srcAbs srcAttrs dstAbs record cfg copyChildren =
     (let (cloneStatus, clones) = ClonesReparsePoint os w srcAbs srcAttrs in
      if \<not> NT_SUCCESS cloneStatus then Some (w, cloneStatus)
      else if clones
      then
        CloneReparsePointWithCopyUpRecord os io n w \<lparr>sourceEntryPath = srcAbs, sourceEntryAttributes = srcAttrs\<rparr> dstAbs record cfg
      else if srcAttrs AND FILE_ATTRIBUTE_DIRECTORY = 0 then CopyFilePreservingMetadata os io n w srcAbs dstAbs record cfg
      else
        let (w1, dirStatus) = CreateDirectoryOrUseExisting os w dstAbs in
        if \<not> NT_SUCCESS dirStatus then Some (w1, dirStatus)
        else
          (case copyChildren w1 of
             None \<Rightarrow> None
           | Some (w2, childrenStatus) \<Rightarrow>
               if \<not> NT_SUCCESS childrenStatus then Some (w2, childrenStatus)
               else FinishCopiedDirectory os io n w2 srcAbs srcAbs dstAbs record cfg (\<lambda>v. (v, STATUS_SUCCESS))))"

section \<open>The copy of a merged directory\<close>

text \<open>The elements of a \<^verbatim>\<open>std::map\<close> in the order of its keys.\<close>

definition map_values :: "(wstring \<rightharpoonup> 'a) \<Rightarrow> 'a list" where
  "map_values m = map (\<lambda>k. the (m k)) (sorted_list_of_set (dom m))"

definition CopyMergedEntry ::
  "('w, 'h) host \<Rightarrow> ('w, 'h) file_io \<Rightarrow> nat \<Rightarrow> LayerConfig \<Rightarrow>
     ('w \<Rightarrow> MergedDirectoryWithAncestry \<Rightarrow> wstring \<Rightarrow> ('w \<times> ntstatus) option) \<Rightarrow>
     'w \<Rightarrow> MergedDirectoryWithAncestry \<Rightarrow> MergedEntry \<Rightarrow> wstring \<Rightarrow> ('w \<times> ntstatus) option" where
  "CopyMergedEntry os io n cfg copyMergedChildren w oldParent entry dstParentPath =
     (let name = cFileName (findData entry);
          (root, record) = SourceOf cfg entry;
          dstAbs = dstParentPath @ [bslash] @ name in
      CopyEntry os io n w (JoinDirPath root (mergedDirPath oldParent) @ [bslash] @ name) (dwFileAttributes (findData entry)) dstAbs
        record cfg (\<lambda>w1. copyMergedChildren w1 (MergeChildDirectory os w1 cfg oldParent name) dstAbs))"

fun copy_each :: "('w \<Rightarrow> 'e \<Rightarrow> ('w \<times> ntstatus) option) \<Rightarrow> 'w \<Rightarrow> 'e list \<Rightarrow> ('w \<times> ntstatus) option" where
  "copy_each copy w [] = Some (w, STATUS_SUCCESS)"
| "copy_each copy w (e # es) =
     (case copy w e of
        None \<Rightarrow> None
      | Some (w1, status) \<Rightarrow> if \<not> NT_SUCCESS status then Some (w1, status) else copy_each copy w1 es)"

primrec CopyMergedChildren ::
  "nat \<Rightarrow> ('w, 'h) host \<Rightarrow> ('w, 'h) file_io \<Rightarrow> nat \<Rightarrow> LayerConfig \<Rightarrow> 'w \<Rightarrow> MergedDirectoryWithAncestry \<Rightarrow> wstring \<Rightarrow> ('w \<times> ntstatus) option" where
  "CopyMergedChildren 0 os io n cfg w oldDir dstPath = None"
| "CopyMergedChildren (Suc depth) os io n cfg w oldDir dstPath =
     (if \<not> NT_SUCCESS (mergedStatus (merged oldDir)) then Some (w, mergedStatus (merged oldDir))
      else
        copy_each (\<lambda>w1 entry. CopyMergedEntry os io n cfg (CopyMergedChildren depth os io n cfg) w1 oldDir entry dstPath) w
          (map_values (mergedEntries (merged oldDir))))"

definition CopyMergedDirectory ::
  "('w, 'h) host \<Rightarrow> ('w, 'h) file_io \<Rightarrow> nat \<Rightarrow> LayerConfig \<Rightarrow> 'w \<Rightarrow> ResolvedPath \<Rightarrow> wstring \<Rightarrow> wstring \<Rightarrow> wstring \<Rightarrow> ('w \<times> ntstatus) option" where
  "CopyMergedDirectory os io n cfg w lowerSource oldName oldUpper stagedPath =
     (let hasUpperShadow = IsDirectoryAt os w oldUpper;
          mergedViewSource = (if hasUpperShadow then oldUpper else absolutePath lowerSource) in
      case CreateDirectoryW os w (ForWin32 os stagedPath) of
        (w1, Some e) \<Rightarrow> Some (w1, StatusOfFailedCall (CloudFileStatus os) e ERROR_WRITE_FAULT)
      | (w1, None) \<Rightarrow>
          (case CopyMergedChildren n os io n cfg w1 (MergeDirectoryWithAncestry os w1 cfg oldName) stagedPath of
             None \<Rightarrow> None
           | Some (w2, childrenStatus) \<Rightarrow>
               if \<not> NT_SUCCESS childrenStatus then Some (w2, childrenStatus)
               else
                 FinishCopiedDirectory os io n w2 mergedViewSource (absolutePath lowerSource) stagedPath NewFromSource cfg
                   (\<lambda>v. SetOpaqueAtPath os cfg v stagedPath)))"

section \<open>Directory renames\<close>

definition DestinationExistsInMerged :: "('w, 'h) host \<Rightarrow> 'w \<Rightarrow> LayerConfig \<Rightarrow> wstring \<Rightarrow> bool" where
  "DestinationExistsInMerged os w cfg normalizedPath =
     (let destInUpper = ExistsInUpper os w cfg normalizedPath;
          destWhitedOut = HasWhiteout os w normalizedPath (upperPath cfg);
          destInLower = Found (ResolveLowerPath os w cfg normalizedPath) in
      destInUpper \<or> (destInLower \<and> \<not> destWhitedOut))"

definition PrepareRenameDestination ::
  "('w, 'h) host \<Rightarrow> ('w, 'h) file_io \<Rightarrow> int \<Rightarrow> nat \<Rightarrow> LayerConfig \<Rightarrow> 'w copy_up_state \<Rightarrow> wstring \<Rightarrow> ReplaceExisting \<Rightarrow>
     ('w copy_up_state \<times> ntstatus) run" where
  "PrepareRenameDestination os io now n cfg st newCallerPath replace =
     (let newNormalized = NormalizePath os newCallerPath in
      if replace = ReplaceNo \<and> DestinationExistsInMerged os (cu_disk st) cfg newNormalized
      then Finished (st, STATUS_OBJECT_NAME_COLLISION)
      else EnsureUpperParent os io now n cfg st newNormalized)"

abbreviation step_result :: "ntstatus \<Rightarrow> bool \<Rightarrow> RenameStepResult" where
  "step_result status occupied \<equiv> \<lparr>stepStatus = status, newNameOccupied = occupied\<rparr>"

text \<open>The end of \<^verbatim>\<open>RenameLowerDirectory\<close>, after the copy is at the new name: the old upper entry goes aside.\<close>

definition retire_old_entry ::
  "('w, 'h) host \<Rightarrow> ('w, 'h) file_io \<Rightarrow> nat \<Rightarrow> LayerConfig \<Rightarrow> 'w copy_up_state \<Rightarrow> wstring \<Rightarrow> wstring \<Rightarrow> wstring \<Rightarrow> wstring \<Rightarrow>
     ('w copy_up_state \<times> RenameStepResult) option" where
  "retire_old_entry os io n cfg st oldName newName oldUpper newUpper =
     (let (st1, newAside) =
            (case GetFileAttributesW os (cu_disk st) (WithExtendedPrefix os oldUpper) of
               Inl e \<Rightarrow> (st, []) | Inr a \<Rightarrow> GenerateStagingPath io cfg st) in
      case MoveUpperEntryAside os n (cu_disk st1) cfg oldUpper newAside of
        None \<Rightarrow> None
      | Some (w2, aside, asidePath) \<Rightarrow>
          let st2 = set_disk st1 w2;
              st3 = st2\<lparr>cuEngine := WarnRecordLeftBehind (cuEngine st2) aside oldName\<rparr>;
              finish = (\<lambda>s occupied.
                (invalidate_with_ancestors os (invalidate_with_ancestors os s oldName) newName,
                 step_result (moveStatus aside) occupied)) in
          if \<not> NT_SUCCESS (moveStatus aside)
          then
            (case RemoveUpperEntry os n (cu_disk st3) cfg newUpper of
               None \<Rightarrow> None
             | Some (w4, removal) \<Rightarrow>
                 let st4 = set_disk st3 w4 in
                 if NT_SUCCESS removal then Some (finish st4 False)
                 else
                   Some (finish
                     (st4\<lparr>cuEngine := Emit (cuEngine st4) LM_EVT_WARNING (HresultFromNtStatus removal) newName
                            (wlit ''The undo of a failed rename could not remove the copy at the new name'')\<rparr>)
                     True))
          else if asidePath \<noteq> []
          then map_option (\<lambda>(w4, failure). finish (set_disk st3 w4) False) (RemoveStagedEntry os n (cu_disk st3) cfg asidePath)
          else Some (finish st3 False))"

definition RenameLowerDirectory ::
  "('w, 'h) host \<Rightarrow> ('w, 'h) file_io \<Rightarrow> int \<Rightarrow> nat \<Rightarrow> LayerConfig \<Rightarrow> 'w copy_up_state \<Rightarrow> wstring \<Rightarrow> wstring \<Rightarrow> EntryKind \<Rightarrow> ReplaceExisting \<Rightarrow>
     ('w copy_up_state \<times> RenameStepResult) run" where
  "RenameLowerDirectory os io now n cfg st oldPath newPath sourceKind replace =
     (let oldName = NormalizePath os oldPath; newName = NormalizePath os newPath;
          newUpper = GetUpperPathForNewEntry cfg newPath;
          src = ResolveLowerPath os (cu_disk st) cfg oldName in
      if \<not> Found src then Finished (st, step_result STATUS_OBJECT_NAME_NOT_FOUND False)
      else
        and_then (PrepareRenameDestination os io now n cfg st newPath replace)
          (\<lambda>(st1, destinationStatus).
             if \<not> NT_SUCCESS destinationStatus then Finished (st1, step_result destinationStatus False)
             else
               let oldUpper = GetUpperPath os cfg oldName;
                   (st2, containerPath) = GenerateStagingPath io cfg st1 in
               and_then
                 (rounds
                   (if sourceKind = LinkEntry
                    then
                      CloneReparsePointThroughWorkDir os io n (cu_disk st2)
                        \<lparr>sourceEntryPath = absolutePath src, sourceEntryAttributes = attributes src\<rparr> containerPath newUpper NewFromSource cfg
                    else
                      BuildInContainerAndMove os io n (cu_disk st2) cfg containerPath newUpper
                        (\<lambda>w stagedPath. CopyMergedDirectory os io n cfg w src oldName oldUpper stagedPath)))
                 (\<lambda>(w3, status).
                    let st3 = set_disk st2 w3 in
                    if \<not> NT_SUCCESS status then Finished (st3, step_result status False)
                    else rounds (retire_old_entry os io n cfg st3 oldName newName oldUpper newUpper))))"

definition RenameUpperDirectory ::
  "('w, 'h) host \<Rightarrow> ('w, 'h) file_io \<Rightarrow> int \<Rightarrow> nat \<Rightarrow> LayerConfig \<Rightarrow> 'w copy_up_state \<Rightarrow> wstring \<Rightarrow> wstring \<Rightarrow> EntryKind \<Rightarrow> ReplaceExisting \<Rightarrow>
     ('w copy_up_state \<times> ntstatus) run" where
  "RenameUpperDirectory os io now n cfg st oldPath newPath sourceKind replace =
     (let oldName = NormalizePath os oldPath; newName = NormalizePath os newPath;
          newUpper = GetUpperPathForNewEntry cfg newPath in
      and_then (PrepareRenameDestination os io now n cfg st newPath replace)
        (\<lambda>(st1, destinationStatus).
           if \<not> NT_SUCCESS destinationStatus then Finished (st1, destinationStatus)
           else
             let oldUpper = GetUpperPath os cfg oldName;
                 wasOpaque = IsOpaque os (cu_disk st1) cfg oldName;
                 marksSource = (sourceKind \<noteq> LinkEntry \<and> \<not> wasOpaque \<and> Found (ResolveLowerPath os (cu_disk st1) cfg newName));
                 (w2, markStatus) = (if marksSource then SetOpaqueAtPath os cfg (cu_disk st1) oldUpper else (cu_disk st1, STATUS_SUCCESS));
                 st2 = set_disk st1 w2 in
             if \<not> NT_SUCCESS markStatus then Finished (st2, markStatus)
             else
               and_then (rounds (MoveUpperEntry os n (cu_disk st2) cfg oldUpper newUpper replace))
                 (\<lambda>(w3, move).
                    let st3 = set_disk st2 w3;
                        st4 = st3\<lparr>cuEngine := WarnRecordLeftBehind (cuEngine st3) move (if NT_SUCCESS (moveStatus move) then newName else oldName)\<rparr> in
                    if \<not> NT_SUCCESS (moveStatus move)
                    then Finished (if marksSource then invalidate_with_ancestors os st4 oldName else st4, moveStatus move)
                    else
                      Finished (invalidate_with_ancestors os (invalidate_with_ancestors os st4 oldName) newName, STATUS_SUCCESS))))"

section \<open>File renames (FileRename.cpp)\<close>

datatype RenameCopyUp = ShellWhenPossible | FullCopy

datatype FileRenameReplace = FileReplaceNo | AfterAside | InPlace

record MovedFile =
  movedFileStatus :: ntstatus
  movedFileShell :: bool
  movedFileOldPath :: wstring

definition MoveToUpper ::
  "('w, 'h) host \<Rightarrow> ('w, 'h) file_io \<Rightarrow> int \<Rightarrow> nat \<Rightarrow> LayerConfig \<Rightarrow> 'w copy_up_state \<Rightarrow> wstring \<Rightarrow> wstring \<Rightarrow> FileRenameReplace \<Rightarrow> RenameCopyUp \<Rightarrow>
     ('w copy_up_state \<times> MovedFile) run" where
  "MoveToUpper os io now n cfg st oldRelativePath newRelativePath replace copyUpMode =
     (let oldName = NormalizePath os oldRelativePath; newName = NormalizePath os newRelativePath;
          failed = (\<lambda>s status. Finished (s, \<lparr>movedFileStatus = status, movedFileShell = False, movedFileOldPath = []\<rparr>)) in
      and_then (EnsureUpperParent os io now n cfg st newName)
        (\<lambda>(st1, status).
           if \<not> NT_SUCCESS status then failed st1 status
           else
             and_then
               (if ExistsInUpper os (cu_disk st1) cfg oldName then Finished (st1, \<lparr>copyUpStatus = STATUS_SUCCESS, stagedShell = False\<rparr>)
                else if copyUpMode = FullCopy
                then and_then (CopyUpFile os io now n cfg st1 oldName) (\<lambda>(s, copied). Finished (s, \<lparr>copyUpStatus = copied, stagedShell = False\<rparr>))
                else CopyUpFileOrShell os io now n cfg st1 oldName None)
               (\<lambda>(st2, copied).
                  if \<not> NT_SUCCESS (copyUpStatus copied) then failed st2 (copyUpStatus copied)
                  else
                    let oldUpper = GetStoredUpperPath os (cu_disk st2) cfg oldRelativePath;
                        newUpper = GetUpperPathForNewEntry cfg newRelativePath in
                    and_then
                      (rounds
                        (if replace = InPlace then MoveUpperEntryLeavingStuckRecords os n (cu_disk st2) cfg oldUpper newUpper ReplaceYes
                         else MoveUpperEntry os n (cu_disk st2) cfg oldUpper newUpper (if replace = FileReplaceNo then ReplaceNo else ReplaceYes)))
                      (\<lambda>(w3, move).
                         let st3 = set_disk st2 w3;
                             st4 = st3\<lparr>cuEngine := WarnRecordLeftBehind (cuEngine st3) move (if NT_SUCCESS (moveStatus move) then newName else oldName)\<rparr> in
                         Finished (st4, \<lparr>movedFileStatus = moveStatus move, movedFileShell = stagedShell copied, movedFileOldPath = oldUpper\<rparr>)))))"

end
