(* ===== verification/Process_Tracker.thy ===== *)
theory Process_Tracker
  imports Whiteout_Ops
begin

text \<open>
  The process tracker (\<^verbatim>\<open>impl/ProcessTracker.cpp\<close>): who a process is, whether a rule lets it do an
  operation on a path, the log of the accesses in a ring of fixed capacity, and the exports of the log.
  A clock reading is an argument: the steady clock in nanoseconds for the cache of process data, the
  system clock in units of 100 nanoseconds since 1970 for the log. The calls on processes and the rules
  file are the fields of the record \<open>process_calls\<close>. The mutexes are not modelled, each call is one step.
\<close>

section \<open>Data\<close>

datatype OperationType =
    OpCreate | OpOpen | OpRead | OpWrite | OpOverwrite | OpDelete | OpRename | OpGetInfo | OpSetInfo | OpSetSize
  | OpGetSecurity | OpSetSecurity | OpReadDirectory | OpFlush | OpCleanup | OpClose

record ProcessInfo =
  infoPid :: dword
  infoName :: wstring
  infoExePath :: wstring
  infoCommandLine :: wstring
  infoUser :: wstring
  infoElevated :: bool

record AccessLogEntry =
  logPid :: dword
  logProcess :: wstring
  logPath :: wstring
  logOperation :: OperationType
  logTime :: nat
  logAllowed :: bool
  logReason :: wstring

record AccessRule =
  processNamePattern :: wstring
  pathPattern :: wstring
  allowRead :: bool
  allowWrite :: bool
  allowExecute :: bool
  allowDelete :: bool

text \<open>An entry of the cache of process data holds the time at which it expires.\<close>

record ProcessTracker =
  processInfoCache :: "dword \<rightharpoonup> ProcessInfo \<times> int"
  logBuffer :: "AccessLogEntry list"
  logHead :: nat
  logCount :: nat
  logCapacity :: nat
  trackerRules :: "AccessRule list"

definition empty_info :: ProcessInfo where
  "empty_info = \<lparr>infoPid = 0, infoName = [], infoExePath = [], infoCommandLine = [], infoUser = [], infoElevated = False\<rparr>"

definition empty_entry :: AccessLogEntry where
  "empty_entry = \<lparr>logPid = 0, logProcess = [], logPath = [], logOperation = OpOpen, logTime = 0, logAllowed = True, logReason = []\<rparr>"

text \<open>
  A capacity of zero would make \<^verbatim>\<open>AddLogEntry\<close> write outside the buffer. The C interface gives the default
  capacity for zero (\<^verbatim>\<open>abi/AbiCore.cpp\<close>), and the theorems on the log ask for a positive one.
\<close>

definition new_ProcessTracker :: "nat \<Rightarrow> ProcessTracker" where
  "new_ProcessTracker capacity =
     \<lparr>processInfoCache = Map.empty, logBuffer = replicate capacity empty_entry, logHead = 0, logCount = 0,
      logCapacity = capacity, trackerRules = []\<rparr>"

text \<open>
  The calls that read a process. A process and a token are handles of type \<open>'p\<close>, a security identifier
  is of type \<open>'s\<close>. \<open>ReadTextFile\<close> and \<open>json_extract\<close> are the input stream of the rules file and the
  extraction of a JSON value from it.
\<close>

record ('p, 's) process_calls =
  OpenProcess :: "dword \<Rightarrow> dword \<Rightarrow> 'p option"
  QueryFullProcessImageNameW :: "'p \<Rightarrow> wstring option"
  hasNtQueryInformationProcess :: bool
  ProcessBasicInformation :: "'p \<Rightarrow> ntstatus \<times> nat"
  ReadProcessMemory :: "'p \<Rightarrow> nat \<Rightarrow> nat \<Rightarrow> byte list option"
  OpenProcessToken :: "'p \<Rightarrow> 'p option"
  TokenUserSize :: "'p \<Rightarrow> nat"
  TokenUser :: "'p \<Rightarrow> 's option"
  LookupAccountSidW :: "'s \<Rightarrow> (wstring \<times> wstring) option"
  ConvertSidToStringSidW :: "'s \<Rightarrow> wstring option"
  TokenElevation :: "'p \<Rightarrow> dword option"
  ReadTextFile :: "wstring \<Rightarrow> byte list option"
  json_extract :: "byte list \<Rightarrow> json option"

section \<open>Operations and patterns\<close>

definition IsReadOp :: "OperationType \<Rightarrow> bool" where
  "IsReadOp op \<longleftrightarrow> (case op of OpOpen \<Rightarrow> True | OpRead \<Rightarrow> True | OpGetInfo \<Rightarrow> True | OpGetSecurity \<Rightarrow> True | OpReadDirectory \<Rightarrow> True | _ \<Rightarrow> False)"

definition IsWriteOp :: "OperationType \<Rightarrow> bool" where
  "IsWriteOp op \<longleftrightarrow>
     (case op of OpCreate \<Rightarrow> True | OpWrite \<Rightarrow> True | OpOverwrite \<Rightarrow> True | OpSetInfo \<Rightarrow> True | OpSetSize \<Rightarrow> True
      | OpSetSecurity \<Rightarrow> True | OpFlush \<Rightarrow> True | OpRename \<Rightarrow> True | _ \<Rightarrow> False)"

definition IsDeleteOp :: "OperationType \<Rightarrow> bool" where
  "IsDeleteOp op \<longleftrightarrow> op = OpDelete"

definition IsExecuteOp :: "OperationType \<Rightarrow> bool" where
  "IsExecuteOp op \<longleftrightarrow> False"

definition OperationName :: "OperationType \<Rightarrow> wstring" where
  "OperationName op =
     (case op of
        OpCreate \<Rightarrow> wlit ''Create'' | OpOpen \<Rightarrow> wlit ''Open'' | OpRead \<Rightarrow> wlit ''Read'' | OpWrite \<Rightarrow> wlit ''Write''
      | OpOverwrite \<Rightarrow> wlit ''Overwrite'' | OpDelete \<Rightarrow> wlit ''Delete'' | OpRename \<Rightarrow> wlit ''Rename''
      | OpGetInfo \<Rightarrow> wlit ''GetInfo'' | OpSetInfo \<Rightarrow> wlit ''SetInfo'' | OpSetSize \<Rightarrow> wlit ''SetSize''
      | OpGetSecurity \<Rightarrow> wlit ''GetSecurity'' | OpSetSecurity \<Rightarrow> wlit ''SetSecurity''
      | OpReadDirectory \<Rightarrow> wlit ''ReadDirectory'' | OpFlush \<Rightarrow> wlit ''Flush'' | OpCleanup \<Rightarrow> wlit ''Cleanup'' | OpClose \<Rightarrow> wlit ''Close'')"

definition wstar :: wchar where "wstar = 42"

text \<open>\<^verbatim>\<open>text.find(part) != npos\<close>.\<close>

definition wcontains :: "wstring \<Rightarrow> wstring \<Rightarrow> bool" where
  "wcontains t part \<longleftrightarrow> list_ex (\<lambda>i. starts_with (drop i t) part) [0..<Suc (length t)]"

definition WildcardMatch :: "'a win32_text_scheme \<Rightarrow> wstring \<Rightarrow> wstring \<Rightarrow> bool" where
  "WildcardMatch T pattern t =
     (if pattern = [wstar] then True
      else if pattern = [] then t = []
      else
        let lowerPattern = map (CharLowerW T) pattern; lowerText = map (CharLowerW T) t in
        (case wfind lowerPattern wstar 0 of
           None \<Rightarrow> lowerPattern = lowerText
         | Some starPos \<Rightarrow>
             let starAtStart = (starPos = 0); starAtEnd = (starPos = length lowerPattern - 1) in
             if starAtStart \<and> starAtEnd \<and> length lowerPattern = 1 then True
             else if starAtStart \<and> starAtEnd then wcontains lowerText (wsubstr lowerPattern 1 (length lowerPattern - 2))
             else if starAtStart then
               let suff = drop 1 lowerPattern in
               if length lowerText < length suff then False else drop (length lowerText - length suff) lowerText = suff
             else if starAtEnd then
               let pref = take starPos lowerPattern in
               if length lowerText < length pref then False else take (length pref) lowerText = pref
             else False))"

section \<open>The log\<close>

definition AddLogEntry :: "ProcessTracker \<Rightarrow> AccessLogEntry \<Rightarrow> ProcessTracker" where
  "AddLogEntry t e =
     t\<lparr>logBuffer := (logBuffer t)[logHead t := e],
       logHead := (logHead t + 1) mod logCapacity t,
       logCount := (if logCount t < logCapacity t then logCount t + 1 else logCount t)\<rparr>"

definition GetRecentEntries :: "ProcessTracker \<Rightarrow> nat \<Rightarrow> AccessLogEntry list" where
  "GetRecentEntries t count =
     (let actual = min count (logCount t) in
      if actual = 0 then []
      else
        let start = (logHead t + logCapacity t - actual) mod logCapacity t in
        map (\<lambda>i. logBuffer t ! ((start + i) mod logCapacity t)) [0..<actual])"

section \<open>Processes\<close>

definition PROCESS_VM_READ :: dword where "PROCESS_VM_READ = 0x10"
definition PROCESS_QUERY_INFORMATION :: dword where "PROCESS_QUERY_INFORMATION = 0x400"
definition PROCESS_QUERY_LIMITED_INFORMATION :: dword where "PROCESS_QUERY_LIMITED_INFORMATION = 0x1000"

definition le_value :: "byte list \<Rightarrow> nat" where
  "le_value bs = foldr (\<lambda>b acc. unat b + 256 * acc) bs 0"

fun wide_of_bytes :: "byte list \<Rightarrow> wstring" where
  "wide_of_bytes (lo # hi # bs) = of_nat (unat lo + 256 * unat hi) # wide_of_bytes bs"
| "wide_of_bytes bs = []"

definition process_name :: "('p, 's) process_calls \<Rightarrow> 'p \<Rightarrow> wstring \<times> wstring" where
  "process_name pc proc =
     (case QueryFullProcessImageNameW pc proc of
        None \<Rightarrow> (wlit ''<unknown>'', [])
      | Some exePath \<Rightarrow>
          (case wfind_last exePath bslash of Some lastSlash \<Rightarrow> drop (lastSlash + 1) exePath | None \<Rightarrow> exePath, exePath))"

text \<open>
  The command line of a process: the pointer to the process parameters is at offset 0x20 of the process
  environment block, and the counted string of the command line is at offset 0x70 of the parameters, its
  length in its first two bytes and its address in the last eight of sixteen.
\<close>

definition process_command_line :: "('p, 's) process_calls \<Rightarrow> dword \<Rightarrow> wstring" where
  "process_command_line pc pid =
     (if \<not> hasNtQueryInformationProcess pc then []
      else
        (case OpenProcess pc (PROCESS_QUERY_INFORMATION OR PROCESS_VM_READ) pid of
           None \<Rightarrow> []
         | Some procVm \<Rightarrow>
             (case ProcessBasicInformation pc procVm of
                (status, peb) \<Rightarrow>
                  if NT_SUCCESS status \<and> peb \<noteq> 0
                  then
                    (case ReadProcessMemory pc procVm (peb + 0x20) 8 of
                       None \<Rightarrow> []
                     | Some params \<Rightarrow>
                         if le_value params = 0 then []
                         else
                           (case ReadProcessMemory pc procVm (le_value params + 0x70) 16 of
                              None \<Rightarrow> []
                            | Some cmdLineUs \<Rightarrow>
                                let len = le_value (take 2 cmdLineUs); buffer = le_value (drop 8 cmdLineUs) in
                                if buffer = 0 \<or> len = 0 then []
                                else
                                  (case ReadProcessMemory pc procVm buffer len of
                                     None \<Rightarrow> []
                                   | Some bs \<Rightarrow> wide_of_bytes bs)))
                  else [])))"

definition process_token :: "('p, 's) process_calls \<Rightarrow> dword \<Rightarrow> 'p option" where
  "process_token pc pid =
     Option.bind
       (case OpenProcess pc PROCESS_QUERY_INFORMATION pid of
          None \<Rightarrow> OpenProcess pc PROCESS_QUERY_LIMITED_INFORMATION pid
        | Some p \<Rightarrow> Some p)
       (OpenProcessToken pc)"

definition token_user :: "('p, 's) process_calls \<Rightarrow> 'p \<Rightarrow> wstring" where
  "token_user pc token =
     (if TokenUserSize pc token = 0 then []
      else
        (case TokenUser pc token of
           None \<Rightarrow> []
         | Some sid \<Rightarrow>
             (case LookupAccountSidW pc sid of
                Some (name, domain) \<Rightarrow> domain @ [bslash] @ name
              | None \<Rightarrow> (case ConvertSidToStringSidW pc sid of Some s \<Rightarrow> s | None \<Rightarrow> []))))"

definition ResolveProcessUncached :: "('p, 's) process_calls \<Rightarrow> dword \<Rightarrow> ProcessInfo" where
  "ResolveProcessUncached pc pid =
     (let info = empty_info\<lparr>infoPid := pid\<rparr> in
      case OpenProcess pc PROCESS_QUERY_LIMITED_INFORMATION pid of
        None \<Rightarrow> info\<lparr>infoName := wlit ''<unknown>''\<rparr>
      | Some proc \<Rightarrow>
          let (name, exePath) = process_name pc proc;
              info1 = info\<lparr>infoName := name, infoExePath := exePath, infoCommandLine := process_command_line pc pid\<rparr> in
          (case process_token pc pid of
             None \<Rightarrow> info1
           | Some token \<Rightarrow>
               info1\<lparr>infoUser := token_user pc token,
                 infoElevated := (case TokenElevation pc token of None \<Rightarrow> False | Some e \<Rightarrow> e \<noteq> 0)\<rparr>))"

definition kProcessInfoTTL :: int where "kProcessInfoTTL = 30 * 1000000000"

definition ResolveProcess :: "('p, 's) process_calls \<Rightarrow> int \<Rightarrow> ProcessTracker \<Rightarrow> dword \<Rightarrow> ProcessTracker \<times> ProcessInfo" where
  "ResolveProcess pc now t pid =
     (case processInfoCache t pid of
        Some (info, expiresAt) \<Rightarrow>
          if expiresAt > now then (t, info)
          else
            let fresh = ResolveProcessUncached pc pid in
            (t\<lparr>processInfoCache := (processInfoCache t)(pid \<mapsto> (fresh, now + kProcessInfoTTL))\<rparr>, fresh)
      | None \<Rightarrow>
          let fresh = ResolveProcessUncached pc pid in
          (t\<lparr>processInfoCache := (processInfoCache t)(pid \<mapsto> (fresh, now + kProcessInfoTTL))\<rparr>, fresh))"

definition LogAccess ::
  "('p, 's) process_calls \<Rightarrow> int \<Rightarrow> nat \<Rightarrow> ProcessTracker \<Rightarrow> dword \<Rightarrow> wstring \<Rightarrow> OperationType \<Rightarrow> ProcessTracker" where
  "LogAccess pc now clock t pid relativePath op =
     (let (t1, pInfo) = ResolveProcess pc now t pid in
      AddLogEntry t1
        (empty_entry\<lparr>logPid := pid, logProcess := infoName pInfo, logPath := relativePath, logOperation := op, logTime := clock,
           logAllowed := True\<rparr>))"

section \<open>Rules\<close>

text \<open>One element of the rules array; \<open>None\<close> is the exception of a member of another type.\<close>

definition json_rule :: "('w, 'h) host \<Rightarrow> json \<Rightarrow> AccessRule option" where
  "json_rule os j =
     Option.bind (json_value json_string j (blit ''processName'') (blit ''*'')) (\<lambda>pn.
     Option.bind (json_value json_string j (blit ''pathPattern'') (blit ''*'')) (\<lambda>pp.
     Option.bind (json_value json_bool j (blit ''allowRead'') True) (\<lambda>r.
     Option.bind (json_value json_bool j (blit ''allowWrite'') True) (\<lambda>w.
     Option.bind (json_value json_bool j (blit ''allowExecute'') True) (\<lambda>x.
     Option.bind (json_value json_bool j (blit ''allowDelete'') True) (\<lambda>d.
       Some \<lparr>processNamePattern = Utf8ToWide os pn, pathPattern = Utf8ToWide os pp, allowRead = r, allowWrite = w,
             allowExecute = x, allowDelete = d\<rparr>))))))"

text \<open>The loop over the array.\<close>

fun json_rules :: "('w, 'h) host \<Rightarrow> json list \<Rightarrow> AccessRule list option" where
  "json_rules os [] = Some []"
| "json_rules os (j # js) =
     Option.bind (json_rule os j) (\<lambda>r. Option.bind (json_rules os js) (\<lambda>rs. Some (r # rs)))"

text \<open>
  \<open>None\<close> is the exception that a rule of another type throws, which leaves the tracker as it was.
\<close>

definition LoadRules ::
  "('w, 'h) host \<Rightarrow> ('p, 's) process_calls \<Rightarrow> ProcessTracker \<Rightarrow> wstring \<Rightarrow> (ProcessTracker \<times> bool) option" where
  "LoadRules os pc t configPath =
     (case ReadTextFile pc (ForWin32 os configPath) of
        None \<Rightarrow> Some (t, False)
      | Some content \<Rightarrow>
          (case json_extract pc content of
             Some (JObject ms) \<Rightarrow>
               (case map_of ms (blit ''rules'') of
                  Some (JArray js) \<Rightarrow> map_option (\<lambda>newRules. (t\<lparr>trackerRules := newRules\<rparr>, True)) (json_rules os js)
                | _ \<Rightarrow> Some (t, False))
           | _ \<Rightarrow> Some (t, False)))"

definition deny_reason :: "AccessRule \<Rightarrow> wstring" where
  "deny_reason rule = wlit ''Denied by rule: '' @ processNamePattern rule @ wlit '' / '' @ pathPattern rule"

text \<open>The loop over the rules: the decision and the reason of a denial.\<close>

fun evaluate_rules :: "'a win32_text_scheme \<Rightarrow> AccessRule list \<Rightarrow> wstring \<Rightarrow> wstring \<Rightarrow> OperationType \<Rightarrow> bool \<times> wstring" where
  "evaluate_rules T [] name path op = (True, [])"
| "evaluate_rules T (rule # rest) name path op =
     (if \<not> WildcardMatch T (processNamePattern rule) name then evaluate_rules T rest name path op
      else if \<not> WildcardMatch T (pathPattern rule) path then evaluate_rules T rest name path op
      else if IsReadOp op \<and> \<not> allowRead rule then (False, deny_reason rule)
      else if IsWriteOp op \<and> \<not> allowWrite rule then (False, deny_reason rule)
      else if IsDeleteOp op \<and> \<not> allowDelete rule then (False, deny_reason rule)
      else if IsExecuteOp op \<and> \<not> allowExecute rule then (False, deny_reason rule)
      else (True, []))"

definition E_ACCESSDENIED :: "32 word" where "E_ACCESSDENIED = 0x80070005"

text \<open>The result is the tracker, the decision, and the event of a denial; the reason of a denial is never empty.\<close>

definition CheckAccess ::
  "'a win32_text_scheme \<Rightarrow> ('p, 's) process_calls \<Rightarrow> int \<Rightarrow> nat \<Rightarrow> ProcessTracker \<Rightarrow> dword \<Rightarrow> wstring \<Rightarrow> OperationType \<Rightarrow>
     ProcessTracker \<times> bool \<times> lm_event option" where
  "CheckAccess T pc now clock t pid relativePath op =
     (let (t1, pInfo) = ResolveProcess pc now t pid;
          (allow, why) = evaluate_rules T (trackerRules t1) (infoName pInfo) relativePath op;
          t2 = AddLogEntry t1
                 \<lparr>logPid = pid, logProcess = infoName pInfo, logPath = relativePath, logOperation = op, logTime = clock,
                  logAllowed = allow, logReason = why\<rparr> in
      (t2, allow,
       if \<not> allow
       then Some \<lparr>evType = LM_EVT_ACCESS_DENIED, evResult = E_ACCESSDENIED, evPath = relativePath, evMessage = why, evPid = pid\<rparr>
       else None))"

section \<open>Exports\<close>

fun decimal :: "nat \<Rightarrow> byte list" where
  "decimal k = (if k < 10 then [48 + of_nat k] else decimal (k div 10) @ [48 + of_nat (k mod 10)])"

declare decimal.simps [simp del]

text \<open>A number with leading zeros, as \<^verbatim>\<open>put_time\<close> and \<^verbatim>\<open>setw\<close> with the fill \<^verbatim>\<open>0\<close> write it.\<close>

definition padded_decimal :: "nat \<Rightarrow> nat \<Rightarrow> byte list" where
  "padded_decimal width k = replicate (width - length (decimal k)) 48 @ decimal k"

text \<open>\<^verbatim>\<open>gmtime_s\<close>: the year, month and day of a number of days since the start of 1970.\<close>

definition leap_year :: "nat \<Rightarrow> bool" where
  "leap_year y \<longleftrightarrow> 4 dvd y \<and> (\<not> 100 dvd y \<or> 400 dvd y)"

definition year_days :: "nat \<Rightarrow> nat" where
  "year_days y = (if leap_year y then 366 else 365)"

function civil_year :: "nat \<Rightarrow> nat \<Rightarrow> nat \<times> nat" where
  "civil_year y days = (if days < year_days y then (y, days) else civil_year (y + 1) (days - year_days y))"
  by pat_completeness auto
termination by (relation "measure snd") (auto simp: year_days_def)

fun civil_month :: "nat list \<Rightarrow> nat \<Rightarrow> nat \<Rightarrow> nat \<times> nat" where
  "civil_month [] month days = (month, days)"
| "civil_month (len # lens) month days = (if days < len then (month, days) else civil_month lens (month + 1) (days - len))"

definition FormatTimestamp :: "nat \<Rightarrow> byte list" where
  "FormatTimestamp clock =
     (let seconds = clock div 10000000; ms = clock div 10000 mod 1000;
          (year, yday) = civil_year 1970 (seconds div 86400);
          (month, mday) = civil_month [31, if leap_year year then 29 else 28, 31, 30, 31, 30, 31, 31, 30, 31, 30, 31] 1 yday;
          rest = seconds mod 86400 in
      padded_decimal 4 year @ blit ''-'' @ padded_decimal 2 month @ blit ''-'' @ padded_decimal 2 (mday + 1) @ blit ''T'' @
      padded_decimal 2 (rest div 3600) @ blit '':'' @ padded_decimal 2 (rest div 60 mod 60) @ blit '':'' @
      padded_decimal 2 (rest mod 60) @ blit ''.'' @ padded_decimal 3 ms @ blit ''Z'')"

definition formula_lead :: "byte list \<Rightarrow> bool" where
  "formula_lead field = (case field of [] \<Rightarrow> False | f # rest \<Rightarrow> f \<in> {61, 43, 45, 64, 9, 13})"

definition CsvEscape :: "byte list \<Rightarrow> byte list" where
  "CsvEscape field =
     (let needsFormulaEscape = formula_lead field;
          needsQuoting = (needsFormulaEscape \<or> list_ex (\<lambda>c. c \<in> {44, 34, 10, 13}) field) in
      if \<not> needsQuoting then field
      else
        [34] @ (if needsFormulaEscape then [39] else []) @
        concat (map (\<lambda>c. if c = 34 then [34, 34] else [c]) field) @ [34])"

definition csv_row :: "('w, 'h) host \<Rightarrow> AccessLogEntry \<Rightarrow> byte list" where
  "csv_row os e =
     CsvEscape (FormatTimestamp (logTime e)) @ [44] @ decimal (unat (logPid e)) @ [44] @
     CsvEscape (WideToUtf8 os (logProcess e)) @ [44] @ CsvEscape (WideToUtf8 os (logPath e)) @ [44] @
     CsvEscape (WideToUtf8 os (OperationName (logOperation e))) @ [44] @
     (if logAllowed e then blit ''true'' else blit ''false'') @ [44] @ CsvEscape (WideToUtf8 os (logReason e)) @ [10]"

definition ExportLogAsCsv :: "('w, 'h) host \<Rightarrow> ProcessTracker \<Rightarrow> byte list" where
  "ExportLogAsCsv os t =
     blit ''Timestamp,PID,ProcessName,FilePath,Operation,Allowed,Reason'' @ [10] @
     concat (map (csv_row os) (GetRecentEntries t (logCapacity t)))"

text \<open>\<open>dump\<close> is the dump of the JSON library with an indent of two.\<close>

definition json_entry :: "('w, 'h) host \<Rightarrow> AccessLogEntry \<Rightarrow> json" where
  "json_entry os e = JObject
     [(blit ''pid'', JUnsigned (ucast (logPid e))),
      (blit ''processName'', JString (WideToUtf8 os (logProcess e))),
      (blit ''filePath'', JString (WideToUtf8 os (logPath e))),
      (blit ''operation'', JString (WideToUtf8 os (OperationName (logOperation e)))),
      (blit ''timestamp'', JString (FormatTimestamp (logTime e))),
      (blit ''allowed'', JBool (logAllowed e)),
      (blit ''reason'', JString (WideToUtf8 os (logReason e)))]"

definition ExportLogAsJson :: "('w, 'h) host \<Rightarrow> (json \<Rightarrow> byte list) \<Rightarrow> nat \<Rightarrow> ProcessTracker \<Rightarrow> byte list" where
  "ExportLogAsJson os dump clock t =
     (let entries = GetRecentEntries t (logCapacity t) in
      dump (JObject
        [(blit ''exportedAt'', JString (FormatTimestamp clock)),
         (blit ''entryCount'', JUnsigned (of_nat (length entries))),
         (blit ''entries'', JArray (map (json_entry os) entries))]))"

section \<open>The engine's tracker (LayerMount.cpp)\<close>

text \<open>\<^verbatim>\<open>TryMakeProcessTracker\<close>: the outer \<open>None\<close> is the exception of the rules file.\<close>

definition TryMakeProcessTracker ::
  "('w, 'h) host \<Rightarrow> ('p, 's) process_calls \<Rightarrow> LayerConfig \<Rightarrow> ProcessTracker option option" where
  "TryMakeProcessTracker os pc cfg =
     (let tracker = new_ProcessTracker (accessLogCapacity cfg) in
      if processRulesPath cfg = [] then Some (Some tracker)
      else map_option (\<lambda>(t, loaded). if loaded then Some t else None) (LoadRules os pc tracker (processRulesPath cfg)))"

definition HRESULT_INVALID_DATA :: "32 word" where "HRESULT_INVALID_DATA = 0x8007000D"

definition SetProcessTrackerEnabled ::
  "('w, 'h) host \<Rightarrow> ('p, 's) process_calls \<Rightarrow> LayerConfig \<Rightarrow> ProcessTracker option \<Rightarrow> bool \<Rightarrow>
     (ProcessTracker option \<times> 32 word) option" where
  "SetProcessTrackerEnabled os pc cfg tracker on =
     (if \<not> on then Some (None, S_OK)
      else
        (case tracker of
           Some t \<Rightarrow> Some (Some t, S_OK)
         | None \<Rightarrow>
             map_option (\<lambda>candidate. case candidate of None \<Rightarrow> (None, HRESULT_INVALID_DATA) | Some t \<Rightarrow> (Some t, S_OK))
               (TryMakeProcessTracker os pc cfg)))"

section \<open>Patterns: what matches\<close>

lemma suffix_iff_drop: "length s \<le> length t \<Longrightarrow> drop (length t - length s) t = s \<longleftrightarrow> (\<exists>u. t = u @ s)"
  by (metis append_eq_conv_conj append_take_drop_id diff_diff_cancel length_append length_drop add_diff_cancel_right')

lemma prefix_iff_take: "length p \<le> length t \<Longrightarrow> take (length p) t = p \<longleftrightarrow> (\<exists>u. t = p @ u)"
  by (metis append_eq_conv_conj append_take_drop_id)

section \<open>The log: a ring and what it holds\<close>

text \<open>
  The contract of a log of bounded capacity: \<open>holds s h\<close> says that the log \<open>s\<close> stands for the history \<open>h\<close>
  of all entries ever added, the oldest first.
\<close>

locale bounded_log =
  fixes add :: "'s \<Rightarrow> 'e \<Rightarrow> 's"
    and recent :: "'s \<Rightarrow> nat \<Rightarrow> 'e list"
    and capacity :: "'s \<Rightarrow> nat"
    and holds :: "'s \<Rightarrow> 'e list \<Rightarrow> bool"
  assumes add_holds: "holds s h \<Longrightarrow> holds (add s e) (h @ [e])"
    and add_capacity: "capacity (add s e) = capacity s"
    and recent_holds: "holds s h \<Longrightarrow> recent s n = drop (length h - min n (capacity s)) h"
begin

lemma newest: "holds s h \<Longrightarrow> 0 < capacity s \<Longrightarrow> 0 < n \<Longrightarrow> \<exists>es. recent (add s e) n = es @ [e]"
  using recent_holds [OF add_holds, of s h e n] by (auto simp: add_capacity)

lemma adds_hold: "holds s h \<Longrightarrow> holds (foldl add s es) (h @ es)"
proof (induction es arbitrary: s h)
  case (Cons e es)
  from Cons.IH [OF add_holds [OF Cons.prems, of e]] show ?case by simp
qed simp

lemma adds_capacity: "capacity (foldl add s es) = capacity s"
  by (induction es arbitrary: s) (auto simp: add_capacity)

lemma recent_after: "holds s [] \<Longrightarrow> recent (foldl add s es) n = drop (length es - min n (capacity s)) es"
  using recent_holds [OF adds_hold, of s "[]" es n] by (simp add: adds_capacity)

end

text \<open>The ring holds a history: the entry before the head is the newest, and so on backwards.\<close>

definition ring_holds :: "ProcessTracker \<Rightarrow> AccessLogEntry list \<Rightarrow> bool" where
  "ring_holds t h \<longleftrightarrow>
     0 < logCapacity t \<and> length (logBuffer t) = logCapacity t \<and> logHead t < logCapacity t \<and>
     logCount t = min (logCapacity t) (length h) \<and>
     (\<forall>k < logCount t. logBuffer t ! ((logHead t + logCapacity t - 1 - k) mod logCapacity t) = h ! (length h - 1 - k))"

lemma ring_new: "0 < c \<Longrightarrow> ring_holds (new_ProcessTracker c) []"
  by (simp add: ring_holds_def new_ProcessTracker_def)

lemma ring_back:
  assumes "head < c" "Suc k < c" "0 < (c::nat)"
  shows "((head + 1) mod c + c - 1 - Suc k) mod c = (head + c - 1 - k) mod c" "(head + c - 1 - k) mod c \<noteq> head"
proof -
  show "((head + 1) mod c + c - 1 - Suc k) mod c = (head + c - 1 - k) mod c"
  proof (cases "head + 1 = c")
    case True
    then have "(head + c - 1 - k) mod c = ((c - Suc (Suc k)) + c) mod c" using assms by (intro arg_cong [where f = "\<lambda>x. x mod c"]) simp
    then show ?thesis using True assms by (simp only: mod_add_self2) simp
  next
    case False
    then show ?thesis using assms by simp
  qed
  show "(head + c - 1 - k) mod c \<noteq> head"
  proof (cases "k < head")
    case True
    then have "(head + c - 1 - k) mod c = ((head - 1 - k) + c) mod c" using assms by (intro arg_cong [where f = "\<lambda>x. x mod c"]) simp
    then show ?thesis using assms True by (simp only: mod_add_self2) simp
  next
    case False
    then show ?thesis using assms by simp
  qed
qed

lemma ring_add:
  assumes "ring_holds t h"
  shows "ring_holds (AddLogEntry t e) (h @ [e])"
proof -
  let ?c = "logCapacity t" and ?t = "AddLogEntry t e"
  have r: "0 < ?c" "length (logBuffer t) = ?c" "logHead t < ?c" "logCount t = min ?c (length h)"
    "\<And>k. k < logCount t \<Longrightarrow> logBuffer t ! ((logHead t + ?c - 1 - k) mod ?c) = h ! (length h - 1 - k)"
    using assms by (auto simp: ring_holds_def)
  have "logBuffer ?t ! ((logHead ?t + ?c - 1 - k) mod ?c) = (h @ [e]) ! (length (h @ [e]) - 1 - k)" if k: "k < logCount ?t" for k
  proof (cases k)
    case 0
    have "((logHead t + 1) mod ?c + ?c - 1) mod ?c = logHead t"
      using r(1,3) by (cases "logHead t + 1 = ?c") (auto simp: mod_if)
    then show ?thesis using 0 r(2,3) by (simp add: AddLogEntry_def nth_append)
  next
    case (Suc j)
    have j: "Suc j < ?c" "j < logCount t" using k Suc r(4) by (auto simp: AddLogEntry_def split: if_splits)
    then have "j < length h" using r(4) by simp
    then have "(h @ [e]) ! (length (h @ [e]) - 1 - k) = h ! (length h - 1 - j)"
      using Suc by (simp add: nth_append)
    then show ?thesis using r(5) [OF j(2)] ring_back [OF r(3) j(1) r(1)] Suc
      by (simp add: AddLogEntry_def)
  qed
  then show ?thesis using r(1-4) by (auto simp: ring_holds_def AddLogEntry_def)
qed

lemma ring_recent:
  assumes "ring_holds t h"
  shows "GetRecentEntries t n = drop (length h - min n (logCapacity t)) h"
proof -
  let ?c = "logCapacity t" and ?a = "min n (logCount t)"
  have r: "0 < ?c" "logHead t < ?c" "logCount t = min ?c (length h)"
    "\<And>k. k < logCount t \<Longrightarrow> logBuffer t ! ((logHead t + ?c - 1 - k) mod ?c) = h ! (length h - 1 - k)"
    using assms by (auto simp: ring_holds_def)
  have len: "length h - min n ?c = length h - ?a" using r(3) by auto
  show ?thesis
  proof (cases "?a = 0")
    case True
    then show ?thesis using r(1,3) by (auto simp: GetRecentEntries_def)
  next
    case False
    have "logBuffer t ! (((logHead t + ?c - ?a) mod ?c + i) mod ?c) = h ! (length h - ?a + i)" if "i < ?a" for i
    proof -
      have "((logHead t + ?c - ?a) mod ?c + i) mod ?c = (logHead t + ?c - 1 - (?a - 1 - i)) mod ?c"
        using that r(2,3) by (simp add: mod_add_left_eq)
      moreover have "?a - 1 - i < logCount t" "length h - 1 - (?a - 1 - i) = length h - ?a + i" using that r(3) by linarith+
      ultimately show ?thesis using r(4) by metis
    qed
    then have "GetRecentEntries t n = map (\<lambda>i. h ! (length h - ?a + i)) [0..<?a]"
      using False by (simp add: GetRecentEntries_def Let_def)
    also have "\<dots> = drop (length h - ?a) h" using r(3) by (intro nth_equalityI) auto
    finally show ?thesis by (simp add: len)
  qed
qed

interpretation access_log: bounded_log AddLogEntry GetRecentEntries logCapacity ring_holds
proof unfold_locales
  show "logCapacity (AddLogEntry s e) = logCapacity s" for s e by (simp add: AddLogEntry_def)
qed (use ring_add ring_recent in auto)

section \<open>CSV\<close>

text \<open>
  A reader of comma-separated rows: a field in quotes may hold separators, line ends and doubled
  quotes, as in RFC 4180, and a row ends at a line feed, where RFC 4180 asks for a carriage return before it.
  The state is the mode, the field and the row so far, and the rows.
\<close>

datatype csv_mode = FieldStart | Plain | Quoted | AfterQuote

definition end_field :: "byte list \<Rightarrow> byte list list \<Rightarrow> byte list list list \<Rightarrow> csv_mode \<times> byte list \<times> byte list list \<times> byte list list list" where
  "end_field field row rows = (FieldStart, [], row @ [field], rows)"

definition end_row :: "byte list \<Rightarrow> byte list list \<Rightarrow> byte list list list \<Rightarrow> csv_mode \<times> byte list \<times> byte list list \<times> byte list list list" where
  "end_row field row rows = (FieldStart, [], [], rows @ [row @ [field]])"

fun csv_step ::
  "csv_mode \<times> byte list \<times> byte list list \<times> byte list list list \<Rightarrow> byte \<Rightarrow> csv_mode \<times> byte list \<times> byte list list \<times> byte list list list" where
  "csv_step (Quoted, field, row, rows) c = (if c = 34 then (AfterQuote, field, row, rows) else (Quoted, field @ [c], row, rows))"
| "csv_step (mode, field, row, rows) c =
     (if c = 44 then end_field field row rows
      else if c = 10 then end_row field row rows
      else if c = 34 \<and> mode = FieldStart then (Quoted, field, row, rows)
      else if c = 34 \<and> mode = AfterQuote then (Quoted, field @ [34], row, rows)
      else (Plain, field @ [c], row, rows))"

definition csv_rows :: "byte list \<Rightarrow> byte list list list" where
  "csv_rows bs = (case foldl csv_step (FieldStart, [], [], []) bs of (mode, field, row, rows) \<Rightarrow> rows)"

text \<open>
  The values that a spreadsheet takes for a formula, and the value that a reader gets for a field: an apostrophe goes
  before such a value.
\<close>

definition spreadsheet_formula :: "byte list \<Rightarrow> bool" where
  "spreadsheet_formula field \<longleftrightarrow> field \<noteq> [] \<and> (hd field \<in> set (blit ''=+-@'') \<or> hd field = 9 \<or> hd field = 13)"

definition csv_value :: "byte list \<Rightarrow> byte list" where
  "csv_value field = (if spreadsheet_formula field then 39 # field else field)"

lemma formula_lead_iff: "formula_lead field \<longleftrightarrow> spreadsheet_formula field"
  by (cases field) (auto simp: formula_lead_def spreadsheet_formula_def blit_def)

lemma csv_plain:
  "list_all (\<lambda>c. c \<notin> {44, 34, 10}) f \<Longrightarrow> foldl csv_step (Plain, field, row, rows) f = (Plain, field @ f, row, rows)"
  by (induction f arbitrary: field) auto

lemma csv_start:
  "list_all (\<lambda>c. c \<notin> {44, 34, 10}) f \<Longrightarrow>
     foldl csv_step (FieldStart, [], row, rows) f = (if f = [] then FieldStart else Plain, f, row, rows)"
  by (cases f) (auto simp: csv_plain)

lemma csv_quoted:
  "foldl csv_step (Quoted, field, row, rows) (concat (map (\<lambda>c. if c = 34 then [34, 34] else [c]) f)) = (Quoted, field @ f, row, rows)"
  by (induction f arbitrary: field) auto

lemma csv_escaped:
  "\<exists>mode. mode \<noteq> Quoted \<and> foldl csv_step (FieldStart, [], row, rows) (CsvEscape f) = (mode, csv_value f, row, rows)"
proof (cases "formula_lead f \<or> list_ex (\<lambda>c. c \<in> {44, 34, 10, 13}) f")
  case True
  then have "CsvEscape f = [34] @ (if formula_lead f then [39] else []) @ concat (map (\<lambda>c. if c = 34 then [34, 34] else [c]) f) @ [34]"
    by (simp only: CsvEscape_def Let_def) simp
  then have "foldl csv_step (FieldStart, [], row, rows) (CsvEscape f) = (AfterQuote, csv_value f, row, rows)"
    by (simp add: csv_value_def formula_lead_iff csv_quoted)
  then show ?thesis by blast
next
  case False
  then have "list_all (\<lambda>c. c \<notin> {44, 34, 10}) f" by (auto simp: list_all_iff list_ex_iff)
  then have "foldl csv_step (FieldStart, [], row, rows) (CsvEscape f) = (if f = [] then FieldStart else Plain, csv_value f, row, rows)"
    using False by (simp add: CsvEscape_def csv_value_def formula_lead_iff csv_start)
  then show ?thesis by auto
qed

text \<open>A field and the byte after it.\<close>

lemma csv_field:
  "foldl csv_step (FieldStart, [], row, rows) (CsvEscape f @ 44 # rest) = foldl csv_step (FieldStart, [], row @ [csv_value f], rows) rest"
  "foldl csv_step (FieldStart, [], row, rows) (CsvEscape f @ 10 # rest) = foldl csv_step (FieldStart, [], [], rows @ [row @ [csv_value f]]) rest"
proof -
  obtain mode where m: "mode \<noteq> Quoted" "foldl csv_step (FieldStart, [], row, rows) (CsvEscape f) = (mode, csv_value f, row, rows)"
    using csv_escaped by blast
  then show "foldl csv_step (FieldStart, [], row, rows) (CsvEscape f @ 44 # rest) = foldl csv_step (FieldStart, [], row @ [csv_value f], rows) rest"
    "foldl csv_step (FieldStart, [], row, rows) (CsvEscape f @ 10 # rest) = foldl csv_step (FieldStart, [], [], rows @ [row @ [csv_value f]]) rest"
    by (cases mode; simp add: end_field_def end_row_def)+
qed

lemma csv_bare:
  "list_all (\<lambda>c. c \<notin> {44, 34, 10}) f \<Longrightarrow>
     foldl csv_step (FieldStart, [], row, rows) (f @ 44 # rest) = foldl csv_step (FieldStart, [], row @ [f], rows) rest"
  by (simp add: csv_start end_field_def)

lemma decimal_digits: "c \<in> set (decimal k) \<Longrightarrow> 48 \<le> c \<and> c \<le> 57"
proof (induction k rule: decimal.induct)
  case (1 k)
  have digit: "48 \<le> (48 + of_nat d :: byte) \<and> (48 + of_nat d :: byte) \<le> 57" if "d < 10" for d
    using that by (simp add: word_le_nat_alt unat_word_ariths unat_of_nat)
  show ?case using 1 digit [of k] digit [of "k mod 10"] by (auto simp: decimal.simps [of k] split: if_splits)
qed

lemma decimal_plain: "list_all (\<lambda>c. c \<notin> {44, 34, 10}) (decimal k)"
  using decimal_digits [of _ k] by (force simp: list_all_iff)

text \<open>The fields of the row of an entry, as a reader sees them.\<close>

definition csv_fields :: "('w, 'h) host \<Rightarrow> AccessLogEntry \<Rightarrow> byte list list" where
  "csv_fields os e =
     [csv_value (FormatTimestamp (logTime e)), decimal (unat (logPid e)), csv_value (WideToUtf8 os (logProcess e)),
      csv_value (WideToUtf8 os (logPath e)), csv_value (WideToUtf8 os (OperationName (logOperation e))),
      if logAllowed e then blit ''true'' else blit ''false'', csv_value (WideToUtf8 os (logReason e))]"

lemma csv_row_read:
  "foldl csv_step (FieldStart, [], [], rows) (csv_row os e @ rest) = foldl csv_step (FieldStart, [], [], rows @ [csv_fields os e]) rest"
proof -
  have "list_all (\<lambda>c. c \<notin> {44, 34, 10}) (if logAllowed e then blit ''true'' else blit ''false'')" by (simp add: blit_def)
  then show ?thesis
    unfolding csv_row_def csv_fields_def append_assoc append_Cons append_Nil by (simp only: csv_field csv_bare decimal_plain) simp
qed

lemma csv_rows_read:
  "foldl csv_step (FieldStart, [], [], rows) (concat (map (csv_row os) es)) = (FieldStart, [], [], rows @ map (csv_fields os) es)"
  by (induction es arbitrary: rows) (simp_all add: csv_row_read del: foldl_append)

section \<open>Properties\<close>

lemma wfind_star_first: "wfind xs c 0 = Some i \<Longrightarrow> i < length xs \<and> xs ! i = c \<and> c \<notin> set (take i xs)"
  by (auto simp: wfind_def dest: index_of_SomeD split: option.splits)

text \<open>What a pattern matches, by the place of its first star.\<close>

lemma WildcardMatch_by_star:
  fixes T :: "'a win32_text_scheme" and pattern t :: wstring
  defines "p \<equiv> map (CharLowerW T) pattern" and "x \<equiv> map (CharLowerW T) t"
  shows "WildcardMatch T pattern t \<longleftrightarrow>
    pattern = [wstar] \<or> p = [wstar] \<or> wstar \<notin> set p \<and> p = x \<or>
    (\<exists>s u. p = wstar # s \<and> s \<noteq> [] \<and> x = u @ s) \<or> (\<exists>s u. p = s @ [wstar] \<and> s \<noteq> [] \<and> wstar \<notin> set s \<and> x = s @ u)"
proof (cases "pattern = [wstar] \<or> pattern = []")
  case True
  then show ?thesis by (auto simp: WildcardMatch_def p_def x_def)
next
  case False
  show ?thesis
  proof (cases "wfind p wstar 0")
    case None
    then have no: "wstar \<notin> set p" by (simp add: wfind_None_iff)
    then have "p \<noteq> wstar # s" "p \<noteq> s @ [wstar]" for s by (metis list.set_intros(1), metis in_set_conv_decomp)
    then show ?thesis using False None no by (auto simp: WildcardMatch_def p_def [symmetric] x_def [symmetric])
  next
    case (Some i)
    note i = wfind_star_first [OF Some]
    have in_p: "wstar \<in> set p" using i by (metis nth_mem)
    consider (only) "i = 0" "length p = 1" | (front) "i = 0" "1 < length p" | (rear) "0 < i" "i = length p - 1"
      | (inner) "0 < i" "i < length p - 1" using i by linarith
    then show ?thesis
    proof cases
      case only
      then have "p = [wstar]" using i by (cases p) auto
      then show ?thesis using False Some only by (simp add: WildcardMatch_def p_def [symmetric] x_def [symmetric])
    next
      case front
      then obtain s where s: "p = wstar # s" "s \<noteq> []" using i by (cases p) auto
      have "WildcardMatch T pattern t \<longleftrightarrow> length s \<le> length x \<and> drop (length x - length s) x = s"
        using False Some front s by (auto simp: WildcardMatch_def p_def [symmetric] x_def [symmetric] Let_def)
      then have "WildcardMatch T pattern t \<longleftrightarrow> (\<exists>u. x = u @ s)" using suffix_iff_drop [of s x] by (metis length_append le_add2)
      moreover have "p \<noteq> q @ [wstar]" if "q \<noteq> []" "wstar \<notin> set q" for q using that s(1) by (cases q) auto
      ultimately show ?thesis using s in_p False by auto
    next
      case rear
      have "drop (Suc i) p = []" using rear(2) i by simp
      then have split: "p = take i p @ [wstar]" using i id_take_nth_drop [of i p] by simp
      have parts: "wstar \<notin> set (take i p)" "length (take i p) = i" "take i p \<noteq> []" using i rear(1) by auto
      obtain s where s: "p = s @ [wstar]" "wstar \<notin> set s" "length s = i" "s \<noteq> []" by (rule that [OF split parts])
      have "WildcardMatch T pattern t \<longleftrightarrow> length s \<le> length x \<and> take (length s) x = s"
        using False Some [folded s(3), unfolded s(1)] s(4) by (simp add: WildcardMatch_def p_def [symmetric] x_def [symmetric] Let_def s(1))
      then have "WildcardMatch T pattern t \<longleftrightarrow> (\<exists>u. x = s @ u)" using prefix_iff_take [of s x] by (metis length_append le_add1)
      moreover have "p \<noteq> wstar # q" for q using s(1,2,4) by (cases s) auto
      ultimately show ?thesis using s in_p False by auto
    next
      case inner
      have "p \<noteq> s @ [wstar]" if "wstar \<notin> set s" for s
      proof
        assume p: "p = s @ [wstar]"
        have "i = length s" using that i inner by (metis p butlast_snoc length_butlast nth_butlast nth_mem)
        then show False using p inner by simp
      qed
      moreover have "p \<noteq> wstar # s" for s using i inner by (metis nth_Cons_0 take_Suc_Cons Suc_pred list.set_intros(1))
      ultimately show ?thesis using False Some inner in_p by (auto simp: WildcardMatch_def p_def [symmetric] x_def [symmetric] Let_def)
    qed
  qed
qed

text \<open>
  C15: the patterns of the rules. A pattern matches everything when it is a star, and otherwise, without
  regard to case, the text that it spells, or every text with its tail after a star at the start, or
  every text with its part before a star at the end when that is its first star. No other pattern
  matches: the branch for a star at both ends is never reached, because the first star is compared with
  the last position, and such a pattern matches only a text that ends in a star itself.
\<close>

theorem WildcardMatch_iff:
  "(WildcardMatch T pattern t \<longleftrightarrow>
      (let p = map (CharLowerW T) pattern; x = map (CharLowerW T) t in
       pattern = [wstar] \<or> p = [wstar] \<or> wstar \<notin> set p \<and> p = x \<or>
       (\<exists>s u. p = wstar # s \<and> s \<noteq> [] \<and> x = u @ s) \<or>
       (\<exists>s u. p = s @ [wstar] \<and> s \<noteq> [] \<and> wstar \<notin> set s \<and> x = s @ u))) \<and>
   (map (CharLowerW T) pattern = wstar # m @ [wstar] \<longrightarrow>
      (WildcardMatch T pattern t \<longleftrightarrow> (\<exists>u. map (CharLowerW T) t = u @ m @ [wstar])))"
  by (auto simp: WildcardMatch_by_star Let_def Cons_eq_append_conv append_eq_Cons_conv)

theorem WildcardMatch_iff_witness:
  "map (CharLowerW mem_host) (wlit ''*key*'') = wstar # wlit ''key'' @ [wstar] \<and>
   \<not> WildcardMatch mem_host (wlit ''*key*'') (wlit ''a.key.b'') \<and> WildcardMatch mem_host (wlit ''*key'') (wlit ''a.KEY'')"
proof -
  have p: "map (CharLowerW mem_host) (wlit ''*key*'') = wstar # wlit ''key'' @ [wstar]" by code_simp
  have "\<not> WildcardMatch mem_host (wlit ''*key*'') (wlit ''a.key.b'')"
    using conjunct2 [OF WildcardMatch_iff, THEN mp, OF p, of "wlit ''a.key.b''"]
    by (auto simp: append_eq_Cons_conv wstar_def mem_host_def ascii_lower_def)
  moreover have "WildcardMatch mem_host (wlit ''*key'') (wlit ''a.KEY'')" by code_simp
  ultimately show ?thesis using p by blast
qed

text \<open>What a rule permits.\<close>

definition rule_permits :: "AccessRule \<Rightarrow> OperationType \<Rightarrow> bool" where
  "rule_permits rule op \<longleftrightarrow>
     (IsReadOp op \<longrightarrow> allowRead rule) \<and> (IsWriteOp op \<longrightarrow> allowWrite rule) \<and> (IsDeleteOp op \<longrightarrow> allowDelete rule)"

lemma evaluate_rules_first:
  "evaluate_rules T rs name path op =
     (case find (\<lambda>r. WildcardMatch T (processNamePattern r) name \<and> WildcardMatch T (pathPattern r) path) rs of
        None \<Rightarrow> (True, [])
      | Some r \<Rightarrow> if rule_permits r op then (True, []) else (False, deny_reason r))"
  by (induction rs) (auto simp: rule_permits_def IsExecuteOp_def)

lemma ResolveProcess_rules [simp]: "trackerRules (fst (ResolveProcess pc now t pid)) = trackerRules t"
  by (auto simp: ResolveProcess_def Let_def split: option.splits)

lemma ResolveProcess_ring: "ring_holds t h \<Longrightarrow> ring_holds (fst (ResolveProcess pc now t pid)) h"
  by (auto simp: ResolveProcess_def ring_holds_def Let_def split: option.splits)

lemma ResolveProcess_capacity [simp]: "logCapacity (fst (ResolveProcess pc now t pid)) = logCapacity t"
  by (auto simp: ResolveProcess_def Let_def split: option.splits)

text \<open>
  C13: the first rule that matches the process and the path decides an access check, and an access that
  no rule matches is allowed. Each check adds one entry with the decision to the log, keeps the rules,
  and emits an event for the process exactly when it denies the access.
\<close>

theorem CheckAccess_first_rule:
  assumes "ring_holds t h"
  shows "let name = infoName (snd (ResolveProcess pc now t pid));
             allow = (case find (\<lambda>r. WildcardMatch T (processNamePattern r) name \<and> WildcardMatch T (pathPattern r) path) (trackerRules t) of
                        None \<Rightarrow> True | Some r \<Rightarrow> rule_permits r op) in
    \<exists>t' event entry. CheckAccess T pc now clock t pid path op = (t', allow, event) \<and> trackerRules t' = trackerRules t \<and>
      ring_holds t' (h @ [entry]) \<and> logPid entry = pid \<and> logProcess entry = name \<and> logPath entry = path \<and>
      logOperation entry = op \<and> logTime entry = clock \<and> logAllowed entry = allow \<and>
      (case event of None \<Rightarrow> allow
       | Some ev \<Rightarrow> \<not> allow \<and> evType ev = LM_EVT_ACCESS_DENIED \<and> evPid ev = pid \<and> evPath ev = path)"
proof -
  obtain t1 info where r: "ResolveProcess pc now t pid = (t1, info)" by fastforce
  obtain allow why where e: "evaluate_rules T (trackerRules t) (infoName info) path op = (allow, why)" by fastforce
  let ?entry = "\<lparr>logPid = pid, logProcess = infoName info, logPath = path, logOperation = op, logTime = clock,
    logAllowed = allow, logReason = why\<rparr>"
  have t1: "trackerRules t1 = trackerRules t" using ResolveProcess_rules [of pc now t pid] r by simp
  have "ring_holds (AddLogEntry t1 ?entry) (h @ [?entry])"
    using access_log.add_holds [OF ResolveProcess_ring [OF assms], of pc now pid ?entry] r by simp
  moreover have "allow = (case find (\<lambda>r. WildcardMatch T (processNamePattern r) (infoName info) \<and> WildcardMatch T (pathPattern r) path)
      (trackerRules t) of None \<Rightarrow> True | Some r \<Rightarrow> rule_permits r op)"
    using e by (auto simp: evaluate_rules_first split: option.splits if_splits)
  ultimately show ?thesis
    using r e t1 by (auto simp: CheckAccess_def Let_def AddLogEntry_def intro!: exI [of _ ?entry])
qed

definition sample_calls :: "(unit, unit) process_calls" where
  "sample_calls =
     \<lparr>OpenProcess = (\<lambda>a p. Some ()), QueryFullProcessImageNameW = (\<lambda>p. Some (wlit ''c:'' @ [bslash] @ wlit ''app.exe'')),
      hasNtQueryInformationProcess = False, ProcessBasicInformation = (\<lambda>p. (0, 0)), ReadProcessMemory = (\<lambda>p a n. None),
      OpenProcessToken = (\<lambda>p. None), TokenUserSize = (\<lambda>p. 0), TokenUser = (\<lambda>p. None), LookupAccountSidW = (\<lambda>s. None),
      ConvertSidToStringSidW = (\<lambda>s. None), TokenElevation = (\<lambda>p. None), ReadTextFile = (\<lambda>p. None), json_extract = (\<lambda>b. None)\<rparr>"

definition sample_tracker :: ProcessTracker where
  "sample_tracker = (new_ProcessTracker 2)\<lparr>trackerRules :=
     [\<lparr>processNamePattern = wlit ''app*'', pathPattern = wlit ''*.key'', allowRead = True, allowWrite = False,
       allowExecute = True, allowDelete = True\<rparr>]\<rparr>"

lemma sample_ring: "ring_holds sample_tracker []"
  using ring_new [of 2] by (simp add: sample_tracker_def ring_holds_def)

theorem CheckAccess_first_rule_witness:
  "\<exists>t' event. CheckAccess mem_host sample_calls 0 0 sample_tracker 7 (wlit ''a.key'') OpWrite = (t', False, event) \<and> event \<noteq> None"
proof -
  have name: "infoName (snd (ResolveProcess sample_calls 0 sample_tracker 7)) = wlit ''app.exe''" by code_simp
  have rule: "(case find (\<lambda>r. WildcardMatch mem_host (processNamePattern r) (wlit ''app.exe'') \<and>
      WildcardMatch mem_host (pathPattern r) (wlit ''a.key'')) (trackerRules sample_tracker) of
      None \<Rightarrow> True | Some r \<Rightarrow> rule_permits r OpWrite) = False" by code_simp
  show ?thesis
    using CheckAccess_first_rule [OF sample_ring, where pc = sample_calls and now = 0 and pid = 7 and T = mem_host and path = "wlit ''a.key''" and op = OpWrite and clock = 0]
    unfolding name Let_def rule by (auto split: option.splits)
qed

text \<open>A run of checks and log calls, each with its clock readings, and the decisions.\<close>

datatype tracker_call = Check dword wstring OperationType | Log dword wstring OperationType

fun tracker_run ::
  "'a win32_text_scheme \<Rightarrow> ('p, 's) process_calls \<Rightarrow> ProcessTracker \<Rightarrow> (int \<times> nat \<times> tracker_call) list \<Rightarrow> ProcessTracker \<times> bool list" where
  "tracker_run T pc t [] = (t, [])"
| "tracker_run T pc t ((now, clock, Check pid path op) # calls) =
     (let (t1, allow, event) = CheckAccess T pc now clock t pid path op; (t2, allows) = tracker_run T pc t1 calls in (t2, allow # allows))"
| "tracker_run T pc t ((now, clock, Log pid path op) # calls) =
     (let (t2, allows) = tracker_run T pc (LogAccess pc now clock t pid path op) calls in (t2, True # allows))"

fun call_key :: "int \<times> nat \<times> tracker_call \<Rightarrow> nat \<times> dword \<times> wstring \<times> OperationType" where
  "call_key (now, clock, Check pid path op) = (clock, pid, path, op)"
| "call_key (now, clock, Log pid path op) = (clock, pid, path, op)"

definition entry_key :: "AccessLogEntry \<Rightarrow> nat \<times> dword \<times> wstring \<times> OperationType" where
  "entry_key e = (logTime e, logPid e, logPath e, logOperation e)"

lemma LogAccess_ring:
  assumes "ring_holds t h"
  shows "\<exists>e. ring_holds (LogAccess pc now clock t pid path op) (h @ [e]) \<and> entry_key e = (clock, pid, path, op) \<and> logAllowed e"
proof -
  obtain t1 info where r: "ResolveProcess pc now t pid = (t1, info)" by fastforce
  have "ring_holds t1 h" using ResolveProcess_ring [OF assms, of pc now pid] r by simp
  then show ?thesis using r by (auto simp: LogAccess_def entry_key_def intro!: exI access_log.add_holds)
qed

lemma CheckAccess_ring:
  assumes "ring_holds t h" "CheckAccess T pc now clock t pid path op = (t', allow, event)"
  shows "\<exists>e. ring_holds t' (h @ [e]) \<and> entry_key e = (clock, pid, path, op) \<and> logAllowed e = allow"
  using assms ResolveProcess_ring [OF assms(1), of pc now pid]
  by (auto simp: CheckAccess_def entry_key_def Let_def intro!: exI access_log.add_holds split: prod.splits)

lemma tracker_run_ring:
  "ring_holds t h \<Longrightarrow> tracker_run T pc t calls = (t', allows) \<Longrightarrow>
     \<exists>es. ring_holds t' (h @ es) \<and> map entry_key es = map call_key calls \<and> map logAllowed es = allows"
proof (induction T pc t calls arbitrary: h t' allows rule: tracker_run.induct)
  case (2 T pc t now clock pid path op calls)
  obtain t1 allow event where c: "CheckAccess T pc now clock t pid path op = (t1, allow, event)" by (metis prod_cases3)
  obtain e where e: "ring_holds t1 (h @ [e])" "entry_key e = (clock, pid, path, op)" "logAllowed e = allow"
    using CheckAccess_ring [OF 2(2) c] by blast
  obtain rest where rest: "tracker_run T pc t1 calls = (t', rest)" "allows = allow # rest" using 2(3) c by (auto split: prod.splits)
  obtain es where "ring_holds t' ((h @ [e]) @ es)" "map entry_key es = map call_key calls" "map logAllowed es = rest"
    using 2(1) [OF c [symmetric] refl refl e(1) rest(1)] by blast
  then show ?case using e rest(2) by (intro exI [of _ "e # es"]) simp
next
  case (3 T pc t now clock pid path op calls)
  obtain e where e: "ring_holds (LogAccess pc now clock t pid path op) (h @ [e])" "entry_key e = (clock, pid, path, op)" "logAllowed e"
    using LogAccess_ring [OF 3(2)] by blast
  obtain rest where rest: "tracker_run T pc (LogAccess pc now clock t pid path op) calls = (t', rest)" "allows = True # rest"
    using 3(3) by (auto split: prod.splits)
  obtain es where "ring_holds t' ((h @ [e]) @ es)" "map entry_key es = map call_key calls" "map logAllowed es = rest"
    using 3(1) [OF e(1) rest(1)] by blast
  then show ?case using e rest(2) by (intro exI [of _ "e # es"]) simp
qed auto

text \<open>
  C14: the access log is a ring, and it refines the plain history of the calls: after any run of checks
  and log calls on a new tracker, the log gives the most recent entries in the order of the calls, one
  for each call with its time, process, path, operation and decision, as many as were asked for, up to
  the capacity.
\<close>

theorem access_log_keeps_last:
  assumes "0 < capacity" "tracker_run T pc (new_ProcessTracker capacity) calls = (t, allows)"
  shows "\<exists>es. map entry_key es = map call_key calls \<and> map logAllowed es = allows \<and>
    (\<forall>n. GetRecentEntries t n = drop (length es - min n (logCapacity t)) es)"
  using tracker_run_ring [OF ring_new [OF assms(1)] assms(2)] access_log.recent_holds [of t] by auto

theorem access_log_keeps_last_witness:
  "\<exists>t allows es. tracker_run mem_host sample_calls (new_ProcessTracker 2)
       [(0, 1, Check 7 (wlit ''a'') OpRead), (0, 2, Log 7 (wlit ''b'') OpClose), (0, 3, Check 7 (wlit ''c'') OpWrite)] = (t, allows) \<and>
     map entry_key es = [(1, 7, wlit ''a'', OpRead), (2, 7, wlit ''b'', OpClose), (3, 7, wlit ''c'', OpWrite)] \<and>
     GetRecentEntries t 1 = drop (length es - min 1 (logCapacity t)) es"
proof -
  let ?calls = "[(0, 1, Check 7 (wlit ''a'') OpRead), (0, 2, Log 7 (wlit ''b'') OpClose), (0, 3, Check 7 (wlit ''c'') OpWrite)]"
  obtain t allows where r: "tracker_run mem_host sample_calls (new_ProcessTracker 2) ?calls = (t, allows)" by fastforce
  have "\<exists>es. map entry_key es = map call_key ?calls \<and> map logAllowed es = allows \<and>
      (\<forall>n. GetRecentEntries t n = drop (length es - min n (logCapacity t)) es)"
    by (rule access_log_keeps_last [OF _ r]) simp
  then obtain es where es: "map entry_key es = map call_key ?calls" "\<forall>n. GetRecentEntries t n = drop (length es - min n (logCapacity t)) es"
    by (elim exE conjE)
  show ?thesis using r es(1) spec [OF es(2), of 1] by (intro exI [of _ t] exI [of _ allows] exI [of _ es]) simp
qed

lemma csv_value_safe: "\<not> spreadsheet_formula (csv_value f)"
  by (simp add: csv_value_def spreadsheet_formula_def blit_def)

lemma decimal_safe: "\<not> spreadsheet_formula (decimal k)"
proof (cases "decimal k")
  case (Cons c cs)
  then have "48 \<le> c \<and> c \<le> 57" using decimal_digits [of c k] by simp
  then show ?thesis using Cons by (auto simp: spreadsheet_formula_def blit_def)
qed (simp add: spreadsheet_formula_def blit_def)

text \<open>
  A reader of comma-separated rows that takes a line feed for the end of a row gets from the exported text exactly the header and one row for each entry of
  the log, with every field as it was logged, whatever separators, quotes and line ends the names of
  processes and paths hold; and no field that it gets starts with a character that a spreadsheet takes
  for the start of a formula, an apostrophe going before such a value.
\<close>

theorem ExportLogAsCsv_roundtrip:
  "csv_rows (ExportLogAsCsv os t) =
     map blit [''Timestamp'', ''PID'', ''ProcessName'', ''FilePath'', ''Operation'', ''Allowed'', ''Reason''] #
     map (csv_fields os) (GetRecentEntries t (logCapacity t)) \<and>
   list_all (list_all (\<lambda>field. \<not> spreadsheet_formula field)) (csv_rows (ExportLogAsCsv os t))"
proof -
  let ?header = "map blit [''Timestamp'', ''PID'', ''ProcessName'', ''FilePath'', ''Operation'', ''Allowed'', ''Reason'']"
  define top where "top = blit ''Timestamp,PID,ProcessName,FilePath,Operation,Allowed,Reason'' @ [10]"
  have header: "foldl csv_step (FieldStart, [], [], []) top = (FieldStart, [], [], [?header])" unfolding top_def by code_simp
  have "ExportLogAsCsv os t = top @ concat (map (csv_row os) (GetRecentEntries t (logCapacity t)))"
    by (simp add: ExportLogAsCsv_def top_def)
  then have rows: "csv_rows (ExportLogAsCsv os t) = ?header # map (csv_fields os) (GetRecentEntries t (logCapacity t))"
    by (simp add: csv_rows_def header csv_rows_read)
  moreover have "list_all (\<lambda>field. \<not> spreadsheet_formula field) ?header" by code_simp
  moreover have "list_all (\<lambda>field. \<not> spreadsheet_formula field) (csv_fields os e)" for e
    by (simp add: csv_fields_def csv_value_safe decimal_safe) (simp add: spreadsheet_formula_def blit_def)
  ultimately show ?thesis by (simp add: rows list_all_iff)
qed

end
