(* ===== verification/View_Agreement.thy ===== *)
theory View_Agreement
  imports Directory_Merge
begin

text \<open>
  The two readers of the merged view give one view: what \<open>MergeDirectoryAcrossLayers\<close> lists for a name
  in a directory and what \<open>ResolvePath\<close> finds at the path of that name. The first section states what
  the file system promises of an enumeration and of its case tables; the second relates one layer's
  scan to the probes of the resolver; the third the searches through the layers.
\<close>

section \<open>Enumerations and probes\<close>

text \<open>
  A case table that folds no character but \<open>.\<close>, \<open>w\<close>, \<open>W\<close>, \<open>h\<close> and \<open>H\<close> to one of the marker prefix, in
  either of its directions.
\<close>

definition marker_table_ok :: "'a win32_text_scheme \<Rightarrow> bool" where
  "marker_table_ok T \<longleftrightarrow>
     (\<forall>x \<in> set kWhiteoutPrefix. CharLowerW T x = x \<and>
        (\<forall>c. OrdinalUpperW T c = OrdinalUpperW T x \<longleftrightarrow> CharLowerW T c = x))"

text \<open>
  An enumeration of the directory \<open>ss\<close> of the layer lists exactly the names that an attribute read
  finds there, up to case and with the same attributes; where there is no directory it fails with
  an error that says so, and no attribute read below succeeds.
\<close>

definition listing_complete :: "('w, 'h) host \<Rightarrow> 'w \<Rightarrow> wstring \<Rightarrow> wstring list \<Rightarrow> bool" where
  "listing_complete os w L ss \<longleftrightarrow>
     (case FindFiles os w (WithExtendedPrefix os (JoinLayerScanPath L (join_with bslash ss))) of
        Inl e \<Rightarrow>
          IsDirectoryAbsentError e \<and>
          (\<forall>n a. view_component n \<longrightarrow>
             GetFileAttributesW os w (WithExtendedPrefix os (JoinDirPath L (join_with bslash (ss @ [n])))) \<noteq> Inr a)
      | Inr (found, e) \<Rightarrow>
          e = ERROR_NO_MORE_FILES \<and>
          (\<forall>n a. view_component n \<longrightarrow>
             (GetFileAttributesW os w (WithExtendedPrefix os (JoinDirPath L (join_with bslash (ss @ [n])))) = Inr a \<longleftrightarrow>
              (\<exists>f \<in> set found. CaseFoldedName os (cFileName f) = CaseFoldedName os n \<and> dwFileAttributes f = a))))"

section \<open>One layer\<close>

lemma IsWhiteoutName_folded:
  assumes "marker_table_ok T"
  shows "IsWhiteoutName T name \<longleftrightarrow> starts_with (CaseFoldedName T name) kWhiteoutPrefix"
proof -
  have "map (OrdinalUpperW T) a = map (OrdinalUpperW T) b \<longleftrightarrow> map (CharLowerW T) a = b" if "set b \<subseteq> set kWhiteoutPrefix" for a b
    using that assms
    by (induction b arbitrary: a) (auto simp: marker_table_ok_def map_eq_Cons_conv Cons_eq_map_conv)
  then have "ordinal_eq T (take (length kWhiteoutPrefix) name) kWhiteoutPrefix \<longleftrightarrow>
      take (length kWhiteoutPrefix) (map (CharLowerW T) name) = kWhiteoutPrefix"
    by (simp add: ordinal_eq_def take_map)
  moreover have "starts_with xs p \<longleftrightarrow> length p \<le> length xs \<and> take (length p) xs = p" for p xs :: wstring
    by (auto simp: starts_with_iff) (metis append_take_drop_id)
  ultimately show ?thesis by (simp add: IsWhiteoutName_def CaseFoldedName_def)
qed

lemma folded_prefix:
  "marker_table_ok T \<Longrightarrow> CaseFoldedName T (kWhiteoutPrefix @ n) = kWhiteoutPrefix @ CaseFoldedName T n"
  by (auto simp: CaseFoldedName_def marker_table_ok_def intro!: map_idI)

definition scan_reads :: "'a win32_text_scheme \<Rightarrow> WhiteoutNames \<Rightarrow> wstring \<Rightarrow> find_data \<Rightarrow> LayerDirectoryScan \<Rightarrow> LayerDirectoryScan" where
  "scan_reads T wn d = (case wn of AreMarkers \<Rightarrow> AddMarkerOrEntry T d | AreOrdinary \<Rightarrow> AddOrdinaryEntry T d)"

lemma scan_fold:
  "((k, f) \<in> set (scanEntries (fold (scan_reads T wn d) fs s)) \<longleftrightarrow>
     (k, f) \<in> set (scanEntries s) \<or>
     f \<in> set fs \<and> (wn = AreMarkers \<longrightarrow> \<not> IsWhiteoutName T (cFileName f)) \<and> VisibleEntryKey T d (cFileName f) = Some k) \<and>
   (k \<in> set (scanWhitedOutNames (fold (scan_reads T wn d) fs s)) \<longleftrightarrow>
     k \<in> set (scanWhitedOutNames s) \<or>
     wn = AreMarkers \<and> (\<exists>g \<in> set fs. \<exists>h. WhitedOutNameOfEntry T (cFileName g) = Some h \<and> k = CaseFoldedName T h)) \<and>
   scanStatus (fold (scan_reads T wn d) fs s) = scanStatus s"
proof (induction fs arbitrary: s)
  case (Cons g gs)
  have "IsWhiteoutName T (cFileName g)" if "WhitedOutNameOfEntry T (cFileName g) = Some h" for h
    using that by (auto simp: WhitedOutNameOfEntry_def Let_def split: if_splits)
  then have "((k, f) \<in> set (scanEntries (scan_reads T wn d g s)) \<longleftrightarrow>
       (k, f) \<in> set (scanEntries s) \<or>
       f = g \<and> (wn = AreMarkers \<longrightarrow> \<not> IsWhiteoutName T (cFileName f)) \<and> VisibleEntryKey T d (cFileName f) = Some k) \<and>
     (k \<in> set (scanWhitedOutNames (scan_reads T wn d g s)) \<longleftrightarrow>
       k \<in> set (scanWhitedOutNames s) \<or>
       wn = AreMarkers \<and> (\<exists>h. WhitedOutNameOfEntry T (cFileName g) = Some h \<and> k = CaseFoldedName T h)) \<and>
     scanStatus (scan_reads T wn d g s) = scanStatus s"
    by (auto simp: scan_reads_def AddMarkerOrEntry_def AddOrdinaryEntry_def split: WhiteoutNames.splits option.splits)
  then show ?case using Cons.IH [of "scan_reads T wn d g s"] by auto
qed simp

text \<open>The hypotheses on a name: an ordinary one in folded form, with none of the marker prefix.\<close>

definition plain_key :: "'a win32_text_scheme \<Rightarrow> wstring list \<Rightarrow> wstring \<Rightarrow> bool" where
  "plain_key T ss n \<longleftrightarrow>
     names ss \<and> view_component n \<and> CaseFoldedName T n = n \<and> \<not> IsWhiteoutName T n \<and> (ss = [] \<longrightarrow> n \<noteq> kSidecarDirName)"

lemma plain_key_visible:
  assumes "lower_table_ok T" "marker_table_ok T" "plain_key T ss n" "CaseFoldedName T name = n"
  shows "VisibleEntryKey T (join_with bslash ss) name = Some n" "\<not> IsWhiteoutName T name"
proof -
  have dots: "name \<noteq> [wdot]" "name \<noteq> [wdot, wdot]"
    using assms(1,3,4) lower_table_punct [OF assms(1), of wdot]
    by (auto simp: plain_key_def view_component_def CaseFoldedName_def)
  show nw: "\<not> IsWhiteoutName T name"
    using assms(3,4) IsWhiteoutName_folded [OF assms(2)] by (auto simp: plain_key_def)
  have "bslash \<notin> set n" using assms(3) is_nameD(2) by (auto simp: plain_key_def view_component_def)
  then have "split_on bslash n = [n]" by (rule split_on_no_sep)
  then have "ParentOfFirstMarkerSegment T n = None"
    using assms(3) by (simp add: no_marker_segment_iff plain_key_def)
  moreover have "\<not> IsInsideDirectory n kSidecarDirName"
    using \<open>bslash \<notin> set n\<close> by (auto simp: IsInsideDirectory_def in_set_conv_nth)
  ultimately have "ss = [] \<Longrightarrow> \<not> IsReservedRelativePath T n"
    using assms(3) by (simp add: IsReservedRelativePath_def IsRootSidecarPath_def plain_key_def)
  then show "VisibleEntryKey T (join_with bslash ss) name = Some n"
    using dots assms(3,4) join_with_eq_Nil [of ss bslash] by (auto simp: VisibleEntryKey_def plain_key_def Let_def)
qed

text \<open>The first pair of a key, when the pairs of the key are those of one outcome \<open>r\<close> seen through \<open>g\<close>.\<close>

lemma map_of_outcome:
  assumes "\<forall>a. (\<exists>f. (k, f) \<in> set xs \<and> g f = a) \<longleftrightarrow> r = Inr a"
  shows "case r of Inl e \<Rightarrow> map_of xs k = None | Inr a \<Rightarrow> \<exists>f. map_of xs k = Some f \<and> g f = a"
proof (cases "map_of xs k")
  case None
  then have "\<nexists>f. (k, f) \<in> set xs" by (auto simp: map_of_eq_None_iff image_iff)
  then have "r \<noteq> Inr a" for a using assms by blast
  then show ?thesis using None by (cases r) auto
next
  case (Some f)
  then have "r = Inr (g f)" using assms map_of_SomeD by fast
  then show ?thesis using Some by simp
qed

lemma scan_entry:
  assumes "lower_table_ok os" "marker_table_ok os" "plain_key os ss n" "listing_complete os w L ss"
  shows "scanStatus (ScanLayerDirectory os w L (join_with bslash ss) wn) = STATUS_SUCCESS"
    and "case GetFileAttributesW os w (WithExtendedPrefix os (JoinDirPath L (join_with bslash (ss @ [n])))) of
        Inl e \<Rightarrow> map_of (scanEntries (ScanLayerDirectory os w L (join_with bslash ss) wn)) n = None
      | Inr a \<Rightarrow> \<exists>f. map_of (scanEntries (ScanLayerDirectory os w L (join_with bslash ss) wn)) n = Some f \<and> dwFileAttributes f = a"
proof -
  let ?d = "join_with bslash ss" and ?p = "WithExtendedPrefix os (JoinDirPath L (join_with bslash (ss @ [n])))"
  let ?s = "ScanLayerDirectory os w L ?d wn"
  have vn: "view_component n" and fn: "CaseFoldedName os n = n" using assms(3) by (simp_all add: plain_key_def)
  have "scanStatus ?s = STATUS_SUCCESS \<and>
    (\<forall>a. (\<exists>f. (n, f) \<in> set (scanEntries ?s) \<and> dwFileAttributes f = a) \<longleftrightarrow> GetFileAttributesW os w ?p = Inr a)"
  proof (cases "FindFiles os w (WithExtendedPrefix os (JoinLayerScanPath L ?d))")
    case (Inl e)
    then show ?thesis using assms(4) vn by (auto simp: listing_complete_def ScanLayerDirectory_def Let_def)
  next
    case (Inr b)
    obtain found e where b: "b = (found, e)" by fastforce
    have "?s = fold (scan_reads os wn ?d) found \<lparr>scanStatus = STATUS_SUCCESS, scanWhitedOutNames = [], scanEntries = []\<rparr>"
      using assms(4) Inr b by (simp add: listing_complete_def ScanLayerDirectory_def scan_reads_def Let_def)
    then have "(n, f) \<in> set (scanEntries ?s) \<longleftrightarrow>
        f \<in> set found \<and> (wn = AreMarkers \<longrightarrow> \<not> IsWhiteoutName os (cFileName f)) \<and> VisibleEntryKey os ?d (cFileName f) = Some n"
      and st: "scanStatus ?s = STATUS_SUCCESS" for f by (simp_all add: scan_fold)
    moreover have "VisibleEntryKey os ?d name = Some n \<Longrightarrow> CaseFoldedName os name = n" for name
      by (auto simp: VisibleEntryKey_def Let_def split: if_splits)
    ultimately have "(n, f) \<in> set (scanEntries ?s) \<longleftrightarrow> f \<in> set found \<and> CaseFoldedName os (cFileName f) = n" for f
      using plain_key_visible [OF assms(1-3)] by blast
    moreover have "GetFileAttributesW os w ?p = Inr a \<longleftrightarrow>
        (\<exists>f \<in> set found. CaseFoldedName os (cFileName f) = CaseFoldedName os n \<and> dwFileAttributes f = a)" for a
      using assms(4) Inr b vn by (simp add: listing_complete_def)
    ultimately show ?thesis using st fn by auto
  qed
  note both = this
  show "scanStatus ?s = STATUS_SUCCESS" using both by blast
  show "case GetFileAttributesW os w ?p of
        Inl e \<Rightarrow> map_of (scanEntries ?s) n = None
      | Inr a \<Rightarrow> \<exists>f. map_of (scanEntries ?s) n = Some f \<and> dwFileAttributes f = a"
    by (rule map_of_outcome) (use both in blast)
qed

lemma scan_whiteout:
  assumes "lower_table_ok os" "marker_table_ok os" "plain_key os ss n" "listing_complete os w L ss"
  shows "n \<in> set (scanWhitedOutNames (ScanLayerDirectory os w L (join_with bslash ss) wn)) \<longleftrightarrow>
    wn = AreMarkers \<and> HasWhiteoutUnderWalkedDirectoryInLayer os w (join_with bslash (ss @ [n])) L"
proof -
  let ?d = "join_with bslash ss" and ?m = "kWhiteoutPrefix @ n"
  have vn: "view_component ?m" and fn: "CaseFoldedName os n = n" "\<not> IsWhiteoutName os n"
    and nm: "names (ss @ [n])"
    using assms(3) is_name_prefixed by (auto simp: plain_key_def view_component_def kWhiteoutPrefix_def)
  have hidden: "(\<exists>h. WhitedOutNameOfEntry os name = Some h \<and> n = CaseFoldedName os h) \<longleftrightarrow> CaseFoldedName os name = ?m" for name
  proof
    assume "\<exists>h. WhitedOutNameOfEntry os name = Some h \<and> n = CaseFoldedName os h"
    then have "starts_with (CaseFoldedName os name) kWhiteoutPrefix" "drop 4 (CaseFoldedName os name) = n"
      using IsWhiteoutName_folded [OF assms(2)]
      by (auto simp: WhitedOutNameOfEntry_def GetWhitedOutName_def CaseFoldedName_def drop_map Let_def split: if_splits)
    then show "CaseFoldedName os name = ?m" by (auto simp: starts_with_iff)
  next
    assume m: "CaseFoldedName os name = ?m"
    have "starts_with ?m kWhiteoutPrefix" by (simp add: starts_with_iff)
    then have w: "IsWhiteoutName os name" using m IsWhiteoutName_folded [OF assms(2)] by simp
    have tail: "CaseFoldedName os (drop 4 name) = n"
      using arg_cong [OF m, of "drop 4"] by (simp add: CaseFoldedName_def drop_map)
    then have "\<not> IsWhiteoutName os (drop 4 name)" using fn IsWhiteoutName_folded [OF assms(2)] by metis
    then have "\<not> ordinal_eq os (c_str name) kOpaqueMarkerFile" using opaque_second_prefix by blast
    then show "\<exists>h. WhitedOutNameOfEntry os name = Some h \<and> n = CaseFoldedName os h"
      using w tail by (simp add: WhitedOutNameOfEntry_def GetWhitedOutName_def)
  qed
  have marker: "HasWhiteoutUnderWalkedDirectoryInLayer os w (join_with bslash (ss @ [n])) L \<longleftrightarrow>
      (\<exists>a. GetFileAttributesW os w (WithExtendedPrefix os (JoinDirPath L (join_with bslash (ss @ [?m])))) = Inr a)"
    using GetWhiteoutFileName_join [OF nm]
    by (auto simp: HasWhiteoutUnderWalkedDirectoryInLayer_def GetWhiteoutFullPath_def MarkerFileExists_def exists_at_def split: sum.splits)
  show ?thesis
  proof (cases "FindFiles os w (WithExtendedPrefix os (JoinLayerScanPath L ?d))")
    case (Inl e)
    then show ?thesis using assms(4) vn marker by (auto simp: listing_complete_def ScanLayerDirectory_def Let_def)
  next
    case (Inr b)
    obtain found e where b: "b = (found, e)" by fastforce
    have "ScanLayerDirectory os w L ?d wn =
        fold (scan_reads os wn ?d) found \<lparr>scanStatus = STATUS_SUCCESS, scanWhitedOutNames = [], scanEntries = []\<rparr>"
      using assms(4) Inr b by (simp add: listing_complete_def ScanLayerDirectory_def scan_reads_def Let_def)
    moreover have "GetFileAttributesW os w (WithExtendedPrefix os (JoinDirPath L (join_with bslash (ss @ [?m])))) = Inr a \<longleftrightarrow>
        (\<exists>f \<in> set found. CaseFoldedName os (cFileName f) = ?m \<and> dwFileAttributes f = a)" for a
      using assms(4) Inr b vn folded_prefix [OF assms(2), of n] fn by (simp add: listing_complete_def)
    ultimately show ?thesis using marker by (auto simp: scan_fold hidden)
  qed
qed

section \<open>The searches agree\<close>

definition same_entry :: "ResolvedPath \<Rightarrow> MergedEntry \<Rightarrow> bool" where
  "same_entry r e \<longleftrightarrow>
     source r = mergedSource e \<and> lowerIndex r = mergedLowerIndex e \<and> attributes r = dwFileAttributes (findData e)"

text \<open>What the engine relies on of one layer at the directory \<open>ss\<close>.\<close>

definition layer_laws :: "('w, 'h) host \<Rightarrow> 'w \<Rightarrow> LayerConfig \<Rightarrow> wstring list \<Rightarrow> wstring \<Rightarrow> bool" where
  "layer_laws os w cfg ss L \<longleftrightarrow> tree_like os w L \<and> no_stale_opaque os w cfg L \<and> listing_complete os w L ss"

lemma whited_out_ancestor:
  assumes "tree_like os w L" "names (ss @ [n])"
  shows "HasWhitedOutAncestorInLayer os w (join_with bslash (ss @ [n])) L \<longleftrightarrow> whitedOut (LayerAncestryOf os w cfg L (join_with bslash ss) index)"
  using assms whiteout_readers_agree [OF assms(1), of ss]
  by (simp add: HasWhitedOutAncestorInLayer_def AnyDirectoryUpToRoot_def parent_chain_join LayerAncestryOf_over ancestry_simps list_ex_iff)

lemma HasWhiteout_scan:
  assumes "lower_table_ok os" "marker_table_ok os" "plain_key os ss n" "listing_complete os w L ss"
  shows "n \<in> set (scanWhitedOutNames (ScanLayerDirectory os w L (join_with bslash ss)
      (WhiteoutNamesIn (LayerAncestryOf os w cfg L (join_with bslash ss) index)))) \<longleftrightarrow>
    HasWhiteout os w (join_with bslash (ss @ [n])) L"
proof -
  have nm: "names (ss @ [n])" using assms(3) by (simp add: plain_key_def view_component_def)
  then have "MarkerDirectoryOf (join_with bslash (ss @ [n])) = join_with bslash ss"
    by (simp add: MarkerDirectoryOf_def NormalizePathPreserveCase_id normal_form_join)
  then show ?thesis
    using scan_whiteout [OF assms] by (auto simp: HasWhiteout_def FindLinkOnPath_none ancestry_stop WhiteoutNamesIn_def)
qed

lemma lower_slot:
  assumes "lower_table_ok os" "marker_table_ok os" "plain_key os ss n" "layer_laws os w cfg ss (lowerPaths cfg ! i)"
  shows "lower_blocked os w cfg (join_with bslash (ss @ [n])) i \<longleftrightarrow>
      slot_blocked os w cfg (join_with bslash ss) (slot_ancestry os w cfg (join_with bslash ss)) n (Suc i)"
    and "lower_closes os w cfg (join_with bslash (ss @ [n])) i \<longleftrightarrow>
      slot_closes os w cfg (join_with bslash ss) (slot_ancestry os w cfg (join_with bslash ss)) n (Suc i)"
    and "rel_option same_entry (lower_hit os w cfg (join_with bslash (ss @ [n])) i)
      (slot_entry os w cfg (join_with bslash ss) (slot_ancestry os w cfg (join_with bslash ss)) n (Suc i))"
proof -
  let ?L = "lowerPaths cfg ! i" and ?d = "join_with bslash ss" and ?p = "join_with bslash (ss @ [n])"
  have l: "tree_like os w ?L" "no_stale_opaque os w cfg ?L" "listing_complete os w ?L ss" using assms(4) by (simp_all add: layer_laws_def)
  have nm: "names (ss @ [n])" and ns: "names ss" using assms(3) by (simp_all add: plain_key_def view_component_def)
  have pd: "ParentDir ?p = ?d" using nm by (simp add: ParentDir_def)
  have at: "MergeLayerAt cfg (Suc i) = \<lparr>mlPath = ?L, mlSource = Lower, mlLowerIndex = int i\<rparr>" by (simp add: MergeLayerAt_def)
  show "lower_blocked os w cfg ?p i \<longleftrightarrow> slot_blocked os w cfg ?d (slot_ancestry os w cfg ?d) n (Suc i)"
    using HasWhiteout_scan [OF assms(1-3) l(3)] whited_out_ancestor [OF l(1) nm] ancestry_link_under [of "int i" cfg ?L os w ?d]
    by (auto simp: lower_blocked_def slot_blocked_def HidesLayerAndBelow_def at pd slot_scan_def)
  show "lower_closes os w cfg ?p i \<longleftrightarrow> slot_closes os w cfg ?d (slot_ancestry os w cfg ?d) n (Suc i)"
    using ancestry_hides_lowers [OF l(1,2) ns, of "int i"]
    by (simp add: lower_closes_def slot_closes_def HidesLayersBelow_def at pd LowersBelowParentOf_def ancestry_hides_def)
  show "rel_option same_entry (lower_hit os w cfg ?p i) (slot_entry os w cfg ?d (slot_ancestry os w cfg ?d) n (Suc i))"
    using scan_entry(2) [OF assms(1-3) l(3), of "WhiteoutNamesIn (slot_ancestry os w cfg ?d (Suc i))"]
    by (auto simp: lower_hit_def slot_entry_def slot_scan_def at same_entry_def Let_def split: sum.splits)
qed

lemma lowers_agree:
  assumes "lower_table_ok os" "marker_table_ok os" "plain_key os ss n" "\<forall>L \<in> set (lowerPaths cfg). layer_laws os w cfg ss L"
  shows "rel_option same_entry (found_of (FindInLowers os w cfg (join_with bslash (ss @ [n])) i))
    (slot_search os w cfg (join_with bslash ss) (slot_ancestry os w cfg (join_with bslash ss)) n (Suc (length (lowerPaths cfg))) (Suc i))"
proof (induction "length (lowerPaths cfg) - i" arbitrary: i)
  case 0
  then show ?case using lowers.find_step [of os w cfg _ i] by (simp add: slot_search.simps [of _ _ _ _ _ _ _ "Suc i"])
next
  case (Suc x)
  then have i: "i < length (lowerPaths cfg)" by simp
  then have "layer_laws os w cfg ss (lowerPaths cfg ! i)" using assms(4) by simp
  note slot = lower_slot [OF assms(1-3) this]
  have IH: "rel_option same_entry (found_of (FindInLowers os w cfg (join_with bslash (ss @ [n])) (Suc i)))
      (slot_search os w cfg (join_with bslash ss) (slot_ancestry os w cfg (join_with bslash ss)) n (Suc (length (lowerPaths cfg))) (Suc (Suc i)))"
    by (rule Suc.hyps(1)) (use Suc.hyps(2) in simp)
  show ?case
    unfolding lowers.find_step [of os w cfg _ i] slot_search.simps [of _ _ _ _ _ _ _ "Suc i"] slot(1,2) [symmetric]
    using slot(3) IH i by (auto split: option.splits)
qed

lemma upper_slot:
  assumes "lower_table_ok os" "marker_table_ok os" "plain_key os ss n" "layer_laws os w cfg ss (upperPath cfg)"
  shows "slot_closes os w cfg (join_with bslash ss) (slot_ancestry os w cfg (join_with bslash ss)) n 0 \<longleftrightarrow>
      HasWhiteout os w (join_with bslash (ss @ [n])) (upperPath cfg) \<or>
      HasWhitedOutAncestorInLayer os w (join_with bslash (ss @ [n])) (upperPath cfg) \<or>
      LowersBelow os w cfg (upperPath cfg) (join_with bslash ss) \<noteq> LowersVisible"
    and "case GetFileAttributesW os w (WithExtendedPrefix os (JoinDirPath (upperPath cfg) (join_with bslash (ss @ [n])))) of
        Inl e \<Rightarrow> slot_entry os w cfg (join_with bslash ss) (slot_ancestry os w cfg (join_with bslash ss)) n 0 = None
      | Inr a \<Rightarrow> \<exists>e. slot_entry os w cfg (join_with bslash ss) (slot_ancestry os w cfg (join_with bslash ss)) n 0 = Some e \<and>
          same_entry (upper_hit cfg (join_with bslash (ss @ [n])) a) e"
proof -
  let ?L = "upperPath cfg" and ?d = "join_with bslash ss" and ?p = "join_with bslash (ss @ [n])"
  have l: "tree_like os w ?L" "no_stale_opaque os w cfg ?L" "listing_complete os w ?L ss" using assms(4) by (simp_all add: layer_laws_def)
  have nm: "names (ss @ [n])" and ns: "names ss" using assms(3) by (simp_all add: plain_key_def view_component_def)
  have at: "MergeLayerAt cfg 0 = \<lparr>mlPath = ?L, mlSource = Upper, mlLowerIndex = - 1\<rparr>" by (simp add: MergeLayerAt_def)
  show "slot_closes os w cfg ?d (slot_ancestry os w cfg ?d) n 0 \<longleftrightarrow>
      HasWhiteout os w ?p ?L \<or> HasWhitedOutAncestorInLayer os w ?p ?L \<or> LowersBelow os w cfg ?L ?d \<noteq> LowersVisible"
    using HasWhiteout_scan [OF assms(1-3) l(3), of cfg "- 1"] whited_out_ancestor [OF l(1) nm, of cfg "- 1"]
      ancestry_hides_lowers [OF l(1,2) ns, of "- 1"]
    by (auto simp: slot_closes_def HidesLayersBelow_def at slot_scan_def ancestry_hides_def)
  show "case GetFileAttributesW os w (WithExtendedPrefix os (JoinDirPath ?L ?p)) of
        Inl e \<Rightarrow> slot_entry os w cfg ?d (slot_ancestry os w cfg ?d) n 0 = None
      | Inr a \<Rightarrow> \<exists>e. slot_entry os w cfg ?d (slot_ancestry os w cfg ?d) n 0 = Some e \<and> same_entry (upper_hit cfg ?p a) e"
    using scan_entry(2) [OF assms(1-3) l(3), of "WhiteoutNamesIn (slot_ancestry os w cfg ?d 0)"]
    by (auto simp: slot_entry_def slot_scan_def at same_entry_def upper_hit_def split: sum.splits)
qed

lemma not_found [simp]: "\<not> Found whiteout_result" "\<not> Found empty_resolved"
  by (simp_all add: Found_def whiteout_result_def empty_resolved_def)

lemma upper_hit_found [simp]: "Found (upper_hit cfg p a)"
  by (simp add: Found_def upper_hit_def JoinDirPath_def DirWithSeparator_def)

lemma root_not_reserved [simp]: "\<not> IsReservedOverlayPath os w cfg []"
proof -
  have "ParentOfFirstMarkerSegment os [] = None" by (simp add: no_marker_segment_iff IsWhiteoutName_def)
  then show ?thesis by (simp add: IsReservedOverlayPath_def IsRootSidecarPath_def IsInsideDirectory_def kSidecarDirName_def)
qed

lemma normalized_child:
  assumes "lower_table_ok os" "NormalizePath os dir = join_with bslash ss" "plain_key os ss n"
  shows "NormalizePath os (join_with bslash (ss @ [n])) = join_with bslash (ss @ [n])"
proof -
  have nm: "names (ss @ [n])" using assms(3) by (simp add: plain_key_def view_component_def)
  have "map (CharLowerW os) (join_with bslash ss) = join_with bslash ss"
    using NormalizePath_fixed [OF assms(1), of dir] nm assms(2)
    by (simp add: NormalizePath_def NormalizePathPreserveCase_id normal_form_join)
  moreover have "map (CharLowerW os) n = n" using assms(3) by (simp add: plain_key_def CaseFoldedName_def)
  moreover have "CharLowerW os bslash = bslash" using lower_table_punct [OF assms(1), of bslash bslash] by simp
  ultimately have "map (CharLowerW os) (join_with bslash (ss @ [n])) = join_with bslash (ss @ [n])"
    by (cases "ss = []") (simp_all add: join_with_snoc)
  then show ?thesis using nm by (simp add: NormalizePath_def NormalizePathPreserveCase_id normal_form_join)
qed

lemma listing_matches_lookup:
  assumes "lower_table_ok os" "marker_table_ok os" "coherent os w cfg c"
    and "NormalizePath os dir = join_with bslash ss" "plain_key os ss n"
    and "\<forall>L \<in> set (upperPath cfg # lowerPaths cfg). layer_laws os w cfg ss L"
    and "ss \<noteq> [] \<Longrightarrow> IsResolvablePath os w cfg (join_with bslash ss)" "IsResolvablePath os w cfg (join_with bslash (ss @ [n]))"
    and "upper_redirect os w cfg (join_with bslash (ss @ [n])) = None"
  shows "NT_SUCCESS (mergedStatus (MergeDirectoryAcrossLayers os w cfg dir)) \<and>
    rel_option same_entry (found_of (snd (ResolvePath os w cfg now c (join_with bslash (ss @ [n])))))
      (mergedEntries (MergeDirectoryAcrossLayers os w cfg dir) n)"
proof -
  let ?d = "join_with bslash ss" and ?p = "join_with bslash (ss @ [n])" and ?n = "Suc (length (lowerPaths cfg))"
  let ?anc = "slot_ancestry os w cfg ?d" and ?r = "snd (ResolvePath os w cfg now c ?p)"
  have nm: "names (ss @ [n])" using assms(5) by (simp add: plain_key_def view_component_def)
  have "?d = [] \<or> IsSafeRelativePath ?d" "\<not> IsReservedOverlayPath os w cfg ?d"
    using assms(7) by (cases "ss = []"; simp add: IsResolvablePath_def)+
  note scratch = MergeDirectory_scratch [OF assms(4) this]
  obtain ls m st where s: "merge_from_scratch os w cfg ?d = (ls, m, st)" by (rule prod_cases3)
  have "NT_SUCCESS (scanStatus (slot_scan os w cfg ?d ?anc j))" if "j < ?n" for j
  proof -
    have "mlPath (MergeLayerAt cfg j) \<in> set (upperPath cfg # lowerPaths cfg)" using that by (auto simp: MergeLayerAt_def)
    then have "listing_complete os w (mlPath (MergeLayerAt cfg j)) ss" using assms(6) unfolding layer_laws_def by blast
    then show ?thesis using scan_entry(1) [OF assms(1,2,5)] by (simp add: slot_scan_def)
  qed
  then have st: "NT_SUCCESS st" using scan_slots_status [OF s] by simp
  have m: "mergedStatus (MergeDirectoryAcrossLayers os w cfg dir) = st"
    "mergedEntries (MergeDirectoryAcrossLayers os w cfg dir) n = slot_search os w cfg ?d ?anc n ?n 0"
    using scratch s st scan_slots_search [OF s st, of n] by (simp_all add: MergeDirectoryAcrossLayers_def merge_result_def)
  have open0: "\<not> slot_blocked os w cfg ?d ?anc n 0" by (simp add: slot_blocked_def HidesLayerAndBelow_def)
  have p: "?p \<noteq> []" "parent_path ?p = ?d" using nm join_with_eq_Nil [OF nm] by simp_all
  note slot0 = upper_slot [OF assms(1,2,5) assms(6) [rule_format, of "upperPath cfg", simplified]]
  have lows: "\<forall>L \<in> set (lowerPaths cfg). layer_laws os w cfg ss L" using assms(6) by simp
  have "rel_option same_entry (found_of ?r) (slot_search os w cfg ?d ?anc n ?n 0)"
    unfolding ResolvePath_by_layer [OF assms(1,3) normalized_child [OF assms(1,4,5)] p(1) assms(8,9)] p(2)
    using slot0 lowers_agree [OF assms(1,2,5) lows, of 0] open0
    by (cases "GetFileAttributesW os w (WithExtendedPrefix os (JoinDirPath (upperPath cfg) ?p))")
       (auto simp: slot_search.simps [of _ _ _ _ _ _ _ 0])
  then show ?thesis using m st by simp
qed

text \<open>
  C1: A listing and a lookup show one view. For an ordinary name of a directory whose path is safe and
  not reserved, on layers that are trees with complete enumerations and no opaque record of a
  directory that is gone, the merged listing succeeds, and it holds an entry under the name exactly
  when a lookup of the name's path, with any coherent cache, finds one; the two then agree on the
  layer that provides it, on the index of the lower and on the attributes. The one exception is an
  upper entry that holds a redirect.
\<close>

theorem listing_agrees_with_lookup:
  assumes "lower_table_ok os" "marker_table_ok os" "coherent os w cfg c"
    and "NormalizePath os dir = join_with bslash ss" "plain_key os ss n"
    and "\<forall>L \<in> set (upperPath cfg # lowerPaths cfg). layer_laws os w cfg ss L"
    and "ss \<noteq> [] \<Longrightarrow> IsResolvablePath os w cfg (join_with bslash ss)" "IsResolvablePath os w cfg (join_with bslash (ss @ [n]))"
    and "upper_redirect os w cfg (join_with bslash (ss @ [n])) = None"
  shows "NT_SUCCESS (mergedStatus (MergeDirectoryAcrossLayers os w cfg dir)) \<and>
    rel_option same_entry (found_of (snd (ResolvePath os w cfg now c (join_with bslash (ss @ [n])))))
      (mergedEntries (MergeDirectoryAcrossLayers os w cfg dir) n)"
  by (rule listing_matches_lookup [OF assms])

section \<open>The disk in memory\<close>

lemma mem_host_lower: "CharLowerW mem_host = ascii_lower"
  by (simp add: mem_host_def)

lemma mem_marker_table: "marker_table_ok mem_host"
proof -
  have upper: "ascii_upper c = 87 \<longleftrightarrow> c = 87 \<or> c = 119" "ascii_upper c = 72 \<longleftrightarrow> c = 72 \<or> c = 104" "ascii_upper c = 46 \<longleftrightarrow> c = 46" for c
    unfolding ascii_upper_def by (auto simp: diff_eq_eq)
  have lower: "ascii_lower c = 119 \<longleftrightarrow> c = 87 \<or> c = 119" "ascii_lower c = 104 \<longleftrightarrow> c = 72 \<or> c = 104" "ascii_lower c = 46 \<longleftrightarrow> c = 46" for c
    unfolding ascii_lower_def by (auto simp: eq_diff_eq [symmetric])
  have at: "ascii_upper 119 = 87" "ascii_upper 104 = 72" "ascii_upper wdot = wdot" by code_simp+
  show ?thesis
    unfolding marker_table_ok_def mem_host_def kWhiteoutPrefix_def by (simp add: at) (simp add: upper lower)
qed

lemma mem_listing_complete:
  assumes "drive_root L" "distinct (map fst w)" "list_all (\<lambda>(k, n). map ascii_lower k = k) w"
    and "mem_directory w (butlast (mem_base L))"
  shows "listing_complete mem_host w L []"
proof -
  have pat: "WithExtendedPrefix mem_host (JoinLayerScanPath L []) = kExtended @ L @ bslash # wlit ''*''"
    using drive_extended [OF assms(1)] by (simp add: JoinLayerScanPath_def)
  have "mem_find w (kExtended @ L @ bslash # wlit ''*'') = Inr (mem_children w (mem_base L), ERROR_NO_MORE_FILES)"
    using assms(4) by (auto simp: mem_find_def mem_directory_def mem_base_def butlast_append Let_def split: option.splits)
  moreover have "mem_attributes w (kExtended @ L @ bslash # n) = Inr a \<longleftrightarrow>
      (\<exists>f \<in> set (mem_children w (mem_base L)). map ascii_lower (cFileName f) = map ascii_lower n \<and> dwFileAttributes f = a)"
    if "view_component n" for n a
  proof -
    let ?k = "mem_base L @ map ascii_lower n"
    have n: "n \<noteq> []" "bslash \<notin> set (map ascii_lower n)" "wcolon \<notin> set (map ascii_lower n)"
      using that by (auto simp: view_component_def is_name_def is_slash_def)
    have fixed: "map ascii_lower (drop i k) = drop i k" if "(k, x) \<in> set w" for k x i
      using assms(3) that by (auto simp: list_all_iff drop_map [symmetric])
    have "mem_attributes w (kExtended @ L @ bslash # n) = Inr a \<longleftrightarrow> (\<exists>x. (?k, x) \<in> set w \<and> nodeAttributes x = a)"
      unfolding map_of_eq_Some_iff [OF assms(2), symmetric]
      by (auto simp: mem_attributes_def mem_key_base split: option.splits)
    also have "\<dots> \<longleftrightarrow> (\<exists>f \<in> set (mem_children w (mem_base L)). map ascii_lower (cFileName f) = map ascii_lower n \<and> dwFileAttributes f = a)"
    proof
      assume "\<exists>x. (?k, x) \<in> set w \<and> nodeAttributes x = a"
      then obtain x where x: "(?k, x) \<in> set w" "nodeAttributes x = a" by blast
      then have "\<lparr>cFileName = map ascii_lower n, dwFileAttributes = a, dwReserved0 = nodeTag x\<rparr> \<in> set (mem_children w (mem_base L))"
        using n by (force simp: mem_children_def starts_with_iff)
      moreover have "map ascii_lower (map ascii_lower n) = map ascii_lower n" using fixed [OF x(1), of "length (mem_base L)"] by simp
      ultimately show "\<exists>f \<in> set (mem_children w (mem_base L)). map ascii_lower (cFileName f) = map ascii_lower n \<and> dwFileAttributes f = a"
        by (intro bexI [rotated]) (assumption, simp)
    next
      assume "\<exists>f \<in> set (mem_children w (mem_base L)). map ascii_lower (cFileName f) = map ascii_lower n \<and> dwFileAttributes f = a"
      then obtain k x where x: "(k, x) \<in> set w" "starts_with k (mem_base L)" "map ascii_lower (drop (length (mem_base L)) k) = map ascii_lower n"
        "nodeAttributes x = a" by (auto simp: mem_children_def)
      then have "k = ?k" using fixed [OF x(1), of "length (mem_base L)"] by (auto simp: starts_with_iff)
      then show "\<exists>x. (?k, x) \<in> set w \<and> nodeAttributes x = a" using x by blast
    qed
    finally show ?thesis .
  qed
  ultimately show ?thesis
    using drive_extended [OF assms(1)]
    by (simp add: listing_complete_def pat CaseFoldedName_def mem_host_lower)
qed

theorem listing_agrees_with_lookup_witness:
  "rel_option same_entry (found_of (snd (ResolvePath mem_host sample_disk sample_config 3 (new_Cache 4) (wlit ''c''))))
     (mergedEntries (MergeDirectoryAcrossLayers mem_host sample_disk sample_config []) (wlit ''c''))"
proof -
  have listing: "listing_complete mem_host sample_disk sample_upper []" "listing_complete mem_host sample_disk sample_lower []"
    by (rule mem_listing_complete; (rule sample_roots | code_simp))+
  have "NT_SUCCESS (mergedStatus (MergeDirectoryAcrossLayers mem_host sample_disk sample_config [])) \<and>
    rel_option same_entry (found_of (snd (ResolvePath mem_host sample_disk sample_config 3 (new_Cache 4) (join_with bslash ([] @ [wlit ''c''])))))
      (mergedEntries (MergeDirectoryAcrossLayers mem_host sample_disk sample_config []) (wlit ''c''))"
  proof (rule listing_agrees_with_lookup [OF mem_host_lower_table mem_marker_table coherent_new])
    show "\<forall>L \<in> set (upperPath sample_config # lowerPaths sample_config). layer_laws mem_host sample_disk sample_config [] L"
      using listing sample_disk_laws by (simp add: layer_laws_def sample_config_def)
    show "plain_key mem_host [] (wlit ''c'')" by code_simp
    show "IsResolvablePath mem_host sample_disk sample_config (join_with bslash ([] @ [wlit ''c'']))" by code_simp
    show "upper_redirect mem_host sample_disk sample_config (join_with bslash ([] @ [wlit ''c''])) = None" by code_simp
    show "NormalizePath mem_host [] = join_with bslash []" by code_simp
  qed simp
  then show ?thesis unfolding append_Nil join_with.simps by blast
qed

end
