(* ===== verification/Engine_Ops.thy ===== *)
theory Engine_Ops
  imports Entry_Rename Process_Tracker View_Agreement
begin

text \<open>
  The operations of the engine on paths of the view (\<^verbatim>\<open>impl/LayerMount.cpp\<close>): lookups, markers, deletes and
  renames, with the checks that come before them. The state is that of the copy-ups and the process
  tracker. An operation takes one reading of each clock. The forms of the operations that work on an
  open file context are in \<open>File_Open\<close>, \<open>File_Ops\<close> and \<open>File_Paths\<close>.
\<close>

section \<open>State\<close>

abbreviation STATUS_FILE_IS_A_DIRECTORY :: ntstatus where "STATUS_FILE_IS_A_DIRECTORY \<equiv> 0xC00000BA"

record clocks =
  cacheClock :: int
  steadyClock :: int
  systemClock :: nat

record 'w layer_mount =
  lmState :: "'w copy_up_state"
  lmTracker :: "ProcessTracker option"

abbreviation lm_disk :: "'w layer_mount \<Rightarrow> 'w" where "lm_disk m \<equiv> cu_disk (lmState m)"

text \<open>A part of an operation that works on the state of the copy-ups.\<close>

definition with_state :: "'w layer_mount \<Rightarrow> ('w copy_up_state \<times> 'a) run \<Rightarrow> ('w layer_mount \<times> 'a) run" where
  "with_state m r = and_then r (\<lambda>(st, a). Finished (m\<lparr>lmState := st\<rparr>, a))"

definition set_engine :: "'w layer_mount \<Rightarrow> 'w engine \<Rightarrow> 'w layer_mount" where
  "set_engine m s = m\<lparr>lmState := (lmState m)\<lparr>cuEngine := s\<rparr>\<rparr>"

definition set_cache :: "'w layer_mount \<Rightarrow> Cache \<Rightarrow> 'w layer_mount" where
  "set_cache m c = set_engine m ((cuEngine (lmState m))\<lparr>engineCache := c\<rparr>)"

definition lm_invalidate :: "('w, 'h) host \<Rightarrow> 'w layer_mount \<Rightarrow> wstring \<Rightarrow> 'w layer_mount" where
  "lm_invalidate os m path = m\<lparr>lmState := invalidate_with_ancestors os (lmState m) path\<rparr>"

text \<open>A lookup with the path cache of the engine.\<close>

definition lookup :: "('w, 'h) host \<Rightarrow> LayerConfig \<Rightarrow> clocks \<Rightarrow> 'w layer_mount \<Rightarrow> wstring \<Rightarrow> 'w layer_mount \<times> ResolvedPath" where
  "lookup os cfg clk m path =
     (let (c, r) = Path_Resolver.ResolvePath os (lm_disk m) cfg (cacheClock clk) (engineCache (cuEngine (lmState m))) path in
      (set_cache m c, r))"

definition WalkCallerPath ::
  "('w, 'h) host \<Rightarrow> LayerConfig \<Rightarrow> clocks \<Rightarrow> 'w layer_mount \<Rightarrow> wstring \<Rightarrow> FinalLink \<Rightarrow> 'w layer_mount \<times> ntstatus \<times> ViewPath" where
  "WalkCallerPath os cfg clk m callerPath finalLink =
     (let (c, status, path) = ViewPathThroughLinks os (lm_disk m) cfg (cacheClock clk) (engineCache (cuEngine (lmState m))) callerPath finalLink in
      (set_cache m c, status, path))"

text \<open>The check of the tracker, when there is one and the caller gives its process.\<close>

definition tracker_allows ::
  "('w, 'h) host \<Rightarrow> ('p, 's) process_calls \<Rightarrow> clocks \<Rightarrow> 'w layer_mount \<Rightarrow> dword \<Rightarrow> wstring \<Rightarrow> OperationType \<Rightarrow> 'w layer_mount \<times> bool" where
  "tracker_allows os pc clk m callerPid path op =
     (case lmTracker m of
        None \<Rightarrow> (m, True)
      | Some t \<Rightarrow>
          if callerPid = 0 then (m, True)
          else
            let (t1, allow, event) = CheckAccess os pc (steadyClock clk) (systemClock clk) t callerPid path op;
                s = cuEngine (lmState m);
                s1 = (case event of None \<Rightarrow> s | Some ev \<Rightarrow> s\<lparr>engineEvents := engineEvents s @ [ev]\<rparr>) in
            ((set_engine m s1)\<lparr>lmTracker := Some t1\<rparr>, allow))"

section \<open>Lookups, markers and copy-ups\<close>

text \<open>\<^verbatim>\<open>LayerMount::ResolvePath\<close>; without a result the caller's value stays.\<close>

definition LayerMount_ResolvePath ::
  "('w, 'h) host \<Rightarrow> LayerConfig \<Rightarrow> clocks \<Rightarrow> 'w layer_mount \<Rightarrow> wstring \<Rightarrow> 'w layer_mount \<times> ntstatus \<times> ResolvedPath option" where
  "LayerMount_ResolvePath os cfg clk m relativePath =
     (let (m1, status, path) = WalkCallerPath os cfg clk m relativePath Keep in
      if \<not> NT_SUCCESS status then (m1, status, None)
      else let (m2, r) = lookup os cfg clk m1 (viewText path) in (m2, STATUS_SUCCESS, Some r))"

definition MergeDirectoryEntries ::
  "('w, 'h) host \<Rightarrow> LayerConfig \<Rightarrow> clocks \<Rightarrow> 'w layer_mount \<Rightarrow> wstring \<Rightarrow> 'w layer_mount \<times> MergedDirectory" where
  "MergeDirectoryEntries os cfg clk m dirRelativePath =
     (let (m1, status, path) = WalkCallerPath os cfg clk m dirRelativePath Follow in
      if \<not> NT_SUCCESS status then (m1, \<lparr>mergedStatus = status, mergedEntries = Map.empty\<rparr>)
      else (m1, MergeDirectoryAcrossLayers os (lm_disk m1) cfg (viewText path)))"

definition AcceptsMarker :: "'a win32_text_scheme \<Rightarrow> ViewPath \<Rightarrow> bool" where
  "AcceptsMarker T path \<longleftrightarrow> IsSafeRelativePath (viewNormalized path) \<and> \<not> IsReservedRelativePath T (viewNormalized path)"

datatype MarkerPath = MarkerAccepted | MarkerRefused

definition LayerMount_CreateWhiteout ::
  "('w, 'h) host \<Rightarrow> LayerConfig \<Rightarrow> clocks \<Rightarrow> 'w layer_mount \<Rightarrow> wstring \<Rightarrow> WhiteoutType \<Rightarrow> 'w layer_mount \<times> ntstatus \<times> MarkerPath" where
  "LayerMount_CreateWhiteout os cfg clk m relativePath type =
     (let (m1, status, path) = WalkCallerPath os cfg clk m relativePath Keep in
      if \<not> NT_SUCCESS status then (m1, status, MarkerAccepted)
      else if \<not> AcceptsMarker os path then (m1, STATUS_OBJECT_NAME_INVALID, MarkerRefused)
      else
        let (s, created) = CreateWhiteout os cfg (cuEngine (lmState m1)) (viewText path) type in
        (set_engine m1 s, created, MarkerAccepted))"

definition LayerMount_SetOpaque ::
  "('w, 'h) host \<Rightarrow> LayerConfig \<Rightarrow> clocks \<Rightarrow> 'w layer_mount \<Rightarrow> wstring \<Rightarrow> 'w layer_mount \<times> ntstatus \<times> MarkerPath" where
  "LayerMount_SetOpaque os cfg clk m dirRelativePath =
     (let (m1, status, path) = WalkCallerPath os cfg clk m dirRelativePath Keep in
      if \<not> NT_SUCCESS status then (m1, status, MarkerAccepted)
      else if \<not> AcceptsMarker os path then (m1, STATUS_OBJECT_NAME_INVALID, MarkerRefused)
      else
        let (s, marked) = SetOpaque os cfg (cuEngine (lmState m1)) (viewText path) in
        (set_engine m1 s, marked, MarkerAccepted))"

definition EnsureInUpperLayer ::
  "('w, 'h) host \<Rightarrow> ('w, 'h) file_io \<Rightarrow> nat \<Rightarrow> LayerConfig \<Rightarrow> clocks \<Rightarrow> 'w layer_mount \<Rightarrow> wstring \<Rightarrow> ('w layer_mount \<times> ntstatus) run" where
  "EnsureInUpperLayer os io n cfg clk m relativePath =
     (let (m1, status, path) = WalkCallerPath os cfg clk m relativePath Keep; normalized = viewNormalized path in
      if \<not> NT_SUCCESS status then Finished (m1, status)
      else if ExistsInUpper os (lm_disk m1) cfg normalized then Finished (m1, STATUS_SUCCESS)
      else
        let (m2, resolved) = lookup os cfg clk m1 normalized in
        if \<not> Found resolved then Finished (m2, STATUS_OBJECT_NAME_NOT_FOUND)
        else if attributes resolved AND FILE_ATTRIBUTE_DIRECTORY \<noteq> 0
        then with_state m2 (CopyUpDirectory os io (cacheClock clk) n cfg (lmState m2) normalized)
        else with_state m2 (CopyUpFile os io (cacheClock clk) n cfg (lmState m2) normalized))"

section \<open>Deletes\<close>

definition StreamExists :: "('w, 'h) host \<Rightarrow> 'w \<Rightarrow> wstring \<Rightarrow> wstring \<Rightarrow> bool" where
  "StreamExists os w hostPath suffix =
     (case GetFileAttributesW os w (ExtendedStreamPath os hostPath suffix) of Inl e \<Rightarrow> False | Inr a \<Rightarrow> a \<noteq> INVALID_FILE_ATTRIBUTES)"

definition DirectoryEmptinessStatus :: "('w, 'h) host \<Rightarrow> 'w \<Rightarrow> LayerConfig \<Rightarrow> wstring \<Rightarrow> ntstatus" where
  "DirectoryEmptinessStatus os w cfg dirNorm =
     (let m = MergeDirectoryAcrossLayers os w cfg dirNorm in
      if \<not> NT_SUCCESS (mergedStatus m) then mergedStatus m
      else if dom (mergedEntries m) \<noteq> {} then STATUS_DIRECTORY_NOT_EMPTY
      else STATUS_SUCCESS)"

definition CanDeleteEntry ::
  "('w, 'h) host \<Rightarrow> ('p, 's) process_calls \<Rightarrow> LayerConfig \<Rightarrow> clocks \<Rightarrow> 'w layer_mount \<Rightarrow> wstring \<Rightarrow> wstring \<Rightarrow> dword \<Rightarrow> 'w layer_mount \<times> ntstatus" where
  "CanDeleteEntry os pc cfg clk m host_path suffix callerPid =
     (let (m1, allow) = tracker_allows os pc clk m callerPid host_path OpDelete in
      if \<not> allow then (m1, STATUS_ACCESS_DENIED)
      else
        let (m2, resolved) = lookup os cfg clk m1 host_path in
        if \<not> Found resolved then (m2, STATUS_OBJECT_NAME_NOT_FOUND)
        else if attributes resolved AND FILE_ATTRIBUTE_READONLY \<noteq> 0 then (m2, STATUS_CANNOT_DELETE)
        else if suffix \<noteq> []
        then
          (m2, if attributes resolved AND FILE_ATTRIBUTE_DIRECTORY \<noteq> 0 then STATUS_FILE_IS_A_DIRECTORY
               else if \<not> ExistsInUpper os (lm_disk m2) cfg host_path \<and> \<not> StreamExists os (lm_disk m2) (absolutePath resolved) suffix
               then STATUS_OBJECT_NAME_NOT_FOUND
               else STATUS_SUCCESS)
        else
          let (kindStatus, kind) = EntryKindOf os (lm_disk m2) (absolutePath resolved) (attributes resolved) FileEntry in
          (m2, if \<not> NT_SUCCESS kindStatus then kindStatus
               else if kind = DirectoryEntry then DirectoryEmptinessStatus os (lm_disk m2) cfg host_path
               else STATUS_SUCCESS))"

definition CanDelete ::
  "('w, 'h) host \<Rightarrow> ('p, 's) process_calls \<Rightarrow> LayerConfig \<Rightarrow> clocks \<Rightarrow> 'w layer_mount \<Rightarrow> wstring \<Rightarrow> dword \<Rightarrow> 'w layer_mount \<times> ntstatus" where
  "CanDelete os pc cfg clk m relativePath callerPid =
     (let (m1, status, path) = WalkCallerPath os cfg clk m relativePath Keep in
      if \<not> NT_SUCCESS status then (m1, status)
      else
        (case TryParseStreamPath os (viewNormalized path) of
           None \<Rightarrow> (m1, STATUS_OBJECT_NAME_INVALID)
         | Some (host_path, suffix) \<Rightarrow> CanDeleteEntry os pc cfg clk m1 host_path suffix callerPid))"

definition SetDeleteDispositionAndClose :: "('w, 'h) host \<Rightarrow> ('w, 'h) file_io \<Rightarrow> 'w \<Rightarrow> 'h \<Rightarrow> 'w \<times> ntstatus" where
  "SetDeleteDispositionAndClose os io w handle =
     (let (w1, setErr) = MarkForDeletePlain os w handle; w2 = CloseHandle io w1 handle in
      (w2, case setErr of None \<Rightarrow> STATUS_SUCCESS | Some e \<Rightarrow> nt_status os e))"

definition DeleteStreamByPath ::
  "('w, 'h) host \<Rightarrow> ('w, 'h) file_io \<Rightarrow> nat \<Rightarrow> LayerConfig \<Rightarrow> clocks \<Rightarrow> 'w layer_mount \<Rightarrow> wstring \<Rightarrow> wstring \<Rightarrow> ('w layer_mount \<times> ntstatus) run" where
  "DeleteStreamByPath os io n cfg clk m host_path suffix =
     (let hostUpperPath = GetUpperPath os cfg host_path in
      and_then
        (if ExistsInUpper os (lm_disk m) cfg host_path then Finished (m, STATUS_SUCCESS)
         else with_state m (CopyUpFile os io (cacheClock clk) n cfg (lmState m) host_path))
        (\<lambda>(m1, copyStatus).
           if \<not> NT_SUCCESS copyStatus then Finished (m1, copyStatus)
           else
             (case CreateFileW io (lm_disk m1) (ExtendedStreamPath os hostUpperPath suffix) (DELETE_ACCESS OR SYNCHRONIZE) kShareAll
                     OPEN_EXISTING FILE_FLAG_BACKUP_SEMANTICS of
                (w2, Inl e) \<Rightarrow> Finished (m1\<lparr>lmState := set_disk (lmState m1) w2\<rparr>, nt_status os e)
              | (w2, Inr h) \<Rightarrow>
                  let (w3, status) = SetDeleteDispositionAndClose os io w2 h;
                      m3 = m1\<lparr>lmState := set_disk (lmState m1) w3\<rparr> in
                  if \<not> NT_SUCCESS status then Finished (m3, status)
                  else Finished (lm_invalidate os m3 host_path, STATUS_SUCCESS))))"

definition RemoveEntry ::
  "('w, 'h) host \<Rightarrow> ('w, 'h) file_io \<Rightarrow> nat \<Rightarrow> LayerConfig \<Rightarrow> clocks \<Rightarrow> 'w layer_mount \<Rightarrow> wstring \<Rightarrow> ('w layer_mount \<times> ntstatus) run" where
  "RemoveEntry os io n cfg clk m host_path =
     and_then (with_state m (CopyUpLowerLinkAbove os io (cacheClock clk) n cfg (lmState m) host_path))
       (\<lambda>(m1, linkStatus).
          if \<not> NT_SUCCESS linkStatus then Finished (m1, linkStatus)
          else
            and_then (rounds (Remove os n cfg (cacheClock clk) (cuEngine (lmState m1)) host_path))
              (\<lambda>(s, status). Finished (set_engine m1 s, status)))"

definition LayerMount_Delete ::
  "('w, 'h) host \<Rightarrow> ('w, 'h) file_io \<Rightarrow> ('p, 's) process_calls \<Rightarrow> nat \<Rightarrow> LayerConfig \<Rightarrow> clocks \<Rightarrow> 'w layer_mount \<Rightarrow> wstring \<Rightarrow> dword \<Rightarrow>
     ('w layer_mount \<times> ntstatus) run" where
  "LayerMount_Delete os io pc n cfg clk m relativePath callerPid =
     (let (m1, status, path) = WalkCallerPath os cfg clk m relativePath Keep in
      if \<not> NT_SUCCESS status then Finished (m1, status)
      else
        (case TryParseStreamPath os (viewNormalized path) of
           None \<Rightarrow> Finished (m1, STATUS_OBJECT_NAME_INVALID)
         | Some (host_path, suffix) \<Rightarrow>
             let (m2, canDelete) = CanDeleteEntry os pc cfg clk m1 host_path suffix callerPid in
             if \<not> NT_SUCCESS canDelete then Finished (m2, canDelete)
             else if suffix \<noteq> [] then DeleteStreamByPath os io n cfg clk m2 host_path suffix
             else RemoveEntry os io n cfg clk m2 host_path))"

section \<open>Checks of a rename\<close>

definition UnderItselfStatus :: "('w, 'h) host \<Rightarrow> 'w \<Rightarrow> EntryKind \<Rightarrow> wstring \<Rightarrow> ntstatus" where
  "UnderItselfStatus os w sourceKind sourceAbsolutePath =
     (case sourceKind of
        DirectoryEntry \<Rightarrow> STATUS_INVALID_PARAMETER
      | FileEntry \<Rightarrow> STATUS_OBJECT_PATH_NOT_FOUND
      | LinkEntry \<Rightarrow>
          (case LinkTargetOf os w sourceAbsolutePath of
             (TargetDirectory, _) \<Rightarrow> STATUS_NOT_SAME_DEVICE
           | (TargetNoDirectory, _) \<Rightarrow> STATUS_OBJECT_PATH_NOT_FOUND
           | (TargetFailed, failure) \<Rightarrow> failure))"

record RenameKinds =
  kindsSource :: EntryKind
  kindsDestination :: "EntryKind option"

record CheckedRename =
  checkedKinds :: RenameKinds
  checkedLinks :: RenameLinks

definition CheckRenameDestination ::
  "('w, 'h) host \<Rightarrow> LayerConfig \<Rightarrow> clocks \<Rightarrow> 'w layer_mount \<Rightarrow> wstring \<Rightarrow> wstring \<Rightarrow> wstring \<Rightarrow> bool \<Rightarrow> RenameKinds \<Rightarrow>
     'w layer_mount \<times> ntstatus \<times> RenameKinds" where
  "CheckRenameDestination os cfg clk m oldName newName sourceAbsolutePath replaceIfExists kinds =
     (let underItself = IsInsideDirectory newName oldName in
      if underItself \<and> kindsSource kinds = LinkEntry
      then (m, UnderItselfStatus os (lm_disk m) (kindsSource kinds) sourceAbsolutePath, kinds)
      else
        let (m1, dest) = lookup os cfg clk m newName in
        if Found dest \<and> \<not> replaceIfExists then (m1, STATUS_OBJECT_NAME_COLLISION, kinds)
        else if underItself then (m1, UnderItselfStatus os (lm_disk m1) (kindsSource kinds) sourceAbsolutePath, kinds)
        else if \<not> Found dest then (m1, STATUS_SUCCESS, kinds)
        else if IsInsideDirectory oldName newName then (m1, STATUS_DIRECTORY_NOT_EMPTY, kinds)
        else
          let (kindStatus, destinationKind) = EntryKindOf os (lm_disk m1) (absolutePath dest) (attributes dest) FileEntry in
          if \<not> NT_SUCCESS kindStatus then (m1, kindStatus, kinds)
          else
            let kinds1 = kinds\<lparr>kindsDestination := Some destinationKind\<rparr>;
                sourceIsDirectory = (kindsSource kinds = DirectoryEntry);
                destinationIsDirectory = (destinationKind = DirectoryEntry) in
            if sourceIsDirectory \<noteq> destinationIsDirectory
            then (m1, if sourceIsDirectory then STATUS_NOT_A_DIRECTORY else STATUS_FILE_IS_A_DIRECTORY, kinds1)
            else if sourceIsDirectory then (m1, DirectoryEmptinessStatus os (lm_disk m1) cfg newName, kinds1)
            else (m1, STATUS_SUCCESS, kinds1))"

definition CheckRenameRequest ::
  "('w, 'h) host \<Rightarrow> ('p, 's) process_calls \<Rightarrow> LayerConfig \<Rightarrow> clocks \<Rightarrow> 'w layer_mount \<Rightarrow> wstring \<Rightarrow> wstring \<Rightarrow> dword \<Rightarrow> 'w layer_mount \<times> ntstatus" where
  "CheckRenameRequest os pc cfg clk m oldName newName callerPid =
     (case (TryParseStreamPath os oldName, TryParseStreamPath os newName) of
        (Some (oldHost, oldSuffix), Some (newHost, newSuffix)) \<Rightarrow>
          if oldSuffix \<noteq> [] \<or> newSuffix \<noteq> [] then (m, STATUS_INVALID_PARAMETER)
          else if IsReservedOverlayPath os (lm_disk m) cfg oldName \<or> IsReservedOverlayPath os (lm_disk m) cfg newName
          then (m, STATUS_ACCESS_DENIED)
          else
            let (m1, allow) = tracker_allows os pc clk m callerPid oldName OpRename in
            (m1, if allow then STATUS_SUCCESS else STATUS_ACCESS_DENIED)
      | _ \<Rightarrow> (m, STATUS_OBJECT_NAME_INVALID))"

definition CheckRename ::
  "('w, 'h) host \<Rightarrow> ('p, 's) process_calls \<Rightarrow> LayerConfig \<Rightarrow> clocks \<Rightarrow> 'w layer_mount \<Rightarrow> wstring \<Rightarrow> wstring \<Rightarrow> bool \<Rightarrow> dword \<Rightarrow> CheckedRename \<Rightarrow>
     'w layer_mount \<times> ntstatus \<times> CheckedRename" where
  "CheckRename os pc cfg clk m oldName newName replaceIfExists callerPid checked =
     (let (m1, status) = CheckRenameRequest os pc cfg clk m oldName newName callerPid in
      if \<not> NT_SUCCESS status then (m1, status, checked)
      else
        let (m2, src) = lookup os cfg clk m1 oldName in
        if \<not> Found src then (m2, STATUS_OBJECT_NAME_NOT_FOUND, checked)
        else
          (case CheckRenameLinkBoundary os (lm_disk m2) cfg (cacheClock clk) (engineCache (cuEngine (lmState m2))) oldName newName
                  (checkedLinks checked) of
             (c3, linkStatus, links) \<Rightarrow>
               let m3 = set_cache m2 c3; checked1 = checked\<lparr>checkedLinks := links\<rparr> in
               if \<not> NT_SUCCESS linkStatus then (m3, linkStatus, checked1)
               else
                 let (kindStatus, kind) = EntryKindOf os (lm_disk m3) (absolutePath src) (attributes src) (kindsSource (checkedKinds checked));
                     checked2 = checked1\<lparr>checkedKinds := (checkedKinds checked)\<lparr>kindsSource := kind\<rparr>\<rparr> in
                 if \<not> NT_SUCCESS kindStatus then (m3, kindStatus, checked2)
                 else if oldName \<noteq> newName
                 then
                   let (m4, destStatus, kinds) =
                         CheckRenameDestination os cfg clk m3 oldName newName (absolutePath src) replaceIfExists (checkedKinds checked2) in
                   (m4, destStatus, checked2\<lparr>checkedKinds := kinds\<rparr>)
                 else (m3, STATUS_SUCCESS, checked2)))"

definition FileReplace :: "CheckedRename \<Rightarrow> bool \<Rightarrow> FileRenameReplace" where
  "FileReplace checked replaceIfExists =
     (if \<not> replaceIfExists then FileReplaceNo
      else if destinationInLinkTarget (checkedLinks checked) \<and> kindsSource (checkedKinds checked) = FileEntry \<and>
              kindsDestination (checkedKinds checked) = Some FileEntry
      then InPlace else AfterAside)"

definition Aside :: "CheckedRename \<Rightarrow> DestinationAside" where
  "Aside checked = (if destinationInLinkTarget (checkedLinks checked) then AsideNextToDestination else AsideWorkDirectory)"

section \<open>Renames\<close>

definition CopyUpRenameLink ::
  "('w, 'h) host \<Rightarrow> ('w, 'h) file_io \<Rightarrow> int \<Rightarrow> nat \<Rightarrow> LayerConfig \<Rightarrow> 'w copy_up_state \<Rightarrow> RenameLinks \<Rightarrow> ('w copy_up_state \<times> ntstatus) run" where
  "CopyUpRenameLink os io now n cfg st links =
     (case lowerLinkToCopyUp links of None \<Rightarrow> Finished (st, STATUS_SUCCESS) | Some p \<Rightarrow> CopyUpDirectory os io now n cfg st p)"

datatype DirectoryRenameRoute = MergeLower | MoveUpper | MoveUpperAndWhiteout

text \<open>A failure leaves the caller's route.\<close>

definition DirectoryRenameRouteOf ::
  "('w, 'h) host \<Rightarrow> 'w \<Rightarrow> LayerConfig \<Rightarrow> wstring \<Rightarrow> EntryKind \<Rightarrow> DirectoryRenameRoute \<Rightarrow> ntstatus \<times> DirectoryRenameRoute" where
  "DirectoryRenameRouteOf os w cfg oldName sourceKind route =
     (let low = ResolveLowerPath os w cfg oldName in
      if \<not> Found low then (STATUS_SUCCESS, MoveUpper)
      else if \<not> ExistsInUpper os w cfg oldName then (STATUS_SUCCESS, MergeLower)
      else if sourceKind \<noteq> DirectoryEntry \<or> IsOpaque os w cfg oldName then (STATUS_SUCCESS, MoveUpperAndWhiteout)
      else
        let (status, lowerKind) = EntryKindOf os w (absolutePath low) (attributes low) FileEntry in
        if \<not> NT_SUCCESS status then (status, route)
        else (STATUS_SUCCESS, if lowerKind = DirectoryEntry then MergeLower else MoveUpperAndWhiteout))"

record RenameRequest =
  requestOld :: wstring
  requestNew :: wstring
  requestReplace :: bool
  requestFileReplace :: FileRenameReplace

record MovedSource =
  movedStatus :: ntstatus
  movedShell :: bool
  movedOccupied :: bool
  movedRename :: UpperRename

definition RenameFileEntry ::
  "('w, 'h) host \<Rightarrow> ('w, 'h) file_io \<Rightarrow> int \<Rightarrow> nat \<Rightarrow> LayerConfig \<Rightarrow> 'w copy_up_state \<Rightarrow> RenameRequest \<Rightarrow> RenameCopyUp \<Rightarrow>
     ('w copy_up_state \<times> MovedSource) run" where
  "RenameFileEntry os io now n cfg st request copyUpMode =
     (let oldName = NormalizePath os (requestOld request); newName = NormalizePath os (requestNew request);
          lowerHoldsSource = Found (ResolveLowerPath os (cu_disk st) cfg oldName) in
      and_then (MoveToUpper os io now n cfg st (requestOld request) (requestNew request) (requestFileReplace request) copyUpMode)
        (\<lambda>(st1, moved).
           let result = \<lparr>movedStatus = movedFileStatus moved, movedShell = movedFileShell moved, movedOccupied = False,
                 movedRename = \<lparr>oldNorm = oldName, newNorm = newName, oldUpperPath = movedFileOldPath moved, opaqueMarker = UndoKeep\<rparr>\<rparr> in
           if \<not> NT_SUCCESS (movedStatus result) \<or> \<not> lowerHoldsSource then Finished (st1, result)
           else
             and_then (rounds (WhiteOutSource os n cfg (cuEngine st1) (movedRename result) WhiteoutFile))
               (\<lambda>(s, whiteout).
                  Finished (st1\<lparr>cuEngine := s\<rparr>, result\<lparr>movedStatus := stepStatus whiteout, movedOccupied := newNameOccupied whiteout\<rparr>))))"

definition RenameDirectoryEntry ::
  "('w, 'h) host \<Rightarrow> ('w, 'h) file_io \<Rightarrow> int \<Rightarrow> nat \<Rightarrow> LayerConfig \<Rightarrow> 'w copy_up_state \<Rightarrow> RenameRequest \<Rightarrow> EntryKind \<Rightarrow> DirectoryRenameRoute \<Rightarrow>
     UpperRename \<Rightarrow> ('w copy_up_state \<times> RenameStepResult) run" where
  "RenameDirectoryEntry os io now n cfg st request sourceKind route rename =
     (let replace = (if requestReplace request then ReplaceYes else ReplaceNo) in
      and_then
        (if route = MergeLower
         then RenameLowerDirectory os io now n cfg st (requestOld request) (requestNew request) sourceKind replace
         else
           and_then (RenameUpperDirectory os io now n cfg st (requestOld request) (requestNew request) sourceKind replace)
             (\<lambda>(s, status). Finished (s, step_result status False)))
        (\<lambda>(st1, moved).
           if route = MoveUpper \<or> \<not> NT_SUCCESS (stepStatus moved) then Finished (st1, moved)
           else
             and_then (rounds (WhiteOutSource os n cfg (cuEngine st1) rename WhiteoutDirectory))
               (\<lambda>(s, whiteout). Finished (st1\<lparr>cuEngine := s\<rparr>, whiteout))))"

definition MoveRenameSource ::
  "('w, 'h) host \<Rightarrow> ('w, 'h) file_io \<Rightarrow> int \<Rightarrow> nat \<Rightarrow> LayerConfig \<Rightarrow> 'w copy_up_state \<Rightarrow> RenameRequest \<Rightarrow> EntryKind \<Rightarrow> DirectoryRenameRoute \<Rightarrow>
     RenameCopyUp \<Rightarrow> ('w copy_up_state \<times> MovedSource) run" where
  "MoveRenameSource os io now n cfg st request sourceKind route copyUpMode =
     (if sourceKind = FileEntry then RenameFileEntry os io now n cfg st request copyUpMode
      else
        let oldName = NormalizePath os (requestOld request); newName = NormalizePath os (requestNew request);
            isCaseRename = (oldName = newName);
            mayMarkSource = (\<not> isCaseRename \<and> sourceKind = DirectoryEntry \<and> route \<noteq> MergeLower \<and> \<not> IsOpaque os (cu_disk st) cfg oldName);
            rename = \<lparr>oldNorm = oldName, newNorm = newName, oldUpperPath = GetUpperPathForRenameSource os (cu_disk st) cfg (requestOld request),
              opaqueMarker = (if mayMarkSource then UndoRemove else UndoKeep)\<rparr> in
        if isCaseRename
        then
          and_then (RenameDirectoryCase os io now n cfg st (requestOld request) (requestNew request) sourceKind)
            (\<lambda>(s, status). Finished (s, \<lparr>movedStatus = status, movedShell = False, movedOccupied = False, movedRename = rename\<rparr>))
        else
          and_then (RenameDirectoryEntry os io now n cfg st request sourceKind route rename)
            (\<lambda>(s, moved).
               Finished (s, \<lparr>movedStatus = stepStatus moved, movedShell = False, movedOccupied = newNameOccupied moved, movedRename = rename\<rparr>)))"

record RenameResult =
  renameStatus :: ntstatus
  renameShell :: bool
  renameInLinkTarget :: bool

text \<open>The end of a rename that holds its destination aside: the destructor of the hold, then the result.\<close>

definition end_with_aside ::
  "('w, 'h) host \<Rightarrow> ('w, 'h) file_io \<Rightarrow> nat \<Rightarrow> LayerConfig \<Rightarrow> 'w copy_up_state \<Rightarrow> HeldAside option \<Rightarrow> 'a \<Rightarrow> ('w copy_up_state \<times> 'a) run" where
  "end_with_aside os io n cfg st held result =
     and_then (rounds (RenameDestinationAside_destroy os io n cfg (cuEngine st) held)) (\<lambda>s. Finished (st\<lparr>cuEngine := s\<rparr>, result))"

definition RenameCheckedEntry ::
  "('w, 'h) host \<Rightarrow> ('w, 'h) file_io \<Rightarrow> int \<Rightarrow> nat \<Rightarrow> LayerConfig \<Rightarrow> 'w copy_up_state \<Rightarrow> wstring \<Rightarrow> wstring \<Rightarrow> bool \<Rightarrow> CheckedRename \<Rightarrow>
     RenameCopyUp \<Rightarrow> ('w copy_up_state \<times> RenameResult) run" where
  "RenameCheckedEntry os io now n cfg st oldRelativePath newRelativePath replaceIfExists checked copyUpMode =
     (let oldName = NormalizePath os oldRelativePath; newName = NormalizePath os newRelativePath;
          kinds = checkedKinds checked;
          isDirectory = (kindsSource kinds \<noteq> FileEntry);
          failure = (\<lambda>status. \<lparr>renameStatus = status, renameShell = False, renameInLinkTarget = sourceInLinkTarget (checkedLinks checked)\<rparr>);
          fileReplace = FileReplace checked replaceIfExists in
      and_then (CopyUpRenameLink os io now n cfg st (checkedLinks checked))
        (\<lambda>(st1, linkStatus).
           if \<not> NT_SUCCESS linkStatus then Finished (st1, failure linkStatus)
           else
             let (routeStatus, route) =
                   (if isDirectory \<and> oldName \<noteq> newName then DirectoryRenameRouteOf os (cu_disk st1) cfg oldName (kindsSource kinds) MoveUpper
                    else (STATUS_SUCCESS, MoveUpper)) in
             if \<not> NT_SUCCESS routeStatus then Finished (st1, failure routeStatus)
             else
               and_then
                 (case kindsDestination kinds of
                    None \<Rightarrow> Finished (st1, STATUS_SUCCESS, None)
                  | Some destinationKind \<Rightarrow>
                      if fileReplace = InPlace then Finished (st1, CheckDestinationReplaceable os cfg (cu_disk st1) newName destinationKind, None)
                      else if replaceIfExists then rounds (SetRenameDestinationAside os io n cfg st1 newName destinationKind (Aside checked))
                      else Finished (st1, STATUS_SUCCESS, None))
                 (\<lambda>(st2, asideStatus, held).
                    if \<not> NT_SUCCESS asideStatus then end_with_aside os io n cfg st2 held (failure asideStatus)
                    else
                      let destHadWhiteout = HasWhiteout os (cu_disk st2) newName (upperPath cfg);
                          request = \<lparr>requestOld = oldRelativePath, requestNew = newRelativePath, requestReplace = replaceIfExists,
                            requestFileReplace = fileReplace\<rparr> in
                      and_then (MoveRenameSource os io now n cfg st2 request (kindsSource kinds) route copyUpMode)
                        (\<lambda>(st3, moved).
                           if \<not> NT_SUCCESS (movedStatus moved)
                           then
                             end_with_aside os io n cfg st3
                               (if movedOccupied moved then RenameDestinationAside_Release held else held) (failure (movedStatus moved))
                           else
                             and_then
                               (if destHadWhiteout then rounds (RemoveDestinationWhiteoutOrUndo os n cfg (cuEngine st3) (movedRename moved))
                                else Finished (cuEngine st3, step_result STATUS_SUCCESS False))
                               (\<lambda>(s4, removed).
                                  let st4 = st3\<lparr>cuEngine := s4\<rparr> in
                                  if \<not> NT_SUCCESS (stepStatus removed)
                                  then
                                    end_with_aside os io n cfg st4
                                      (if newNameOccupied removed then RenameDestinationAside_Release held else held)
                                      (failure (stepStatus removed))
                                  else
                                    and_then (rounds (RenameDestinationAside_Commit os n cfg s4 held))
                                      (\<lambda>(s5, released).
                                         let st5 = invalidate_with_ancestors os
                                               (invalidate_with_ancestors os (st4\<lparr>cuEngine := s5\<rparr>) oldName) newName in
                                         end_with_aside os io n cfg st5 released
                                           \<lparr>renameStatus = STATUS_SUCCESS, renameShell = movedShell moved,
                                            renameInLinkTarget = sourceInLinkTarget (checkedLinks checked)\<rparr>))))))"

definition unchecked_rename :: CheckedRename where
  "unchecked_rename =
     \<lparr>checkedKinds = \<lparr>kindsSource = FileEntry, kindsDestination = None\<rparr>,
      checkedLinks = \<lparr>sourceInLinkTarget = False, destinationInLinkTarget = False, lowerLinkToCopyUp = None\<rparr>\<rparr>"

definition RenameViewPaths ::
  "('w, 'h) host \<Rightarrow> ('w, 'h) file_io \<Rightarrow> ('p, 's) process_calls \<Rightarrow> nat \<Rightarrow> LayerConfig \<Rightarrow> clocks \<Rightarrow> 'w layer_mount \<Rightarrow> wstring \<Rightarrow> wstring \<Rightarrow> bool \<Rightarrow> dword \<Rightarrow>
     ('w layer_mount \<times> ntstatus) run" where
  "RenameViewPaths os io pc n cfg clk m oldRelativePath newRelativePath replaceIfExists callerPid =
     (let oldName = NormalizePath os oldRelativePath; newName = NormalizePath os newRelativePath in
      case CheckRename os pc cfg clk m oldName newName replaceIfExists callerPid unchecked_rename of
        (m1, status, checked) \<Rightarrow>
          if \<not> NT_SUCCESS status then Finished (m1, status)
          else if NormalizePathPreserveCase oldRelativePath = NormalizePathPreserveCase newRelativePath then Finished (m1, STATUS_SUCCESS)
          else
            and_then
              (with_state m1
                (RenameCheckedEntry os io (cacheClock clk) n cfg (lmState m1) oldRelativePath newRelativePath replaceIfExists checked ShellWhenPossible))
              (\<lambda>(m2, renamed). Finished (m2, renameStatus renamed)))"

definition LayerMount_Rename ::
  "('w, 'h) host \<Rightarrow> ('w, 'h) file_io \<Rightarrow> ('p, 's) process_calls \<Rightarrow> nat \<Rightarrow> LayerConfig \<Rightarrow> clocks \<Rightarrow> 'w layer_mount \<Rightarrow> wstring \<Rightarrow> wstring \<Rightarrow> bool \<Rightarrow> dword \<Rightarrow>
     ('w layer_mount \<times> ntstatus) run" where
  "LayerMount_Rename os io pc n cfg clk m callerOldPath callerNewPath replaceIfExists callerPid =
     (case WalkCallerPath os cfg clk m callerOldPath Keep of
        (m1, oldStatus, oldView) \<Rightarrow>
          if \<not> NT_SUCCESS oldStatus then Finished (m1, oldStatus)
          else
            (case WalkCallerPath os cfg clk m1 callerNewPath Keep of
               (m2, newStatus, newView) \<Rightarrow>
                 if \<not> NT_SUCCESS newStatus then Finished (m2, newStatus)
                 else RenameViewPaths os io pc n cfg clk m2 (viewText oldView) (viewText newView) replaceIfExists callerPid))"

end
