(* ===== verification/Engine_Runs.thy ===== *)
theory Engine_Runs
  imports Engine_Ops
begin

text \<open>
  What the operations of \<open>Engine_Ops\<close> do with the reservations of the copy-ups.
\<close>

section \<open>Renames of entries\<close>

text \<open>A step that works on the engine alone keeps the reservations.\<close>

lemma engine_state_keeps [simp]:
  "inFlightCopyUps (st\<lparr>cuEngine := s\<rparr>) = inFlightCopyUps st" "cu_disk (st\<lparr>cuEngine := s\<rparr>) = engineDisk s"
  by simp_all

text \<open>The composition of steps with no reservation held between them.\<close>

lemmas settles_seq = settles_and_then [where held = "[]" and held' = "[]"]

lemma EnsureUpperParent_settles: "inFlightCopyUps st = [] \<Longrightarrow> settles [] (EnsureUpperParent os io now n cfg st p)"
  using copy_up_settles(3) [of st p os io now n cfg] by simp

lemma PrepareRenameDestination_settles:
  "inFlightCopyUps st = [] \<Longrightarrow> settles [] (PrepareRenameDestination os io now n cfg st p replace)"
  by (simp add: PrepareRenameDestination_def Let_def EnsureUpperParent_settles)

lemma retire_old_entry_keeps:
  "retire_old_entry os io n cfg st a b c d = Some (st', r) \<Longrightarrow> inFlightCopyUps st' = inFlightCopyUps st"
  by (auto simp: retire_old_entry_def case_prod_beta Let_def split: option.splits if_splits sum.splits)

lemma SetRenameDestinationAside_keeps:
  "SetRenameDestinationAside os io n cfg st a kind place = Some (st', r) \<Longrightarrow> inFlightCopyUps st' = inFlightCopyUps st"
  by (auto simp: SetRenameDestinationAside_def GenerateAsidePathNextTo_def UniqueEntryName_def case_prod_beta Let_def
      split: option.splits if_splits sum.splits)

lemma RenameLowerDirectory_settles:
  assumes "inFlightCopyUps st = []"
  shows "settles [] (RenameLowerDirectory os io now n cfg st old new kind replace)"
  unfolding RenameLowerDirectory_def Let_def case_prod_beta
  using assms PrepareRenameDestination_settles [OF assms]
  by (auto intro!: settles_and_then settles_rounds_then settles_rounds dest!: retire_old_entry_keeps)

lemma RenameUpperDirectory_settles:
  assumes "inFlightCopyUps st = []"
  shows "settles [] (RenameUpperDirectory os io now n cfg st old new kind replace)"
  unfolding RenameUpperDirectory_def Let_def case_prod_beta
  using PrepareRenameDestination_settles [OF assms]
  by (auto intro!: settles_and_then settles_rounds_then)

lemma MoveToUpper_settles:
  assumes "inFlightCopyUps st = []"
  shows "settles [] (MoveToUpper os io now n cfg st old new replace mode)"
  unfolding MoveToUpper_def Let_def case_prod_beta
  using assms by (auto intro!: settles_seq settles_rounds_then EnsureUpperParent_settles CopyUpFile_settles CopyUpFileOrShell_settles)

lemma RenameFileEntry_settles:
  assumes "inFlightCopyUps st = []"
  shows "settles [] (RenameFileEntry os io now n cfg st request mode)"
  unfolding RenameFileEntry_def Let_def case_prod_beta
  by (intro settles_and_then [OF MoveToUpper_settles [OF assms]]) (auto intro!: settles_rounds_then)

lemma RenameDirectoryEntry_settles:
  assumes "inFlightCopyUps st = []"
  shows "settles [] (RenameDirectoryEntry os io now n cfg st request kind route rename)"
proof -
  have lowers: "settles [] (if route = MergeLower then RenameLowerDirectory os io now n cfg st (requestOld request) (requestNew request) kind replace
      else and_then (RenameUpperDirectory os io now n cfg st (requestOld request) (requestNew request) kind replace)
        (\<lambda>(s, status). Finished (s, step_result status False)))" for replace
    using assms by (auto intro!: settles_seq RenameLowerDirectory_settles RenameUpperDirectory_settles)
  show ?thesis unfolding RenameDirectoryEntry_def Let_def
    by (rule settles_and_then [OF lowers]) (auto intro!: settles_rounds_then)
qed

lemma MoveRenameSource_settles:
  assumes "inFlightCopyUps st = []"
  shows "settles [] (MoveRenameSource os io now n cfg st request kind route mode)"
  unfolding MoveRenameSource_def Let_def
  using assms by (auto intro!: settles_seq RenameFileEntry_settles RenameDirectoryCase_settles RenameDirectoryEntry_settles)

lemma CopyUpRenameLink_settles:
  "inFlightCopyUps st = [] \<Longrightarrow> settles [] (CopyUpRenameLink os io now n cfg st links)"
  by (auto simp: CopyUpRenameLink_def CopyUpDirectory_settles split: option.splits)

lemma end_with_aside_settles: "inFlightCopyUps st = [] \<Longrightarrow> settles [] (end_with_aside os io n cfg st held result)"
  unfolding end_with_aside_def by (rule settles_rounds_then) simp

text \<open>The destination set aside, and the steps after the move of the source.\<close>

lemma aside_settles:
  assumes "inFlightCopyUps st = []"
  shows "settles [] (case destination of
        None \<Rightarrow> Finished (st, STATUS_SUCCESS, None)
      | Some kind \<Rightarrow>
          if inPlace then Finished (st, CheckDestinationReplaceable os cfg (cu_disk st) p kind, None)
          else if replace then rounds (SetRenameDestinationAside os io n cfg st p kind place)
          else Finished (st, STATUS_SUCCESS, None))"
  using assms by (auto intro!: settles_rounds split: option.splits dest!: SetRenameDestinationAside_keeps)

lemma RenameCheckedEntry_settles:
  assumes "inFlightCopyUps st = []"
  shows "settles [] (RenameCheckedEntry os io now n cfg st old new replace checked mode)"
proof -
  have moved: "settles [] (and_then (MoveRenameSource os io now n cfg st2 request kind route mode) f)"
    if "inFlightCopyUps st2 = []" "\<And>st3 x. inFlightCopyUps st3 = [] \<Longrightarrow> settles [] (f (st3, x))" for st2 request kind route f
    by (rule settles_and_then [OF MoveRenameSource_settles [OF that(1)]]) (rule that(2))
  have after: "settles [] (and_then (if b then rounds r else Finished x) f)"
    if "\<And>y. settles [] (f y)" for b r x and f :: "'w engine \<times> RenameStepResult \<Rightarrow> ('w copy_up_state \<times> RenameResult) run"
    using that by (auto intro!: settles_rounds_then)
  show ?thesis
    unfolding RenameCheckedEntry_def Let_def case_prod_beta
    by (rule settles_and_then [OF CopyUpRenameLink_settles [OF assms]])
       (auto intro!: settles_and_then [OF aside_settles] moved after settles_rounds_then end_with_aside_settles)
qed

section \<open>Operations of the engine\<close>

lemma set_engine_keeps [simp]:
  "inFlightCopyUps (lmState (set_engine m s)) = inFlightCopyUps (lmState m)" "lm_disk (set_engine m s) = engineDisk s"
  "cuEngine (lmState (set_engine m s)) = s" "lmTracker (set_engine m s) = lmTracker m"
  by (simp_all add: set_engine_def)

lemma set_cache_keeps [simp]:
  "inFlightCopyUps (lmState (set_cache m c)) = inFlightCopyUps (lmState m)" "lm_disk (set_cache m c) = lm_disk m"
  "engineCache (cuEngine (lmState (set_cache m c))) = c" "lmTracker (set_cache m c) = lmTracker m"
  by (simp_all add: set_cache_def)

lemma lm_invalidate_keeps [simp]:
  "inFlightCopyUps (lmState (lm_invalidate os m p)) = inFlightCopyUps (lmState m)" "lm_disk (lm_invalidate os m p) = lm_disk m"
  by (simp_all add: lm_invalidate_def)

lemma lookup_keeps:
  "lookup os cfg clk m p = (m', r) \<Longrightarrow> inFlightCopyUps (lmState m') = inFlightCopyUps (lmState m) \<and> lm_disk m' = lm_disk m"
  by (auto simp: lookup_def case_prod_beta)

lemma WalkCallerPath_keeps:
  "WalkCallerPath os cfg clk m p l = (m', r) \<Longrightarrow> inFlightCopyUps (lmState m') = inFlightCopyUps (lmState m) \<and> lm_disk m' = lm_disk m"
  by (auto simp: WalkCallerPath_def case_prod_beta)

lemma tracker_allows_keeps:
  assumes "tracker_allows os pc clk m pid p op = (m', b)"
  shows "inFlightCopyUps (lmState m') = inFlightCopyUps (lmState m) \<and> lm_disk m' = lm_disk m \<and>
    engineCache (cuEngine (lmState m')) = engineCache (cuEngine (lmState m))"
  using assms by (auto simp: tracker_allows_def set_engine_def case_prod_beta Let_def split: option.splits if_splits)

lemma CanDeleteEntry_keeps:
  assumes "CanDeleteEntry os pc cfg clk m h s pid = (m', r)"
  shows "inFlightCopyUps (lmState m') = inFlightCopyUps (lmState m) \<and> lm_disk m' = lm_disk m"
proof -
  obtain m1 allow where t: "tracker_allows os pc clk m pid h OpDelete = (m1, allow)" by fastforce
  obtain m2 res where l: "lookup os cfg clk m1 h = (m2, res)" by fastforce
  have "m' = m1 \<or> m' = m2" using assms by (auto simp: CanDeleteEntry_def t l Let_def case_prod_beta split: if_splits)
  then show ?thesis using tracker_allows_keeps [OF t] lookup_keeps [OF l] by auto
qed

lemma CheckRenameRequest_keeps:
  assumes "CheckRenameRequest os pc cfg clk m old new pid = (m', r)"
  shows "inFlightCopyUps (lmState m') = inFlightCopyUps (lmState m) \<and> lm_disk m' = lm_disk m"
proof -
  obtain m1 allow where t: "tracker_allows os pc clk m pid old OpRename = (m1, allow)" by fastforce
  have "m' = m \<or> m' = m1" using assms by (auto simp: CheckRenameRequest_def t split: option.splits if_splits)
  then show ?thesis using tracker_allows_keeps [OF t] by auto
qed

lemma CheckRenameDestination_keeps:
  assumes "CheckRenameDestination os cfg clk m old new src_path replace kinds = (m', r)"
  shows "inFlightCopyUps (lmState m') = inFlightCopyUps (lmState m) \<and> lm_disk m' = lm_disk m"
proof -
  obtain m1 dest where l: "lookup os cfg clk m new = (m1, dest)" by fastforce
  have "m' = m \<or> m' = m1" using assms by (auto simp: CheckRenameDestination_def l Let_def case_prod_beta split: if_splits)
  then show ?thesis using lookup_keeps [OF l] by auto
qed

lemma CheckRename_keeps:
  assumes "CheckRename os pc cfg clk m old new replace pid checked = (m', r)"
  shows "inFlightCopyUps (lmState m') = inFlightCopyUps (lmState m) \<and> lm_disk m' = lm_disk m"
proof -
  obtain m1 status where c: "CheckRenameRequest os pc cfg clk m old new pid = (m1, status)" by fastforce
  obtain m2 src where l: "lookup os cfg clk m1 old = (m2, src)" by fastforce
  obtain c3 ls links where b: "CheckRenameLinkBoundary os (lm_disk m2) cfg (cacheClock clk) (engineCache (cuEngine (lmState m2))) old new
      (checkedLinks checked) = (c3, ls, links)" by (metis prod_cases3)
  have "m' = m1 \<or> m' = m2 \<or> m' = set_cache m2 c3 \<or>
      (\<exists>src_path kinds r'. CheckRenameDestination os cfg clk (set_cache m2 c3) old new src_path replace kinds = (m', r'))"
    using assms by (fastforce simp: CheckRename_def c l b Let_def case_prod_beta split: if_splits intro: prod_eqI)
  then show ?thesis
    using CheckRenameRequest_keeps [OF c] lookup_keeps [OF l] by (auto dest!: CheckRenameDestination_keeps)
qed

text \<open>A run of the engine that does not wait and ends with no reservation.\<close>

definition quiet :: "('w layer_mount \<times> 'a) run \<Rightarrow> bool" where
  "quiet r \<longleftrightarrow> (case r of Finished (m, x) \<Rightarrow> inFlightCopyUps (lmState m) = [] | Waits p \<Rightarrow> False | NeedsRounds \<Rightarrow> True)"

lemma quiet_simps [simp]:
  "quiet (Finished (m, x)) \<longleftrightarrow> inFlightCopyUps (lmState m) = []" "\<not> quiet (Waits p)" "quiet NeedsRounds"
  by (simp_all add: quiet_def)

lemma quiet_and_then:
  assumes "quiet r" "\<And>m x. inFlightCopyUps (lmState m) = [] \<Longrightarrow> quiet (f (m, x))"
  shows "quiet (and_then r f)"
proof (cases r)
  case (Finished a)
  then show ?thesis using assms by (cases a) simp
qed (use assms in simp_all)

lemma quiet_with_state: "settles [] r \<Longrightarrow> quiet (with_state m r)"
  by (cases r) (auto simp: with_state_def case_prod_beta settles_def)

lemma quiet_rounds_then:
  assumes "\<And>x. quiet (f x)"
  shows "quiet (and_then (rounds r) f)"
  using assms by (cases r) auto

lemma EnsureInUpperLayer_quiet:
  assumes "inFlightCopyUps (lmState m) = []"
  shows "quiet (EnsureInUpperLayer os io n cfg clk m p)"
  unfolding EnsureInUpperLayer_def Let_def
  using assms by (auto split: prod.splits intro!: quiet_with_state CopyUpDirectory_settles CopyUpFile_settles
      dest!: lookup_keeps WalkCallerPath_keeps)

lemma DeleteStreamByPath_quiet:
  assumes "inFlightCopyUps (lmState m) = []"
  shows "quiet (DeleteStreamByPath os io n cfg clk m h s)"
  unfolding DeleteStreamByPath_def Let_def
  using assms by (auto simp: case_prod_beta split: prod.splits sum.splits intro!: quiet_and_then quiet_with_state CopyUpFile_settles)

lemma CopyUpLowerLinkAbove_settles:
  "inFlightCopyUps st = [] \<Longrightarrow> settles [] (CopyUpLowerLinkAbove os io now n cfg st p)"
  by (auto simp: CopyUpLowerLinkAbove_def Let_def case_prod_beta CopyUpDirectory_settles split: LinkStop.splits)

lemma RemoveEntry_quiet:
  assumes "inFlightCopyUps (lmState m) = []"
  shows "quiet (RemoveEntry os io n cfg clk m h)"
  unfolding RemoveEntry_def
  using assms by (auto intro!: quiet_and_then quiet_with_state quiet_rounds_then CopyUpLowerLinkAbove_settles)

lemma LayerMount_Delete_quiet:
  assumes "inFlightCopyUps (lmState m) = []"
  shows "quiet (LayerMount_Delete os io pc n cfg clk m p pid)"
  unfolding LayerMount_Delete_def Let_def
  using assms by (auto split: prod.splits option.splits intro!: DeleteStreamByPath_quiet RemoveEntry_quiet
      dest!: CanDeleteEntry_keeps WalkCallerPath_keeps)

lemma RenameViewPaths_quiet:
  assumes "inFlightCopyUps (lmState m) = []"
  shows "quiet (RenameViewPaths os io pc n cfg clk m old new replace pid)"
  unfolding RenameViewPaths_def Let_def
  using assms by (auto split: prod.splits intro!: quiet_and_then quiet_with_state RenameCheckedEntry_settles dest!: CheckRename_keeps)

lemma LayerMount_Rename_quiet:
  assumes "inFlightCopyUps (lmState m) = []"
  shows "quiet (LayerMount_Rename os io pc n cfg clk m old new replace pid)"
  unfolding LayerMount_Rename_def
  using assms by (auto split: prod.splits intro!: RenameViewPaths_quiet dest!: WalkCallerPath_keeps)

text \<open>
  C7: A rename, a delete and a copy-up asked of the engine never wait for themselves. With no copy-up
  running, whatever the file system answers, the operation reaches no reservation that it holds itself, although a
  rename copies up links, parents, the source and the children of a merged directory on its way; and at
  its end, after success, failure and rollback alike, no reservation is left that would make a later operation wait.
\<close>

theorem engine_never_waits:
  assumes "inFlightCopyUps (lmState m) = []"
  shows "quiet (LayerMount_Rename os io pc n cfg clk m old new replace pid) \<and>
    quiet (LayerMount_Delete os io pc n cfg clk m p pid) \<and> quiet (EnsureInUpperLayer os io n cfg clk m p)"
  by (intro conjI LayerMount_Rename_quiet LayerMount_Delete_quiet EnsureInUpperLayer_quiet assms)

definition sample_mount :: "mem_disk \<Rightarrow> mem_disk layer_mount" where
  "sample_mount w = \<lparr>lmState = sample_copy_up w, lmTracker = None\<rparr>"

abbreviation sample_clocks :: clocks where "sample_clocks \<equiv> \<lparr>cacheClock = 3, steadyClock = 0, systemClock = 0\<rparr>"

theorem engine_never_waits_witness:
  "\<forall>p. LayerMount_Rename mem_host mem_io sample_calls 9 sample_config sample_clocks (sample_mount sample_disk) (wlit ''c'') (wlit ''e'') False 0 \<noteq> Waits p"
proof -
  have e: "inFlightCopyUps (lmState (sample_mount sample_disk)) = []" by (simp add: sample_mount_def sample_copy_up_def)
  have "quiet (LayerMount_Rename mem_host mem_io sample_calls 9 sample_config sample_clocks (sample_mount sample_disk) (wlit ''c'') (wlit ''e'') False 0)"
    using engine_never_waits [OF e, where os = mem_host and io = mem_io and pc = sample_calls and n = 9 and cfg = sample_config
        and clk = sample_clocks and old = "wlit ''c''" and new = "wlit ''e''" and replace = False and pid = 0] by blast
  then show ?thesis by auto
qed

end
