(* ===== verification/Engine_Safety.thy ===== *)
theory Engine_Safety
  imports Engine_Runs
begin

text \<open>
  What a delete and a rename keep. The lookups of the engine are those of the view, whatever the cache
  of paths holds; so the checks before a delete and a rename judge the view, and an entry that they
  protect is still there when the operation has ended.
\<close>

section \<open>Lookups of the engine\<close>

definition mount_coherent :: "('w, 'h) host \<Rightarrow> LayerConfig \<Rightarrow> 'w layer_mount \<Rightarrow> bool" where
  "mount_coherent os cfg m \<longleftrightarrow> coherent os (lm_disk m) cfg (engineCache (cuEngine (lmState m)))"

text \<open>What the view shows at a path, by the layers on the disk alone.\<close>

definition shown_at :: "('w, 'h) host \<Rightarrow> LayerConfig \<Rightarrow> 'w layer_mount \<Rightarrow> wstring \<Rightarrow> ResolvedPath" where
  "shown_at os cfg m p = resolve_view os (lm_disk m) cfg (Suc kMaxRedirectDepth) p"

lemma shown_at_disk: "lm_disk m' = lm_disk m \<Longrightarrow> shown_at os cfg m' p = shown_at os cfg m p"
  by (simp add: shown_at_def)

lemma mount_coherent_cache: "mount_coherent os cfg (set_cache m c) \<longleftrightarrow> coherent os (lm_disk m) cfg c"
  by (simp add: mount_coherent_def)

lemma lookup_view:
  assumes "lower_table_ok os" "mount_coherent os cfg m" "lookup os cfg clk m p = (m', r)"
  shows "r = shown_at os cfg m p" "lm_disk m' = lm_disk m" "mount_coherent os cfg m'"
proof -
  obtain c x where x: "ResolvePath os (lm_disk m) cfg (cacheClock clk) (engineCache (cuEngine (lmState m))) p = (c, x)" by fastforce
  have m': "m' = set_cache m c" "r = x" using assms(3) x by (simp_all add: lookup_def)
  have "x = shown_at os cfg m p \<and> coherent os (lm_disk m) cfg c"
    unfolding shown_at_def by (rule ResolvePath_view [OF assms(1) assms(2) [unfolded mount_coherent_def] x])
  then show "r = shown_at os cfg m p" "lm_disk m' = lm_disk m" "mount_coherent os cfg m'"
    by (simp_all add: m' mount_coherent_cache)
qed

lemma ViewPathThroughLinks_coherent:
  assumes "lower_table_ok os" "coherent os w cfg c" "ViewPathThroughLinks os w cfg now c p f = (c', x)"
  shows "coherent os w cfg c'"
  using assms by (auto simp: ViewPathThroughLinks_def Let_def split: if_splits option.splits prod.splits dest!: view_walk_coherent)

lemma WalkCallerPath_coherent:
  assumes "lower_table_ok os" "mount_coherent os cfg m" "WalkCallerPath os cfg clk m p f = (m', st, v)"
  shows "mount_coherent os cfg m'" "lm_disk m' = lm_disk m"
proof -
  obtain c x where x: "ViewPathThroughLinks os (lm_disk m) cfg (cacheClock clk) (engineCache (cuEngine (lmState m))) p f = (c, x)" by (metis surj_pair)
  have "m' = set_cache m c" using assms(3) x by (auto simp: WalkCallerPath_def split: prod.splits)
  then show "mount_coherent os cfg m'" "lm_disk m' = lm_disk m"
    using ViewPathThroughLinks_coherent [OF assms(1) assms(2) [unfolded mount_coherent_def] x] by (simp_all add: mount_coherent_cache)
qed

lemma tracker_allows_coherent:
  assumes "mount_coherent os cfg m" "tracker_allows os pc clk m pid p op = (m', b)"
  shows "mount_coherent os cfg m'" "lm_disk m' = lm_disk m"
  using assms(1) tracker_allows_keeps [OF assms(2)] by (simp_all add: mount_coherent_def)

lemma CheckRenameRequest_coherent:
  assumes "mount_coherent os cfg m" "CheckRenameRequest os pc cfg clk m old new pid = (m', r)"
  shows "mount_coherent os cfg m'" "lm_disk m' = lm_disk m"
proof -
  obtain m1 allow where t: "tracker_allows os pc clk m pid old OpRename = (m1, allow)" by fastforce
  have "m' = m \<or> m' = m1" using assms(2) by (auto simp: CheckRenameRequest_def t split: option.splits if_splits)
  then show "mount_coherent os cfg m'" "lm_disk m' = lm_disk m" using assms(1) tracker_allows_coherent [OF assms(1) t] by auto
qed

lemma CheckRenameLinkBoundary_coherent:
  assumes "lower_table_ok os" "coherent os w cfg c" "CheckRenameLinkBoundary os w cfg now c old new links = (c', r)"
  shows "coherent os w cfg c'"
proof -
  have "coherent os w cfg c1" if "ShownParentTarget os w cfg now c new = (c1, t)" for c1 t
    using that assms(1,2) by (auto simp: ShownParentTarget_def Let_def split: if_splits prod.splits dest!: ResolvePath_view)
  then show ?thesis using assms(2,3)
    by (auto simp: CheckRenameLinkBoundary_def Let_def split: if_splits prod.splits LinkTargetKind.splits)
qed

section \<open>Checks\<close>

lemma refusals [simp]:
  "\<not> NT_SUCCESS STATUS_INVALID_PARAMETER" "\<not> NT_SUCCESS STATUS_OBJECT_PATH_NOT_FOUND" "\<not> NT_SUCCESS STATUS_NOT_SAME_DEVICE"
  "\<not> NT_SUCCESS STATUS_OBJECT_NAME_COLLISION" "\<not> NT_SUCCESS STATUS_DIRECTORY_NOT_EMPTY" "\<not> NT_SUCCESS STATUS_NOT_A_DIRECTORY"
  "\<not> NT_SUCCESS STATUS_FILE_IS_A_DIRECTORY" "\<not> NT_SUCCESS STATUS_ACCESS_DENIED" "\<not> NT_SUCCESS STATUS_CANNOT_DELETE"
  "\<not> NT_SUCCESS STATUS_OBJECT_NAME_NOT_FOUND" "\<not> NT_SUCCESS STATUS_OBJECT_NAME_INVALID"
  by (simp_all add: NT_SUCCESS_def)

lemma UnderItselfStatus_fails: "open_errors os \<Longrightarrow> \<not> NT_SUCCESS (UnderItselfStatus os w kind p)"
  using LinkTargetOf_fails [of os w p]
  by (cases "LinkTargetOf os w p") (auto simp: UnderItselfStatus_def split: EntryKind.splits LinkTargetKind.splits)

text \<open>The kind of an entry of the view, when the file system lets it be read.\<close>

definition shown_kind :: "('w, 'h) host \<Rightarrow> LayerConfig \<Rightarrow> 'w layer_mount \<Rightarrow> wstring \<Rightarrow> EntryKind option" where
  "shown_kind os cfg m p =
     (let r = shown_at os cfg m p; (st, kind) = EntryKindOf os (lm_disk m) (absolutePath r) (attributes r) FileEntry in
      if Found r \<and> NT_SUCCESS st then Some kind else None)"

lemma shown_kind_disk:
  assumes "lm_disk m' = lm_disk m"
  shows "shown_kind os cfg m' = shown_kind os cfg m"
  by (intro ext) (simp add: shown_kind_def shown_at_disk [OF assms] assms)

lemma EntryKindOf_default: "EntryKindOf os w p a k = (st, kind) \<Longrightarrow> NT_SUCCESS st \<Longrightarrow> EntryKindOf os w p a k' = (st, kind)"
  by (auto simp: EntryKindOf_def Let_def split: if_splits prod.splits)

text \<open>What the checks have seen of a destination that the view shows, when they accept the rename.\<close>

definition replaceable :: "('w, 'h) host \<Rightarrow> LayerConfig \<Rightarrow> 'w layer_mount \<Rightarrow> wstring \<Rightarrow> wstring \<Rightarrow> bool \<Rightarrow> bool" where
  "replaceable os cfg m old new replace \<longleftrightarrow>
     replace \<and> \<not> IsInsideDirectory new old \<and> \<not> IsInsideDirectory old new \<and>
     shown_kind os cfg m old \<noteq> None \<and> shown_kind os cfg m new \<noteq> None \<and>
     (shown_kind os cfg m old = Some DirectoryEntry \<longleftrightarrow> shown_kind os cfg m new = Some DirectoryEntry) \<and>
     (shown_kind os cfg m new = Some DirectoryEntry \<longrightarrow> NT_SUCCESS (DirectoryEmptinessStatus os (lm_disk m) cfg new))"

lemma CheckRenameDestination_accepts:
  assumes "lower_table_ok os" "open_errors os" "mount_coherent os cfg m" "Found (shown_at os cfg m new)"
    and "CheckRenameDestination os cfg clk m old new src_path replace kinds = (m', st, kinds')" "NT_SUCCESS st"
    and "shown_kind os cfg m old = Some (kindsSource kinds)"
  shows "replaceable os cfg m old new replace"
proof -
  obtain m1 dest where l: "lookup os cfg clk m new = (m1, dest)" by fastforce
  note v = lookup_view [OF assms(1,3) l]
  obtain ks kind where k: "EntryKindOf os (lm_disk m) (absolutePath dest) (attributes dest) FileEntry = (ks, kind)" by fastforce
  have apart: "\<not> IsInsideDirectory new old" and ok: "replace" "\<not> IsInsideDirectory old new" "NT_SUCCESS ks"
    using assms(4-6) UnderItselfStatus_fails [OF assms(2)] l k v by (auto simp: CheckRenameDestination_def Let_def split: if_splits)
  have new: "shown_kind os cfg m new = Some kind" using k ok(3) v(1) assms(4) by (simp add: shown_kind_def)
  have "(kindsSource kinds = DirectoryEntry \<longleftrightarrow> kind = DirectoryEntry) \<and>
      (kind = DirectoryEntry \<longrightarrow> NT_SUCCESS (DirectoryEmptinessStatus os (lm_disk m) cfg new))"
    using assms(4-6) apart ok l k v by (auto simp: CheckRenameDestination_def Let_def split: if_splits)
  then show ?thesis using apart ok new assms(7) by (simp add: replaceable_def)
qed

lemma CheckRename_accepts:
  assumes "lower_table_ok os" "open_errors os" "mount_coherent os cfg m" "Found (shown_at os cfg m new)" "old \<noteq> new"
    and "CheckRename os pc cfg clk m old new replace pid checked = (m', st, checked')" "NT_SUCCESS st"
  shows "replaceable os cfg m old new replace"
proof -
  obtain m1 rs where q: "CheckRenameRequest os pc cfg clk m old new pid = (m1, rs)" by fastforce
  note c1 = CheckRenameRequest_coherent [OF assms(3) q]
  obtain m2 src where l: "lookup os cfg clk m1 old = (m2, src)" by fastforce
  note v = lookup_view [OF assms(1) c1(1) l]
  obtain c3 ls links where b: "CheckRenameLinkBoundary os (lm_disk m2) cfg (cacheClock clk) (engineCache (cuEngine (lmState m2))) old new
      (checkedLinks checked) = (c3, ls, links)" by (metis prod_cases3)
  have c3: "mount_coherent os cfg (set_cache m2 c3)" "lm_disk (set_cache m2 c3) = lm_disk m"
    using CheckRenameLinkBoundary_coherent [OF assms(1) v(3) [unfolded mount_coherent_def] b] v(2) c1(2) by (simp_all add: mount_coherent_cache)
  obtain ks kind where k: "EntryKindOf os (lm_disk m) (absolutePath src) (attributes src) (kindsSource (checkedKinds checked)) = (ks, kind)" by fastforce
  have ok: "Found src" "NT_SUCCESS rs" "NT_SUCCESS ls" "NT_SUCCESS ks"
    using assms(6,7) q l b k v(2) c1(2) by (auto simp: CheckRename_def Let_def split: if_splits prod.splits)
  have kind: "shown_kind os cfg (set_cache m2 c3) old = Some kind"
    using EntryKindOf_default [OF k ok(4), of FileEntry] ok(1,4) v(1,2) c1(2) by (simp add: shown_kind_def shown_at_disk [OF c3(2)] shown_at_disk [OF c1(2)])
  obtain kinds st' kinds' m4 where d: "CheckRenameDestination os cfg clk (set_cache m2 c3) old new (absolutePath src) replace kinds = (m4, st', kinds')"
    "NT_SUCCESS st'" "kindsSource kinds = kind"
    using assms(5-7) q l b k v(2) c1(2) ok by (fastforce simp: CheckRename_def Let_def split: if_splits prod.splits)
  have "Found (shown_at os cfg (set_cache m2 c3) new)" using assms(4) by (simp add: shown_at_disk [OF c3(2)])
  from CheckRenameDestination_accepts [OF assms(1,2) c3(1) this d(1,2)] kind d(3)
  have "replaceable os cfg (set_cache m2 c3) old new replace" by simp
  then show ?thesis by (simp add: replaceable_def shown_kind_disk [OF c3(2)] v(2) c1(2))
qed

text \<open>
  C5: A rename never destroys an entry that it must not replace. When the view shows an entry at the new
  name, the rename ends with a failure and has changed nothing on the disk, unless the caller asked to
  replace, neither name lies inside the other, the kinds of both entries can be read, both or neither are
  directories, and a directory at the new name is empty in the merged view.
\<close>

theorem rename_keeps_destination:
  assumes "lower_table_ok os" "open_errors os" "mount_coherent os cfg m" "NormalizePath os old \<noteq> NormalizePath os new"
    and "Found (shown_at os cfg m (NormalizePath os new))" "\<not> replaceable os cfg m (NormalizePath os old) (NormalizePath os new) replace"
  shows "\<exists>m' st. RenameViewPaths os io pc n cfg clk m old new replace pid = Finished (m', st) \<and> \<not> NT_SUCCESS st \<and> lm_disk m' = lm_disk m"
proof -
  obtain m1 st checked where c: "CheckRename os pc cfg clk m (NormalizePath os old) (NormalizePath os new) replace pid unchecked_rename = (m1, st, checked)"
    by (metis prod_cases3)
  have "\<not> NT_SUCCESS st" using CheckRename_accepts [OF assms(1-3,5,4) c] assms(6) by blast
  then show ?thesis using c CheckRename_keeps [OF c] by (simp add: RenameViewPaths_def Let_def)
qed

section \<open>Directories that hold entries\<close>

lemma full_directory_status:
  assumes "lower_table_ok os" "marker_table_ok os" "NormalizePath os d = d" "d = join_with bslash ss" "ss \<noteq> []" "plain_key os ss x"
    and "\<forall>L \<in> set (upperPath cfg # lowerPaths cfg). layer_laws os (lm_disk m) cfg ss L"
    and "IsResolvablePath os (lm_disk m) cfg d" "IsResolvablePath os (lm_disk m) cfg (join_with bslash (ss @ [x]))"
    and "upper_redirect os (lm_disk m) cfg (join_with bslash (ss @ [x])) = None" "Found (shown_at os cfg m (join_with bslash (ss @ [x])))"
  shows "DirectoryEmptinessStatus os (lm_disk m) cfg d = STATUS_DIRECTORY_NOT_EMPTY"
proof -
  let ?p = "join_with bslash (ss @ [x])" and ?w = "lm_disk m"
  have new: "coherent os ?w cfg (new_Cache 1)" by (rule coherent_new)
  obtain c r where r: "ResolvePath os ?w cfg 0 (new_Cache 1) ?p = (c, r)" by fastforce
  have found: "Found r" using ResolvePath_view [OF assms(1) new r] assms(11) by (simp add: shown_at_def)
  have "NT_SUCCESS (mergedStatus (MergeDirectoryAcrossLayers os ?w cfg d)) \<and>
      rel_option same_entry (Some r) (mergedEntries (MergeDirectoryAcrossLayers os ?w cfg d) x)"
    using listing_matches_lookup [OF assms(1,2) new assms(3) [unfolded assms(4)] assms(6,7) _ assms(9,10), of 0] assms(4,8) r found
    by (simp only: snd_conv if_True simp_thms)
  then show ?thesis by (auto simp: DirectoryEmptinessStatus_def Let_def option_rel_Some1)
qed

lemma CanDeleteEntry_refuses:
  assumes "lower_table_ok os" "mount_coherent os cfg m" "shown_kind os cfg m d = Some DirectoryEntry"
    and "DirectoryEmptinessStatus os (lm_disk m) cfg d = STATUS_DIRECTORY_NOT_EMPTY"
  shows "\<not> NT_SUCCESS (snd (CanDeleteEntry os pc cfg clk m d [] pid))"
proof -
  obtain m1 allow where t: "tracker_allows os pc clk m pid d OpDelete = (m1, allow)" by fastforce
  note c1 = tracker_allows_coherent [OF assms(2) t]
  obtain m2 r where l: "lookup os cfg clk m1 d = (m2, r)" by fastforce
  note v = lookup_view [OF assms(1) c1(1) l]
  obtain ks kind where k: "EntryKindOf os (lm_disk m) (absolutePath r) (attributes r) FileEntry = (ks, kind)" by fastforce
  then have "kind = DirectoryEntry" using assms(3) v(1) by (simp add: shown_kind_def shown_at_disk [OF c1(2)] split: if_splits)
  then show ?thesis using t l k v(2) c1(2) assms(4) by (simp add: CanDeleteEntry_def)
qed

text \<open>
  C4: A directory that holds an entry is not lost. When the view shows an entry with a plain name below a directory, a delete
  of the directory and a rename of another entry onto it, with or without the flag that replaces, end with a
  failure and change nothing on the disk. It is assumed that the cache of paths is coherent, holding only what the
  layers say (lookups keep it so), that the path of the directory is in normal form, that both paths are resolvable, that no redirect is
  recorded for the entry, that the layers answer as a disk does (\<open>layer_laws\<close>), and that a failed open sets an error.
\<close>

theorem full_directory_kept:
  assumes "lower_table_ok os" "marker_table_ok os" "open_errors os" "mount_coherent os cfg m"
    and "NormalizePath os d = d" "d = join_with bslash ss" "ss \<noteq> []" "plain_key os ss x"
    and "\<forall>L \<in> set (upperPath cfg # lowerPaths cfg). layer_laws os (lm_disk m) cfg ss L"
    and "IsResolvablePath os (lm_disk m) cfg d" "IsResolvablePath os (lm_disk m) cfg (join_with bslash (ss @ [x]))"
    and "upper_redirect os (lm_disk m) cfg (join_with bslash (ss @ [x])) = None" "Found (shown_at os cfg m (join_with bslash (ss @ [x])))"
    and "shown_kind os cfg m d = Some DirectoryEntry"
    and "viewNormalized (snd (snd (WalkCallerPath os cfg clk m p Keep))) = d"
    and "NormalizePath os new = d" "NormalizePath os old \<noteq> d"
  shows "(\<exists>m' st. LayerMount_Delete os io pc n cfg clk m p pid = Finished (m', st) \<and> \<not> NT_SUCCESS st \<and> lm_disk m' = lm_disk m) \<and>
    (\<exists>m' st. RenameViewPaths os io pc n cfg clk m old new replace pid = Finished (m', st) \<and> \<not> NT_SUCCESS st \<and> lm_disk m' = lm_disk m)"
proof
  note full = full_directory_status [OF assms(1,2,5-13)]
  obtain m1 ws v where w: "WalkCallerPath os cfg clk m p Keep = (m1, ws, v)" by (metis prod_cases3)
  note c1 = WalkCallerPath_coherent [OF assms(1,4) w]
  have "wcolon \<notin> set d" using assms(6,8) colon_join_names by (simp add: plain_key_def)
  then have parse: "TryParseStreamPath os d = None \<or> TryParseStreamPath os d = Some (d, [])" by (simp add: parse_no_colon)
  obtain m2 st where d: "CanDeleteEntry os pc cfg clk m1 d [] pid = (m2, st)" by fastforce
  have "\<not> NT_SUCCESS st"
    using CanDeleteEntry_refuses [OF assms(1) c1(1), of d pc clk pid] full assms(14) c1(2) d by (simp add: shown_kind_disk [OF c1(2)])
  then show "\<exists>m' st. LayerMount_Delete os io pc n cfg clk m p pid = Finished (m', st) \<and> \<not> NT_SUCCESS st \<and> lm_disk m' = lm_disk m"
    using w assms(15) parse d CanDeleteEntry_keeps [OF d] c1(2) by (auto simp: LayerMount_Delete_def)
next
  obtain m1 st checked where c: "CheckRename os pc cfg clk m (NormalizePath os old) d replace pid unchecked_rename = (m1, st, checked)"
    by (metis prod_cases3)
  have "Found (shown_at os cfg m d)" using assms(14) by (auto simp: shown_kind_def Let_def split: prod.splits if_splits)
  moreover have "\<not> replaceable os cfg m (NormalizePath os old) d replace"
    using assms(14) full_directory_status [OF assms(1,2,5-13)] by (simp add: replaceable_def)
  ultimately have "\<not> NT_SUCCESS st" using CheckRename_accepts [OF assms(1,3,4) _ assms(17) c] by blast
  then show "\<exists>m' st. RenameViewPaths os io pc n cfg clk m old new replace pid = Finished (m', st) \<and> \<not> NT_SUCCESS st \<and> lm_disk m' = lm_disk m"
    using c CheckRename_keeps [OF c] assms(16) by (simp add: RenameViewPaths_def Let_def)
qed

section \<open>Old names that a lower holds\<close>

lemma WhiteOutSource_succeeds:
  assumes "WhiteOutSource os n cfg s rename type = Some (s', r)" "NT_SUCCESS (stepStatus r)"
  obtains st where "CreateWhiteout os cfg s (oldNorm rename) type = (s', st)" "NT_SUCCESS st"
  using assms by (auto simp: WhiteOutSource_def case_prod_beta Let_def split: if_splits option.splits) (metis prod.collapse)

text \<open>
  C6: A renamed file does not come back under its old name. When a lower holds the old name and the move
  reports success, the upper holds a whiteout of the old name, so that the file of the lower is not shown in
  place of the one that moved away; if that whiteout cannot be written, the rename reports the failure.
\<close>

theorem renamed_file_hides_lower:
  assumes "creates_plain os" "cloud_failures (CloudFileStatus os)"
    and "NormalizePath os (requestOld request) = k" "k = join_with bslash (ss @ [x])" "names (ss @ [x])"
    and "Found (ResolveLowerPath os (cu_disk st) cfg k)"
    and "\<forall>st1 file_moved. MoveToUpper os io now n cfg st (requestOld request) (requestNew request) (requestFileReplace request) mode =
      Finished (st1, file_moved) \<longrightarrow> tree_like os (cu_disk st1) (upperPath cfg)"
    and "RenameFileEntry os io now n cfg st request mode = Finished (st', moved)" "NT_SUCCESS (movedStatus moved)"
  shows "HasWhiteout os (cu_disk st') k (upperPath cfg)"
proof -
  obtain st1 fm where m: "MoveToUpper os io now n cfg st (requestOld request) (requestNew request) (requestFileReplace request) mode = Finished (st1, fm)"
    using assms(8) by (cases "MoveToUpper os io now n cfg st (requestOld request) (requestNew request) (requestFileReplace request) mode")
      (auto simp: RenameFileEntry_def Let_def)
  then have tree: "tree_like os (engineDisk (cuEngine st1)) (upperPath cfg)" using assms(7) by blast
  have "NT_SUCCESS (movedFileStatus fm)" using assms(3,6,8,9) m by (auto simp: RenameFileEntry_def Let_def split: if_splits)
  then obtain rename s r where w: "WhiteOutSource os n cfg (cuEngine st1) rename WhiteoutFile = Some (s, r)" "oldNorm rename = k"
      "st' = st1\<lparr>cuEngine := s\<rparr>" "NT_SUCCESS (stepStatus r)"
    using assms(3,6,8,9) m
    by (cases "WhiteOutSource os n cfg (cuEngine st1) \<lparr>oldNorm = k, newNorm = NormalizePath os (requestNew request), oldUpperPath = movedFileOldPath fm,
        opaqueMarker = UndoKeep\<rparr> WhiteoutFile") (auto simp: RenameFileEntry_def Let_def)
  from WhiteOutSource_succeeds [OF w(1,4)] obtain ws where c: "CreateWhiteout os cfg (cuEngine st1) k WhiteoutFile = (s, ws)" "NT_SUCCESS ws"
    using w(2) by blast
  from CreateWhiteout_writes [OF assms(1,2) tree assms(5) _ c [unfolded assms(4)]] show ?thesis by (simp add: w(3) assms(4))
qed

section \<open>On the disk in memory\<close>

lemma sample_coherent: "mount_coherent os cfg (sample_mount w)"
  by (simp add: mount_coherent_def sample_mount_def sample_copy_up_def coherent_new)

theorem rename_keeps_destination_witness:
  "\<exists>m' st. RenameViewPaths mem_host mem_io sample_calls 9 sample_config sample_clocks (sample_mount sample_disk) (wlit ''C'') (wlit ''a'') True 0 =
       Finished (m', st) \<and> \<not> NT_SUCCESS st \<and> lm_disk m' = sample_disk"
proof -
  let ?m = "sample_mount sample_disk"
  have k: "NormalizePath mem_host (wlit ''C'') = wlit ''c''" "NormalizePath mem_host (wlit ''a'') = wlit ''a''" by code_simp+
  have "Found (shown_at mem_host sample_config ?m (wlit ''a''))" by code_simp
  moreover have "shown_kind mem_host sample_config ?m (wlit ''a'') = Some DirectoryEntry"
    "shown_kind mem_host sample_config ?m (wlit ''c'') = Some FileEntry" by code_simp+
  then have "\<not> replaceable mem_host sample_config ?m (wlit ''c'') (wlit ''a'') True" by (simp add: replaceable_def)
  moreover have "wlit ''c'' \<noteq> wlit ''a''" by code_simp
  moreover have "lm_disk ?m = sample_disk" by (simp add: sample_mount_def sample_copy_up_def)
  ultimately show ?thesis
    using rename_keeps_destination [OF mem_host_lower_table mem_open_errors sample_coherent, of "wlit ''C''" "wlit ''a''" sample_config sample_disk True] k
    by simp
qed

text \<open>A directory of the upper whose only entry is in the lower.\<close>

definition full_disk :: mem_disk where
  "full_disk =
     [(on_disk sample_upper, mem_dir),
      (on_disk (JoinDirPath sample_upper (wlit ''d'')), mem_dir),
      (on_disk sample_lower, mem_dir),
      (on_disk (JoinDirPath sample_lower (wlit ''d'')), mem_dir),
      (on_disk (JoinDirPath sample_lower (wlit ''d'' @ [bslash] @ wlit ''x'')), mem_file []),
      (on_disk (JoinDirPath sample_lower (wlit ''e'')), mem_dir)]"

lemma listing_complete_below:
  assumes "is_name s" "L \<noteq> []" "last L \<noteq> bslash" "listing_complete os w (JoinDirPath L s) []"
  shows "listing_complete os w L [s]"
proof -
  have s: "s \<noteq> []" "last s \<noteq> bslash" using is_nameD(1,2) [OF assms(1)] by (simp_all, metis last_in_set)
  have "JoinLayerScanPath L s = JoinLayerScanPath (JoinDirPath L s) []" "JoinDirPath L (s @ bslash # n) = JoinDirPath (JoinDirPath L s) n" for n
    using s assms(2,3) by (auto simp: JoinLayerScanPath_def JoinDirPath_def DirWithSeparator_def)
  then show ?thesis using assms(4) by (simp add: listing_complete_def split: sum.splits prod.splits)
qed

lemma full_disk_laws:
  "L \<in> set (upperPath sample_config # lowerPaths sample_config) \<Longrightarrow> layer_laws mem_host full_disk sample_config [wlit ''d''] L"
proof -
  assume "L \<in> set (upperPath sample_config # lowerPaths sample_config)"
  then have L: "L = sample_upper \<or> L = sample_lower" by (simp add: sample_config_def)
  have s: "list_all (\<lambda>(k, n). \<not> starts_with k (mem_key (win32Directory mem_host (upperPath sample_config)))) full_disk" by code_simp
  have tree: "mem_tree full_disk L" "drive_root L" using L by (elim disjE; hypsubst; (rule sample_roots | code_simp))+
  have "drive_root (JoinDirPath L (wlit ''d''))" "mem_directory full_disk (butlast (mem_base (JoinDirPath L (wlit ''d''))))" "L \<noteq> []" "last L \<noteq> bslash"
    using L by (elim disjE; hypsubst; code_simp)+
  moreover have "distinct (map fst full_disk)" "list_all (\<lambda>(k, n). map ascii_lower k = k) full_disk" by code_simp+
  ultimately have "listing_complete mem_host full_disk L [wlit ''d'']"
    by (intro listing_complete_below mem_listing_complete) (simp_all add: is_name_def is_slash_def)
  then show ?thesis
    using mem_tree_like tree mem_no_stale_opaque [OF tree _ s] sample_roots by (simp add: layer_laws_def)
qed

theorem full_directory_kept_witness:
  "\<exists>m' st. LayerMount_Delete mem_host mem_io sample_calls 9 sample_config sample_clocks (sample_mount full_disk) (wlit ''D'') 0 = Finished (m', st) \<and>
     \<not> NT_SUCCESS st \<and> lm_disk m' = full_disk"
proof -
  let ?m = "sample_mount full_disk" and ?d = "wlit ''d''" and ?p = "wlit ''d'' @ bslash # wlit ''x''"
  have disk: "lm_disk ?m = full_disk" by (simp add: sample_mount_def sample_copy_up_def)
  have laws: "\<forall>L \<in> set (upperPath sample_config # lowerPaths sample_config). layer_laws mem_host (lm_disk ?m) sample_config [?d] L"
    unfolding disk using full_disk_laws by blast
  have j: "join_with bslash ([?d] @ [wlit ''x'']) = ?p" "?d = join_with bslash [?d]" by simp_all
  have n: "NormalizePath mem_host ?d = ?d" "NormalizePath mem_host (wlit ''e'') \<noteq> ?d" "plain_key mem_host [?d] (wlit ''x'')"
    "IsResolvablePath mem_host (lm_disk ?m) sample_config ?d" "IsResolvablePath mem_host (lm_disk ?m) sample_config ?p"
    "upper_redirect mem_host (lm_disk ?m) sample_config ?p = None" "Found (shown_at mem_host sample_config ?m ?p)"
    "shown_kind mem_host sample_config ?m ?d = Some DirectoryEntry"
    "viewNormalized (snd (snd (WalkCallerPath mem_host sample_config sample_clocks ?m (wlit ''D'') Keep))) = ?d"
    by code_simp+
  show ?thesis
    using full_directory_kept [OF mem_host_lower_table mem_marker_table mem_open_errors sample_coherent n(1) j(2) _ n(3) laws n(4)
        n(5-7) [folded j(1)] n(8,9,1,2), THEN conjunct1, of mem_io sample_calls 9 0] disk by simp
qed

text \<open>A file that the upper and the lower both hold.\<close>

definition twice_disk :: mem_disk where
  "twice_disk =
     [(on_disk sample_upper, mem_dir),
      (on_disk (JoinDirPath sample_upper (wlit ''f'')), mem_file [1]),
      (on_disk sample_lower, mem_dir),
      (on_disk (JoinDirPath sample_lower (wlit ''f'')), mem_file [2])]"

definition sample_request :: RenameRequest where
  "sample_request = \<lparr>requestOld = wlit ''F'', requestNew = wlit ''g'', requestReplace = False, requestFileReplace = FileReplaceNo\<rparr>"

theorem renamed_file_hides_lower_witness:
  "\<exists>st' moved. RenameFileEntry mem_host mem_io 3 9 sample_config (sample_copy_up twice_disk) sample_request FullCopy = Finished (st', moved) \<and>
     NT_SUCCESS (movedStatus moved) \<and> HasWhiteout mem_host (cu_disk st') (wlit ''f'') sample_upper"
proof -
  let ?st = "sample_copy_up twice_disk"
  let ?move = "MoveToUpper mem_host mem_io 3 9 sample_config ?st (requestOld sample_request) (requestNew sample_request) (requestFileReplace sample_request) FullCopy"
  let ?run = "RenameFileEntry mem_host mem_io 3 9 sample_config ?st sample_request FullCopy"
  have "case ?move of Finished (st1, fm) \<Rightarrow> mem_tree (cu_disk st1) sample_upper | _ \<Rightarrow> True" by code_simp
  then have tree: "\<forall>st1 fm. ?move = Finished (st1, fm) \<longrightarrow> tree_like mem_host (cu_disk st1) (upperPath sample_config)"
    using mem_tree_like sample_roots by auto
  have "case ?run of Finished (st', moved) \<Rightarrow> NT_SUCCESS (movedStatus moved) | _ \<Rightarrow> False" by code_simp
  then obtain st' moved where r: "?run = Finished (st', moved)" "NT_SUCCESS (movedStatus moved)" by (cases ?run) auto
  have k: "NormalizePath mem_host (requestOld sample_request) = wlit ''f''" "Found (ResolveLowerPath mem_host (cu_disk ?st) sample_config (wlit ''f''))"
    by code_simp+
  have n: "wlit ''f'' = join_with bslash ([] @ [wlit ''f''])" "names ([] @ [wlit ''f''])" by (simp_all add: is_name_def is_slash_def)
  have cloud: "cloud_failures (CloudFileStatus mem_host)" using mem_open_errors by (simp add: open_errors_def)
  show ?thesis
    using renamed_file_hides_lower [OF mem_creates_plain cloud k(1) n k(2) tree r] r sample_roots(3) by auto
qed

end
