(* ===== verification/Layer_Archive.thy ===== *)
theory Layer_Archive
  imports Ea_List Metadata_Store Std_Path
begin

text \<open>
  The bytes of a layer image (\<^verbatim>\<open>impl/image/LayerImageFormat.h\<close> and the functions of
  \<^verbatim>\<open>impl/image/LayerImageManager.cpp\<close> that reach no file): the header, the entries of the archive, the
  names that an entry may have, the builder of an archive and its reader, the difference of two
  directory listings and the metadata section. A packed structure is the concatenation of its fields,
  each little-endian.
\<close>

abbreviation ERROR_INVALID_DATA :: dword where "ERROR_INVALID_DATA \<equiv> 13"
abbreviation ERROR_INVALID_PARAMETER :: dword where "ERROR_INVALID_PARAMETER \<equiv> 87"
abbreviation ERROR_BAD_PATHNAME :: dword where "ERROR_BAD_PATHNAME \<equiv> 161"
abbreviation ERROR_FILENAME_EXCED_RANGE :: dword where "ERROR_FILENAME_EXCED_RANGE \<equiv> 206"

section \<open>Headers\<close>

definition le64 :: "byte list \<Rightarrow> nat \<Rightarrow> uint64" where
  "le64 bs i = (ucast (le32 bs i) :: uint64) OR push_bit 32 (ucast (le32 bs (i + 4)))"

definition le64_bytes :: "uint64 \<Rightarrow> byte list" where
  "le64_bytes x = le32_bytes (ucast x) @ le32_bytes (ucast (drop_bit 32 x))"

definition LAYER_IMAGE_MAGIC :: "byte list" where "LAYER_IMAGE_MAGIC = blit ''OVLYIMG'' @ [0]"
definition LAYER_IMAGE_VERSION :: dword where "LAYER_IMAGE_VERSION = 1"
definition ARCHIVE_END_MARKER :: "16 word" where "ARCHIVE_END_MARKER = 0xFFFF"

datatype CompressionType = CompressionNone | CompressionZstd

record LayerImageHeader =
  imageMagic :: "byte list"
  imageVersion :: dword
  imageFlags :: dword
  metadataOffset :: uint64
  metadataSize :: uint64
  dataOffset :: uint64
  dataSize :: uint64
  imageChecksum :: "byte list"
  imageReserved :: "byte list"

definition new_LayerImageHeader :: LayerImageHeader where
  "new_LayerImageHeader =
     \<lparr>imageMagic = LAYER_IMAGE_MAGIC, imageVersion = LAYER_IMAGE_VERSION, imageFlags = 0, metadataOffset = 0, metadataSize = 0,
      dataOffset = 0, dataSize = 0, imageChecksum = replicate 32 0, imageReserved = replicate 48 0\<rparr>"

definition image_header_bytes :: "LayerImageHeader \<Rightarrow> byte list" where
  "image_header_bytes h =
     imageMagic h @ le32_bytes (imageVersion h) @ le32_bytes (imageFlags h) @ le64_bytes (metadataOffset h) @
     le64_bytes (metadataSize h) @ le64_bytes (dataOffset h) @ le64_bytes (dataSize h) @ imageChecksum h @ imageReserved h"

definition image_header_at :: "byte list \<Rightarrow> LayerImageHeader" where
  "image_header_at bs =
     \<lparr>imageMagic = take 8 bs, imageVersion = le32 bs 8, imageFlags = le32 bs 12, metadataOffset = le64 bs 16, metadataSize = le64 bs 24,
      dataOffset = le64 bs 32, dataSize = le64 bs 40, imageChecksum = take 32 (drop 48 bs), imageReserved = take 48 (drop 80 bs)\<rparr>"

record FileEntryHeader =
  entryNameLength :: "16 word"
  entryBytes :: uint64
  entryAttributes :: dword
  entryModified :: uint64
  isDirectory :: byte
  isWhiteout :: byte

definition new_FileEntryHeader :: FileEntryHeader where
  "new_FileEntryHeader = \<lparr>entryNameLength = 0, entryBytes = 0, entryAttributes = 0, entryModified = 0, isDirectory = 0, isWhiteout = 0\<rparr>"

definition entry_header_bytes :: "FileEntryHeader \<Rightarrow> byte list" where
  "entry_header_bytes h =
     le16_bytes (entryNameLength h) @ le64_bytes (entryBytes h) @ le32_bytes (entryAttributes h) @ le64_bytes (entryModified h) @
     [isDirectory h, isWhiteout h]"

definition entry_header_at :: "byte list \<Rightarrow> nat \<Rightarrow> FileEntryHeader" where
  "entry_header_at bs i =
     \<lparr>entryNameLength = le16 bs i, entryBytes = le64 bs (i + 2), entryAttributes = le32 bs (i + 10), entryModified = le64 bs (i + 14),
      isDirectory = bs ! (i + 22), isWhiteout = bs ! (i + 23)\<rparr>"

section \<open>Names\<close>

text \<open>The number of bytes that follow the first byte of a character.\<close>

definition utf8_extra :: "byte \<Rightarrow> nat option" where
  "utf8_extra c =
     (if c AND 0x80 = 0 then Some 0
      else if c AND 0xE0 = 0xC0 then Some 1
      else if c AND 0xF0 = 0xE0 then Some 2
      else if c AND 0xF8 = 0xF0 then Some 3
      else None)"

function valid_utf8_from :: "byte list \<Rightarrow> nat \<Rightarrow> bool" where
  "valid_utf8_from bs i =
     (if length bs \<le> i then True
      else
        let c = bs ! i in
        if c = 0 then False
        else
          (case utf8_extra c of
             None \<Rightarrow> False
           | Some extra \<Rightarrow>
               if length bs \<le> i + extra then False
               else if \<not> list_all (\<lambda>j. bs ! (i + j) AND 0xC0 = 0x80) [1..<Suc extra] then False
               else valid_utf8_from bs (i + extra + 1)))"
  by pat_completeness auto
termination by (relation "measure (\<lambda>(bs, i). length bs - i)") auto

declare valid_utf8_from.simps [simp del]

definition IsValidUtf8 :: "byte list \<Rightarrow> bool" where
  "IsValidUtf8 bs = valid_utf8_from bs 0"

definition IsPathContainedIn :: "wstring \<Rightarrow> wstring \<Rightarrow> bool" where
  "IsPathContainedIn canon root =
     (if canon = root then True
      else if root = [] then True
      else if length canon \<le> length root then False
      else if take (length root) canon \<noteq> root then False
      else if last root = bslash \<or> last root = fslash then True
      else canon ! length root = bslash \<or> canon ! length root = fslash)"

abbreviation bdot :: byte where "bdot \<equiv> 46"
abbreviation bcolon :: byte where "bcolon \<equiv> 58"

definition byte_slash :: "byte \<Rightarrow> bool" where
  "byte_slash c \<longleftrightarrow> c = 47 \<or> c = 92"

text \<open>The loop over the positions of the path, with the start of the current component.\<close>

function archive_components_from :: "byte list \<Rightarrow> nat \<Rightarrow> nat \<Rightarrow> bool" where
  "archive_components_from p start i =
     (if length p < i then True
      else if i = length p \<or> byte_slash (p ! i)
      then
        let component = take (i - start) (drop start p) in
        if i - start = 0 then False
        else if component = [bdot] \<or> component = [bdot, bdot] then False
        else archive_components_from p (i + 1) (i + 1)
      else archive_components_from p start (i + 1))"
  by pat_completeness auto
termination by (relation "measure (\<lambda>(p, start, i). Suc (length p) - i)") auto

declare archive_components_from.simps [simp del]

definition IsValidArchivePath :: "byte list \<Rightarrow> bool" where
  "IsValidArchivePath p =
     (if p = [] then False
      else if byte_slash (p ! 0) then False
      else if bcolon \<in> set p then False
      else archive_components_from p 0 0)"

definition MakeWhiteoutMarkerPath :: "wstring \<Rightarrow> wstring" where
  "MakeWhiteoutMarkerPath logicalPath =
     (let path = map (\<lambda>c. if c = bslash then fslash else c) logicalPath in
      case wfind_last path fslash of
        None \<Rightarrow> wlit ''.wh.'' @ path
      | Some slash \<Rightarrow> take (slash + 1) path @ wlit ''.wh.'' @ drop (slash + 1) path)"

definition HasWhiteoutPrefix :: "wstring \<Rightarrow> bool" where
  "HasWhiteoutPrefix filename \<longleftrightarrow> 4 \<le> length filename \<and> take 4 filename = wlit ''.wh.''"

section \<open>The builder and the reader of an archive\<close>

record ArchiveBuilder =
  builtArchive :: "byte list"
  builtCount :: uint64

definition new_ArchiveBuilder :: ArchiveBuilder where
  "new_ArchiveBuilder = \<lparr>builtArchive = [], builtCount = 0\<rparr>"

definition Append :: "('w, 'h) host \<Rightarrow> ArchiveBuilder \<Rightarrow> wstring \<Rightarrow> FileEntryHeader \<Rightarrow> byte list \<Rightarrow> ArchiveBuilder \<times> dword" where
  "Append os b relativePath entry data =
     (let utf8Name = WideToUtf8 os relativePath in
      if utf8Name = [] then (b, ERROR_INVALID_PARAMETER)
      else if 0xFFFE < length utf8Name then (b, ERROR_FILENAME_EXCED_RANGE)
      else
        let entry1 = entry\<lparr>entryNameLength := of_nat (length utf8Name)\<rparr> in
        (b\<lparr>builtArchive := builtArchive b @ entry_header_bytes entry1 @ utf8Name @ data\<rparr>, ERROR_SUCCESS))"

definition AppendCounted :: "('w, 'h) host \<Rightarrow> ArchiveBuilder \<Rightarrow> wstring \<Rightarrow> FileEntryHeader \<Rightarrow> byte list \<Rightarrow> ArchiveBuilder \<times> dword" where
  "AppendCounted os b relativePath entry data =
     (let (b1, err) = Append os b relativePath entry data in
      if err = ERROR_SUCCESS then (b1\<lparr>builtCount := builtCount b1 + 1\<rparr>, err) else (b1, err))"

definition AddDirectory :: "('w, 'h) host \<Rightarrow> ArchiveBuilder \<Rightarrow> wstring \<Rightarrow> FileEntryHeader \<Rightarrow> ArchiveBuilder \<times> dword" where
  "AddDirectory os b relativePath entry = Append os b relativePath entry []"

definition AddWhiteoutMarker :: "('w, 'h) host \<Rightarrow> ArchiveBuilder \<Rightarrow> wstring \<Rightarrow> ArchiveBuilder \<times> dword" where
  "AddWhiteoutMarker os b deletedPath =
     AppendCounted os b (MakeWhiteoutMarkerPath deletedPath)
       (new_FileEntryHeader\<lparr>entryAttributes := FILE_ATTRIBUTE_NORMAL, isWhiteout := 1\<rparr>) []"

definition Finish :: "ArchiveBuilder \<Rightarrow> byte list" where
  "Finish b = builtArchive b @ entry_header_bytes (new_FileEntryHeader\<lparr>entryNameLength := ARCHIVE_END_MARKER\<rparr>)"

text \<open>The data of an entry is a pointer into the archive, here the archive from that position on.\<close>

record ArchiveEntry =
  archiveHeader :: FileEntryHeader
  archiveName :: wstring
  archiveData :: "byte list"

text \<open>The entry at a position, or none at the end marker, and the position after it.\<close>

definition ReadArchiveEntry :: "('w, 'h) host \<Rightarrow> byte list \<Rightarrow> nat \<Rightarrow> dword + (nat \<times> ArchiveEntry option)" where
  "ReadArchiveEntry os archive pos =
     (if length archive < pos + 24 then Inl ERROR_INVALID_DATA
      else
        let header = entry_header_at archive pos; pos1 = pos + 24; n = unat (entryNameLength header) in
        if entryNameLength header = ARCHIVE_END_MARKER then Inr (pos1, None)
        else if entryNameLength header = 0 then Inl ERROR_INVALID_DATA
        else if length archive < pos1 + n then Inl ERROR_INVALID_DATA
        else
          let utf8Name = take n (drop pos1 archive); pos2 = pos1 + n in
          if \<not> IsValidUtf8 utf8Name then Inl ERROR_INVALID_DATA
          else if \<not> IsValidArchivePath utf8Name then Inl ERROR_BAD_PATHNAME
          else if length archive - pos2 < unat (entryBytes header) then Inl ERROR_INVALID_DATA
          else
            Inr (if isDirectory header = 0 then pos2 + unat (entryBytes header) else pos2,
                 Some \<lparr>archiveHeader = header, archiveName = Utf8ToWide os utf8Name, archiveData = drop pos2 archive\<rparr>))"

section \<open>The difference of two listings\<close>

record FileSnapshot =
  lookupKey :: wstring
  snapshotPath :: wstring
  snapshotEntry :: FileEntryHeader

definition Differs :: "FileEntryHeader \<Rightarrow> FileEntryHeader \<Rightarrow> bool" where
  "Differs s b =
     (if isDirectory s \<noteq> isDirectory b then True
      else isDirectory s = 0 \<and> (entryBytes s \<noteq> entryBytes b \<or> entryModified s \<noteq> entryModified b))"

text \<open>The map of the base by key; a later entry replaces an earlier one of the same key.\<close>

definition ChangedEntries :: "FileSnapshot list \<Rightarrow> FileSnapshot list \<Rightarrow> FileSnapshot list" where
  "ChangedEntries src base =
     (let baseByKey = fold (\<lambda>b m. AList.update (lookupKey b) b m) base [] in
      filter (\<lambda>s. case map_of baseByKey (lookupKey s) of
                    None \<Rightarrow> True
                  | Some b \<Rightarrow> Differs (snapshotEntry s) (snapshotEntry b)) src)"

definition DeletedPaths :: "FileSnapshot list \<Rightarrow> FileSnapshot list \<Rightarrow> wstring list" where
  "DeletedPaths src base =
     (let sourceKeys = map lookupKey src in
      map snapshotPath (filter (\<lambda>b. lookupKey b \<notin> set sourceKeys) base))"

section \<open>Metadata\<close>

record LayerMetadata =
  layerId :: wstring
  parentLayerId :: wstring
  layerCreatedAt :: wstring
  layerAuthor :: wstring
  layerDescription :: wstring
  layerTags :: "wstring list"
  layerCompression :: CompressionType
  layerFileCount :: uint64
  uncompressedSize :: uint64
  compressedSize :: uint64
  layerWhiteouts :: "wstring list"
  layerLabels :: "(wstring \<times> wstring) list"

definition CompressionTypeToString :: "CompressionType \<Rightarrow> byte list" where
  "CompressionTypeToString c = (case c of CompressionNone \<Rightarrow> blit ''none'' | CompressionZstd \<Rightarrow> blit ''zstd'')"

definition StringToCompressionType :: "byte list \<Rightarrow> CompressionType" where
  "StringToCompressionType s = (if s = blit ''zstd'' then CompressionZstd else CompressionNone)"

definition json_labels :: "('w, 'h) host \<Rightarrow> (wstring \<times> wstring) list \<Rightarrow> json" where
  "json_labels os labels =
     JObject (fold (\<lambda>(k, v) ms. AList.update (WideToUtf8 os k) (JString (WideToUtf8 os v)) ms) labels [])"

definition LayerMetadataToJson :: "('w, 'h) host \<Rightarrow> LayerMetadata \<Rightarrow> json" where
  "LayerMetadataToJson os meta =
     JObject
       [(blit ''layerId'', JString (WideToUtf8 os (layerId meta))),
        (blit ''parentLayerId'', if parentLayerId meta = [] then JNull else JString (WideToUtf8 os (parentLayerId meta))),
        (blit ''createdAt'', JString (WideToUtf8 os (layerCreatedAt meta))),
        (blit ''author'', JString (WideToUtf8 os (layerAuthor meta))),
        (blit ''description'', JString (WideToUtf8 os (layerDescription meta))),
        (blit ''tags'', JArray (map (\<lambda>t. JString (WideToUtf8 os t)) (layerTags meta))),
        (blit ''compressionType'', JString (CompressionTypeToString (layerCompression meta))),
        (blit ''fileCount'', JUnsigned (layerFileCount meta)),
        (blit ''uncompressedSize'', JUnsigned (uncompressedSize meta)),
        (blit ''compressedSize'', JUnsigned (compressedSize meta)),
        (blit ''whiteouts'', JArray (map (\<lambda>w. JString (WideToUtf8 os w)) (layerWhiteouts meta))),
        (blit ''labels'', json_labels os (layerLabels meta))]"

text \<open>The strings of an array member; a member of another type, or a missing one, gives none.\<close>

definition json_strings :: "('w, 'h) host \<Rightarrow> json option \<Rightarrow> wstring list" where
  "json_strings os v =
     (case v of
        Some (JArray js) \<Rightarrow> map (Utf8ToWide os) (List.map_filter json_string js)
      | _ \<Rightarrow> [])"

definition json_string_map :: "('w, 'h) host \<Rightarrow> json option \<Rightarrow> (wstring \<times> wstring) list" where
  "json_string_map os v =
     (case v of
        Some (JObject ms) \<Rightarrow>
          fold (\<lambda>(k, j) labels. case json_string j of None \<Rightarrow> labels | Some x \<Rightarrow> AList.update (Utf8ToWide os k) (Utf8ToWide os x) labels) ms []
      | _ \<Rightarrow> [])"

definition json_member :: "json \<Rightarrow> byte list \<Rightarrow> json option" where
  "json_member j key = (case j of JObject ms \<Rightarrow> map_of ms key | _ \<Rightarrow> None)"

text \<open>\<open>None\<close> for \<^verbatim>\<open>ERROR_INVALID_DATA\<close>, which a \<^verbatim>\<open>json::exception\<close> gives.\<close>

definition JsonToLayerMetadata :: "('w, 'h) host \<Rightarrow> json \<Rightarrow> LayerMetadata option" where
  "JsonToLayerMetadata os j =
     Option.bind (json_value json_string j (blit ''layerId'') []) (\<lambda>ident.
     Option.bind (case json_member j (blit ''parentLayerId'') of
                    None \<Rightarrow> Some [] | Some JNull \<Rightarrow> Some [] | Some v \<Rightarrow> json_string v) (\<lambda>parent.
     Option.bind (json_value json_string j (blit ''createdAt'') []) (\<lambda>created.
     Option.bind (json_value json_string j (blit ''author'') []) (\<lambda>author.
     Option.bind (json_value json_string j (blit ''description'') []) (\<lambda>description.
     Option.bind (json_value json_string j (blit ''compressionType'') (blit ''none'')) (\<lambda>compression.
     Option.bind (json_value json_uint64 j (blit ''fileCount'') 0) (\<lambda>count.
     Option.bind (json_value json_uint64 j (blit ''uncompressedSize'') 0) (\<lambda>uncompressed.
     Option.bind (json_value json_uint64 j (blit ''compressedSize'') 0) (\<lambda>compressed.
       Some \<lparr>layerId = Utf8ToWide os ident, parentLayerId = Utf8ToWide os parent, layerCreatedAt = Utf8ToWide os created,
             layerAuthor = Utf8ToWide os author, layerDescription = Utf8ToWide os description,
             layerTags = json_strings os (json_member j (blit ''tags'')), layerCompression = StringToCompressionType compression,
             layerFileCount = count, uncompressedSize = uncompressed, compressedSize = compressed,
             layerWhiteouts = json_strings os (json_member j (blit ''whiteouts'')),
             layerLabels = json_string_map os (json_member j (blit ''labels''))\<rparr>)))))))))"

definition SerializeMetadata :: "('w, 'h) host \<Rightarrow> LayerMetadata \<Rightarrow> byte list" where
  "SerializeMetadata os meta = json_dump os (LayerMetadataToJson os meta)"

definition DeserializeMetadata :: "('w, 'h) host \<Rightarrow> byte list \<Rightarrow> LayerMetadata option" where
  "DeserializeMetadata os utf8 = Option.bind (json_parse os utf8) (JsonToLayerMetadata os)"

section \<open>Fields at their offsets\<close>

lemma length_le64_bytes [simp]: "length (le64_bytes x) = 8"
  by (simp add: le64_bytes_def)

lemma length_le16_bytes [simp]: "length (le16_bytes x) = 2"
  by (simp add: le16_bytes_def)

lemma le64_at: "le64 (pre @ le64_bytes x @ bs) (length pre) = x"
proof -
  have "le32 (pre @ le64_bytes x @ bs) (length pre) = ucast x"
    using le32_at [of pre "ucast x" "le32_bytes (ucast (drop_bit 32 x)) @ bs"] by (simp add: le64_bytes_def)
  moreover have "le32 (pre @ le64_bytes x @ bs) (length pre + 4) = ucast (drop_bit 32 x)"
    using le32_at [of "pre @ le32_bytes (ucast x)" "ucast (drop_bit 32 x)" bs] by (simp add: le64_bytes_def)
  ultimately show ?thesis unfolding le64_def by (intro bit_word_eqI) (auto simp: bit_simps)
qed

lemma le16_at: "le16 (pre @ le16_bytes x @ bs) (length pre) = x"
  using le16_append [of pre "le16_bytes x @ bs" 0] le16_bytes_inverse [of x "le16_bytes x @ bs" 0]
  by (simp add: le16_bytes_def)

text \<open>A field of \<open>x\<close>, read where \<open>pre\<close> ends.\<close>

lemma field_at:
  "i = length pre \<Longrightarrow> bs = pre @ le64_bytes x64 @ post64 \<Longrightarrow> le64 bs i = x64"
  "i = length pre \<Longrightarrow> bs = pre @ le32_bytes x32 @ post32 \<Longrightarrow> le32 bs i = x32"
  "i = length pre \<Longrightarrow> bs = pre @ le16_bytes x16 @ post16 \<Longrightarrow> le16 bs i = x16"
  by (simp_all add: le64_at le16_at)

definition image_header_ok :: "LayerImageHeader \<Rightarrow> bool" where
  "image_header_ok h \<longleftrightarrow> length (imageMagic h) = 8 \<and> length (imageChecksum h) = 32 \<and> length (imageReserved h) = 48"

lemma length_image_header: "image_header_ok h \<Longrightarrow> length (image_header_bytes h) = 128"
  by (simp add: image_header_bytes_def image_header_ok_def)

lemma image_header_roundtrip:
  assumes "image_header_ok h"
  shows "image_header_at (image_header_bytes h @ rest) = h"
proof -
  let ?bs = "image_header_bytes h @ rest" and ?m = "imageMagic h" and ?v = "le32_bytes (imageVersion h)" and ?f = "le32_bytes (imageFlags h)"
  let ?a = "le64_bytes (metadataOffset h)" and ?b = "le64_bytes (metadataSize h)" and ?c = "le64_bytes (dataOffset h)" and ?d = "le64_bytes (dataSize h)"
  have l: "length ?m = 8" "length (imageChecksum h) = 32" "length (imageReserved h) = 48" using assms by (simp_all add: image_header_ok_def)
  note fields = field_at [where bs = ?bs]
  have words: "le32 ?bs 8 = imageVersion h"
    by (rule fields(2) [of _ ?m]) (simp_all add: l image_header_bytes_def)
  have flags: "le32 ?bs 12 = imageFlags h"
    by (rule fields(2) [of _ "?m @ ?v"]) (simp_all add: l image_header_bytes_def)
  have offsets: "le64 ?bs 16 = metadataOffset h"
    by (rule fields(1) [of _ "?m @ ?v @ ?f"]) (simp_all add: l image_header_bytes_def)
  have sizes: "le64 ?bs 24 = metadataSize h"
    by (rule fields(1) [of _ "?m @ ?v @ ?f @ ?a"]) (simp_all add: l image_header_bytes_def)
  have data_at: "le64 ?bs 32 = dataOffset h"
    by (rule fields(1) [of _ "?m @ ?v @ ?f @ ?a @ ?b"]) (simp_all add: l image_header_bytes_def)
  have data_size: "le64 ?bs 40 = dataSize h"
    by (rule fields(1) [of _ "?m @ ?v @ ?f @ ?a @ ?b @ ?c"]) (simp_all add: l image_header_bytes_def)
  have "take 8 ?bs = ?m" "take 32 (drop 48 ?bs) = imageChecksum h" "take 48 (drop 80 ?bs) = imageReserved h"
    using l by (simp_all add: image_header_bytes_def)
  then show ?thesis using words flags offsets sizes data_at data_size by (simp add: image_header_at_def)
qed

lemma length_entry_header [simp]: "length (entry_header_bytes h) = 24"
  by (simp add: entry_header_bytes_def)

lemma entry_header_roundtrip: "entry_header_at (pre @ entry_header_bytes h @ rest) (length pre) = h"
proof -
  let ?bs = "pre @ entry_header_bytes h @ rest"
  let ?n = "le16_bytes (entryNameLength h)" and ?s = "le64_bytes (entryBytes h)" and ?a = "le32_bytes (entryAttributes h)" and ?m = "le64_bytes (entryModified h)"
  note fields = field_at [where bs = ?bs]
  have 1: "le16 ?bs (length pre) = entryNameLength h"
    by (rule fields(3) [of _ pre]) (simp_all add: entry_header_bytes_def)
  have 2: "le64 ?bs (length pre + 2) = entryBytes h"
    by (rule fields(1) [of _ "pre @ ?n"]) (simp_all add: entry_header_bytes_def)
  have 3: "le32 ?bs (length pre + 10) = entryAttributes h"
    by (rule fields(2) [of _ "pre @ ?n @ ?s"]) (simp_all add: entry_header_bytes_def)
  have 4: "le64 ?bs (length pre + 14) = entryModified h"
    by (rule fields(1) [of _ "pre @ ?n @ ?s @ ?a"]) (simp_all add: entry_header_bytes_def)
  have "?bs ! (length pre + 22) = isDirectory h" "?bs ! (length pre + 23) = isWhiteout h"
    by (simp_all add: nth_append entry_header_bytes_def)
  then show ?thesis using 1 2 3 4 by (simp add: entry_header_at_def)
qed

section \<open>Names of entries\<close>

text \<open>The components of an archive path: what is between slashes of either kind.\<close>

definition archive_components :: "byte list \<Rightarrow> byte list list" where
  "archive_components p = split_on 47 (map (\<lambda>c. if c = 92 then 47 else c) p)"

definition plain_component :: "byte list \<Rightarrow> bool" where
  "plain_component c \<longleftrightarrow> c \<noteq> [] \<and> c \<noteq> [bdot] \<and> c \<noteq> [bdot, bdot]"

lemma archive_components_step:
  assumes "list_all (\<lambda>c. \<not> byte_slash c) s" "byte_slash c"
  shows "archive_components (s @ c # r) = s # archive_components r" "archive_components s = [s]"
proof -
  have same: "map (\<lambda>c. if c = 92 then 47 else c) s = s" using assms(1) by (auto simp: list_all_iff byte_slash_def intro: map_idI)
  have "47 \<notin> set s" using assms(1) by (auto simp: list_all_iff byte_slash_def)
  then show "archive_components (s @ c # r) = s # archive_components r" "archive_components s = [s]"
    using same assms(2) split_on_append [of 47 s] split_on_no_sep [of 47 s]
    by (auto simp: archive_components_def byte_slash_def)
qed

lemma archive_components_from_iff:
  assumes "start \<le> i" "i \<le> length p" "list_all (\<lambda>c. \<not> byte_slash c) (take (i - start) (drop start p))"
  shows "archive_components_from p start i \<longleftrightarrow> list_all plain_component (archive_components (drop start p))"
  using assms
proof (induction p start i rule: archive_components_from.induct)
  case (1 p start i)
  let ?s = "take (i - start) (drop start p)"
  have slash: "byte_slash (47 :: byte)" by (simp add: byte_slash_def)
  have len: "length ?s = i - start" using "1.prems" by simp
  show ?case
  proof (cases "i = length p \<or> byte_slash (p ! i)")
    case boundary: True
    show ?thesis
    proof (cases "i = length p")
      case True
      then have "drop start p = ?s" by simp
      then have "archive_components (drop start p) = [?s]" using archive_components_step(2) [OF "1.prems"(3) slash] by simp
      moreover have "archive_components_from p (i + 1) (i + 1)" using True by (subst archive_components_from.simps) simp
      ultimately show ?thesis using len True
        by (subst archive_components_from.simps) (auto simp: plain_component_def Let_def)
    next
      case False
      then have d: "drop start p = ?s @ p ! i # drop (i + 1) p"
        using "1.prems" id_take_nth_drop [of "i - start" "drop start p"] by simp
      have "archive_components (drop start p) = ?s # archive_components (drop (i + 1) p)"
        using arg_cong [OF d, of archive_components] archive_components_step(1) [OF "1.prems"(3)] boundary False by metis
      moreover have "archive_components_from p (i + 1) (i + 1) \<longleftrightarrow> list_all plain_component (archive_components (drop (i + 1) p))"
        if "i - start \<noteq> 0" "\<not> (?s = [bdot] \<or> ?s = [bdot, bdot])"
        using "1.IH"(1) [OF _ boundary refl that] "1.prems" False by simp
      ultimately show ?thesis using len "1.prems" boundary
        by (subst archive_components_from.simps) (auto simp: plain_component_def Let_def)
    qed
  next
    case False
    then have "i - start < length p - start" using "1.prems" by auto
    then have "take (Suc i - start) (drop start p) = ?s @ [p ! i]"
      using "1.prems" take_Suc_conv_app_nth [of "i - start" "drop start p"] by (simp add: Suc_diff_le)
    then show ?thesis using "1.IH"(2) [OF _ False] "1.prems" False
      by (subst archive_components_from.simps) simp
  qed
qed

lemma IsValidArchivePath_components:
  "IsValidArchivePath p \<longleftrightarrow> bcolon \<notin> set p \<and> list_all plain_component (archive_components p)"
proof -
  have "\<not> plain_component (hd (archive_components p))" if "p = [] \<or> byte_slash (p ! 0)"
    using that by (cases p) (auto simp: archive_components_def plain_component_def byte_slash_def)
  moreover have "hd (archive_components p) \<in> set (archive_components p)" by (simp add: archive_components_def)
  ultimately show ?thesis using archive_components_from_iff [of 0 0 p] by (auto simp: IsValidArchivePath_def list_all_iff)
qed

section \<open>Reading an archive to its end\<close>

lemma ReadArchiveEntry_progress:
  assumes "ReadArchiveEntry os archive pos = Inr (pos', e)"
  shows "pos < pos' \<and> pos' \<le> length archive"
  using assms by (auto simp: ReadArchiveEntry_def Let_def split: if_splits)

lemma ReadArchiveEntry_shrinks:
  "ReadArchiveEntry os archive pos = Inr (pos', e) \<Longrightarrow> length archive - pos' < length archive - pos"
  using ReadArchiveEntry_progress [of os archive pos pos' e] by auto

text \<open>
  What an archive holds, by its reader: the entries up to the end marker or to the first error, and how
  the reading ended.
\<close>

function archive_stream :: "('w, 'h) host \<Rightarrow> byte list \<Rightarrow> nat \<Rightarrow> ArchiveEntry list \<times> dword" where
  "archive_stream os archive pos =
     (case ReadArchiveEntry os archive pos of
        Inl err \<Rightarrow> ([], err)
      | Inr (pos', None) \<Rightarrow> ([], ERROR_SUCCESS)
      | Inr (pos', Some e) \<Rightarrow> let (es, err) = archive_stream os archive pos' in (e # es, err))"
  by pat_completeness auto
termination
  by (relation "measure (\<lambda>(os, archive, pos). length archive - pos)") (auto intro: ReadArchiveEntry_shrinks)

declare archive_stream.simps [simp del]

text \<open>The content of an entry as the builder was given it: path, header and data.\<close>

type_synonym packed = "wstring \<times> FileEntryHeader \<times> byte list"

definition packed_bytes :: "('w, 'h) host \<Rightarrow> packed \<Rightarrow> byte list" where
  "packed_bytes os e =
     (case e of (p, h, d) \<Rightarrow> entry_header_bytes (h\<lparr>entryNameLength := of_nat (length (WideToUtf8 os p))\<rparr>) @ WideToUtf8 os p @ d)"

text \<open>An entry that an archive can hold: its name has a valid form that converts back, and a header that tells the data.\<close>

definition packable :: "('w, 'h) host \<Rightarrow> packed \<Rightarrow> bool" where
  "packable os e \<longleftrightarrow>
     (case e of (p, h, d) \<Rightarrow>
        length (WideToUtf8 os p) \<le> 0xFFFE \<and> IsValidUtf8 (WideToUtf8 os p) \<and> IsValidArchivePath (WideToUtf8 os p) \<and>
        Utf8ToWide os (WideToUtf8 os p) = p \<and> unat (entryBytes h) = length d \<and> (isDirectory h \<noteq> 0 \<longrightarrow> d = []))"

definition unpacked :: "ArchiveEntry \<Rightarrow> packed" where
  "unpacked e = (archiveName e, archiveHeader e, take (unat (entryBytes (archiveHeader e))) (archiveData e))"

definition with_name_length :: "('w, 'h) host \<Rightarrow> packed \<Rightarrow> packed" where
  "with_name_length os e = (case e of (p, h, d) \<Rightarrow> (p, h\<lparr>entryNameLength := of_nat (length (WideToUtf8 os p))\<rparr>, d))"

lemma read_packed:
  assumes "packable os e"
  shows "\<exists>a. ReadArchiveEntry os (pre @ packed_bytes os e @ rest) (length pre) =
      Inr (length pre + length (packed_bytes os e), Some a) \<and> unpacked a = with_name_length os e"
proof -
  obtain p h d where e: "e = (p, h, d)" by (cases e)
  define u where "u = WideToUtf8 os p"
  define hdr where "hdr = h\<lparr>entryNameLength := of_nat (length u)\<rparr>"
  define bs where "bs = pre @ packed_bytes os e @ rest"
  have u: "length u \<le> 0xFFFE" "IsValidUtf8 u" "IsValidArchivePath u" "Utf8ToWide os u = p"
    "unat (entryBytes hdr) = length d" "isDirectory hdr \<noteq> 0 \<Longrightarrow> d = []" using assms by (auto simp: packable_def e u_def hdr_def)
  have n: "unat (entryNameLength hdr) = length u" using u(1) by (simp add: unat_of_nat hdr_def)
  have "u \<noteq> []" using u(3) by (auto simp: IsValidArchivePath_def)
  then have z: "entryNameLength hdr \<noteq> 0" using n by (metis length_0_conv unat_0)
  have m: "entryNameLength hdr \<noteq> ARCHIVE_END_MARKER"
    using n u(1) by (auto simp: ARCHIVE_END_MARKER_def dest: arg_cong [of _ _ unat])
  have b: "bs = pre @ entry_header_bytes hdr @ u @ d @ rest" by (simp add: bs_def packed_bytes_def e u_def hdr_def)
  have at: "entry_header_at bs (length pre) = hdr" unfolding b by (rule entry_header_roundtrip)
  have parts: "drop (length pre + 24) bs = u @ d @ rest" "drop (length pre + 24 + length u) bs = d @ rest"
    "length bs = length pre + 24 + length u + length d + length rest" unfolding b by simp_all
  have l: "length (packed_bytes os e) = 24 + length u + length d" by (simp add: packed_bytes_def e u_def)
  have w: "with_name_length os e = (p, hdr, d)" by (simp add: with_name_length_def e u_def hdr_def)
  have "ReadArchiveEntry os bs (length pre) =
      Inr (length pre + length (packed_bytes os e), Some \<lparr>archiveHeader = hdr, archiveName = p, archiveData = d @ rest\<rparr>)"
    unfolding ReadArchiveEntry_def Let_def at n parts l using u z m by simp
  then show ?thesis unfolding bs_def [symmetric] w using u(5) by (auto simp: unpacked_def)
qed

lemma stream_packed:
  assumes "list_all (packable os) es"
  shows "\<exists>as. archive_stream os (pre @ concat (map (packed_bytes os) es) @
        entry_header_bytes (new_FileEntryHeader\<lparr>entryNameLength := ARCHIVE_END_MARKER\<rparr>)) (length pre) = (as, ERROR_SUCCESS) \<and>
      map unpacked as = map (with_name_length os) es"
  using assms
proof (induction es arbitrary: pre)
  case Nil
  let ?stop = "entry_header_bytes (new_FileEntryHeader\<lparr>entryNameLength := ARCHIVE_END_MARKER\<rparr>)"
  have "entry_header_at (pre @ ?stop) (length pre) = new_FileEntryHeader\<lparr>entryNameLength := ARCHIVE_END_MARKER\<rparr>"
    using entry_header_roundtrip [of pre _ "[]"] by simp
  then have "ReadArchiveEntry os (pre @ ?stop) (length pre) = Inr (length pre + 24, None)" by (simp add: ReadArchiveEntry_def)
  then show ?case by (subst archive_stream.simps) simp
next
  case (Cons e es)
  let ?rest = "concat (map (packed_bytes os) es) @ entry_header_bytes (new_FileEntryHeader\<lparr>entryNameLength := ARCHIVE_END_MARKER\<rparr>)"
  have e: "packable os e" using Cons.prems by simp
  obtain a where a: "ReadArchiveEntry os (pre @ packed_bytes os e @ ?rest) (length pre) = Inr (length pre + length (packed_bytes os e), Some a)"
      "unpacked a = with_name_length os e" using read_packed [OF e, of pre ?rest] by blast
  obtain as where "archive_stream os ((pre @ packed_bytes os e) @ ?rest) (length (pre @ packed_bytes os e)) = (as, ERROR_SUCCESS)"
      "map unpacked as = map (with_name_length os) es" using Cons.IH [of "pre @ packed_bytes os e"] Cons.prems by auto
  then show ?case using a by (subst archive_stream.simps) simp
qed

lemma Append_packed:
  assumes "packable os (p, h, d)"
  shows "Append os b p h d = (b\<lparr>builtArchive := builtArchive b @ packed_bytes os (p, h, d)\<rparr>, ERROR_SUCCESS)"
  using assms by (auto simp: Append_def packed_bytes_def packable_def IsValidArchivePath_def Let_def)

end
