(* ===== verification/Layer_Image.thy ===== *)
theory Layer_Image
  imports Layer_Archive File_Io
begin

text \<open>
  The files of a layer image (\<^verbatim>\<open>impl/image/LayerImageManager.cpp\<close>): the scan of a directory, the image
  that is written from it, the read of an image with its checks, and the extraction into a directory.
  Streams, the walk of a directory, BCrypt, zstd and the canonical form of a path are fields of the
  record \<open>image_io\<close>. A stream that a function opens is closed on every way out of it, as its destructor
  does. \<open>Threw\<close> is an exception that leaves the function: a path call that takes no error code, a JSON
  type error, or the allocation of a length that an image file gives. Other allocations succeed.
\<close>

abbreviation ERROR_INVALID_FUNCTION :: dword where "ERROR_INVALID_FUNCTION \<equiv> 1"
abbreviation ERROR_INVALID_HANDLE :: dword where "ERROR_INVALID_HANDLE \<equiv> 6"
abbreviation ERROR_NOT_ENOUGH_MEMORY :: dword where "ERROR_NOT_ENOUGH_MEMORY \<equiv> 8"
abbreviation ERROR_CRC :: dword where "ERROR_CRC \<equiv> 23"
abbreviation ERROR_REVISION_MISMATCH :: dword where "ERROR_REVISION_MISMATCH \<equiv> 1306"

section \<open>Services\<close>

datatype failure = Threw | Failed dword

definition returned :: "dword \<Rightarrow> failure + unit" where
  "returned err = (if err = ERROR_SUCCESS then Inr () else Inl (Failed err))"

text \<open>
  The walk of a recursive directory iterator from one of its positions on: the end, an increment that
  fails, or an entry with its path, its depth and whether it is a directory (none when the query
  fails), the walk after an increment, and the walk after an increment that does not descend.
\<close>

datatype walk = WalkEnd | WalkError | WalkAt wstring nat "bool option" walk walk

record SystemTime =
  wYear :: nat
  wMonth :: nat
  wDay :: nat
  wHour :: nat
  wMinute :: nat
  wSecond :: nat

text \<open>
  \<open>OpenIn\<close> and \<open>OpenOut\<close> take whether the stream is binary; an output stream truncates. A read takes the
  position and the length, and gives the bytes that \<^verbatim>\<open>gcount()\<close> counts. \<open>BCryptHashData\<close> and
  \<open>BCryptFinishHash\<close> take the bytes hashed so far. \<open>ZSTD_decompress\<close> takes the capacity of the output.
\<close>

record ('w, 'h, 'i, 'o) image_io = "('w, 'h) file_io" +
  OpenIn :: "'w \<Rightarrow> bool \<Rightarrow> wstring \<Rightarrow> 'i option"
  SeekIn :: "'w \<Rightarrow> 'i \<Rightarrow> int \<Rightarrow> bool"
  TellEnd :: "'w \<Rightarrow> 'i \<Rightarrow> int"
  ReadIn :: "'w \<Rightarrow> 'i \<Rightarrow> int \<Rightarrow> nat \<Rightarrow> byte list"
  JsonFromStream :: "'w \<Rightarrow> 'i \<Rightarrow> json option"
  OpenOut :: "'w \<Rightarrow> bool \<Rightarrow> wstring \<Rightarrow> 'w \<times> 'o option"
  WriteOut :: "'w \<Rightarrow> 'o \<Rightarrow> byte list \<Rightarrow> 'w \<times> bool"
  SeekOut :: "'w \<Rightarrow> 'o \<Rightarrow> nat \<Rightarrow> 'w \<times> bool"
  CloseOut :: "'w \<Rightarrow> 'o \<Rightarrow> 'w"
  Allocates :: "nat \<Rightarrow> bool"
  fs_exists :: "'w \<Rightarrow> wstring \<Rightarrow> bool option"
  fs_relative :: "'w \<Rightarrow> wstring \<Rightarrow> wstring \<Rightarrow> wstring option"
  fs_remove :: "'w \<Rightarrow> wstring \<Rightarrow> 'w"
  weakly_canonical :: "'w \<Rightarrow> wstring \<Rightarrow> wstring option"
  recursive_walk :: "'w \<Rightarrow> wstring \<Rightarrow> walk option"
  GetLongPathNameW :: "'w \<Rightarrow> wstring \<Rightarrow> nat \<Rightarrow> nat \<times> wstring"
  SetFileAttributesW :: "'w \<Rightarrow> wstring \<Rightarrow> dword \<Rightarrow> 'w \<times> dword option"
  SetLastWriteTime :: "'w \<Rightarrow> 'h \<Rightarrow> FILETIME \<Rightarrow> 'w \<times> dword option"
  CloseHandleChecked :: "'w \<Rightarrow> 'h \<Rightarrow> 'w \<times> dword option"
  BCryptOpenAlgorithmProvider :: ntstatus
  BCryptGetProperty :: ntstatus
  BCryptCreateHash :: ntstatus
  BCryptHashData :: "byte list \<Rightarrow> byte list \<Rightarrow> ntstatus"
  BCryptFinishHash :: "byte list \<Rightarrow> ntstatus \<times> byte list"
  ZSTD_compress :: "int \<Rightarrow> byte list \<Rightarrow> byte list option"
  ZSTD_getFrameContentSize :: "byte list \<Rightarrow> uint64"
  ZSTD_decompress :: "nat \<Rightarrow> byte list \<Rightarrow> byte list option"
  towlower :: "wchar \<Rightarrow> wchar"
  NewGuidText :: "'w \<Rightarrow> wstring option"
  GetSystemTime :: "'w \<Rightarrow> SystemTime"

section \<open>Identity and time\<close>

definition NtStatusToDword :: "ntstatus \<Rightarrow> dword" where
  "NtStatusToDword status =
     (if status = STATUS_SUCCESS then ERROR_SUCCESS
      else if status = STATUS_INVALID_PARAMETER then ERROR_INVALID_PARAMETER
      else if status = STATUS_INVALID_HANDLE then ERROR_INVALID_HANDLE
      else if status = STATUS_NO_MEMORY then ERROR_NOT_ENOUGH_MEMORY
      else ERROR_INVALID_FUNCTION)"

definition GenerateId :: "('w, 'h, 'i, 'o) image_io \<Rightarrow> 'w \<Rightarrow> wstring" where
  "GenerateId im w =
     (case NewGuidText im w of
        None \<Rightarrow> []
      | Some ident \<Rightarrow>
          if 2 \<le> length ident \<and> ident ! 0 = 123 \<and> last ident = 125 then take (length ident - 2) (drop 1 ident) else ident)"

text \<open>\<^verbatim>\<open>%0nu\<close>: at least \<open>n\<close> decimal digits.\<close>

fun decimal_digits :: "nat \<Rightarrow> wstring" where
  "decimal_digits x = (if x < 10 then [48 + of_nat x] else decimal_digits (x div 10) @ [48 + of_nat (x mod 10)])"

declare decimal_digits.simps [simp del]

definition padded :: "nat \<Rightarrow> nat \<Rightarrow> wstring" where
  "padded n x = (let ds = decimal_digits x in replicate (n - length ds) 48 @ ds)"

definition GetCurrentTimestampISO8601 :: "('w, 'h, 'i, 'o) image_io \<Rightarrow> 'w \<Rightarrow> wstring" where
  "GetCurrentTimestampISO8601 im w =
     (let st = GetSystemTime im w in
      padded 4 (wYear st) @ wlit ''-'' @ padded 2 (wMonth st) @ wlit ''-'' @ padded 2 (wDay st) @ wlit ''T'' @
      padded 2 (wHour st) @ wlit '':'' @ padded 2 (wMinute st) @ wlit '':'' @ padded 2 (wSecond st) @ wlit ''Z'')"

definition StampIdentity :: "('w, 'h, 'i, 'o) image_io \<Rightarrow> 'w \<Rightarrow> LayerMetadata \<Rightarrow> LayerMetadata" where
  "StampIdentity im w meta =
     (let meta1 = (if layerId meta = [] then meta\<lparr>layerId := GenerateId im w\<rparr> else meta) in
      if layerCreatedAt meta1 = [] then meta1\<lparr>layerCreatedAt := GetCurrentTimestampISO8601 im w\<rparr> else meta1)"

section \<open>Hashing\<close>

definition kChunkSize :: nat where "kChunkSize = 64 * 1024"

lemma kChunkSize_pos [simp]: "0 < kChunkSize"
  by (simp add: kChunkSize_def)

definition InitBcryptSha256 :: "('w, 'h, 'i, 'o) image_io \<Rightarrow> dword" where
  "InitBcryptSha256 im =
     (if BCryptOpenAlgorithmProvider im \<noteq> STATUS_SUCCESS then NtStatusToDword (BCryptOpenAlgorithmProvider im)
      else if BCryptGetProperty im \<noteq> STATUS_SUCCESS then NtStatusToDword (BCryptGetProperty im)
      else if BCryptCreateHash im \<noteq> STATUS_SUCCESS then NtStatusToDword (BCryptCreateHash im)
      else ERROR_SUCCESS)"

definition FinishHash :: "('w, 'h, 'i, 'o) image_io \<Rightarrow> byte list \<Rightarrow> dword + byte list" where
  "FinishHash im hashed =
     (case BCryptFinishHash im hashed of (status, digest) \<Rightarrow>
        let err = NtStatusToDword status in if err = ERROR_SUCCESS then Inr digest else Inl err)"

text \<open>The loop reads and hashes \<open>remaining\<close> bytes from \<open>pos\<close> on.\<close>

function hash_stream_loop ::
  "('w, 'h, 'i, 'o) image_io \<Rightarrow> 'w \<Rightarrow> 'i \<Rightarrow> int \<Rightarrow> nat \<Rightarrow> byte list \<Rightarrow> dword + byte list" where
  "hash_stream_loop im w file_in pos remaining hashed =
     (if remaining = 0 then Inr hashed
      else
        let chunk = min remaining kChunkSize; buffer = ReadIn im w file_in pos chunk in
        if length buffer \<noteq> chunk then Inl ERROR_READ_FAULT
        else
          let status = BCryptHashData im hashed buffer in
          if status \<noteq> STATUS_SUCCESS then Inl (NtStatusToDword status)
          else hash_stream_loop im w file_in (pos + int chunk) (remaining - chunk) (hashed @ buffer))"
  by pat_completeness auto
termination by (relation "measure (\<lambda>(im, w, file_in, pos, remaining, hashed). remaining)") auto

declare hash_stream_loop.simps [simp del]

definition ComputeSHA256Stream ::
  "('w, 'h) host \<Rightarrow> ('w, 'h, 'i, 'o) image_io \<Rightarrow> 'w \<Rightarrow> wstring \<Rightarrow> uint64 \<Rightarrow> uint64 \<Rightarrow> dword + byte list" where
  "ComputeSHA256Stream os im w filePath offset sz =
     (case OpenIn im w True (ForWin32 os filePath) of
        None \<Rightarrow> Inl ERROR_FILE_NOT_FOUND
      | Some file_in \<Rightarrow>
          if \<not> SeekIn im w file_in (sint offset) then Inl ERROR_SEEK
          else
            let err = InitBcryptSha256 im in
            if err \<noteq> ERROR_SUCCESS then Inl err
            else
              (case hash_stream_loop im w file_in (sint offset) (unat sz) [] of
                 Inl e \<Rightarrow> Inl e
               | Inr hashed \<Rightarrow> FinishHash im hashed))"

function write_hashed_loop ::
  "('w, 'h, 'i, 'o) image_io \<Rightarrow> 'w \<Rightarrow> 'o \<Rightarrow> byte list \<Rightarrow> byte list \<Rightarrow> 'w \<times> (dword + byte list)" where
  "write_hashed_loop im w output data hashed =
     (if data = [] then (w, Inr hashed)
      else
        let chunk = take kChunkSize data; status = BCryptHashData im hashed chunk in
        if status \<noteq> STATUS_SUCCESS then (w, Inl (NtStatusToDword status))
        else
          (case WriteOut im w output chunk of
             (w1, False) \<Rightarrow> (w1, Inl ERROR_WRITE_FAULT)
           | (w1, True) \<Rightarrow> write_hashed_loop im w1 output (drop kChunkSize data) (hashed @ chunk)))"
  by pat_completeness auto
termination by (relation "measure (\<lambda>(im, w, output, data, hashed). length data)") auto

declare write_hashed_loop.simps [simp del]

definition WriteDataWithHash ::
  "('w, 'h, 'i, 'o) image_io \<Rightarrow> 'w \<Rightarrow> 'o \<Rightarrow> byte list \<Rightarrow> 'w \<times> (dword + byte list)" where
  "WriteDataWithHash im w output data =
     (let err = InitBcryptSha256 im in
      if err \<noteq> ERROR_SUCCESS then (w, Inl err)
      else
        (case write_hashed_loop im w output data [] of
           (w1, Inl e) \<Rightarrow> (w1, Inl e)
         | (w1, Inr hashed) \<Rightarrow> (w1, FinishHash im hashed)))"

definition HashToHexString :: "byte list \<Rightarrow> wstring" where
  "HashToHexString digest = concat (map (\<lambda>d. [hex_digit (drop_bit 4 d), hex_digit d]) digest)"

section \<open>Compression\<close>

definition CompressBuffer :: "('w, 'h, 'i, 'o) image_io \<Rightarrow> byte list \<Rightarrow> int \<Rightarrow> dword + byte list" where
  "CompressBuffer im input level =
     (case ZSTD_compress im level input of None \<Rightarrow> Inl ERROR_INVALID_DATA | Some out \<Rightarrow> Inr out)"

definition kMaxDecompressedBytes :: uint64 where "kMaxDecompressedBytes = 4 * 1024 * 1024 * 1024"
definition ZSTD_CONTENTSIZE_UNKNOWN :: uint64 where "ZSTD_CONTENTSIZE_UNKNOWN = 0xFFFFFFFFFFFFFFFF"
definition ZSTD_CONTENTSIZE_ERROR :: uint64 where "ZSTD_CONTENTSIZE_ERROR = 0xFFFFFFFFFFFFFFFE"

definition DecompressBuffer :: "('w, 'h, 'i, 'o) image_io \<Rightarrow> byte list \<Rightarrow> failure + byte list" where
  "DecompressBuffer im input =
     (let frameSize = ZSTD_getFrameContentSize im input in
      if frameSize = ZSTD_CONTENTSIZE_ERROR \<or> frameSize = ZSTD_CONTENTSIZE_UNKNOWN then Inl (Failed ERROR_INVALID_DATA)
      else if kMaxDecompressedBytes < frameSize then Inl (Failed ERROR_INVALID_DATA)
      else if \<not> Allocates im (unat frameSize) then Inl Threw
      else
        (case ZSTD_decompress im (unat frameSize) input of
           None \<Rightarrow> Inl (Failed ERROR_INVALID_DATA)
         | Some output \<Rightarrow> if length output \<noteq> unat frameSize then Inl (Failed ERROR_INVALID_DATA) else Inr output))"

section \<open>The scan of a directory\<close>

definition RelativeNameOf :: "('w, 'h, 'i, 'o) image_io \<Rightarrow> 'w \<Rightarrow> wstring \<Rightarrow> wstring \<Rightarrow> wstring option" where
  "RelativeNameOf im w absolute base =
     map_option (map (\<lambda>c. if c = bslash then fslash else c)) (fs_relative im w absolute base)"

definition UnderExtendedRoot :: "wstring \<Rightarrow> wstring \<Rightarrow> wstring" where
  "UnderExtendedRoot root relativePath = path_append root (map (\<lambda>c. if c = fslash then bslash else c) relativePath)"

definition ToLower :: "('w, 'h, 'i, 'o) image_io \<Rightarrow> wstring \<Rightarrow> wstring" where
  "ToLower im s = map (towlower im) s"

definition ExistingLongName :: "('w, 'h) host \<Rightarrow> ('w, 'h, 'i, 'o) image_io \<Rightarrow> 'w \<Rightarrow> wstring \<Rightarrow> wstring \<Rightarrow> wstring option" where
  "ExistingLongName os im w directory name =
     (let path = WithExtendedPrefix os (path_append directory name); needed = fst (GetLongPathNameW im w path 0) in
      if needed = 0 then None
      else
        (case GetLongPathNameW im w path needed of (written, longPath) \<Rightarrow>
           if written = 0 \<or> needed \<le> written then None else Some (path_filename (take written longPath))))"

definition UnpackSkipsEntry :: "('w, 'h) host \<Rightarrow> ('w, 'h, 'i, 'o) image_io \<Rightarrow> 'w \<Rightarrow> wstring \<Rightarrow> wstring \<Rightarrow> bool" where
  "UnpackSkipsEntry os im w relativePath targetRoot =
     (let firstSegment = FirstSegmentAsOpened os relativePath in
      if firstSegment = [] then False
      else if IsRootSidecarPath firstSegment then True
      else if HasWhiteoutPrefix firstSegment \<and> IsRootSidecarPath (drop 4 firstSegment) then True
      else
        (case ExistingLongName os im w targetRoot firstSegment of
           None \<Rightarrow> False
         | Some longName \<Rightarrow> FirstSegmentOpensAsSidecar os longName))"

definition ReadFileBytes :: "('w, 'h, 'i, 'o) image_io \<Rightarrow> 'w \<Rightarrow> wstring \<Rightarrow> dword + byte list" where
  "ReadFileBytes im w path =
     (case OpenIn im w True path of
        None \<Rightarrow> Inl ERROR_ACCESS_DENIED
      | Some file_in \<Rightarrow>
          let sz = TellEnd im w file_in in
          if sz < 0 then Inl ERROR_READ_FAULT
          else if 0 < sz
          then
            let bytes = ReadIn im w file_in 0 (nat sz) in
            if length bytes \<noteq> nat sz then Inl ERROR_READ_FAULT else Inr bytes
          else Inr [])"

definition FillFileEntry :: "('w, 'h) host \<Rightarrow> 'w \<Rightarrow> wstring \<Rightarrow> bool \<Rightarrow> FileEntryHeader \<times> dword" where
  "FillFileEntry os w path isDir =
     (case GetFileAttributesExW os w path of
        Inl e \<Rightarrow> (new_FileEntryHeader, e)
      | Inr attrs \<Rightarrow>
          (new_FileEntryHeader
                 \<lparr>entryAttributes := dataAttributes attrs,
                  entryModified := FileTimeToUint64 (writeTime (dataTimes attrs)),
                  isDirectory := if isDir then 1 else 0,
                  entryBytes := if isDir then 0 else push_bit 32 (ucast (nFileSizeHigh attrs)) OR ucast (nFileSizeLow attrs)\<rparr>,
           ERROR_SUCCESS))"

text \<open>
  The loop of the scan; an entry of depth 0 that opens as the sidecar is stepped past with everything
  under it (\<^verbatim>\<open>StepPastRootSidecar\<close>).
\<close>

definition StepsPastRootSidecar :: "('w, 'h) host \<Rightarrow> wstring \<Rightarrow> nat \<Rightarrow> bool" where
  "StepsPastRootSidecar os path depth = (if depth \<noteq> 0 \<or> \<not> FirstSegmentOpensAsSidecar os (path_filename path) then False else True)"

primrec scan_walk ::
  "('w, 'h) host \<Rightarrow> ('w, 'h, 'i, 'o) image_io \<Rightarrow> 'w \<Rightarrow> wstring \<Rightarrow> walk \<Rightarrow> FileSnapshot list \<Rightarrow> failure + FileSnapshot list" where
  "scan_walk os im w base WalkEnd out = Inr out"
| "scan_walk os im w base WalkError out = Inl (Failed ERROR_ACCESS_DENIED)"
| "scan_walk os im w base (WalkAt path depth isDir following skipping) out =
     (if StepsPastRootSidecar os path depth then scan_walk os im w base skipping out
      else
        (case isDir of
           None \<Rightarrow> Inl (Failed ERROR_ACCESS_DENIED)
         | Some d \<Rightarrow>
             (case RelativeNameOf im w path base of
                None \<Rightarrow> Inl Threw
              | Some relative \<Rightarrow>
                  (case FillFileEntry os w path d of (entry, err) \<Rightarrow>
                     if err \<noteq> ERROR_SUCCESS then Inl (Failed err)
                     else
                       scan_walk os im w base following
                         (out @ [\<lparr>lookupKey = ToLower im relative, snapshotPath = relative, snapshotEntry = entry\<rparr>])))))"

definition ScanDirectory ::
  "('w, 'h) host \<Rightarrow> ('w, 'h, 'i, 'o) image_io \<Rightarrow> 'w \<Rightarrow> wstring \<Rightarrow> failure + FileSnapshot list" where
  "ScanDirectory os im w dir =
     (let base = ForWin32 os dir in
      case fs_exists im w base of
        None \<Rightarrow> Inl Threw
      | Some False \<Rightarrow> Inl (Failed ERROR_PATH_NOT_FOUND)
      | Some True \<Rightarrow>
          (case recursive_walk im w base of
             None \<Rightarrow> Inl (Failed ERROR_ACCESS_DENIED)
           | Some it \<Rightarrow> scan_walk os im w base it []))"

definition AddFile ::
  "('w, 'h) host \<Rightarrow> ('w, 'h, 'i, 'o) image_io \<Rightarrow> 'w \<Rightarrow> ArchiveBuilder \<Rightarrow> wstring \<Rightarrow> wstring \<Rightarrow> FileEntryHeader \<Rightarrow> ArchiveBuilder \<times> dword" where
  "AddFile os im w b path relativePath entry =
     (case (if 0 < entryBytes entry then ReadFileBytes im w path else Inr []) of
        Inl err \<Rightarrow> (b, err)
      | Inr bytes \<Rightarrow>
          AppendCounted os b relativePath
            (entry\<lparr>entryBytes := of_nat (length bytes), isWhiteout := if HasWhiteoutPrefix (path_filename relativePath) then 1 else 0\<rparr>)
            bytes)"

primrec PackEntries ::
  "('w, 'h) host \<Rightarrow> ('w, 'h, 'i, 'o) image_io \<Rightarrow> 'w \<Rightarrow> wstring \<Rightarrow> FileSnapshot list \<Rightarrow> ArchiveBuilder \<Rightarrow> ArchiveBuilder \<times> dword" where
  "PackEntries os im w root [] b = (b, ERROR_SUCCESS)"
| "PackEntries os im w root (snap # entries) b =
     (let (b1, err) =
            if isDirectory (snapshotEntry snap) \<noteq> 0 then AddDirectory os b (snapshotPath snap) (snapshotEntry snap)
            else AddFile os im w b (UnderExtendedRoot (ForWin32 os root) (snapshotPath snap)) (snapshotPath snap) (snapshotEntry snap)
      in if err \<noteq> ERROR_SUCCESS then (b1, err) else PackEntries os im w root entries b1)"

primrec AddWhiteoutMarkers :: "('w, 'h) host \<Rightarrow> wstring list \<Rightarrow> ArchiveBuilder \<Rightarrow> ArchiveBuilder \<times> dword" where
  "AddWhiteoutMarkers os [] b = (b, ERROR_SUCCESS)"
| "AddWhiteoutMarkers os (path # deleted) b =
     (let (b1, err) = AddWhiteoutMarker os b path in
      if err \<noteq> ERROR_SUCCESS then (b1, err) else AddWhiteoutMarkers os deleted b1)"

section \<open>Writing an image\<close>

record ImageOutput =
  outputPath :: wstring
  compressionLevel :: int

definition CreateParentOf :: "('w, 'h) host \<Rightarrow> 'w \<Rightarrow> wstring \<Rightarrow> 'w \<times> dword option" where
  "CreateParentOf os w outPath =
     (if parent_path outPath \<noteq> []
      then
        (case fs_create_directories os w (parent_path outPath) of
           (w1, Some ec) \<Rightarrow> (w1, Some (Win32FromErrorCode ec))
         | (w1, None) \<Rightarrow> (w1, None))
      else (w, None))"

text \<open>The part of \<^verbatim>\<open>WriteImageFile\<close> from the open of the output on.\<close>

definition write_image_streams ::
  "('w, 'h, 'i, 'o) image_io \<Rightarrow> 'w \<Rightarrow> wstring \<Rightarrow> byte list \<Rightarrow> byte list \<Rightarrow> 'w \<times> dword" where
  "write_image_streams im w outPath metadataJson compressed =
     (case OpenOut im w True outPath of
        (w1, None) \<Rightarrow> (w1, ERROR_ACCESS_DENIED)
      | (w1, Some out) \<Rightarrow>
          let header = new_LayerImageHeader\<lparr>imageVersion := LAYER_IMAGE_VERSION, imageFlags := 1\<rparr>;
              (w2, ok2) = WriteOut im w1 out (image_header_bytes header) in
          if \<not> ok2 then (CloseOut im w2 out, ERROR_WRITE_FAULT)
          else
            let header1 = header\<lparr>metadataOffset := 128, metadataSize := of_nat (length metadataJson)\<rparr>;
                (w3, ok3) = WriteOut im w2 out metadataJson in
            if \<not> ok3 then (CloseOut im w3 out, ERROR_WRITE_FAULT)
            else
              let header2 = header1\<lparr>dataOffset := metadataOffset header1 + metadataSize header1, dataSize := of_nat (length compressed)\<rparr> in
              (case WriteDataWithHash im w3 out compressed of
                 (w4, Inl err) \<Rightarrow> (CloseOut im w4 out, err)
               | (w4, Inr digest) \<Rightarrow>
                   let header3 = header2\<lparr>imageChecksum := digest\<rparr>; (w5, ok5) = SeekOut im w4 out 0 in
                   if \<not> ok5 then (CloseOut im w5 out, ERROR_SEEK)
                   else
                     let (w6, ok6) = WriteOut im w5 out (image_header_bytes header3) in
                     if \<not> ok6 then (CloseOut im w6 out, ERROR_WRITE_FAULT)
                     else (CloseOut im w6 out, ERROR_SUCCESS)))"

definition WriteImageFile ::
  "('w, 'h) host \<Rightarrow> ('w, 'h, 'i, 'o) image_io \<Rightarrow> 'w \<Rightarrow> ImageOutput \<Rightarrow> LayerMetadata \<Rightarrow> byte list \<Rightarrow> 'w \<times> LayerMetadata \<times> dword" where
  "WriteImageFile os im w output meta archive =
     (let outPath = ForWin32 os (outputPath output) in
      case CreateParentOf os w outPath of
        (w1, Some err) \<Rightarrow> (w1, meta, err)
      | (w1, None) \<Rightarrow>
        (case CompressBuffer im archive (compressionLevel output) of
           Inl e \<Rightarrow> (w1, meta, e)
         | Inr compressed \<Rightarrow>
             let meta1 = meta\<lparr>layerCompression := CompressionZstd, uncompressedSize := of_nat (length archive),
                              compressedSize := of_nat (length compressed)\<rparr>;
                 (w2, e) = write_image_streams im w1 outPath (SerializeMetadata os meta1 @ [0]) compressed in
             (w2, meta1, e)))"

definition WriteImage ::
  "('w, 'h) host \<Rightarrow> ('w, 'h, 'i, 'o) image_io \<Rightarrow> 'w \<Rightarrow> ImageOutput \<Rightarrow> LayerMetadata \<Rightarrow> byte list \<Rightarrow> 'w \<times> LayerMetadata \<times> dword" where
  "WriteImage os im w output meta archive =
     (let (w1, meta1, err) = WriteImageFile os im w output meta archive in
      if err \<noteq> ERROR_SUCCESS then (fs_remove im w1 (ForWin32 os (outputPath output)), meta1, err) else (w1, meta1, err))"

definition CreateImage ::
  "('w, 'h) host \<Rightarrow> ('w, 'h, 'i, 'o) image_io \<Rightarrow> 'w \<Rightarrow> wstring \<Rightarrow> ImageOutput \<Rightarrow> LayerMetadata \<Rightarrow> 'w \<times> LayerMetadata \<times> (failure + unit)" where
  "CreateImage os im w sourceDir output meta =
     (case ScanDirectory os im w sourceDir of
        Inl f \<Rightarrow> (w, meta, Inl f)
      | Inr sourceEntries \<Rightarrow>
          let (builder, err) = PackEntries os im w sourceDir sourceEntries new_ArchiveBuilder in
          if err \<noteq> ERROR_SUCCESS then (w, meta, Inl (Failed err))
          else
            let meta1 = (StampIdentity im w meta)\<lparr>layerFileCount := builtCount builder\<rparr>;
                (w1, meta2, err1) = WriteImage os im w output meta1 (Finish builder) in
            (w1, meta2, returned err1))"

definition CreateDifferentialImage ::
  "('w, 'h) host \<Rightarrow> ('w, 'h, 'i, 'o) image_io \<Rightarrow> 'w \<Rightarrow> wstring \<Rightarrow> wstring \<Rightarrow> ImageOutput \<Rightarrow> LayerMetadata \<Rightarrow> 'w \<times> LayerMetadata \<times> (failure + unit)" where
  "CreateDifferentialImage os im w sourceDir baseDir output meta =
     (case ScanDirectory os im w sourceDir of
        Inl f \<Rightarrow> (w, meta, Inl f)
      | Inr sourceEntries \<Rightarrow>
          (case ScanDirectory os im w baseDir of
             Inl f \<Rightarrow> (w, meta, Inl f)
           | Inr baseEntries \<Rightarrow>
               let (builder, err) = PackEntries os im w sourceDir (ChangedEntries sourceEntries baseEntries) new_ArchiveBuilder in
               if err \<noteq> ERROR_SUCCESS then (w, meta, Inl (Failed err))
               else
                 let deleted = DeletedPaths sourceEntries baseEntries;
                     (builder1, err1) = AddWhiteoutMarkers os deleted builder in
                 if err1 \<noteq> ERROR_SUCCESS then (w, meta, Inl (Failed err1))
                 else
                   let meta1 = (StampIdentity im w meta)\<lparr>layerWhiteouts := deleted, layerFileCount := builtCount builder1\<rparr>;
                       (w1, meta2, err2) = WriteImage os im w output meta1 (Finish builder1) in
                   (w1, meta2, returned err2)))"

section \<open>Reading an image\<close>

definition ReadHeaderAndMetadata ::
  "('w, 'h) host \<Rightarrow> ('w, 'h, 'i, 'o) image_io \<Rightarrow> 'w \<Rightarrow> wstring \<Rightarrow> failure + ('i \<times> LayerImageHeader \<times> LayerMetadata)" where
  "ReadHeaderAndMetadata os im w imagePath =
     (case OpenIn im w True (ForWin32 os imagePath) of
        None \<Rightarrow> Inl (Failed ERROR_FILE_NOT_FOUND)
      | Some file_in \<Rightarrow>
          let bytes = ReadIn im w file_in 0 128; header = image_header_at bytes in
          if length bytes \<noteq> 128 then Inl (Failed ERROR_INVALID_DATA)
          else if imageMagic header \<noteq> LAYER_IMAGE_MAGIC then Inl (Failed ERROR_INVALID_DATA)
          else if LAYER_IMAGE_VERSION < imageVersion header then Inl (Failed ERROR_REVISION_MISMATCH)
          else if metadataOffset header < 128 then Inl (Failed ERROR_INVALID_DATA)
          else if dataOffset header < metadataOffset header + metadataSize header then Inl (Failed ERROR_INVALID_DATA)
          else if metadataOffset header + metadataSize header < metadataOffset header then Inl (Failed ERROR_INVALID_DATA)
          else if dataOffset header + dataSize header < dataOffset header then Inl (Failed ERROR_INVALID_DATA)
          else if \<not> SeekIn im w file_in (sint (metadataOffset header)) then Inl (Failed ERROR_SEEK)
          else if \<not> Allocates im (unat (metadataSize header)) then Inl Threw
          else
            let metadataStr = ReadIn im w file_in (sint (metadataOffset header)) (unat (metadataSize header)) in
            if length metadataStr \<noteq> unat (metadataSize header) then Inl (Failed ERROR_READ_FAULT)
            else
              (case DeserializeMetadata os (strip_end (\<lambda>b. b = 0) metadataStr) of
                 None \<Rightarrow> Inl (Failed ERROR_INVALID_DATA)
               | Some meta \<Rightarrow> Inr (file_in, header, meta)))"

definition GetImageInfo ::
  "('w, 'h) host \<Rightarrow> ('w, 'h, 'i, 'o) image_io \<Rightarrow> 'w \<Rightarrow> wstring \<Rightarrow> failure + (LayerImageHeader \<times> LayerMetadata)" where
  "GetImageInfo os im w imagePath =
     (case ReadHeaderAndMetadata os im w imagePath of
        Inl f \<Rightarrow> Inl f
      | Inr (file_in, header, meta) \<Rightarrow> Inr (header, meta))"

text \<open>The check of the data section that \<^verbatim>\<open>ExtractImage\<close> and \<^verbatim>\<open>ValidateImage\<close> make.\<close>

definition checksum_error :: "('w, 'h) host \<Rightarrow> ('w, 'h, 'i, 'o) image_io \<Rightarrow> 'w \<Rightarrow> wstring \<Rightarrow> LayerImageHeader \<Rightarrow> dword" where
  "checksum_error os im w imagePath header =
     (case ComputeSHA256Stream os im w imagePath (dataOffset header) (dataSize header) of
        Inl err \<Rightarrow> err
      | Inr computed \<Rightarrow> if computed \<noteq> imageChecksum header then ERROR_CRC else ERROR_SUCCESS)"

definition ValidateImage :: "('w, 'h) host \<Rightarrow> ('w, 'h, 'i, 'o) image_io \<Rightarrow> 'w \<Rightarrow> wstring \<Rightarrow> failure + unit" where
  "ValidateImage os im w imagePath =
     (case ReadHeaderAndMetadata os im w imagePath of
        Inl f \<Rightarrow> Inl f
      | Inr (file_in, header, meta) \<Rightarrow> returned (checksum_error os im w imagePath header))"

section \<open>Extraction\<close>

definition WriteExtractedFile ::
  "('w, 'h) host \<Rightarrow> ('w, 'h, 'i, 'o) image_io \<Rightarrow> 'w \<Rightarrow> wstring \<Rightarrow> FileEntryHeader \<Rightarrow> byte list \<Rightarrow> 'w \<times> dword" where
  "WriteExtractedFile os im w target entry fileData =
     (let w1 = (if parent_path target \<noteq> [] then fst (fs_create_directories os w (parent_path target)) else w) in
      case OpenOut im w1 True target of
        (w2, None) \<Rightarrow> (w2, ERROR_ACCESS_DENIED)
      | (w2, Some out) \<Rightarrow>
          let (w3, ok) = (if 0 < entryBytes entry then WriteOut im w2 out (take (unat (entryBytes entry)) fileData) else (w2, True));
              w4 = CloseOut im w3 out in
          if \<not> ok then (w4, ERROR_WRITE_FAULT)
          else
            (case SetFileAttributesW im w4 target (entryAttributes entry) of
               (w5, Some e) \<Rightarrow> (w5, e)
             | (w5, None) \<Rightarrow>
                 (case CreateFileW im w5 target FILE_WRITE_ATTRIBUTES FILE_SHARE_READ OPEN_EXISTING FILE_ATTRIBUTE_NORMAL of
                    (w6, Inl e) \<Rightarrow> (w6, e)
                  | (w6, Inr hFile) \<Rightarrow>
                      (case SetLastWriteTime im w6 hFile (Uint64ToFileTime (entryModified entry)) of
                         (w7, Some e) \<Rightarrow> (fst (CloseHandleChecked im w7 hFile), e)
                       | (w7, None) \<Rightarrow>
                           (case CloseHandleChecked im w7 hFile of
                              (w8, Some e) \<Rightarrow> (w8, e)
                            | (w8, None) \<Rightarrow> (w8, ERROR_SUCCESS))))))"

record UnpackTarget =
  targetRoot :: wstring
  canonicalRoot :: wstring

definition ResolveUnpackTarget ::
  "('w, 'h) host \<Rightarrow> ('w, 'h, 'i, 'o) image_io \<Rightarrow> 'w \<Rightarrow> wstring \<Rightarrow> 'w \<times> (dword + UnpackTarget)" where
  "ResolveUnpackTarget os im w targetDir =
     (let root = ForWin32 os targetDir; w1 = fst (fs_create_directories os w root) in
      case weakly_canonical im w1 root of
        None \<Rightarrow> (w1, Inl ERROR_BAD_PATHNAME)
      | Some canonical \<Rightarrow> (w1, Inr \<lparr>targetRoot = root, canonicalRoot = canonical\<rparr>))"

definition JoinUnderTarget ::
  "('w, 'h, 'i, 'o) image_io \<Rightarrow> 'w \<Rightarrow> UnpackTarget \<Rightarrow> wstring \<Rightarrow> dword + wstring" where
  "JoinUnderTarget im w target relativePath =
     (let path = UnderExtendedRoot (targetRoot target) relativePath in
      case weakly_canonical im w path of
        None \<Rightarrow> Inl ERROR_BAD_PATHNAME
      | Some canonical \<Rightarrow>
          if \<not> IsPathContainedIn canonical (canonicalRoot target) then Inl ERROR_BAD_PATHNAME else Inr path)"

function ExtractArchive ::
  "('w, 'h) host \<Rightarrow> ('w, 'h, 'i, 'o) image_io \<Rightarrow> 'w \<Rightarrow> byte list \<Rightarrow> nat \<Rightarrow> UnpackTarget \<Rightarrow> wstring list \<Rightarrow> 'w \<times> (dword + wstring list)" where
  "ExtractArchive os im w archive pos target extracted =
     (case ReadArchiveEntry os archive pos of
        Inl err \<Rightarrow> (w, Inl err)
      | Inr (pos1, None) \<Rightarrow> (w, Inr extracted)
      | Inr (pos1, Some entry) \<Rightarrow>
          if UnpackSkipsEntry os im w (archiveName entry) (targetRoot target)
          then ExtractArchive os im w archive pos1 target extracted
          else
            (case JoinUnderTarget im w target (archiveName entry) of
               Inl err \<Rightarrow> (w, Inl err)
             | Inr path \<Rightarrow>
                 if isDirectory (archiveHeader entry) \<noteq> 0
                 then ExtractArchive os im (fst (fs_create_directories os w path)) archive pos1 target extracted
                 else
                   (case WriteExtractedFile os im w path (archiveHeader entry) (archiveData entry) of (w1, err) \<Rightarrow>
                      if err \<noteq> ERROR_SUCCESS then (w1, Inl err)
                      else
                        ExtractArchive os im w1 archive pos1 target
                          (if isWhiteout (archiveHeader entry) \<noteq> 0 then extracted @ [archiveName entry] else extracted))))"
  by pat_completeness auto
termination
  by (relation "measure (\<lambda>(os, im, w, archive, pos, target, extracted). length archive - pos)")
    (auto intro: ReadArchiveEntry_shrinks)

declare ExtractArchive.simps [simp del]

primrec MaterializeMetadataWhiteouts ::
  "('w, 'h) host \<Rightarrow> ('w, 'h, 'i, 'o) image_io \<Rightarrow> 'w \<Rightarrow> wstring list \<Rightarrow> wstring list \<Rightarrow> UnpackTarget \<Rightarrow> 'w \<times> dword" where
  "MaterializeMetadataWhiteouts os im w [] extracted target = (w, ERROR_SUCCESS)"
| "MaterializeMetadataWhiteouts os im w (logical # whiteouts) extracted target =
     (if \<not> IsValidArchivePath (WideToUtf8 os logical) then (w, ERROR_BAD_PATHNAME)
      else
        let marker = MakeWhiteoutMarkerPath logical in
        if ToLower im marker \<in> set (map (ToLower im) extracted)
        then MaterializeMetadataWhiteouts os im w whiteouts extracted target
        else if UnpackSkipsEntry os im w marker (targetRoot target)
        then MaterializeMetadataWhiteouts os im w whiteouts extracted target
        else
          (case JoinUnderTarget im w target marker of
             Inl err \<Rightarrow> (w, err)
           | Inr path \<Rightarrow>
               (case OpenOut im (fst (fs_create_directories os w (parent_path path))) True path of
                  (w2, None) \<Rightarrow> (w2, ERROR_ACCESS_DENIED)
                | (w2, Some out) \<Rightarrow>
                    MaterializeMetadataWhiteouts os im (CloseOut im w2 out) whiteouts extracted target)))"

text \<open>The part of \<^verbatim>\<open>ExtractImage\<close> that has the archive.\<close>

definition UnpackArchive ::
  "('w, 'h) host \<Rightarrow> ('w, 'h, 'i, 'o) image_io \<Rightarrow> 'w \<Rightarrow> byte list \<Rightarrow> LayerMetadata \<Rightarrow> wstring \<Rightarrow> 'w \<times> (failure + unit)" where
  "UnpackArchive os im w archive meta targetDir =
     (case ResolveUnpackTarget os im w targetDir of
        (w1, Inl err) \<Rightarrow> (w1, Inl (Failed err))
      | (w1, Inr target) \<Rightarrow>
          (case ExtractArchive os im w1 archive 0 target [] of
             (w2, Inl err) \<Rightarrow> (w2, Inl (Failed err))
           | (w2, Inr extracted) \<Rightarrow>
               let (w3, err) = MaterializeMetadataWhiteouts os im w2 (layerWhiteouts meta) extracted target in
               (w3, returned err)))"

definition ExtractImage ::
  "('w, 'h) host \<Rightarrow> ('w, 'h, 'i, 'o) image_io \<Rightarrow> 'w \<Rightarrow> wstring \<Rightarrow> wstring \<Rightarrow> bool \<Rightarrow> 'w \<times> (failure + unit)" where
  "ExtractImage os im w imagePath targetDir verifyChecksum =
     (case ReadHeaderAndMetadata os im w imagePath of
        Inl f \<Rightarrow> (w, Inl f)
      | Inr (file_in, header, meta) \<Rightarrow>
          let err = (if verifyChecksum then checksum_error os im w imagePath header else ERROR_SUCCESS) in
          if err \<noteq> ERROR_SUCCESS then (w, Inl (Failed err))
          else if \<not> SeekIn im w file_in (sint (dataOffset header)) then (w, Inl (Failed ERROR_SEEK))
          else if \<not> Allocates im (unat (dataSize header)) then (w, Inl Threw)
          else
            let compressed = (if 0 < dataSize header then ReadIn im w file_in (sint (dataOffset header)) (unat (dataSize header)) else []) in
            if 0 < dataSize header \<and> length compressed \<noteq> unat (dataSize header) then (w, Inl (Failed ERROR_READ_FAULT))
            else
              (case DecompressBuffer im compressed of
                 Inl f \<Rightarrow> (w, Inl f)
               | Inr archive \<Rightarrow> UnpackArchive os im w archive meta targetDir))"

section \<open>Manifests of images\<close>

record LayerManifestEntry =
  manifestImagePath :: wstring
  checksumHex :: wstring

record LayerManifest =
  schemaVersion :: dword
  manifestLayers :: "LayerManifestEntry list"

definition manifest_entry_json :: "('w, 'h) host \<Rightarrow> wstring \<Rightarrow> LayerImageHeader \<Rightarrow> json" where
  "manifest_entry_json os imagePath header =
     JObject [(blit ''path'', JString (WideToUtf8 os imagePath)),
              (blit ''sha256'', JString (WideToUtf8 os (HashToHexString (imageChecksum header))))]"

primrec manifest_layers ::
  "('w, 'h) host \<Rightarrow> ('w, 'h, 'i, 'o) image_io \<Rightarrow> 'w \<Rightarrow> wstring list \<Rightarrow> json list \<Rightarrow> dword + json list" where
  "manifest_layers os im w [] layers = Inr layers"
| "manifest_layers os im w (imagePath # paths) layers =
     (case OpenIn im w True (ForWin32 os imagePath) of
        None \<Rightarrow> Inl ERROR_FILE_NOT_FOUND
      | Some file_in \<Rightarrow>
          let bytes = ReadIn im w file_in 0 128; header = image_header_at bytes in
          if length bytes \<noteq> 128 then Inl ERROR_INVALID_DATA
          else if imageMagic header \<noteq> LAYER_IMAGE_MAGIC then Inl ERROR_INVALID_DATA
          else manifest_layers os im w paths (layers @ [manifest_entry_json os imagePath header]))"

definition CreateManifest ::
  "('w, 'h) host \<Rightarrow> ('w, 'h, 'i, 'o) image_io \<Rightarrow> 'w \<Rightarrow> wstring \<Rightarrow> wstring list \<Rightarrow> 'w \<times> dword" where
  "CreateManifest os im w manifestPath layerImagePaths =
     (case manifest_layers os im w layerImagePaths [] of
        Inl err \<Rightarrow> (w, err)
      | Inr layers \<Rightarrow>
          let j = JObject [(blit ''schemaVersion'', JInteger 1), (blit ''layers'', JArray layers)];
              outPath = ForWin32 os manifestPath in
          (case CreateParentOf os w outPath of
             (w1, Some err) \<Rightarrow> (w1, err)
           | (w1, None) \<Rightarrow>
               (case OpenOut im w1 False outPath of
                  (w2, None) \<Rightarrow> (w2, ERROR_ACCESS_DENIED)
                | (w2, Some out) \<Rightarrow>
                    let (w3, ok) = WriteOut im w2 out (json_dump os j); w4 = CloseOut im w3 out in
                    if \<not> ok then (w4, ERROR_WRITE_FAULT) else (w4, ERROR_SUCCESS))))"

text \<open>\<^verbatim>\<open>get<int>\<close>: a number of another width is cast.\<close>

fun json_int :: "json \<Rightarrow> int option" where
  "json_int (JUnsigned n) = Some (sint (ucast n :: 32 word))"
| "json_int (JInteger i) = Some (sint (word_of_int i :: 32 word))"
| "json_int (JFloat n) = Some (sint (ucast n :: 32 word))"
| "json_int (JBool b) = Some (if b then 1 else 0)"
| "json_int j = None"

primrec load_layers :: "('w, 'h) host \<Rightarrow> json list \<Rightarrow> LayerManifestEntry list option" where
  "load_layers os [] = Some []"
| "load_layers os (entry # entries) =
     Option.bind (json_value json_string entry (blit ''path'') []) (\<lambda>path.
     Option.bind (json_value json_string entry (blit ''sha256'') []) (\<lambda>hex.
     Option.bind (load_layers os entries) (\<lambda>es.
       Some (\<lparr>manifestImagePath = Utf8ToWide os path, checksumHex = Utf8ToWide os hex\<rparr> # es))))"

text \<open>The calls of \<^verbatim>\<open>value\<close> are outside the \<^verbatim>\<open>try\<close> block, so a type error leaves the function.\<close>

definition LoadManifest ::
  "('w, 'h) host \<Rightarrow> ('w, 'h, 'i, 'o) image_io \<Rightarrow> 'w \<Rightarrow> wstring \<Rightarrow> failure + LayerManifest" where
  "LoadManifest os im w manifestPath =
     (case OpenIn im w False (ForWin32 os manifestPath) of
        None \<Rightarrow> Inl (Failed ERROR_FILE_NOT_FOUND)
      | Some file_in \<Rightarrow>
          (case JsonFromStream im w file_in of
             None \<Rightarrow> Inl (Failed ERROR_INVALID_DATA)
           | Some j \<Rightarrow>
               (case json_value json_int j (blit ''schemaVersion'') 0 of
                  None \<Rightarrow> Inl Threw
                | Some version \<Rightarrow>
                    if version < 1 then Inl (Failed ERROR_INVALID_DATA)
                    else
                      (case (case json_member j (blit ''layers'') of Some (JArray js) \<Rightarrow> load_layers os js | _ \<Rightarrow> Some []) of
                         None \<Rightarrow> Inl Threw
                       | Some layers \<Rightarrow> Inr \<lparr>schemaVersion = word_of_int version, manifestLayers = layers\<rparr>))))"

end
