(* ===== verification/Image_Runs.thy ===== *)
theory Image_Runs
  imports Layer_Image
begin

text \<open>
  What the image functions guarantee: the header of an image that is accepted, the paths that an
  extraction writes, the archive of a directory, the difference of two directories, and the image that
  was written and is read back.
\<close>

section \<open>The header of an accepted image\<close>

lemma unat_lt64: "unat (x :: uint64) < 18446744073709551616"
  using unsigned_less [of x, where ?'a = nat] by simp

lemma no_wrap:
  fixes a b :: uint64
  assumes "\<not> a + b < a"
  shows "unat (a + b) = unat a + unat b"
  using assms unat_plus_if' [of a b] unat_lt64 [of a] unat_lt64 [of b]
  by (simp add: word_less_nat_alt split: if_splits)

lemma ReadHeaderAndMetadata_header:
  assumes "ReadHeaderAndMetadata os im w imagePath = Inr (f, h, meta)"
  shows "imageMagic h = LAYER_IMAGE_MAGIC \<and> imageVersion h \<le> LAYER_IMAGE_VERSION \<and>
    128 \<le> unat (metadataOffset h) \<and> unat (metadataOffset h) + unat (metadataSize h) \<le> unat (dataOffset h) \<and>
    unat (dataOffset h) + unat (dataSize h) < 2 ^ 64"
proof -
  from assms have h: "\<not> dataOffset h < metadataOffset h + metadataSize h" "\<not> metadataOffset h + metadataSize h < metadataOffset h"
      "\<not> dataOffset h + dataSize h < dataOffset h" "\<not> metadataOffset h < 128"
      "imageMagic h = LAYER_IMAGE_MAGIC" "\<not> LAYER_IMAGE_VERSION < imageVersion h"
    by (auto simp: ReadHeaderAndMetadata_def Let_def split: option.splits if_splits)
  from h(4) have "128 \<le> unat (metadataOffset h)" by (simp add: word_less_nat_alt not_less)
  moreover have "unat (metadataOffset h) + unat (metadataSize h) \<le> unat (dataOffset h)"
    using h(1) no_wrap [OF h(2)] by (simp add: word_less_nat_alt not_less)
  moreover have "unat (dataOffset h) + unat (dataSize h) < 2 ^ 64"
    using no_wrap [OF h(3)] unat_lt64 [of "dataOffset h + dataSize h"] by simp
  ultimately show ?thesis using h by simp
qed

section \<open>Paths that an extraction writes\<close>

text \<open>
  The target directory as the extraction sees it, the names it takes, what is inside a root (the root itself, or a text
  that goes on from it at a separator), and the paths that an extraction may touch; \<open>confined\<close> is for a condition on disks that every call on such a path keeps.
\<close>

definition resolved_target :: "('w, 'h) host \<Rightarrow> ('w, 'h, 'i, 'o) image_io \<Rightarrow> wstring \<Rightarrow> UnpackTarget \<Rightarrow> bool" where
  "resolved_target os im targetDir t \<longleftrightarrow>
     targetRoot t = ForWin32 os targetDir \<and> (\<exists>w. weakly_canonical im w (targetRoot t) = Some (canonicalRoot t))"

definition unpack_name :: "('w, 'h) host \<Rightarrow> wstring \<Rightarrow> bool" where
  "unpack_name os name \<longleftrightarrow>
     (\<exists>u. IsValidUtf8 u \<and> IsValidArchivePath u \<and> name = Utf8ToWide os u) \<or>
     (\<exists>logical. IsValidArchivePath (WideToUtf8 os logical) \<and> name = MakeWhiteoutMarkerPath logical)"

definition inside_root :: "wstring \<Rightarrow> wstring \<Rightarrow> bool" where
  "inside_root canon root \<longleftrightarrow> root = [] \<or> canon = root \<or>
     (\<exists>rest. canon = root @ rest \<and> rest \<noteq> [] \<and> (is_slash (last root) \<or> is_slash (hd rest)))"

lemma IsPathContainedIn_iff: "IsPathContainedIn canon root \<longleftrightarrow> inside_root canon root"
proof (cases "\<exists>rest. canon = root @ rest \<and> rest \<noteq> []")
  case True
  then show ?thesis by (auto simp: IsPathContainedIn_def inside_root_def is_slash_def nth_append hd_conv_nth)
next
  case False
  then have "length canon \<le> length root \<or> take (length root) canon \<noteq> root"
    by (metis append_take_drop_id drop_eq_Nil linorder_not_le)
  then show ?thesis using False by (auto simp: IsPathContainedIn_def inside_root_def)
qed

definition accepted_path :: "('w, 'h) host \<Rightarrow> ('w, 'h, 'i, 'o) image_io \<Rightarrow> UnpackTarget \<Rightarrow> wstring \<Rightarrow> bool" where
  "accepted_path os im t path \<longleftrightarrow>
     (\<exists>w name canonical. unpack_name os name \<and> \<not> UnpackSkipsEntry os im w name (targetRoot t) \<and>
        path = UnderExtendedRoot (targetRoot t) name \<and>
        weakly_canonical im w path = Some canonical \<and> inside_root canonical (canonicalRoot t))"

definition confined :: "('w, 'h) host \<Rightarrow> ('w, 'h, 'i, 'o) image_io \<Rightarrow> UnpackTarget \<Rightarrow> ('w \<Rightarrow> bool) \<Rightarrow> bool" where
  "confined os im t P \<longleftrightarrow>
     (\<forall>w path. P w \<longrightarrow> accepted_path os im t path \<longrightarrow>
        P (fst (fs_create_directories os w path)) \<and> P (fst (fs_create_directories os w (parent_path path))) \<and>
        P (fst (OpenOut im w True path)) \<and> (\<forall>a. P (fst (SetFileAttributesW im w path a))) \<and>
        P (fst (CreateFileW im w path FILE_WRITE_ATTRIBUTES FILE_SHARE_READ OPEN_EXISTING FILE_ATTRIBUTE_NORMAL)) \<and>
        (\<forall>v out bs. snd (OpenOut im v True path) = Some out \<longrightarrow> P (fst (WriteOut im w out bs)) \<and> P (CloseOut im w out)) \<and>
        (\<forall>v h ft. snd (CreateFileW im v path FILE_WRITE_ATTRIBUTES FILE_SHARE_READ OPEN_EXISTING FILE_ATTRIBUTE_NORMAL) = Inr h \<longrightarrow>
           P (fst (SetLastWriteTime im w h ft)) \<and> P (fst (CloseHandleChecked im w h))))"

lemma JoinUnderTarget_accepted:
  assumes "JoinUnderTarget im w t name = Inr path" "unpack_name os name" "\<not> UnpackSkipsEntry os im w name (targetRoot t)"
  shows "accepted_path os im t path"
  using assms unfolding accepted_path_def JoinUnderTarget_def
  by (fastforce simp: Let_def IsPathContainedIn_iff split: option.splits if_splits)

lemma confinedD:
  assumes "confined os im t P" "P w" "accepted_path os im t path"
  shows "P (fst (fs_create_directories os w path))" "P (fst (fs_create_directories os w (parent_path path)))"
    "fs_create_directories os w path = (w', r) \<Longrightarrow> P w'"
    "OpenOut im w True path = (w', out') \<Longrightarrow> P w'" "SetFileAttributesW im w path a = (w', e) \<Longrightarrow> P w'"
    "CreateFileW im w path FILE_WRITE_ATTRIBUTES FILE_SHARE_READ OPEN_EXISTING FILE_ATTRIBUTE_NORMAL = (w', h') \<Longrightarrow> P w'"
    "OpenOut im v True path = (v', Some out) \<Longrightarrow> P (CloseOut im w out)"
    "OpenOut im v True path = (v', Some out) \<Longrightarrow> WriteOut im w out bs = (w', ok) \<Longrightarrow> P w'"
    "CreateFileW im v path FILE_WRITE_ATTRIBUTES FILE_SHARE_READ OPEN_EXISTING FILE_ATTRIBUTE_NORMAL = (v', Inr h) \<Longrightarrow>
       P (fst (CloseHandleChecked im w h))"
    "CreateFileW im v path FILE_WRITE_ATTRIBUTES FILE_SHARE_READ OPEN_EXISTING FILE_ATTRIBUTE_NORMAL = (v', Inr h) \<Longrightarrow>
       SetLastWriteTime im w h ft = (w', e) \<Longrightarrow> P w'"
    "CreateFileW im v path FILE_WRITE_ATTRIBUTES FILE_SHARE_READ OPEN_EXISTING FILE_ATTRIBUTE_NORMAL = (v', Inr h) \<Longrightarrow>
       CloseHandleChecked im w h = (w', e) \<Longrightarrow> P w'"
  using assms unfolding confined_def by (metis fst_conv snd_conv)+

lemma WriteExtractedFile_confined:
  assumes c: "confined os im t P" and p: "P w" and a: "accepted_path os im t path"
  shows "P (fst (WriteExtractedFile os im w path entry bs))"
proof -
  note keeps = confinedD [OF c _ a]
  define w1 where "w1 = (if parent_path path \<noteq> [] then fst (fs_create_directories os w (parent_path path)) else w)"
  have w1: "P w1" using p keeps(2) by (simp add: w1_def)
  obtain w2 out' where o: "OpenOut im w1 True path = (w2, out')" by (cases "OpenOut im w1 True path")
  have w2: "P w2" by (rule keeps(4) [OF w1 o])
  show ?thesis
  proof (cases out')
    case None
    then show ?thesis using w2 o by (simp add: WriteExtractedFile_def Let_def w1_def [symmetric])
  next
    case (Some out)
    note o = o [unfolded Some]
    obtain w3 ok where w3': "(if 0 < entryBytes entry then WriteOut im w2 out (take (unat (entryBytes entry)) bs) else (w2, True)) = (w3, ok)"
      by (cases "if 0 < entryBytes entry then WriteOut im w2 out (take (unat (entryBytes entry)) bs) else (w2, True)")
    have w3: "P w3" using w3' w2 keeps(8) [OF w2 o] by (auto split: if_splits)
    have w4: "P (CloseOut im w3 out)" by (rule keeps(7) [OF w3 o])
    note k5 = keeps(5) [OF w4] and k6 = keeps(6) [OF keeps(5) [OF w4]]
    note k10 = keeps(10) [OF k6]
    note k11 = keeps(9) [OF k10] keeps(11) [OF k10]
    show ?thesis unfolding WriteExtractedFile_def Let_def w1_def [symmetric]
      using o w3' w4
      by (auto split: prod.splits option.splits sum.splits intro: k5 k6 k11)
  qed
qed

lemma ReadArchiveEntry_name: "ReadArchiveEntry os archive pos = Inr (pos1, Some entry) \<Longrightarrow> unpack_name os (archiveName entry)"
  by (auto simp: ReadArchiveEntry_def Let_def unpack_name_def split: if_splits)

lemma ExtractArchive_confined:
  assumes "confined os im t P" "P w"
  shows "P (fst (ExtractArchive os im w archive pos t extracted))"
  using assms
proof (induction os im w archive pos t extracted rule: ExtractArchive.induct)
  case (1 os im w archive pos t extracted)
  show ?case
  proof (cases "ReadArchiveEntry os archive pos")
    case (Inl err)
    then show ?thesis using "1.prems" by (subst ExtractArchive.simps) simp
  next
    case (Inr r)
    obtain pos1 e where r: "r = (pos1, e)" by (cases r)
    show ?thesis
    proof (cases e)
      case None
      then show ?thesis using "1.prems" Inr r by (subst ExtractArchive.simps) simp
    next
      case (Some entry)
      have read: "ReadArchiveEntry os archive pos = Inr (pos1, Some entry)" using Inr r Some by simp
      note ih = "1.IH" [OF Inr r [symmetric] Some]
      let ?skip = "UnpackSkipsEntry os im w (archiveName entry) (targetRoot t)"
      show ?thesis
      proof (cases "JoinUnderTarget im w t (archiveName entry)")
        case (Inl err)
        then show ?thesis using "1.prems" ih(1) read by (subst ExtractArchive.simps) simp
      next
        case path: (Inr path)
        have a: "accepted_path os im t path" if "\<not> ?skip"
          using JoinUnderTarget_accepted [OF path ReadArchiveEntry_name [OF read] that] .
        have dirs: "P (fst (fs_create_directories os w path))" if "\<not> ?skip"
          by (rule confinedD(1) [OF "1.prems" a [OF that]])
        have files: "P (fst (WriteExtractedFile os im w path (archiveHeader entry) (archiveData entry)))" if "\<not> ?skip"
          by (rule WriteExtractedFile_confined [OF "1.prems" a [OF that]])
        show ?thesis
          using ih(1) ih(2) [OF _ path] ih(3) [OF _ path] "1.prems" dirs files read path
          by (subst ExtractArchive.simps) (auto split: prod.splits)
      qed
    qed
  qed
qed

lemma MaterializeMetadataWhiteouts_confined:
  assumes c: "confined os im t P" and "P w"
  shows "P (fst (MaterializeMetadataWhiteouts os im w whiteouts extracted t))"
  using assms(2)
proof (induction whiteouts arbitrary: w)
  case (Cons logical whiteouts)
  let ?marker = "MakeWhiteoutMarkerPath logical"
  show ?case
  proof (cases "IsValidArchivePath (WideToUtf8 os logical) \<and> \<not> UnpackSkipsEntry os im w ?marker (targetRoot t) \<and>
      (\<exists>path. JoinUnderTarget im w t ?marker = Inr path)")
    case True
    then obtain path where path: "JoinUnderTarget im w t ?marker = Inr path" by blast
    have "unpack_name os ?marker" using True by (auto simp: unpack_name_def)
    then have a: "accepted_path os im t path" using JoinUnderTarget_accepted [OF path] True by simp
    have d: "P (fst (fs_create_directories os w (parent_path path)))" by (rule confinedD(2) [OF c Cons.prems a])
    obtain w2 out' where o: "OpenOut im (fst (fs_create_directories os w (parent_path path))) True path = (w2, out')"
      by (cases "OpenOut im (fst (fs_create_directories os w (parent_path path))) True path")
    have w2: "P w2" by (rule confinedD(4) [OF c d a o])
    have "P (CloseOut im w2 out)" if "out' = Some out" for out using confinedD(7) [OF c w2 a] o that by simp
    then show ?thesis using True Cons path o w2 by (auto simp: Let_def split: option.splits)
  next
    case False
    then show ?thesis using Cons by (auto simp: Let_def split: sum.splits)
  qed
qed simp

lemma UnpackArchive_confined:
  assumes "\<And>t. resolved_target os im targetDir t \<Longrightarrow> confined os im t P"
    "\<And>w. P w \<Longrightarrow> P (fst (fs_create_directories os w (ForWin32 os targetDir)))" "P w"
  shows "P (fst (UnpackArchive os im w archive meta targetDir))"
proof (cases "weakly_canonical im (fst (fs_create_directories os w (ForWin32 os targetDir))) (ForWin32 os targetDir)")
  case None
  then show ?thesis using assms(2,3) by (simp add: UnpackArchive_def ResolveUnpackTarget_def Let_def)
next
  case (Some canonical)
  let ?t = "\<lparr>targetRoot = ForWin32 os targetDir, canonicalRoot = canonical\<rparr>"
  let ?w1 = "fst (fs_create_directories os w (ForWin32 os targetDir))"
  have c: "confined os im ?t P" using Some by (intro assms(1)) (auto simp: resolved_target_def)
  have p: "P (fst (ExtractArchive os im ?w1 archive 0 ?t []))" using ExtractArchive_confined [OF c assms(2) [OF assms(3)]] .
  have "P (fst (MaterializeMetadataWhiteouts os im (fst (ExtractArchive os im ?w1 archive 0 ?t [])) whiteouts extracted ?t))"
    for whiteouts extracted using MaterializeMetadataWhiteouts_confined [OF c p] .
  then show ?thesis using Some p
    by (auto simp: UnpackArchive_def ResolveUnpackTarget_def Let_def split: prod.splits sum.splits) (metis fst_conv)
qed

lemma ExtractImage_confined:
  assumes "\<And>t. resolved_target os im targetDir t \<Longrightarrow> confined os im t P"
    "\<And>w. P w \<Longrightarrow> P (fst (fs_create_directories os w (ForWin32 os targetDir)))" "P w"
  shows "P (fst (ExtractImage os im w imagePath targetDir verifyChecksum))"
  using assms(3) UnpackArchive_confined [OF assms]
  by (auto simp: ExtractImage_def Let_def split: sum.splits)

section \<open>The archive of a directory\<close>

text \<open>What the archive entry of a scanned entry holds.\<close>

definition packs :: "('w, 'h, 'i, 'o) image_io \<Rightarrow> 'w \<Rightarrow> wstring \<Rightarrow> FileSnapshot \<Rightarrow> packed \<Rightarrow> bool" where
  "packs im w base s e \<longleftrightarrow>
     (case e of (p, h, d) \<Rightarrow>
        p = snapshotPath s \<and> entryAttributes h = entryAttributes (snapshotEntry s) \<and>
        entryModified h = entryModified (snapshotEntry s) \<and> isDirectory h = isDirectory (snapshotEntry s) \<and>
        entryBytes h = of_nat (length d) \<and>
        (if isDirectory h \<noteq> 0 then d = []
         else (isWhiteout h \<noteq> 0 \<longleftrightarrow> HasWhiteoutPrefix (path_filename p)) \<and>
              (if 0 < entryBytes (snapshotEntry s) then ReadFileBytes im w (UnderExtendedRoot base p) = Inr d else d = [])))"

text \<open>
  An entry of a scan: its name has a valid form that converts back, a directory has no length, and the
  file is shorter than a 64-bit length.
\<close>

definition archivable :: "('w, 'h) host \<Rightarrow> ('w, 'h, 'i, 'o) image_io \<Rightarrow> 'w \<Rightarrow> wstring \<Rightarrow> FileSnapshot \<Rightarrow> bool" where
  "archivable os im w base s \<longleftrightarrow>
     (let u = WideToUtf8 os (snapshotPath s) in
      IsValidUtf8 u \<and> IsValidArchivePath u \<and> Utf8ToWide os u = snapshotPath s \<and>
      (isDirectory (snapshotEntry s) \<noteq> 0 \<longrightarrow> entryBytes (snapshotEntry s) = 0) \<and>
      (\<forall>d. ReadFileBytes im w (UnderExtendedRoot base (snapshotPath s)) = Inr d \<longrightarrow> length d < 2 ^ 64))"

lemma Append_success:
  assumes "Append os b p h d = (b', ERROR_SUCCESS)"
  shows "builtArchive b' = builtArchive b @ packed_bytes os (p, h, d) \<and> length (WideToUtf8 os p) \<le> 0xFFFE \<and> builtCount b' = builtCount b"
  using assms by (auto simp: Append_def packed_bytes_def Let_def split: if_splits)

lemma AppendCounted_success:
  assumes "AppendCounted os b p h d = (b', ERROR_SUCCESS)"
  shows "builtArchive b' = builtArchive b @ packed_bytes os (p, h, d) \<and> length (WideToUtf8 os p) \<le> 0xFFFE \<and> builtCount b' = builtCount b + 1"
proof -
  obtain b1 where "Append os b p h d = (b1, ERROR_SUCCESS)" "b' = b1\<lparr>builtCount := builtCount b1 + 1\<rparr>"
    using assms by (auto simp: AppendCounted_def split: prod.splits if_splits)
  then show ?thesis using Append_success by fastforce
qed

lemma ReadFileBytes_error: "ReadFileBytes im w path \<noteq> Inl ERROR_SUCCESS"
  by (simp add: ReadFileBytes_def Let_def split: option.split)

lemma pack_entry:
  assumes a: "archivable os im w (ForWin32 os root) s"
    and p: "(if isDirectory (snapshotEntry s) \<noteq> 0 then AddDirectory os b (snapshotPath s) (snapshotEntry s)
       else AddFile os im w b (UnderExtendedRoot (ForWin32 os root) (snapshotPath s)) (snapshotPath s) (snapshotEntry s)) = (b1, ERROR_SUCCESS)"
  shows "\<exists>e. packs im w (ForWin32 os root) s e \<and> packable os e \<and> builtArchive b1 = builtArchive b @ packed_bytes os e \<and>
    builtCount b1 = builtCount b + (if isDirectory (snapshotEntry s) \<noteq> 0 then 0 else 1)"
proof (cases "isDirectory (snapshotEntry s) \<noteq> 0")
  case True
  let ?e = "(snapshotPath s, snapshotEntry s, [])"
  from p True have "Append os b (snapshotPath s) (snapshotEntry s) [] = (b1, ERROR_SUCCESS)" by (simp add: AddDirectory_def)
  from Append_success [OF this] a True show ?thesis
    by (intro exI [of _ ?e]) (auto simp: packs_def packable_def archivable_def Let_def)
next
  case False
  let ?base = "UnderExtendedRoot (ForWin32 os root) (snapshotPath s)"
  obtain d where d: "(if 0 < entryBytes (snapshotEntry s) then ReadFileBytes im w ?base else Inr []) = Inr d"
    using p False ReadFileBytes_error [of im w ?base] by (auto simp: AddFile_def split: sum.splits if_splits)
  let ?h = "(snapshotEntry s)\<lparr>entryBytes := of_nat (length d), isWhiteout := if HasWhiteoutPrefix (path_filename (snapshotPath s)) then 1 else 0\<rparr>"
  let ?e = "(snapshotPath s, ?h, d)"
  have app: "AppendCounted os b (snapshotPath s) ?h d = (b1, ERROR_SUCCESS)" using p False d by (simp add: AddFile_def)
  have "length d < 2 ^ 64" using a d by (auto simp: archivable_def Let_def split: if_splits)
  then have l: "unat (of_nat (length d) :: uint64) = length d" by (simp add: unat_of_nat)
  have "packs im w (ForWin32 os root) s ?e" using d False by (auto simp: packs_def split: if_splits)
  moreover have "packable os ?e" using AppendCounted_success [OF app] a l False by (auto simp: packable_def archivable_def Let_def)
  ultimately show ?thesis using AppendCounted_success [OF app] False by (intro exI [of _ ?e]) simp
qed

lemma PackEntries_packed:
  assumes "list_all (archivable os im w (ForWin32 os root)) entries" "PackEntries os im w root entries b = (b', ERROR_SUCCESS)"
  shows "\<exists>es. list_all2 (packs im w (ForWin32 os root)) entries es \<and> list_all (packable os) es \<and>
    builtArchive b' = builtArchive b @ concat (map (packed_bytes os) es) \<and>
    builtCount b' = builtCount b + of_nat (length (filter (\<lambda>s. isDirectory (snapshotEntry s) = 0) entries))"
  using assms
proof (induction entries arbitrary: b)
  case (Cons s entries)
  let ?r = "(if isDirectory (snapshotEntry s) \<noteq> 0 then AddDirectory os b (snapshotPath s) (snapshotEntry s)
       else AddFile os im w b (UnderExtendedRoot (ForWin32 os root) (snapshotPath s)) (snapshotPath s) (snapshotEntry s))"
  obtain b1 where r: "?r = (b1, ERROR_SUCCESS)" and rest: "PackEntries os im w root entries b1 = (b', ERROR_SUCCESS)"
    using Cons.prems(2) by (cases ?r) (auto simp: Let_def split: if_splits)
  have a: "archivable os im w (ForWin32 os root) s" using Cons.prems(1) by simp
  obtain e where e: "packs im w (ForWin32 os root) s e" "packable os e" "builtArchive b1 = builtArchive b @ packed_bytes os e"
      "builtCount b1 = builtCount b + (if isDirectory (snapshotEntry s) \<noteq> 0 then 0 else 1)"
    using pack_entry [OF a r] by blast
  obtain es where "list_all2 (packs im w (ForWin32 os root)) entries es \<and> list_all (packable os) es \<and>
      builtArchive b' = builtArchive b1 @ concat (map (packed_bytes os) es) \<and>
      builtCount b' = builtCount b1 + of_nat (length (filter (\<lambda>s. isDirectory (snapshotEntry s) = 0) entries))"
    using Cons.IH [OF _ rest] Cons.prems(1) by auto
  then show ?case using e by (intro exI [of _ "e # es"]) auto
qed simp

lemma packs_with_name_length: "packs im w base s (with_name_length os e) = packs im w base s e"
  by (cases e) (simp add: packs_def with_name_length_def)

lemma list_all2_with_name_length:
  "list_all2 (packs im w base) ss (map (with_name_length os) es) = list_all2 (packs im w base) ss es"
  by (simp add: list_all2_map2 packs_with_name_length)

lemma scan_walk_keys:
  assumes "scan_walk os im w base walk out = Inr ss" "list_all (\<lambda>s. lookupKey s = ToLower im (snapshotPath s)) out"
  shows "list_all (\<lambda>s. lookupKey s = ToLower im (snapshotPath s)) ss"
  using assms
proof (induction walk arbitrary: out)
  case (WalkAt path depth isDir following skipping)
  then show ?case by (auto split: if_splits option.splits prod.splits)
qed simp_all

lemma ScanDirectory_keys:
  "ScanDirectory os im w dir = Inr ss \<Longrightarrow> list_all (\<lambda>s. lookupKey s = ToLower im (snapshotPath s)) ss"
  by (auto simp: ScanDirectory_def Let_def split: option.splits bool.splits dest: scan_walk_keys)

section \<open>The difference of two directories\<close>

text \<open>The last entry of a key in a listing.\<close>

definition entry_of :: "FileSnapshot list \<Rightarrow> wstring \<Rightarrow> FileSnapshot option" where
  "entry_of ss k = map_of (rev (map (\<lambda>s. (lookupKey s, s)) ss)) k"

lemma entry_of_snoc: "entry_of (ss @ [s]) k = (if lookupKey s = k then Some s else entry_of ss k)"
  by (simp add: entry_of_def)

lemma fold_update_entry_of: "map_of (fold (\<lambda>b m. AList.update (lookupKey b) b m) base []) k = entry_of base k"
proof (induction base rule: rev_induct)
  case Nil
  show ?case by (simp add: entry_of_def)
next
  case (snoc b base)
  then show ?case by (simp add: entry_of_snoc update_conv')
qed

lemma ChangedEntries_eq:
  "ChangedEntries src base =
     filter (\<lambda>s. case entry_of base (lookupKey s) of None \<Rightarrow> True | Some b \<Rightarrow> Differs (snapshotEntry s) (snapshotEntry b)) src"
  by (simp add: ChangedEntries_def fold_update_entry_of)

lemma entry_of_distinct:
  assumes "distinct (map lookupKey ss)"
  shows "entry_of ss k = Some s \<longleftrightarrow> s \<in> set ss \<and> lookupKey s = k"
  using assms by (auto simp: entry_of_def map_of_eq_Some_iff rev_map [symmetric] o_def)

lemma entry_of_None: "entry_of ss k = None \<longleftrightarrow> k \<notin> lookupKey ` set ss"
  by (auto simp: entry_of_def map_of_eq_None_iff image_def)

text \<open>
  A base listing with a difference on top: an entry of the difference, nothing for a path with a
  whiteout marker, or the entry of the base.
\<close>

definition patched :: "('w, 'h, 'i, 'o) image_io \<Rightarrow> FileSnapshot list \<Rightarrow> FileSnapshot list \<Rightarrow> wstring list \<Rightarrow> wstring \<Rightarrow> FileSnapshot option" where
  "patched im base changed deleted k =
     (case entry_of changed k of
        Some s \<Rightarrow> Some s
      | None \<Rightarrow> if k \<in> set (map (ToLower im) deleted) then None else entry_of base k)"

lemma patched_is_source:
  assumes d: "distinct (map lookupKey src)" "distinct (map lookupKey base)"
    and keys: "list_all (\<lambda>b. lookupKey b = ToLower im (snapshotPath b)) base"
  shows "rel_option (\<lambda>p s. lookupKey p = lookupKey s \<and> \<not> Differs (snapshotEntry s) (snapshotEntry p))
    (patched im base (ChangedEntries src base) (DeletedPaths src base) k) (entry_of src k)"
proof -
  have same: "\<not> Differs h h" for h by (simp add: Differs_def)
  have c: "distinct (map lookupKey (ChangedEntries src base))" using d(1) by (simp add: ChangedEntries_eq distinct_map_filter)
  have del: "set (map (ToLower im) (DeletedPaths src base)) = lookupKey ` set base - lookupKey ` set src"
    using keys by (force simp: DeletedPaths_def Let_def list_all_iff image_iff)
  show ?thesis
  proof (cases "entry_of src k")
    case None
    then have "entry_of (ChangedEntries src base) k = None" by (auto simp: entry_of_None ChangedEntries_eq)
    moreover have "k \<in> lookupKey ` set base - lookupKey ` set src \<or> entry_of base k = None" using None by (auto simp: entry_of_None)
    ultimately show ?thesis using None unfolding patched_def del by auto
  next
    case (Some s)
    then have s: "s \<in> set src" "lookupKey s = k" using entry_of_distinct [OF d(1)] by simp_all
    show ?thesis
    proof (cases "s \<in> set (ChangedEntries src base)")
      case True
      then have "entry_of (ChangedEntries src base) k = Some s" using entry_of_distinct [OF c] s by simp
      then show ?thesis using Some same by (simp add: patched_def)
    next
      case False
      then obtain b where b: "entry_of base k = Some b" "\<not> Differs (snapshotEntry s) (snapshotEntry b)"
        using s by (auto simp: ChangedEntries_eq split: option.splits)
      have "t = s" if "t \<in> set src" "lookupKey t = k" for t using that s d(1) by (metis distinct_map inj_onD)
      then have "entry_of (ChangedEntries src base) k = None" using False by (auto simp: entry_of_None ChangedEntries_eq)
      moreover have "k \<notin> lookupKey ` set base - lookupKey ` set src" using s by auto
      moreover have "lookupKey b = k" using entry_of_distinct [OF d(2)] b(1) by simp
      ultimately show ?thesis using Some b s unfolding patched_def del by simp
    qed
  qed
qed

end
