(* ===== verification/Image_Roundtrip.thy ===== *)
theory Image_Roundtrip
  imports Image_Runs
begin

text \<open>
  The image file that is written is the image that is read: the streams, the metadata section, the
  checksum and the archive. \<open>image_streams\<close> states the documented behaviour of the file streams.
\<close>

section \<open>Streams\<close>

definition file_holds :: "('w, 'h, 'i, 'o) image_io \<Rightarrow> 'w \<Rightarrow> wstring \<Rightarrow> byte list \<Rightarrow> bool" where
  "file_holds im w path bs \<longleftrightarrow>
     (\<exists>i. OpenIn im w True path = Some i \<and> (\<forall>pos. pos \<le> length bs \<longrightarrow> SeekIn im w i (int pos)) \<and>
        (\<forall>pos n. ReadIn im w i (int pos) n = take n (drop pos bs)))"

text \<open>
  \<open>content\<close> and \<open>ptr\<close> are the bytes and the position of an output stream; a stream that was opened for
  a path and is closed after a write that succeeded leaves its bytes in the file.
\<close>

definition image_streams ::
  "('w, 'h, 'i, 'o) image_io \<Rightarrow> ('w \<Rightarrow> 'o \<Rightarrow> byte list) \<Rightarrow> ('w \<Rightarrow> 'o \<Rightarrow> nat) \<Rightarrow> wstring \<Rightarrow> bool" where
  "image_streams im content ptr path \<longleftrightarrow>
     (\<forall>w w' out. OpenOut im w True path = (w', Some out) \<longrightarrow> content w' out = [] \<and> ptr w' out = 0) \<and>
     (\<forall>w w' out bs. WriteOut im w out bs = (w', True) \<longrightarrow>
        content w' out = overwrite (content w out) (ptr w out) bs \<and> ptr w' out = ptr w out + length bs) \<and>
     (\<forall>w w' out n. SeekOut im w out n = (w', True) \<longrightarrow> content w' out = content w out \<and> ptr w' out = n) \<and>
     (\<forall>v v' w w' out bs. OpenOut im v True path = (v', Some out) \<longrightarrow> WriteOut im w out bs = (w', True) \<longrightarrow>
        file_holds im (CloseOut im w' out) path (content w' out))"

lemma overwrite_end: "overwrite old (length old) bs = old @ bs"
  by (simp add: overwrite_def)

lemma overwrite_start: "length bs = length first \<Longrightarrow> overwrite (first @ rest) 0 bs = bs @ rest"
  by (cases "bs = []") (auto simp: overwrite_def padded_to_def)

lemma write_hashed_step:
  assumes "write_hashed_loop im w out bs hashed = (w', Inr r)" "bs \<noteq> []"
  obtains w1 where "BCryptHashData im hashed (take kChunkSize bs) = STATUS_SUCCESS"
    "WriteOut im w out (take kChunkSize bs) = (w1, True)"
    "write_hashed_loop im w1 out (drop kChunkSize bs) (hashed @ take kChunkSize bs) = (w', Inr r)"
  using assms by (subst (asm) write_hashed_loop.simps) (auto simp: Let_def split: if_splits prod.splits bool.splits)

lemma write_hashed_bytes: "write_hashed_loop im w out bs hashed = (w', Inr r) \<Longrightarrow> r = hashed @ bs"
proof (induction im w out bs hashed rule: write_hashed_loop.induct)
  case (1 im w out bs hashed)
  show ?case
  proof (cases "bs = []")
    case True
    then show ?thesis using "1.prems" by (simp add: write_hashed_loop.simps)
  next
    case False
    obtain w1 where w1: "BCryptHashData im hashed (take kChunkSize bs) = STATUS_SUCCESS"
        "WriteOut im w out (take kChunkSize bs) = (w1, True)"
        "write_hashed_loop im w1 out (drop kChunkSize bs) (hashed @ take kChunkSize bs) = (w', Inr r)"
      using write_hashed_step [OF "1.prems" False] .
    then show ?thesis using "1.IH" [OF False refl refl _ w1(2) [symmetric] refl w1(3)] by simp
  qed
qed

text \<open>Hashing the bytes from the file gives what hashing them on the way out gave.\<close>

lemma hash_stream_same:
  assumes "write_hashed_loop im w out bs hashed = (w', Inr r)"
    and "\<And>k n. k + n \<le> length bs \<Longrightarrow> ReadIn im v i (pos + int k) n = take n (drop k bs)"
  shows "r = hashed @ bs \<and> hash_stream_loop im v i pos (length bs) hashed = Inr r"
  using assms
proof (induction im w out bs hashed arbitrary: pos rule: write_hashed_loop.induct)
  case (1 im w out bs hashed)
  show ?case
  proof (cases "bs = []")
    case True
    then show ?thesis using "1.prems"(1) by (simp add: write_hashed_loop.simps hash_stream_loop.simps)
  next
    case False
    let ?n = "min (length bs) kChunkSize"
    have t: "take ?n bs = take kChunkSize bs" by (simp add: min_def)
    have read: "ReadIn im v i pos ?n = take kChunkSize bs" using "1.prems"(2) [of 0 ?n] t by simp
    obtain w1 where w1: "BCryptHashData im hashed (take kChunkSize bs) = STATUS_SUCCESS"
        "WriteOut im w out (take kChunkSize bs) = (w1, True)"
        "write_hashed_loop im w1 out (drop kChunkSize bs) (hashed @ take kChunkSize bs) = (w', Inr r)"
      using write_hashed_step [OF "1.prems"(1) False] .
    have rest: "ReadIn im v i (pos + int ?n + int k) n = take n (drop k (drop kChunkSize bs))"
      if "k + n \<le> length (drop kChunkSize bs)" for k n
      using "1.prems"(2) [of "?n + k" n] that by (cases "kChunkSize \<le> length bs") (auto simp: add.commute algebra_simps min_def)
    have "r = (hashed @ take kChunkSize bs) @ drop kChunkSize bs \<and>
        hash_stream_loop im v i (pos + int ?n) (length (drop kChunkSize bs)) (hashed @ take kChunkSize bs) = Inr r"
      using "1.IH" [OF False refl refl _ w1(2) [symmetric] refl w1(3) rest] w1(1) by simp
    moreover have "length bs - ?n = length (drop kChunkSize bs)" by simp
    ultimately show ?thesis using False w1(1) read
      by (subst hash_stream_loop.simps) (simp add: Let_def)
  qed
qed

lemma write_hashed_content:
  assumes "image_streams im content ptr path" "write_hashed_loop im w out bs hashed = (w', Inr r)" "ptr w out = length (content w out)"
  shows "content w' out = content w out @ bs \<and> r = hashed @ bs"
  using assms
proof (induction im w out bs hashed rule: write_hashed_loop.induct)
  case (1 im w out bs hashed)
  show ?case
  proof (cases "bs = []")
    case True
    then show ?thesis using "1.prems"(2) by (simp add: write_hashed_loop.simps)
  next
    case False
    obtain w1 where w1: "BCryptHashData im hashed (take kChunkSize bs) = STATUS_SUCCESS"
        "WriteOut im w out (take kChunkSize bs) = (w1, True)"
        "write_hashed_loop im w1 out (drop kChunkSize bs) (hashed @ take kChunkSize bs) = (w', Inr r)"
      using write_hashed_step [OF "1.prems"(2) False] .
    have c: "content w1 out = content w out @ take kChunkSize bs" "ptr w1 out = length (content w1 out)"
      using "1.prems"(1,3) w1(2) by (auto simp: image_streams_def overwrite_end)
    have "content w' out = content w1 out @ drop kChunkSize bs \<and> r = (hashed @ take kChunkSize bs) @ drop kChunkSize bs"
      using "1.IH" [OF False refl refl _ w1(2) [symmetric] refl "1.prems"(1) w1(3) c(2)] w1(1) by simp
    then show ?thesis using c(1) by simp
  qed
qed

section \<open>The bytes of a written image\<close>

definition image_header_for :: "byte list \<Rightarrow> byte list \<Rightarrow> byte list \<Rightarrow> LayerImageHeader" where
  "image_header_for metadataJson compressed digest =
     new_LayerImageHeader
       \<lparr>imageVersion := LAYER_IMAGE_VERSION, imageFlags := 1, metadataOffset := 128, metadataSize := of_nat (length metadataJson),
        dataOffset := 128 + of_nat (length metadataJson), dataSize := of_nat (length compressed), imageChecksum := digest\<rparr>"

lemma new_header_ok [simp]: "image_header_ok new_LayerImageHeader"
  by (simp add: image_header_ok_def new_LayerImageHeader_def LAYER_IMAGE_MAGIC_def blit_def)

lemma image_header_for_ok: "length digest = 32 \<Longrightarrow> image_header_ok (image_header_for m c digest)"
  using new_header_ok by (simp add: image_header_ok_def image_header_for_def)

lemma NtStatusToDword_success [simp]: "NtStatusToDword status = ERROR_SUCCESS \<longleftrightarrow> status = STATUS_SUCCESS"
  by (simp add: NtStatusToDword_def)

lemma write_hashed_error: "snd (write_hashed_loop im w out bs hashed) \<noteq> Inl ERROR_SUCCESS"
proof (induction im w out bs hashed rule: write_hashed_loop.induct)
  case (1 im w out bs hashed)
  have "snd (write_hashed_loop im w1 out (drop kChunkSize bs) (hashed @ take kChunkSize bs)) \<noteq> Inl ERROR_SUCCESS"
    if "WriteOut im w out (take kChunkSize bs) = (w1, True)" "BCryptHashData im hashed (take kChunkSize bs) = STATUS_SUCCESS" "bs \<noteq> []" for w1
    using "1.IH" [OF that(3) refl refl _ that(1) [symmetric] refl] that(2) by simp
  then show ?case by (subst write_hashed_loop.simps) (auto simp: Let_def split: prod.splits bool.splits)
qed

lemma WriteDataWithHash_success:
  assumes "WriteDataWithHash im w out bs = (w', r)" "r \<noteq> Inl ERROR_SUCCESS \<Longrightarrow> r = Inr digest"
  shows "InitBcryptSha256 im = ERROR_SUCCESS \<and>
    (\<exists>hashed. write_hashed_loop im w out bs [] = (w', Inr hashed) \<and> FinishHash im hashed = Inr digest)"
proof -
  have f: "FinishHash im hs \<noteq> Inl ERROR_SUCCESS" for hs by (simp add: FinishHash_def Let_def split: prod.splits)
  have e: "write_hashed_loop im w out bs [] \<noteq> (v, Inl ERROR_SUCCESS)" for v
    using write_hashed_error [of im w out bs "[]"] by auto
  have "r \<noteq> Inl ERROR_SUCCESS" using assms(1) f e by (auto simp: WriteDataWithHash_def Let_def split: if_splits prod.splits sum.splits)
  then show ?thesis using assms by (auto simp: WriteDataWithHash_def Let_def split: if_splits prod.splits sum.splits)
qed

lemma write_image_streams_success:
  assumes "write_image_streams im w path m c = (w', ERROR_SUCCESS)"
  obtains w1 out w2 w3 w4 w5 w6 digest where
    "OpenOut im w True path = (w1, Some out)"
    "WriteOut im w1 out (image_header_bytes (new_LayerImageHeader\<lparr>imageVersion := LAYER_IMAGE_VERSION, imageFlags := 1\<rparr>)) = (w2, True)"
    "WriteOut im w2 out m = (w3, True)" "InitBcryptSha256 im = ERROR_SUCCESS"
    "write_hashed_loop im w3 out c [] = (w4, Inr c)" "FinishHash im c = Inr digest"
    "SeekOut im w4 out 0 = (w5, True)" "WriteOut im w5 out (image_header_bytes (image_header_for m c digest)) = (w6, True)"
    "w' = CloseOut im w6 out"
proof -
  let ?h = "image_header_bytes (new_LayerImageHeader\<lparr>imageVersion := LAYER_IMAGE_VERSION, imageFlags := 1\<rparr>)"
  obtain w1 out where o: "OpenOut im w True path = (w1, Some out)"
    using assms by (auto simp: write_image_streams_def split: prod.splits option.splits)
  obtain w2 where w2: "WriteOut im w1 out ?h = (w2, True)"
    using assms o by (auto simp: write_image_streams_def Let_def split: prod.splits if_splits)
  obtain w3 where w3: "WriteOut im w2 out m = (w3, True)"
    using assms o w2 by (auto simp: write_image_streams_def Let_def split: prod.splits if_splits)
  obtain w4 r where r: "WriteDataWithHash im w3 out c = (w4, r)" by (cases "WriteDataWithHash im w3 out c")
  obtain digest where d: "r \<noteq> Inl ERROR_SUCCESS \<Longrightarrow> r = Inr digest"
    using assms o w2 w3 r by (cases r) (auto simp: write_image_streams_def Let_def)
  obtain hashed where h: "InitBcryptSha256 im = ERROR_SUCCESS" "write_hashed_loop im w3 out c [] = (w4, Inr hashed)" "FinishHash im hashed = Inr digest"
    using WriteDataWithHash_success [OF r d] by blast
  have c: "hashed = c" using write_hashed_bytes [OF h(2)] by simp
  have data: "WriteDataWithHash im w3 out c = (w4, Inr digest)" using h by (simp add: WriteDataWithHash_def)
  obtain w5 where w5: "SeekOut im w4 out 0 = (w5, True)"
    using assms o w2 w3 data by (auto simp: write_image_streams_def Let_def split: prod.splits if_splits)
  have "\<exists>w6. WriteOut im w5 out (image_header_bytes (image_header_for m c digest)) = (w6, True) \<and> w' = CloseOut im w6 out"
    using assms o w2 w3 data w5 by (auto simp: write_image_streams_def image_header_for_def Let_def split: prod.splits if_splits)
  then obtain w6 where "WriteOut im w5 out (image_header_bytes (image_header_for m c digest)) = (w6, True)" "w' = CloseOut im w6 out"
    by blast
  with that o w2 w3 h c w5 show ?thesis by blast
qed

lemma write_image_streams_content:
  assumes s: "image_streams im content ptr path" and w: "write_image_streams im w path m c = (w', ERROR_SUCCESS)"
    and l: "\<And>bs. length (snd (BCryptFinishHash im bs)) = 32"
  obtains digest out w3 w4 where "FinishHash im c = Inr digest" "length digest = 32" "InitBcryptSha256 im = ERROR_SUCCESS"
    "write_hashed_loop im w3 out c [] = (w4, Inr c)" "file_holds im w' path (image_header_bytes (image_header_for m c digest) @ m @ c)"
proof -
  let ?h = "image_header_bytes (new_LayerImageHeader\<lparr>imageVersion := LAYER_IMAGE_VERSION, imageFlags := 1\<rparr>)"
  obtain w1 out w2 w3 w4 w5 w6 digest where r: "OpenOut im w True path = (w1, Some out)" "WriteOut im w1 out ?h = (w2, True)"
      "WriteOut im w2 out m = (w3, True)" "InitBcryptSha256 im = ERROR_SUCCESS" "write_hashed_loop im w3 out c [] = (w4, Inr c)"
      "FinishHash im c = Inr digest" "SeekOut im w4 out 0 = (w5, True)"
      "WriteOut im w5 out (image_header_bytes (image_header_for m c digest)) = (w6, True)" "w' = CloseOut im w6 out"
    using write_image_streams_success [OF w] .
  have opened: "content w1 out = [] \<and> ptr w1 out = 0" using s r(1) unfolding image_streams_def by blast
  have writes: "content v' out = overwrite (content v out) (ptr v out) bs \<and> ptr v' out = ptr v out + length bs"
    if "WriteOut im v out bs = (v', True)" for v v' bs using s that unfolding image_streams_def by blast
  have c2: "content w2 out = ?h \<and> ptr w2 out = length ?h" using writes [OF r(2)] opened by simp
  have c3: "content w3 out = ?h @ m \<and> ptr w3 out = length (content w3 out)"
    using writes [OF r(3)] c2 overwrite_end [of ?h m] by simp
  have c4: "content w4 out = (?h @ m) @ c" using write_hashed_content [OF s r(5)] c3 by simp
  have c5: "content w5 out = content w4 out \<and> ptr w5 out = 0" using s r(7) unfolding image_streams_def by blast
  have d: "length digest = 32" using r(6) l [of c] by (auto simp: FinishHash_def Let_def split: prod.splits if_splits)
  have "length (image_header_bytes (image_header_for m c digest)) = length ?h"
    using length_image_header [OF image_header_for_ok [OF d]] new_header_ok by (simp add: length_image_header image_header_ok_def)
  then have c6: "content w6 out = image_header_bytes (image_header_for m c digest) @ m @ c"
    using writes [OF r(8)] c5 c4 overwrite_start by fastforce
  have "file_holds im w' path (content w6 out)" using s r(1,8,9) unfolding image_streams_def by blast
  with that r d c6 show ?thesis by metis
qed

section \<open>The image that is read\<close>

text \<open>A file of the size that a signed 64-bit position can reach, and memory for its two sections.\<close>

definition image_fits :: "('w, 'h, 'i, 'o) image_io \<Rightarrow> byte list \<Rightarrow> byte list \<Rightarrow> bool" where
  "image_fits im m c \<longleftrightarrow> 128 + length m + length c < 2 ^ 63 \<and> Allocates im (length m) \<and> Allocates im (length c)"

lemma sint_small:
  assumes "n < 2 ^ 63"
  shows "sint (of_nat n :: uint64) = int n" "unat (of_nat n :: uint64) = n"
proof -
  show "unat (of_nat n :: uint64) = n" using assms by (simp add: unat_of_nat)
  show "sint (of_nat n :: uint64) = int n" using assms
    by (simp add: signed_of_nat signed_take_bit_int_eq_self)
qed

lemma header_for_fields:
  assumes "image_fits im m c" "length digest = 32"
  shows "unat (metadataOffset (image_header_for m c digest)) = 128" "unat (metadataSize (image_header_for m c digest)) = length m"
    "unat (dataOffset (image_header_for m c digest)) = 128 + length m" "unat (dataSize (image_header_for m c digest)) = length c"
    "sint (metadataOffset (image_header_for m c digest)) = 128" "sint (dataOffset (image_header_for m c digest)) = int (128 + length m)"
    "imageMagic (image_header_for m c digest) = LAYER_IMAGE_MAGIC" "imageVersion (image_header_for m c digest) = LAYER_IMAGE_VERSION"
    "imageChecksum (image_header_for m c digest) = digest"
  using assms sint_small [of 128] sint_small [of "128 + length m"] sint_small [of "length m"] sint_small [of "length c"]
  by (simp_all add: image_header_for_def image_fits_def new_LayerImageHeader_def)

lemma read_image:
  assumes f: "file_holds im w (ForWin32 os path) (image_header_bytes (image_header_for m c digest) @ m @ c)"
    and fits: "image_fits im m c" and d: "length digest = 32"
    and meta: "DeserializeMetadata os (strip_end (\<lambda>b. b = 0) m) = Some meta"
  obtains i where "ReadHeaderAndMetadata os im w path = Inr (i, image_header_for m c digest, meta)"
    "OpenIn im w True (ForWin32 os path) = Some i" "SeekIn im w i (int (128 + length m))"
    "\<And>k n. k + n \<le> length c \<Longrightarrow> ReadIn im w i (int (128 + length m) + int k) n = take n (drop k c)"
proof -
  let ?h = "image_header_for m c digest"
  note ok = image_header_for_ok [OF d, of m c] and fields = header_for_fields [OF fits d]
  have l: "length (image_header_bytes ?h) = 128" by (rule length_image_header [OF ok])
  obtain i where i: "OpenIn im w True (ForWin32 os path) = Some i" "\<And>pos. pos \<le> 128 + length m + length c \<Longrightarrow> SeekIn im w i (int pos)"
      "\<And>pos n. ReadIn im w i (int pos) n = take n (drop pos (image_header_bytes ?h @ m @ c))"
    using f l unfolding file_holds_def by auto
  have r0: "ReadIn im w i 0 128 = image_header_bytes ?h" using i(3) [of 0 128] l by simp
  have h: "image_header_at (image_header_bytes ?h) = ?h" using image_header_roundtrip [OF ok, of "[]"] by simp
  have s: "SeekIn im w i 128" "SeekIn im w i (int (128 + length m))" using i(2) [of 128] i(2) [of "128 + length m"] by simp_all
  have rm: "ReadIn im w i 128 (length m) = m" using i(3) [of 128 "length m"] l by simp
  have rc: "ReadIn im w i (int (128 + length m) + int k) n = take n (drop k c)" for k n
    using i(3) [of "128 + length m + k" n] l by (simp add: add.assoc)
  note less = word_less_nat_alt
  have "metadataOffset ?h + metadataSize ?h = dataOffset ?h" by (simp add: image_header_for_def)
  moreover have "\<not> metadataOffset ?h < 128" "\<not> dataOffset ?h < metadataOffset ?h" using fields by (simp_all add: less)
  moreover have "\<not> dataOffset ?h + dataSize ?h < dataOffset ?h"
  proof -
    have "dataOffset ?h + dataSize ?h = of_nat (128 + length m + length c)" by (simp add: image_header_for_def)
    then have "unat (dataOffset ?h + dataSize ?h) = 128 + length m + length c" using sint_small(2) fits unfolding image_fits_def by metis
    then show ?thesis using fields by (simp add: less)
  qed
  ultimately have "ReadHeaderAndMetadata os im w path = Inr (i, ?h, meta)"
    using i(1) r0 h l fields s rm meta fits by (simp add: ReadHeaderAndMetadata_def Let_def image_fits_def)
  with that i(1) s rc show ?thesis by blast
qed

lemma written_checksum:
  assumes "OpenIn im w True (ForWin32 os path) = Some i" "SeekIn im w i (int (128 + length m))"
    and "\<And>k n. k + n \<le> length c \<Longrightarrow> ReadIn im w i (int (128 + length m) + int k) n = take n (drop k c)"
    and "image_fits im m c" "length digest = 32" "InitBcryptSha256 im = ERROR_SUCCESS" "FinishHash im c = Inr digest"
    and "write_hashed_loop im w3 out c [] = (w4, Inr c)"
  shows "checksum_error os im w path (image_header_for m c digest) = ERROR_SUCCESS"
proof -
  have "hash_stream_loop im w i (int (128 + length m)) (length c) [] = Inr c"
    using hash_stream_same [OF assms(8) assms(3)] by simp
  then show ?thesis using assms header_for_fields [OF assms(4,5)]
    by (simp add: checksum_error_def ComputeSHA256Stream_def Let_def)
qed

text \<open>What a decompression gives for the output of a compression; the frame header tells the length.\<close>

definition zstd_keeps :: "('w, 'h, 'i, 'o) image_io \<Rightarrow> int \<Rightarrow> byte list \<Rightarrow> bool" where
  "zstd_keeps im level bs \<longleftrightarrow>
     (\<forall>c. ZSTD_compress im level bs = Some c \<longrightarrow>
        c \<noteq> [] \<and> ZSTD_getFrameContentSize im c = of_nat (length bs) \<and> ZSTD_decompress im (length bs) c = Some bs)"

lemma DecompressBuffer_compressed:
  assumes "CompressBuffer im bs level = Inr c" "zstd_keeps im level bs" "length bs \<le> 4294967296" "Allocates im (length bs)"
  shows "DecompressBuffer im c = Inr bs" "c \<noteq> []"
proof -
  have z: "ZSTD_getFrameContentSize im c = of_nat (length bs)" "ZSTD_decompress im (length bs) c = Some bs" "c \<noteq> []"
    using assms(1,2) by (auto simp: CompressBuffer_def zstd_keeps_def split: option.splits)
  have n: "unat (of_nat (length bs) :: uint64) = length bs" using assms(3) by (intro sint_small(2)) simp
  have "\<not> kMaxDecompressedBytes < of_nat (length bs)" using assms(3) n by (simp add: word_less_nat_alt kMaxDecompressedBytes_def)
  moreover have "(of_nat (length bs) :: uint64) \<noteq> ZSTD_CONTENTSIZE_ERROR" "(of_nat (length bs) :: uint64) \<noteq> ZSTD_CONTENTSIZE_UNKNOWN"
    using n assms(3) by (auto simp: ZSTD_CONTENTSIZE_ERROR_def ZSTD_CONTENTSIZE_UNKNOWN_def dest!: arg_cong [of _ _ unat])
  ultimately show "DecompressBuffer im c = Inr bs" "c \<noteq> []" using z n assms(4) by (simp_all add: DecompressBuffer_def Let_def)
qed

text \<open>
  An archive of more than 4 GiB compresses, and its image is written, but the reader refuses it.
\<close>

lemma oversized_archive_unreadable:
  assumes "CompressBuffer im bs level = Inr c" "zstd_keeps im level bs" "4294967296 < length bs" "length bs < 2 ^ 64"
  shows "DecompressBuffer im c = Inl (Failed ERROR_INVALID_DATA)"
proof -
  have z: "ZSTD_getFrameContentSize im c = of_nat (length bs)"
    using assms(1,2) by (auto simp: CompressBuffer_def zstd_keeps_def split: option.splits)
  have "unat (of_nat (length bs) :: uint64) = length bs" using assms(4) by (simp add: unat_of_nat)
  then have "kMaxDecompressedBytes < of_nat (length bs)" using assms(3) by (simp add: word_less_nat_alt kMaxDecompressedBytes_def)
  then show ?thesis using z by (simp add: DecompressBuffer_def Let_def)
qed

section \<open>The metadata section\<close>

definition text_keeps :: "('w, 'h) host \<Rightarrow> wstring \<Rightarrow> bool" where
  "text_keeps os s \<longleftrightarrow> Utf8ToWide os (WideToUtf8 os s) = s"

definition metadata_texts :: "LayerMetadata \<Rightarrow> wstring list" where
  "metadata_texts m =
     [layerId m, parentLayerId m, layerCreatedAt m, layerAuthor m, layerDescription m] @ layerTags m @ layerWhiteouts m @
     map fst (layerLabels m) @ map snd (layerLabels m)"

definition json_text_keeps :: "('w, 'h) host \<Rightarrow> json \<Rightarrow> bool" where
  "json_text_keeps os j \<longleftrightarrow> json_parse os (json_dump os j) = Some j \<and> (json_dump os j = [] \<or> last (json_dump os j) \<noteq> 0)"

lemma update_new: "k \<notin> fst ` set al \<Longrightarrow> AList.update k v al = al @ [(k, v)]"
  by (induction al) auto

lemma fold_update_distinct:
  assumes "distinct (map (f \<circ> fst) kvs)" "fst ` set acc \<inter> f ` fst ` set kvs = {}"
  shows "fold (\<lambda>(k, v) ms. AList.update (f k) (g v) ms) kvs acc = acc @ map (\<lambda>(k, v). (f k, g v)) kvs"
  using assms
proof (induction kvs arbitrary: acc)
  case (Cons kv kvs)
  obtain k v where kv: "kv = (k, v)" by (cases kv)
  have "AList.update (f k) (g v) acc = acc @ [(f k, g v)]" using Cons.prems(2) by (intro update_new) (auto simp: kv)
  moreover have "fst ` set (acc @ [(f k, g v)]) \<inter> f ` fst ` set kvs = {}" using Cons.prems by (auto simp: kv)
  ultimately show ?case using Cons.IH [of "acc @ [(f k, g v)]"] Cons.prems(1) by (simp add: kv)
qed simp

lemma json_strings_keep:
  assumes "list_all (text_keeps os) ts"
  shows "json_strings os (Some (JArray (map (\<lambda>t. JString (WideToUtf8 os t)) ts))) = ts"
  using assms by (induction ts) (auto simp: json_strings_def List.map_filter_simps text_keeps_def)

lemma json_labels_keep:
  assumes "list_all (text_keeps os) (map fst ls @ map snd ls)" "distinct (map fst ls)"
  shows "json_string_map os (Some (json_labels os ls)) = ls"
proof -
  let ?f = "WideToUtf8 os" and ?g = "\<lambda>v. JString (WideToUtf8 os v)"
  have keep: "Utf8ToWide os (?f x) = x" if "x \<in> fst ` set ls \<or> x \<in> snd ` set ls" for x
    using assms(1) that by (auto simp: list_all_iff text_keeps_def)
  have "inj_on ?f (fst ` set ls)" using keep by (metis inj_onI)
  then have d: "distinct (map (?f \<circ> fst) ls)" using assms(2) by (auto simp: distinct_map intro: comp_inj_on)
  have built: "json_labels os ls = JObject (map (\<lambda>(k, v). (?f k, ?g v)) ls)"
    using fold_update_distinct [OF d, of "[]" ?g] by (simp add: json_labels_def)
  have same: "fold (\<lambda>(k, j) labels. case json_string j of None \<Rightarrow> labels | Some x \<Rightarrow> AList.update (Utf8ToWide os k) (Utf8ToWide os x) labels)
      (map (\<lambda>(k, v). (?f k, ?g v)) ks) acc = fold (\<lambda>(k, v) ms. AList.update (id k) (id v) ms) ks acc" if "set ks \<subseteq> set ls" for ks acc
    using that
  proof (induction ks arbitrary: acc)
    case (Cons kv ks)
    obtain k v where kv: "kv = (k, v)" by (cases kv)
    have "Utf8ToWide os (?f k) = k" "Utf8ToWide os (?f v) = v" using Cons.prems keep by (force simp: kv)+
    then show ?case using Cons by (simp add: kv)
  qed simp
  show ?thesis using fold_update_distinct [of id ls "[]" id] assms(2) same [of ls "[]"]
    by (simp add: json_string_map_def built)
qed

lemma metadata_roundtrip:
  assumes t: "list_all (text_keeps os) (metadata_texts m)" and d: "distinct (map fst (layerLabels m))"
    and j: "json_text_keeps os (LayerMetadataToJson os m)"
  shows "DeserializeMetadata os (strip_end (\<lambda>b. b = 0) (SerializeMetadata os m @ [0])) = Some m"
proof -
  let ?j = "LayerMetadataToJson os m" and ?u = "WideToUtf8 os"
  note keys = blit_def
  have s: "strip_end (\<lambda>b. b = 0) (SerializeMetadata os m @ [0]) = json_dump os ?j"
    using j by (cases "json_dump os ?j" rule: rev_cases) (auto simp: strip_end_def SerializeMetadata_def json_text_keeps_def)
  have texts: "Utf8ToWide os (?u (layerId m)) = layerId m" "Utf8ToWide os (?u (parentLayerId m)) = parentLayerId m"
      "Utf8ToWide os (?u (layerCreatedAt m)) = layerCreatedAt m" "Utf8ToWide os (?u (layerAuthor m)) = layerAuthor m"
      "Utf8ToWide os (?u (layerDescription m)) = layerDescription m"
      "list_all (text_keeps os) (layerTags m)" "list_all (text_keeps os) (layerWhiteouts m)"
      "list_all (text_keeps os) (map fst (layerLabels m) @ map snd (layerLabels m))"
    using t by (simp_all add: metadata_texts_def text_keeps_def)
  have members: "json_member ?j (blit ''tags'') = Some (JArray (map (\<lambda>t. JString (?u t)) (layerTags m)))"
      "json_member ?j (blit ''whiteouts'') = Some (JArray (map (\<lambda>t. JString (?u t)) (layerWhiteouts m)))"
      "json_member ?j (blit ''labels'') = Some (json_labels os (layerLabels m))"
      "json_member ?j (blit ''parentLayerId'') = Some (if parentLayerId m = [] then JNull else JString (?u (parentLayerId m)))"
    by (simp_all add: json_member_def LayerMetadataToJson_def keys)
  have vals: "json_value json_string ?j (blit ''layerId'') [] = Some (?u (layerId m))"
      "json_value json_string ?j (blit ''createdAt'') [] = Some (?u (layerCreatedAt m))"
      "json_value json_string ?j (blit ''author'') [] = Some (?u (layerAuthor m))"
      "json_value json_string ?j (blit ''description'') [] = Some (?u (layerDescription m))"
      "json_value json_string ?j (blit ''compressionType'') (blit ''none'') = Some (CompressionTypeToString (layerCompression m))"
      "json_value json_uint64 ?j (blit ''fileCount'') 0 = Some (layerFileCount m)"
      "json_value json_uint64 ?j (blit ''uncompressedSize'') 0 = Some (uncompressedSize m)"
      "json_value json_uint64 ?j (blit ''compressedSize'') 0 = Some (compressedSize m)"
    by (simp_all add: LayerMetadataToJson_def keys)
  have c: "StringToCompressionType (CompressionTypeToString (layerCompression m)) = layerCompression m"
    by (cases "layerCompression m") (simp_all add: StringToCompressionType_def CompressionTypeToString_def keys)
  have empty: "Utf8ToWide os [] = []" by (simp add: Utf8ToWide_def)
  have "JsonToLayerMetadata os ?j = Some m"
    unfolding JsonToLayerMetadata_def members vals
    using texts c json_strings_keep [OF texts(6)] json_strings_keep [OF texts(7)] json_labels_keep [OF texts(8) d] empty
    by (cases "parentLayerId m = []") simp_all
  then show ?thesis using s j by (simp add: DeserializeMetadata_def json_text_keeps_def)
qed

section \<open>The written image is the image that is read\<close>

text \<open>An error code of the system category that is set is not zero.\<close>

definition error_codes_set :: "('w, 'h) host \<Rightarrow> bool" where
  "error_codes_set os \<longleftrightarrow> (\<forall>w path. snd (fs_create_directories os w path) \<noteq> Some (True, 0))"

lemma CreateParentOf_error: "error_codes_set os \<Longrightarrow> CreateParentOf os w path \<noteq> (w', Some ERROR_SUCCESS)"
  by (auto simp: CreateParentOf_def error_codes_set_def Win32FromErrorCode_def split: prod.splits option.splits)
    (metis prod.collapse snd_conv)

lemma WriteImage_success:
  assumes "error_codes_set os" "WriteImage os im w output meta archive = (w', meta', ERROR_SUCCESS)"
  obtains w1 c where "CompressBuffer im archive (compressionLevel output) = Inr c"
    "write_image_streams im w1 (ForWin32 os (outputPath output)) (SerializeMetadata os meta' @ [0]) c = (w', ERROR_SUCCESS)"
proof -
  let ?p = "ForWin32 os (outputPath output)"
  have f: "WriteImageFile os im w output meta archive = (w', meta', ERROR_SUCCESS)"
    using assms(2) by (auto simp: WriteImage_def Let_def split: prod.splits if_splits)
  have e: "CompressBuffer im archive (compressionLevel output) \<noteq> Inl ERROR_SUCCESS"
    by (simp add: CompressBuffer_def split: option.splits)
  obtain w1 where w1: "CreateParentOf os w ?p = (w1, None)"
    using f CreateParentOf_error [OF assms(1), of w ?p] by (auto simp: WriteImageFile_def Let_def split: prod.splits option.splits)
  obtain c where "CompressBuffer im archive (compressionLevel output) = Inr c"
    using f w1 e by (cases "CompressBuffer im archive (compressionLevel output)") (auto simp: WriteImageFile_def Let_def)
  with that f w1 show ?thesis by (auto simp: WriteImageFile_def Let_def split: prod.splits)
qed

lemma written_image_read:
  assumes os: "error_codes_set os" and w: "WriteImage os im w output meta archive = (w', meta', ERROR_SUCCESS)"
    and s: "image_streams im content ptr (ForWin32 os (outputPath output))" and l: "\<And>bs. length (snd (BCryptFinishHash im bs)) = 32"
    and z: "zstd_keeps im (compressionLevel output) archive" "length archive \<le> 4294967296" "Allocates im (length archive)"
    and fits: "\<And>c. ZSTD_compress im (compressionLevel output) archive = Some c \<Longrightarrow> image_fits im (SerializeMetadata os meta' @ [0]) c"
    and m: "list_all (text_keeps os) (metadata_texts meta')" "distinct (map fst (layerLabels meta'))" "json_text_keeps os (LayerMetadataToJson os meta')"
  shows "(\<exists>h. GetImageInfo os im w' (outputPath output) = Inr (h, meta')) \<and> ValidateImage os im w' (outputPath output) = Inr () \<and>
    ExtractImage os im w' (outputPath output) targetDir verify = UnpackArchive os im w' archive meta' targetDir"
proof -
  let ?p = "outputPath output" and ?m = "SerializeMetadata os meta' @ [0]"
  obtain w1 c where c: "CompressBuffer im archive (compressionLevel output) = Inr c"
      "write_image_streams im w1 (ForWin32 os ?p) ?m c = (w', ERROR_SUCCESS)"
    using WriteImage_success [OF os w] .
  have fit: "image_fits im ?m c" using c(1) fits by (auto simp: CompressBuffer_def split: option.splits)
  obtain digest out w3 w4 where d: "FinishHash im c = Inr digest" "length digest = 32" "InitBcryptSha256 im = ERROR_SUCCESS"
      "write_hashed_loop im w3 out c [] = (w4, Inr c)" "file_holds im w' (ForWin32 os ?p) (image_header_bytes (image_header_for ?m c digest) @ ?m @ c)"
    using write_image_streams_content [OF s c(2) l] .
  obtain i where i: "ReadHeaderAndMetadata os im w' ?p = Inr (i, image_header_for ?m c digest, meta')"
      "OpenIn im w' True (ForWin32 os ?p) = Some i" "SeekIn im w' i (int (128 + length ?m))"
      "\<And>k n. k + n \<le> length c \<Longrightarrow> ReadIn im w' i (int (128 + length ?m) + int k) n = take n (drop k c)"
    using read_image [OF d(5) fit d(2) metadata_roundtrip [OF m]] by blast
  have sum: "checksum_error os im w' ?p (image_header_for ?m c digest) = ERROR_SUCCESS"
    by (rule written_checksum [OF i(2) i(3) i(4) fit d(2) d(3) d(1) d(4)])
  note fields = header_for_fields [OF fit d(2)] and dec = DecompressBuffer_compressed [OF c(1) z]
  have "0 < dataSize (image_header_for ?m c digest)" using fields(4) dec(2) by (simp add: word_less_nat_alt)
  moreover have "ReadIn im w' i (int (128 + length ?m)) (length c) = c" using i(4) [of 0 "length c"] by simp
  ultimately have "ExtractImage os im w' ?p targetDir verify = UnpackArchive os im w' archive meta' targetDir"
    using i(1) sum fields i(3) fit dec(1) by (simp add: ExtractImage_def Let_def image_fits_def)
  then show ?thesis using i(1) sum by (simp add: GetImageInfo_def ValidateImage_def returned_def)
qed

end
