(* ===== verification/Image_Guarantees.thy ===== *)
theory Image_Guarantees
  imports Image_Roundtrip
begin

text \<open>
  The streams, the hash and the compression on the disk in memory, and what the image functions
  guarantee: the bounds of an accepted header, the paths an extraction writes, the archive of a
  directory, the difference of two directories, and the image that is written and read back.
\<close>

section \<open>Streams on the disk in memory\<close>

definition mem_walk :: "mem_disk \<Rightarrow> wstring \<Rightarrow> walk" where
  "mem_walk w dir =
     foldr (\<lambda>fd rest. WalkAt (dir @ [bslash] @ cFileName fd) 0 (Some (dwFileAttributes fd AND FILE_ATTRIBUTE_DIRECTORY \<noteq> 0)) rest rest)
       (mem_children w (mem_key dir @ [bslash])) WalkEnd"

definition mem_image :: "(mem_disk, wstring, wstring, wstring) image_io" where
  "mem_image =
     file_io.extend mem_io
       \<lparr>OpenIn = (\<lambda>w binary p. if mem_key p \<in> fst ` set w then Some (mem_key p) else None),
        SeekIn = (\<lambda>w i pos. 0 \<le> pos),
        TellEnd = (\<lambda>w i. int (length (mem_bytes w i))),
        ReadIn = (\<lambda>w i pos n. take n (drop (nat pos) (mem_bytes w i))),
        JsonFromStream = (\<lambda>w i. None),
        OpenOut = (\<lambda>w binary p. case mem_create w p FILE_ATTRIBUTE_NORMAL of (w1, Inl e) \<Rightarrow> (w1, None) | (w1, Inr h) \<Rightarrow> (w1, Some h)),
        WriteOut = (\<lambda>w out bs. case mem_write w out bs of (w1, Inl e) \<Rightarrow> (w1, False) | (w1, Inr n) \<Rightarrow> (w1, True)),
        SeekOut = (\<lambda>w out n. case mem_update (nodePointer_update (\<lambda>_. n)) w out of (w1, None) \<Rightarrow> (w1, True) | (w1, Some e) \<Rightarrow> (w1, False)),
        CloseOut = (\<lambda>w out. w),
        Allocates = (\<lambda>n. True),
        fs_exists = (\<lambda>w p. Some (mem_key p \<in> fst ` set w)),
        fs_relative = (\<lambda>w p base. Some (drop (Suc (length base)) p)),
        fs_remove = (\<lambda>w p. fst (mem_delete w p)),
        weakly_canonical = (\<lambda>w p. Some (mem_key p)),
        recursive_walk = (\<lambda>w p. Some (mem_walk w p)),
        GetLongPathNameW = (\<lambda>w p n. (0, [])),
        SetFileAttributesW = (\<lambda>w p a. (w, None)),
        SetLastWriteTime = (\<lambda>w h ft. (w, None)),
        CloseHandleChecked = (\<lambda>w h. (w, None)),
        BCryptOpenAlgorithmProvider = STATUS_SUCCESS, BCryptGetProperty = STATUS_SUCCESS, BCryptCreateHash = STATUS_SUCCESS,
        BCryptHashData = (\<lambda>hashed bs. STATUS_SUCCESS),
        BCryptFinishHash = (\<lambda>hashed. (STATUS_SUCCESS, take 32 (hashed @ replicate 32 0))),
        ZSTD_compress = (\<lambda>level bs. Some (1 # bs)),
        ZSTD_getFrameContentSize = (\<lambda>c. of_nat (length c - 1)),
        ZSTD_decompress = (\<lambda>n c. Some (tl c)),
        towlower = ascii_lower,
        NewGuidText = (\<lambda>w. None),
        GetSystemTime = (\<lambda>w. \<lparr>wYear = 2024, wMonth = 1, wDay = 2, wHour = 3, wMinute = 4, wSecond = 5\<rparr>)\<rparr>"

lemma mem_image_calls [simp]:
  "OpenIn mem_image w binary p = (if mem_key p \<in> fst ` set w then Some (mem_key p) else None)"
  "SeekIn mem_image w i pos \<longleftrightarrow> 0 \<le> pos"
  "ReadIn mem_image w i pos n = take n (drop (nat pos) (mem_bytes w i))"
  "OpenOut mem_image w binary p = (case mem_create w p FILE_ATTRIBUTE_NORMAL of (w1, Inl e) \<Rightarrow> (w1, None) | (w1, Inr h) \<Rightarrow> (w1, Some h))"
  "WriteOut mem_image w out bs = (case mem_write w out bs of (w1, Inl e) \<Rightarrow> (w1, False) | (w1, Inr k) \<Rightarrow> (w1, True))"
  "SeekOut mem_image w out n =
     (case mem_update (nodePointer_update (\<lambda>_. n)) w out of (w1, None) \<Rightarrow> (w1, True) | (w1, Some e) \<Rightarrow> (w1, False))"
  "CloseOut mem_image w out = w" "Allocates mem_image n" "weakly_canonical mem_image w p = Some (mem_key p)"
  "SetFileAttributesW mem_image w p a = (w, None)" "SetLastWriteTime mem_image w h ft = (w, None)" "CloseHandleChecked mem_image w h = (w, None)"
  "CreateFileW mem_image w p acc share disposition flags = mem_create_file w p disposition"
  "BCryptOpenAlgorithmProvider mem_image = STATUS_SUCCESS" "BCryptGetProperty mem_image = STATUS_SUCCESS" "BCryptCreateHash mem_image = STATUS_SUCCESS"
  "BCryptHashData mem_image hashed bs = STATUS_SUCCESS"
  "BCryptFinishHash mem_image hashed = (STATUS_SUCCESS, take 32 (hashed @ replicate 32 0))"
  "ZSTD_compress mem_image level bs = Some (1 # bs)" "ZSTD_getFrameContentSize mem_image c = of_nat (length c - 1)"
  "ZSTD_decompress mem_image n c = Some (tl c)"
  by (simp_all add: mem_image_def file_io.defs mem_io_def Let_def)

lemma mem_create_eq:
  assumes "mem_create w p attrs = (w', Inr h)"
  shows "h = mem_key p \<and> map_of w' = (map_of w)(mem_key p \<mapsto> (mem_file [])\<lparr>nodeAttributes := attrs AND 0xFFFF\<rparr>)"
  using assms by (auto simp: mem_create_def mem_put_def update_conv' split: option.splits if_splits)

lemma mem_image_streams: "image_streams mem_image mem_bytes mem_pointer path"
proof -
  have opens: "out = mem_key path \<and> mem_bytes w' out = [] \<and> mem_pointer w' out = 0"
    if "OpenOut mem_image w True path = (w', Some out)" for w w' out
    using that mem_create_eq [of w path FILE_ATTRIBUTE_NORMAL w' out]
    by (auto simp: mem_bytes_def mem_pointer_def mem_file_def split: prod.splits sum.splits)
  have writes: "map_of w out \<noteq> None \<and> map_of w' out \<noteq> None \<and> mem_bytes w' out = overwrite (mem_bytes w out) (mem_pointer w out) bs \<and>
      mem_pointer w' out = mem_pointer w out + length bs"
    if "WriteOut mem_image w out bs = (w', True)" for w w' out bs
    using that mem_write_eq [of w out bs w'] by (auto simp: mem_bytes_def mem_pointer_def split: prod.splits sum.splits)
  have seeks: "mem_bytes w' out = mem_bytes w out \<and> mem_pointer w' out = n"
    if "SeekOut mem_image w out n = (w', True)" for w w' out n
    using that mem_update_eq [of "nodePointer_update (\<lambda>_. n)" w out w' None] by (auto simp: mem_bytes_def mem_pointer_def split: prod.splits option.splits)
  have closes: "file_holds mem_image (CloseOut mem_image w' out) path (mem_bytes w' out)"
    if "OpenOut mem_image v True path = (v', Some out)" "WriteOut mem_image w out bs = (w', True)" for v v' w w' out bs
  proof -
    have "mem_key path \<in> fst ` set w'" "out = mem_key path" using opens [OF that(1)] writes [OF that(2)] by (simp_all add: map_of_eq_None_iff)
    then show ?thesis by (auto simp: file_holds_def)
  qed
  show ?thesis unfolding image_streams_def using opens writes seeks closes by blast
qed

text \<open>On that disk a write of an image at a new path succeeds.\<close>

lemma mem_write_ok: "map_of w h \<noteq> None \<Longrightarrow> \<exists>w'. WriteOut mem_image w h bs = (w', True) \<and> map_of w' h \<noteq> None"
  by (auto simp: mem_write_def update_conv')

lemma mem_seek_ok: "map_of w h \<noteq> None \<Longrightarrow> \<exists>w'. SeekOut mem_image w h n = (w', True) \<and> map_of w' h \<noteq> None"
  by (auto simp: mem_update_def update_conv')

lemma mem_hashed_ok:
  "map_of w h \<noteq> None \<Longrightarrow> \<exists>w'. write_hashed_loop mem_image w h bs hashed = (w', Inr (hashed @ bs)) \<and> map_of w' h \<noteq> None"
proof (induction "length bs" arbitrary: w bs hashed rule: less_induct)
  case less
  show ?case
  proof (cases "bs = []")
    case True
    then show ?thesis using less.prems by (simp add: write_hashed_loop.simps)
  next
    case False
    obtain w1 where w1: "WriteOut mem_image w h (take kChunkSize bs) = (w1, True)" "map_of w1 h \<noteq> None" using mem_write_ok [OF less.prems] by blast
    obtain w' where "write_hashed_loop mem_image w1 h (drop kChunkSize bs) (hashed @ take kChunkSize bs) = (w', Inr (hashed @ bs))" "map_of w' h \<noteq> None"
      using less.hyps [OF _ w1(2), of "drop kChunkSize bs" "hashed @ take kChunkSize bs"] False by auto
    then show ?thesis using False w1(1) by (subst write_hashed_loop.simps) (simp add: Let_def del: mem_image_calls(5))
  qed
qed

lemma mem_write_image:
  assumes "map_of w (mem_key p) = None"
  shows "\<exists>w'. write_image_streams mem_image w p m c = (w', ERROR_SUCCESS)"
proof -
  let ?h = "mem_key p"
  obtain w1 where w1: "OpenOut mem_image w True p = (w1, Some ?h)" "map_of w1 ?h \<noteq> None"
    using assms by (auto simp: mem_create_def mem_put_def update_conv')
  obtain w2 where w2: "WriteOut mem_image w1 ?h (image_header_bytes (new_LayerImageHeader\<lparr>imageVersion := LAYER_IMAGE_VERSION, imageFlags := 1\<rparr>)) = (w2, True)"
      "map_of w2 ?h \<noteq> None" using mem_write_ok [OF w1(2)] by blast
  obtain w3 where w3: "WriteOut mem_image w2 ?h m = (w3, True)" "map_of w3 ?h \<noteq> None" using mem_write_ok [OF w2(2)] by blast
  obtain w4 where w4: "write_hashed_loop mem_image w3 ?h c [] = (w4, Inr c)" "map_of w4 ?h \<noteq> None" using mem_hashed_ok [OF w3(2), of c "[]"] by auto
  obtain w5 where w5: "SeekOut mem_image w4 ?h 0 = (w5, True)" "map_of w5 ?h \<noteq> None" using mem_seek_ok [OF w4(2)] by blast
  have w6: "\<exists>w6. WriteOut mem_image w5 ?h bs = (w6, True)" for bs using mem_write_ok [OF w5(2)] by blast
  have "WriteDataWithHash mem_image w3 ?h c = (w4, Inr (take 32 (c @ replicate 32 0)))"
    using w4 by (simp add: WriteDataWithHash_def InitBcryptSha256_def FinishHash_def NtStatusToDword_def)
  then show ?thesis unfolding write_image_streams_def Let_def
    using w1(1) w2(1) w3(1) w5(1) w6 by (auto simp del: mem_image_calls split: prod.splits) (metis prod.inject)
qed

section \<open>Samples\<close>

definition sample_layer :: LayerMetadata where
  "sample_layer =
     \<lparr>layerId = wlit ''a'', parentLayerId = [], layerCreatedAt = wlit ''t'', layerAuthor = [], layerDescription = [], layerTags = [wlit ''x''],
      layerCompression = CompressionZstd, layerFileCount = 0, uncompressedSize = 0, compressedSize = 0, layerWhiteouts = [],
      layerLabels = [(wlit ''k'', wlit ''v'')]\<rparr>"

definition sample_written :: LayerMetadata where
  "sample_written = sample_layer\<lparr>uncompressedSize := 24, compressedSize := 25\<rparr>"

definition sample_output :: ImageOutput where
  "sample_output = \<lparr>outputPath = wlit ''C:'' @ [bslash] @ wlit ''i'', compressionLevel = 3\<rparr>"

definition sample_target :: wstring where "sample_target = wlit ''C:'' @ [bslash] @ wlit ''t''"

lemma mem_create_directories [simp]: "fs_create_directories mem_host w p = (mem_mkdirs w (mem_directories p), None)"
  by (simp add: mem_host_def)

lemma sample_text_keeps: "list_all (text_keeps mem_host) (metadata_texts sample_written)"
  by (simp add: text_keeps_def metadata_texts_def sample_written_def sample_layer_def WideToUtf8_def Utf8ToWide_def mem_host_def wlit_def)

lemma sample_image_written:
  "\<exists>w. WriteImage mem_host mem_image [] sample_output sample_layer (Finish new_ArchiveBuilder) = (w, sample_written, ERROR_SUCCESS)"
proof -
  let ?p = "ForWin32 mem_host (outputPath sample_output)"
  have n: "length (Finish new_ArchiveBuilder) = 24" by (simp add: Finish_def new_ArchiveBuilder_def)
  obtain w1 where w1: "CreateParentOf mem_host [] ?p = (w1, None)" "map_of w1 (mem_key ?p) = None"
  proof -
    have "map_of (mem_mkdirs [] (mem_directories (parent_path ?p))) (mem_key ?p) = None" by code_simp
    then show ?thesis using that by (cases "parent_path ?p = []") (simp_all add: CreateParentOf_def)
  qed
  obtain w2 where w2: "write_image_streams mem_image w1 ?p (SerializeMetadata mem_host sample_written @ [0]) (1 # Finish new_ArchiveBuilder) = (w2, ERROR_SUCCESS)"
    using mem_write_image [OF w1(2)] by blast
  have "sample_layer\<lparr>layerCompression := CompressionZstd, uncompressedSize := of_nat 24, compressedSize := of_nat 25\<rparr> = sample_written"
    by (simp add: sample_written_def sample_layer_def)
  then have "WriteImageFile mem_host mem_image [] sample_output sample_layer (Finish new_ArchiveBuilder) = (w2, sample_written, ERROR_SUCCESS)"
    using w1(1) w2 n by (simp add: WriteImageFile_def CompressBuffer_def Let_def)
  then show ?thesis by (simp add: WriteImage_def)
qed

section \<open>Guarantees\<close>

text \<open>
  The header of an image that is accepted is the header of a file whose sections are in order: the
  metadata starts after the header, the data starts after the metadata, and neither end wraps around
  64 bits.
\<close>

theorem header_bounds:
  assumes "GetImageInfo os im w imagePath = Inr (h, meta)"
  shows "imageMagic h = LAYER_IMAGE_MAGIC \<and> imageVersion h \<le> LAYER_IMAGE_VERSION \<and>
    128 \<le> unat (metadataOffset h) \<and> unat (metadataOffset h) + unat (metadataSize h) \<le> unat (dataOffset h) \<and>
    unat (dataOffset h) + unat (dataSize h) < 2 ^ 64"
proof -
  obtain f where "ReadHeaderAndMetadata os im w imagePath = Inr (f, h, meta)"
    using assms by (auto simp: GetImageInfo_def split: sum.splits)
  then show ?thesis by (rule ReadHeaderAndMetadata_header)
qed


lemma mem_digest: "length (snd (BCryptFinishHash mem_image bs)) = 32"
  by (simp add: min_def)

lemma mem_json_text_keeps: "json_text_keeps mem_host j"
  by (simp add: json_text_keeps_def mem_host_def parse_dump_json) (simp add: dump_json_def)

lemma sample_image_hypotheses:
  "error_codes_set mem_host" "zstd_keeps mem_image level archive"
  "image_fits mem_image (SerializeMetadata mem_host sample_written @ [0]) (1 # Finish new_ArchiveBuilder)"
  "distinct (map fst (layerLabels sample_written))" "json_text_keeps mem_host (LayerMetadataToJson mem_host sample_written)"
proof -
  have "length (SerializeMetadata mem_host sample_written) < 400" by code_simp
  then show "image_fits mem_image (SerializeMetadata mem_host sample_written @ [0]) (1 # Finish new_ArchiveBuilder)"
    by (simp add: image_fits_def Finish_def new_ArchiveBuilder_def)
qed (simp_all add: error_codes_set_def zstd_keeps_def sample_written_def sample_layer_def mem_json_text_keeps)


theorem header_bounds_witness:
  "\<exists>w h. GetImageInfo mem_host mem_image w (outputPath sample_output) = Inr (h, sample_written) \<and>
    unat (metadataOffset h) + unat (metadataSize h) \<le> unat (dataOffset h)"
proof -
  obtain w where w: "WriteImage mem_host mem_image [] sample_output sample_layer (Finish new_ArchiveBuilder) = (w, sample_written, ERROR_SUCCESS)"
    using sample_image_written by blast
  have "length (Finish new_ArchiveBuilder) \<le> 4294967296" by (simp add: Finish_def new_ArchiveBuilder_def)
  then obtain h where h: "GetImageInfo mem_host mem_image w (outputPath sample_output) = Inr (h, sample_written)"
    using written_image_read [OF sample_image_hypotheses(1) w mem_image_streams mem_digest sample_image_hypotheses(2) _ _ _ sample_text_keeps
        sample_image_hypotheses(4,5), of sample_target True] sample_image_hypotheses(3) by auto
  then show ?thesis using header_bounds [OF h] by blast
qed








text \<open>
  Packing the entries of a scan and reading the archive back gives every entry once, in the order of
  the scan, up to the end marker: its name, kind, attributes and time, and for a file the bytes that
  were in it when it was packed. The count of the builder is the number of files.
\<close>

theorem pack_roundtrip:
  assumes "list_all (archivable os im w (ForWin32 os root)) entries" "PackEntries os im w root entries new_ArchiveBuilder = (b, ERROR_SUCCESS)"
  shows "\<exists>as. archive_stream os (Finish b) 0 = (as, ERROR_SUCCESS) \<and> list_all2 (packs im w (ForWin32 os root)) entries (map unpacked as) \<and>
    builtCount b = of_nat (length (filter (\<lambda>s. isDirectory (snapshotEntry s) = 0) entries))"
proof -
  obtain es where es: "list_all2 (packs im w (ForWin32 os root)) entries es" "list_all (packable os) es"
      "builtArchive b = concat (map (packed_bytes os) es)" "builtCount b = of_nat (length (filter (\<lambda>s. isDirectory (snapshotEntry s) = 0) entries))"
    using PackEntries_packed [OF assms] by (auto simp: new_ArchiveBuilder_def)
  then obtain as where "archive_stream os (Finish b) 0 = (as, ERROR_SUCCESS)" "map unpacked as = map (with_name_length os) es"
    using stream_packed [OF es(2), of "[]"] by (auto simp: Finish_def)
  then show ?thesis using es list_all2_with_name_length by metis
qed

definition pack_disk :: mem_disk where
  "pack_disk =
     [(on_disk (wlit ''C:'' @ [bslash] @ wlit ''s''), mem_dir),
      (on_disk (wlit ''C:'' @ [bslash] @ wlit ''s'' @ [bslash] @ wlit ''d''), mem_dir),
      (on_disk (wlit ''C:'' @ [bslash] @ wlit ''s'' @ [bslash] @ wlit ''f''), mem_file [5, 6]),
      (on_disk (wlit ''C:'' @ [bslash] @ wlit ''b''), mem_dir),
      (on_disk (wlit ''C:'' @ [bslash] @ wlit ''b'' @ [bslash] @ wlit ''f''), mem_file [5]),
      (on_disk (wlit ''C:'' @ [bslash] @ wlit ''b'' @ [bslash] @ wlit ''g''), mem_file [9])]"

definition pack_source :: wstring where "pack_source = wlit ''C:'' @ [bslash] @ wlit ''s''"
definition pack_base :: wstring where "pack_base = wlit ''C:'' @ [bslash] @ wlit ''b''"

definition pack_entry_d :: FileSnapshot where
  "pack_entry_d = \<lparr>lookupKey = wlit ''d'', snapshotPath = wlit ''d'',
     snapshotEntry = new_FileEntryHeader\<lparr>entryAttributes := FILE_ATTRIBUTE_DIRECTORY, isDirectory := 1\<rparr>\<rparr>"

definition pack_entry_f :: "nat \<Rightarrow> string \<Rightarrow> FileSnapshot" where
  "pack_entry_f n name = \<lparr>lookupKey = wlit name, snapshotPath = wlit name,
     snapshotEntry = new_FileEntryHeader\<lparr>entryAttributes := FILE_ATTRIBUTE_NORMAL, entryBytes := of_nat n\<rparr>\<rparr>"

lemma pack_scans:
  "ScanDirectory mem_host mem_image pack_disk pack_source = Inr [pack_entry_d, pack_entry_f 2 ''f'']"
  "ScanDirectory mem_host mem_image pack_disk pack_base = Inr [pack_entry_f 1 ''f'', pack_entry_f 1 ''g'']"
  by code_simp+

lemma pack_reads:
  "ReadFileBytes mem_image pack_disk (UnderExtendedRoot (ForWin32 mem_host pack_source) [102]) = Inr [5, 6]"
  "ReadFileBytes mem_image pack_disk (UnderExtendedRoot (ForWin32 mem_host pack_source) [100]) = Inr []"
  by code_simp+

lemma pack_names:
  "WideToUtf8 mem_host [100] = [100]" "WideToUtf8 mem_host [102] = [102]"
  "Utf8ToWide mem_host [100] = [100]" "Utf8ToWide mem_host [102] = [102]"
  "IsValidUtf8 [100]" "IsValidUtf8 [102]" "IsValidArchivePath [100]" "IsValidArchivePath [102]"
  by code_simp+

lemma pack_archivable:
  "list_all (archivable mem_host mem_image pack_disk (ForWin32 mem_host pack_source)) [pack_entry_d, pack_entry_f 2 ''f'']"
  by (simp add: archivable_def pack_entry_d_def pack_entry_f_def pack_reads pack_names new_FileEntryHeader_def)

lemma pack_packs:
  "snd (PackEntries mem_host mem_image pack_disk pack_source [pack_entry_d, pack_entry_f 2 ''f''] new_ArchiveBuilder) = ERROR_SUCCESS"
  by (simp add: pack_entry_d_def pack_entry_f_def pack_reads pack_names new_FileEntryHeader_def AddDirectory_def AddFile_def
      AppendCounted_def Append_def Let_def split: prod.splits)

theorem pack_roundtrip_witness:
  "\<exists>b as. PackEntries mem_host mem_image pack_disk pack_source [pack_entry_d, pack_entry_f 2 ''f''] new_ArchiveBuilder = (b, ERROR_SUCCESS) \<and>
    archive_stream mem_host (Finish b) 0 = (as, ERROR_SUCCESS) \<and> map (fst \<circ> unpacked) as = [wlit ''d'', wlit ''f''] \<and>
    map (snd \<circ> snd \<circ> unpacked) as = [[], [5, 6]]"
proof -
  let ?es = "[pack_entry_d, pack_entry_f 2 ''f'']"
  obtain b where b: "PackEntries mem_host mem_image pack_disk pack_source ?es new_ArchiveBuilder = (b, ERROR_SUCCESS)"
    using pack_packs by (metis prod.collapse)
  obtain as where as: "archive_stream mem_host (Finish b) 0 = (as, ERROR_SUCCESS)"
      "list_all2 (packs mem_image pack_disk (ForWin32 mem_host pack_source)) ?es (map unpacked as)"
    using pack_roundtrip [OF pack_archivable b] by blast
  obtain a1 a2 where a: "as = [a1, a2]" using as(2) by (auto simp: list_all2_Cons1)
  obtain p1 h1 d1 p2 h2 d2 where u: "unpacked a1 = (p1, h1, d1)" "unpacked a2 = (p2, h2, d2)" by (metis prod_cases3)
  have "p1 = wlit ''d'' \<and> d1 = [] \<and> p2 = wlit ''f'' \<and> d2 = [5, 6]"
    using as(2) by (auto simp: a u packs_def pack_entry_d_def pack_entry_f_def pack_reads new_FileEntryHeader_def)
  then show ?thesis using b as(1) by (simp add: a u)
qed

text \<open>
  A differential image restores the source: for every path of either directory, the entry of the
  difference, or of the base when the difference neither has the path nor deletes it, is the entry of
  the source, up to what the comparison of two entries looks at (the kind, and for files the size and
  the time). Paths are told apart by their lowercase form.
\<close>

theorem differential_restores_source:
  assumes "ScanDirectory os im w sourceDir = Inr src" "ScanDirectory os im w baseDir = Inr base"
    "distinct (map lookupKey src)" "distinct (map lookupKey base)"
  shows "rel_option (\<lambda>p s. lookupKey p = lookupKey s \<and> \<not> Differs (snapshotEntry s) (snapshotEntry p))
    (patched im base (ChangedEntries src base) (DeletedPaths src base) k) (entry_of src k)"
  by (rule patched_is_source [OF assms(3,4) ScanDirectory_keys [OF assms(2)]])

theorem differential_restores_source_witness:
  "let src = [pack_entry_d, pack_entry_f 2 ''f'']; base = [pack_entry_f 1 ''f'', pack_entry_f 1 ''g''] in
   ScanDirectory mem_host mem_image pack_disk pack_source = Inr src \<and> ScanDirectory mem_host mem_image pack_disk pack_base = Inr base \<and>
   ChangedEntries src base = src \<and> DeletedPaths src base = [wlit ''g''] \<and>
   rel_option (\<lambda>p s. lookupKey p = lookupKey s \<and> \<not> Differs (snapshotEntry s) (snapshotEntry p))
     (patched mem_image base (ChangedEntries src base) (DeletedPaths src base) (wlit ''g'')) (entry_of src (wlit ''g''))"
proof -
  have "distinct (map lookupKey [pack_entry_d, pack_entry_f 2 ''f''])" "distinct (map lookupKey [pack_entry_f 1 ''f'', pack_entry_f 1 ''g''])"
    by code_simp+
  moreover have "ChangedEntries [pack_entry_d, pack_entry_f 2 ''f''] [pack_entry_f 1 ''f'', pack_entry_f 1 ''g''] = [pack_entry_d, pack_entry_f 2 ''f'']"
    "DeletedPaths [pack_entry_d, pack_entry_f 2 ''f''] [pack_entry_f 1 ''f'', pack_entry_f 1 ''g''] = [wlit ''g'']"
    by code_simp+
  ultimately show ?thesis unfolding Let_def using pack_scans differential_restores_source [OF pack_scans] by simp
qed

end
