(* ===== verification/File_Context.thy ===== *)
theory File_Context
  imports Engine_Ops
begin

text \<open>
  Open file contexts (\<^verbatim>\<open>FileContext\<close> in \<^verbatim>\<open>impl/LayerMount.h\<close>): access masks, the handle of a context, file
  information, and the move of a context to the upper layer with the fill of a metacopy shell
  (\<^verbatim>\<open>impl/LayerMount.cpp\<close>). The state is that of the engine with its counters. An invalid handle of a
  context is \<open>None\<close>, and a call on it fails with \<^verbatim>\<open>ERROR_INVALID_HANDLE\<close>. The privileges of the process
  are enabled when the engine is built, so the second call that enables them changes nothing.
\<close>

section \<open>Data\<close>

definition FILE_READ_DATA :: dword where "FILE_READ_DATA = 0x1"
definition FILE_WRITE_DATA :: dword where "FILE_WRITE_DATA = 0x2"
definition FILE_APPEND_DATA :: dword where "FILE_APPEND_DATA = 0x4"
definition FILE_EXECUTE :: dword where "FILE_EXECUTE = 0x20"
definition READ_CONTROL :: dword where "READ_CONTROL = 0x20000"
definition WRITE_OWNER :: dword where "WRITE_OWNER = 0x80000"
definition ACCESS_SYSTEM_SECURITY :: dword where "ACCESS_SYSTEM_SECURITY = 0x1000000"
definition MAXIMUM_ALLOWED :: dword where "MAXIMUM_ALLOWED = 0x2000000"
definition GENERIC_ALL :: dword where "GENERIC_ALL = 0x10000000"
definition GENERIC_EXECUTE :: dword where "GENERIC_EXECUTE = 0x20000000"
definition FILE_GENERIC_READ :: dword where "FILE_GENERIC_READ = 0x120089"
definition FILE_GENERIC_WRITE :: dword where "FILE_GENERIC_WRITE = 0x120116"
definition FILE_GENERIC_EXECUTE :: dword where "FILE_GENERIC_EXECUTE = 0x1200A0"
definition FILE_ALL_ACCESS :: dword where "FILE_ALL_ACCESS = 0x1F01FF"
definition FILE_DIRECTORY_FILE :: dword where "FILE_DIRECTORY_FILE = 0x1"
definition FILE_OPEN_REPARSE_POINT :: dword where "FILE_OPEN_REPARSE_POINT = 0x200000"

lemmas access_defs = FILE_READ_DATA_def FILE_WRITE_DATA_def FILE_APPEND_DATA_def FILE_EXECUTE_def
  FILE_WRITE_ATTRIBUTES_def FILE_READ_ATTRIBUTES_def FILE_WRITE_EA_def WRITE_DAC_def WRITE_OWNER_def DELETE_ACCESS_def
  GENERIC_READ_def GENERIC_WRITE_def GENERIC_EXECUTE_def GENERIC_ALL_def
  FILE_GENERIC_READ_def FILE_GENERIC_WRITE_def FILE_GENERIC_EXECUTE_def FILE_ALL_ACCESS_def

abbreviation ERROR_INVALID_HANDLE_VALUE :: dword where "ERROR_INVALID_HANDLE_VALUE \<equiv> 6"

record InternalFileInfo =
  fiAttributes :: dword
  fiReparseTag :: dword
  fiAllocationSize :: uint64
  fiFileSize :: uint64
  fiCreationTime :: uint64
  fiLastAccessTime :: uint64
  fiLastWriteTime :: uint64
  fiChangeTime :: uint64
  fiIndexNumber :: uint64
  fiHardLinks :: dword
  fiEaSize :: dword

definition zero_info :: InternalFileInfo where
  "zero_info = \<lparr>fiAttributes = 0, fiReparseTag = 0, fiAllocationSize = 0, fiFileSize = 0, fiCreationTime = 0,
     fiLastAccessTime = 0, fiLastWriteTime = 0, fiChangeTime = 0, fiIndexNumber = 0, fiHardLinks = 0, fiEaSize = 0\<rparr>"

text \<open>
  \<^verbatim>\<open>FileContext\<close>. Its members \<^verbatim>\<open>workPath\<close>, \<^verbatim>\<open>isWhiteout\<close>, \<^verbatim>\<open>inWorkDir\<close> and \<^verbatim>\<open>allocSize\<close> are not used by the
  engine.
\<close>

record 'h FileContext =
  ctxHandle :: "'h option"
  ctxActualPath :: wstring
  ctxRelativePath :: wstring
  ctxIsDirectory :: bool
  ctxWritable :: bool
  ctxIsMetacopyOnly :: bool
  ctxEntryIsReparsePoint :: bool
  ctxOwnerPid :: dword
  ctxGrantedAccess :: dword
  ctxCreateOptions :: dword
  ctxHandleNeedsReopen :: bool
  ctxStreamSuffix :: wstring

definition new_FileContext :: "'h FileContext" where
  "new_FileContext = \<lparr>ctxHandle = None, ctxActualPath = [], ctxRelativePath = [], ctxIsDirectory = False, ctxWritable = False,
     ctxIsMetacopyOnly = False, ctxEntryIsReparsePoint = False, ctxOwnerPid = 0, ctxGrantedAccess = 0, ctxCreateOptions = 0,
     ctxHandleNeedsReopen = False, ctxStreamSuffix = []\<rparr>"

text \<open>The state of the engine with the members of \<^verbatim>\<open>LayerMountStats\<close> that contexts change.\<close>

record 'w mount =
  mtLayer :: "'w layer_mount"
  upperFinalPath :: wstring
  readCount :: uint64
  writeCount :: uint64
  activeHandles :: uint64
  bytesRead :: uint64
  bytesWritten :: uint64

abbreviation mt_disk :: "'w mount \<Rightarrow> 'w" where "mt_disk mt \<equiv> lm_disk (mtLayer mt)"

abbreviation mt_engine :: "'w mount \<Rightarrow> 'w engine" where "mt_engine mt \<equiv> cuEngine (lmState (mtLayer mt))"

definition set_mt_disk :: "'w mount \<Rightarrow> 'w \<Rightarrow> 'w mount" where
  "set_mt_disk mt w = mt\<lparr>mtLayer := (mtLayer mt)\<lparr>lmState := set_disk (lmState (mtLayer mt)) w\<rparr>\<rparr>"

definition set_mt_engine :: "'w mount \<Rightarrow> 'w engine \<Rightarrow> 'w mount" where
  "set_mt_engine mt s = mt\<lparr>mtLayer := set_engine (mtLayer mt) s\<rparr>"

definition mt_invalidate :: "('w, 'h) host \<Rightarrow> 'w mount \<Rightarrow> wstring \<Rightarrow> 'w mount" where
  "mt_invalidate os mt path = mt\<lparr>mtLayer := lm_invalidate os (mtLayer mt) path\<rparr>"

section \<open>Services\<close>

text \<open>
  The calls on open files that the contexts add. \<open>HandleInfo\<close> is the query that \<^verbatim>\<open>handleInfoQuery_\<close> holds.
  \<open>StandardAllocation\<close> gives nothing when the query fails. \<open>QueryGrantedAccess\<close> is \<^verbatim>\<open>NtQueryObject\<close>, or nothing
  when the export is not there. Reads and writes take the 64 bits of the offset of an overlapped
  structure. A search of streams gives the streams, of which there is at least one, with their sizes,
  and the error that ends it.
\<close>

record handle_info = attribute_data +
  handleIndexHigh :: dword
  handleIndexLow :: dword

record ('w, 'h) context_io =
  HandleInfo :: "'w \<Rightarrow> 'h \<Rightarrow> dword + handle_info"
  StandardAllocation :: "'w \<Rightarrow> 'h \<Rightarrow> uint64 option"
  QueryGrantedAccess :: "('w \<Rightarrow> 'h \<Rightarrow> ntstatus \<times> dword) option"
  ReadAt :: "'w \<Rightarrow> 'h \<Rightarrow> uint64 \<Rightarrow> nat \<Rightarrow> dword + byte list"
  WriteAt :: "'w \<Rightarrow> 'h \<Rightarrow> uint64 \<Rightarrow> byte list \<Rightarrow> 'w \<times> (dword + nat)"
  FlushFileBuffers :: "'w \<Rightarrow> 'h \<Rightarrow> 'w \<times> dword option"
  FindStreams :: "'w \<Rightarrow> wstring \<Rightarrow> dword + ((wstring \<times> uint64) list \<times> dword)"
  SetAttributesByPath :: "'w \<Rightarrow> wstring \<Rightarrow> dword \<Rightarrow> 'w \<times> dword option"
  SetEndOfFileInfo :: "'w \<Rightarrow> 'h \<Rightarrow> int \<Rightarrow> 'w \<times> dword option"
  SetAllocationInfo :: "'w \<Rightarrow> 'h \<Rightarrow> int \<Rightarrow> 'w \<times> dword option"
  SetFileTimes :: "'w \<Rightarrow> 'h \<Rightarrow> FILETIME option \<Rightarrow> FILETIME option \<Rightarrow> FILETIME option \<Rightarrow> 'w \<times> dword option"
  SetKernelObjectSecurity :: "'w \<Rightarrow> 'h \<Rightarrow> dword \<Rightarrow> byte list \<Rightarrow> 'w \<times> dword option"
  GetSecurityDescriptorOwner :: "byte list \<Rightarrow> byte list option"
  GetSecurityDescriptorGroup :: "byte list \<Rightarrow> byte list option"
  ConvertSddl :: "wstring \<Rightarrow> dword + byte list"
  FsctlDeleteReparsePoint :: "'w \<Rightarrow> 'h \<Rightarrow> byte list \<Rightarrow> 'w \<times> dword option"
  GetDiskFreeSpaceExW :: "'w \<Rightarrow> wstring \<Rightarrow> dword + (uint64 \<times> uint64 \<times> uint64)"

definition handle_query :: "'h option \<Rightarrow> ('h \<Rightarrow> dword + 'a) \<Rightarrow> dword + 'a" where
  "handle_query handle f = (case handle of None \<Rightarrow> Inl ERROR_INVALID_HANDLE_VALUE | Some h \<Rightarrow> f h)"

definition handle_call :: "'w \<Rightarrow> 'h option \<Rightarrow> ('h \<Rightarrow> 'w \<times> dword option) \<Rightarrow> 'w \<times> dword option" where
  "handle_call w handle f = (case handle of None \<Rightarrow> (w, Some ERROR_INVALID_HANDLE_VALUE) | Some h \<Rightarrow> f h)"

text \<open>Parts of an operation that work on the engine below the counters.\<close>

definition on_layer :: "'w mount \<Rightarrow> ('w layer_mount \<times> 'a) run \<Rightarrow> ('w mount \<times> 'a) run" where
  "on_layer mt r = and_then r (\<lambda>(m, a). Finished (mt\<lparr>mtLayer := m\<rparr>, a))"

definition on_copy_up :: "'w mount \<Rightarrow> ('w copy_up_state \<times> 'a) run \<Rightarrow> ('w mount \<times> 'a) run" where
  "on_copy_up mt r = on_layer mt (with_state (mtLayer mt) r)"

definition mt_walk ::
  "('w, 'h) host \<Rightarrow> LayerConfig \<Rightarrow> clocks \<Rightarrow> 'w mount \<Rightarrow> wstring \<Rightarrow> FinalLink \<Rightarrow> 'w mount \<times> ntstatus \<times> ViewPath" where
  "mt_walk os cfg clk mt callerPath finalLink =
     (let (m, status, path) = WalkCallerPath os cfg clk (mtLayer mt) callerPath finalLink in (mt\<lparr>mtLayer := m\<rparr>, status, path))"

definition mt_lookup :: "('w, 'h) host \<Rightarrow> LayerConfig \<Rightarrow> clocks \<Rightarrow> 'w mount \<Rightarrow> wstring \<Rightarrow> 'w mount \<times> ResolvedPath" where
  "mt_lookup os cfg clk mt path = (let (m, r) = lookup os cfg clk (mtLayer mt) path in (mt\<lparr>mtLayer := m\<rparr>, r))"

definition mt_allows ::
  "('w, 'h) host \<Rightarrow> ('p, 's) process_calls \<Rightarrow> clocks \<Rightarrow> 'w mount \<Rightarrow> dword \<Rightarrow> wstring \<Rightarrow> OperationType \<Rightarrow> 'w mount \<times> bool" where
  "mt_allows os pc clk mt pid path op =
     (let (m, allow) = tracker_allows os pc clk (mtLayer mt) pid path op in (mt\<lparr>mtLayer := m\<rparr>, allow))"

text \<open>The early return of a step that failed, in a function with and without an output.\<close>

definition if_ok ::
  "('w mount \<times> 'h FileContext \<times> ntstatus) run \<Rightarrow> ('w mount \<Rightarrow> 'h FileContext \<Rightarrow> ('w mount \<times> 'h FileContext \<times> ntstatus) run) \<Rightarrow>
     ('w mount \<times> 'h FileContext \<times> ntstatus) run" where
  "if_ok r k = and_then r (\<lambda>(mt, ctx, status). if NT_SUCCESS status then k mt ctx else Finished (mt, ctx, status))"

definition if_ok_out ::
  "('w mount \<times> 'h FileContext \<times> ntstatus) run \<Rightarrow> 'o \<Rightarrow>
     ('w mount \<Rightarrow> 'h FileContext \<Rightarrow> ('w mount \<times> 'h FileContext \<times> ntstatus \<times> 'o) run) \<Rightarrow>
     ('w mount \<times> 'h FileContext \<times> ntstatus \<times> 'o) run" where
  "if_ok_out r unset k =
     and_then r (\<lambda>(mt, ctx, status). if NT_SUCCESS status then k mt ctx else Finished (mt, ctx, status, unset))"

section \<open>Access masks\<close>

definition MapFileGenericRights :: "dword \<Rightarrow> dword" where
  "MapFileGenericRights acc =
     (let mapped = acc AND NOT (GENERIC_READ OR GENERIC_WRITE OR GENERIC_EXECUTE OR GENERIC_ALL);
          mapped1 = (if acc AND GENERIC_READ \<noteq> 0 then mapped OR FILE_GENERIC_READ else mapped);
          mapped2 = (if acc AND GENERIC_WRITE \<noteq> 0 then mapped1 OR FILE_GENERIC_WRITE else mapped1);
          mapped3 = (if acc AND GENERIC_EXECUTE \<noteq> 0 then mapped2 OR FILE_GENERIC_EXECUTE else mapped2) in
      if acc AND GENERIC_ALL \<noteq> 0 then mapped3 OR FILE_ALL_ACCESS else mapped3)"

definition HasWriteAccess :: "dword \<Rightarrow> bool" where
  "HasWriteAccess acc \<longleftrightarrow>
     MapFileGenericRights acc AND
       (FILE_WRITE_DATA OR FILE_APPEND_DATA OR FILE_WRITE_ATTRIBUTES OR FILE_WRITE_EA OR WRITE_DAC OR WRITE_OWNER) \<noteq> 0"

definition HasFileDataAccess :: "dword \<Rightarrow> bool" where
  "HasFileDataAccess acc \<longleftrightarrow>
     MapFileGenericRights acc AND (FILE_READ_DATA OR FILE_WRITE_DATA OR FILE_APPEND_DATA OR FILE_EXECUTE) \<noteq> 0"

definition ComputePhysicalHandleAccess :: "dword \<Rightarrow> dword" where
  "ComputePhysicalHandleAccess grantedAccess =
     (let acc = MapFileGenericRights grantedAccess in
      if acc AND (FILE_WRITE_DATA OR FILE_APPEND_DATA) \<noteq> 0 then acc OR FILE_READ_DATA else acc)"

definition ComputeHandleReopenAccess :: "'h FileContext \<Rightarrow> dword" where
  "ComputeHandleReopenAccess ctx =
     (let reopenAccess = ComputePhysicalHandleAccess (ctxGrantedAccess ctx) AND NOT DELETE_ACCESS in
      if reopenAccess = 0 then FILE_READ_ATTRIBUTES else reopenAccess)"

definition ComputeHandleReopenFlags :: "'h FileContext \<Rightarrow> dword" where
  "ComputeHandleReopenFlags ctx =
     (let flags = (if ctxIsDirectory ctx then FILE_FLAG_BACKUP_SEMANTICS else 0) in
      if ctxCreateOptions ctx AND FILE_OPEN_REPARSE_POINT \<noteq> 0 then flags OR FILE_FLAG_OPEN_REPARSE_POINT else flags)"

definition FinalLinkFor :: "dword \<Rightarrow> FinalLink" where
  "FinalLinkFor createOptions = (if createOptions AND FILE_OPEN_REPARSE_POINT \<noteq> 0 then Keep else Follow)"

section \<open>Handles\<close>

definition OpenTransientHandle :: "('w, 'h) host \<Rightarrow> ('w, 'h) file_io \<Rightarrow> 'w \<Rightarrow> wstring \<Rightarrow> dword \<Rightarrow> bool \<Rightarrow> 'w \<times> (dword + 'h)" where
  "OpenTransientHandle os io w path desiredAccess isDirectory =
     CreateFileW io w (WithExtendedPrefix os path) desiredAccess kShareAll OPEN_EXISTING
       (if isDirectory then FILE_FLAG_BACKUP_SEMANTICS else 0)"

definition SetInfoWithTransientRetry ::
  "('w, 'h) host \<Rightarrow> ('w, 'h) file_io \<Rightarrow> 'w \<Rightarrow> 'h FileContext \<Rightarrow> dword \<Rightarrow> ('w \<Rightarrow> 'h \<Rightarrow> 'w \<times> dword option) \<Rightarrow> 'w \<times> ntstatus" where
  "SetInfoWithTransientRetry os io w ctx transientAccess setInfo =
     (case handle_call w (ctxHandle ctx) (setInfo w) of
        (w1, None) \<Rightarrow> (w1, STATUS_SUCCESS)
      | (w1, Some firstErr) \<Rightarrow>
          if firstErr \<noteq> ERROR_ACCESS_DENIED \<and> firstErr \<noteq> ERROR_SHARING_VIOLATION then (w1, nt_status os firstErr)
          else
            (case OpenTransientHandle os io w1 (ctxActualPath ctx) transientAccess (ctxIsDirectory ctx) of
               (w2, Inl e) \<Rightarrow> (w2, nt_status os firstErr)
             | (w2, Inr transient) \<Rightarrow>
                 (case setInfo w2 transient of
                    (w3, Some e) \<Rightarrow> (CloseHandle io w3 transient, nt_status os e)
                  | (w3, None) \<Rightarrow> (CloseHandle io w3 transient, STATUS_SUCCESS))))"

text \<open>A failure leaves the caller's mask.\<close>

definition ResolveMaximumAllowedFromHandle :: "('w, 'h) context_io \<Rightarrow> 'w \<Rightarrow> 'h \<Rightarrow> dword \<Rightarrow> ntstatus \<times> dword option" where
  "ResolveMaximumAllowedFromHandle cc w handle requestedAccess =
     (if requestedAccess AND MAXIMUM_ALLOWED = 0 then (STATUS_SUCCESS, Some requestedAccess)
      else
        (case QueryGrantedAccess cc of
           None \<Rightarrow> (STATUS_NOT_SUPPORTED, None)
         | Some queryObject \<Rightarrow>
             let (status, granted) = queryObject w handle in
             if \<not> NT_SUCCESS status then (status, None)
             else (STATUS_SUCCESS, Some ((requestedAccess AND NOT MAXIMUM_ALLOWED) OR granted))))"

definition ResolveMaximumAllowed ::
  "('w, 'h) host \<Rightarrow> ('w, 'h) file_io \<Rightarrow> ('w, 'h) context_io \<Rightarrow> 'w \<Rightarrow> wstring \<Rightarrow> bool \<Rightarrow> dword \<Rightarrow> 'w \<times> ntstatus \<times> dword option" where
  "ResolveMaximumAllowed os io cc w physicalPath isDirectory requestedAccess =
     (if requestedAccess AND MAXIMUM_ALLOWED = 0 then (w, STATUS_SUCCESS, Some requestedAccess)
      else
        (case OpenTransientHandle os io w physicalPath MAXIMUM_ALLOWED isDirectory of
           (w1, Inl e) \<Rightarrow> (w1, nt_status os e, None)
         | (w1, Inr probe) \<Rightarrow>
             let (status, resolved) = ResolveMaximumAllowedFromHandle cc w1 probe requestedAccess in
             (CloseHandle io w1 probe, status, resolved)))"

definition CloseContextHandle :: "('w, 'h) file_io \<Rightarrow> 'w \<Rightarrow> 'h FileContext \<Rightarrow> 'w \<times> 'h FileContext" where
  "CloseContextHandle io w ctx =
     (case ctxHandle ctx of None \<Rightarrow> (w, ctx) | Some h \<Rightarrow> (CloseHandle io w h, ctx\<lparr>ctxHandle := None\<rparr>))"

definition ResolveContextMaximumAllowed ::
  "('w, 'h) file_io \<Rightarrow> ('w, 'h) context_io \<Rightarrow> 'w \<Rightarrow> 'h FileContext \<Rightarrow> 'h \<Rightarrow> dword \<Rightarrow> 'w \<times> 'h FileContext \<times> ntstatus" where
  "ResolveContextMaximumAllowed io cc w ctx handle requestedAccess =
     (let (status, resolved) = ResolveMaximumAllowedFromHandle cc w handle requestedAccess;
          ctx1 = (case resolved of None \<Rightarrow> ctx | Some acc \<Rightarrow> ctx\<lparr>ctxGrantedAccess := acc\<rparr>) in
      if \<not> NT_SUCCESS status then (let (w1, ctx2) = CloseContextHandle io w ctx1 in (w1, ctx2, status))
      else (w, ctx1, status))"

definition CleanupContextHandle :: "('w, 'h) file_io \<Rightarrow> 'w \<Rightarrow> 'h FileContext \<Rightarrow> 'w \<times> 'h FileContext \<times> ntstatus" where
  "CleanupContextHandle io w ctx =
     (let (w1, ctx1) = CloseContextHandle io w ctx in (w1, ctx1\<lparr>ctxHandleNeedsReopen := True\<rparr>, STATUS_SUCCESS))"

definition OpenContextHandleWithAccess ::
  "('w, 'h) host \<Rightarrow> ('w, 'h) file_io \<Rightarrow> 'w \<Rightarrow> 'h FileContext \<Rightarrow> dword \<Rightarrow> 'w \<times> 'h FileContext \<times> ntstatus" where
  "OpenContextHandleWithAccess os io w ctx accessMask =
     (let (w1, ctx1) = CloseContextHandle io w ctx in
      case CreateFileW io w1 (WithExtendedPrefix os (ctxActualPath ctx1)) accessMask kShareAll OPEN_EXISTING (ComputeHandleReopenFlags ctx1) of
        (w2, Inl e) \<Rightarrow> (w2, ctx1, nt_status os e)
      | (w2, Inr h) \<Rightarrow> (w2, ctx1\<lparr>ctxHandle := Some h, ctxHandleNeedsReopen := False\<rparr>, STATUS_SUCCESS))"

definition ReopenContextHandle :: "('w, 'h) host \<Rightarrow> ('w, 'h) file_io \<Rightarrow> 'w mount \<Rightarrow> 'h FileContext \<Rightarrow> 'w mount \<times> 'h FileContext \<times> ntstatus" where
  "ReopenContextHandle os io mt ctx =
     (let (w, ctx1, status) = OpenContextHandleWithAccess os io (mt_disk mt) ctx (ComputeHandleReopenAccess ctx) in
      (set_mt_disk mt w, ctx1, status))"

definition EnsureHandleReady :: "('w, 'h) host \<Rightarrow> ('w, 'h) file_io \<Rightarrow> 'w mount \<Rightarrow> 'h FileContext \<Rightarrow> 'w mount \<times> 'h FileContext \<times> ntstatus" where
  "EnsureHandleReady os io mt ctx =
     (if \<not> ctxHandleNeedsReopen ctx \<and> ctxHandle ctx \<noteq> None then (mt, ctx, STATUS_SUCCESS) else ReopenContextHandle os io mt ctx)"

section \<open>File information\<close>

definition ComposeUInt64 :: "dword \<Rightarrow> dword \<Rightarrow> uint64" where
  "ComposeUInt64 high low = push_bit 32 (ucast high) OR ucast low"

definition FileTimeToUInt64 :: "FILETIME \<Rightarrow> uint64" where
  "FileTimeToUInt64 ft = push_bit 32 (ucast (dwHighDateTime ft)) OR ucast (dwLowDateTime ft)"

text \<open>\<^verbatim>\<open>MakeIndexNumber\<close>.\<close>

definition IndexNumberOf :: "handle_info \<Rightarrow> uint64" where
  "IndexNumberOf info = push_bit 32 (ucast (handleIndexHigh info)) OR ucast (handleIndexLow info)"

definition kAllocationGranularityBytes :: uint64 where "kAllocationGranularityBytes = 4096"

definition AllocationSizeFor :: "uint64 \<Rightarrow> uint64" where
  "AllocationSizeFor fileSize =
     (fileSize + kAllocationGranularityBytes - 1) AND NOT (kAllocationGranularityBytes - 1)"

definition AllocationSizeWith :: "uint64 \<Rightarrow> uint64 \<Rightarrow> uint64" where
  "AllocationSizeWith fileSize realAllocation =
     (let rounded = AllocationSizeFor fileSize in if realAllocation > rounded then realAllocation else rounded)"

definition FillFileInfo :: "('w, 'h) host \<Rightarrow> 'w \<Rightarrow> wstring \<Rightarrow> ntstatus \<times> InternalFileInfo" where
  "FillFileInfo os w path =
     (let extendedPath = WithExtendedPrefix os path in
      case GetFileAttributesExW os w extendedPath of
        Inl e \<Rightarrow> (nt_status os e, zero_info)
      | Inr attrData \<Rightarrow>
          let fileSize = ComposeUInt64 (nFileSizeHigh attrData) (nFileSizeLow attrData);
              tag =
                (if dataAttributes attrData AND FILE_ATTRIBUTE_REPARSE_POINT = 0 then 0
                 else (case FindFiles os w extendedPath of Inr (fd # _, _) \<Rightarrow> dwReserved0 fd | _ \<Rightarrow> 0)) in
          (STATUS_SUCCESS,
           \<lparr>fiAttributes = dataAttributes attrData, fiReparseTag = tag, fiAllocationSize = AllocationSizeFor fileSize,
            fiFileSize = fileSize, fiCreationTime = FileTimeToUInt64 (creationTime (dataTimes attrData)),
            fiLastAccessTime = FileTimeToUInt64 (accessTime (dataTimes attrData)),
            fiLastWriteTime = FileTimeToUInt64 (writeTime (dataTimes attrData)),
            fiChangeTime = FileTimeToUInt64 (writeTime (dataTimes attrData)),
            fiIndexNumber = 0, fiHardLinks = 0, fiEaSize = 0\<rparr>))"

definition SizesOf :: "('w, 'h) host \<Rightarrow> 'w \<Rightarrow> ResolvedPath \<Rightarrow> uint64 \<times> uint64" where
  "SizesOf os w hit =
     (if \<not> Found hit then (0, 0)
      else
        let (status, info) = FillFileInfo os w (absolutePath hit) in
        if \<not> NT_SUCCESS status then (0, 0) else (fiFileSize info, fiAllocationSize info))"

definition IsAtOrBelow :: "('w, 'h) host \<Rightarrow> wstring \<Rightarrow> wstring \<Rightarrow> bool" where
  "IsAtOrBelow os path root \<longleftrightarrow>
     \<not> (root = [] \<or> length path < length root \<or> \<not> ordinal_eq os (take (length root) path) root) \<and>
     (length path = length root \<or> last root = bslash \<or> path ! length root = bslash)"

definition FinalPathOf :: "('w, 'h) host \<Rightarrow> 'w \<Rightarrow> 'h \<Rightarrow> wstring \<Rightarrow> wstring \<Rightarrow> wstring" where
  "FinalPathOf os w handle upper upperFinal =
     (let path = FinalPathNameOf os w handle in
      if path = [] then []
      else if IsAtOrBelow os path upperFinal
      then
        let below = dropWhile (\<lambda>c. c = bslash) (drop (length upperFinal) path) in
        if below = [] then upper else JoinDirPath upper below
      else if starts_with upper [bslash, bslash, 63, bslash] then path
      else WithoutExtendedPrefix path)"

definition RecordPathOf :: "('w, 'h) host \<Rightarrow> 'w \<Rightarrow> 'h \<Rightarrow> dword \<Rightarrow> wstring \<Rightarrow> bool \<Rightarrow> wstring \<Rightarrow> wstring \<Rightarrow> wstring" where
  "RecordPathOf os w handle handleAttributes pathHint pathHintIsReparsePoint upper upperFinal =
     (if handleAttributes AND FILE_ATTRIBUTE_REPARSE_POINT \<noteq> 0 \<or> \<not> pathHintIsReparsePoint then pathHint
      else FinalPathOf os w handle upper upperFinal)"

definition FillFileInfoFromHandle ::
  "('w, 'h) host \<Rightarrow> ('w, 'h) context_io \<Rightarrow> LayerConfig \<Rightarrow> 'w mount \<Rightarrow> 'h option \<Rightarrow> wstring option \<Rightarrow> bool \<Rightarrow> ntstatus \<times> InternalFileInfo" where
  "FillFileInfoFromHandle os cc cfg mt handle pathHint pathHintIsReparsePoint =
     (let w = mt_disk mt in
      case handle_query handle (\<lambda>h. map_sum id (Pair h) (HandleInfo cc w h)) of
        Inl e \<Rightarrow> (nt_status os e, zero_info)
      | Inr (h, info) \<Rightarrow>
          let fileSize = ComposeUInt64 (nFileSizeHigh info) (nFileSizeLow info);
              realAllocation = (case StandardAllocation cc w h of None \<Rightarrow> 0 | Some a \<Rightarrow> a);
              recordPath =
                (case pathHint of
                   None \<Rightarrow> []
                 | Some hint \<Rightarrow>
                     if hint = [] then []
                     else RecordPathOf os w h (dataAttributes info) hint pathHintIsReparsePoint (upperPath cfg) (upperFinalPath mt));
              metadata = (if recordPath = [] then default_metadata else ReadLayerMountMetadata os w recordPath (Some cfg));
              tag =
                (if dataAttributes info AND FILE_ATTRIBUTE_REPARSE_POINT = 0 then 0
                 else (case FileAttributeTagInfo os w h of Inl e \<Rightarrow> 0 | Inr t \<Rightarrow> t)) in
          (STATUS_SUCCESS,
           \<lparr>fiAttributes = dataAttributes info, fiReparseTag = tag, fiAllocationSize = AllocationSizeWith fileSize realAllocation,
            fiFileSize = fileSize, fiCreationTime = FileTimeToUInt64 (creationTime (dataTimes info)),
            fiLastAccessTime = FileTimeToUInt64 (accessTime (dataTimes info)),
            fiLastWriteTime = FileTimeToUInt64 (writeTime (dataTimes info)),
            fiChangeTime = FileTimeToUInt64 (writeTime (dataTimes info)),
            fiIndexNumber = (if hasStableIndexNumber metadata then stableIndexNumber metadata else IndexNumberOf info),
            fiHardLinks = 0, fiEaSize = 0\<rparr>))"

text \<open>The information about a context that an operation gives at its end, when the caller asks for it.\<close>

definition context_info ::
  "('w, 'h) host \<Rightarrow> ('w, 'h) context_io \<Rightarrow> LayerConfig \<Rightarrow> 'w mount \<Rightarrow> 'h FileContext \<Rightarrow> bool \<Rightarrow> ntstatus \<times> InternalFileInfo option" where
  "context_info os cc cfg mt ctx wanted =
     (if wanted
      then
        let (status, info) = FillFileInfoFromHandle os cc cfg mt (ctxHandle ctx) (Some (ctxActualPath ctx)) (ctxEntryIsReparsePoint ctx) in
        (status, Some info)
      else (STATUS_SUCCESS, None))"

definition GetVolumeInfo ::
  "('w, 'h) host \<Rightarrow> ('w, 'h) context_io \<Rightarrow> LayerConfig \<Rightarrow> 'w \<Rightarrow> ntstatus \<times> (uint64 \<times> uint64) option" where
  "GetVolumeInfo os cc cfg w =
     (case GetDiskFreeSpaceExW cc w (ForWin32 os (upperPath cfg)) of
        Inl e \<Rightarrow> (nt_status os e, None)
      | Inr (freeAvail, totalSize, totalFree) \<Rightarrow> (STATUS_SUCCESS, Some (totalSize, totalFree)))"

section \<open>Metacopy shells\<close>

definition FillShell ::
  "('w, 'h) host \<Rightarrow> ('w, 'h) file_io \<Rightarrow> nat \<Rightarrow> LayerConfig \<Rightarrow> 'w mount \<Rightarrow> wstring \<Rightarrow> 'h FileContext \<Rightarrow> ('w mount \<times> 'h FileContext \<times> ntstatus) run" where
  "FillShell os io n cfg mt host_path ctx =
     and_then (on_copy_up mt (CompleteLazyCopyUp os io n cfg (lmState (mtLayer mt)) host_path))
       (\<lambda>(mt1, status).
          if \<not> NT_SUCCESS status then Finished (mt1, ctx, status)
          else Finished (mt1, ctx\<lparr>ctxIsMetacopyOnly := False\<rparr>, STATUS_SUCCESS))"

definition ReadMetacopyFlag :: "('w, 'h) host \<Rightarrow> LayerConfig \<Rightarrow> 'w mount \<Rightarrow> wstring \<Rightarrow> 'h FileContext \<Rightarrow> 'h FileContext" where
  "ReadMetacopyFlag os cfg mt host_path ctx =
     (if ctxStreamSuffix ctx = []
      then ctx\<lparr>ctxIsMetacopyOnly := metacopy (ReadLayerMountMetadata os (mt_disk mt) (GetUpperPath os cfg host_path) (Some cfg))\<rparr>
      else ctx)"

definition FillShellForDataAccess ::
  "('w, 'h) host \<Rightarrow> ('w, 'h) file_io \<Rightarrow> nat \<Rightarrow> LayerConfig \<Rightarrow> 'w mount \<Rightarrow> wstring \<Rightarrow> 'h FileContext \<Rightarrow> ('w mount \<times> 'h FileContext \<times> ntstatus) run" where
  "FillShellForDataAccess os io n cfg mt host_path ctx =
     (if ctxIsMetacopyOnly ctx \<and> \<not> ctxIsDirectory ctx \<and> HasFileDataAccess (ctxGrantedAccess ctx)
      then FillShell os io n cfg mt host_path ctx
      else Finished (mt, ctx, STATUS_SUCCESS))"

definition EnsureMetacopyMaterialized ::
  "('w, 'h) host \<Rightarrow> ('w, 'h) file_io \<Rightarrow> nat \<Rightarrow> LayerConfig \<Rightarrow> 'w mount \<Rightarrow> 'h FileContext \<Rightarrow> ('w mount \<times> 'h FileContext \<times> ntstatus) run" where
  "EnsureMetacopyMaterialized os io n cfg mt ctx =
     (if \<not> ctxIsMetacopyOnly ctx then Finished (mt, ctx, STATUS_SUCCESS)
      else if_ok (FillShell os io n cfg mt (ctxRelativePath ctx) ctx) (\<lambda>mt1 ctx1. Finished (ReopenContextHandle os io mt1 ctx1)))"

section \<open>The move to the upper layer\<close>

definition kShellOnlyAboveBytes :: int where "kShellOnlyAboveBytes = 1 * 1024 * 1024"

text \<open>A shell at any size is the absent limit \<^verbatim>\<open>kShellAtAnySize\<close>.\<close>

definition CopyUpForHandle ::
  "('w, 'h) host \<Rightarrow> ('w, 'h) file_io \<Rightarrow> nat \<Rightarrow> LayerConfig \<Rightarrow> clocks \<Rightarrow> 'w mount \<Rightarrow> wstring \<Rightarrow> 'h FileContext \<Rightarrow> int option \<Rightarrow>
     ('w mount \<times> 'h FileContext \<times> ntstatus) run" where
  "CopyUpForHandle os io n cfg clk mt host_path ctx shellOnlyAboveBytes =
     (let st = lmState (mtLayer mt); now = cacheClock clk in
      if ctxIsDirectory ctx
      then and_then (on_copy_up mt (CopyUpDirectory os io now n cfg st host_path)) (\<lambda>(mt1, status). Finished (mt1, ctx, status))
      else if ctxStreamSuffix ctx \<noteq> []
      then and_then (on_copy_up mt (CopyUpFile os io now n cfg st host_path)) (\<lambda>(mt1, status). Finished (mt1, ctx, status))
      else
        and_then (on_copy_up mt (CopyUpFileOrShell os io now n cfg st host_path shellOnlyAboveBytes))
          (\<lambda>(mt1, copied).
             Finished (mt1, if stagedShell copied then ctx\<lparr>ctxIsMetacopyOnly := True\<rparr> else ctx, copyUpStatus copied)))"

text \<open>\<^verbatim>\<open>EnsureInUpperLayer\<close> for a context.\<close>

definition EnsureContextInUpperLayer ::
  "('w, 'h) host \<Rightarrow> ('w, 'h) file_io \<Rightarrow> nat \<Rightarrow> LayerConfig \<Rightarrow> clocks \<Rightarrow> 'w mount \<Rightarrow> wstring \<Rightarrow> 'h FileContext \<Rightarrow>
     ('w mount \<times> 'h FileContext \<times> ntstatus) run" where
  "EnsureContextInUpperLayer os io n cfg clk mt relativePath ctx =
     (if ctxWritable ctx \<and> ctxHandle ctx \<noteq> None \<and> \<not> ctxHandleNeedsReopen ctx then Finished (mt, ctx, STATUS_SUCCESS)
      else
        let normalized = NormalizePath os relativePath;
            upperFullPath = GetUpperPath os cfg normalized @ ctxStreamSuffix ctx;
            reopen =
              (\<lambda>mt1 ctx1.
                 Finished (ReopenContextHandle os io mt1 (ctx1\<lparr>ctxActualPath := upperFullPath, ctxWritable := True\<rparr>))) in
        if ExistsInUpper os (mt_disk mt) cfg normalized
        then
          if ordinal_eq os (ctxActualPath ctx) upperFullPath then Finished (mt, ctx, STATUS_SUCCESS)
          else if_ok (FillShellForDataAccess os io n cfg mt normalized (ReadMetacopyFlag os cfg mt normalized ctx)) reopen
        else
          if_ok (CopyUpForHandle os io n cfg clk mt normalized ctx None)
            (\<lambda>mt1 ctx1. if_ok (FillShellForDataAccess os io n cfg mt1 normalized ctx1) reopen))"

section \<open>The disk in memory\<close>

definition mem_context_io :: "(mem_disk, wstring) context_io" where
  "mem_context_io =
     (let t = \<lparr>dwLowDateTime = 0, dwHighDateTime = 0\<rparr> in
      \<lparr>HandleInfo =
         mem_get (\<lambda>m. \<lparr>dataAttributes = nodeAttributes m, dataTimes = \<lparr>creationTime = t, accessTime = t, writeTime = t\<rparr>, nFileSizeHigh = 0,
           nFileSizeLow = of_nat (length (nodeData m)), handleIndexHigh = 0, handleIndexLow = 7\<rparr>),
       StandardAllocation = (\<lambda>w h. None),
       QueryGrantedAccess = Some (\<lambda>w h. (STATUS_SUCCESS, FILE_ALL_ACCESS)),
       ReadAt = (\<lambda>w h p sz. mem_get (\<lambda>m. take sz (drop (unat p) (nodeData m))) w h),
       WriteAt =
         (\<lambda>w h p bs.
            (case mem_update (\<lambda>m. m\<lparr>nodeData := overwrite (nodeData m) (unat p) bs\<rparr>) w h of
               (w1, None) \<Rightarrow> (w1, Inr (length bs)) | (w1, Some e) \<Rightarrow> (w1, Inl e))),
       FlushFileBuffers = (\<lambda>w h. (w, None)),
       FindStreams = (\<lambda>w p. Inl ERROR_HANDLE_EOF),
       SetAttributesByPath = (\<lambda>w p a. mem_update (nodeAttributes_update (\<lambda>_. a)) w (mem_key p)),
       SetEndOfFileInfo = (\<lambda>w h sz. mem_update (\<lambda>m. m\<lparr>nodeData := padded_to (nat sz) (nodeData m)\<rparr>) w h),
       SetAllocationInfo = (\<lambda>w h sz. (w, None)),
       SetFileTimes = (\<lambda>w h c a m. (w, None)),
       SetKernelObjectSecurity = (\<lambda>w h info sd. (w, None)),
       GetSecurityDescriptorOwner = (\<lambda>sd. None), GetSecurityDescriptorGroup = (\<lambda>sd. None),
       ConvertSddl = (\<lambda>s. Inr (map ucast s)),
       FsctlDeleteReparsePoint = (\<lambda>w h bs. mem_update (nodeReparse_update (\<lambda>_. [])) w h),
       GetDiskFreeSpaceExW = (\<lambda>w p. Inr (0, 0, 0))\<rparr>)"

end
