(* ===== verification/File_Open.thy ===== *)
theory File_Open
  imports File_Context
begin

text \<open>
  Opens and creates (\<^verbatim>\<open>impl/LayerMount.cpp\<close>): the open of an entry or of the root, the create of a file, a
  directory or a stream in the upper layer with the undo of a create that fails, and the close of a
  context. An output that a failed call leaves as it was is \<open>None\<close>. A security descriptor is its bytes, or
  \<open>None\<close> for a null pointer.
\<close>

section \<open>Open\<close>

text \<open>The end of an open: the file information, the close of the handle when it fails, and the count.\<close>

definition finish_open ::
  "('w, 'h) host \<Rightarrow> ('w, 'h) file_io \<Rightarrow> ('w, 'h) context_io \<Rightarrow> LayerConfig \<Rightarrow> 'w mount \<Rightarrow> 'h FileContext \<Rightarrow>
     'w mount \<times> 'h FileContext option \<times> ntstatus \<times> InternalFileInfo option" where
  "finish_open os io cc cfg mt ctx =
     (let (status, info) = FillFileInfoFromHandle os cc cfg mt (ctxHandle ctx) (Some (ctxActualPath ctx)) (ctxEntryIsReparsePoint ctx) in
      if \<not> NT_SUCCESS status
      then (set_mt_disk mt (fst (CloseContextHandle io (mt_disk mt) ctx)), None, status, Some info)
      else (mt\<lparr>activeHandles := activeHandles mt + 1\<rparr>, Some ctx, STATUS_SUCCESS, Some info))"

definition OpenRoot ::
  "('w, 'h) host \<Rightarrow> ('w, 'h) file_io \<Rightarrow> ('w, 'h) context_io \<Rightarrow> LayerConfig \<Rightarrow> 'w mount \<Rightarrow> dword \<Rightarrow> dword \<Rightarrow> dword \<Rightarrow>
     'w mount \<times> 'h FileContext option \<times> ntstatus \<times> InternalFileInfo option" where
  "OpenRoot os io cc cfg mt grantedAccess createOptions callerPid =
     (let ctx = new_FileContext\<lparr>ctxActualPath := upperPath cfg, ctxIsDirectory := True, ctxWritable := True, ctxOwnerPid := callerPid,
            ctxCreateOptions := createOptions\<rparr> in
      case CreateFileW io (mt_disk mt) (ForWin32 os (upperPath cfg)) (ComputePhysicalHandleAccess grantedAccess) kShareAll OPEN_EXISTING
             FILE_FLAG_BACKUP_SEMANTICS of
        (w1, Inl e) \<Rightarrow> (set_mt_disk mt w1, None, nt_status os e, None)
      | (w1, Inr h) \<Rightarrow>
          let (w2, ctx1, resolveStatus) = ResolveContextMaximumAllowed io cc w1 (ctx\<lparr>ctxHandle := Some h\<rparr>) h grantedAccess;
              mt2 = set_mt_disk mt w2 in
          if \<not> NT_SUCCESS resolveStatus then (mt2, None, resolveStatus, None) else finish_open os io cc cfg mt2 ctx1)"

definition SetOpenPath ::
  "('w, 'h) host \<Rightarrow> ('w, 'h) file_io \<Rightarrow> nat \<Rightarrow> LayerConfig \<Rightarrow> clocks \<Rightarrow> 'w mount \<Rightarrow> wstring \<Rightarrow> ResolvedPath \<Rightarrow> 'h FileContext \<Rightarrow>
     ('w mount \<times> 'h FileContext \<times> ntstatus) run" where
  "SetOpenPath os io n cfg clk mt host_path hit ctx =
     (if source hit = Lower \<and> HasWriteAccess (ctxGrantedAccess ctx)
      then
        if_ok (CopyUpForHandle os io n cfg clk mt host_path ctx (Some kShellOnlyAboveBytes))
          (\<lambda>mt1 ctx1.
             Finished (mt1, ctx1\<lparr>ctxActualPath := GetUpperPath os cfg host_path @ ctxStreamSuffix ctx1, ctxWritable := True\<rparr>, STATUS_SUCCESS))
      else
        Finished (mt, ctx\<lparr>ctxActualPath := absolutePath hit @ ctxStreamSuffix ctx, ctxWritable := (source hit = Upper)\<rparr>,
          STATUS_SUCCESS))"

text \<open>The part of an open after the checks; a failed step gives no context.\<close>

definition open_resolved ::
  "('w, 'h) host \<Rightarrow> ('w, 'h) file_io \<Rightarrow> ('w, 'h) context_io \<Rightarrow> nat \<Rightarrow> LayerConfig \<Rightarrow> clocks \<Rightarrow> 'w mount \<Rightarrow> wstring \<Rightarrow> ResolvedPath \<Rightarrow>
     'h FileContext \<Rightarrow> ('w mount \<times> 'h FileContext option \<times> ntstatus \<times> InternalFileInfo option) run" where
  "open_resolved os io cc n cfg clk mt host_path hit ctx =
     and_then
       (if_ok (SetOpenPath os io n cfg clk mt host_path hit ctx)
         (\<lambda>mt1 ctx1.
            if_ok
              (FillShellForDataAccess os io n cfg mt1 host_path
                (if source hit = Upper then ReadMetacopyFlag os cfg mt1 host_path ctx1 else ctx1))
              (\<lambda>mt2 ctx2.
                 let (w3, ctx3, status) =
                       OpenContextHandleWithAccess os io (mt_disk mt2) ctx2 (ComputePhysicalHandleAccess (ctxGrantedAccess ctx2)) in
                 Finished (set_mt_disk mt2 w3, ctx3, status))))
       (\<lambda>(mt3, ctx3, status).
          if \<not> NT_SUCCESS status then Finished (mt3, None, status, None) else Finished (finish_open os io cc cfg mt3 ctx3))"

text \<open>The null checks of the two outputs are \<open>hasOutputs\<close>.\<close>

definition LayerMount_Open ::
  "('w, 'h) host \<Rightarrow> ('w, 'h) file_io \<Rightarrow> ('w, 'h) context_io \<Rightarrow> ('p, 's) process_calls \<Rightarrow> nat \<Rightarrow> LayerConfig \<Rightarrow> clocks \<Rightarrow> 'w mount \<Rightarrow>
     wstring \<Rightarrow> dword \<Rightarrow> dword \<Rightarrow> dword \<Rightarrow> bool \<Rightarrow> ('w mount \<times> 'h FileContext option \<times> ntstatus \<times> InternalFileInfo option) run" where
  "LayerMount_Open os io cc pc n cfg clk mt relativePath grantedAccess createOptions callerPid hasOutputs =
     (if \<not> hasOutputs then Finished (mt, None, STATUS_INVALID_PARAMETER, None)
      else
        let (mt1, walkStatus, view) = mt_walk os cfg clk mt relativePath (FinalLinkFor createOptions);
            normalized = viewNormalized view in
        if \<not> NT_SUCCESS walkStatus then Finished (mt1, None, walkStatus, None)
        else
          (case (if normalized = [] then Some ([], []) else TryParseStreamPath os normalized) of
             None \<Rightarrow> Finished (mt1, None, STATUS_OBJECT_NAME_INVALID, None)
           | Some (host_path, suffix) \<Rightarrow>
               let (mt2, allow) = mt_allows os pc clk mt1 callerPid host_path (if HasWriteAccess grantedAccess then OpWrite else OpOpen) in
               if \<not> allow then Finished (mt2, None, STATUS_ACCESS_DENIED, None)
               else if normalized = [] then Finished (OpenRoot os io cc cfg mt2 grantedAccess createOptions callerPid)
               else
                 let (mt3, resolved) = mt_lookup os cfg clk mt2 host_path;
                     hostIsDirectory = (attributes resolved AND FILE_ATTRIBUTE_DIRECTORY \<noteq> 0) in
                 if \<not> Found resolved then Finished (mt3, None, STATUS_OBJECT_NAME_NOT_FOUND, None)
                 else if suffix \<noteq> [] \<and> hostIsDirectory then Finished (mt3, None, STATUS_FILE_IS_A_DIRECTORY, None)
                 else
                   (case ResolveMaximumAllowed os io cc (mt_disk mt3) (absolutePath resolved) hostIsDirectory grantedAccess of
                      (w4, resolveStatus, resolvedAccess) \<Rightarrow>
                        let mt4 = set_mt_disk mt3 w4 in
                        if \<not> NT_SUCCESS resolveStatus then Finished (mt4, None, resolveStatus, None)
                        else
                          open_resolved os io cc n cfg clk mt4 host_path resolved
                            (new_FileContext\<lparr>ctxRelativePath := host_path, ctxStreamSuffix := suffix, ctxIsDirectory := hostIsDirectory,
                               ctxEntryIsReparsePoint := (attributes resolved AND FILE_ATTRIBUTE_REPARSE_POINT \<noteq> 0),
                               ctxOwnerPid := callerPid,
                               ctxGrantedAccess := (case resolvedAccess of None \<Rightarrow> 0 | Some acc \<Rightarrow> acc),
                               ctxCreateOptions := createOptions\<rparr>))))"

section \<open>Security of a new object\<close>

definition SecurityInformationCarriedBy :: "('w, 'h) file_io \<Rightarrow> ('w, 'h) context_io \<Rightarrow> byte list option \<Rightarrow> dword" where
  "SecurityInformationCarriedBy io cc sd =
     (case sd of
        None \<Rightarrow> 0
      | Some d \<Rightarrow>
          (if GetSecurityDescriptorOwner cc d \<noteq> None then OWNER_SECURITY_INFORMATION else 0) OR
          (if GetSecurityDescriptorGroup cc d \<noteq> None then GROUP_SECURITY_INFORMATION else 0) OR
          (if GetSecurityDescriptorDacl io d \<noteq> None then DACL_SECURITY_INFORMATION else 0) OR
          (if GetSecurityDescriptorSacl io d \<noteq> None then SACL_SECURITY_INFORMATION else 0))"

definition WriteSecurityToNewObject ::
  "('w, 'h) host \<Rightarrow> ('w, 'h) file_io \<Rightarrow> ('w, 'h) context_io \<Rightarrow> 'w \<Rightarrow> wstring \<Rightarrow> byte list option \<Rightarrow> 'w \<times> ntstatus" where
  "WriteSecurityToNewObject os io cc w path sd =
     (let toWrite = DropSaclWithoutPrivilege io (SecurityInformationCarriedBy io cc sd);
          acc = READ_CONTROL OR WRITE_DAC OR WRITE_OWNER OR
            (if toWrite AND SACL_SECURITY_INFORMATION \<noteq> 0 then ACCESS_SYSTEM_SECURITY else 0) in
      if toWrite = 0 then (w, STATUS_SUCCESS)
      else
        (case CreateFileW io w (WithExtendedPrefix os path) acc kShareAll OPEN_EXISTING FILE_FLAG_BACKUP_SEMANTICS of
           (w1, Inl e) \<Rightarrow> (w1, nt_status os e)
         | (w1, Inr securityHandle) \<Rightarrow>
             let (w2, err) = SetKernelObjectSecurity cc w1 securityHandle toWrite (the sd) in
             (CloseHandle io w2 securityHandle, case err of None \<Rightarrow> STATUS_SUCCESS | Some e \<Rightarrow> nt_status os e)))"

text \<open>\<^verbatim>\<open>SecurityPolicy::DescriptorForCreate\<close>.\<close>

definition DescriptorForCreate :: "LayerConfig \<Rightarrow> byte list option \<Rightarrow> byte list option" where
  "DescriptorForCreate cfg requested = (if HasNtfsAcls (hostCapabilities cfg) then requested else None)"

section \<open>The undo of a create\<close>

text \<open>The error of the call that failed, or none when the file is gone.\<close>

definition DeleteCreatedFile :: "('w, 'h) host \<Rightarrow> ('w, 'h) context_io \<Rightarrow> 'w \<Rightarrow> wstring \<Rightarrow> 'w \<times> dword option" where
  "DeleteCreatedFile os cc w path =
     (let extendedPath = WithExtendedPrefix os path in
      case DeleteFileW os w extendedPath of
        (w1, None) \<Rightarrow> (w1, None)
      | (w1, Some e) \<Rightarrow>
          if e \<noteq> ERROR_ACCESS_DENIED then (w1, Some e)
          else
            (case GetFileAttributesW os w1 extendedPath of
               Inl _ \<Rightarrow> (w1, Some ERROR_ACCESS_DENIED)
             | Inr attrs \<Rightarrow>
                 if attrs AND FILE_ATTRIBUTE_READONLY = 0 then (w1, Some ERROR_ACCESS_DENIED)
                 else
                   (case SetAttributesByPath cc w1 extendedPath (attrs AND NOT FILE_ATTRIBUTE_READONLY) of
                      (w2, Some e2) \<Rightarrow> (w2, Some e2)
                    | (w2, None) \<Rightarrow> DeleteFileW os w2 extendedPath)))"

definition HresultOfFailedCall :: "dword \<Rightarrow> 32 word" where
  "HresultOfFailedCall err = (if err = ERROR_SUCCESS then E_FAIL else HRESULT_FROM_WIN32 err)"

definition warn_create :: "'w mount \<Rightarrow> 32 word \<Rightarrow> wstring \<Rightarrow> wstring \<Rightarrow> 'w mount" where
  "warn_create mt hr path message = set_mt_engine mt (Emit (mt_engine mt) LM_EVT_WARNING hr path message)"

text \<open>One step of the destructor of a \<^verbatim>\<open>FileRollback\<close>.\<close>

definition undo_new_file :: "('w, 'h) host \<Rightarrow> ('w, 'h) context_io \<Rightarrow> 'w mount \<Rightarrow> wstring \<Rightarrow> wstring \<Rightarrow> wstring \<Rightarrow> 'w mount" where
  "undo_new_file os cc mt path relativePath message =
     (case DeleteCreatedFile os cc (mt_disk mt) path of
        (w1, None) \<Rightarrow> set_mt_disk mt w1
      | (w1, Some e) \<Rightarrow> warn_create (set_mt_disk mt w1) (HresultOfFailedCall e) relativePath message)"

text \<open>\<^verbatim>\<open>~FileRollback\<close> while armed; \<open>createdHost\<close> is the host file that a stream create made.\<close>

definition FileRollback_destroy ::
  "('w, 'h) host \<Rightarrow> ('w, 'h) file_io \<Rightarrow> ('w, 'h) context_io \<Rightarrow> 'w mount \<Rightarrow> 'h FileContext \<Rightarrow> wstring option \<Rightarrow> 'w mount \<times> 'h FileContext" where
  "FileRollback_destroy os io cc mt ctx createdHost =
     (let (w1, ctx1) = CloseContextHandle io (mt_disk mt) ctx;
          mt2 = undo_new_file os cc (set_mt_disk mt w1) (ctxActualPath ctx1) (ctxRelativePath ctx1)
            (wlit ''The undo of a failed create could not delete the new entry'') in
      (case createdHost of
         None \<Rightarrow> mt2
       | Some p \<Rightarrow> undo_new_file os cc mt2 p (ctxRelativePath ctx1)
           (wlit ''The undo of a failed stream create could not delete its new host file''), ctx1))"

text \<open>\<^verbatim>\<open>~DirectoryRollback\<close> while armed; \<open>opaqueDirectory\<close> is the directory whose markers it removes.\<close>

definition DirectoryRollback_destroy ::
  "('w, 'h) host \<Rightarrow> ('w, 'h) file_io \<Rightarrow> LayerConfig \<Rightarrow> 'w mount \<Rightarrow> 'h FileContext \<Rightarrow> wstring option \<Rightarrow> 'w mount \<times> 'h FileContext" where
  "DirectoryRollback_destroy os io cfg mt ctx opaqueDirectory =
     (let (w1, ctx1) = CloseContextHandle io (mt_disk mt) ctx;
          mt1 = set_mt_disk mt w1;
          mt2 =
            (case opaqueDirectory of
               None \<Rightarrow> mt1
             | Some d \<Rightarrow>
                 let (s, removed) = RemoveOpaque os cfg (mt_engine mt1) d; mt' = set_mt_engine mt1 s in
                 if removed then mt'
                 else warn_create mt' E_FAIL (ctxRelativePath ctx1)
                        (wlit ''The undo of a failed create could not remove the new directory'' @ [wquote] @ wlit ''s opaque markers'')) in
      (case RemoveDirectoryW os (mt_disk mt2) (WithExtendedPrefix os (ctxActualPath ctx1)) of
         (w3, None) \<Rightarrow> (set_mt_disk mt2 w3, ctx1)
       | (w3, Some e) \<Rightarrow>
           (warn_create (set_mt_disk mt2 w3) (HresultOfFailedCall e) (ctxRelativePath ctx1)
              (wlit ''The undo of a failed create could not remove the new directory''), ctx1)))"

section \<open>Create\<close>

definition IsDirectoryHit :: "ResolvedPath \<Rightarrow> bool" where
  "IsDirectoryHit hit \<longleftrightarrow> Found hit \<and> attributes hit AND FILE_ATTRIBUTE_DIRECTORY \<noteq> 0"

record CreateRequest =
  requestPath :: wstring
  requestOptions :: dword
  requestAccess :: dword
  requestAttributes :: dword
  requestDescriptor :: "byte list option"
  requestAllocation :: uint64
  requestPid :: dword

definition IsDirectoryCreate :: "CreateRequest \<Rightarrow> bool" where
  "IsDirectoryCreate request \<longleftrightarrow> requestOptions request AND FILE_DIRECTORY_FILE \<noteq> 0"

record UpperCreate =
  createPath :: StreamPath
  createResolution :: CreateResolution
  createUpperPath :: wstring
  createAccess :: dword
  createAttributes :: dword
  createDescriptor :: "byte list option"
  createAllocation :: uint64

definition CheckCreatePreconditions ::
  "('w, 'h) host \<Rightarrow> ('p, 's) process_calls \<Rightarrow> LayerConfig \<Rightarrow> clocks \<Rightarrow> 'w mount \<Rightarrow> CreateRequest \<Rightarrow> StreamPath \<Rightarrow>
     'w mount \<times> ntstatus \<times> CreateResolution option" where
  "CheckCreatePreconditions os pc cfg clk mt request path =
     (if IsReservedOverlayPath os (mt_disk mt) cfg (hostNorm path) then (mt, STATUS_ACCESS_DENIED, None)
      else
        let (mt1, allow) = mt_allows os pc clk mt (requestPid request) (hostNorm path) OpCreate in
        if \<not> allow then (mt1, STATUS_ACCESS_DENIED, None)
        else if IsDirectoryCreate request \<and> streamSuffix path \<noteq> [] then (mt1, STATUS_FILE_IS_A_DIRECTORY, None)
        else
          (case ResolveForCreate os (mt_disk mt1) cfg (cacheClock clk) (engineCache (mt_engine mt1)) (hostNorm path) of
             (c2, resolution) \<Rightarrow>
               let mt2 = mt1\<lparr>mtLayer := set_cache (mtLayer mt1) c2\<rparr>; hit = overlayHit resolution in
               if streamSuffix path = []
               then (mt2, if Found hit then STATUS_OBJECT_NAME_COLLISION else STATUS_SUCCESS, Some resolution)
               else
                 let upperAttrs = GetFileAttributesW os (mt_disk mt2) (WithExtendedPrefix os (GetUpperPath os cfg (hostNorm path)));
                     upperIsDirectory = (case upperAttrs of Inl e \<Rightarrow> False | Inr a \<Rightarrow> a AND FILE_ATTRIBUTE_DIRECTORY \<noteq> 0) in
                 (mt2, if upperIsDirectory \<or> IsDirectoryHit hit then STATUS_FILE_IS_A_DIRECTORY
                       else if Found hit \<and> StreamExists os (mt_disk mt2) (absolutePath hit) (streamSuffix path)
                       then STATUS_OBJECT_NAME_COLLISION
                       else STATUS_SUCCESS, Some resolution)))"

definition BuildCreate ::
  "LayerConfig \<Rightarrow> CreateRequest \<Rightarrow> StreamPath \<Rightarrow> CreateResolution \<Rightarrow> wstring \<Rightarrow> UpperCreate \<times> 'h FileContext" where
  "BuildCreate cfg request path resolution upperFull =
     (\<lparr>createPath = path, createResolution = resolution, createUpperPath = upperFull, createAccess = requestAccess request,
       createAttributes = requestAttributes request, createDescriptor = DescriptorForCreate cfg (requestDescriptor request),
       createAllocation = requestAllocation request\<rparr>,
      new_FileContext\<lparr>ctxRelativePath := hostNorm path, ctxStreamSuffix := streamSuffix path,
        ctxActualPath := upperFull @ callerStreamSuffix path, ctxIsDirectory := IsDirectoryCreate request, ctxWritable := True,
        ctxOwnerPid := requestPid request, ctxCreateOptions := requestOptions request\<rparr>)"

definition FinishCreatedEntry ::
  "('w, 'h) host \<Rightarrow> ('w, 'h) context_io \<Rightarrow> LayerConfig \<Rightarrow> 'w mount \<Rightarrow> UpperCreate \<Rightarrow> 'h FileContext \<Rightarrow>
     'w mount \<times> ntstatus \<times> InternalFileInfo" where
  "FinishCreatedEntry os cc cfg mt create ctx =
     (let (infoStatus, info) = FillFileInfoFromHandle os cc cfg mt (ctxHandle ctx) (Some (ctxActualPath ctx)) (ctxEntryIsReparsePoint ctx) in
      if \<not> NT_SUCCESS infoStatus then (mt, infoStatus, info)
      else if \<not> whiteoutAtPath (createResolution create) then (mt, STATUS_SUCCESS, info)
      else let (s, status) = RemoveWhiteout os cfg (mt_engine mt) (hostNorm (createPath create)) in (set_mt_engine mt s, status, info))"

definition CreateDirectoryInUpper ::
  "('w, 'h) host \<Rightarrow> ('w, 'h) file_io \<Rightarrow> ('w, 'h) context_io \<Rightarrow> LayerConfig \<Rightarrow> 'w mount \<Rightarrow> UpperCreate \<Rightarrow> 'h FileContext \<Rightarrow>
     'w mount \<times> 'h FileContext \<times> ntstatus \<times> InternalFileInfo option" where
  "CreateDirectoryInUpper os io cc cfg mt create ctx =
     (let extendedUpperPath = WithExtendedPrefix os (createUpperPath create); host_path = hostNorm (createPath create);
          hidesLower = IsDirectoryHit (lower (createResolution create));
          undo = (\<lambda>mt' ctx' status info.
            let (mt'', ctx'') = DirectoryRollback_destroy os io cfg mt' ctx' (if hidesLower then Some host_path else None) in
            (mt'', ctx'', status, info)) in
      case CreateDirectoryW os (mt_disk mt) extendedUpperPath of
        (w1, Some e) \<Rightarrow> (set_mt_disk mt w1, ctx, nt_status os e, None)
      | (w1, None) \<Rightarrow>
          let mt1 = set_mt_disk mt w1;
              (s2, opaqueStatus) =
                (if hidesLower then SetOpaque os cfg (mt_engine mt1) host_path else (mt_engine mt1, STATUS_SUCCESS));
              mt2 = set_mt_engine mt1 s2 in
          if \<not> NT_SUCCESS opaqueStatus then undo mt2 ctx opaqueStatus None
          else
            let (w3, sdStatus) = WriteSecurityToNewObject os io cc (mt_disk mt2) (createUpperPath create) (createDescriptor create);
                mt3 = set_mt_disk mt2 w3 in
            if \<not> NT_SUCCESS sdStatus then undo mt3 ctx sdStatus None
            else
              (case CreateFileW io (mt_disk mt3) extendedUpperPath (ComputePhysicalHandleAccess (createAccess create)) kShareAll OPEN_EXISTING
                      FILE_FLAG_BACKUP_SEMANTICS of
                 (w4, Inl e) \<Rightarrow> undo (set_mt_disk mt3 w4) ctx (nt_status os e) None
               | (w4, Inr h) \<Rightarrow>
                   let (w5, ctx5, resolveStatus) =
                         ResolveContextMaximumAllowed io cc w4 (ctx\<lparr>ctxHandle := Some h\<rparr>) h (createAccess create);
                       mt5 = set_mt_disk mt3 w5 in
                   if \<not> NT_SUCCESS resolveStatus then undo mt5 ctx5 resolveStatus None
                   else
                     let (mt6, finishStatus, info) = FinishCreatedEntry os cc cfg mt5 create ctx5 in
                     if \<not> NT_SUCCESS finishStatus then undo mt6 ctx5 finishStatus (Some info)
                     else (mt6, ctx5, STATUS_SUCCESS, Some info)))"

definition ApplyNewHostFileSettings ::
  "('w, 'h) host \<Rightarrow> ('w, 'h) file_io \<Rightarrow> ('w, 'h) context_io \<Rightarrow> 'w \<Rightarrow> UpperCreate \<Rightarrow> 'h \<Rightarrow> 'w \<times> ntstatus" where
  "ApplyNewHostFileSettings os io cc w create handle =
     (case WriteSecurityToNewObject os io cc w (createUpperPath create) (createDescriptor create) of
        (w1, sdStatus) \<Rightarrow>
          if \<not> NT_SUCCESS sdStatus then (w1, sdStatus)
          else if createAllocation create > 0
          then
            (case SetAllocationInfo cc w1 handle (sint (createAllocation create)) of
               (w2, Some e) \<Rightarrow> (w2, nt_status os e) | (w2, None) \<Rightarrow> (w2, STATUS_SUCCESS))
          else (w1, STATUS_SUCCESS))"

definition PrepareStreamHost ::
  "('w, 'h) host \<Rightarrow> ('w, 'h) file_io \<Rightarrow> nat \<Rightarrow> LayerConfig \<Rightarrow> clocks \<Rightarrow> 'w mount \<Rightarrow> UpperCreate \<Rightarrow> ('w mount \<times> ntstatus) run" where
  "PrepareStreamHost os io n cfg clk mt create =
     (let hit = overlayHit (createResolution create); host_path = hostNorm (createPath create) in
      if Found hit \<and> source hit = Lower \<and> \<not> ExistsInUpper os (mt_disk mt) cfg host_path
      then on_copy_up mt (CopyUpFile os io (cacheClock clk) n cfg (lmState (mtLayer mt)) host_path)
      else Finished (mt, STATUS_SUCCESS))"

text \<open>The part of \<^verbatim>\<open>CreateFileInUpper\<close> after the host of a stream is ready.\<close>

definition create_new_file ::
  "('w, 'h) host \<Rightarrow> ('w, 'h) file_io \<Rightarrow> ('w, 'h) context_io \<Rightarrow> LayerConfig \<Rightarrow> 'w mount \<Rightarrow> UpperCreate \<Rightarrow> 'h FileContext \<Rightarrow>
     'w mount \<times> 'h FileContext \<times> ntstatus \<times> InternalFileInfo option" where
  "create_new_file os io cc cfg mt create ctx =
     (let isStream = (streamSuffix (createPath create) \<noteq> []);
          streamMakesHost = (isStream \<and>
            (case GetFileAttributesW os (mt_disk mt) (WithExtendedPrefix os (createUpperPath create)) of
               Inl hostError \<Rightarrow> hostError = ERROR_FILE_NOT_FOUND \<or> hostError = ERROR_PATH_NOT_FOUND | Inr a \<Rightarrow> False));
          fileAttributes = (if createAttributes create \<noteq> 0 then createAttributes create else FILE_ATTRIBUTE_NORMAL);
          undo = (\<lambda>mt' ctx' status info.
            let (mt'', ctx'') = FileRollback_destroy os io cc mt' ctx' (if streamMakesHost then Some (createUpperPath create) else None) in
            (mt'', ctx'', status, info)) in
      case CreateFileW io (mt_disk mt) (WithExtendedPrefix os (ctxActualPath ctx)) (ComputePhysicalHandleAccess (createAccess create)) kShareAll
             CREATE_NEW fileAttributes of
        (w1, Inl e) \<Rightarrow> (set_mt_disk mt w1, ctx, nt_status os e, None)
      | (w1, Inr h) \<Rightarrow>
          let (w2, ctx2, resolveStatus) = ResolveContextMaximumAllowed io cc w1 (ctx\<lparr>ctxHandle := Some h\<rparr>) h (createAccess create);
              mt2 = set_mt_disk mt w2 in
          if \<not> NT_SUCCESS resolveStatus then undo mt2 ctx2 resolveStatus None
          else
            let (w3, hostStatus) = (if isStream then (mt_disk mt2, STATUS_SUCCESS) else ApplyNewHostFileSettings os io cc (mt_disk mt2) create h);
                mt3 = set_mt_disk mt2 w3 in
            if \<not> NT_SUCCESS hostStatus then undo mt3 ctx2 hostStatus None
            else
              let (mt4, finishStatus, info) = FinishCreatedEntry os cc cfg mt3 create ctx2 in
              if \<not> NT_SUCCESS finishStatus then undo mt4 ctx2 finishStatus (Some info)
              else (mt4, ctx2, STATUS_SUCCESS, Some info))"

definition CreateFileInUpper ::
  "('w, 'h) host \<Rightarrow> ('w, 'h) file_io \<Rightarrow> ('w, 'h) context_io \<Rightarrow> nat \<Rightarrow> LayerConfig \<Rightarrow> clocks \<Rightarrow> 'w mount \<Rightarrow> UpperCreate \<Rightarrow> 'h FileContext \<Rightarrow>
     ('w mount \<times> 'h FileContext \<times> ntstatus \<times> InternalFileInfo option) run" where
  "CreateFileInUpper os io cc n cfg clk mt create ctx =
     and_then (if streamSuffix (createPath create) \<noteq> [] then PrepareStreamHost os io n cfg clk mt create else Finished (mt, STATUS_SUCCESS))
       (\<lambda>(mt1, hostStatus).
          if \<not> NT_SUCCESS hostStatus then Finished (mt1, ctx, hostStatus, None)
          else Finished (create_new_file os io cc cfg mt1 create ctx))"

text \<open>The part of \<^verbatim>\<open>Create\<close> after the checks.\<close>

definition create_checked ::
  "('w, 'h) host \<Rightarrow> ('w, 'h) file_io \<Rightarrow> ('w, 'h) context_io \<Rightarrow> nat \<Rightarrow> LayerConfig \<Rightarrow> clocks \<Rightarrow> 'w mount \<Rightarrow> CreateRequest \<Rightarrow> StreamPath \<Rightarrow>
     CreateResolution \<Rightarrow> ('w mount \<times> 'h FileContext option \<times> ntstatus \<times> InternalFileInfo option) run" where
  "create_checked os io cc n cfg clk mt request path resolution =
     and_then
       (on_copy_up mt (EnsureUpperParent os io (cacheClock clk) n cfg (lmState (mtLayer mt)) (NormalizePath os (requestPath request))))
       (\<lambda>(mt1, parentStatus).
          if \<not> NT_SUCCESS parentStatus then Finished (mt1, None, parentStatus, None)
          else
            let (create, ctx) = BuildCreate cfg request path resolution (GetUpperPathForNewEntry cfg (callerHost path)) in
            and_then
              (if IsDirectoryCreate request then Finished (CreateDirectoryInUpper os io cc cfg mt1 create ctx)
               else CreateFileInUpper os io cc n cfg clk mt1 create ctx)
              (\<lambda>(mt2, ctx2, createStatus, info).
                 if \<not> NT_SUCCESS createStatus then Finished (mt2, None, createStatus, info)
                 else
                   let mt3 = mt_invalidate os mt2 (hostNorm path) in
                   Finished (mt3\<lparr>activeHandles := activeHandles mt3 + 1\<rparr>, Some ctx2, STATUS_SUCCESS, info)))"

definition LayerMount_Create ::
  "('w, 'h) host \<Rightarrow> ('w, 'h) file_io \<Rightarrow> ('w, 'h) context_io \<Rightarrow> ('p, 's) process_calls \<Rightarrow> nat \<Rightarrow> LayerConfig \<Rightarrow> clocks \<Rightarrow> 'w mount \<Rightarrow>
     CreateRequest \<Rightarrow> bool \<Rightarrow> ('w mount \<times> 'h FileContext option \<times> ntstatus \<times> InternalFileInfo option) run" where
  "LayerMount_Create os io cc pc n cfg clk mt callerRequest hasOutputs =
     (if \<not> hasOutputs then Finished (mt, None, STATUS_INVALID_PARAMETER, None)
      else
        let (mt1, walkStatus, view) = mt_walk os cfg clk mt (requestPath callerRequest) (FinalLinkFor (requestOptions callerRequest)) in
        if \<not> NT_SUCCESS walkStatus then Finished (mt1, None, walkStatus, None)
        else
          let request = callerRequest\<lparr>requestPath := viewText view\<rparr> in
          (case ParseStreamPath os (requestPath request) of
             None \<Rightarrow> Finished (mt1, None, STATUS_OBJECT_NAME_INVALID, None)
           | Some path \<Rightarrow>
               (case CheckCreatePreconditions os pc cfg clk mt1 request path of
                  (mt2, precondition, None) \<Rightarrow> Finished (mt2, None, precondition, None)
                | (mt2, precondition, Some resolution) \<Rightarrow>
                    if \<not> NT_SUCCESS precondition then Finished (mt2, None, precondition, None)
                    else create_checked os io cc n cfg clk mt2 request path resolution)))"

section \<open>Close\<close>

text \<open>\<^verbatim>\<open>Close\<close> does not delete the context, and nothing happens for a null pointer.\<close>

definition LayerMount_Close ::
  "('w, 'h) file_io \<Rightarrow> ('p, 's) process_calls \<Rightarrow> clocks \<Rightarrow> 'w mount \<Rightarrow> 'h FileContext option \<Rightarrow> 'w mount \<times> 'h FileContext option" where
  "LayerMount_Close io pc clk mt context =
     (case context of
        None \<Rightarrow> (mt, None)
      | Some ctx \<Rightarrow>
          let m = mtLayer mt;
              m1 =
                (case lmTracker m of
                   None \<Rightarrow> m
                 | Some t \<Rightarrow>
                     if ctxOwnerPid ctx = 0 then m
                     else m\<lparr>lmTracker :=
                       Some (LogAccess pc (steadyClock clk) (systemClock clk) t (ctxOwnerPid ctx) (ctxRelativePath ctx) OpClose)\<rparr>);
              mt1 = mt\<lparr>mtLayer := m1\<rparr>;
              (w2, ctx2) = CloseContextHandle io (mt_disk mt1) ctx;
              mt2 = set_mt_disk mt1 w2 in
          (mt2\<lparr>activeHandles := activeHandles mt2 - 1\<rparr>, Some ctx2))"

definition LayerMount_Cleanup ::
  "('w, 'h) file_io \<Rightarrow> 'w mount \<Rightarrow> 'h FileContext option \<Rightarrow> 'w mount \<times> 'h FileContext option \<times> ntstatus" where
  "LayerMount_Cleanup io mt context =
     (case context of
        None \<Rightarrow> (mt, None, STATUS_INVALID_HANDLE)
      | Some ctx \<Rightarrow> let (w, ctx1, status) = CleanupContextHandle io (mt_disk mt) ctx in (set_mt_disk mt w, Some ctx1, status))"

end
