(* ===== verification/File_Ops.thy ===== *)
theory File_Ops
  imports File_Open
begin

text \<open>
  Operations on an open context and the calls on security, reparse points and streams
  (\<^verbatim>\<open>impl/LayerMount.cpp\<close>, \<^verbatim>\<open>impl/SecurityPolicy.cpp\<close>). A context argument is \<open>None\<close> for a null pointer.
  \<open>wantsInfo\<close> and \<open>hasCount\<close> tell that the caller gives a place for the file information and for the number
  of bytes transferred; an output that the call leaves as it was is \<open>None\<close>.
\<close>

text \<open>An operation on a context, with the status for a null pointer.\<close>

definition with_context ::
  "'w mount \<Rightarrow> 'h FileContext option \<Rightarrow> ntstatus \<Rightarrow> 'o \<Rightarrow> ('h FileContext \<Rightarrow> ('w mount \<times> 'h FileContext \<times> ntstatus \<times> 'o) run) \<Rightarrow>
     ('w mount \<times> 'h FileContext option \<times> ntstatus \<times> 'o) run" where
  "with_context mt context nullStatus unset work =
     (case context of
        None \<Rightarrow> Finished (mt, None, nullStatus, unset)
      | Some ctx \<Rightarrow> and_then (work ctx) (\<lambda>(mt1, ctx1, status, out). Finished (mt1, Some ctx1, status, out)))"

text \<open>The check of the tracker for the process that opened the context.\<close>

definition if_allowed ::
  "('w, 'h) host \<Rightarrow> ('p, 's) process_calls \<Rightarrow> clocks \<Rightarrow> 'w mount \<Rightarrow> 'h FileContext \<Rightarrow> OperationType \<Rightarrow> 'o \<Rightarrow>
     ('w mount \<Rightarrow> ('w mount \<times> 'h FileContext \<times> ntstatus \<times> 'o) run) \<Rightarrow> ('w mount \<times> 'h FileContext \<times> ntstatus \<times> 'o) run" where
  "if_allowed os pc clk mt ctx op unset k =
     (let (mt1, allow) = mt_allows os pc clk mt (ctxOwnerPid ctx) (ctxRelativePath ctx) op in
      if \<not> allow then Finished (mt1, ctx, STATUS_ACCESS_DENIED, unset) else k mt1)"

text \<open>The end of an operation: the file information when it is asked for.\<close>

definition finish_with_info ::
  "('w, 'h) host \<Rightarrow> ('w, 'h) context_io \<Rightarrow> LayerConfig \<Rightarrow> 'w mount \<Rightarrow> 'h FileContext \<Rightarrow> bool \<Rightarrow> 'o \<Rightarrow>
     ('w mount \<times> 'h FileContext \<times> ntstatus \<times> 'o \<times> InternalFileInfo option) run" where
  "finish_with_info os cc cfg mt ctx wantsInfo out =
     (let (status, info) = context_info os cc cfg mt ctx wantsInfo in Finished (mt, ctx, status, out, info))"

section \<open>Read and write\<close>

text \<open>\<^verbatim>\<open>ZeroFillTail\<close> on a buffer of the length of the request.\<close>

definition ZeroFillTail :: "byte list \<Rightarrow> nat \<Rightarrow> nat \<Rightarrow> byte list" where
  "ZeroFillTail buffer filled len =
     (if filled \<ge> len then buffer else take filled buffer @ replicate (len - filled) 0 @ drop len buffer)"

text \<open>The outputs are the buffer and the number of bytes transferred. The read stores its bytes at the start of the buffer.\<close>

definition LayerMount_Read ::
  "('w, 'h) host \<Rightarrow> ('w, 'h) file_io \<Rightarrow> ('w, 'h) context_io \<Rightarrow> ('p, 's) process_calls \<Rightarrow> clocks \<Rightarrow> 'w mount \<Rightarrow> 'h FileContext option \<Rightarrow>
     byte list \<Rightarrow> uint64 \<Rightarrow> dword \<Rightarrow> bool \<Rightarrow> ('w mount \<times> 'h FileContext option \<times> ntstatus \<times> byte list \<times> dword option) run" where
  "LayerMount_Read os io cc pc clk mt context buffer offset len hasCount =
     with_context mt context STATUS_INVALID_HANDLE (buffer, None)
       (\<lambda>ctx. if_ok_out (Finished (EnsureHandleReady os io mt ctx)) (buffer, None)
          (\<lambda>mt1 ctx1.
             if \<not> hasCount then Finished (mt1, ctx1, STATUS_INVALID_PARAMETER, buffer, None)
             else
               if_allowed os pc clk mt1 ctx1 OpRead (buffer, None)
                 (\<lambda>mt2.
                    (case handle_query (ctxHandle ctx1) (\<lambda>h. ReadAt cc (mt_disk mt2) h offset (unat len)) of
                       Inl err \<Rightarrow>
                         if err = ERROR_HANDLE_EOF then Finished (mt2, ctx1, STATUS_END_OF_FILE, buffer, Some 0)
                         else Finished (mt2, ctx1, nt_status os err, buffer, None)
                     | Inr bs \<Rightarrow>
                         let count = of_nat (length bs) :: dword; stored = bs @ drop (length bs) buffer in
                         if count = 0 \<and> len \<noteq> 0 then Finished (mt2, ctx1, STATUS_END_OF_FILE, stored, Some 0)
                         else
                           Finished (mt2\<lparr>readCount := readCount mt2 + 1, bytesRead := bytesRead mt2 + ucast count\<rparr>, ctx1, STATUS_SUCCESS,
                             ZeroFillTail stored (unat count) (unat len), Some count)))))"

text \<open>
  The offset and the length of a write (\<^verbatim>\<open>Write\<close> between the size query and the call): \<open>None\<close> when a
  constrained write has nothing to do. Offsets are 64 bit signed values, so an offset from half the
  range on is negative.
\<close>

definition write_extent :: "nat \<Rightarrow> uint64 \<Rightarrow> dword \<Rightarrow> bool \<Rightarrow> bool \<Rightarrow> (uint64 \<times> dword) option" where
  "write_extent fileSize offset len writeToEnd constrainedIo =
     (let sizeValue = (of_nat fileSize :: uint64); writeOffset = (if writeToEnd then sizeValue else offset) in
      if \<not> constrainedIo then Some (writeOffset, len)
      else if sint writeOffset \<ge> sint sizeValue then None
      else if writeOffset + ucast len > sizeValue then Some (writeOffset, ucast (sizeValue - writeOffset))
      else Some (writeOffset, len))"

definition LayerMount_Write ::
  "('w, 'h) host \<Rightarrow> ('w, 'h) file_io \<Rightarrow> ('w, 'h) context_io \<Rightarrow> ('p, 's) process_calls \<Rightarrow> nat \<Rightarrow> LayerConfig \<Rightarrow> clocks \<Rightarrow> 'w mount \<Rightarrow>
     'h FileContext option \<Rightarrow> byte list \<Rightarrow> uint64 \<Rightarrow> dword \<Rightarrow> bool \<Rightarrow> bool \<Rightarrow> bool \<Rightarrow> bool \<Rightarrow>
     ('w mount \<times> 'h FileContext option \<times> ntstatus \<times> dword option \<times> InternalFileInfo option) run" where
  "LayerMount_Write os io cc pc n cfg clk mt context buffer offset len writeToEnd constrainedIo hasCount wantsInfo =
     with_context mt context STATUS_INVALID_HANDLE (None, None)
       (\<lambda>ctx. if_ok_out (Finished (EnsureHandleReady os io mt ctx)) (None, None)
          (\<lambda>mt1 ctx1.
             if \<not> hasCount then Finished (mt1, ctx1, STATUS_INVALID_PARAMETER, None, None)
             else
               if_allowed os pc clk mt1 ctx1 OpWrite (None, None)
                 (\<lambda>mt2. if_ok_out (EnsureContextInUpperLayer os io n cfg clk mt2 (ctxRelativePath ctx1) ctx1) (None, None)
                    (\<lambda>mt3 ctx3. if_ok_out (EnsureMetacopyMaterialized os io n cfg mt3 ctx3) (None, None)
                       (\<lambda>mt4 ctx4.
                          (case handle_query (ctxHandle ctx4) (GetFileSizeEx os (mt_disk mt4)) of
                             Inl e \<Rightarrow> Finished (mt4, ctx4, nt_status os e, None, None)
                           | Inr fileSize \<Rightarrow>
                               (case write_extent fileSize offset len writeToEnd constrainedIo of
                                  None \<Rightarrow> finish_with_info os cc cfg mt4 ctx4 wantsInfo (Some 0)
                                | Some (writeOffset, writeLen) \<Rightarrow>
                                    (case WriteAt cc (mt_disk mt4) (the (ctxHandle ctx4)) writeOffset (take (unat writeLen) buffer) of
                                       (w5, Inl e) \<Rightarrow> Finished (set_mt_disk mt4 w5, ctx4, nt_status os e, None, None)
                                     | (w5, Inr count) \<Rightarrow>
                                         let mt5 = set_mt_disk mt4 w5;
                                             mt6 = mt5\<lparr>writeCount := writeCount mt5 + 1, bytesWritten := bytesWritten mt5 + of_nat count\<rparr> in
                                         finish_with_info os cc cfg mt6 ctx4 wantsInfo (Some (of_nat count))))))))))"

section \<open>Overwrite and flush\<close>

definition kDataSuffix :: wstring where "kDataSuffix = wlit '':$DATA''"

fun delete_user_streams :: "('w, 'h) host \<Rightarrow> 'w \<Rightarrow> wstring \<Rightarrow> (wstring \<times> uint64) list \<Rightarrow> dword \<Rightarrow> 'w \<times> ntstatus" where
  "delete_user_streams os w base [] err = (w, if err \<noteq> ERROR_HANDLE_EOF then nt_status os err else STATUS_SUCCESS)"
| "delete_user_streams os w base ((name, sz) # streams) err =
     (if IsUserAlternateStream os name
      then
        let suffix =
              (if length name \<ge> length kDataSuffix \<and> drop (length name - length kDataSuffix) name = kDataSuffix
               then take (length name - length kDataSuffix) name else name) in
        (case DeleteFileW os w (base @ suffix) of
           (w1, Some e) \<Rightarrow>
             if e \<noteq> ERROR_FILE_NOT_FOUND \<and> e \<noteq> ERROR_PATH_NOT_FOUND then (w1, nt_status os e)
             else delete_user_streams os w1 base streams err
         | (w1, None) \<Rightarrow> delete_user_streams os w1 base streams err)
      else delete_user_streams os w base streams err)"

definition DeleteUserAlternateDataStreams :: "('w, 'h) host \<Rightarrow> ('w, 'h) context_io \<Rightarrow> 'w \<Rightarrow> wstring \<Rightarrow> 'w \<times> ntstatus" where
  "DeleteUserAlternateDataStreams os cc w basePath =
     (let base = WithExtendedPrefix os basePath in
      case FindStreams cc w base of
        Inl err \<Rightarrow> (w, if err = ERROR_HANDLE_EOF then STATUS_SUCCESS else nt_status os err)
      | Inr (streams, err) \<Rightarrow> delete_user_streams os w base streams err)"

text \<open>The attributes that an overwrite sets, when it sets any.\<close>

definition overwrite_attributes ::
  "('w, 'h) host \<Rightarrow> ('w, 'h) context_io \<Rightarrow> LayerConfig \<Rightarrow> 'w \<Rightarrow> 'h FileContext \<Rightarrow> dword \<Rightarrow> bool \<Rightarrow> 'w \<times> ntstatus" where
  "overwrite_attributes os cc cfg w ctx fileAttributes replaceAttributes =
     (if fileAttributes = 0 then (w, STATUS_SUCCESS)
      else
        let attrPath = WithExtendedPrefix os (if ctxStreamSuffix ctx \<noteq> [] then GetUpperPath os cfg (ctxRelativePath ctx) else ctxActualPath ctx);
            newAttrs =
              (if replaceAttributes then fileAttributes
               else (case GetFileAttributesW os w attrPath of Inl e \<Rightarrow> 0 | Inr a \<Rightarrow> a) OR fileAttributes) in
        (case SetAttributesByPath cc w attrPath newAttrs of
           (w1, Some e) \<Rightarrow> (w1, nt_status os e) | (w1, None) \<Rightarrow> (w1, STATUS_SUCCESS)))"

text \<open>A step on the disk that keeps the context.\<close>

definition disk_step :: "'w mount \<Rightarrow> 'h FileContext \<Rightarrow> 'w \<times> ntstatus \<Rightarrow> ('w mount \<times> 'h FileContext \<times> ntstatus) run" where
  "disk_step mt ctx r = Finished (set_mt_disk mt (fst r), ctx, snd r)"

definition LayerMount_Overwrite ::
  "('w, 'h) host \<Rightarrow> ('w, 'h) file_io \<Rightarrow> ('w, 'h) context_io \<Rightarrow> ('p, 's) process_calls \<Rightarrow> nat \<Rightarrow> LayerConfig \<Rightarrow> clocks \<Rightarrow> 'w mount \<Rightarrow>
     'h FileContext option \<Rightarrow> dword \<Rightarrow> bool \<Rightarrow> uint64 \<Rightarrow> bool \<Rightarrow>
     ('w mount \<times> 'h FileContext option \<times> ntstatus \<times> unit \<times> InternalFileInfo option) run" where
  "LayerMount_Overwrite os io cc pc n cfg clk mt context fileAttributes replaceAttributes allocationSize wantsInfo =
     with_context mt context STATUS_INVALID_HANDLE ((), None)
       (\<lambda>ctx. if_ok_out (Finished (EnsureHandleReady os io mt ctx)) ((), None)
          (\<lambda>mt1 ctx1. if_allowed os pc clk mt1 ctx1 OpOverwrite ((), None)
             (\<lambda>mt2. if_ok_out (EnsureContextInUpperLayer os io n cfg clk mt2 (ctxRelativePath ctx1) ctx1) ((), None)
                (\<lambda>mt3 ctx3. if_ok_out (EnsureMetacopyMaterialized os io n cfg mt3 ctx3) ((), None)
                   (\<lambda>mt4 ctx4.
                      if_ok_out
                        (disk_step mt4 ctx4
                          (if ctxStreamSuffix ctx4 = [] then DeleteUserAlternateDataStreams os cc (mt_disk mt4) (ctxActualPath ctx4)
                           else (mt_disk mt4, STATUS_SUCCESS)))
                        ((), None)
                        (\<lambda>mt5 ctx5.
                           if_ok_out
                             (disk_step mt5 ctx5
                               (SetInfoWithTransientRetry os io (mt_disk mt5) ctx5 FILE_WRITE_DATA (\<lambda>w h. SetEndOfFileInfo cc w h 0)))
                             ((), None)
                             (\<lambda>mt6 ctx6.
                                if_ok_out
                                  (disk_step mt6 ctx6
                                    (if allocationSize > 0
                                     then SetInfoWithTransientRetry os io (mt_disk mt6) ctx6 FILE_WRITE_DATA
                                            (\<lambda>w h. SetAllocationInfo cc w h (sint allocationSize))
                                     else (mt_disk mt6, STATUS_SUCCESS)))
                                  ((), None)
                                  (\<lambda>mt7 ctx7.
                                     if_ok_out
                                       (disk_step mt7 ctx7 (overwrite_attributes os cc cfg (mt_disk mt7) ctx7 fileAttributes replaceAttributes))
                                       ((), None)
                                       (\<lambda>mt8 ctx8.
                                          finish_with_info os cc cfg (mt_invalidate os mt8 (ctxRelativePath ctx8)) ctx8 wantsInfo ())))))))))"

definition LayerMount_Flush ::
  "('w, 'h) host \<Rightarrow> ('w, 'h) file_io \<Rightarrow> ('w, 'h) context_io \<Rightarrow> ('p, 's) process_calls \<Rightarrow> LayerConfig \<Rightarrow> clocks \<Rightarrow> 'w mount \<Rightarrow>
     'h FileContext option \<Rightarrow> bool \<Rightarrow> ('w mount \<times> 'h FileContext option \<times> ntstatus \<times> unit \<times> InternalFileInfo option) run" where
  "LayerMount_Flush os io cc pc cfg clk mt context wantsInfo =
     with_context mt context STATUS_INVALID_HANDLE ((), None)
       (\<lambda>ctx. if_ok_out (Finished (EnsureHandleReady os io mt ctx)) ((), None)
          (\<lambda>mt1 ctx1. if_allowed os pc clk mt1 ctx1 OpRead ((), None)
             (\<lambda>mt2.
                (case handle_call (mt_disk mt2) (ctxHandle ctx1) (FlushFileBuffers cc (mt_disk mt2)) of
                   (w3, Some e) \<Rightarrow> Finished (set_mt_disk mt2 w3, ctx1, nt_status os e, (), None)
                 | (w3, None) \<Rightarrow> finish_with_info os cc cfg (set_mt_disk mt2 w3) ctx1 wantsInfo ()))))"

section \<open>Information\<close>

record SetInfoRequest =
  setAttributes :: dword
  setCreationTime :: uint64
  setLastAccessTime :: uint64
  setLastWriteTime :: uint64
  setChangeTime :: uint64
  setAllocation :: uint64
  setFileSize :: uint64

definition kUnchanged :: uint64 where "kUnchanged = - 1"

definition ToFileTime :: "uint64 \<Rightarrow> FILETIME" where
  "ToFileTime v = \<lparr>dwLowDateTime = ucast v, dwHighDateTime = ucast (drop_bit 32 v)\<rparr>"

text \<open>The zero times of \<^verbatim>\<open>FILE_BASIC_INFO\<close> change nothing, so only the attributes are set.\<close>

definition SetContextAttributes :: "('w, 'h) host \<Rightarrow> ('w, 'h) file_io \<Rightarrow> 'w \<Rightarrow> 'h FileContext \<Rightarrow> dword \<Rightarrow> 'w \<times> ntstatus" where
  "SetContextAttributes os io w ctx fileAttributes =
     SetInfoWithTransientRetry os io w ctx FILE_WRITE_ATTRIBUTES (\<lambda>w1 h. SetAttributesByHandle os w1 h fileAttributes)"

definition SetContextTimes ::
  "('w, 'h) host \<Rightarrow> ('w, 'h) file_io \<Rightarrow> ('w, 'h) context_io \<Rightarrow> 'w \<Rightarrow> 'h FileContext \<Rightarrow> uint64 \<Rightarrow> uint64 \<Rightarrow> uint64 \<Rightarrow> 'w \<times> ntstatus" where
  "SetContextTimes os io cc w ctx creation lastAccess lastWrite =
     (let given = (\<lambda>t. if t \<noteq> 0 then Some (ToFileTime t) else None) in
      SetInfoWithTransientRetry os io w ctx FILE_WRITE_ATTRIBUTES
        (\<lambda>w1 h. SetFileTimes cc w1 h (given creation) (given lastAccess) (given lastWrite)))"

definition SetContextAllocationSize ::
  "('w, 'h) host \<Rightarrow> ('w, 'h) file_io \<Rightarrow> ('w, 'h) context_io \<Rightarrow> 'w \<Rightarrow> 'h FileContext \<Rightarrow> uint64 \<Rightarrow> 'w \<times> ntstatus" where
  "SetContextAllocationSize os io cc w ctx allocationSize =
     SetInfoWithTransientRetry os io w ctx FILE_WRITE_DATA (\<lambda>w1 h. SetAllocationInfo cc w1 h (sint allocationSize))"

definition SetContextEndOfFile ::
  "('w, 'h) host \<Rightarrow> ('w, 'h) file_io \<Rightarrow> ('w, 'h) context_io \<Rightarrow> 'w \<Rightarrow> 'h FileContext \<Rightarrow> uint64 \<Rightarrow> 'w \<times> ntstatus" where
  "SetContextEndOfFile os io cc w ctx fileSize =
     SetInfoWithTransientRetry os io w ctx FILE_WRITE_DATA (\<lambda>w1 h. SetEndOfFileInfo cc w1 h (sint fileSize))"

definition changes_nothing :: "SetInfoRequest \<Rightarrow> bool" where
  "changes_nothing request \<longleftrightarrow>
     (setAttributes request = INVALID_FILE_ATTRIBUTES \<or> setAttributes request = 0) \<and>
     setCreationTime request = 0 \<and> setLastAccessTime request = 0 \<and> setLastWriteTime request = 0 \<and>
     setAllocation request = kUnchanged \<and> setFileSize request = kUnchanged"

definition kMaxSignedSize :: uint64 where "kMaxSignedSize = 0x7FFFFFFFFFFFFFFF"

definition LayerMount_SetInfo ::
  "('w, 'h) host \<Rightarrow> ('w, 'h) file_io \<Rightarrow> ('w, 'h) context_io \<Rightarrow> ('p, 's) process_calls \<Rightarrow> nat \<Rightarrow> LayerConfig \<Rightarrow> clocks \<Rightarrow> 'w mount \<Rightarrow>
     'h FileContext option \<Rightarrow> SetInfoRequest \<Rightarrow> bool \<Rightarrow>
     ('w mount \<times> 'h FileContext option \<times> ntstatus \<times> unit \<times> InternalFileInfo option) run" where
  "LayerMount_SetInfo os io cc pc n cfg clk mt context request wantsInfo =
     with_context mt context STATUS_INVALID_HANDLE ((), None)
       (\<lambda>ctx. if_allowed os pc clk mt ctx OpSetInfo ((), None)
          (\<lambda>mt1.
             if changes_nothing request
             then
               if_ok_out (Finished (EnsureHandleReady os io mt1 ctx)) ((), None) (\<lambda>mt2 ctx2. finish_with_info os cc cfg mt2 ctx2 wantsInfo ())
             else
               if_ok_out (EnsureContextInUpperLayer os io n cfg clk mt1 (ctxRelativePath ctx) ctx) ((), None)
                 (\<lambda>mt2 ctx2. if_ok_out (Finished (EnsureHandleReady os io mt2 ctx2)) ((), None)
                    (\<lambda>mt3 ctx3.
                       if setAllocation request \<noteq> kUnchanged \<and> setAllocation request > kMaxSignedSize
                       then Finished (mt3, ctx3, STATUS_INVALID_PARAMETER, (), None)
                       else if setFileSize request \<noteq> kUnchanged \<and> setFileSize request > kMaxSignedSize
                       then Finished (mt3, ctx3, STATUS_INVALID_PARAMETER, (), None)
                       else
                         if_ok_out
                           (if setAllocation request \<noteq> kUnchanged \<or> setFileSize request \<noteq> kUnchanged
                            then EnsureMetacopyMaterialized os io n cfg mt3 ctx3 else Finished (mt3, ctx3, STATUS_SUCCESS))
                           ((), None)
                           (\<lambda>mt4 ctx4.
                              if_ok_out
                                (disk_step mt4 ctx4
                                  (if setAttributes request \<noteq> INVALID_FILE_ATTRIBUTES
                                   then SetContextAttributes os io (mt_disk mt4) ctx4 (setAttributes request) else (mt_disk mt4, STATUS_SUCCESS)))
                                ((), None)
                                (\<lambda>mt5 ctx5.
                                   if_ok_out
                                     (disk_step mt5 ctx5
                                       (if setCreationTime request \<noteq> 0 \<or> setLastAccessTime request \<noteq> 0 \<or> setLastWriteTime request \<noteq> 0
                                        then SetContextTimes os io cc (mt_disk mt5) ctx5 (setCreationTime request) (setLastAccessTime request)
                                               (setLastWriteTime request)
                                        else (mt_disk mt5, STATUS_SUCCESS)))
                                     ((), None)
                                     (\<lambda>mt6 ctx6.
                                        if_ok_out
                                          (disk_step mt6 ctx6
                                            (if setAllocation request \<noteq> kUnchanged
                                             then SetContextAllocationSize os io cc (mt_disk mt6) ctx6 (setAllocation request)
                                             else (mt_disk mt6, STATUS_SUCCESS)))
                                          ((), None)
                                          (\<lambda>mt7 ctx7.
                                             if_ok_out
                                               (disk_step mt7 ctx7
                                                 (if setFileSize request \<noteq> kUnchanged
                                                  then SetContextEndOfFile os io cc (mt_disk mt7) ctx7 (setFileSize request)
                                                  else (mt_disk mt7, STATUS_SUCCESS)))
                                               ((), None)
                                               (\<lambda>mt8 ctx8. finish_with_info os cc cfg mt8 ctx8 wantsInfo ())))))))))"

end
