(* ===== verification/File_Paths.thy ===== *)
theory File_Paths
  imports File_Ops
begin

text \<open>
  Deletes, renames and path updates of an open context, and the calls on the security, the reparse data
  and the streams of a path (\<^verbatim>\<open>impl/LayerMount.cpp\<close>, \<^verbatim>\<open>impl/SecurityPolicy.cpp\<close>).
\<close>

section \<open>Deletes\<close>

definition CanDeleteContext ::
  "('w, 'h) host \<Rightarrow> ('p, 's) process_calls \<Rightarrow> LayerConfig \<Rightarrow> clocks \<Rightarrow> 'w mount \<Rightarrow> 'h FileContext option \<Rightarrow> 'w mount \<times> ntstatus" where
  "CanDeleteContext os pc cfg clk mt context =
     (case context of
        None \<Rightarrow> (mt, STATUS_INVALID_PARAMETER)
      | Some ctx \<Rightarrow>
          let (m, status) =
                CanDeleteEntry os pc cfg clk (mtLayer mt) (NormalizePath os (ctxRelativePath ctx)) (ctxStreamSuffix ctx) (ctxOwnerPid ctx) in
          (mt\<lparr>mtLayer := m\<rparr>, status))"

definition DeleteStreamOnContext ::
  "('w, 'h) host \<Rightarrow> ('w, 'h) file_io \<Rightarrow> 'w mount \<Rightarrow> 'h FileContext \<Rightarrow> ('w mount \<times> 'h FileContext \<times> ntstatus) run" where
  "DeleteStreamOnContext os io mt ctx =
     if_ok
       (Finished
         (if ctxHandle ctx = None
          then (let (w, ctx1, status) = OpenContextHandleWithAccess os io (mt_disk mt) ctx (DELETE_ACCESS OR SYNCHRONIZE) in
                (set_mt_disk mt w, ctx1, status))
          else (mt, ctx, STATUS_SUCCESS)))
       (\<lambda>mt1 ctx1.
          let (w2, status) = SetDeleteDispositionAndClose os io (mt_disk mt1) (the (ctxHandle ctx1));
              ctx2 = ctx1\<lparr>ctxHandle := None, ctxHandleNeedsReopen := False\<rparr>;
              mt2 = set_mt_disk mt1 w2 in
          if \<not> NT_SUCCESS status then Finished (mt2, ctx2, status)
          else Finished (mt_invalidate os mt2 (ctxRelativePath ctx2), ctx2, STATUS_SUCCESS))"

definition LayerMount_DeleteContext ::
  "('w, 'h) host \<Rightarrow> ('w, 'h) file_io \<Rightarrow> ('p, 's) process_calls \<Rightarrow> nat \<Rightarrow> LayerConfig \<Rightarrow> clocks \<Rightarrow> 'w mount \<Rightarrow> 'h FileContext option \<Rightarrow>
     ('w mount \<times> 'h FileContext option \<times> ntstatus \<times> unit) run" where
  "LayerMount_DeleteContext os io pc n cfg clk mt context =
     with_context mt context STATUS_INVALID_PARAMETER ()
       (\<lambda>ctx.
          let (mt1, canDelete) = CanDeleteContext os pc cfg clk mt (Some ctx) in
          if \<not> NT_SUCCESS canDelete then Finished (mt1, ctx, canDelete, ())
          else if ctxStreamSuffix ctx \<noteq> [] \<and> ctxWritable ctx
          then and_then (DeleteStreamOnContext os io mt1 ctx) (\<lambda>(mt2, ctx2, status). Finished (mt2, ctx2, status, ()))
          else
            let (w2, ctx1) = CloseContextHandle io (mt_disk mt1) ctx;
                ctx2 = ctx1\<lparr>ctxHandleNeedsReopen := False\<rparr>;
                mt2 = set_mt_disk mt1 w2;
                host_path = NormalizePath os (ctxRelativePath ctx2) in
            and_then
              (on_layer mt2
                (if ctxStreamSuffix ctx \<noteq> [] then DeleteStreamByPath os io n cfg clk (mtLayer mt2) host_path (ctxStreamSuffix ctx)
                 else RemoveEntry os io n cfg clk (mtLayer mt2) host_path))
              (\<lambda>(mt3, status). Finished (mt3, ctx2, status, ())))"

section \<open>Renames\<close>

definition LayerMount_RenameContext ::
  "('w, 'h) host \<Rightarrow> ('w, 'h) file_io \<Rightarrow> ('p, 's) process_calls \<Rightarrow> nat \<Rightarrow> LayerConfig \<Rightarrow> clocks \<Rightarrow> 'w mount \<Rightarrow> 'h FileContext option \<Rightarrow>
     wstring \<Rightarrow> bool \<Rightarrow> dword \<Rightarrow> ('w mount \<times> 'h FileContext option \<times> ntstatus \<times> unit) run" where
  "LayerMount_RenameContext os io pc n cfg clk mt context callerNewPath replaceIfExists callerPid =
     with_context mt context STATUS_INVALID_PARAMETER ()
       (\<lambda>ctx.
          let (mt1, walkStatus, newView) = mt_walk os cfg clk mt callerNewPath Keep;
              newRelativePath = viewText newView; oldRelativePath = ctxRelativePath ctx in
          if \<not> NT_SUCCESS walkStatus then Finished (mt1, ctx, walkStatus, ())
          else if NormalizePathPreserveCase oldRelativePath = NormalizePathPreserveCase newRelativePath
          then
            and_then (on_layer mt1 (RenameViewPaths os io pc n cfg clk (mtLayer mt1) oldRelativePath newRelativePath replaceIfExists callerPid))
              (\<lambda>(mt2, status). Finished (mt2, ctx, status, ()))
          else
            let oldName = NormalizePath os oldRelativePath; newName = NormalizePath os newRelativePath;
                (m2, status, checked) = CheckRename os pc cfg clk (mtLayer mt1) oldName newName replaceIfExists callerPid unchecked_rename;
                mt2 = mt1\<lparr>mtLayer := m2\<rparr> in
            if \<not> NT_SUCCESS status then Finished (mt2, ctx, status, ())
            else
              let sourceWasInUpper = ExistsInUpper os (mt_disk mt2) cfg oldName;
                  oldActualPath = ctxActualPath ctx;
                  (w3, ctx3) = CloseContextHandle io (mt_disk mt2) ctx;
                  mt3 = set_mt_disk mt2 w3;
                  copyUpMode = (if HasFileDataAccess (ctxGrantedAccess ctx3) then FullCopy else ShellWhenPossible) in
              and_then
                (on_copy_up mt3
                  (RenameCheckedEntry os io (cacheClock clk) n cfg (lmState (mtLayer mt3)) oldRelativePath newRelativePath replaceIfExists
                    checked copyUpMode))
                (\<lambda>(mt4, renamed).
                   if \<not> NT_SUCCESS (renameStatus renamed)
                   then Finished (mt4, ctx3\<lparr>ctxActualPath := oldActualPath, ctxHandleNeedsReopen := True\<rparr>, renameStatus renamed, ())
                   else
                     Finished (mt4,
                       ctx3\<lparr>ctxRelativePath := newName, ctxActualPath := GetUpperPathForNewEntry cfg newRelativePath, ctxWritable := True,
                         ctxIsMetacopyOnly :=
                           (if \<not> sourceWasInUpper \<and> \<not> renameInLinkTarget renamed then renameShell renamed else ctxIsMetacopyOnly ctx3),
                         ctxHandleNeedsReopen := True\<rparr>,
                       STATUS_SUCCESS, ())))"

definition UpdateContextPath ::
  "('w, 'h) host \<Rightarrow> ('w, 'h) file_io \<Rightarrow> LayerConfig \<Rightarrow> clocks \<Rightarrow> 'w mount \<Rightarrow> 'h FileContext option \<Rightarrow> wstring \<Rightarrow>
     ('w mount \<times> 'h FileContext option \<times> ntstatus \<times> unit) run" where
  "UpdateContextPath os io cfg clk mt context callerNewPath =
     with_context mt context STATUS_INVALID_HANDLE ()
       (\<lambda>ctx.
          let (mt1, walkStatus, newView) = mt_walk os cfg clk mt callerNewPath Keep;
              newRelativePath = viewText newView in
          if \<not> NT_SUCCESS walkStatus then Finished (mt1, ctx, walkStatus, ())
          else
            (case TryParseStreamPath os (viewNormalized newView) of
               None \<Rightarrow> Finished (mt1, ctx, STATUS_INVALID_PARAMETER, ())
             | Some (newHost, newSuffix) \<Rightarrow>
                 if IsReservedOverlayPath os (mt_disk mt1) cfg newHost then Finished (mt1, ctx, STATUS_INVALID_PARAMETER, ())
                 else if ctxRelativePath ctx = newHost \<and> ctxStreamSuffix ctx = newSuffix then Finished (mt1, ctx, STATUS_SUCCESS, ())
                 else
                   let (w2, ctx2) = CloseContextHandle io (mt_disk mt1) ctx;
                       preserved = NormalizePathPreserveCase newRelativePath;
                       newHostPreserved =
                         (if newSuffix = [] then newRelativePath else take (length preserved - length newSuffix) preserved) in
                   Finished (set_mt_disk mt1 w2,
                     ctx2\<lparr>ctxRelativePath := newHost, ctxStreamSuffix := newSuffix,
                       ctxActualPath := GetUpperPathForNewEntry cfg newHostPreserved @ newSuffix, ctxHandleNeedsReopen := True\<rparr>,
                     STATUS_SUCCESS, ())))"

section \<open>Security\<close>

text \<open>
  \<^verbatim>\<open>SecurityPolicy::SyntheticSecurity\<close>. The outputs are the number of bytes that the descriptor needs and
  the bytes stored in the caller's buffer.
\<close>

definition synthetic_sddl :: "dword \<Rightarrow> wstring" where
  "synthetic_sddl effective =
     (if effective AND OWNER_SECURITY_INFORMATION \<noteq> 0 then wlit ''O:WD'' else []) @
     (if effective AND GROUP_SECURITY_INFORMATION \<noteq> 0 then wlit ''G:WD'' else []) @
     (if effective AND DACL_SECURITY_INFORMATION \<noteq> 0 then wlit ''D:(A;;FR;;;WD)'' else [])"

definition SyntheticSecurity ::
  "('w, 'h) host \<Rightarrow> ('w, 'h) context_io \<Rightarrow> dword \<Rightarrow> bool \<Rightarrow> nat \<Rightarrow> ntstatus \<times> nat option \<times> byte list option" where
  "SyntheticSecurity os cc effective isProbe sdBytes =
     (let worldSddl = synthetic_sddl effective in
      if worldSddl = [] then (STATUS_SUCCESS, Some 0, None)
      else
        (case ConvertSddl cc worldSddl of
           Inl e \<Rightarrow> (nt_status os e, None, None)
         | Inr worldSd \<Rightarrow>
             if isProbe then (STATUS_SUCCESS, Some (length worldSd), None)
             else if sdBytes < length worldSd then (STATUS_BUFFER_OVERFLOW, Some (length worldSd), None)
             else (STATUS_SUCCESS, Some (length worldSd), Some worldSd)))"

text \<open>\<^verbatim>\<open>SecurityPolicy::ReadsUpperSecurity\<close> and \<^verbatim>\<open>SecurityPolicy::AppliesSecurityWrites\<close>.\<close>

definition ReadsUpperSecurity :: "LayerConfig \<Rightarrow> bool" where "ReadsUpperSecurity cfg = HasNtfsAcls (hostCapabilities cfg)"
definition AppliesSecurityWrites :: "LayerConfig \<Rightarrow> bool" where "AppliesSecurityWrites cfg = HasNtfsAcls (hostCapabilities cfg)"

definition ERROR_INSUFFICIENT_BUFFER :: dword where "ERROR_INSUFFICIENT_BUFFER = 122"

text \<open>
  \<open>sdBytes\<close> is 0 for a null buffer, which the code treats alike. The outputs are the attributes, the
  number of bytes needed and the bytes of the descriptor. The length goes to the call as 32 bits.
\<close>

definition GetSecurity ::
  "('w, 'h) host \<Rightarrow> ('w, 'h) file_io \<Rightarrow> ('w, 'h) context_io \<Rightarrow> LayerConfig \<Rightarrow> clocks \<Rightarrow> 'w mount \<Rightarrow> wstring \<Rightarrow> dword \<Rightarrow> bool \<Rightarrow> uint64 \<Rightarrow>
     'w mount \<times> ntstatus \<times> dword option \<times> nat option \<times> byte list option" where
  "GetSecurity os io cc cfg clk mt relativePath securityInformation wantsAttributes sdBytes =
     (let effective = DropSaclWithoutPrivilege io securityInformation;
          (mt1, walkStatus, view) = mt_walk os cfg clk mt relativePath Follow;
          normalized = viewNormalized view in
      if \<not> NT_SUCCESS walkStatus then (mt1, walkStatus, None, None, None)
      else
        let (mt2, status2, targetPath, outAttributes) =
              (if normalized = [] then (mt1, STATUS_SUCCESS, upperPath cfg, if wantsAttributes then Some FILE_ATTRIBUTE_DIRECTORY else None)
               else
                 let (mt2, hit) = mt_lookup os cfg clk mt1 normalized in
                 if \<not> Found hit then (mt2, STATUS_OBJECT_NAME_NOT_FOUND, [], None)
                 else if \<not> wantsAttributes then (mt2, STATUS_SUCCESS, absolutePath hit, None)
                 else
                   (case GetFileAttributesW os (mt_disk mt2) (WithExtendedPrefix os (absolutePath hit)) of
                      Inl e \<Rightarrow> (mt2, STATUS_OBJECT_NAME_NOT_FOUND, [], None)
                    | Inr attrs \<Rightarrow> (mt2, STATUS_SUCCESS, absolutePath hit, Some attrs)));
            isProbe = (sdBytes = 0) in
        if \<not> NT_SUCCESS status2 then (mt2, status2, None, None, None)
        else if effective = 0 then (mt2, STATUS_SUCCESS, outAttributes, Some 0, None)
        else if \<not> ReadsUpperSecurity cfg
        then (mt2, fst (SyntheticSecurity os cc effective isProbe (unat sdBytes)), outAttributes,
              snd (SyntheticSecurity os cc effective isProbe (unat sdBytes)))
        else
          (case GetFileSecurityW io (mt_disk mt2) (WithExtendedPrefix os targetPath) effective (unat (ucast sdBytes :: dword)) of
             (needed, Inr sd) \<Rightarrow> (mt2, STATUS_SUCCESS, outAttributes, Some needed, Some sd)
           | (needed, Inl err) \<Rightarrow>
               (mt2,
                if err = ERROR_INSUFFICIENT_BUFFER then (if isProbe then STATUS_SUCCESS else STATUS_BUFFER_OVERFLOW) else nt_status os err,
                outAttributes, Some needed, None)))"

text \<open>A copy-up of an entry that only a lower holds, before a change through its path.\<close>

definition copy_up_resolved ::
  "('w, 'h) host \<Rightarrow> ('w, 'h) file_io \<Rightarrow> nat \<Rightarrow> LayerConfig \<Rightarrow> clocks \<Rightarrow> 'w mount \<Rightarrow> wstring \<Rightarrow> ResolvedPath \<Rightarrow> bool \<Rightarrow> ('w mount \<times> ntstatus) run" where
  "copy_up_resolved os io n cfg clk mt normalized hit mayBeShell =
     (let st = lmState (mtLayer mt); now = cacheClock clk in
      if source hit \<noteq> Lower then Finished (mt, STATUS_SUCCESS)
      else if attributes hit AND FILE_ATTRIBUTE_DIRECTORY \<noteq> 0 then on_copy_up mt (CopyUpDirectory os io now n cfg st normalized)
      else if mayBeShell
      then and_then (on_copy_up mt (CopyUpFileOrShell os io now n cfg st normalized None)) (\<lambda>(mt1, copied). Finished (mt1, copyUpStatus copied))
      else on_copy_up mt (CopyUpFile os io now n cfg st normalized))"

definition SetSecurity ::
  "('w, 'h) host \<Rightarrow> ('w, 'h) file_io \<Rightarrow> ('p, 's) process_calls \<Rightarrow> nat \<Rightarrow> LayerConfig \<Rightarrow> clocks \<Rightarrow> 'w mount \<Rightarrow> wstring \<Rightarrow> dword \<Rightarrow>
     byte list option \<Rightarrow> dword \<Rightarrow> ('w mount \<times> ntstatus) run" where
  "SetSecurity os io pc n cfg clk mt relativePath securityInformation sd callerPid =
     (case sd of
        None \<Rightarrow> Finished (mt, STATUS_INVALID_PARAMETER)
      | Some d \<Rightarrow>
          let (mt1, walkStatus, view) = mt_walk os cfg clk mt relativePath Follow;
              normalized = viewNormalized view in
          if \<not> NT_SUCCESS walkStatus then Finished (mt1, walkStatus)
          else
            let (mt2, allow) = mt_allows os pc clk mt1 callerPid normalized OpSetSecurity in
            if \<not> allow then Finished (mt2, STATUS_ACCESS_DENIED)
            else if \<not> AppliesSecurityWrites cfg then Finished (mt2, STATUS_SUCCESS)
            else
              let (mt3, hit) = mt_lookup os cfg clk mt2 normalized in
              if \<not> Found hit then Finished (mt3, STATUS_OBJECT_NAME_NOT_FOUND)
              else
                and_then (copy_up_resolved os io n cfg clk mt3 normalized hit True)
                  (\<lambda>(mt4, status).
                     if \<not> NT_SUCCESS status then Finished (mt4, status)
                     else
                       (case SetFileSecurityW io (mt_disk mt4) (WithExtendedPrefix os (GetUpperPath os cfg normalized)) securityInformation d of
                          (w5, Some e) \<Rightarrow> Finished (set_mt_disk mt4 w5, nt_status os e)
                        | (w5, None) \<Rightarrow> Finished (mt_invalidate os (set_mt_disk mt4 w5) normalized, STATUS_SUCCESS))))"

section \<open>Reparse points\<close>

definition ERROR_NOT_A_REPARSE_POINT :: dword where "ERROR_NOT_A_REPARSE_POINT = 4390"
definition MAXIMUM_REPARSE_DATA_BUFFER_SIZE :: uint64 where "MAXIMUM_REPARSE_DATA_BUFFER_SIZE = 16384"

definition OpenForReparse :: "('w, 'h) host \<Rightarrow> ('w, 'h) file_io \<Rightarrow> 'w \<Rightarrow> wstring \<Rightarrow> dword \<Rightarrow> 'w \<times> (dword + 'h)" where
  "OpenForReparse os io w path acc =
     CreateFileW io w (WithExtendedPrefix os path) acc kShareAll OPEN_EXISTING (FILE_FLAG_OPEN_REPARSE_POINT OR FILE_FLAG_BACKUP_SEMANTICS)"

text \<open>\<^verbatim>\<open>LayerMount::GetReparsePoint\<close>; \<open>bufferBytes\<close> is 0 for a null buffer.\<close>

definition LayerMount_GetReparsePoint ::
  "('w, 'h) host \<Rightarrow> ('w, 'h) file_io \<Rightarrow> LayerConfig \<Rightarrow> clocks \<Rightarrow> 'w mount \<Rightarrow> wstring \<Rightarrow> uint64 \<Rightarrow>
     'w mount \<times> ntstatus \<times> nat option \<times> byte list option" where
  "LayerMount_GetReparsePoint os io cfg clk mt relativePath bufferBytes =
     (let (mt1, walkStatus, view) = mt_walk os cfg clk mt relativePath Keep;
          normalized = viewNormalized view in
      if \<not> NT_SUCCESS walkStatus then (mt1, walkStatus, None, None)
      else if normalized = [] then (mt1, STATUS_NOT_A_REPARSE_POINT, None, None)
      else
        let (mt2, hit) = mt_lookup os cfg clk mt1 normalized in
        if \<not> Found hit then (mt2, STATUS_OBJECT_NAME_NOT_FOUND, None, None)
        else if attributes hit AND FILE_ATTRIBUTE_REPARSE_POINT = 0 then (mt2, STATUS_NOT_A_REPARSE_POINT, None, None)
        else
          (case OpenForReparse os io (mt_disk mt2) (absolutePath hit) FILE_READ_ATTRIBUTES of
             (w3, Inl e) \<Rightarrow> (set_mt_disk mt2 w3, nt_status os e, None, None)
           | (w3, Inr h) \<Rightarrow>
               let staged = GetReparsePoint os w3 h; mt3 = set_mt_disk mt2 (CloseHandle io w3 h) in
               (case staged of
                  Inl lastErr \<Rightarrow>
                    (mt3, if lastErr = ERROR_NOT_A_REPARSE_POINT then STATUS_NOT_A_REPARSE_POINT else nt_status os lastErr, None, None)
                | Inr staging \<Rightarrow>
                    if bufferBytes = 0 then (mt3, STATUS_SUCCESS, Some (length staging), None)
                    else if unat bufferBytes < length staging then (mt3, STATUS_BUFFER_OVERFLOW, Some (length staging), None)
                    else (mt3, STATUS_SUCCESS, Some (length staging), Some staging))))"

text \<open>The common part of \<^verbatim>\<open>SetReparsePoint\<close> and \<^verbatim>\<open>DeleteReparsePoint\<close> after the checks of the buffer; \<open>control\<close> is the request.\<close>

definition change_reparse_point ::
  "('w, 'h) host \<Rightarrow> ('w, 'h) file_io \<Rightarrow> ('p, 's) process_calls \<Rightarrow> nat \<Rightarrow> LayerConfig \<Rightarrow> clocks \<Rightarrow> 'w mount \<Rightarrow> wstring \<Rightarrow> dword \<Rightarrow>
     ('w \<Rightarrow> 'h \<Rightarrow> 'w \<times> dword option) \<Rightarrow> ('w mount \<times> ntstatus) run" where
  "change_reparse_point os io pc n cfg clk mt relativePath callerPid control =
     (let (mt1, walkStatus, view) = mt_walk os cfg clk mt relativePath Keep;
          normalized = viewNormalized view in
      if \<not> NT_SUCCESS walkStatus then Finished (mt1, walkStatus)
      else
        let (mt2, allow) = mt_allows os pc clk mt1 callerPid normalized OpSetInfo in
        if \<not> allow then Finished (mt2, STATUS_ACCESS_DENIED)
        else
          let (mt3, hit) = mt_lookup os cfg clk mt2 normalized in
          if \<not> Found hit then Finished (mt3, STATUS_OBJECT_NAME_NOT_FOUND)
          else
            and_then (copy_up_resolved os io n cfg clk mt3 normalized hit False)
              (\<lambda>(mt4, status).
                 if \<not> NT_SUCCESS status then Finished (mt4, status)
                 else
                   (case OpenForReparse os io (mt_disk mt4) (GetUpperPath os cfg normalized) FILE_WRITE_ATTRIBUTES of
                      (w5, Inl e) \<Rightarrow> Finished (set_mt_disk mt4 w5, nt_status os e)
                    | (w5, Inr h) \<Rightarrow>
                        let (w6, err) = control w5 h; mt6 = set_mt_disk mt4 (CloseHandle io w6 h) in
                        (case err of
                           Some lastErr \<Rightarrow> Finished (mt6, nt_status os lastErr)
                         | None \<Rightarrow> Finished (mt_invalidate os mt6 normalized, STATUS_SUCCESS)))))"

definition SetReparsePoint ::
  "('w, 'h) host \<Rightarrow> ('w, 'h) file_io \<Rightarrow> ('p, 's) process_calls \<Rightarrow> nat \<Rightarrow> LayerConfig \<Rightarrow> clocks \<Rightarrow> 'w mount \<Rightarrow> wstring \<Rightarrow> byte list \<Rightarrow> dword \<Rightarrow>
     ('w mount \<times> ntstatus) run" where
  "SetReparsePoint os io pc n cfg clk mt relativePath buffer callerPid =
     (if buffer = [] then Finished (mt, STATUS_INVALID_PARAMETER)
      else if length buffer > unat MAXIMUM_REPARSE_DATA_BUFFER_SIZE then Finished (mt, STATUS_INVALID_PARAMETER)
      else change_reparse_point os io pc n cfg clk mt relativePath callerPid (\<lambda>w h. FsctlSetReparsePoint io w h buffer))"

text \<open>The length of the buffer goes to the call as 32 bits.\<close>

definition DeleteReparsePoint ::
  "('w, 'h) host \<Rightarrow> ('w, 'h) file_io \<Rightarrow> ('w, 'h) context_io \<Rightarrow> ('p, 's) process_calls \<Rightarrow> nat \<Rightarrow> LayerConfig \<Rightarrow> clocks \<Rightarrow> 'w mount \<Rightarrow> wstring \<Rightarrow>
     byte list \<Rightarrow> dword \<Rightarrow> ('w mount \<times> ntstatus) run" where
  "DeleteReparsePoint os io cc pc n cfg clk mt relativePath buffer callerPid =
     (if buffer = [] then Finished (mt, STATUS_INVALID_PARAMETER)
      else change_reparse_point os io pc n cfg clk mt relativePath callerPid
             (\<lambda>w h. FsctlDeleteReparsePoint cc w h (take (unat (of_nat (length buffer) :: dword)) buffer)))"

section \<open>Streams\<close>

record InternalStreamInfo =
  streamInfoName :: wstring
  streamInfoSize :: uint64
  streamInfoAllocation :: uint64

definition EnumerateStreams ::
  "('w, 'h) host \<Rightarrow> ('w, 'h) context_io \<Rightarrow> LayerConfig \<Rightarrow> clocks \<Rightarrow> 'w mount \<Rightarrow> wstring \<Rightarrow> 'w mount \<times> ntstatus \<times> InternalStreamInfo list" where
  "EnumerateStreams os cc cfg clk mt relativePath =
     (let (mt1, walkStatus, view) = mt_walk os cfg clk mt relativePath Follow in
      if \<not> NT_SUCCESS walkStatus then (mt1, walkStatus, [])
      else
        let (mt2, hit) = mt_lookup os cfg clk mt1 (viewNormalized view) in
        if \<not> Found hit then (mt2, STATUS_OBJECT_NAME_NOT_FOUND, [])
        else
          (case FindStreams cc (mt_disk mt2) (WithExtendedPrefix os (absolutePath hit)) of
             Inl err \<Rightarrow> (mt2, if err = ERROR_HANDLE_EOF then STATUS_SUCCESS else nt_status os err, [])
           | Inr (streams, lastErr) \<Rightarrow>
               (mt2, if lastErr \<noteq> ERROR_HANDLE_EOF \<and> lastErr \<noteq> ERROR_SUCCESS then nt_status os lastErr else STATUS_SUCCESS,
                map (\<lambda>(name, sz). \<lparr>streamInfoName = name, streamInfoSize = sz, streamInfoAllocation = AllocationSizeFor sz\<rparr>)
                  (filter (\<lambda>(name, sz). IsUserAlternateStream os name) streams))))"

end
