(* ===== verification/Context_Runs.thy ===== *)
theory Context_Runs
  imports File_Paths
begin

text \<open>
  What the operations on contexts keep: the count of active handles, and that the handle of a context is
  open on the entry that the context names. The locale \<open>opened_by_name\<close> states what the engine relies on for
  opens, and \<open>session\<close> is an engine with the contexts that its callers hold.
\<close>

section \<open>Finished runs\<close>

definition yields :: "('a \<Rightarrow> bool) \<Rightarrow> 'a run \<Rightarrow> bool" where
  "yields P r \<longleftrightarrow> (\<forall>x. r = Finished x \<longrightarrow> P x)"

lemma yields_simps [simp]: "yields P (Finished x) \<longleftrightarrow> P x" "yields P (Waits p)" "yields P NeedsRounds"
  by (simp_all add: yields_def)

lemma yields_and_then:
  assumes "yields Q r" "\<And>x. Q x \<Longrightarrow> yields P (f x)"
  shows "yields P (and_then r f)"
  using assms by (cases r) auto

lemma yields_mono: "yields Q r \<Longrightarrow> (\<And>x. Q x \<Longrightarrow> P x) \<Longrightarrow> yields P r"
  by (auto simp: yields_def)

lemma yields_result: "yields P r \<Longrightarrow> r = Finished x \<Longrightarrow> P x"
  by (simp add: yields_def)

lemma yields_then:
  "(\<And>x. yields P (f x)) \<Longrightarrow> yields P (and_then r f)"
  "yields (\<lambda>(a, b). Q b) r' \<Longrightarrow> (\<And>a b. Q b \<Longrightarrow> yields P (k a b)) \<Longrightarrow> yields P (and_then r' (\<lambda>(a, b). k a b))"
  "yields (\<lambda>(a, b, c). R b c) r3 \<Longrightarrow> (\<And>a b c. R b c \<Longrightarrow> yields P (g a b c)) \<Longrightarrow> yields P (and_then r3 (\<lambda>(a, b, c). g a b c))"
  by (cases r; simp) (auto elim!: yields_and_then)

lemma yields_cases:
  "(b \<Longrightarrow> yields P r1) \<Longrightarrow> (\<not> b \<Longrightarrow> yields P r2) \<Longrightarrow> yields P (if b then r1 else r2)"
  "(\<And>x y. yields P (f x y)) \<Longrightarrow> yields P (case p of (x, y) \<Rightarrow> f x y)"
  "yields P r1 \<Longrightarrow> (\<And>x. yields P (g x)) \<Longrightarrow> yields P (case z of None \<Rightarrow> r1 | Some x \<Rightarrow> g x)"
  "(\<And>x. yields P (h x)) \<Longrightarrow> (\<And>y. yields P (k y)) \<Longrightarrow> yields P (case u of Inl x \<Rightarrow> h x | Inr y \<Rightarrow> k y)"
  by (auto split: prod.splits option.splits sum.splits)

lemma yields_any: "(\<And>x. P x) \<Longrightarrow> yields P r"
  by (auto simp: yields_def)

section \<open>Counters\<close>

lemma mount_keeps [simp]:
  "activeHandles (set_mt_disk mt w) = activeHandles mt" "activeHandles (set_mt_engine mt s) = activeHandles mt"
  "activeHandles (mt_invalidate os mt p) = activeHandles mt" "mt_disk (set_mt_disk mt w) = w"
  by (simp_all add: set_mt_disk_def set_mt_engine_def mt_invalidate_def set_disk_def)

lemma lookups_keep:
  "mt_walk os cfg clk mt p l = (mt1, status, view) \<Longrightarrow> activeHandles mt1 = activeHandles mt"
  "mt_lookup os cfg clk mt p = (mt1, hit) \<Longrightarrow> activeHandles mt1 = activeHandles mt"
  "mt_allows os pc clk mt pid p op = (mt1, allow) \<Longrightarrow> activeHandles mt1 = activeHandles mt"
  by (auto simp: mt_walk_def mt_lookup_def mt_allows_def split: prod.splits)

lemma on_layer_keeps: "yields (\<lambda>(mt1, a). activeHandles mt1 = activeHandles mt) (on_layer mt r)"
  by (cases r) (auto simp: on_layer_def)

lemma on_copy_up_keeps: "yields (\<lambda>(mt1, a). activeHandles mt1 = activeHandles mt) (on_copy_up mt r)"
  unfolding on_copy_up_def by (rule on_layer_keeps)

section \<open>Contexts\<close>

text \<open>
  A context that is marked for a reopen has no handle, and a handle is open on the entry at the path of
  the context; \<open>opened h p\<close> says that \<open>h\<close> was opened by the name \<open>p\<close>.
\<close>

definition context_ok :: "('w, 'h) host \<Rightarrow> ('h \<Rightarrow> wstring \<Rightarrow> bool) \<Rightarrow> 'h FileContext \<Rightarrow> bool" where
  "context_ok os opened ctx \<longleftrightarrow>
     (ctxHandleNeedsReopen ctx \<longrightarrow> ctxHandle ctx = None) \<and>
     (\<forall>h. ctxHandle ctx = Some h \<longrightarrow> opened h (WithExtendedPrefix os (ctxActualPath ctx)))"

lemma context_ok_simps [simp]:
  "context_ok os opened (ctx\<lparr>ctxIsMetacopyOnly := b\<rparr>) = context_ok os opened ctx"
  "context_ok os opened (ctx\<lparr>ctxGrantedAccess := a\<rparr>) = context_ok os opened ctx"
  by (simp_all add: context_ok_def)

lemma context_ok_closed: "ctxHandle ctx = None \<Longrightarrow> context_ok os opened ctx"
  by (simp add: context_ok_def)

lemma CloseContextHandle_closed: "CloseContextHandle io w ctx = (w1, ctx1) \<Longrightarrow> ctx1 = ctx\<lparr>ctxHandle := None\<rparr>"
  by (cases "ctxHandle ctx") (auto simp: CloseContextHandle_def)

text \<open>The states that an operation may leave: the count \<open>a\<close> of active handles and a context that is in order.\<close>

definition in_order :: "('w, 'h) host \<Rightarrow> ('h \<Rightarrow> wstring \<Rightarrow> bool) \<Rightarrow> uint64 \<Rightarrow> 'w mount \<Rightarrow> 'h FileContext \<Rightarrow> bool" where
  "in_order os opened a mt ctx \<longleftrightarrow> activeHandles mt = a \<and> context_ok os opened ctx"

lemma in_orderI: "activeHandles mt = a \<Longrightarrow> context_ok os opened ctx \<Longrightarrow> in_order os opened a mt ctx"
  by (simp add: in_order_def)

lemma in_order_closed: "activeHandles mt = a \<Longrightarrow> ctxHandle ctx = None \<Longrightarrow> in_order os opened a mt ctx"
  by (simp add: in_order_def context_ok_closed)

definition steps_in_order ::
  "('w, 'h) host \<Rightarrow> ('h \<Rightarrow> wstring \<Rightarrow> bool) \<Rightarrow> uint64 \<Rightarrow> ('w mount \<times> 'h FileContext \<times> ntstatus) run \<Rightarrow> bool" where
  "steps_in_order os opened a r \<longleftrightarrow> yields (\<lambda>(mt, ctx, status). in_order os opened a mt ctx) r"

definition ends_in_order ::
  "('w, 'h) host \<Rightarrow> ('h \<Rightarrow> wstring \<Rightarrow> bool) \<Rightarrow> uint64 \<Rightarrow> ('w mount \<times> 'h FileContext \<times> ntstatus \<times> 'o) run \<Rightarrow> bool" where
  "ends_in_order os opened a r \<longleftrightarrow> yields (\<lambda>(mt, ctx, status, out). in_order os opened a mt ctx) r"

lemma in_order_simps [simp]:
  "steps_in_order os opened a (Finished (mt, ctx, status)) \<longleftrightarrow> in_order os opened a mt ctx"
  "ends_in_order os opened a (Finished (mt, ctx, status, out)) \<longleftrightarrow> in_order os opened a mt ctx"
  "in_order os opened a (set_mt_disk mt w) ctx \<longleftrightarrow> in_order os opened a mt ctx"
  "in_order os opened a (mt_invalidate os' mt p) ctx \<longleftrightarrow> in_order os opened a mt ctx"
  by (simp_all add: steps_in_order_def ends_in_order_def in_order_def)

lemma steps_then_ends:
  assumes "steps_in_order os opened a r" "\<And>mt ctx status. in_order os opened a mt ctx \<Longrightarrow> ends_in_order os opened a (f (mt, ctx, status))"
  shows "ends_in_order os opened a (and_then r f)"
  using assms unfolding steps_in_order_def ends_in_order_def by (auto elim!: yields_and_then)

lemma if_ok_in_order:
  assumes "steps_in_order os opened a r" "\<And>mt ctx. in_order os opened a mt ctx \<Longrightarrow> steps_in_order os opened a (k mt ctx)"
  shows "steps_in_order os opened a (if_ok r k)"
  using assms unfolding if_ok_def steps_in_order_def by (auto elim!: yields_and_then)

lemma if_ok_out_in_order:
  assumes "steps_in_order os opened a r" "\<And>mt ctx. in_order os opened a mt ctx \<Longrightarrow> ends_in_order os opened a (k mt ctx)"
  shows "ends_in_order os opened a (if_ok_out r unset k)"
  unfolding if_ok_out_def by (rule steps_then_ends [OF assms(1)]) (auto intro: assms(2))

lemma if_allowed_in_order:
  assumes "in_order os opened a mt ctx" "\<And>mt1. in_order os opened a mt1 ctx \<Longrightarrow> ends_in_order os opened a (k mt1)"
  shows "ends_in_order os opened a (if_allowed os' pc clk mt ctx op unset k)"
proof -
  obtain mt1 allow where mt1: "mt_allows os' pc clk mt (ctxOwnerPid ctx) (ctxRelativePath ctx) op = (mt1, allow)" by force
  then have "in_order os opened a mt1 ctx" using assms(1) lookups_keep(3) by (fastforce simp: in_order_def)
  then show ?thesis using assms(2) by (simp add: if_allowed_def mt1)
qed

lemma in_order_cases:
  "(b \<Longrightarrow> steps_in_order os opened a r1) \<Longrightarrow> (\<not> b \<Longrightarrow> steps_in_order os opened a r2) \<Longrightarrow> steps_in_order os opened a (if b then r1 else r2)"
  "(b \<Longrightarrow> ends_in_order os opened a e1) \<Longrightarrow> (\<not> b \<Longrightarrow> ends_in_order os opened a e2) \<Longrightarrow> ends_in_order os opened a (if b then e1 else e2)"
  "(\<And>x. ends_in_order os opened a (f x)) \<Longrightarrow> (\<And>y. ends_in_order os opened a (g y)) \<Longrightarrow> ends_in_order os opened a (case v of Inl x \<Rightarrow> f x | Inr y \<Rightarrow> g y)"
  "(\<And>x y. ends_in_order os opened a (h x y)) \<Longrightarrow> ends_in_order os opened a (case p of (x, y) \<Rightarrow> h x y)"
  "ends_in_order os opened a e1 \<Longrightarrow> (\<And>x. ends_in_order os opened a (k x)) \<Longrightarrow> ends_in_order os opened a (case z of None \<Rightarrow> e1 | Some x \<Rightarrow> k x)"
  by (auto split: sum.splits prod.splits option.splits)

text \<open>An operation that ends in order gives the context back in order.\<close>

definition keeps_context :: "('w, 'h) host \<Rightarrow> ('h \<Rightarrow> wstring \<Rightarrow> bool) \<Rightarrow> uint64 \<Rightarrow> ('w mount \<times> 'h FileContext option \<times> 'o) run \<Rightarrow> bool" where
  "keeps_context os opened a r \<longleftrightarrow> yields (\<lambda>(mt, c, out). \<exists>ctx. c = Some ctx \<and> in_order os opened a mt ctx) r"

lemma with_context_in_order:
  assumes "ends_in_order os opened a (work ctx)"
  shows "keeps_context os opened a (with_context mt (Some ctx) nullStatus unset work)"
  using assms unfolding with_context_def ends_in_order_def keeps_context_def by (auto elim!: yields_and_then)

lemma disk_step_in_order: "in_order os opened a mt ctx \<Longrightarrow> steps_in_order os opened a (disk_step mt ctx r)"
  by (simp add: disk_step_def)

lemma finish_with_info_in_order: "in_order os opened a mt ctx \<Longrightarrow> ends_in_order os opened a (finish_with_info os' cc cfg mt ctx wanted out)"
  by (auto simp: finish_with_info_def split: prod.splits)

lemma copy_up_in_order:
  assumes "in_order os opened a mt ctx"
    and "\<And>mt1 x. in_order os opened a mt1 ctx \<Longrightarrow> steps_in_order os opened a (f (mt1, x))"
  shows "steps_in_order os opened a (and_then (on_copy_up mt r) f)"
  unfolding steps_in_order_def
  by (rule yields_and_then [OF on_copy_up_keeps]) (use assms in \<open>auto simp: in_order_def steps_in_order_def\<close>)

lemma FillShell_in_order: "in_order os opened a mt ctx \<Longrightarrow> steps_in_order os opened a (FillShell os' io n cfg mt p ctx)"
  unfolding FillShell_def by (erule copy_up_in_order) (auto simp: in_order_def)

lemma FillShellForDataAccess_in_order:
  "in_order os opened a mt ctx \<Longrightarrow> steps_in_order os opened a (FillShellForDataAccess os' io n cfg mt p ctx)"
  by (auto simp: FillShellForDataAccess_def intro: FillShell_in_order)

lemma CopyUpForHandle_in_order:
  assumes "in_order os opened a mt ctx"
  shows "steps_in_order os opened a (CopyUpForHandle os' io n cfg clk mt p ctx limit)"
  unfolding CopyUpForHandle_def Let_def
  by (intro in_order_cases copy_up_in_order [OF assms]; simp add: in_order_def)

lemma ReadMetacopyFlag_in_order:
  "in_order os opened a mt ctx \<Longrightarrow> in_order os opened a mt (ReadMetacopyFlag os' cfg mt' p ctx)"
  by (auto simp: ReadMetacopyFlag_def in_order_def)

lemmas context_steps = if_ok_in_order if_ok_out_in_order if_allowed_in_order disk_step_in_order finish_with_info_in_order
  FillShell_in_order FillShellForDataAccess_in_order CopyUpForHandle_in_order ReadMetacopyFlag_in_order

section \<open>Opens by name\<close>

locale opened_by_name =
  fixes os :: "('w, 'h) host" and io :: "('w, 'h) file_io" and opened :: "'h \<Rightarrow> wstring \<Rightarrow> bool"
  assumes opens: "CreateFileW io w p acc share disposition flags = (w', Inr h) \<Longrightarrow> opened h p"
begin

lemma OpenContextHandleWithAccess_ok:
  "OpenContextHandleWithAccess os io w ctx acc = (w1, ctx1, status) \<Longrightarrow> context_ok os opened ctx1"
  by (auto simp: OpenContextHandleWithAccess_def context_ok_def Let_def split: prod.splits sum.splits
      dest!: CloseContextHandle_closed dest: opens)

lemma Reopen_in_order:
  "activeHandles mt = a \<Longrightarrow> steps_in_order os opened a (Finished (ReopenContextHandle os io mt ctx))"
  by (auto simp: ReopenContextHandle_def steps_in_order_def in_order_def split: prod.splits dest: OpenContextHandleWithAccess_ok)

lemma EnsureHandleReady_in_order:
  "in_order os opened a mt ctx \<Longrightarrow> steps_in_order os opened a (Finished (EnsureHandleReady os io mt ctx))"
  using Reopen_in_order [of mt a ctx] by (auto simp: EnsureHandleReady_def in_order_def)

lemma EnsureMetacopyMaterialized_in_order:
  "in_order os opened a mt ctx \<Longrightarrow> steps_in_order os opened a (EnsureMetacopyMaterialized os io n cfg mt ctx)"
  unfolding EnsureMetacopyMaterialized_def
  using Reopen_in_order by (auto intro!: context_steps simp: in_order_def)

lemma EnsureContextInUpperLayer_in_order:
  assumes "in_order os opened a mt ctx"
  shows "steps_in_order os opened a (EnsureContextInUpperLayer os io n cfg clk mt p ctx)"
proof -
  have reopen: "steps_in_order os opened a (Finished (ReopenContextHandle os io mt1 ctx1))" if "in_order os opened a mt1 ctx2" for mt1 ctx1 ctx2
    using that Reopen_in_order by (simp add: in_order_def)
  have same: "steps_in_order os opened a (Finished (mt, ctx, STATUS_SUCCESS))" using assms by simp
  show ?thesis
    unfolding EnsureContextInUpperLayer_def Let_def
    by (intro same reopen in_order_cases if_ok_in_order FillShellForDataAccess_in_order CopyUpForHandle_in_order
        ReadMetacopyFlag_in_order assms) assumption+
qed

lemmas opening_steps = EnsureHandleReady_in_order EnsureMetacopyMaterialized_in_order EnsureContextInUpperLayer_in_order context_steps

section \<open>Operations on a context\<close>

lemma in_order_counts [simp]:
  "in_order os opened a (mt\<lparr>readCount := x, bytesRead := y\<rparr>) ctx \<longleftrightarrow> in_order os opened a mt ctx"
  "in_order os opened a (mt\<lparr>writeCount := x, bytesWritten := y\<rparr>) ctx \<longleftrightarrow> in_order os opened a mt ctx"
  by (simp_all add: in_order_def)

lemma Read_in_order:
  assumes "in_order os opened a mt ctx"
  shows "keeps_context os opened a (LayerMount_Read os io cc pc clk mt (Some ctx) buffer offset len hasCount)"
  unfolding LayerMount_Read_def Let_def
  by (intro with_context_in_order opening_steps in_order_cases in_order_simps(2) [THEN iffD2] in_order_counts [THEN iffD2] assms) assumption+

lemma Write_in_order:
  assumes "in_order os opened a mt ctx"
  shows "keeps_context os opened a
    (LayerMount_Write os io cc pc n cfg clk mt (Some ctx) buffer offset len writeToEnd constrainedIo hasCount wantsInfo)"
  unfolding LayerMount_Write_def Let_def
  by (intro with_context_in_order opening_steps in_order_cases in_order_simps(2,3) [THEN iffD2] in_order_counts [THEN iffD2] assms) assumption+

lemma Overwrite_in_order:
  assumes "in_order os opened a mt ctx"
  shows "keeps_context os opened a (LayerMount_Overwrite os io cc pc n cfg clk mt (Some ctx) fileAttributes replace allocation wantsInfo)"
  unfolding LayerMount_Overwrite_def
  by (intro with_context_in_order opening_steps in_order_simps(2,3,4) [THEN iffD2] assms) assumption+

lemma Flush_in_order:
  assumes "in_order os opened a mt ctx"
  shows "keeps_context os opened a (LayerMount_Flush os io cc pc cfg clk mt (Some ctx) wantsInfo)"
  unfolding LayerMount_Flush_def
  by (intro with_context_in_order opening_steps in_order_cases in_order_simps(2,3) [THEN iffD2] assms) assumption+

lemma SetInfo_in_order:
  assumes "in_order os opened a mt ctx"
  shows "keeps_context os opened a (LayerMount_SetInfo os io cc pc n cfg clk mt (Some ctx) request wantsInfo)"
  unfolding LayerMount_SetInfo_def
  by (intro with_context_in_order opening_steps in_order_cases in_order_simps(1,2) [THEN iffD2] assms) assumption+

lemma layer_ends:
  assumes "activeHandles mt = a" "\<And>mt1 x. activeHandles mt1 = a \<Longrightarrow> ends_in_order os opened a (f (mt1, x))"
  shows "ends_in_order os opened a (and_then (on_layer mt r) f)" "ends_in_order os opened a (and_then (on_copy_up mt r') f)"
  unfolding ends_in_order_def
  by (rule yields_and_then [OF on_layer_keeps] yields_and_then [OF on_copy_up_keeps];
      use assms in \<open>auto simp: ends_in_order_def\<close>)+

lemma DeleteStreamOnContext_in_order:
  assumes "in_order os opened a mt ctx"
  shows "steps_in_order os opened a (DeleteStreamOnContext os io mt ctx)"
proof -
  have "in_order os opened a mt1 ctx1"
    if "(if ctxHandle ctx = None
        then (let (w, ctx1, status) = OpenContextHandleWithAccess os io (mt_disk mt) ctx acc in (set_mt_disk mt w, ctx1, status))
        else (mt, ctx, STATUS_SUCCESS)) = (mt1, ctx1, status)" for mt1 ctx1 status acc
    using that assms OpenContextHandleWithAccess_ok [of "mt_disk mt" ctx acc]
    by (auto simp: in_order_def split: if_splits prod.splits)
  then have "steps_in_order os opened a (Finished
        (if ctxHandle ctx = None
         then (let (w, ctx1, status) = OpenContextHandleWithAccess os io (mt_disk mt) ctx acc in (set_mt_disk mt w, ctx1, status))
         else (mt, ctx, STATUS_SUCCESS)))" for acc
    unfolding steps_in_order_def by (auto simp del: if_split)
  then show ?thesis
    unfolding DeleteStreamOnContext_def
    by (rule if_ok_in_order) (auto simp: Let_def in_order_def split: prod.splits intro!: context_ok_closed)
qed

lemma DeleteContext_in_order:
  assumes "in_order os opened a mt ctx"
  shows "keeps_context os opened a (LayerMount_DeleteContext os io pc n cfg clk mt (Some ctx))"
proof -
  obtain mt1 status where can: "CanDeleteContext os pc cfg clk mt (Some ctx) = (mt1, status)" by force
  then have mt1: "in_order os opened a mt1 ctx"
    using assms by (auto simp: CanDeleteContext_def in_order_def split: prod.splits)
  obtain w2 ctx1 where w2: "CloseContextHandle io (mt_disk mt1) ctx = (w2, ctx1)" by force
  show ?thesis
    unfolding LayerMount_DeleteContext_def
    using mt1 CloseContextHandle_closed [OF w2]
    by (intro with_context_in_order)
       (auto simp: can w2 Let_def in_order_def intro!: in_order_cases steps_then_ends [OF DeleteStreamOnContext_in_order] layer_ends context_ok_closed)
qed

lemma RenameContext_in_order:
  assumes "in_order os opened a mt ctx"
  shows "keeps_context os opened a (LayerMount_RenameContext os io pc n cfg clk mt (Some ctx) path replace pid)"
proof -
  obtain mt1 status view where walk: "mt_walk os cfg clk mt path Keep = (mt1, status, view)" by (metis prod_cases3)
  then have mt1: "in_order os opened a mt1 ctx" using assms by (auto simp: in_order_def dest: lookups_keep(1))
  obtain m2 status2 checked where check:
    "CheckRename os pc cfg clk (mtLayer mt1) (NormalizePath os (ctxRelativePath ctx)) (NormalizePath os (viewText view)) replace pid
       unchecked_rename = (m2, status2, checked)" by (metis prod_cases3)
  obtain w3 ctx3 where w3: "CloseContextHandle io (lm_disk m2) ctx = (w3, ctx3)" by force
  show ?thesis
    unfolding LayerMount_RenameContext_def
    using mt1 CloseContextHandle_closed [OF w3]
    by (intro with_context_in_order)
       (auto simp: walk check w3 Let_def in_order_def intro!: in_order_cases layer_ends context_ok_closed)
qed

lemma UpdateContextPath_in_order:
  assumes "in_order os opened a mt ctx"
  shows "keeps_context os opened a (UpdateContextPath os io cfg clk mt (Some ctx) path)"
proof -
  obtain mt1 status view where walk: "mt_walk os cfg clk mt path Keep = (mt1, status, view)" by (metis prod_cases3)
  then have mt1: "in_order os opened a mt1 ctx" using assms by (auto simp: in_order_def dest: lookups_keep(1))
  obtain w2 ctx2 where w2: "CloseContextHandle io (mt_disk mt1) ctx = (w2, ctx2)" by force
  show ?thesis
    unfolding UpdateContextPath_def
    using mt1 CloseContextHandle_closed [OF w2]
    by (intro with_context_in_order)
       (auto simp: walk w2 Let_def in_order_def intro!: in_order_cases context_ok_closed split: option.splits)
qed

lemma Cleanup_in_order:
  "in_order os opened a mt ctx \<Longrightarrow> LayerMount_Cleanup io mt (Some ctx) = (mt1, c, status) \<Longrightarrow> \<exists>ctx1. c = Some ctx1 \<and> in_order os opened a mt1 ctx1"
  by (auto simp: LayerMount_Cleanup_def CleanupContextHandle_def in_order_def split: prod.splits dest!: CloseContextHandle_closed
      intro!: context_ok_closed)

section \<open>Opens, creates and closes\<close>

text \<open>A run that opens: a context comes with one more active handle, and without one the count stays.\<close>

definition opens_in_order :: "uint64 \<Rightarrow> ('w mount \<times> 'h FileContext option \<times> ntstatus \<times> InternalFileInfo option) run \<Rightarrow> bool" where
  "opens_in_order a = yields (\<lambda>(mt, c, status, info).
     case c of None \<Rightarrow> activeHandles mt = a | Some ctx \<Rightarrow> in_order os opened (a + 1) mt ctx \<and> NT_SUCCESS status)"

lemma opens_simps [simp]:
  "opens_in_order a (Finished (mt, None, status, info)) \<longleftrightarrow> activeHandles mt = a"
  "opens_in_order a (Finished (mt, Some ctx, status, info)) \<longleftrightarrow> in_order os opened (a + 1) mt ctx \<and> NT_SUCCESS status"
  by (simp_all add: opens_in_order_def)

lemma ResolveContextMaximumAllowed_ok:
  "ResolveContextMaximumAllowed io cc w ctx h acc = (w1, ctx1, status) \<Longrightarrow> context_ok os opened ctx \<Longrightarrow> context_ok os opened ctx1"
  by (auto simp: ResolveContextMaximumAllowed_def Let_def split: prod.splits if_splits option.splits dest!: CloseContextHandle_closed
      intro: context_ok_closed)

lemma finish_open_in_order: "in_order os opened a mt ctx \<Longrightarrow> opens_in_order a (Finished (finish_open os io cc cfg mt ctx))"
  by (auto simp: finish_open_def in_order_def split: prod.splits)

lemma new_context_ok: "CreateFileW io w (WithExtendedPrefix os (ctxActualPath ctx)) acc share disposition flags = (w1, Inr h) \<Longrightarrow>
    \<not> ctxHandleNeedsReopen ctx \<Longrightarrow> context_ok os opened (ctx\<lparr>ctxHandle := Some h\<rparr>)"
  by (auto simp: context_ok_def dest: opens)

lemma OpenRoot_in_order:
  assumes "activeHandles mt = a"
  shows "opens_in_order a (Finished (OpenRoot os io cc cfg mt acc options pid))"
proof -
  let ?ctx = "new_FileContext\<lparr>ctxActualPath := upperPath cfg, ctxIsDirectory := True, ctxWritable := True, ctxOwnerPid := pid,
            ctxCreateOptions := options\<rparr> :: 'b FileContext"
  have "in_order os opened a (set_mt_disk mt w2) ctx1"
    if "CreateFileW io w (WithExtendedPrefix os (upperPath cfg)) x y z f = (w1, Inr h)"
      and "ResolveContextMaximumAllowed io cc w1 (?ctx\<lparr>ctxHandle := Some h\<rparr>) h acc = (w2, ctx1, status)" for w x y z f w1 h w2 ctx1 status
    using that assms ResolveContextMaximumAllowed_ok [OF that(2)] new_context_ok [of w ?ctx x y z f w1 h]
    by (simp add: in_order_def new_FileContext_def)
  then show ?thesis
    using assms by (auto simp: OpenRoot_def ForWin32_def Let_def split: prod.splits sum.splits intro!: finish_open_in_order)
qed

lemma SetOpenPath_in_order:
  assumes "activeHandles mt = a" "ctxHandle ctx = None"
  shows "yields (\<lambda>(mt1, ctx1, status). activeHandles mt1 = a \<and> ctxHandle ctx1 = None) (SetOpenPath os io n cfg clk mt p hit ctx)"
proof -
  have up: "yields (\<lambda>(mt1, ctx1, status). activeHandles mt1 = a \<and> ctxHandle ctx1 = None) (CopyUpForHandle os io n cfg clk mt p ctx limit)" for limit
    unfolding CopyUpForHandle_def Let_def using assms by (auto intro!: yields_and_then [OF on_copy_up_keeps])
  show ?thesis unfolding SetOpenPath_def if_ok_def using assms by (auto intro!: yields_and_then [OF up])
qed

lemma open_resolved_in_order:
  assumes "activeHandles mt = a" "ctxHandle ctx = None"
  shows "opens_in_order a (open_resolved os io cc n cfg clk mt p hit ctx)"
proof -
  have opened: "steps_in_order os opened a (let (w3, ctx3, status) = OpenContextHandleWithAccess os io (mt_disk mt2) ctx2 acc in
      Finished (set_mt_disk mt2 w3, ctx3, status))" if "in_order os opened a mt2 ctx2" for mt2 ctx2 acc
    using that OpenContextHandleWithAccess_ok [of "mt_disk mt2" ctx2 acc] by (auto simp: in_order_def split: prod.splits)
  have path: "steps_in_order os opened a (SetOpenPath os io n cfg clk mt p hit ctx)"
    unfolding steps_in_order_def by (rule yields_mono [OF SetOpenPath_in_order [OF assms]]) (auto intro: in_order_closed)
  have "steps_in_order os opened a
     (if_ok (SetOpenPath os io n cfg clk mt p hit ctx)
         (\<lambda>mt1 ctx1.
            if_ok
              (FillShellForDataAccess os io n cfg mt1 p (if source hit = Upper then ReadMetacopyFlag os cfg mt1 p ctx1 else ctx1))
              (\<lambda>mt2 ctx2.
                 let (w3, ctx3, status) =
                       OpenContextHandleWithAccess os io (mt_disk mt2) ctx2 (ComputePhysicalHandleAccess (ctxGrantedAccess ctx2)) in
                 Finished (set_mt_disk mt2 w3, ctx3, status))))"
    by (intro if_ok_in_order path opened FillShellForDataAccess_in_order) (auto intro: ReadMetacopyFlag_in_order)
  then show ?thesis
    unfolding open_resolved_def opens_in_order_def steps_in_order_def
    by (rule yields_and_then)
       (use finish_open_in_order in \<open>auto simp: opens_in_order_def in_order_def\<close>)
qed

lemma opens_cases:
  "(b \<Longrightarrow> opens_in_order a r1) \<Longrightarrow> (\<not> b \<Longrightarrow> opens_in_order a r2) \<Longrightarrow> opens_in_order a (if b then r1 else r2)"
  "opens_in_order a r1 \<Longrightarrow> (\<And>x y. opens_in_order a (f x y)) \<Longrightarrow> opens_in_order a (case z of None \<Rightarrow> r1 | Some (x, y) \<Rightarrow> f x y)"
  "activeHandles mt = a \<Longrightarrow> (\<And>mt1 status view. activeHandles mt1 = a \<Longrightarrow> opens_in_order a (k1 mt1 status view)) \<Longrightarrow>
     opens_in_order a (case mt_walk os cfg clk mt p l of (mt1, status, view) \<Rightarrow> k1 mt1 status view)"
  "activeHandles mt = a \<Longrightarrow> (\<And>mt1 hit. activeHandles mt1 = a \<Longrightarrow> opens_in_order a (k2 mt1 hit)) \<Longrightarrow>
     opens_in_order a (case mt_lookup os cfg clk mt p of (mt1, hit) \<Rightarrow> k2 mt1 hit)"
  "activeHandles mt = a \<Longrightarrow> (\<And>mt1 allow. activeHandles mt1 = a \<Longrightarrow> opens_in_order a (k3 mt1 allow)) \<Longrightarrow>
     opens_in_order a (case mt_allows os pc clk mt pid p op of (mt1, allow) \<Rightarrow> k3 mt1 allow)"
  "(\<And>w1 status acc. opens_in_order a (k4 w1 status acc)) \<Longrightarrow>
     opens_in_order a (case ResolveMaximumAllowed os io cc w p d acc' of (w1, status, acc) \<Rightarrow> k4 w1 status acc)"
  by (auto split: option.splits prod.splits dest: lookups_keep)

lemma opens_without_context: "activeHandles mt = a \<Longrightarrow> opens_in_order a (Finished (mt, None, status, info))"
  by simp

lemma set_disk_active: "activeHandles mt = a \<Longrightarrow> activeHandles (set_mt_disk mt w) = a"
  by simp

lemma new_context_closed:
  "ctxHandle (new_FileContext\<lparr>ctxRelativePath := a, ctxStreamSuffix := b, ctxIsDirectory := c, ctxEntryIsReparsePoint := d, ctxOwnerPid := e,
     ctxGrantedAccess := f, ctxCreateOptions := g\<rparr>) = None"
  by (simp add: new_FileContext_def)

lemma Open_in_order:
  assumes "activeHandles mt = a"
  shows "opens_in_order a (LayerMount_Open os io cc pc n cfg clk mt path acc options pid outputs)"
  unfolding LayerMount_Open_def Let_def
  by (intro opens_cases opens_without_context OpenRoot_in_order open_resolved_in_order new_context_closed set_disk_active assms) assumption+

lemma undo_keeps [simp]:
  "activeHandles (warn_create mt hr p m) = activeHandles mt" "activeHandles (undo_new_file os cc mt p r m) = activeHandles mt"
  by (simp_all add: warn_create_def undo_new_file_def split: prod.splits option.splits)

lemma FileRollback_keeps:
  "FileRollback_destroy os io cc mt ctx createdHost = (mt1, ctx1) \<Longrightarrow> activeHandles mt1 = activeHandles mt \<and> ctx1 = ctx\<lparr>ctxHandle := None\<rparr>"
  by (auto simp: FileRollback_destroy_def Let_def split: prod.splits option.splits dest: CloseContextHandle_closed)

lemma DirectoryRollback_keeps:
  assumes "DirectoryRollback_destroy os io cfg mt ctx opaqueDirectory = (mt1, ctx1)"
  shows "activeHandles mt1 = activeHandles mt \<and> ctx1 = ctx\<lparr>ctxHandle := None\<rparr>"
proof -
  obtain w1 c1 where close: "CloseContextHandle io (mt_disk mt) ctx = (w1, c1)" by force
  obtain mt2 where mt2: "mt2 = (case opaqueDirectory of
               None \<Rightarrow> set_mt_disk mt w1
             | Some d \<Rightarrow>
                 let (s, removed) = RemoveOpaque os cfg (mt_engine (set_mt_disk mt w1)) d; mt' = set_mt_engine (set_mt_disk mt w1) s in
                 if removed then mt'
                 else warn_create mt' E_FAIL (ctxRelativePath c1)
                        (wlit ''The undo of a failed create could not remove the new directory'' @ [wquote] @ wlit ''s opaque markers''))"
    by simp
  then have "activeHandles mt2 = activeHandles mt" by (simp add: Let_def split: option.splits prod.splits)
  then show ?thesis
    using assms CloseContextHandle_closed [OF close]
    unfolding DirectoryRollback_destroy_def close Let_def prod.case mt2 [unfolded Let_def, symmetric]
    by (auto split: prod.splits option.splits)
qed

lemma FinishCreatedEntry_keeps: "FinishCreatedEntry os cc cfg mt create ctx = (mt1, status, info) \<Longrightarrow> activeHandles mt1 = activeHandles mt"
  by (auto simp: FinishCreatedEntry_def Let_def split: prod.splits if_splits)

text \<open>A create that succeeds gives a context in order, and every create keeps the count.\<close>

definition creates_in_order :: "uint64 \<Rightarrow> 'w mount \<times> 'h FileContext \<times> ntstatus \<times> InternalFileInfo option \<Rightarrow> bool" where
  "creates_in_order a = (\<lambda>(mt, ctx, status, info). activeHandles mt = a \<and> (NT_SUCCESS status \<longrightarrow> context_ok os opened ctx))"

lemma creates_cases:
  "(b \<Longrightarrow> creates_in_order a r1) \<Longrightarrow> (\<not> b \<Longrightarrow> creates_in_order a r2) \<Longrightarrow> creates_in_order a (if b then r1 else r2)"
  "(\<And>x y. v = (x, y) \<Longrightarrow> creates_in_order a (k x y)) \<Longrightarrow> creates_in_order a (case v of (x, y) \<Rightarrow> k x y)"
  "(\<And>x. s = Inl x \<Longrightarrow> creates_in_order a (f x)) \<Longrightarrow> (\<And>y. s = Inr y \<Longrightarrow> creates_in_order a (g y)) \<Longrightarrow>
     creates_in_order a (case s of Inl x \<Rightarrow> f x | Inr y \<Rightarrow> g y)"
  "(z = None \<Longrightarrow> creates_in_order a r) \<Longrightarrow> (\<And>x. z = Some x \<Longrightarrow> creates_in_order a (h x)) \<Longrightarrow>
     creates_in_order a (case z of None \<Rightarrow> r | Some x \<Rightarrow> h x)"
  by (auto split: prod.splits sum.splits option.splits)

lemma creates_undo:
  assumes "activeHandles mt = a"
  shows "creates_in_order a (case FileRollback_destroy os io cc mt ctx createdHost of (mt1, ctx1) \<Rightarrow> (mt1, ctx1, status, info))"
    "creates_in_order a (case DirectoryRollback_destroy os io cfg mt ctx opaqueDirectory of (mt1, ctx1) \<Rightarrow> (mt1, ctx1, status, info))"
  using assms
  by (auto simp: creates_in_order_def split: prod.splits dest!: FileRollback_keeps DirectoryRollback_keeps intro!: context_ok_closed)

lemma creates_result:
  "activeHandles mt = a \<Longrightarrow> context_ok os opened ctx \<Longrightarrow> creates_in_order a (mt, ctx, status, info)"
  by (simp add: creates_in_order_def)

lemma created_context_ok:
  assumes "CreateFileW io w (WithExtendedPrefix os p) acc share disposition flags = (w1, v)" "v = Inr h"
    and "ResolveContextMaximumAllowed io cc w1 (ctx\<lparr>ctxHandle := Some h\<rparr>) h acc' = (w2, u)" "u = (ctx2, status)"
    and "p = ctxActualPath ctx" "\<not> ctxHandleNeedsReopen ctx"
  shows "context_ok os opened ctx2"
  using ResolveContextMaximumAllowed_ok new_context_ok assms by blast

lemma create_new_file_in_order:
  assumes "activeHandles mt = a" "ctxHandle ctx = None" "\<not> ctxHandleNeedsReopen ctx"
  shows "creates_in_order a (create_new_file os io cc cfg mt create ctx)"
  unfolding create_new_file_def Let_def
  apply (intro creates_undo creates_cases creates_result; (simp add: assms context_ok_closed FinishCreatedEntry_keeps; fail)?)
  subgoal premises p by (rule created_context_ok [OF p(1-4) refl assms(3)])
  done

lemma CreateDirectoryInUpper_in_order:
  assumes "activeHandles mt = a" "ctxHandle ctx = None" "\<not> ctxHandleNeedsReopen ctx" "ctxActualPath ctx = createUpperPath create"
  shows "creates_in_order a (CreateDirectoryInUpper os io cc cfg mt create ctx)"
  unfolding CreateDirectoryInUpper_def Let_def
  apply (intro creates_undo creates_cases creates_result; (simp add: assms context_ok_closed FinishCreatedEntry_keeps; fail)?)
  subgoal premises p
    by (rule created_context_ok [OF p(7-10) assms(4) [symmetric] assms(3)])
  done

lemma PrepareStreamHost_keeps: "activeHandles mt = a \<Longrightarrow> yields (\<lambda>(mt1, status). activeHandles mt1 = a) (PrepareStreamHost os io n cfg clk mt create)"
  using on_copy_up_keeps by (auto simp: PrepareStreamHost_def Let_def)

lemma CreateFileInUpper_in_order:
  assumes "activeHandles mt = a" "ctxHandle ctx = None" "\<not> ctxHandleNeedsReopen ctx"
  shows "yields (creates_in_order a) (CreateFileInUpper os io cc n cfg clk mt create ctx)"
proof -
  have "yields (\<lambda>(mt1, status). activeHandles mt1 = a)
      (if streamSuffix (createPath create) \<noteq> [] then PrepareStreamHost os io n cfg clk mt create else Finished (mt, STATUS_SUCCESS))"
    using assms(1) PrepareStreamHost_keeps by auto
  then show ?thesis
    unfolding CreateFileInUpper_def
    by (rule yields_and_then) (use assms(2,3) in \<open>auto intro!: create_new_file_in_order creates_result context_ok_closed\<close>)
qed

lemma CheckCreatePreconditions_keeps:
  "CheckCreatePreconditions os pc cfg clk mt request path = (mt1, status, resolution) \<Longrightarrow> activeHandles mt1 = activeHandles mt"
  by (auto simp: CheckCreatePreconditions_def Let_def split: prod.splits if_splits dest!: lookups_keep)

lemma directory_has_no_suffix:
  "CheckCreatePreconditions os pc cfg clk mt request path = (mt1, status, Some resolution) \<Longrightarrow> IsDirectoryCreate request \<Longrightarrow> streamSuffix path = []"
  by (auto simp: CheckCreatePreconditions_def Let_def split: prod.splits if_splits)

lemma ParseStreamPath_suffix: "ParseStreamPath os p = Some path \<Longrightarrow> streamSuffix path = [] \<longleftrightarrow> callerStreamSuffix path = []"
  by (auto simp: ParseStreamPath_def CaseFoldedName_def split: option.splits)

lemma create_in_upper_in_order:
  assumes "activeHandles mt = a" "ParseStreamPath os p = Some path"
    and "IsDirectoryCreate request \<Longrightarrow> streamSuffix path = []"
    and "BuildCreate cfg request path resolution upperFull = (create, ctx)"
  shows "yields (creates_in_order a) (if IsDirectoryCreate request then Finished (CreateDirectoryInUpper os io cc cfg mt create ctx)
      else CreateFileInUpper os io cc n cfg clk mt create ctx)"
proof -
  have ctx: "ctxHandle ctx = None" "\<not> ctxHandleNeedsReopen ctx"
    "ctxActualPath ctx = createUpperPath create @ callerStreamSuffix path"
    using assms(4) by (auto simp: BuildCreate_def new_FileContext_def)
  then show ?thesis
    using CreateDirectoryInUpper_in_order [OF assms(1) ctx(1,2)] CreateFileInUpper_in_order [OF assms(1) ctx(1,2)]
      assms(3) ParseStreamPath_suffix [OF assms(2)] by simp
qed

lemma create_checked_in_order:
  assumes "activeHandles mt = a" "ParseStreamPath os p = Some path" "IsDirectoryCreate request \<Longrightarrow> streamSuffix path = []"
  shows "opens_in_order a (create_checked os io cc n cfg clk mt request path resolution)"
proof -
  obtain create and ctx :: "'h FileContext"
    where build: "BuildCreate cfg request path resolution (GetUpperPathForNewEntry cfg (callerHost path)) = (create, ctx)" by force
  have "opens_in_order a (and_then
      (if IsDirectoryCreate request then Finished (CreateDirectoryInUpper os io cc cfg mt1 create ctx)
       else CreateFileInUpper os io cc n cfg clk mt1 create ctx)
      (\<lambda>(mt2, ctx2, createStatus, info).
         if \<not> NT_SUCCESS createStatus then Finished (mt2, None, createStatus, info)
         else
           let mt3 = mt_invalidate os mt2 (hostNorm path) in
           Finished (mt3\<lparr>activeHandles := activeHandles mt3 + 1\<rparr>, Some ctx2, STATUS_SUCCESS, info)))" if "activeHandles mt1 = a" for mt1
    unfolding opens_in_order_def
    by (rule yields_and_then [OF create_in_upper_in_order [OF that assms(2,3) build]])
       (auto simp: creates_in_order_def in_order_def Let_def)
  then show ?thesis
    unfolding create_checked_def opens_in_order_def build Let_def
    by (intro yields_and_then [OF on_copy_up_keeps]) (use assms(1) in auto)
qed

lemma Create_in_order:
  assumes "activeHandles mt = a"
  shows "opens_in_order a (LayerMount_Create os io cc pc n cfg clk mt request outputs)"
proof -
  have "opens_in_order a
      (case CheckCreatePreconditions os pc cfg clk mt1 req path of
         (mt2, precondition, None) \<Rightarrow> Finished (mt2, None, precondition, None)
       | (mt2, precondition, Some resolution) \<Rightarrow>
           if \<not> NT_SUCCESS precondition then Finished (mt2, None, precondition, None)
           else create_checked os io cc n cfg clk mt2 req path resolution)"
    if "activeHandles mt1 = a" "ParseStreamPath os p = Some path" for mt1 req path p
    using that CheckCreatePreconditions_keeps directory_has_no_suffix
    by (auto split: prod.splits option.splits intro!: create_checked_in_order)
  note checked = this
  obtain mt1 status view where walk: "mt_walk os cfg clk mt (requestPath request) (FinalLinkFor (requestOptions request)) = (mt1, status, view)"
    by (metis prod_cases3)
  then have mt1: "activeHandles mt1 = a" using assms lookups_keep(1) by metis
  show ?thesis
  proof (cases "ParseStreamPath os (viewText view)")
    case None
    then show ?thesis using assms mt1 by (simp add: LayerMount_Create_def walk Let_def)
  next
    case (Some path)
    then show ?thesis using assms mt1 checked [OF mt1 Some] by (simp add: LayerMount_Create_def walk Let_def)
  qed
qed

lemma Close_in_order:
  "LayerMount_Close io pc clk mt (Some ctx) = (mt1, c) \<Longrightarrow> activeHandles mt1 = activeHandles mt - 1"
  by (auto simp: LayerMount_Close_def Let_def split: prod.splits option.splits)

end

end
