(* ===== verification/Mount_Setup.thy ===== *)
theory Mount_Setup
  imports File_Context Engine_Runs
begin

text \<open>
  The checks of a layer configuration before it is mounted (\<^verbatim>\<open>LayerConfig::Validate\<close> and
  \<^verbatim>\<open>LayerConfig::Prepare\<close>) and the engine that is built from it (\<^verbatim>\<open>impl/LayerMount.cpp\<close>). The calls on volumes
  are the record \<open>volume_io\<close>. A result carries the text of \<open>error\<close>, which stays as it was on success. The
  warning about a volume without streams goes to the debugger, and the model lists the texts.
\<close>

section \<open>Services\<close>

record ('w, 'h) volume_io =
  GetVolumePathNameW :: "'w \<Rightarrow> wstring \<Rightarrow> wstring option"
  GetVolumeFileSystem :: "'w \<Rightarrow> wstring \<Rightarrow> wstring option"
  VolumeSerialNumber :: "'w \<Rightarrow> 'h \<Rightarrow> dword option"
  FileIdVolumeSerial :: "'w \<Rightarrow> 'h \<Rightarrow> uint64 option"

definition FILE_FLAG_DELETE_ON_CLOSE :: dword where "FILE_FLAG_DELETE_ON_CLOSE = 0x4000000"

section \<open>Validate\<close>

definition UpperIsWritable :: "('w, 'h) host \<Rightarrow> ('w, 'h) file_io \<Rightarrow> 'w \<Rightarrow> wstring \<Rightarrow> 'w \<times> bool" where
  "UpperIsWritable os io w upper =
     (case CreateFileW io w (JoinDirPath (ForWin32 os upper) (wlit ''.layermount_write_test'')) GENERIC_WRITE 0 CREATE_NEW
             (FILE_ATTRIBUTE_TEMPORARY OR FILE_FLAG_DELETE_ON_CLOSE) of
        (w1, Inl e) \<Rightarrow> (w1, False)
      | (w1, Inr probe) \<Rightarrow> (CloseHandle io w1 probe, True))"

definition WarnWhenUpperLacksAds :: "('w, 'h) host \<Rightarrow> ('w, 'h) volume_io \<Rightarrow> 'w \<Rightarrow> wstring \<Rightarrow> wstring list" where
  "WarnWhenUpperLacksAds os vol w upper =
     (case GetVolumePathNameW vol w (ForWin32 os upper) of
        None \<Rightarrow> []
      | Some volumeRoot \<Rightarrow>
          (case GetVolumeFileSystem vol w volumeRoot of
             None \<Rightarrow> []
           | Some fsName \<Rightarrow>
               if \<not> wcsicmp_eq fsName (wlit ''NTFS'') \<and> \<not> wcsicmp_eq fsName (wlit ''ReFS'')
               then [wlit ''[LayerMount] WARNING: Upper layer is not on NTFS/ReFS. NTFS Alternate Data Streams (ADS) will not be available.'' @ [10]]
               else []))"

fun validate_lowers :: "('w, 'h) host \<Rightarrow> 'w \<Rightarrow> wstring list \<Rightarrow> wstring option" where
  "validate_lowers os w [] = None"
| "validate_lowers os w (low # lowers) =
     (case GetFileAttributesW os w (ForWin32 os low) of
        Inl e \<Rightarrow> Some (wlit ''Lower layer path does not exist: '' @ low)
      | Inr attrs \<Rightarrow>
          if attrs AND FILE_ATTRIBUTE_DIRECTORY = 0 then Some (wlit ''Lower layer path is not a directory: '' @ low)
          else validate_lowers os w lowers)"

text \<open>The result, the text of \<open>error\<close> and the warnings.\<close>

definition Validate ::
  "('w, 'h) host \<Rightarrow> ('w, 'h) file_io \<Rightarrow> ('w, 'h) volume_io \<Rightarrow> 'w \<Rightarrow> LayerConfig \<Rightarrow> wstring \<Rightarrow> 'w \<times> bool \<times> wstring \<times> wstring list" where
  "Validate os io vol w cfg error =
     (case GetFileAttributesW os w (ForWin32 os (upperPath cfg)) of
        Inl e \<Rightarrow> (w, False, wlit ''Upper layer path does not exist: '' @ upperPath cfg, [])
      | Inr upperAttrs \<Rightarrow>
          if upperAttrs AND FILE_ATTRIBUTE_DIRECTORY = 0
          then (w, False, wlit ''Upper layer path is not a directory: '' @ upperPath cfg, [])
          else
            (case UpperIsWritable os io w (upperPath cfg) of
               (w1, False) \<Rightarrow> (w1, False, wlit ''Upper layer is not writable: '' @ upperPath cfg, [])
             | (w1, True) \<Rightarrow>
                 (case validate_lowers os w1 (lowerPaths cfg) of
                    Some text \<Rightarrow> (w1, False, text, [])
                  | None \<Rightarrow> (w1, True, error, WarnWhenUpperLacksAds os vol w1 (upperPath cfg)))))"

section \<open>Prepare\<close>

record VolumeSerial =
  serial :: dword
  wideSerial :: "uint64 option"

definition ReadVolumeSerial ::
  "('w, 'h) host \<Rightarrow> ('w, 'h) file_io \<Rightarrow> ('w, 'h) volume_io \<Rightarrow> 'w \<Rightarrow> wstring \<Rightarrow> 'w \<times> VolumeSerial option" where
  "ReadVolumeSerial os io vol w path =
     (case CreateFileW io w (ForWin32 os path) FILE_READ_ATTRIBUTES kShareAll OPEN_EXISTING FILE_FLAG_BACKUP_SEMANTICS of
        (w1, Inl e) \<Rightarrow> (w1, None)
      | (w1, Inr directory) \<Rightarrow>
          (CloseHandle io w1 directory,
           map_option (\<lambda>number. \<lparr>serial = number, wideSerial = FileIdVolumeSerial vol w1 directory\<rparr>) (VolumeSerialNumber vol w1 directory)))"

definition OnOneVolume :: "VolumeSerial \<Rightarrow> VolumeSerial \<Rightarrow> bool" where
  "OnOneVolume a b =
     (case (wideSerial a, wideSerial b) of (Some x, Some y) \<Rightarrow> x = y | _ \<Rightarrow> serial a = serial b)"

definition Prepare ::
  "('w, 'h) host \<Rightarrow> ('w, 'h) file_io \<Rightarrow> ('w, 'h) volume_io \<Rightarrow> 'w \<Rightarrow> LayerConfig \<Rightarrow> wstring \<Rightarrow> 'w \<times> 32 word \<times> wstring" where
  "Prepare os io vol w cfg error =
     (if workDirPath cfg = [] then (w, E_FAIL, wlit ''Work directory path is empty'')
      else
        (case CheckLayout os cfg error of
           (layout, error1) \<Rightarrow>
             if FAILED layout then (w, layout, error1)
             else
               (case EnsureDirectoryExists os w (ForWin32 os (workDirPath cfg)) of
                  (w1, False) \<Rightarrow> (w1, E_FAIL, wlit ''Failed to create work directory: '' @ workDirPath cfg)
                | (w1, True) \<Rightarrow>
                    (case ReadVolumeSerial os io vol w1 (upperPath cfg) of
                       (w2, None) \<Rightarrow> (w2, E_FAIL, wlit ''Failed to read the volume of the upper layer: '' @ upperPath cfg)
                     | (w2, Some upperVolume) \<Rightarrow>
                         (case ReadVolumeSerial os io vol w2 (workDirPath cfg) of
                            (w3, None) \<Rightarrow> (w3, E_FAIL, wlit ''Failed to read the volume of the work directory: '' @ workDirPath cfg)
                          | (w3, Some workVolume) \<Rightarrow>
                              if \<not> OnOneVolume upperVolume workVolume
                              then (w3, E_INVALIDARG, wlit ''Work directory is not on the volume of the upper layer: '' @ workDirPath cfg)
                              else (w3, S_OK, error1))))))"

section \<open>The engine\<close>

text \<open>
  The constructor of \<^verbatim>\<open>LayerMount\<close>. \<open>Inl ()\<close> is the exception of a rules file that did not load, or one that
  its reader throws.
\<close>

definition new_LayerMount :: "('w, 'h) host \<Rightarrow> ('p, 's) process_calls \<Rightarrow> 'w \<Rightarrow> LayerConfig \<Rightarrow> unit + 'w mount" where
  "new_LayerMount os pc w cfg =
     (let mount = (\<lambda>tracker.
        \<lparr>mtLayer =
           \<lparr>lmState =
              \<lparr>cuEngine = \<lparr>engineDisk = w, engineCache = new_Cache (pathCacheCapacity cfg), engineEvents = []\<rparr>,
               workCounter = 0, copyUpCount = 0, inFlightCopyUps = [], fillFailure = None\<rparr>,
            lmTracker = tracker\<rparr>,
         upperFinalPath = FinalPathOfDirectory os w (upperPath cfg), readCount = 0, writeCount = 0, activeHandles = 0, bytesRead = 0,
         bytesWritten = 0\<rparr>) in
      if \<not> enableProcessTracking cfg then Inr (mount None)
      else (case TryMakeProcessTracker os pc cfg of Some (Some t) \<Rightarrow> Inr (mount (Some t)) | _ \<Rightarrow> Inl ()))"

text \<open>A new mount on a disk with one file.\<close>

definition file_disk :: mem_disk where
  "file_disk =
     [(on_disk sample_upper, mem_dir),
      (on_disk (JoinDirPath sample_upper (wlit ''f'')), mem_file [1, 2, 3])]"

definition file_config :: LayerConfig where
  "file_config = sample_config\<lparr>lowerPaths := []\<rparr>"

definition file_mount :: "mem_disk mount" where
  "file_mount =
     \<lparr>mtLayer = sample_mount file_disk, upperFinalPath = FinalPathOfDirectory mem_host file_disk sample_upper, readCount = 0, writeCount = 0,
      activeHandles = 0, bytesRead = 0, bytesWritten = 0\<rparr>"

lemma file_mount_new: "new_LayerMount mem_host sample_calls file_disk file_config = Inr file_mount"
  by (simp add: new_LayerMount_def file_mount_def sample_mount_def sample_copy_up_def file_config_def sample_config_def)

end
