(* ===== verification/Create_Undo.thy ===== *)
theory Create_Undo
  imports Context_Runs Mount_Setup
begin

text \<open>
  The undo of a create that fails (\<^verbatim>\<open>FileRollback\<close> and \<^verbatim>\<open>DirectoryRollback\<close> of LayerMount.cpp): every failure after
  the new entry is on the disk takes the entry away again, or the mount emits a warning that names it.
\<close>

section \<open>The undo of a create\<close>

definition absent :: "('w, 'h) host \<Rightarrow> 'w \<Rightarrow> wstring \<Rightarrow> bool" where
  "absent os w p \<longleftrightarrow> (\<exists>e. GetFileAttributesW os w (WithExtendedPrefix os p) = Inl e)"

text \<open>
  What the undo relies on: a delete that succeeds leaves no entry under its name; a delete, a change of
  attributes or a create that fails makes no entry.
\<close>

locale create_calls =
  fixes os :: "('w, 'h) host" and io :: "('w, 'h) file_io" and cc :: "('w, 'h) context_io"
  assumes delete_gone: "DeleteFileW os w p = (w', None) \<Longrightarrow> \<exists>e. GetFileAttributesW os w' p = Inl e"
    and delete_keeps: "DeleteFileW os w q = (w', r) \<Longrightarrow> GetFileAttributesW os w p = Inl e \<Longrightarrow> \<exists>e. GetFileAttributesW os w' p = Inl e"
    and attributes_keep: "SetAttributesByPath cc w q a = (w', r) \<Longrightarrow> GetFileAttributesW os w p = Inl e \<Longrightarrow> \<exists>e. GetFileAttributesW os w' p = Inl e"
    and directory_gone: "RemoveDirectoryW os w p = (w', None) \<Longrightarrow> \<exists>e. GetFileAttributesW os w' p = Inl e"
    and failed_create: "CreateFileW io w q acc share disposition flags = (w', Inl e) \<Longrightarrow> GetFileAttributesW os w p = Inl e1 \<Longrightarrow>
      \<exists>e. GetFileAttributesW os w' p = Inl e"
    and failed_directory: "CreateDirectoryW os w q = (w', Some e) \<Longrightarrow> GetFileAttributesW os w p = Inl e1 \<Longrightarrow> \<exists>e. GetFileAttributesW os w' p = Inl e"

text \<open>The events of a state, and a warning about a path among the events since.\<close>

abbreviation mt_events :: "'w mount \<Rightarrow> lm_event list" where "mt_events mt \<equiv> engineEvents (mt_engine mt)"

definition warned :: "'w mount \<Rightarrow> 'w mount \<Rightarrow> wstring \<Rightarrow> bool" where
  "warned mt mt' p \<longleftrightarrow> (\<exists>ev \<in> set (drop (length (mt_events mt)) (mt_events mt')). evType ev = LM_EVT_WARNING \<and> evPath ev = p)"

lemma warned_cong: "mt_events mt = mt_events mt1 \<Longrightarrow> warned mt mt' p = warned mt1 mt' p"
  by (simp add: warned_def)

lemma state_events [simp]:
  "mt_events (set_mt_disk mt w) = mt_events mt" "mt_engine (set_mt_engine mt s) = s" "mt_engine (set_mt_disk mt w) = (mt_engine mt)\<lparr>engineDisk := w\<rparr>"
  by (simp_all add: set_mt_disk_def set_mt_engine_def set_disk_def set_engine_def)

lemma warn_create_events:
  "mt_events (warn_create mt hr p m) = mt_events mt @ [\<lparr>evType = LM_EVT_WARNING, evResult = hr, evPath = p, evMessage = m, evPid = 0\<rparr>]"
  "mt_disk (warn_create mt hr p m) = mt_disk mt"
  by (simp_all add: warn_create_def Emit_def)

lemma marker_events:
  "SetOpaque os cfg s p = (s', st) \<Longrightarrow> engineEvents s' = engineEvents s"
  "RemoveOpaque os cfg s p = (s', removed) \<Longrightarrow> engineEvents s' = engineEvents s"
  "RemoveWhiteout os cfg s p = (s', st) \<Longrightarrow> engineEvents s' = engineEvents s"
  by (auto simp: SetOpaque_def RemoveOpaque_def RemoveWhiteout_def Let_def split: prod.splits if_splits option.splits LinkOnPath.splits)

context create_calls
begin

lemma DeleteCreatedFile_gone: "DeleteCreatedFile os cc w p = (w', None) \<Longrightarrow> absent os w' p"
  by (auto simp: DeleteCreatedFile_def absent_def Let_def split: prod.splits option.splits sum.splits if_splits dest: delete_gone)

lemma DeleteCreatedFile_absent: "DeleteCreatedFile os cc w q = (w', r) \<Longrightarrow> absent os w p \<Longrightarrow> absent os w' p"
  unfolding DeleteCreatedFile_def absent_def Let_def
  by (auto split: prod.splits option.splits sum.splits if_splits dest: delete_keeps attributes_keep)

lemma undo_new_file_effect:
  assumes "undo_new_file os cc mt p r m = mt'"
  shows "(absent os (mt_disk mt') p \<and> mt_events mt' = mt_events mt) \<or>
    (\<exists>hr. mt_events mt' = mt_events mt @ [\<lparr>evType = LM_EVT_WARNING, evResult = hr, evPath = r, evMessage = m, evPid = 0\<rparr>])"
  using assms DeleteCreatedFile_gone
  by (auto simp: undo_new_file_def warn_create_events split: prod.splits option.splits)

lemma undo_new_file_absent: "absent os (mt_disk mt) p \<Longrightarrow> absent os (mt_disk (undo_new_file os cc mt q r m)) p"
  using DeleteCreatedFile_absent by (auto simp: undo_new_file_def warn_create_events split: prod.splits option.splits)

lemma FileRollback_undone:
  assumes "FileRollback_destroy os io cc mt ctx createdHost = (mt', ctx')"
  shows "absent os (mt_disk mt') (ctxActualPath ctx) \<or> warned mt mt' (ctxRelativePath ctx)"
    and "createdHost = Some p \<Longrightarrow> absent os (mt_disk mt') p \<or> warned mt mt' (ctxRelativePath ctx)"
proof -
  obtain w1 ctx1 where c: "CloseContextHandle io (mt_disk mt) ctx = (w1, ctx1)" by force
  define m1 where "m1 = undo_new_file os cc (set_mt_disk mt w1) (ctxActualPath ctx) (ctxRelativePath ctx) (wlit ''The undo of a failed create could not delete the new entry'')"
  have one: "(absent os (mt_disk m1) (ctxActualPath ctx) \<and> mt_events m1 = mt_events mt) \<or>
      (\<exists>hr msg. mt_events m1 = mt_events mt @ [\<lparr>evType = LM_EVT_WARNING, evResult = hr, evPath = ctxRelativePath ctx, evMessage = msg, evPid = 0\<rparr>])"
    using undo_new_file_effect [OF m1_def [symmetric]] by auto
  have "(absent os (mt_disk mt') (ctxActualPath ctx) \<or> warned mt mt' (ctxRelativePath ctx)) \<and>
      (createdHost = Some p \<longrightarrow> absent os (mt_disk mt') p \<or> warned mt mt' (ctxRelativePath ctx))"
  proof (cases createdHost)
    case None
    then show ?thesis using assms one CloseContextHandle_closed [OF c] by (auto simp: FileRollback_destroy_def c warned_def m1_def Let_def)
  next
    case (Some q)
    define m2 where "m2 = undo_new_file os cc m1 q (ctxRelativePath ctx) (wlit ''The undo of a failed stream create could not delete its new host file'')"
    have m2: "mt' = m2" using assms CloseContextHandle_closed [OF c] by (simp add: FileRollback_destroy_def c Some Let_def m1_def m2_def)
    have two: "(absent os (mt_disk m2) q \<and> mt_events m2 = mt_events m1) \<or>
        (\<exists>hr msg. mt_events m2 = mt_events m1 @ [\<lparr>evType = LM_EVT_WARNING, evResult = hr, evPath = ctxRelativePath ctx, evMessage = msg, evPid = 0\<rparr>])"
      using undo_new_file_effect [OF m2_def [symmetric]] by auto
    have keep: "absent os (mt_disk m1) (ctxActualPath ctx) \<Longrightarrow> absent os (mt_disk m2) (ctxActualPath ctx)"
      unfolding m2_def by (rule undo_new_file_absent)
    show ?thesis using one two keep Some unfolding m2 warned_def by auto
  qed
  then show "absent os (mt_disk mt') (ctxActualPath ctx) \<or> warned mt mt' (ctxRelativePath ctx)"
    and "createdHost = Some p \<Longrightarrow> absent os (mt_disk mt') p \<or> warned mt mt' (ctxRelativePath ctx)" by auto
qed

lemma DirectoryRollback_undone:
  assumes "DirectoryRollback_destroy os io cfg mt ctx opaqueDirectory = (mt', ctx')"
  shows "absent os (mt_disk mt') (ctxActualPath ctx) \<or> warned mt mt' (ctxRelativePath ctx)"
proof -
  obtain w1 ctx1 where c: "CloseContextHandle io (mt_disk mt) ctx = (w1, ctx1)" by force
  define m2 where "m2 = (case opaqueDirectory of
      None \<Rightarrow> set_mt_disk mt w1
    | Some d \<Rightarrow>
        let (s, removed) = RemoveOpaque os cfg (mt_engine (set_mt_disk mt w1)) d; mt' = set_mt_engine (set_mt_disk mt w1) s in
        if removed then mt'
        else warn_create mt' E_FAIL (ctxRelativePath ctx)
               (wlit ''The undo of a failed create could not remove the new directory'' @ [wquote] @ wlit ''s opaque markers''))"
  have grows: "\<exists>evs. mt_events m2 = mt_events mt @ evs"
  proof (cases opaqueDirectory)
    case (Some d)
    obtain s removed where r: "RemoveOpaque os cfg (mt_engine (set_mt_disk mt w1)) d = (s, removed)" by force
    then show ?thesis using marker_events(2) [OF r] by (simp add: m2_def Some Let_def warn_create_events)
  qed (simp add: m2_def)
  obtain w3 r where d: "RemoveDirectoryW os (mt_disk m2) (WithExtendedPrefix os (ctxActualPath ctx)) = (w3, r)" by force
  have final: "mt' = (case r of None \<Rightarrow> set_mt_disk m2 w3
      | Some e \<Rightarrow> warn_create (set_mt_disk m2 w3) (HresultOfFailedCall e) (ctxRelativePath ctx)
          (wlit ''The undo of a failed create could not remove the new directory''))"
  proof -
    have names: "ctxActualPath ctx1 = ctxActualPath ctx" "ctxRelativePath ctx1 = ctxRelativePath ctx"
      using CloseContextHandle_closed [OF c] by simp_all
    have "DirectoryRollback_destroy os io cfg mt ctx opaqueDirectory =
        (case RemoveDirectoryW os (mt_disk m2) (WithExtendedPrefix os (ctxActualPath ctx)) of
           (w3, None) \<Rightarrow> (set_mt_disk m2 w3, ctx1)
         | (w3, Some e) \<Rightarrow>
             (warn_create (set_mt_disk m2 w3) (HresultOfFailedCall e) (ctxRelativePath ctx)
                (wlit ''The undo of a failed create could not remove the new directory''), ctx1))"
      unfolding DirectoryRollback_destroy_def m2_def Let_def c prod.case names ..
    then show ?thesis using assms by (cases r) (simp_all only: d prod.case option.case prod.inject)
  qed
  show ?thesis
    using final grows directory_gone [of "mt_disk m2" "WithExtendedPrefix os (ctxActualPath ctx)" w3] d
    by (cases r) (auto simp: warned_def absent_def warn_create_events)
qed

end

section \<open>Creates that fail\<close>

definition undone :: "('w, 'h) host \<Rightarrow> 'w mount \<Rightarrow> wstring \<Rightarrow> wstring \<Rightarrow> 'w mount \<times> 'h FileContext \<times> ntstatus \<times> InternalFileInfo option \<Rightarrow> bool" where
  "undone os mt q p = (\<lambda>(mt', ctx, status, info). \<not> NT_SUCCESS status \<longrightarrow> absent os (mt_disk mt') q \<or> warned mt mt' p)"

lemma undone_cases:
  "(b \<Longrightarrow> undone os mt q p r1) \<Longrightarrow> (\<not> b \<Longrightarrow> undone os mt q p r2) \<Longrightarrow> undone os mt q p (if b then r1 else r2)"
  "(\<And>x y. v = (x, y) \<Longrightarrow> undone os mt q p (k x y)) \<Longrightarrow> undone os mt q p (case v of (x, y) \<Rightarrow> k x y)"
  "(\<And>x. s = Inl x \<Longrightarrow> undone os mt q p (f x)) \<Longrightarrow> (\<And>y. s = Inr y \<Longrightarrow> undone os mt q p (g y)) \<Longrightarrow>
     undone os mt q p (case s of Inl x \<Rightarrow> f x | Inr y \<Rightarrow> g y)"
  "(z = None \<Longrightarrow> undone os mt q p r) \<Longrightarrow> (\<And>x. z = Some x \<Longrightarrow> undone os mt q p (h x)) \<Longrightarrow>
     undone os mt q p (case z of None \<Rightarrow> r | Some x \<Rightarrow> h x)"
  by (auto split: prod.splits sum.splits option.splits)

lemma undone_success: "NT_SUCCESS status \<Longrightarrow> undone os mt q p (mt', ctx, status, info)"
  by (simp add: undone_def)

lemma undone_at_once: "absent os (mt_disk mt') q \<Longrightarrow> undone os mt q p (mt', ctx, status, info)"
  by (simp add: undone_def)

lemma ResolveContextMaximumAllowed_names:
  "ResolveContextMaximumAllowed io cc w ctx h acc = (w1, ctx1, status) \<Longrightarrow>
     ctxActualPath ctx1 = ctxActualPath ctx \<and> ctxRelativePath ctx1 = ctxRelativePath ctx"
  by (auto simp: ResolveContextMaximumAllowed_def Let_def split: prod.splits if_splits option.splits dest!: CloseContextHandle_closed)

lemma FinishCreatedEntry_events: "FinishCreatedEntry os cc cfg mt create ctx = (mt1, status, info) \<Longrightarrow> mt_events mt1 = mt_events mt"
  by (auto simp: FinishCreatedEntry_def Let_def split: prod.splits if_splits dest!: marker_events(3))

text \<open>The host that a stream create makes: it is not on the disk before.\<close>

definition makes_host :: "('w, 'h) host \<Rightarrow> 'w mount \<Rightarrow> UpperCreate \<Rightarrow> bool" where
  "makes_host os mt create \<longleftrightarrow> streamSuffix (createPath create) \<noteq> [] \<and>
     (\<exists>e \<in> {ERROR_FILE_NOT_FOUND, ERROR_PATH_NOT_FOUND}. GetFileAttributesW os (mt_disk mt) (WithExtendedPrefix os (createUpperPath create)) = Inl e)"

lemma makes_host_absent: "makes_host os mt create \<Longrightarrow> absent os (mt_disk mt) (createUpperPath create)"
  by (auto simp: makes_host_def absent_def)

context create_calls
begin

lemma undone_file:
  assumes "mt_events mt' = mt_events mt" "ctxRelativePath ctx' = p"
    and "q = ctxActualPath ctx' \<or> createdHost = Some q"
  shows "undone os mt q p (case FileRollback_destroy os io cc mt' ctx' createdHost of (mt1, ctx1) \<Rightarrow> (mt1, ctx1, status, info))"
  using assms FileRollback_undone(1) [of mt' ctx' createdHost] FileRollback_undone(2) [of mt' ctx' createdHost _ _ q] warned_cong [OF assms(1)]
  by (auto simp: undone_def split: prod.splits)

lemma undone_directory:
  assumes "mt_events mt' = mt_events mt" "ctxRelativePath ctx' = p" "q = ctxActualPath ctx'"
  shows "undone os mt q p (case DirectoryRollback_destroy os io cfg mt' ctx' d of (mt1, ctx1) \<Rightarrow> (mt1, ctx1, status, info))"
  using assms DirectoryRollback_undone [of cfg mt' ctx' d] warned_cong [OF assms(1)]
  by (auto simp: undone_def split: prod.splits)

lemma create_new_file_undone:
  assumes "absent os (mt_disk mt) q" "q = ctxActualPath ctx \<or> makes_host os mt create \<and> q = createUpperPath create"
  shows "undone os mt q (ctxRelativePath ctx) (create_new_file os io cc cfg mt create ctx)"
proof -
  have host: "q = ctxActualPath ctx \<or> (if streamSuffix (createPath create) \<noteq> [] \<and>
        (case GetFileAttributesW os (mt_disk mt) (WithExtendedPrefix os (createUpperPath create)) of
           Inl hostError \<Rightarrow> hostError = ERROR_FILE_NOT_FOUND \<or> hostError = ERROR_PATH_NOT_FOUND | Inr a \<Rightarrow> False)
      then Some (createUpperPath create) else None) = Some q"
    using assms(2) by (auto simp: makes_host_def)
  show ?thesis
    unfolding create_new_file_def Let_def
    apply (intro undone_file undone_cases; (rule undone_success, simp; fail)?)
    subgoal using assms(1) by (intro undone_at_once) (auto simp: absent_def dest: failed_create)
    by ((insert host, hypsubst?, (drule FinishCreatedEntry_events)?, (drule ResolveContextMaximumAllowed_names)?, simp; fail)+)
qed

lemma CreateDirectoryInUpper_undone:
  assumes "absent os (mt_disk mt) (ctxActualPath ctx)" "ctxActualPath ctx = createUpperPath create"
  shows "undone os mt (ctxActualPath ctx) (ctxRelativePath ctx) (CreateDirectoryInUpper os io cc cfg mt create ctx)"
proof -
  have set: "engineEvents s = mt_events mt" if "(if b then SetOpaque os cfg (mt_engine (set_mt_disk mt w)) d else (mt_engine (set_mt_disk mt w), STATUS_SUCCESS)) = (s, st)" for b w d s st
    using that marker_events(1) [of os cfg "mt_engine (set_mt_disk mt w)" d s st] by (auto split: if_splits)
  show ?thesis
    unfolding CreateDirectoryInUpper_def Let_def
    apply (intro undone_directory undone_cases; (rule undone_success, simp; fail)?)
    apply ((hypsubst?, (drule set)?, (drule FinishCreatedEntry_events)?, (drule ResolveContextMaximumAllowed_names)?, simp; fail)+)
    using assms(1) by (intro undone_at_once) (auto simp: absent_def dest: failed_directory)
qed

end

section \<open>The in-memory disk\<close>

lemma mem_create_calls: "SetAttributesByPath cc = SetAttributesByPath mem_context_io \<Longrightarrow> create_calls mem_host mem_io cc"
  by unfold_locales
    (auto simp: mem_host_def mem_io_def mem_context_io_def mem_attributes_def mem_delete_def mem_create_file_def mem_create_def mem_update_def
      delete_conv' update_conv' Let_def dom_map_of_conv_image_fst [symmetric] split: option.splits if_splits prod.splits)

interpretation mem_creates: create_calls mem_host mem_io mem_context_io
  by (rule mem_create_calls) simp

text \<open>
  C9: Create is all or nothing on the disk. Take an entry that is not there when the new file, stream or directory is made. If the
  create fails at any step (the create call itself, the query of the granted access, the security descriptor, the allocation
  size, the opaque marker, the open of the new directory, the query of the new entry's data, the removal of the whiteout), then
  afterwards the entry is not there either, or the mount has emitted a warning that names the path; for a stream whose create made
  the host file, the same holds of the host.
\<close>

theorem failed_create_leaves_nothing:
  assumes "create_calls os io cc" "absent os (mt_disk mt) (ctxActualPath ctx)"
  shows "(create_new_file os io cc cfg mt create ctx = (mt', ctx', status, info) \<longrightarrow> \<not> NT_SUCCESS status \<longrightarrow>
      (absent os (mt_disk mt') (ctxActualPath ctx) \<or> warned mt mt' (ctxRelativePath ctx)) \<and>
      (makes_host os mt create \<longrightarrow> absent os (mt_disk mt') (createUpperPath create) \<or> warned mt mt' (ctxRelativePath ctx))) \<and>
    (CreateDirectoryInUpper os io cc cfg mt create ctx = (mt', ctx', status, info) \<longrightarrow> \<not> NT_SUCCESS status \<longrightarrow>
      ctxActualPath ctx = createUpperPath create \<longrightarrow>
      absent os (mt_disk mt') (ctxActualPath ctx) \<or> warned mt mt' (ctxRelativePath ctx))"
  using create_calls.create_new_file_undone [OF assms(1), of mt "ctxActualPath ctx" ctx create cfg]
    create_calls.create_new_file_undone [OF assms(1), of mt "createUpperPath create" ctx create cfg]
    create_calls.CreateDirectoryInUpper_undone [OF assms, of create cfg] assms(2) makes_host_absent [of os mt create]
  by (auto simp: undone_def)

text \<open>A create of the file \<^verbatim>\<open>g\<close> whose new handle cannot be queried.\<close>

definition unreadable_calls :: "(mem_disk, wstring) context_io" where
  "unreadable_calls = mem_context_io\<lparr>HandleInfo := (\<lambda>w h. Inl ERROR_ACCESS_DENIED)\<rparr>"

definition create_request :: CreateRequest where
  "create_request = \<lparr>requestPath = wlit ''g'', requestOptions = 0, requestAccess = GENERIC_WRITE, requestAttributes = 0,
     requestDescriptor = None, requestAllocation = 0, requestPid = 0\<rparr>"

definition create_parts :: "UpperCreate \<times> wstring FileContext" where
  "create_parts =
     (let path = the (ParseStreamPath mem_host (wlit ''g'')) in
      BuildCreate file_config create_request path
        (snd (ResolveForCreate mem_host file_disk file_config 0 (new_Cache 8) (hostNorm path)))
        (GetUpperPathForNewEntry file_config (callerHost path)))"

definition failed_create :: "mem_disk mount \<times> wstring FileContext \<times> ntstatus \<times> InternalFileInfo option" where
  "failed_create = create_new_file mem_host mem_io unreadable_calls file_config file_mount (fst create_parts) (snd create_parts)"

lemma failed_create_runs: "\<not> NT_SUCCESS (fst (snd (snd failed_create)))"
  by code_simp

theorem failed_create_leaves_nothing_witness:
  "\<not> NT_SUCCESS (fst (snd (snd failed_create))) \<and>
   (absent mem_host (mt_disk (fst failed_create)) (ctxActualPath (snd create_parts)) \<or>
      warned file_mount (fst failed_create) (ctxRelativePath (snd create_parts)))"
proof -
  have calls: "create_calls mem_host mem_io unreadable_calls" by (rule mem_create_calls) (simp add: unreadable_calls_def)
  have "GetFileAttributesW mem_host (mt_disk file_mount) (WithExtendedPrefix mem_host (ctxActualPath (snd create_parts))) = Inl ERROR_FILE_NOT_FOUND"
    by code_simp
  then have missing: "absent mem_host (mt_disk file_mount) (ctxActualPath (snd create_parts))" unfolding absent_def by blast
  obtain mt ctx status info where run: "failed_create = (mt, ctx, status, info)" by (cases failed_create) blast
  have failed: "\<not> NT_SUCCESS status" using failed_create_runs unfolding run prod.sel .
  from failed_create_leaves_nothing [OF calls missing, THEN conjunct1, rule_format, OF run [unfolded failed_create_def] failed]
  show ?thesis using failed unfolding run prod.sel by blast
qed

end
