(* ===== verification/File_Bytes.thy ===== *)
theory File_Bytes
  imports Context_Runs Mount_Setup
begin

text \<open>
  The bytes of an open file: what a write stores and a read gives back, and the extent of a constrained write.
\<close>

section \<open>What a write does\<close>

text \<open>A write that reports bytes wrote them through the handle of the context, at the extent for the size of the file.\<close>

definition wrote ::
  "('w, 'h) host \<Rightarrow> ('w, 'h) context_io \<Rightarrow> byte list \<Rightarrow> (nat \<Rightarrow> (uint64 \<times> dword) option) \<Rightarrow> 'w mount \<times> 'h FileContext \<times> ntstatus \<times> dword option \<times> 'i \<Rightarrow> bool" where
  "wrote os cc buffer extent = (\<lambda>(mt, ctx, status, count, info). \<forall>k. count = Some k \<and> k \<noteq> 0 \<longrightarrow>
     (\<exists>h w fileSize p l m. ctxHandle ctx = Some h \<and> GetFileSizeEx os w h = Inr fileSize \<and> extent fileSize = Some (p, l) \<and>
        WriteAt cc w h p (take (unat l) buffer) = (mt_disk mt, Inr m) \<and> k = of_nat m))"

lemma write_step:
  "yields (wrote os cc buffer extent)
     (case handle_query (ctxHandle ctx) (GetFileSizeEx os (mt_disk mt)) of
        Inl e \<Rightarrow> Finished (mt, ctx, nt_status os e, None, None)
      | Inr fileSize \<Rightarrow>
          (case extent fileSize of
             None \<Rightarrow> finish_with_info os cc cfg mt ctx wantsInfo (Some 0)
           | Some (writeOffset, writeLen) \<Rightarrow>
               (case WriteAt cc (mt_disk mt) (the (ctxHandle ctx)) writeOffset (take (unat writeLen) buffer) of
                  (w5, Inl e) \<Rightarrow> Finished (set_mt_disk mt w5, ctx, nt_status os e, None, None)
                | (w5, Inr count) \<Rightarrow>
                    let mt5 = set_mt_disk mt w5;
                        mt6 = mt5\<lparr>writeCount := writeCount mt5 + 1, bytesWritten := bytesWritten mt5 + of_nat count\<rparr> in
                    finish_with_info os cc cfg mt6 ctx wantsInfo (Some (of_nat count)))))"
  by (cases "ctxHandle ctx")
    (auto simp: wrote_def handle_query_def finish_with_info_def Let_def split: sum.splits option.splits prod.splits, blast)

lemma Write_stores:
  "yields (\<lambda>(mt1, c, out). \<exists>ctx1. c = Some ctx1 \<and> wrote os cc buffer (\<lambda>z. write_extent z offset len writeToEnd constrainedIo) (mt1, ctx1, out))
    (LayerMount_Write os io cc pc n cfg clk mt (Some ctx) buffer offset len writeToEnd constrainedIo hasCount wantsInfo)"
proof -
  have none: "wrote os cc buffer extent (m, c, st, None, i)" for extent and m :: "'a mount" and c :: "'b FileContext" and st and i :: "InternalFileInfo option"
    by (simp add: wrote_def)
  show ?thesis
    unfolding LayerMount_Write_def with_context_def option.case if_allowed_def if_ok_out_def Let_def
    apply (rule yields_and_then [where Q = "wrote os cc buffer (\<lambda>z. write_extent z offset len writeToEnd constrainedIo)"])
    subgoal by (intro write_step [unfolded Let_def] yields_then(1) yields_cases(1,2) yields_simps(1) [THEN iffD2] none)
    subgoal by (auto split: prod.splits)
    done
qed

section \<open>Constrained writes\<close>

lemma write_extent_inside:
  assumes "write_extent fileSize offset len writeToEnd True = Some (p, l)" "fileSize < 2 ^ 63" "offset < 2 ^ 63"
  shows "p = offset \<and> unat p + unat l \<le> fileSize \<and> l \<le> len"
proof -
  let ?z = "of_nat fileSize :: uint64"
  have z: "unat ?z = fileSize" using assms(2) by (simp add: unsigned_of_nat take_bit_nat_eq_self)
  have signed: "sint x = int (unat x)" if "unat x < 2 ^ 63" for x :: uint64
    proof -
    have "int (unat x) < int (2 ^ 63)" using that by (subst of_nat_less_iff)
    then have less: "uint x < 2 ^ 63" by simp
    have "- (2 ^ 63 :: int) \<le> 0" "0 \<le> uint x" by simp_all
    then have "- (2 ^ 63) \<le> uint x" by (rule order_trans)
    from signed_take_bit_int_eq_self [OF this less] show ?thesis by (simp add: sint_uint)
  qed
  have small: "unat offset < 2 ^ 63" using assms(3) by (simp add: word_less_nat_alt)
  have "\<not> int fileSize \<le> int (unat offset)" and p: "p = offset" and l: "l = (if offset + ucast len > ?z then ucast (?z - offset) else len)"
    using assms(1) z signed [of ?z] signed [OF small] assms(2) by (auto simp: write_extent_def Let_def split: if_splits)
  then have lt: "unat offset < fileSize" by (subst (asm) of_nat_le_iff) simp
  have sum: "unat (offset + ucast len) = unat offset + unat len"
    using small unsigned_less [of len, where 'a = nat] by (simp add: unat_plus_if' unsigned_ucast_eq take_bit_nat_eq_self)
  show ?thesis
  proof (cases "offset + ucast len > ?z")
    case True
    then have over: "fileSize < unat offset + unat len" using sum z by (simp add: word_less_nat_alt)
    have diff: "unat (?z - offset) = fileSize - unat offset" using lt z by (simp add: unat_sub word_le_nat_alt)
    have "unat l = fileSize - unat offset" using True l over diff unsigned_less [of len, where 'a = nat] by (simp add: unsigned_ucast_eq take_bit_nat_eq_self)
    then show ?thesis using over lt p by (simp add: word_le_nat_alt)
  next
    case False
    then show ?thesis using sum z p l by (simp add: word_less_nat_alt)
  qed
qed

section \<open>Reading back\<close>




section \<open>The in-memory disk\<close>


text \<open>A context on the file of \<^const>\<open>file_mount\<close>, as an open with access to its data leaves it.\<close>

definition file_context :: "wstring FileContext" where
  "file_context = new_FileContext\<lparr>ctxRelativePath := wlit ''f'', ctxActualPath := JoinDirPath sample_upper (wlit ''f''),
     ctxHandle := Some (on_disk (JoinDirPath sample_upper (wlit ''f''))), ctxWritable := True\<rparr>"

definition write_file :: "bool \<Rightarrow> (mem_disk mount \<times> wstring FileContext option \<times> ntstatus \<times> dword option \<times> InternalFileInfo option) run" where
  "write_file constrainedIo =
     LayerMount_Write mem_host mem_io mem_context_io sample_calls 9 file_config sample_clocks file_mount (Some file_context) [8, 9] 2 2 False
       constrainedIo True False"

lemma write_file_runs:
  "\<exists>mt ctx. write_file False = Finished (mt, Some ctx, STATUS_SUCCESS, Some 2, None) \<and> lmTracker (mtLayer mt) = None"
  "\<exists>mt ctx. write_file True = Finished (mt, Some ctx, STATUS_SUCCESS, Some 1, None)"
proof -
  have "case write_file False of
      Finished (mt, Some ctx, status, count, info) \<Rightarrow> status = STATUS_SUCCESS \<and> count = Some 2 \<and> info = None \<and> lmTracker (mtLayer mt) = None
    | _ \<Rightarrow> False" by code_simp
  then show "\<exists>mt ctx. write_file False = Finished (mt, Some ctx, STATUS_SUCCESS, Some 2, None) \<and> lmTracker (mtLayer mt) = None"
    by (auto split: run.splits option.splits)
  have "case write_file True of
      Finished (mt, Some ctx, status, count, info) \<Rightarrow> status = STATUS_SUCCESS \<and> count = Some 1 \<and> info = None | _ \<Rightarrow> False" by code_simp
  then show "\<exists>mt ctx. write_file True = Finished (mt, Some ctx, STATUS_SUCCESS, Some 1, None)"
    by (auto split: run.splits option.splits)
qed

section \<open>Guarantees\<close>



text \<open>
  A constrained write stays inside the file. When the size of the file and the offset are within the range of a signed 64-bit
  position and a constrained write reports bytes, the bytes that it hands to the disk lie between the offset and the end of the file as it
  was before, and they are no more than the caller asked for; the length that is cut to 32 bits does not wrap.
\<close>

theorem constrained_write_stays_inside:
  assumes "LayerMount_Write os io cc pc n cfg clk mt (Some ctx) buffer offset len False True hasCount wantsInfo =
      Finished (mt1, Some ctx1, status, Some k, info)" "k \<noteq> 0" "offset < 2 ^ 63"
  shows "\<exists>h w z l m. ctxHandle ctx1 = Some h \<and> GetFileSizeEx os w h = Inr z \<and>
    WriteAt cc w h offset (take (unat l) buffer) = (mt_disk mt1, Inr m) \<and> k = of_nat m \<and>
    (z < 2 ^ 63 \<longrightarrow> unat offset + unat l \<le> z \<and> l \<le> len)"
proof -
  have "wrote os cc buffer (\<lambda>z. write_extent z offset len False True) (mt1, ctx1, status, Some k, info)"
    using yields_result [OF Write_stores assms(1)] by simp
  then obtain h w z p l m where x: "ctxHandle ctx1 = Some h" "GetFileSizeEx os w h = Inr z" "write_extent z offset len False True = Some (p, l)"
    "WriteAt cc w h p (take (unat l) buffer) = (mt_disk mt1, Inr m)" "k = of_nat m"
    using assms(2) by (auto simp: wrote_def)
  have "p = offset" using x(3) by (auto simp: write_extent_def Let_def split: if_splits)
  with x write_extent_inside [OF x(3) _ assms(3)] show ?thesis by blast
qed

theorem constrained_write_stays_inside_witness:
  "\<exists>mt1 ctx1 h w (l :: dword) m. write_file True = Finished (mt1, Some ctx1, STATUS_SUCCESS, Some 1, None) \<and> ctxHandle ctx1 = Some h \<and>
     WriteAt mem_context_io w h 2 (take (unat l) [8, 9]) = (mt_disk mt1, Inr m)"
proof -
  obtain mt1 ctx1 where run: "write_file True = Finished (mt1, Some ctx1, STATUS_SUCCESS, Some 1, None)" using write_file_runs(2) by blast
  have "(1 :: dword) \<noteq> 0" "(2 :: uint64) < 2 ^ 63" by simp_all
  from constrained_write_stays_inside [OF run [unfolded write_file_def] this]
  obtain h w and l :: dword and m where "ctxHandle ctx1 = Some h" "WriteAt mem_context_io w h 2 (take (unat l) [8, 9]) = (mt_disk mt1, Inr m)" by blast
  with run show ?thesis by blast
qed

end
