(* ===== verification/File_Guarantees.thy ===== *)
theory File_Guarantees
  imports Create_Undo File_Bytes
begin

text \<open>
  Guarantees of the operations on open files: sessions as sequences of calls, the handles of the contexts of
  a session and their count, and metacopy shells and data access.
\<close>

section \<open>Sessions\<close>

text \<open>The calls on a context that its holder can make.\<close>

datatype context_call =
    CallRead "byte list" uint64 dword bool
  | CallWrite "byte list" uint64 dword bool bool bool bool
  | CallOverwrite dword bool uint64 bool
  | CallFlush bool
  | CallSetInfo SetInfoRequest bool
  | CallDelete
  | CallRename wstring bool dword
  | CallUpdatePath wstring
  | CallCleanup

definition result_of :: "('w mount \<times> 'h FileContext option \<times> 'o) run \<Rightarrow> ('w mount \<times> 'h FileContext option) run" where
  "result_of r = and_then r (\<lambda>(mt, c, out). Finished (mt, c))"

definition run_call ::
  "('w, 'h) host \<Rightarrow> ('w, 'h) file_io \<Rightarrow> ('w, 'h) context_io \<Rightarrow> ('p, 's) process_calls \<Rightarrow> nat \<Rightarrow> LayerConfig \<Rightarrow> clocks \<Rightarrow> 'w mount \<Rightarrow>
     'h FileContext \<Rightarrow> context_call \<Rightarrow> ('w mount \<times> 'h FileContext option) run" where
  "run_call os io cc pc n cfg clk mt ctx call =
     (case call of
        CallRead buffer offset len hasCount \<Rightarrow> result_of (LayerMount_Read os io cc pc clk mt (Some ctx) buffer offset len hasCount)
      | CallWrite buffer offset len writeToEnd constrainedIo hasCount wantsInfo \<Rightarrow>
          result_of (LayerMount_Write os io cc pc n cfg clk mt (Some ctx) buffer offset len writeToEnd constrainedIo hasCount wantsInfo)
      | CallOverwrite attrs replaceAttributes allocation wantsInfo \<Rightarrow>
          result_of (LayerMount_Overwrite os io cc pc n cfg clk mt (Some ctx) attrs replaceAttributes allocation wantsInfo)
      | CallFlush wantsInfo \<Rightarrow> result_of (LayerMount_Flush os io cc pc cfg clk mt (Some ctx) wantsInfo)
      | CallSetInfo request wantsInfo \<Rightarrow> result_of (LayerMount_SetInfo os io cc pc n cfg clk mt (Some ctx) request wantsInfo)
      | CallDelete \<Rightarrow> result_of (LayerMount_DeleteContext os io pc n cfg clk mt (Some ctx))
      | CallRename path replaceIfExists pid \<Rightarrow>
          result_of (LayerMount_RenameContext os io pc n cfg clk mt (Some ctx) path replaceIfExists pid)
      | CallUpdatePath path \<Rightarrow> result_of (UpdateContextPath os io cfg clk mt (Some ctx) path)
      | CallCleanup \<Rightarrow> result_of (Finished (LayerMount_Cleanup io mt (Some ctx))))"

text \<open>An engine and the contexts that its callers hold.\<close>

record ('w, 'h) session =
  sessionMount :: "'w mount"
  sessionContexts :: "'h FileContext list"

text \<open>
  One call of a session: an open or a create, a call on a context, the close of a context, which its holder
  then drops, or a call on paths, which changes only the part of the state below the counters.
\<close>

inductive session_step ::
  "('w, 'h) host \<Rightarrow> ('w, 'h) file_io \<Rightarrow> ('w, 'h) context_io \<Rightarrow> ('p, 's) process_calls \<Rightarrow> nat \<Rightarrow> LayerConfig \<Rightarrow>
     ('w, 'h) session \<Rightarrow> ('w, 'h) session \<Rightarrow> bool"
  for os io cc pc n cfg where
  opens: "LayerMount_Open os io cc pc n cfg clk (sessionMount s) path acc options pid outputs = Finished (mt, c, status, info) \<Longrightarrow>
    session_step os io cc pc n cfg s
      \<lparr>sessionMount = mt, sessionContexts = (case c of None \<Rightarrow> sessionContexts s | Some ctx \<Rightarrow> ctx # sessionContexts s)\<rparr>"
| creates: "LayerMount_Create os io cc pc n cfg clk (sessionMount s) request outputs = Finished (mt, c, status, info) \<Longrightarrow>
    session_step os io cc pc n cfg s
      \<lparr>sessionMount = mt, sessionContexts = (case c of None \<Rightarrow> sessionContexts s | Some ctx \<Rightarrow> ctx # sessionContexts s)\<rparr>"
| calls: "i < length (sessionContexts s) \<Longrightarrow>
    run_call os io cc pc n cfg clk (sessionMount s) (sessionContexts s ! i) call = Finished (mt, Some ctx) \<Longrightarrow>
    session_step os io cc pc n cfg s \<lparr>sessionMount = mt, sessionContexts = (sessionContexts s)[i := ctx]\<rparr>"
| closes: "i < length (sessionContexts s) \<Longrightarrow> LayerMount_Close io pc clk (sessionMount s) (Some (sessionContexts s ! i)) = (mt, c) \<Longrightarrow>
    session_step os io cc pc n cfg s
      \<lparr>sessionMount = mt, sessionContexts = take i (sessionContexts s) @ drop (Suc i) (sessionContexts s)\<rparr>"
| path_calls: "on_layer (sessionMount s) r = Finished (mt, status :: ntstatus) \<Longrightarrow>
    session_step os io cc pc n cfg s \<lparr>sessionMount = mt, sessionContexts = sessionContexts s\<rparr>"

inductive reachable_session ::
  "('w, 'h) host \<Rightarrow> ('w, 'h) file_io \<Rightarrow> ('w, 'h) context_io \<Rightarrow> ('p, 's) process_calls \<Rightarrow> nat \<Rightarrow> LayerConfig \<Rightarrow> ('w, 'h) session \<Rightarrow> bool"
  for os io cc pc n cfg where
  fresh: "new_LayerMount os pc w cfg = Inr mt \<Longrightarrow> reachable_session os io cc pc n cfg \<lparr>sessionMount = mt, sessionContexts = []\<rparr>"
| steps: "reachable_session os io cc pc n cfg s \<Longrightarrow> session_step os io cc pc n cfg s s' \<Longrightarrow> reachable_session os io cc pc n cfg s'"

text \<open>Every context is in order, and the counter of active handles counts them.\<close>

definition session_ok :: "('w, 'h) host \<Rightarrow> ('h \<Rightarrow> wstring \<Rightarrow> bool) \<Rightarrow> ('w, 'h) session \<Rightarrow> bool" where
  "session_ok os opened s \<longleftrightarrow>
     list_all (context_ok os opened) (sessionContexts s) \<and>
     activeHandles (sessionMount s) = of_nat (length (sessionContexts s))"

lemma result_of_keeps:
  "keeps_context os opened a r \<Longrightarrow> result_of r = Finished (mt, Some ctx) \<Longrightarrow> in_order os opened a mt ctx"
  by (cases r) (auto simp: result_of_def keeps_context_def)

lemma list_all_parts: "list_all P xs \<Longrightarrow> list_all P (take i xs) \<and> list_all P (drop j xs)"
  by (auto simp: list_all_iff dest: in_set_takeD in_set_dropD)

context opened_by_name
begin

lemma run_call_in_order:
  assumes "in_order os opened a mt ctx" "run_call os io cc pc n cfg clk mt ctx call = Finished (mt1, Some ctx1)"
  shows "in_order os opened a mt1 ctx1"
proof (cases call)
  case CallCleanup
  then show ?thesis using assms Cleanup_in_order [OF assms(1)]
    by (cases "LayerMount_Cleanup io mt (Some ctx)") (auto simp: run_call_def result_of_def)
qed (use assms in \<open>auto simp: run_call_def intro: result_of_keeps Read_in_order Write_in_order Overwrite_in_order Flush_in_order
    SetInfo_in_order DeleteContext_in_order RenameContext_in_order UpdateContextPath_in_order\<close>)

lemma session_step_ok: "session_step os io cc pc n cfg s s' \<Longrightarrow> session_ok os opened s \<Longrightarrow> session_ok os opened s'"
proof (induction rule: session_step.induct)
  case (opens clk s path acc options pid outputs mt c status info)
  then show ?case
    using Open_in_order [OF refl, of "sessionMount s" cc pc n cfg clk path acc options pid outputs]
    by (auto simp: session_ok_def in_order_def split: option.splits)
next
  case (creates clk s request outputs mt c status info)
  then show ?case
    using Create_in_order [OF refl, of "sessionMount s" cc pc n cfg clk request outputs]
    by (auto simp: session_ok_def in_order_def split: option.splits)
next
  case (calls i s clk call mt ctx)
  then have "in_order os opened (of_nat (length (sessionContexts s))) (sessionMount s) (sessionContexts s ! i)"
    by (auto simp: session_ok_def in_order_def list_all_length)
  then show ?case using run_call_in_order calls by (fastforce simp: session_ok_def in_order_def list_all_length nth_list_update)
next
  case (closes i s clk mt c)
  then have "activeHandles mt = of_nat (length (sessionContexts s)) - 1" using Close_in_order by (metis session_ok_def)
  then show ?case using closes(1,3) by (auto simp: session_ok_def list_all_parts min_def of_nat_diff)
next
  case (path_calls s r mt status)
  then show ?case using yields_result [OF on_layer_keeps path_calls(1)] by (simp add: session_ok_def)
qed

lemma reachable_ok: "reachable_session os io cc pc n cfg s \<Longrightarrow> session_ok os opened s"
  by (induction rule: reachable_session.induct)
     (auto simp: session_step_ok, auto simp: session_ok_def new_LayerMount_def Let_def split: if_splits option.splits)

end

interpretation mem_opens: opened_by_name mem_host mem_io "\<lambda>h p. h = mem_key p"
  by unfold_locales (auto simp: mem_io_def mem_create_file_def mem_create_def Let_def split: if_splits option.splits)

section \<open>Handles of a session\<close>

text \<open>
  C8: The handle of a context is always open on the entry that the context names. Whatever sequence of opens,
  creates, reads, writes, overwrites, flushes, information changes, renames, path updates, deletes, cleanups
  and closes the callers make, with copy-ups and fills of shells among them, a context that is marked for a
  reopen holds no handle, and a handle that a context holds was opened by the path of the context.
\<close>

theorem contexts_well_formed:
  assumes "opened_by_name io opened" "reachable_session os io cc pc n cfg s" "ctx \<in> set (sessionContexts s)"
  shows "(ctxHandleNeedsReopen ctx \<longrightarrow> ctxHandle ctx = None) \<and>
    (\<forall>h. ctxHandle ctx = Some h \<longrightarrow> opened h (WithExtendedPrefix os (ctxActualPath ctx)))"
  using opened_by_name.reachable_ok [OF assms(1,2)] assms(3) by (auto simp: session_ok_def context_ok_def list_all_iff)

text \<open>
  The counter of active handles is the number of contexts that the callers hold, after every sequence of
  calls: an open or a create that fails does not count, no other call changes the counter, and a close takes
  one away.
\<close>

theorem active_handles_counted:
  assumes "reachable_session os io cc pc n cfg s"
  shows "activeHandles (sessionMount s) = of_nat (length (sessionContexts s))"
proof -
  have "opened_by_name io (\<lambda>h p. True)" by unfold_locales simp
  from opened_by_name.reachable_ok [OF this assms] show ?thesis by (simp add: session_ok_def)
qed

text \<open>A session with one file open.\<close>

definition open_file :: "(mem_disk mount \<times> wstring FileContext option \<times> ntstatus \<times> InternalFileInfo option) run" where
  "open_file = LayerMount_Open mem_host mem_io mem_context_io sample_calls 9 file_config sample_clocks file_mount (wlit ''f'')
     GENERIC_READ 0 0 True"

lemma open_file_runs:
  "\<exists>mt ctx info. open_file = Finished (mt, Some ctx, STATUS_SUCCESS, info) \<and>
     ctxHandle ctx = Some (on_disk (JoinDirPath sample_upper (wlit ''f''))) \<and> \<not> ctxHandleNeedsReopen ctx"
proof -
  have "case open_file of
      Finished (mt, Some ctx, status, info) \<Rightarrow> status = STATUS_SUCCESS \<and> ctxHandle ctx = Some (on_disk (JoinDirPath sample_upper (wlit ''f''))) \<and>
        \<not> ctxHandleNeedsReopen ctx
    | _ \<Rightarrow> False" by code_simp
  then show ?thesis by (auto split: run.splits option.splits)
qed

lemma open_file_reachable:
  assumes "open_file = Finished (mt, Some ctx, status, info)"
  shows "reachable_session mem_host mem_io mem_context_io sample_calls 9 file_config \<lparr>sessionMount = mt, sessionContexts = [ctx]\<rparr>"
  using reachable_session.steps [OF reachable_session.fresh [OF file_mount_new]
      session_step.opens [of mem_host mem_io mem_context_io sample_calls 9 file_config sample_clocks
        "\<lparr>sessionMount = file_mount, sessionContexts = []\<rparr>" "wlit ''f''" GENERIC_READ 0 0 True mt "Some ctx" status info]] assms
  by (simp add: open_file_def)

theorem contexts_well_formed_witness:
  "\<exists>mt ctx. ctxHandle ctx = Some (on_disk (JoinDirPath sample_upper (wlit ''f''))) \<and>
     reachable_session mem_host mem_io mem_context_io sample_calls 9 file_config \<lparr>sessionMount = mt, sessionContexts = [ctx]\<rparr> \<and>
     on_disk (JoinDirPath sample_upper (wlit ''f'')) = mem_key (WithExtendedPrefix mem_host (ctxActualPath ctx))"
proof -
  obtain mt ctx info where run: "open_file = Finished (mt, Some ctx, STATUS_SUCCESS, info)"
    and h: "ctxHandle ctx = Some (on_disk (JoinDirPath sample_upper (wlit ''f'')))"
    using open_file_runs by blast
  note r = open_file_reachable [OF run]
  show ?thesis using contexts_well_formed [OF mem_opens.opened_by_name_axioms r, of ctx] h r by auto
qed

theorem active_handles_counted_witness:
  "\<exists>s. reachable_session mem_host mem_io mem_context_io sample_calls 9 file_config s \<and> length (sessionContexts s) = 1 \<and> activeHandles (sessionMount s) = 1"
proof -
  obtain mt ctx info where run: "open_file = Finished (mt, Some ctx, STATUS_SUCCESS, info)"
    using open_file_runs by blast
  note r = open_file_reachable [OF run]
  show ?thesis using active_handles_counted [OF r] r by (intro exI [of _ "\<lparr>sessionMount = mt, sessionContexts = [ctx]\<rparr>"]) simp
qed

section \<open>Shells and data access\<close>

text \<open>A read never fills a shell, so a context that may reach the data of a file must not be on one.\<close>

definition data_ready :: "'h FileContext \<Rightarrow> bool" where
  "data_ready ctx \<longleftrightarrow> (ctxIsMetacopyOnly ctx \<and> HasFileDataAccess (ctxGrantedAccess ctx) \<longrightarrow> ctxIsDirectory ctx)"

lemma OpenContextHandleWithAccess_data:
  "OpenContextHandleWithAccess os io w ctx acc = (w1, ctx1, status) \<Longrightarrow> data_ready ctx1 = data_ready ctx \<and> ctxIsMetacopyOnly ctx1 = ctxIsMetacopyOnly ctx"
  by (auto simp: OpenContextHandleWithAccess_def data_ready_def Let_def split: prod.splits sum.splits dest!: CloseContextHandle_closed)

lemma FillShell_fills:
  "yields (\<lambda>(mt1, ctx1, status). NT_SUCCESS status \<longrightarrow> \<not> ctxIsMetacopyOnly ctx1) (FillShell os io n cfg mt p ctx)"
  by (auto simp: FillShell_def intro!: yields_and_then [OF yields_any [of "\<lambda>_. True"]])

lemma FillShellForDataAccess_ready:
  "yields (\<lambda>(mt1, ctx1, status). NT_SUCCESS status \<longrightarrow> data_ready ctx1) (FillShellForDataAccess os io n cfg mt p ctx)"
  by (auto simp: FillShellForDataAccess_def data_ready_def intro!: yields_mono [OF FillShell_fills])

lemma finish_open_data: "finish_open os io cc cfg mt ctx = (mt1, Some ctx1, status, info) \<Longrightarrow> ctx1 = ctx"
  by (auto simp: finish_open_def split: prod.splits if_splits)

abbreviation opens_ready :: "('w mount \<times> 'h FileContext option \<times> ntstatus \<times> InternalFileInfo option) run \<Rightarrow> bool" where
  "opens_ready \<equiv> yields (\<lambda>(mt, c, status, info). \<forall>ctx. c = Some ctx \<longrightarrow> data_ready ctx)"

lemma open_resolved_ready: "opens_ready (open_resolved os io cc n cfg clk mt p hit ctx)"
proof -
  have "yields (\<lambda>(mt1, ctx1, status). NT_SUCCESS status \<longrightarrow> data_ready ctx1)
     (if_ok (SetOpenPath os io n cfg clk mt p hit ctx)
         (\<lambda>mt1 ctx1.
            if_ok
              (FillShellForDataAccess os io n cfg mt1 p (if source hit = Upper then ReadMetacopyFlag os cfg mt1 p ctx1 else ctx1))
              (\<lambda>mt2 ctx2.
                 let (w3, ctx3, status) =
                       OpenContextHandleWithAccess os io (mt_disk mt2) ctx2 (ComputePhysicalHandleAccess (ctxGrantedAccess ctx2)) in
                 Finished (set_mt_disk mt2 w3, ctx3, status))))"
    unfolding if_ok_def
    by (intro yields_and_then [OF yields_any [of "\<lambda>_. True"]])
       (auto intro!: yields_and_then [OF FillShellForDataAccess_ready] split: prod.splits simp: OpenContextHandleWithAccess_data)
  then show ?thesis
    unfolding open_resolved_def by (rule yields_and_then) (auto dest!: finish_open_data split: if_splits)
qed

lemma OpenRoot_ready: "opens_ready (Finished (OpenRoot os io cc cfg mt acc options pid))"
proof -
  have "ctxIsDirectory ctx1" if "ResolveContextMaximumAllowed io cc w ctx h a = (w1, ctx1, status)" "ctxIsDirectory ctx"
    for w ctx h a w1 ctx1 status
    using that by (auto simp: ResolveContextMaximumAllowed_def Let_def split: prod.splits if_splits option.splits dest!: CloseContextHandle_closed)
  then show ?thesis
    by (auto simp: OpenRoot_def Let_def data_ready_def split: prod.splits sum.splits dest!: finish_open_data)
qed

lemma Open_ready: "opens_ready (LayerMount_Open os io cc pc n cfg clk mt path acc options pid outputs)"
  unfolding LayerMount_Open_def Let_def
  by (intro yields_cases OpenRoot_ready open_resolved_ready; simp)

text \<open>A rename that copies in full never leaves a shell.\<close>

lemma MoveToUpper_full:
  "yields (\<lambda>(st1, moved). \<not> movedFileShell moved) (MoveToUpper os io now n cfg st old new replace FullCopy)"
proof -
  have full: "yields (\<lambda>(s, copied). \<not> stagedShell copied)
      (if ExistsInUpper os (cu_disk st1) cfg p then Finished (st1, \<lparr>copyUpStatus = STATUS_SUCCESS, stagedShell = False\<rparr>)
       else if FullCopy = FullCopy
       then and_then (CopyUpFile os io now n cfg st1 p) (\<lambda>(s, copied). Finished (s, \<lparr>copyUpStatus = copied, stagedShell = False\<rparr>))
       else CopyUpFileOrShell os io now n cfg st1 p None)" for st1 p
    by (intro yields_cases yields_then(1); simp)
  show ?thesis
    unfolding MoveToUpper_def Let_def
    by (intro yields_then(2) [OF full] yields_then(1) yields_cases; simp)
qed

lemma RenameFileEntry_full:
  "yields (\<lambda>(st1, moved). \<not> movedShell moved) (RenameFileEntry os io now n cfg st request FullCopy)"
  unfolding RenameFileEntry_def Let_def
  by (intro yields_then(2) [OF MoveToUpper_full] yields_cases; simp) (intro yields_then(1) yields_cases; simp)

lemma MoveRenameSource_full:
  "yields (\<lambda>(st1, moved). \<not> movedShell moved) (MoveRenameSource os io now n cfg st request kind route FullCopy)"
  unfolding MoveRenameSource_def Let_def
  by (intro yields_cases RenameFileEntry_full yields_then(1); simp split: prod.splits)

lemma RenameCheckedEntry_full:
  "yields (\<lambda>(st1, renamed). \<not> renameShell renamed) (RenameCheckedEntry os io now n cfg st old new replace checked FullCopy)"
proof -
  have ends: "yields (\<lambda>(st1, renamed). \<not> renameShell renamed) (end_with_aside os io n cfg st1 held result)"
    if "\<not> renameShell result" for st1 held result
    using that unfolding end_with_aside_def by (intro yields_then(1); simp)
  show ?thesis
    unfolding RenameCheckedEntry_def Let_def
    by (intro yields_then(2) [OF MoveRenameSource_full] yields_then(1) yields_cases ends; simp)
qed

lemma RenameContext_ready:
  assumes "data_ready ctx"
  shows "yields (\<lambda>(mt1, c, status, out). \<forall>ctx1. c = Some ctx1 \<longrightarrow> data_ready ctx1)
    (LayerMount_RenameContext os io pc n cfg clk mt (Some ctx) path replaceIfExists pid)"
proof -
  have moved: "yields (\<lambda>(mt1, renamed). HasFileDataAccess acc \<longrightarrow> \<not> renameShell renamed)
      (on_copy_up mt1 (RenameCheckedEntry os io now n cfg st old new replace checked
        (if HasFileDataAccess acc then FullCopy else ShellWhenPossible)))" for mt1 now st old new replace checked acc
    unfolding on_copy_up_def on_layer_def with_state_def
    using RenameCheckedEntry_full [of os io now n cfg st old new replace checked]
    by (cases "HasFileDataAccess acc") (auto intro!: yields_then(1) simp: yields_def split: prod.splits
        elim!: and_then.elims)
  have closed: "CloseContextHandle io w ctx = (fst (CloseContextHandle io w ctx), ctx\<lparr>ctxHandle := None\<rparr>)" for w
    using CloseContextHandle_closed by (metis prod.collapse)
  show ?thesis
    unfolding LayerMount_RenameContext_def with_context_def Let_def option.case
    apply (rule yields_and_then [where Q = "\<lambda>(mt1, ctx1, status, out). data_ready ctx1"])
     apply (subst closed)
     apply (unfold prod.case)
     apply (intro yields_then(2) [OF moved] yields_then(1) yields_cases; use assms in \<open>auto simp: data_ready_def\<close>)
    subgoal by (auto split: prod.splits)
    done
qed

lemma Write_fills:
  "yields (\<lambda>(mt1, c, status, count, info). count \<noteq> None \<longrightarrow> (\<forall>ctx1. c = Some ctx1 \<longrightarrow> \<not> ctxIsMetacopyOnly ctx1))
    (LayerMount_Write os io cc pc n cfg clk mt (Some ctx) buffer offset len writeToEnd constrainedIo hasCount wantsInfo)"
proof -
  have filled: "yields (\<lambda>(mt1, ctx1, status). NT_SUCCESS status \<longrightarrow> \<not> ctxIsMetacopyOnly ctx1) (EnsureMetacopyMaterialized os io n cfg mt1 ctx1)" for mt1 ctx1
    unfolding EnsureMetacopyMaterialized_def if_ok_def ReopenContextHandle_def
    by (auto intro!: yields_and_then [OF FillShell_fills] split: prod.splits dest: OpenContextHandleWithAccess_data)
  show ?thesis
    unfolding LayerMount_Write_def with_context_def option.case if_allowed_def Let_def finish_with_info_def
    apply (rule yields_and_then [where Q = "\<lambda>(mt1, ctx1, status, count, info). count \<noteq> None \<longrightarrow> \<not> ctxIsMetacopyOnly ctx1"])
    subgoal
      unfolding if_ok_out_def
      by (intro yields_then(3) [OF filled] yields_then(1) yields_cases; simp)
    subgoal by (auto split: prod.splits)
    done
qed

text \<open>
  A context that may reach the data of a file is never on a metacopy shell, which holds the size of the
  file but not its data: an open fills a shell before it gives a context with data access, a rename through a
  context with data access copies in full, and a write that reports its bytes has filled the shell.
\<close>

theorem data_contexts_hold_data:
  "(LayerMount_Open os io cc pc n cfg clk mt path acc options pid outputs = Finished (mt1, Some ctx1, status1, info1) \<longrightarrow> data_ready ctx1) \<and>
   (data_ready ctx \<and> LayerMount_RenameContext os io pc n cfg clk mt (Some ctx) newPath replaceIfExists pid = Finished (mt2, Some ctx2, status2, out2)
      \<longrightarrow> data_ready ctx2) \<and>
   (LayerMount_Write os io cc pc n cfg clk mt (Some ctx) buffer offset len writeToEnd constrainedIo hasCount wantsInfo =
      Finished (mt3, Some ctx3, status3, Some count, info3) \<longrightarrow> \<not> ctxIsMetacopyOnly ctx3)"
  using yields_result [OF Open_ready, of os io cc pc n cfg clk mt path acc options pid outputs]
    yields_result [OF RenameContext_ready, of ctx os io pc n cfg clk mt newPath replaceIfExists pid]
    yields_result [OF Write_fills, of os io cc pc n cfg clk mt ctx buffer offset len writeToEnd constrainedIo hasCount wantsInfo]
  by fastforce

theorem data_contexts_hold_data_witness:
  "\<exists>mt ctx status info. open_file = Finished (mt, Some ctx, status, info) \<and> data_ready ctx"
proof -
  obtain mt ctx info where run: "open_file = Finished (mt, Some ctx, STATUS_SUCCESS, info)"
    using open_file_runs by blast
  have "data_ready ctx" by (rule data_contexts_hold_data [THEN conjunct1, rule_format, OF run [unfolded open_file_def]])
  with run show ?thesis by blast
qed

end
