(* ===== verification/Spec2Isabelle.thy ===== *)
theory Spec2Isabelle
  imports Handle_Table Engine_Safety Image_Guarantees File_Guarantees
begin

text \<open>
  A verification of the LayerMount overlay engine, the C++ library under \<^verbatim>\<open>src/src/LayerMount.dll\<close>. The
  engine shows one writable upper directory over a list of read-only lower directories as one merged
  tree, in the manner of overlayfs: a file of a higher layer hides the file of the same name below,
  a marker file \<^verbatim>\<open>.wh.name\<close> in a layer hides \<^verbatim>\<open>name\<close> of the layers below, and an opaque marker on a
  directory hides all that the layers below hold of it.

  \<^bold>\<open>Parts and theories.\<close>

  \<^item> \<open>Prelude\<close> and \<open>Std_Path\<close>: wide strings as lists of 16 bit words, the search and cut operations of
    \<^verbatim>\<open>std::wstring\<close>, splitting at separators, and the parts of \<^verbatim>\<open>std::filesystem::path\<close> that the engine
    uses (\<open>parent_path\<close>, \<open>path_filename\<close>, \<open>parent_chain\<close>, \<open>walked_paths\<close>).
  \<^item> \<open>Path_Text\<close>: the path functions of \<^verbatim>\<open>impl/LayerPath.cpp\<close>, \<^verbatim>\<open>impl/LayerMount.cpp\<close>,
    \<^verbatim>\<open>impl/WhiteoutManager.cpp\<close> and \<^verbatim>\<open>impl/PathResolver.cpp\<close>: normal forms, the extended prefix, stream
    suffixes, reserved names, marker names, and the splice of a link target into a view path.
  \<^item> \<open>Layer_Types\<close>: the structures of \<^verbatim>\<open>impl/LayerMount.h\<close> that the components exchange.
  \<^item> \<open>Nt_Status\<close>: the conversions between Win32 errors, \<^verbatim>\<open>NTSTATUS\<close> and \<^verbatim>\<open>HRESULT\<close>
    (\<^verbatim>\<open>impl/NtStatusUtil.cpp\<close>), with the whole table.
  \<^item> \<open>Host_Disk\<close>: what the engine calls and does not implement, as the record \<open>host\<close>, and a disk in
    memory, \<open>mem_host\<close>, on which the witnesses run.
  \<^item> \<open>Entry_Probe\<close>: attribute reads, reparse tags, link targets and the decoder of reparse data
    (\<^verbatim>\<open>impl/LayerPath.cpp\<close>).
  \<^item> \<open>Metadata_Store\<close>: the per-entry records in alternate streams and in sidecar files
    (\<^verbatim>\<open>impl/MetadataStore.cpp\<close>, \<^verbatim>\<open>impl/SidecarMetadata.cpp\<close>).
  \<^item> \<open>Layer_Walk\<close>: walks of a path in one layer, the whiteout and opaque reads, the ancestry of a
    directory in a layer, the first link of a path in the view (\<^verbatim>\<open>impl/LayerPath.cpp\<close>,
    \<^verbatim>\<open>impl/WhiteoutManager.cpp\<close>).
  \<^item> \<open>Lru_Cache\<close>: the path cache (\<^verbatim>\<open>impl/Cache.cpp\<close>), with the interface \<open>path_cache\<close>.
  \<^item> \<open>Path_Resolver\<close>: the lookups (\<^verbatim>\<open>impl/PathResolver.cpp\<close>), with the interface \<open>layer_search\<close>.
  \<^item> \<open>Directory_Merge\<close>: merged listings (\<^verbatim>\<open>impl/DirectoryMerge.cpp\<close>), a second interpretation of
    \<open>layer_search\<close>. \<open>View_Agreement\<close> relates the two.
  \<^item> \<open>Upper_Entries\<close>: moves and removals of upper entries with their sidecar records and the delete of
    a staged tree (\<^verbatim>\<open>impl/LayerPath.cpp\<close>, \<^verbatim>\<open>impl/MetadataStore.cpp\<close>, \<^verbatim>\<open>impl/EntryCopy.cpp\<close>).
  \<^item> \<open>Whiteout_Ops\<close>: the writes of the whiteout manager (\<^verbatim>\<open>impl/WhiteoutManager.cpp\<close>) on the state
    \<open>engine\<close> of disk, cache and emitted events.
  \<^item> \<open>Rename_Steps\<close>: the undo and the link check of a rename and the removal of an entry
    (\<^verbatim>\<open>impl/RenameRollback.cpp\<close>, \<^verbatim>\<open>impl/RenameLinkBoundary.cpp\<close>, \<^verbatim>\<open>impl/UpperEntryRemover.cpp\<close>).
  \<^item> \<open>Work_Directory\<close>: the layout rule, the locks and the staging area (\<^verbatim>\<open>impl/WorkDirectory.cpp\<close>).
  \<^item> \<open>File_Io\<close>: the calls on open files, as the record \<open>file_io\<close>, with \<open>mem_io\<close> for the disk in memory and
    the interface \<open>two_files\<close>: what the engine relies on for a pair of open files.
  \<^item> \<open>Data_Copy\<close>: the copy of the data of one open file to another, through a buffer or by the allocated
    ranges of a sparse file (\<^verbatim>\<open>impl/EntryCopy.cpp\<close>).
  \<^item> \<open>Ea_List\<close>: the list of extended attributes that a copy may set (\<^verbatim>\<open>impl/EntryCopy.cpp\<close>).
  \<^item> \<open>Entry_Copy\<close>: streams, extended attributes, compression, encryption, security, copy-up records and
    link clones of one entry (\<^verbatim>\<open>impl/EntryCopy.cpp\<close>, \<^verbatim>\<open>impl/LayerPath.cpp\<close>, \<^verbatim>\<open>impl/ElevationUtil.cpp\<close>).
  \<^item> \<open>Copy_Up\<close>: the copy-up of files, directories, links and metacopy shells, the fill of a shell, and the
    destination that a rename sets aside (\<^verbatim>\<open>impl/CopyUp.cpp\<close>). \<open>Copy_Up_Runs\<close>: its reservations.
  \<^item> \<open>Process_Tracker\<close>: process information, access rules, the ring of the access log and its exports
    (\<^verbatim>\<open>impl/ProcessTracker.cpp\<close>), with the interface \<open>bounded_log\<close>; the calls that read a process are the
    record \<open>process_calls\<close>.
  \<^item> \<open>Entry_Rename\<close>: the copy of a merged directory tree, the renames of lower and upper directories and the
    move of a file (\<^verbatim>\<open>impl/DirectoryRename.cpp\<close>, \<^verbatim>\<open>impl/FileRename.cpp\<close>).
  \<^item> \<open>Engine_Ops\<close>: the operations of the engine on paths, with their checks and rollback
    (\<^verbatim>\<open>impl/LayerMount.cpp\<close>), on the state \<open>layer_mount\<close>. \<open>Engine_Runs\<close>: their reservations.
    \<open>Engine_Safety\<close>: what a delete and a rename keep.
  \<^item> \<open>File_Context\<close>: the context of an open file, its handle with access masks, reopen and cleanup, file
    information, the fill of a shell and the move of a context to the upper layer (\<^verbatim>\<open>impl/LayerMount.cpp\<close>), on the
    state \<open>mount\<close>, which adds the counters of \<^verbatim>\<open>LayerMountStats\<close> to \<open>layer_mount\<close>. \<open>File_Open\<close>: open, create with
    its rollback and close. \<open>File_Ops\<close>: read, write, overwrite, flush and changes of the information.
    \<open>File_Paths\<close>: delete and rename of a context, security (\<^verbatim>\<open>impl/SecurityPolicy.cpp\<close>), reparse points and
    streams. \<open>Mount_Setup\<close>: validation of a configuration and the new mount.
  \<^item> \<open>Context_Runs\<close> (every operation on a context keeps it in order, with the interface \<open>opened_by_name\<close>),
    \<open>Create_Undo\<close> (the rollback of a create, with \<open>create_calls\<close>), \<open>File_Bytes\<close> (reads and writes, with
    \<open>data_calls\<close>) and \<open>File_Guarantees\<close> (sessions of calls).
  \<^item> \<open>Layer_Archive\<close> and \<open>Layer_Image\<close>: the format of layer images and the functions that write, read,
    validate and extract them (\<^verbatim>\<open>impl/image/LayerImageFormat.h\<close>, \<^verbatim>\<open>impl/image/LayerImageManager.cpp\<close>); files,
    hash and compression are the record \<open>image_io\<close>. \<open>Image_Runs\<close>, \<open>Image_Roundtrip\<close> and \<open>Image_Guarantees\<close>:
    what they guarantee.
  \<^item> \<open>Handle_Table\<close>: the generation-tagged handles of the C interface (\<^verbatim>\<open>abi/HandleTable.h\<close>), with the
    interface \<open>handle_registry\<close>.

  \<^bold>\<open>State and effects.\<close> A function that reads the disk takes the record \<open>os\<close> of the host's calls and
  the disk \<open>w\<close>; one that writes gives the new disk. A failed call gives the value of
  \<^verbatim>\<open>GetLastError\<close>, and every early return of the code is a branch. An operation that also changes the
  cache or emits events works on the record \<open>engine\<close>; a copy-up works on \<open>copy_up_state\<close>, which adds the
  counters, the paths in flight and the last fill failure, and its result is a \<open>run\<close>: \<open>Finished\<close>, or \<open>Waits\<close>
  for a reserved path, or \<open>NeedsRounds\<close>. Clock readings are arguments. A call is one
  step: the mutexes and the interleavings of threads are not modelled, nor are changes that other
  processes make between two calls of one operation.

  \<^bold>\<open>What is assumed of the host.\<close> Each theorem names the documented behaviour that it relies on as a
  hypothesis, and its witness shows the hypothesis for \<open>mem_host\<close>: \<open>tree_like\<close> (nothing is below a
  missing entry or a file), \<open>no_stale_opaque\<close>, \<open>lower_table_ok\<close> (the lower-case table), \<open>durable\<close>
  (an open for reading that succeeds after a complete write finds the bytes written), \<open>two_files\<close> (reads, writes, seeks and range queries of two open files),
  \<open>creates_plain\<close> (a create adds plain entries only),
  \<open>renames_entries\<close>, \<open>deletes_files\<close>, \<open>records_apart\<close> and \<open>deletes_apart\<close> (a delete or move reaches only
  what it names), \<open>lock_calls\<close>, \<open>enumerates\<close> (the path limit), \<open>cloud_failures\<close>, \<open>open_errors\<close>,
  \<open>marker_table_ok\<close> and \<open>listing_complete\<close> (an enumeration lists what attribute reads find),
  \<open>opened_by_name\<close> (what a handle was opened by), \<open>create_calls\<close> (a delete that succeeds leaves no entry, a create
  that fails makes none), \<open>data_calls\<close> (a read gives back what was written), \<open>image_streams\<close>, \<open>zstd_keeps\<close>,
  \<open>text_keeps\<close>, \<open>json_text_keeps\<close>, \<open>error_codes_set\<close> and \<open>confined\<close> (the streams, the compression and the text
  conversions of images, and the canonical form of a path).

  \<^bold>\<open>Bounds and fuel.\<close> The redirect depth and the link hops are the code's limits of 40. A walk over a
  directory tree takes a depth and gives \<open>None\<close> when the tree is deeper; \<open>tree_walks_end\<close> shows that a
  depth past the longest path that the file system can open is enough for every walk. A loop that ends
  when the operating system says so (a read loop, a range query, an attribute query) takes a number of
  rounds and gives \<open>None\<close> when they run out; \<open>CopyFileDataKeepingHoles_exact\<close> shows that more rounds than
  the source has bytes are enough for a data copy. The recursion of a copy-up over the parents of its
  path ends by the length of the path. All other
  functions terminate by their own measure. Handles, attributes, errors and statuses are words of
  their width.

  \<^bold>\<open>What is shown.\<close>

  \<^item> Lookups and listings: a lookup follows the layer precedence and never depends on the cache; a
    listing gives for each name the first visible entry; the two agree on every name; a child merge
    equals the merge from the roots; redirect cycles end without a result, and link
    targets stay in the view.
  \<^item> Writes: a whiteout or an opaque marker hides what it should from the next lookup, whatever the
    cache held; a removal leaves a whiteout where a lower holds the
    name; a rename that passes the link check stays on one side of a link; moves and the undo of a rename tell where the entry is on every failure path.
  \<^item> Copies: a data copy that reports success leaves exactly the bytes of the source, whichever way it
    takes; the extended attributes that a copy sets are exactly those of the source that it may set; a
    rename, a delete or a copy-up never waits for a path that it holds itself.
  \<^item> Deletes and renames of the engine, with a cache that holds what the layers say: a directory that shows an entry is
    not deleted or replaced; a rename
    onto an entry is refused with the disk unchanged unless it may replace the entry; a file that was renamed
    does not come back under its old name from a lower.
  \<^item> Open files: the handle of a context is open on the entry that the context names and the count of active handles
    is right after every sequence of calls; a create that fails leaves nothing, or says so; a context with data
    access is never on a shell; what a write reports is read back; a constrained write stays inside the file.
  \<^item> Layer images: an extraction stays inside its target; the image that is written is the image that is read;
    a base with its differential image shows the source; the sections of an accepted header do not wrap.
  \<^item> Access rules: the first rule that matches decides; the log gives the last calls in their order; the
    exported table is read back field by field by a reader whose rows end at a line feed.
  \<^item> Stores: a metadata record that was reported as written is read back when it can be opened; the cache is bounded and
    evicts the least recently used entry; a freed handle never resolves again.
  \<^item> Text and status: normal forms, safe and reserved paths, round trips of marker names and of the
    extended prefix, the exact reading of reparse data, and that no failed call maps to success.
  \<^item> Set-up: the layout rule accepts exactly disjoint trees; a work directory object has two
    locks and a staging area.

  \<^bold>\<open>Not modelled.\<close> Virtual disks and volume snapshots (\<^verbatim>\<open>impl/vhd\<close>, \<^verbatim>\<open>impl/vss\<close>) call the operating system for
  most of what they do. The C interface under \<^verbatim>\<open>abi\<close> beyond the handle table, the mount point, the token
  privileges, the bindings, the tests and the vendored JSON library are glue, input and output, or third-party
  code. Access times of reads are not part of the disk, so the \<^verbatim>\<open>SetFileTime\<close> mark with which a metadata read keeps
  them is left out; a create passes the flags and attributes of the code (\<open>CreateAlways\<close>).
\<close>

end
